(* ===== verification/Prelude.thy ===== *)
theory Prelude
  imports Main "HOL-Library.Multiset" "HOL-Library.AList" "HOL-Library.Sublist"
    "HOL-Library.Char_ord" "HOL-Library.List_Lexorder"
begin

text \<open>
  What every component theory shares: the type names, the parts of the JavaScript
  language and standard library the sources use (strings, \<open>??\<close>, property lookup on
  plain objects, \<open>Map\<close>, \<open>Set\<close>, \<open>Array.prototype.sort\<close>), and the generic lemmas on
  them. Strings are lists of characters and the case and trim operations act on
  ASCII, the alphabet of every identifier, code and timestamp of the program.
  An operation of a service takes the service's fields as a record and returns the
  outcome (\<open>Inl\<close> for the error thrown, \<open>Inr\<close> for the value) with the new fields:
  a method may change state before it throws.
\<close>

section \<open>Types shared by the components\<close>

type_synonym iso_date = string
type_synonym uuid = string
type_synonym ('s, 'e, 'a) outcome = "('e + 'a) \<times> 's"

named_theorems js_defs \<open>definitions of the JavaScript library operations\<close>
named_theorems repo_defs \<open>definitions of the repository operations\<close>

definition succeeded :: "('e + 'a) \<times> 's \<Rightarrow> bool" where
  "succeeded r = (case fst r of Inl _ \<Rightarrow> False | Inr _ \<Rightarrow> True)"

lemma succeeded_simps [simp]:
  "succeeded (Inl e, s) = False"
  "succeeded (Inr a, s) = True"
  by (simp_all add: succeeded_def)

section \<open>Strings\<close>

definition is_space :: "char \<Rightarrow> bool" where
  "is_space c = (c \<in> set [CHR 0x09, CHR 0x0A, CHR 0x0B, CHR 0x0C, CHR 0x0D, CHR '' ''])"

definition js_trim :: "string \<Rightarrow> string" where
  "js_trim s = rev (dropWhile is_space (rev (dropWhile is_space s)))"

definition lower_char :: "char \<Rightarrow> char" where
  "lower_char c = (if 65 \<le> (of_char c :: nat) \<and> (of_char c :: nat) \<le> 90
     then char_of ((of_char c :: nat) + 32) else c)"

definition upper_char :: "char \<Rightarrow> char" where
  "upper_char c = (if 97 \<le> (of_char c :: nat) \<and> (of_char c :: nat) \<le> 122
     then char_of ((of_char c :: nat) - 32) else c)"

definition toLowerCase :: "string \<Rightarrow> string" where
  "toLowerCase s = map lower_char s"

definition toUpperCase :: "string \<Rightarrow> string" where
  "toUpperCase s = map upper_char s"

definition startsWith :: "string \<Rightarrow> string \<Rightarrow> bool" where
  "startsWith s p = prefix p s"

definition str_includes :: "string \<Rightarrow> string \<Rightarrow> bool" where
  "str_includes s p = sublist p s"

definition nullish :: "'a option \<Rightarrow> 'a \<Rightarrow> 'a" where
  "nullish x d = (case x of None \<Rightarrow> d | Some v \<Rightarrow> v)"

lemma nullish_simps [simp]: "nullish None d = d" "nullish (Some v) d = v"
  by (simp_all add: nullish_def)

lemma lower_char_idem: "lower_char (lower_char c) = lower_char c"
proof (cases "65 \<le> (of_char c :: nat) \<and> (of_char c :: nat) \<le> 90")
  case True
  then have "(of_char (char_of ((of_char c :: nat) + 32) :: char) :: nat) = of_char c + 32"
    by simp
  with True show ?thesis by (simp add: lower_char_def)
next
  case False
  then show ?thesis by (auto simp: lower_char_def)
qed

lemma toLowerCase_idem [simp]: "toLowerCase (toLowerCase s) = toLowerCase s"
  by (simp add: toLowerCase_def lower_char_idem)

section \<open>Property lookup on object literals\<close>

text \<open>
  The sources index object literals with strings that come from requests. Such a lookup
  finds own properties first and then those every object inherits from
  \<open>Object.prototype\<close>, which are neither \<open>undefined\<close> nor of the declared type.
\<close>

datatype 'v lookup = Own 'v | Inherited | Missing

definition object_prototype_keys :: "string list" where
  "object_prototype_keys =
     [''constructor'', ''toString'', ''toLocaleString'', ''valueOf'', ''hasOwnProperty'',
      ''isPrototypeOf'', ''propertyIsEnumerable'', ''__proto__'', ''__defineGetter__'',
      ''__defineSetter__'', ''__lookupGetter__'', ''__lookupSetter__'']"

definition obj_lookup :: "(string \<times> 'v) list \<Rightarrow> string \<Rightarrow> 'v lookup" where
  "obj_lookup t k = (case map_of t k of Some v \<Rightarrow> Own v
     | None \<Rightarrow> if k \<in> set object_prototype_keys then Inherited else Missing)"

section \<open>Map: insertion order is kept, an update stays in place\<close>

type_synonym ('k, 'v) jsmap = "('k \<times> 'v) list"

definition map_get :: "('k, 'v) jsmap \<Rightarrow> 'k \<Rightarrow> 'v option" where
  "map_get m k = map_of m k"

definition map_set :: "'k \<Rightarrow> 'v \<Rightarrow> ('k, 'v) jsmap \<Rightarrow> ('k, 'v) jsmap" where
  "map_set k v m = AList.update k v m"

definition map_delete :: "'k \<Rightarrow> ('k, 'v) jsmap \<Rightarrow> ('k, 'v) jsmap" where
  "map_delete k m = AList.delete k m"

definition map_values :: "('k, 'v) jsmap \<Rightarrow> 'v list" where
  "map_values m = map snd m"

definition map_keys :: "('k, 'v) jsmap \<Rightarrow> 'k list" where
  "map_keys m = map fst m"

definition map_wf :: "('k, 'v) jsmap \<Rightarrow> bool" where
  "map_wf m = distinct (map_keys m)"

definition map_from_entries :: "('k \<times> 'v) list \<Rightarrow> ('k, 'v) jsmap" where
  "map_from_entries es = fold (\<lambda>(k, v) m. map_set k v m) es []"

definition set_add :: "'a \<Rightarrow> 'a list \<Rightarrow> 'a list" where
  "set_add x xs = (if x \<in> set xs then xs else xs @ [x])"

lemma map_get_empty [simp]: "map_get [] k = None"
  by (simp add: map_get_def)

lemma map_get_set: "map_get (map_set k v m) k' = (if k' = k then Some v else map_get m k')"
  by (simp add: map_get_def map_set_def update_conv')

lemma map_get_set_same [simp]: "map_get (map_set k v m) k = Some v"
  by (simp add: map_get_set)

lemma map_get_set_other [simp]: "k' \<noteq> k \<Longrightarrow> map_get (map_set k v m) k' = map_get m k'"
  by (simp add: map_get_set)

lemma map_wf_empty [simp]: "map_wf []"
  by (simp add: map_wf_def map_keys_def)

lemma map_wf_set [simp]: "map_wf m \<Longrightarrow> map_wf (map_set k v m)"
  by (simp add: map_wf_def map_keys_def map_set_def distinct_update)

lemma map_get_Some_in: "map_get m k = Some v \<Longrightarrow> (k, v) \<in> set m"
  by (simp add: map_get_def map_of_SomeD)

lemma map_wf_get: "map_wf m \<Longrightarrow> (k, v) \<in> set m \<Longrightarrow> map_get m k = Some v"
  by (simp add: map_get_def map_wf_def map_keys_def)

lemma map_get_None_iff: "map_get m k = None \<longleftrightarrow> k \<notin> set (map_keys m)"
  by (simp add: map_get_def map_keys_def map_of_eq_None_iff image_iff)

lemma map_set_new: "map_get m k = None \<Longrightarrow> map_set k v m = m @ [(k, v)]"
  by (induction m) (auto simp: map_get_def map_set_def split: if_splits)

lemma map_set_same: "map_get m k = Some v \<Longrightarrow> map_set k v m = m"
  by (induction m) (auto simp: map_get_def map_set_def split: if_splits)

lemma map_set_twice: "map_set k v (map_set k w m) = map_set k v m"
  by (induction m) (auto simp: map_set_def)

lemma map_keys_set:
  "map_keys (map_set k v m) = (if k \<in> set (map_keys m) then map_keys m else map_keys m @ [k])"
  by (induction m) (auto simp: map_set_def map_keys_def)

lemma in_map_values: "map_wf m \<Longrightarrow> v \<in> set (map_values m) \<longleftrightarrow> (\<exists>k. map_get m k = Some v)"
  by (auto simp: map_values_def image_iff dest: map_wf_get map_get_Some_in)
     (metis map_wf_get, metis map_get_Some_in snd_conv)

lemma set_add_set [simp]: "set (set_add x xs) = insert x (set xs)"
  by (auto simp: set_add_def)

lemma set_add_distinct [simp]: "distinct xs \<Longrightarrow> distinct (set_add x xs)"
  by (auto simp: set_add_def)

lemma map_get_fold_set:
  "map_get (fold (\<lambda>(k, v). map_set k v) es m) k = (case map_of (rev es) k of Some v \<Rightarrow> Some v | None \<Rightarrow> map_get m k)"
proof (induction es arbitrary: m)
  case (Cons e es)
  show ?case
    by (cases e) (simp add: Cons.IH map_get_set map_add_def split: option.split)
qed simp

lemma map_get_from_entries: "map_get (map_from_entries es) k = map_of (rev es) k"
  by (simp add: map_from_entries_def map_get_fold_set split: option.split)

lemma map_wf_from_entries: "map_wf (map_from_entries es)"
proof -
  have "map_wf m \<Longrightarrow> map_wf (fold (\<lambda>(k, v). map_set k v) es m)" for m :: "('a, 'b) jsmap"
    by (induction es arbitrary: m) auto
  then show ?thesis by (simp add: map_from_entries_def)
qed

lemma set_map_keys: "set (map_keys m) = {k. map_get m k \<noteq> None}"
proof -
  have "k \<in> set (map_keys m) \<longleftrightarrow> map_get m k \<noteq> None" for k
    by (simp add: map_get_None_iff)
  then show ?thesis by blast
qed

lemma set_fold_set_add: "set (fold set_add xs acc) = set acc \<union> set xs"
  by (induction xs arbitrary: acc) auto

lemma distinct_fold_set_add: "distinct acc \<Longrightarrow> distinct (fold set_add xs acc)"
  by (induction xs arbitrary: acc) auto

lemma find_append: "List.find P (xs @ ys) = (case List.find P xs of None \<Rightarrow> List.find P ys | Some x \<Rightarrow> Some x)"
  by (induction xs) auto

section \<open>Array.prototype.sort\<close>

text \<open>
  \<open>gt a b\<close> stands for \<open>compare(a, b) > 0\<close>. For a consistent comparator the standard
  (ECMAScript 2019 on) determines the result: the stable sorted permutation, which
  insertion from the left computes.
\<close>

fun sort_insert :: "('a \<Rightarrow> 'a \<Rightarrow> bool) \<Rightarrow> 'a \<Rightarrow> 'a list \<Rightarrow> 'a list" where
  "sort_insert gt x [] = [x]"
| "sort_insert gt x (y # ys) = (if gt y x then x # y # ys else y # sort_insert gt x ys)"

definition js_sort :: "('a \<Rightarrow> 'a \<Rightarrow> bool) \<Rightarrow> 'a list \<Rightarrow> 'a list" where
  "js_sort gt xs = fold (sort_insert gt) xs []"

lemma mset_sort_insert [simp]: "mset (sort_insert gt x ys) = add_mset x (mset ys)"
  by (induction ys) auto

lemma mset_fold_sort_insert: "mset (fold (sort_insert gt) xs acc) = mset xs + mset acc"
  by (induction xs arbitrary: acc) auto

lemma mset_js_sort [simp]: "mset (js_sort gt xs) = mset xs"
  by (simp add: js_sort_def mset_fold_sort_insert)

lemma set_js_sort [simp]: "set (js_sort gt xs) = set xs"
  by (metis mset_js_sort set_mset_mset)

lemma length_js_sort [simp]: "length (js_sort gt xs) = length xs"
  by (metis mset_js_sort size_mset)

locale comparator_contract =
  fixes gt :: "'a \<Rightarrow> 'a \<Rightarrow> bool"
  assumes gt_asym: "gt a b \<Longrightarrow> \<not> gt b a"
    and not_gt_trans: "\<not> gt a b \<Longrightarrow> \<not> gt b c \<Longrightarrow> \<not> gt a c"
begin

lemma set_sort_insert: "set (sort_insert gt x ys) = insert x (set ys)"
  by (metis mset_sort_insert set_mset_add_mset_insert set_mset_mset)

lemma sorted_sort_insert:
  "sorted_wrt (\<lambda>a b. \<not> gt a b) ys \<Longrightarrow> sorted_wrt (\<lambda>a b. \<not> gt a b) (sort_insert gt x ys)"
  by (induction ys) (auto simp: set_sort_insert dest: gt_asym not_gt_trans)

lemma sorted_fold_insert:
  "sorted_wrt (\<lambda>a b. \<not> gt a b) acc \<Longrightarrow>
   sorted_wrt (\<lambda>a b. \<not> gt a b) (fold (sort_insert gt) xs acc)"
  by (induction xs arbitrary: acc) (auto simp: sorted_sort_insert)

lemma sorted_js_sort: "sorted_wrt (\<lambda>a b. \<not> gt a b) (js_sort gt xs)"
  by (simp add: js_sort_def sorted_fold_insert)

lemma hd_js_sort_least: "x \<in> set xs \<Longrightarrow> \<not> gt (hd (js_sort gt xs)) x"
proof -
  assume x: "x \<in> set xs"
  then obtain h t where ht: "js_sort gt xs = h # t"
    by (metis list.exhaust set_js_sort list.set(1) empty_iff)
  then have "x = h \<or> x \<in> set t"
    using x by (metis set_js_sort set_ConsD)
  then show ?thesis
    using sorted_js_sort [of xs] ht gt_asym by auto
qed

end

text \<open>Sorting looks at the comparator on the sorted elements only.\<close>

lemma sort_insert_cong:
  "(\<And>y. y \<in> set ys \<Longrightarrow> gt y x = gt' y x) \<Longrightarrow> sort_insert gt x ys = sort_insert gt' x ys"
  by (induction ys) auto

lemma js_sort_cong:
  assumes "\<And>x y. x \<in> set xs \<Longrightarrow> y \<in> set xs \<Longrightarrow> gt x y = gt' x y"
  shows "js_sort gt xs = js_sort gt' xs"
proof -
  have "fold (sort_insert gt) zs acc = fold (sort_insert gt') zs acc" if "set zs \<union> set acc \<subseteq> set xs" for zs acc
    using that
  proof (induction zs arbitrary: acc)
    case (Cons z zs)
    have e: "sort_insert gt z acc = sort_insert gt' z acc"
      using Cons.prems assms by (intro sort_insert_cong) auto
    have "set (sort_insert gt' z acc) = insert z (set acc)"
      by (metis mset_sort_insert set_mset_add_mset_insert set_mset_mset)
    with Cons show ?case by (simp add: e)
  qed simp
  from this [of xs "[]"] show ?thesis by (simp add: js_sort_def)
qed

lemma key_comparator: "comparator_contract (\<lambda>x y. key y < (key x :: 'b :: linorder))"
  by unfold_locales auto

lemma sorted_take_least:
  assumes "sorted_wrt (\<lambda>a b. \<not> gt a b) xs" "x \<in> set (take n xs)" "y \<in> set (drop n xs)"
  shows "\<not> gt x y"
  using assms sorted_wrt_append [of "\<lambda>a b. \<not> gt a b" "take n xs" "drop n xs"] by auto

section \<open>The host\<close>

text \<open>
  Two library operations are left open by the language standard: the collation of
  \<open>String.prototype.localeCompare\<close> (ECMA-402 leaves it to the locale data) and the
  dates \<open>new Date(s)\<close> accepts beyond the ISO format. The operations that use them take
  them as the record \<open>host\<close>. \<open>host_getTime s = None\<close> is an invalid date (\<open>NaN\<close>).
\<close>

record host =
  host_localeCompare :: "string \<Rightarrow> string \<Rightarrow> int"
  host_getTime :: "string \<Rightarrow> int option"
  host_toISOString :: "int \<Rightarrow> iso_date"

definition locale_gt :: "host \<Rightarrow> string \<Rightarrow> string \<Rightarrow> bool" where
  "locale_gt h a b = (host_localeCompare h a b > 0)"

text \<open>The documented behaviour of the collation: a consistent comparator.\<close>

definition consistent_collation :: "host \<Rightarrow> bool" where
  "consistent_collation h =
     ((\<forall>a b. locale_gt h a b \<longrightarrow> \<not> locale_gt h b a) \<and>
      (\<forall>a b c. \<not> locale_gt h a b \<longrightarrow> \<not> locale_gt h b c \<longrightarrow> \<not> locale_gt h a c))"

lemma collation_asym:
  "consistent_collation h \<Longrightarrow> locale_gt h a b \<Longrightarrow> \<not> locale_gt h b a"
  unfolding consistent_collation_def by blast

lemma collation_trans:
  "consistent_collation h \<Longrightarrow> \<not> locale_gt h a b \<Longrightarrow> \<not> locale_gt h b c \<Longrightarrow> \<not> locale_gt h a c"
  unfolding consistent_collation_def by blast

lemma consistent_collation_comparator:
  "consistent_collation h \<Longrightarrow> comparator_contract (\<lambda>x y. locale_gt h (f x) (f y))"
  by unfold_locales (rule collation_asym, assumption+, rule collation_trans)

lemma consistent_collation_rev_comparator:
  "consistent_collation h \<Longrightarrow> comparator_contract (\<lambda>x y. locale_gt h (f y) (f x))"
  by unfold_locales (rule collation_asym, assumption+, rule collation_trans)

end
