(* ===== verification/JsNumber.thy ===== *)
theory JsNumber
  imports Prelude Complex_Main "HOL-Library.Log_Nat"
begin

text \<open>
  The Number type of the sources: IEEE 754 doubles. A finite double is the rational it
  denotes, the two zeros are one value (no source tells them apart). The arithmetic
  operations compute exactly and round with \<open>double_of\<close>: to nearest, ties to even,
  gradual underflow below \<open>2 powi (- 1022)\<close>, overflow to infinity from \<open>2 ^ 1024\<close>
  on. The lemmas say when rounding does nothing (integers below \<open>2 ^ 53\<close>, the range of
  the amounts in cents) and how much it can do elsewhere.
\<close>

section \<open>Values, comparison\<close>

datatype jsnum = NaN | PInf | NInf | Fin rat

abbreviation num_int :: "int \<Rightarrow> jsnum" where
  "num_int z \<equiv> Fin (of_int z)"

text \<open>\<open>===\<close>, \<open><\<close> and \<open><=\<close>: every comparison with \<open>NaN\<close> is false.\<close>

definition num_eq :: "jsnum \<Rightarrow> jsnum \<Rightarrow> bool" where
  "num_eq a b = (a \<noteq> NaN \<and> a = b)"

fun num_lt :: "jsnum \<Rightarrow> jsnum \<Rightarrow> bool" where
  "num_lt NaN b = False"
| "num_lt a NaN = False"
| "num_lt (Fin a) (Fin b) = (a < b)"
| "num_lt NInf b = (b \<noteq> NInf)"
| "num_lt a NInf = False"
| "num_lt PInf b = False"
| "num_lt a PInf = True"

definition num_le :: "jsnum \<Rightarrow> jsnum \<Rightarrow> bool" where
  "num_le a b = (num_lt a b \<or> num_eq a b)"

lemma num_eq_Fin [simp]: "num_eq (Fin a) (Fin b) = (a = b)"
  by (simp add: num_eq_def)

lemma num_le_Fin [simp]: "num_le (Fin a) (Fin b) = (a \<le> b)"
  by (auto simp: num_le_def)

lemma num_le_NaN [simp]: "num_le NaN b = False" "num_le a NaN = False"
  by (cases a; simp add: num_le_def num_eq_def)+

lemma num_lt_NaN [simp]: "num_lt a NaN = False"
  by (cases a) auto

lemma num_le_int_numeral [simp]:
  "num_le (num_int a) (Fin (numeral k)) = (a \<le> numeral k)"
  "num_le (Fin (numeral k)) (num_int a) = (numeral k \<le> a)"
  by simp_all

lemma num_le_trans: "num_le a b \<Longrightarrow> num_le b c \<Longrightarrow> num_le a c"
  by (cases a; cases b; cases c) (auto simp: num_le_def num_eq_def)

lemma not_num_le: "a \<noteq> NaN \<Longrightarrow> b \<noteq> NaN \<Longrightarrow> \<not> num_le a b \<longleftrightarrow> num_lt b a"
  by (cases a; cases b) (auto simp: num_le_def num_eq_def)

section \<open>Rounding to a double\<close>

definition ilog2 :: "rat \<Rightarrow> int" where
  "ilog2 x = (let (n, d) = quotient_of x; k = bitlen n - bitlen d
     in if 2 powi k \<le> x then k else k - 1)"

definition round_half_even :: "rat \<Rightarrow> int" where
  "round_half_even x = (let f = \<lfloor>x\<rfloor>; r = x - of_int f
     in if r < 1/2 then f else if 1/2 < r then f + 1 else if even f then f else f + 1)"

definition double_exp :: "rat \<Rightarrow> int" where
  "double_exp x = max (ilog2 \<bar>x\<bar> - 52) (- 1074)"

definition double_of :: "rat \<Rightarrow> jsnum" where
  "double_of x =
     (if x = 0 then Fin 0
      else let y = of_int (round_half_even (\<bar>x\<bar> / 2 powi double_exp x)) * 2 powi double_exp x
      in if 2 ^ 1024 \<le> y then (if x < 0 then NInf else PInf)
         else Fin (if x < 0 then - y else y))"

lemma powi_pos: "(0::rat) < 2 powi k"
  by (simp add: power_int_def)

lemma ilog2_bounds:
  assumes "0 < x"
  shows "2 powi ilog2 x \<le> x" and "x < 2 powi (ilog2 x + 1)"
proof -
  obtain n d where q: "quotient_of x = (n, d)" by (cases "quotient_of x")
  have x: "x = of_int n / of_int d" using q by (rule quotient_of_div)
  have d: "0 < d" using q by (rule quotient_of_denom_pos)
  then have n: "0 < n" using assms x by (simp add: zero_less_divide_iff)
  define a where "a = bitlen n"
  define b where "b = bitlen d"
  have a1: "1 \<le> a" and b1: "1 \<le> b"
    using n d bitlen_nonneg [of n] bitlen_nonneg [of d] bitlen_eq_zero_iff [of n] bitlen_eq_zero_iff [of d]
    by (auto simp: a_def b_def)
  have nb: "2 ^ nat (a - 1) \<le> n" "n < 2 ^ nat a"
    using bitlen_bounds [OF n] by (auto simp: a_def)
  have db: "2 ^ nat (b - 1) \<le> d" "d < 2 ^ nat b"
    using bitlen_bounds [OF d] by (auto simp: b_def)
  have pa: "(2::rat) powi a = of_int (2 ^ nat a)" "(2::rat) powi (a - 1) = of_int (2 ^ nat (a - 1))"
    and pb: "(2::rat) powi b = of_int (2 ^ nat b)" "(2::rat) powi (b - 1) = of_int (2 ^ nat (b - 1))"
    using a1 b1 by (simp_all add: power_int_def)
  have n_lo: "(2::rat) powi (a - 1) \<le> of_int n" and n_hi: "of_int n < (2::rat) powi a"
    using nb unfolding pa by (simp_all only: of_int_le_iff of_int_less_iff)
  have d_lo: "(2::rat) powi (b - 1) \<le> of_int d" and d_hi: "of_int d < (2::rat) powi b"
    using db unfolding pb by (simp_all only: of_int_le_iff of_int_less_iff)
  have dpos: "(0::rat) < of_int d" using d by simp
  have lo: "(2::rat) powi (a - b - 1) \<le> x"
  proof -
    have "(2::rat) powi (a - b - 1) * of_int d \<le> 2 powi (a - b - 1) * 2 powi b"
      using d_hi powi_pos [of "a - b - 1"] by (intro mult_left_mono) auto
    also have "\<dots> = 2 powi (a - 1)" by (simp flip: power_int_add)
    also have "\<dots> \<le> of_int n" by (rule n_lo)
    finally show ?thesis using dpos by (simp add: x pos_le_divide_eq)
  qed
  have hi: "x < 2 powi (a - b + 1)"
  proof -
    have "of_int n < (2::rat) powi a" by (rule n_hi)
    also have "\<dots> = 2 powi (a - b + 1) * 2 powi (b - 1)" by (simp flip: power_int_add)
    also have "\<dots> \<le> 2 powi (a - b + 1) * of_int d"
      using d_lo powi_pos [of "a - b + 1"] by (intro mult_left_mono) auto
    finally show ?thesis using dpos by (simp add: x pos_divide_less_eq)
  qed
  have il: "ilog2 x = (if 2 powi (a - b) \<le> x then a - b else a - b - 1)"
    by (simp add: ilog2_def q a_def b_def Let_def)
  show "2 powi ilog2 x \<le> x" using lo by (simp add: il)
  show "x < 2 powi (ilog2 x + 1)" using hi by (simp add: il not_le)
qed

lemma powi_mono: "a \<le> b \<Longrightarrow> (2::rat) powi a \<le> 2 powi b"
  by (rule power_int_increasing) simp_all

lemma powi_less_imp: "(2::rat) powi a < 2 powi b \<Longrightarrow> a < b"
  by (rule ccontr) (simp add: not_less leD powi_mono)

lemma powi_add: "(2::rat) powi (a + b) = 2 powi a * 2 powi b"
  by (simp add: power_int_add)

lemma floor_rat_bounds: "of_int \<lfloor>x\<rfloor> \<le> x" "x < of_int \<lfloor>x\<rfloor> + 1" for x :: rat
  by linarith+

lemma round_half_even_int [simp]: "round_half_even (of_int z) = z"
  by (simp add: round_half_even_def)

lemma round_half_even_error: "\<bar>of_int (round_half_even x) - x\<bar> \<le> 1/2"
  unfolding round_half_even_def Let_def using floor_rat_bounds [of x] by (simp split: if_split)

lemma round_half_even_cases: "round_half_even x = \<lfloor>x\<rfloor> \<or> (round_half_even x = \<lfloor>x\<rfloor> + 1 \<and> of_int \<lfloor>x\<rfloor> < x)"
  unfolding round_half_even_def Let_def using floor_rat_bounds [of x] by (simp split: if_split)

lemma round_half_even_ge: "of_int n \<le> x \<Longrightarrow> n \<le> round_half_even x"
  using round_half_even_cases [of x] le_floor_iff [of n x] by auto

lemma round_half_even_le: "x \<le> of_int n \<Longrightarrow> round_half_even x \<le> n"
  using round_half_even_cases [of x] by (auto simp: floor_le_iff floor_less_iff intro: order.strict_trans2)

text \<open>The significand of a rounded positive value is at most \<open>2 ^ 53\<close>.\<close>

lemma double_exp_le:
  assumes "0 < x" "x < 2 powi k" "- 1022 < k"
  shows "double_exp x \<le> k - 53"
proof -
  have "2 powi ilog2 x \<le> x" using assms(1) by (rule ilog2_bounds)
  then have "(2::rat) powi ilog2 x < 2 powi k" using assms(2) by linarith
  then have "ilog2 x < k" by (rule powi_less_imp)
  then show ?thesis using assms by (simp add: double_exp_def)
qed

lemma significand_le:
  assumes "0 < x"
  shows "round_half_even (x / 2 powi double_exp x) \<le> 2 ^ 53"
proof (rule round_half_even_le)
  have "x < 2 powi (ilog2 x + 1)" using assms by (rule ilog2_bounds)
  also have "\<dots> \<le> 2 powi (double_exp x + 53)"
    using assms by (intro powi_mono) (simp add: double_exp_def)
  also have "\<dots> = 2 ^ 53 * 2 powi double_exp x" by (simp add: powi_add)
  finally show "x / 2 powi double_exp x \<le> of_int (2 ^ 53)"
    by (simp add: pos_divide_le_eq powi_pos)
qed

lemma double_of_pos:
  assumes "0 < x" "x < 2 ^ 1023"
  shows "double_of x = Fin (of_int (round_half_even (x / 2 powi double_exp x)) * 2 powi double_exp x)"
    (is "_ = Fin ?y")
proof -
  let ?e = "double_exp x"
  have "?y \<le> of_int (2 ^ 53) * 2 powi ?e"
    using significand_le [OF assms(1)] powi_pos [of ?e] by (intro mult_right_mono) (simp_all only: of_int_le_iff less_imp_le)
  also have "\<dots> = 2 powi (?e + 53)" by (simp add: powi_add)
  also have "\<dots> \<le> 2 powi 1023"
    using double_exp_le [of x 1023] assms by (intro powi_mono) (simp add: power_int_def)
  also have "\<dots> < 2 powi 1024" by (rule power_int_strict_increasing) simp_all
  also have "\<dots> = 2 ^ 1024" by (simp add: power_int_def)
  finally show ?thesis using assms(1) by (simp add: double_of_def Let_def)
qed

lemma double_of_error:
  assumes "2 powi (- 1022) \<le> x" "x < 2 ^ 1023"
  obtains y where "double_of x = Fin y" and "\<bar>y - x\<bar> \<le> x / 2 ^ 53"
proof
  let ?e = "double_exp x"
  let ?m = "x / 2 powi ?e"
  have x: "0 < x" using assms(1) powi_pos [of "- 1022"] by linarith
  show "double_of x = Fin (of_int (round_half_even ?m) * 2 powi ?e)"
    using x assms(2) by (rule double_of_pos)
  have "(2::rat) powi (- 1022) < 2 powi (ilog2 x + 1)"
    using assms(1) ilog2_bounds(2) [OF x] by linarith
  then have "- 1022 \<le> ilog2 x" using powi_less_imp [of "-1022" "ilog2 x + 1"] by simp
  then have e: "?e = ilog2 x - 52" using x by (simp add: double_exp_def)
  have "\<bar>of_int (round_half_even ?m) * 2 powi ?e - x\<bar> = \<bar>of_int (round_half_even ?m) - ?m\<bar> * 2 powi ?e"
    using powi_pos [of ?e] abs_mult [of "of_int (round_half_even ?m) - ?m" "2 powi ?e"]
    by (simp add: left_diff_distrib)
  also have "\<dots> \<le> 1/2 * 2 powi ?e"
    using round_half_even_error [of ?m] powi_pos [of ?e] by (intro mult_right_mono) auto
  also have "\<dots> = 2 powi ilog2 x / 2 ^ 53"
    using powi_add [of ?e 52] by (simp add: e)
  also have "\<dots> \<le> x / 2 ^ 53"
    using ilog2_bounds(1) [OF x] by (simp add: divide_right_mono)
  finally show "\<bar>of_int (round_half_even ?m) * 2 powi ?e - x\<bar> \<le> x / 2 ^ 53" .
qed


text \<open>Integers below \<open>2 ^ 53\<close> are doubles, and rounding does not cross them.\<close>

lemma powi_neg_mult: "k \<le> 0 \<Longrightarrow> of_int n / (2::rat) powi k = of_int (n * 2 ^ nat (- k))"
proof -
  assume "k \<le> 0"
  then obtain j where "k = - int j" by (metis int_zle_neg nat_0_le neg_0_le_iff_le minus_minus)
  then show ?thesis by (simp add: power_int_minus divide_inverse)
qed

lemma int_less_pow: "n < 2 ^ 53 \<Longrightarrow> of_int n < (2::rat) ^ 53"
  by (metis of_int_less_iff of_int_numeral of_int_power)

lemma int_div_powi:
  assumes "k \<le> 0" shows "\<exists>z. of_int n / (2::rat) powi k = of_int z"
  using powi_neg_mult [OF assms] by blast

lemma double_of_ge_int:
  assumes "of_int n \<le> x" "0 < x" "x < 2 ^ 1023" "n < 2 ^ 53"
  obtains y where "double_of x = Fin y" and "of_int n \<le> y"
proof
  let ?e = "double_exp x"
  let ?r = "round_half_even (x / 2 powi ?e)"
  show "double_of x = Fin (of_int ?r * 2 powi ?e)" using assms(2,3) by (rule double_of_pos)
  show "of_int n \<le> of_int ?r * (2::rat) powi ?e"
  proof (cases "?e \<le> 0")
    case True
    then obtain z where z: "of_int n / (2::rat) powi ?e = of_int z" using int_div_powi by blast
    also have "of_int n / (2::rat) powi ?e \<le> x / 2 powi ?e"
      using assms(1) powi_pos [of ?e] by (simp add: divide_right_mono)
    ultimately have "z \<le> ?r" by (intro round_half_even_ge) simp
    then have "of_int n / (2::rat) powi ?e \<le> of_int ?r" by (simp add: z)
    then show ?thesis using powi_pos [of ?e] by (simp add: pos_divide_le_eq)
  next
    case False
    then have e: "?e = ilog2 x - 52" using assms(2) by (simp add: double_exp_def)
    have "(2::rat) ^ 52 * 2 powi ?e = 2 powi ilog2 x"
      using powi_add [of 52 ?e] by (simp add: e)
    then have "(2::rat) ^ 52 \<le> x / 2 powi ?e"
      using ilog2_bounds(1) [OF assms(2)] powi_pos [of ?e] by (simp add: pos_le_divide_eq)
    then have "of_int (2 ^ 52) \<le> x / (2::rat) powi ?e" by simp
    then have r: "2 ^ 52 \<le> ?r" by (rule round_half_even_ge)
    have "(2::rat) powi 1 \<le> 2 powi ?e" using False by (intro powi_mono) simp
    then have "(2::rat) \<le> 2 powi ?e" by simp
    moreover have "(2::rat) ^ 52 \<le> of_int ?r"
      using r by (metis of_int_le_iff of_int_numeral of_int_power)
    ultimately have "(2::rat) ^ 52 * 2 \<le> of_int ?r * 2 powi ?e"
      by (intro mult_mono) simp_all
    moreover have "of_int n \<le> (2::rat) ^ 52 * 2"
      using int_less_pow [OF assms(4)] by simp
    ultimately show ?thesis by linarith
  qed
qed

lemma double_of_le_int:
  assumes "x \<le> of_int n" "0 < x" "n < 2 ^ 53"
  obtains y where "double_of x = Fin y" and "y \<le> of_int n"
proof
  let ?e = "double_exp x"
  let ?r = "round_half_even (x / 2 powi ?e)"
  have x53: "x < 2 powi 53"
    using assms(1) int_less_pow [OF assms(3)] by (simp add: power_int_def)
  also have "(2::rat) powi 53 \<le> 2 powi 1023" by (rule powi_mono) simp
  also have "\<dots> = 2 ^ 1023" by (simp add: power_int_def)
  finally have big: "x < 2 ^ 1023" .
  show "double_of x = Fin (of_int ?r * 2 powi ?e)" using assms(2) big by (rule double_of_pos)
  have e: "?e \<le> 0" using double_exp_le [OF assms(2) x53] by simp
  then obtain z where z: "of_int n / (2::rat) powi ?e = of_int z" using int_div_powi by blast
  have "x / 2 powi ?e \<le> of_int n / 2 powi ?e"
    using assms(1) powi_pos [of ?e] by (simp add: divide_right_mono)
  then have "?r \<le> z" unfolding z by (rule round_half_even_le)
  then have "of_int ?r \<le> of_int n / (2::rat) powi ?e" by (simp add: z)
  then show "of_int ?r * (2::rat) powi ?e \<le> of_int n" using powi_pos [of ?e] by (simp add: pos_le_divide_eq)
qed

lemma double_of_uminus: "double_of (- x) =
  (case double_of x of Fin y \<Rightarrow> Fin (- y) | PInf \<Rightarrow> NInf | NInf \<Rightarrow> PInf | NaN \<Rightarrow> NaN)"
  by (auto simp: double_of_def double_exp_def Let_def)

lemma double_of_pos_int:
  assumes "0 < z" "z < 2 ^ 53" shows "double_of (of_int z) = num_int z"
proof -
  have x: "(0::rat) < of_int z" using assms(1) by simp
  obtain y where y: "double_of (of_int z) = Fin y" "y \<le> of_int z"
    using double_of_le_int [OF order_refl x assms(2)] by blast
  have "of_int z < (2::rat) ^ 53" using assms(2) by (rule int_less_pow)
  also have "(2::rat) ^ 53 \<le> 2 ^ 1023" by (rule power_increasing) simp_all
  finally obtain y' where "double_of (of_int z) = Fin y'" "of_int z \<le> y'"
    using double_of_ge_int [OF order_refl x _ assms(2)] by blast
  with y show ?thesis by simp
qed

lemma double_of_int [simp]:
  assumes "\<bar>z\<bar> < 2 ^ 53" shows "double_of (of_int z) = num_int z"
proof (cases z "0::int" rule: linorder_cases)
  case less
  then show ?thesis using double_of_uminus [of "of_int (- z)"] double_of_pos_int [of "- z"] assms by simp
next
  case equal
  then show ?thesis by (simp add: double_of_def)
next
  case greater
  then show ?thesis using assms by (simp add: double_of_pos_int)
qed

section \<open>Arithmetic and the Math object\<close>

fun num_neg :: "jsnum \<Rightarrow> jsnum" where
  "num_neg NaN = NaN"
| "num_neg PInf = NInf"
| "num_neg NInf = PInf"
| "num_neg (Fin a) = Fin (- a)"

fun num_add :: "jsnum \<Rightarrow> jsnum \<Rightarrow> jsnum" where
  "num_add NaN b = NaN"
| "num_add a NaN = NaN"
| "num_add (Fin a) (Fin b) = double_of (a + b)"
| "num_add (Fin a) b = b"
| "num_add a (Fin b) = a"
| "num_add a b = (if a = b then a else NaN)"

definition num_sub :: "jsnum \<Rightarrow> jsnum \<Rightarrow> jsnum" where
  "num_sub a b = num_add a (num_neg b)"

definition num_positive :: "jsnum \<Rightarrow> bool" where
  "num_positive a = num_lt (Fin 0) a"

text \<open>A product or quotient with an infinity: infinite with the sign of the factors.\<close>

definition num_inf :: "bool \<Rightarrow> jsnum" where
  "num_inf pos = (if pos then PInf else NInf)"

fun num_mul :: "jsnum \<Rightarrow> jsnum \<Rightarrow> jsnum" where
  "num_mul NaN b = NaN"
| "num_mul a NaN = NaN"
| "num_mul (Fin a) (Fin b) = double_of (a * b)"
| "num_mul a b = (if a = Fin 0 \<or> b = Fin 0 then NaN else num_inf (num_positive a = num_positive b))"

fun num_div :: "jsnum \<Rightarrow> jsnum \<Rightarrow> jsnum" where
  "num_div NaN b = NaN"
| "num_div a NaN = NaN"
| "num_div (Fin a) (Fin b) =
     (if b = 0 then (if a = 0 then NaN else num_inf (0 < a)) else double_of (a / b))"
| "num_div (Fin a) b = Fin 0"
| "num_div a (Fin b) = num_inf (num_positive a = (0 \<le> b))"
| "num_div a b = NaN"

fun math_round :: "jsnum \<Rightarrow> jsnum" where
  "math_round (Fin a) = num_int \<lfloor>a + 1/2\<rfloor>"
| "math_round a = a"

fun math_floor :: "jsnum \<Rightarrow> jsnum" where
  "math_floor (Fin a) = num_int \<lfloor>a\<rfloor>"
| "math_floor a = a"

fun math_ceil :: "jsnum \<Rightarrow> jsnum" where
  "math_ceil (Fin a) = num_int \<lceil>a\<rceil>"
| "math_ceil a = a"

fun math_abs :: "jsnum \<Rightarrow> jsnum" where
  "math_abs (Fin a) = Fin \<bar>a\<bar>"
| "math_abs NInf = PInf"
| "math_abs a = a"

definition math_min :: "jsnum \<Rightarrow> jsnum \<Rightarrow> jsnum" where
  "math_min a b = (if a = NaN \<or> b = NaN then NaN else if num_lt b a then b else a)"

definition math_max :: "jsnum \<Rightarrow> jsnum \<Rightarrow> jsnum" where
  "math_max a b = (if a = NaN \<or> b = NaN then NaN else if num_lt a b then b else a)"

definition is_finite :: "jsnum \<Rightarrow> bool" where
  "is_finite a = (case a of Fin _ \<Rightarrow> True | _ \<Rightarrow> False)"

text \<open>
  \<open>Math.sqrt\<close>, correctly rounded: scale the argument so that the root has 53 bits, take
  the integer root and look at the half-way point. \<open>isqrt\<close> is the integer square root.
\<close>

function isqrt :: "int \<Rightarrow> int" where
  "isqrt n = (if n \<le> 0 then 0
     else let r = 2 * isqrt (n div 4) in if (r + 1) * (r + 1) \<le> n then r + 1 else r)"
  by pat_completeness auto
termination
  by (relation "measure nat") auto

declare isqrt.simps [simp del]

definition sqrt_exact :: "rat \<Rightarrow> rat" where
  "sqrt_exact x =
     (if x \<le> 0 then 0
      else let e = ilog2 x div 2 - 52; t = x / 2 powi (2 * e); n = isqrt \<lfloor>t\<rfloor>
           in of_int (if (of_int n + 1/2) * (of_int n + 1/2) < t then n + 1 else n) * 2 powi e)"

fun math_sqrt :: "jsnum \<Rightarrow> jsnum" where
  "math_sqrt (Fin x) = (if x < 0 then NaN else Fin (sqrt_exact x))"
| "math_sqrt PInf = PInf"
| "math_sqrt a = NaN"

text \<open>\<open>Number(x.toFixed(f))\<close>, for the magnitudes below \<open>10 ^ 21\<close> that \<open>toFixed\<close> prints in decimals.\<close>

fun number_toFixed :: "nat \<Rightarrow> jsnum \<Rightarrow> jsnum" where
  "number_toFixed f (Fin x) =
     (let n = \<lfloor>\<bar>x\<bar> * 10 ^ f + 1/2\<rfloor>; y = of_int n / 10 ^ f
      in double_of (if x < 0 then - y else y))"
| "number_toFixed f a = a"

section \<open>Number(s): a string read as a number\<close>

definition digit_value :: "char \<Rightarrow> nat option" where
  "digit_value c = (let k = (of_char c :: nat) in if 48 \<le> k \<and> k \<le> 57 then Some (k - 48) else None)"

definition is_digit_char :: "char \<Rightarrow> bool" where
  "is_digit_char c = (digit_value c \<noteq> None)"

definition digits_value :: "string \<Rightarrow> nat" where
  "digits_value s = foldl (\<lambda>n c. 10 * n + (case digit_value c of Some d \<Rightarrow> d | None \<Rightarrow> 0)) 0 s"

text \<open>\<open>[+-]digits\<close>, the exponent part of a decimal literal.\<close>

definition signed_digits :: "string \<Rightarrow> int option" where
  "signed_digits s =
     (let (neg, t) = (case s of c # r \<Rightarrow> if c = CHR ''-'' then (True, r)
                                  else if c = CHR ''+'' then (False, r) else (False, s)
                              | [] \<Rightarrow> (False, s))
      in if t \<noteq> [] \<and> list_all is_digit_char t
         then Some (if neg then - int (digits_value t) else int (digits_value t)) else None)"

definition unsigned_decimal :: "string \<Rightarrow> rat option" where
  "unsigned_decimal s =
     (let m = takeWhile (\<lambda>c. c \<noteq> CHR ''e'' \<and> c \<noteq> CHR ''E'') s;
          x = (case drop (length m) s of [] \<Rightarrow> Some 0 | _ # e \<Rightarrow> signed_digits e);
          i = takeWhile (\<lambda>c. c \<noteq> CHR ''.'') m;
          f = (case drop (length i) m of [] \<Rightarrow> [] | _ # r \<Rightarrow> r)
      in if list_all is_digit_char i \<and> list_all is_digit_char f \<and> i @ f \<noteq> []
         then map_option (\<lambda>k. of_nat (digits_value (i @ f)) / 10 ^ length f * 10 powi k) x
         else None)"

definition radix_digit :: "nat \<Rightarrow> char \<Rightarrow> nat option" where
  "radix_digit b c =
     (let k = (of_char c :: nat);
          d = (if 48 \<le> k \<and> k \<le> 57 then Some (k - 48)
               else if 97 \<le> k \<and> k \<le> 102 then Some (k - 87)
               else if 65 \<le> k \<and> k \<le> 70 then Some (k - 55) else None)
      in case d of Some v \<Rightarrow> if v < b then Some v else None | None \<Rightarrow> None)"

definition radix_literal :: "nat \<Rightarrow> string \<Rightarrow> rat option" where
  "radix_literal b s =
     (if s \<noteq> [] \<and> list_all (\<lambda>c. radix_digit b c \<noteq> None) s
      then Some (of_nat (foldl (\<lambda>n c. b * n + (case radix_digit b c of Some d \<Rightarrow> d | None \<Rightarrow> 0)) 0 s))
      else None)"

definition js_Number :: "string \<Rightarrow> jsnum" where
  "js_Number s0 =
     (let s = js_trim s0;
          (neg, t) = (case s of c # r \<Rightarrow> if c = CHR ''-'' then (True, r)
                                  else if c = CHR ''+'' then (False, r) else (False, s)
                              | [] \<Rightarrow> (False, s));
          radix = (if take 2 s = ''0x'' \<or> take 2 s = ''0X'' then Some 16
                   else if take 2 s = ''0o'' \<or> take 2 s = ''0O'' then Some 8
                   else if take 2 s = ''0b'' \<or> take 2 s = ''0B'' then Some 2 else None)
      in if s = [] then Fin 0
         else case radix of
           Some b \<Rightarrow> (case radix_literal b (drop 2 s) of Some v \<Rightarrow> double_of v | None \<Rightarrow> NaN)
         | None \<Rightarrow>
             if t = ''Infinity'' then (if neg then NInf else PInf)
             else (case unsigned_decimal t of
                     Some v \<Rightarrow> double_of (if neg then - v else v) | None \<Rightarrow> NaN))"

text \<open>\<open>s.split(sep)\<close> for a one-character separator.\<close>

fun split_char :: "char \<Rightarrow> string \<Rightarrow> string list" where
  "split_char c [] = [[]]"
| "split_char c (x # xs) =
     (if x = c then [] # split_char c xs
      else case split_char c xs of p # ps \<Rightarrow> (x # p) # ps | [] \<Rightarrow> [[x]])"

definition join_strings :: "string \<Rightarrow> string list \<Rightarrow> string" where
  "join_strings sep ss = (case ss of [] \<Rightarrow> [] | t # ts \<Rightarrow> t @ concat (map (\<lambda>u. sep @ u) ts))"

section \<open>Sums, slices, and numbers as strings\<close>

text \<open>\<open>xs.reduce((sum, x) => sum + x, 0)\<close>: the additions round from left to right.\<close>

definition num_sum :: "jsnum list \<Rightarrow> jsnum" where
  "num_sum xs = foldl num_add (Fin 0) xs"

text \<open>\<open>xs.slice(0, n)\<close>: \<open>n\<close> is truncated, and a negative one counts from the end.\<close>

definition slice_from_start :: "jsnum \<Rightarrow> 'a list \<Rightarrow> 'a list" where
  "slice_from_start n xs = (case n of
       NaN \<Rightarrow> [] | NInf \<Rightarrow> [] | PInf \<Rightarrow> xs
     | Fin r \<Rightarrow> let k = (if r < 0 then \<lceil>r\<rceil> else \<lfloor>r\<rfloor>)
               in take (nat (if k < 0 then int (length xs) + k else k)) xs)"

fun nat_digits :: "nat \<Rightarrow> string" where
  "nat_digits n = (if n < 10 then [char_of (48 + n)] else nat_digits (n div 10) @ [char_of (48 + n mod 10)])"

declare nat_digits.simps [simp del]

text \<open>
  \<open>String(x)\<close>: the shortest digits that read back as \<open>x\<close>, the nearest to \<open>x\<close> among
  these, at the decimal point that \<open>dec_point\<close> gives (\<open>10 ^ (n - 1) \<le> x < 10 ^ n\<close>); 17
  digits are always enough.
\<close>

definition dec_point :: "rat \<Rightarrow> int" where
  "dec_point x = (if 1 \<le> x then int (length (nat_digits (nat \<lfloor>x\<rfloor>)))
     else 1 - int (length (nat_digits (nat (\<lceil>1 / x\<rceil> - 1)))))"

fun shortest_digits :: "nat \<Rightarrow> nat \<Rightarrow> rat \<Rightarrow> nat" where
  "shortest_digits 0 k x = nat (round_half_even (x / 10 powi (dec_point x - int k)))"
| "shortest_digits (Suc fuel) k x =
     (let m = round_half_even (x / 10 powi (dec_point x - int k))
      in if double_of (of_int m * 10 powi (dec_point x - int k)) = Fin x then nat m
         else shortest_digits fuel (k + 1) x)"

definition place_digits :: "string \<Rightarrow> int \<Rightarrow> string" where
  "place_digits s n =
     (let k = int (length s); e = n - 1;
          ex = (if e < 0 then ''-'' else ''+'') @ nat_digits (nat \<bar>e\<bar>)
      in if k \<le> n \<and> n \<le> 21 then s @ replicate (nat (n - k)) CHR ''0''
         else if 0 < n \<and> n \<le> 21 then take (nat n) s @ ''.'' @ drop (nat n) s
         else if - 6 < n \<and> n \<le> 0 then ''0.'' @ replicate (nat (- n)) CHR ''0'' @ s
         else if k = 1 then s @ ''e'' @ ex
         else take 1 s @ ''.'' @ drop 1 s @ ''e'' @ ex)"

definition num_string :: "jsnum \<Rightarrow> string" where
  "num_string a = (case a of NaN \<Rightarrow> ''NaN'' | PInf \<Rightarrow> ''Infinity'' | NInf \<Rightarrow> ''-Infinity''
     | Fin x \<Rightarrow> if x = 0 then ''0''
         else (if x < 0 then ''-'' else []) @ place_digits (nat_digits (shortest_digits 16 1 \<bar>x\<bar>)) (dec_point \<bar>x\<bar>))"

section \<open>Facts on the arithmetic\<close>

lemma num_add_int [simp]: "\<bar>a + b\<bar> < 2 ^ 53 \<Longrightarrow> num_add (num_int a) (num_int b) = num_int (a + b)"
  using double_of_int [of "a + b"] by simp

lemma num_sub_int [simp]: "\<bar>a - b\<bar> < 2 ^ 53 \<Longrightarrow> num_sub (num_int a) (num_int b) = num_int (a - b)"
  using double_of_int [of "a - b"] by (simp add: num_sub_def)

lemma num_mul_int [simp]: "\<bar>a * b\<bar> < 2 ^ 53 \<Longrightarrow> num_mul (num_int a) (num_int b) = num_int (a * b)"
  using double_of_int [of "a * b"] by simp

lemma num_sum_int:
  "sum_list (map abs zs) < 2 ^ 53 \<Longrightarrow> num_sum (map num_int zs) = num_int (sum_list zs)"
proof (induction zs rule: rev_induct)
  case (snoc z zs)
  have "\<bar>sum_list zs + z\<bar> \<le> sum_list (map abs zs) + \<bar>z\<bar>"
    using sum_list_abs [of zs] abs_triangle_ineq [of "sum_list zs" z] by linarith
  then have "\<bar>sum_list zs + z\<bar> < 2 ^ 53" using snoc.prems by simp
  moreover have "sum_list (map abs zs) < 2 ^ 53" using snoc.prems abs_ge_zero [of z] by (simp del: abs_ge_zero)
  ultimately show ?case using snoc.IH by (simp add: num_sum_def del: num_add.simps)
qed (simp add: num_sum_def)

lemma math_max_not_less: "a \<noteq> NaN \<Longrightarrow> b \<noteq> NaN \<Longrightarrow> num_le a (math_max a b) \<and> num_le b (math_max a b)"
  by (cases a; cases b) (auto simp: math_max_def num_le_def num_eq_def)

lemma math_min_not_greater: "a \<noteq> NaN \<Longrightarrow> b \<noteq> NaN \<Longrightarrow> num_le (math_min a b) a \<and> num_le (math_min a b) b"
  by (cases a; cases b) (auto simp: math_min_def num_le_def num_eq_def)

lemma isqrt_correct: "0 \<le> n \<Longrightarrow> 0 \<le> isqrt n \<and> isqrt n * isqrt n \<le> n \<and> n < (isqrt n + 1) * (isqrt n + 1)"
proof (induction n rule: isqrt.induct)
  case (1 n)
  show ?case
  proof (cases "n \<le> 0")
    case True
    then have "n = 0" using 1 by simp
    then show ?thesis by (simp add: isqrt.simps [of 0])
  next
    case False
    let ?q = "isqrt (n div 4)"
    have q: "0 \<le> ?q" "?q * ?q \<le> n div 4" "n div 4 < (?q + 1) * (?q + 1)" using 1 False by auto
    have "4 * (?q * ?q) \<le> n" using q(2) by linarith
    moreover have "n < 4 * ((?q + 1) * (?q + 1))" using q(3) by linarith
    ultimately show ?thesis using q(1) False
      by (auto simp: isqrt.simps [of n] Let_def algebra_simps)
  qed
qed

text \<open>
  A decimal constant of a source is the nearest double. A product of an integer with such
  a constant is within one part in \<open>2 ^ 52\<close> (with a small margin) of the exact product.
\<close>

lemma scaled_error:
  fixes c cd x y :: rat
  assumes "0 \<le> x" "0 \<le> c" "\<bar>cd - c\<bar> \<le> c / 2 ^ 53" "\<bar>y - x * cd\<bar> \<le> x * cd / 2 ^ 53"
  shows "\<bar>y - x * c\<bar> \<le> x * c / 2 ^ 51"
proof -
  have "cd \<le> 2 * c" using assms(2,3) abs_ge_self [of "cd - c"] by (simp add: field_simps)
  then have "x * cd \<le> x * (2 * c)" using assms(1) by (rule mult_left_mono)
  then have "\<bar>y - x * cd\<bar> \<le> x * c / 2 ^ 52" using assms(4) by simp
  moreover have "\<bar>x * cd - x * c\<bar> \<le> x * c / 2 ^ 53"
  proof -
    have "\<bar>x * cd - x * c\<bar> = x * \<bar>cd - c\<bar>"
      using assms(1) by (simp add: abs_mult flip: right_diff_distrib)
    also have "\<dots> \<le> x * (c / 2 ^ 53)" using assms(1,3) by (intro mult_left_mono)
    finally show ?thesis by simp
  qed
  moreover have "0 \<le> x * c" using assms(1,2) by simp
  moreover have "\<bar>y - x * c\<bar> \<le> \<bar>y - x * cd\<bar> + \<bar>x * cd - x * c\<bar>"
    using abs_triangle_ineq [of "y - x * cd" "x * cd - x * c"] by simp
  ultimately show ?thesis by simp
qed

interpretation num_order: comparator_contract "\<lambda>(a::rat) b. a > b"
  by unfold_locales auto


text \<open>
  Keys for sorting: the order of the values with \<open>NaN\<close> on top. It agrees with \<open><\<close>
  of the language on all other values.
\<close>

fun num_rank :: "jsnum \<Rightarrow> nat \<times> rat" where
  "num_rank NInf = (0, 0)"
| "num_rank (Fin r) = (1, r)"
| "num_rank PInf = (2, 0)"
| "num_rank NaN = (3, 0)"

instantiation jsnum :: linorder
begin

definition less_eq_jsnum :: "jsnum \<Rightarrow> jsnum \<Rightarrow> bool" where
  "less_eq_jsnum a b = (fst (num_rank a) < fst (num_rank b) \<or>
     fst (num_rank a) = fst (num_rank b) \<and> snd (num_rank a) \<le> snd (num_rank b))"

definition less_jsnum :: "jsnum \<Rightarrow> jsnum \<Rightarrow> bool" where
  "less_jsnum a b = (a \<le> b \<and> \<not> b \<le> (a :: jsnum))"

instance
proof
  fix a b c :: jsnum
  show "a < b \<longleftrightarrow> a \<le> b \<and> \<not> b \<le> a" by (rule less_jsnum_def)
  show "a \<le> a" by (simp add: less_eq_jsnum_def)
  show "a \<le> b \<Longrightarrow> b \<le> c \<Longrightarrow> a \<le> c" by (auto simp: less_eq_jsnum_def)
  show "a \<le> b \<Longrightarrow> b \<le> a \<Longrightarrow> a = b" by (cases a; cases b) (auto simp: less_eq_jsnum_def)
  show "a \<le> b \<or> b \<le> a" by (auto simp: less_eq_jsnum_def)
qed

end

lemma less_num_lt: "a \<noteq> NaN \<Longrightarrow> b \<noteq> NaN \<Longrightarrow> a < b \<longleftrightarrow> num_lt a b"
  by (cases a; cases b) (auto simp: less_jsnum_def less_eq_jsnum_def)

text \<open>The finite doubles are multiples of \<open>2 ^ -1074\<close>, so a subtraction keeps the sign.\<close>

lemma double_of_grid:
  assumes "double_of x = Fin y" shows "\<exists>k. y = of_int k * 2 powi (- 1074)"
proof (cases "x = 0")
  case True
  with assms show ?thesis by (auto simp: double_of_def intro: exI [of _ 0])
next
  case False
  let ?e = "double_exp x" and ?m = "round_half_even (\<bar>x\<bar> / 2 powi double_exp x)"
  obtain j where j: "?e = int j - 1074" by (metis double_exp_def max.cobounded2 nat_0_le diff_ge_0_iff_ge
      uminus_add_conv_diff add.commute diff_add_cancel minus_minus diff_minus_eq_add)
  have "(2::rat) powi ?e = of_int (2 ^ j) * 2 powi (- 1074)"
    unfolding j using powi_add [of "int j" "- 1074"] by simp
  then have "of_int ?m * (2::rat) powi ?e = of_int (?m * 2 ^ j) * 2 powi (- 1074)" by simp
  moreover have "y = of_int ?m * 2 powi ?e \<or> y = - (of_int ?m * 2 powi ?e)"
    using assms False by (auto simp: double_of_def Let_def split: if_splits)
  ultimately show ?thesis
  proof (elim disjE)
    assume "of_int ?m * 2 powi ?e = of_int (?m * 2 ^ j) * (2::rat) powi (- 1074)" "y = of_int ?m * 2 powi ?e"
    then show ?thesis by (intro exI [of _ "?m * 2 ^ j"]) (simp only:)
  next
    assume "of_int ?m * 2 powi ?e = of_int (?m * 2 ^ j) * (2::rat) powi (- 1074)" "y = - (of_int ?m * 2 powi ?e)"
    then show ?thesis by (intro exI [of _ "- (?m * 2 ^ j)"]) (simp only: of_int_minus minus_mult_left)
  qed
qed

lemma double_of_positive:
  assumes "0 < k" shows "num_lt (Fin 0) (double_of (of_int k * 2 powi (- 1074)))"
proof -
  let ?x = "of_int k * (2::rat) powi (- 1074)"
  let ?e = "double_exp ?x"
  have x: "0 < ?x" using assms powi_pos [of "- 1074"] by simp
  have "of_int 1 \<le> ?x / 2 powi ?e"
  proof (cases "?e = - 1074")
    case True
    then show ?thesis using assms powi_pos [of "- 1074"] by (simp add: pos_le_divide_eq)
  next
    case False
    then have "?e \<le> ilog2 ?x" using x by (simp add: double_exp_def max_def split: if_splits)
    then have "(2::rat) powi ?e \<le> 2 powi ilog2 ?x" by (rule powi_mono)
    also have "\<dots> \<le> ?x" using x by (rule ilog2_bounds)
    finally show ?thesis using powi_pos [of ?e] by (simp add: pos_le_divide_eq)
  qed
  then have "1 \<le> round_half_even (?x / 2 powi ?e)" by (rule round_half_even_ge)
  then have "0 < of_int (round_half_even (?x / 2 powi ?e)) * (2::rat) powi ?e" using powi_pos [of ?e] by simp
  then show ?thesis using x by (simp add: double_of_def Let_def)
qed

definition is_double :: "jsnum \<Rightarrow> bool" where
  "is_double a = (case a of Fin y \<Rightarrow> (\<exists>x. double_of x = Fin y) | _ \<Rightarrow> True)"

lemma is_double_double_of [simp]: "is_double (double_of x)"
  by (cases "double_of x") (auto simp: is_double_def)

lemma num_sub_positive:
  assumes "is_double a" "is_double b" "a \<noteq> NaN" "b \<noteq> NaN"
  shows "num_lt (Fin 0) (num_sub a b) \<longleftrightarrow> b < a"
proof (cases a; cases b)
  fix p q assume ab: "a = Fin p" "b = Fin q"
  obtain k where k: "p = of_int k * 2 powi (- 1074)" using assms(1) ab double_of_grid by (auto simp: is_double_def)
  obtain l where l: "q = of_int l * 2 powi (- 1074)" using assms(2) ab double_of_grid by (auto simp: is_double_def)
  have pq: "p - q = of_int (k - l) * 2 powi (- 1074)" by (simp add: k l left_diff_distrib)
  have lt: "q < p \<longleftrightarrow> l < k" using powi_pos [of "- 1074"] by (simp add: k l mult_less_cancel_right)
  have sub: "num_sub (Fin p) (Fin q) = double_of (p - q)" by (simp add: num_sub_def)
  show ?thesis
  proof (cases k l rule: linorder_cases)
    case less
    then have "0 < l - k" by simp
    moreover have e: "of_int (l - k) * (2::rat) powi (- 1074) = - (p - q)" by (simp add: k l left_diff_distrib)
    ultimately have "num_lt (Fin 0) (double_of (- (p - q)))" using double_of_positive by (metis e)
    then have "\<not> num_lt (Fin 0) (double_of (p - q))"
      unfolding double_of_uminus by (cases "double_of (p - q)") auto
    with less lt show ?thesis by (simp add: sub ab less_num_lt)
  next
    case equal
    then have "p = q" by (simp add: k l)
    then show ?thesis using sub by (simp add: ab double_of_def less_num_lt)
  next
    case greater
    then have "num_lt (Fin 0) (double_of (p - q))" unfolding pq by (intro double_of_positive) simp
    with greater lt show ?thesis by (simp add: sub ab less_num_lt)
  qed
qed (use assms in \<open>auto simp: num_sub_def less_num_lt\<close>)

text \<open>A product with a decimal constant, rounded to an integer, is a nearest integer to the exact product.\<close>

lemma round_times_constant:
  fixes n d s :: int
  assumes c: "0 < n" "n \<le> d" "d \<le> 1000" and s: "0 \<le> s" "s * n < 2 ^ 49"
  obtains r where "math_round (num_mul (num_int s) (double_of (of_int n / of_int d))) = num_int r"
    and "2 * \<bar>d * r - n * s\<bar> \<le> d"
proof (cases "s = 0")
  case True
  obtain cd where cd: "double_of (of_int n / of_int d) = Fin cd"
  proof -
    have "(2::rat) powi (- 1022) \<le> of_int n / of_int d"
    proof -
      have "(2::rat) powi (- 1022) \<le> 2 powi (- 10)" by (rule powi_mono) simp
      also have "\<dots> \<le> 1 / 1000" by (simp add: power_int_def power_divide)
      also have "\<dots> \<le> of_int n / of_int d" using c by (intro frac_le) simp_all
      finally show ?thesis .
    qed
    moreover have "of_int n / of_int d < (2::rat) ^ 1023"
    proof -
      have "of_int n / of_int d \<le> (1::rat)" using c by simp
      also have "(1::rat) < 2 ^ 1023" by (rule one_less_power) simp_all
      finally show ?thesis .
    qed
    ultimately show thesis using double_of_error that by blast
  qed
  have "\<lfloor>1 / 2 :: rat\<rfloor> = 0" by (rule floor_unique) simp_all
  then have "math_round (num_mul (num_int 0) (Fin cd)) = num_int 0" by (simp add: double_of_def)
  with True cd show thesis using c by (intro that [of 0]) simp_all
next
  case False
  let ?c = "of_int n / of_int d :: rat"
  have c_low: "1 / 1000 \<le> ?c" using c by (intro frac_le) simp_all
  have c_high: "?c \<le> 1" using c by simp
  have tiny: "(2::rat) powi (- 1022) \<le> 1 / 1000 / 2"
  proof -
    have "(2::rat) powi (- 1022) \<le> 2 powi (- 11)" by (rule powi_mono) simp
    also have "\<dots> \<le> 1 / 1000 / 2" by (simp add: power_int_def power_divide)
    finally show ?thesis .
  qed
  have huge: "(2::rat) ^ 60 < 2 ^ 1023" by (rule power_strict_increasing) simp_all
  have huge1: "(1::rat) < 2 ^ 1023" by (rule one_less_power) simp_all
  obtain cd where cd: "double_of ?c = Fin cd" "\<bar>cd - ?c\<bar> \<le> ?c / 2 ^ 53"
    by (rule double_of_error [of ?c]) (use tiny c_low c_high huge1 in linarith)+
  have cd_low: "1 / 1000 / 2 \<le> cd" and cd_high: "cd \<le> 2"
    using cd(2) c_low c_high by (simp_all add: abs_le_iff)
  let ?x = "of_int s :: rat"
  have s1: "1 \<le> s" using s(1) False by simp
  have x: "1 \<le> ?x" using s1 by simp
  have xn: "?x * of_int n < 2 ^ 49"
    using s(2) by (metis of_int_less_iff of_int_mult of_int_numeral of_int_power)
  have "s * 1 \<le> s * n" using c(1) s1 by (intro mult_left_mono) simp_all
  then have "s < 2 ^ 49" using s(2) by linarith
  then have x49: "?x < 2 ^ 49" by (metis of_int_less_iff of_int_numeral of_int_power)
  have "1 * (1 / 1000 / 2) \<le> ?x * cd" using x cd_low by (intro mult_mono) simp_all
  then have low: "2 powi (- 1022) \<le> ?x * cd" using tiny by linarith
  have "?x * cd \<le> 2 ^ 49 * 2" using x49 x cd_high cd_low by (intro mult_mono) simp_all
  then have "?x * cd < 2 ^ 60" by simp
  then have high: "?x * cd < 2 ^ 1023" using huge by linarith
  obtain y where y: "double_of (?x * cd) = Fin y" "\<bar>y - ?x * cd\<bar> \<le> ?x * cd / 2 ^ 53"
    using low high by (rule double_of_error)
  have err: "\<bar>y - ?x * ?c\<bar> \<le> ?x * ?c / 2 ^ 51"
    using x c cd(2) y(2) by (intro scaled_error) simp_all
  let ?r = "\<lfloor>y + 1/2\<rfloor>"
  have "math_round (num_mul (num_int s) (double_of ?c)) = num_int ?r" using cd(1) y(1) by simp
  moreover have "2 * \<bar>d * ?r - n * s\<bar> \<le> d"
  proof -
    have d: "0 < (of_int d :: rat)" using c by simp
    have "of_int d * (?x * ?c) = of_int (n * s)" using d by (simp add: mult.commute)
    then have "of_int d * y - of_int (n * s) = of_int d * (y - ?x * ?c)" unfolding right_diff_distrib by simp
    then have "\<bar>of_int d * y - of_int (n * s)\<bar> = of_int d * \<bar>y - ?x * ?c\<bar>"
      using d by (metis abs_mult abs_of_pos)
    also have "\<dots> \<le> of_int d * (?x * ?c / 2 ^ 51)" using err d by (intro mult_left_mono) simp_all
    also have "\<dots> = ?x * of_int n / 2 ^ 51" using d by simp
    also have "\<dots> < 2 ^ 49 / 2 ^ 51" using xn by (rule divide_strict_right_mono) simp
    also have "(2::rat) ^ 49 / 2 ^ 51 < 1 / 2" by simp
    finally have dy: "\<bar>of_int d * y - of_int (n * s)\<bar> < 1 / 2" .
    have dy1: "of_int d * y < of_int (n * s) + 1 / 2" and dy2: "of_int (n * s) - 1 / 2 < of_int d * y"
      using dy by linarith+
    have half: "of_int d * (y + 1/2) = of_int d * y + of_int d / 2" by (simp add: distrib_left)
    have fl: "of_int ?r \<le> y + 1/2" "y + 1/2 < of_int ?r + 1" by linarith+
    have "of_int d * of_int ?r \<le> of_int d * (y + 1/2)" using fl(1) d by (intro mult_left_mono) simp_all
    then have "of_int (2 * (d * ?r)) < (of_int (2 * (n * s) + d + 1) :: rat)"
      using dy1 unfolding half by simp
    then have up: "2 * (d * ?r) \<le> 2 * (n * s) + d" unfolding of_int_less_iff by simp
    have "of_int d * (y + 1/2) < of_int d * (of_int ?r + 1)" using fl(2) d by (intro mult_strict_left_mono)
    moreover have "of_int d * (of_int ?r + 1) = of_int d * of_int ?r + (of_int d :: rat)" by (simp add: distrib_left)
    ultimately have "(of_int (2 * (n * s) - d - 1) :: rat) < of_int (2 * (d * ?r))"
      using dy2 unfolding half by simp
    then have "2 * (n * s) - d \<le> 2 * (d * ?r)" unfolding of_int_less_iff by simp
    with up show ?thesis by (auto simp: abs_if)
  qed
  ultimately show thesis by (rule that)
qed

text \<open>Two decimal digits read as the number they spell.\<close>

lemma digit_char_cases:
  assumes "digit_value c = Some d" obtains "c = char_of (48 + d)" and "d < 10"
proof
  have k: "48 \<le> (of_char c :: nat)" "(of_char c :: nat) \<le> 57" "d = of_char c - 48"
    using assms by (auto simp: digit_value_def Let_def split: if_splits)
  then show "d < 10" by simp
  have "char_of (48 + d) = (char_of (of_char c :: nat) :: char)" using k by simp
  then show "c = char_of (48 + d)" by simp
qed

lemma digit_not_special:
  assumes "digit_value c = Some d"
  shows "\<not> is_space c" "c \<noteq> CHR ''-''" "c \<noteq> CHR ''+''" "c \<noteq> CHR ''e''" "c \<noteq> CHR ''E''" "c \<noteq> CHR ''.''"
    "c \<noteq> CHR ''x''" "c \<noteq> CHR ''X''" "c \<noteq> CHR ''o''" "c \<noteq> CHR ''O''" "c \<noteq> CHR ''b''" "c \<noteq> CHR ''B''"
    "c \<noteq> CHR '':''" "c \<noteq> CHR ''I''"
  using assms by (auto simp: digit_value_def is_space_def split: if_splits)

lemma js_Number_two_digits:
  assumes a: "digit_value a = Some m" and b: "digit_value b = Some n"
  shows "js_Number [a, b] = num_int (int (10 * m + n))"
proof -
  have mn: "m < 10" "n < 10" using a b by (auto elim: digit_char_cases)
  have u: "unsigned_decimal [a, b] = Some (of_nat (10 * m + n))"
    using a b digit_not_special [OF a] digit_not_special [OF b]
    by (simp add: unsigned_decimal_def is_digit_char_def digits_value_def Let_def)
  have "js_Number [a, b] = double_of (of_nat (10 * m + n))"
    using digit_not_special [OF a] digit_not_special [OF b] u
    by (simp add: js_Number_def js_trim_def Let_def)
  also have "\<dots> = double_of (of_int (int (10 * m + n)))" by simp
  also have "\<dots> = num_int (int (10 * m + n))" using mn by (intro double_of_int) simp
  finally show ?thesis .
qed


section \<open>A concrete host\<close>

text \<open>
  A host for the closed examples: dates are decimal numbers of milliseconds, strings
  compare by character code.
\<close>

definition epoch_host :: host where
  "epoch_host =
     \<lparr>host_localeCompare = (\<lambda>a b. if a < b then - 1 else if a = b then 0 else 1),
      host_getTime = (\<lambda>s. if s \<noteq> [] \<and> list_all is_digit_char s then Some (int (digits_value s)) else None),
      host_toISOString = (\<lambda>t. if t < 1000 then ''0'' else ''1000'')\<rparr>"

lemma epoch_host_consistent: "consistent_collation epoch_host"
  by (auto simp: consistent_collation_def locale_gt_def epoch_host_def split: if_splits)

end
