(* ===== verification/EventBus.thy ===== *)
theory EventBus
  imports JsNumber
begin

text \<open>
  The values that cross component borders (JSON values and domain events), the event
  bus of \<open>identity/in-memory-event-bus.ts\<close>, and the two storage contracts every
  component relies on: a repository keyed by an identifier, and an append-only log.
\<close>

section \<open>JSON values and domain events\<close>

datatype json =
    JNull
  | JBool bool
  | JNum jsnum
  | JStr string
  | JArr "json list"
  | JObj "(string \<times> json) list"

text \<open>\<open>value.name\<close>; \<open>None\<close> is \<open>undefined\<close>.\<close>

definition jprop :: "(string \<times> json) list \<Rightarrow> string \<Rightarrow> json option" where
  "jprop ps k = map_of ps k"

definition jstring :: "json option \<Rightarrow> string option" where
  "jstring j = (case j of Some (JStr s) \<Rightarrow> Some s | _ \<Rightarrow> None)"

lemma jstring_simps [simp]: "jstring (Some (JStr s)) = Some s" "jstring None = None"
  by (simp_all add: jstring_def)

definition jopt :: "('a \<Rightarrow> json) \<Rightarrow> 'a option \<Rightarrow> json" where
  "jopt f x = (case x of None \<Rightarrow> JNull | Some v \<Rightarrow> f v)"

text \<open>An optional property: absent when the value is \<open>undefined\<close>.\<close>

definition jfield :: "string \<Rightarrow> ('a \<Rightarrow> json) \<Rightarrow> 'a option \<Rightarrow> (string \<times> json) list" where
  "jfield k f x = (case x of None \<Rightarrow> [] | Some v \<Rightarrow> [(k, f v)])"

record domain_event =
  ev_type :: string
  ev_occurredAt :: iso_date
  ev_payload :: "(string \<times> json) list"

definition mk_event :: "string \<Rightarrow> iso_date \<Rightarrow> (string \<times> json) list \<Rightarrow> domain_event" where
  "mk_event t w p = \<lparr>ev_type = t, ev_occurredAt = w, ev_payload = p\<rparr>"

lemma mk_event_sel [simp]:
  "ev_type (mk_event t w p) = t"
  "ev_occurredAt (mk_event t w p) = w"
  "ev_payload (mk_event t w p) = p"
  by (simp_all add: mk_event_def)

section \<open>InMemoryEventBus\<close>

text \<open>
  A subscriber is a callback: on an event it throws, returns, or returns a promise whose
  task the bus holds as pending. \<open>bus_calls\<close> is a history variable, the calls made.
\<close>

datatype callback_result = Threw | Returned | Promised

record subscriber =
  sub_id :: nat
  sub_callback :: "domain_event \<Rightarrow> callback_result"

record event_bus =
  bus_events :: "domain_event list"
  bus_subscribers :: "subscriber list"
  bus_pending :: "(nat \<times> domain_event) list"
  bus_calls :: "(nat \<times> domain_event) list"

definition empty_bus :: event_bus where
  "empty_bus = \<lparr>bus_events = [], bus_subscribers = [], bus_pending = [], bus_calls = []\<rparr>"

definition call_subscriber :: "domain_event \<Rightarrow> subscriber \<Rightarrow> event_bus \<Rightarrow> event_bus" where
  "call_subscriber e s b =
     (let b' = b\<lparr>bus_calls := bus_calls b @ [(sub_id s, e)]\<rparr>
      in case sub_callback s e of
           Threw \<Rightarrow> b'
         | Returned \<Rightarrow> b'
         | Promised \<Rightarrow> b'\<lparr>bus_pending := bus_pending b' @ [(sub_id s, e)]\<rparr>)"

definition publish :: "domain_event \<Rightarrow> event_bus \<Rightarrow> event_bus" where
  "publish e b =
     (let b1 = b\<lparr>bus_events := bus_events b @ [e]\<rparr>
      in fold (call_subscriber e) (bus_subscribers b1) b1)"

definition subscribe :: "subscriber \<Rightarrow> event_bus \<Rightarrow> event_bus" where
  "subscribe s b =
     (if sub_id s \<in> set (map sub_id (bus_subscribers b)) then b
      else b\<lparr>bus_subscribers := bus_subscribers b @ [s]\<rparr>)"

definition unsubscribe :: "subscriber \<Rightarrow> event_bus \<Rightarrow> event_bus" where
  "unsubscribe s b = b\<lparr>bus_subscribers := filter (\<lambda>t. sub_id t \<noteq> sub_id s) (bus_subscribers b)\<rparr>"

text \<open>\<open>flush\<close> awaits every pending task; a finished task leaves the pending set.\<close>

definition flush :: "event_bus \<Rightarrow> event_bus" where
  "flush b = b\<lparr>bus_pending := []\<rparr>"

lemma call_subscriber_frame [simp]:
  "bus_events (call_subscriber e s b) = bus_events b"
  "bus_subscribers (call_subscriber e s b) = bus_subscribers b"
  "bus_calls (call_subscriber e s b) = bus_calls b @ [(sub_id s, e)]"
  by (auto simp: call_subscriber_def Let_def split: callback_result.splits)

lemma fold_call_subscriber:
  "bus_events (fold (call_subscriber e) ss b) = bus_events b"
  "bus_subscribers (fold (call_subscriber e) ss b) = bus_subscribers b"
  "bus_calls (fold (call_subscriber e) ss b) = bus_calls b @ map (\<lambda>s. (sub_id s, e)) ss"
  by (induction ss arbitrary: b) auto

lemma publish_frame [simp]:
  "bus_events (publish e b) = bus_events b @ [e]"
  "bus_subscribers (publish e b) = bus_subscribers b"
  "bus_calls (publish e b) = bus_calls b @ map (\<lambda>s. (sub_id s, e)) (bus_subscribers b)"
  by (simp_all add: publish_def Let_def fold_call_subscriber)

lemma flush_frame [simp]:
  "bus_events (flush b) = bus_events b"
  "bus_subscribers (flush b) = bus_subscribers b"
  "bus_pending (flush b) = []"
  by (simp_all add: flush_def)

lemma empty_bus_events [simp]: "bus_events empty_bus = []"
  by (simp add: empty_bus_def)

text \<open>Publishing in turn, the fold the services' loops make.\<close>

definition publish_all :: "domain_event list \<Rightarrow> event_bus \<Rightarrow> event_bus" where
  "publish_all es b = fold publish es b"

lemma publish_all_frame [simp]:
  "bus_events (publish_all es b) = bus_events b @ es"
  "bus_subscribers (publish_all es b) = bus_subscribers b"
  by (induction es arbitrary: b) (simp_all add: publish_all_def)

definition events_of_type :: "string \<Rightarrow> domain_event list \<Rightarrow> domain_event list" where
  "events_of_type t es = filter (\<lambda>e. ev_type e = t) es"

lemma events_of_type_simps [simp]:
  "events_of_type t [] = []"
  "events_of_type t (es @ fs) = events_of_type t es @ events_of_type t fs"
  "events_of_type t (e # es) = (if ev_type e = t then e # events_of_type t es else events_of_type t es)"
  by (simp_all add: events_of_type_def)

section \<open>The repository contract\<close>

text \<open>
  What a service relies on when it keeps records under their identifiers: a lookup
  returns the last record saved under the identifier, and the list holds the records
  that a lookup finds. Every in-memory repository of the program is an interpretation.
\<close>

locale keyed_repository =
  fixes key :: "'v \<Rightarrow> 'k"
    and fresh_repo :: 's
    and save :: "'v \<Rightarrow> 's \<Rightarrow> 's"
    and find :: "'k \<Rightarrow> 's \<Rightarrow> 'v option"
    and all_records :: "'s \<Rightarrow> 'v list"
    and wf_repo :: "'s \<Rightarrow> bool"
  assumes wf_fresh: "wf_repo fresh_repo"
    and wf_save: "wf_repo s \<Longrightarrow> wf_repo (save v s)"
    and find_fresh: "find k fresh_repo = None"
    and find_save: "find k (save v s) = (if k = key v then Some v else find k s)"
    and all_records_iff: "wf_repo s \<Longrightarrow> v \<in> set (all_records s) \<longleftrightarrow> (\<exists>k. find k s = Some v)"
    and save_found: "find (key v) s = Some v \<Longrightarrow> save v s = s"
begin

definition keys_agree :: "'s \<Rightarrow> bool" where
  "keys_agree s = (\<forall>k v. find k s = Some v \<longrightarrow> key v = k)"

definition every :: "('v \<Rightarrow> bool) \<Rightarrow> 's \<Rightarrow> bool" where
  "every P s = (\<forall>k v. find k s = Some v \<longrightarrow> P v)"

lemma keys_agree_fresh: "keys_agree fresh_repo"
  by (simp add: keys_agree_def find_fresh)

lemma keys_agree_save: "keys_agree s \<Longrightarrow> keys_agree (save v s)"
  by (simp add: keys_agree_def find_save)

lemma every_fresh: "every P fresh_repo"
  by (simp add: every_def find_fresh)

lemma every_save: "every P s \<Longrightarrow> P v \<Longrightarrow> every P (save v s)"
  by (simp add: every_def find_save)

lemma every_records: "wf_repo s \<Longrightarrow> every P s \<longleftrightarrow> (\<forall>v \<in> set (all_records s). P v)"
  by (auto simp: every_def all_records_iff)

lemma find_save_same: "find (key v) (save v s) = Some v"
  by (simp add: find_save)

lemma find_save_other: "k \<noteq> key v \<Longrightarrow> find k (save v s) = find k s"
  by (simp add: find_save)

lemma save_idem: "save v (save v s) = save v s"
  by (rule save_found) (rule find_save_same)

end

text \<open>A \<open>Map\<close> keyed by the identifier gives the contract.\<close>

lemma jsmap_repository:
  "keyed_repository key [] (\<lambda>v. map_set (key v) v) (\<lambda>k m. map_get m k) map_values map_wf"
  by (rule keyed_repository.intro)
     (simp_all add: map_get_set in_map_values map_set_same)

section \<open>The log contract\<close>

locale append_log =
  fixes append_entry :: "'e \<Rightarrow> 's \<Rightarrow> 's"
    and entries :: "'s \<Rightarrow> 'e list"
  assumes entries_append: "entries (append_entry e s) = entries s @ [e]"
begin

lemma entries_fold: "entries (fold append_entry es s) = entries s @ es"
  by (induction es arbitrary: s) (simp_all add: entries_append)

lemma entries_kept: "prefix (entries s) (entries (append_entry e s))"
  by (simp add: entries_append)

end

interpretation bus_log: append_log publish bus_events
  by unfold_locales simp

section \<open>Statuses that only move forward\<close>

text \<open>
  Several components keep a record whose status advances and then rests. The contract:
  each step of the component leaves a record as it is or moves its status along an edge
  that raises a rank. Runs then never go back, and a status without edges is final.
\<close>

locale ranked_status =
  fixes status_in :: "'k \<Rightarrow> 's \<Rightarrow> 'st option"
    and rank :: "'st \<Rightarrow> nat"
    and step :: "'op \<Rightarrow> 's \<Rightarrow> 's"
    and ok :: "'op \<Rightarrow> 's \<Rightarrow> bool"
  assumes step_status: "ok op s \<Longrightarrow> status_in k s = Some a \<Longrightarrow>
      \<exists>b. status_in k (step op s) = Some b \<and> (b = a \<or> rank a < rank b)"
begin

fun run_ok :: "'op list \<Rightarrow> 's \<Rightarrow> bool" where
  "run_ok [] s = True"
| "run_ok (op # ops) s = (ok op s \<and> run_ok ops (step op s))"

lemma run_status:
  "run_ok ops s \<Longrightarrow> status_in k s = Some a \<Longrightarrow>
   \<exists>b. status_in k (fold step ops s) = Some b \<and> (b = a \<or> rank a < rank b)"
proof (induction ops arbitrary: s a)
  case Nil
  then show ?case by simp
next
  case (Cons op ops)
  then obtain b where b: "status_in k (step op s) = Some b" "b = a \<or> rank a < rank b"
    using step_status by fastforce
  with Cons obtain c where "status_in k (fold step ops (step op s)) = Some c" "c = b \<or> rank b < rank c"
    by fastforce
  with b show ?case by fastforce
qed

lemma run_final:
  "run_ok ops s \<Longrightarrow> status_in k s = Some a \<Longrightarrow> \<forall>b. rank b \<le> rank a \<Longrightarrow> status_in k (fold step ops s) = Some a"
  using run_status [of ops s k a] by (auto simp: not_less [symmetric])

end

end
