(* ===== verification/Catalog.thy ===== *)
theory Catalog
  imports EventBus
begin

text \<open>
  The merchant catalog (\<open>core-api/src/modules/merchant-catalog\<close>): menus and their
  versions, item availability, store status and opening hours, the preparation time
  estimate, store discovery and the menu a consumer sees. Each service is a group of
  functions on the repositories it holds; clock readings and identifiers are arguments,
  in the order the code asks for them.
\<close>

section \<open>Menus\<close>

record menuItemInput =
  mii_itemId :: string
  mii_name :: string
  mii_priceCents :: jsnum

record menuItem =
  mi_itemId :: string
  mi_name :: string
  mi_priceCents :: jsnum

record menuVersion =
  mv_version :: nat
  mv_name :: string
  mv_items :: "menuItem list"
  mv_createdAt :: iso_date

record menu =
  mn_id :: uuid
  mn_merchantId :: string
  mn_storeId :: string
  mn_currentVersion :: nat
  mn_versions :: "menuVersion list"
  mn_createdAt :: iso_date
  mn_updatedAt :: iso_date

record createMenuInput =
  cmi_merchantId :: string
  cmi_storeId :: string
  cmi_name :: string
  cmi_items :: "menuItemInput list"

record updateMenuInput =
  umi_name :: string
  umi_items :: "menuItemInput list"

type_synonym menu_repo = "(uuid, menu) jsmap"

definition menu_save :: "menu \<Rightarrow> menu_repo \<Rightarrow> menu_repo" where
  "menu_save m r = map_set (mn_id m) m r"

definition menu_findById :: "uuid \<Rightarrow> menu_repo \<Rightarrow> menu option" where
  "menu_findById i r = map_get r i"

definition menu_listByStoreId :: "string \<Rightarrow> menu_repo \<Rightarrow> menu list" where
  "menu_listByStoreId s r = filter (\<lambda>m. mn_storeId m = s) (map_values r)"

definition menu_list :: "menu_repo \<Rightarrow> menu list" where
  "menu_list r = map_values r"

interpretation menus: keyed_repository mn_id "[]" menu_save menu_findById menu_list map_wf
  unfolding menu_save_def menu_findById_def menu_list_def by (rule jsmap_repository)

datatype menu_error = MenuNotFound uuid

definition menu_normalizeItems :: "menuItemInput list \<Rightarrow> menuItem list" where
  "menu_normalizeItems items =
     map (\<lambda>i. \<lparr>mi_itemId = mii_itemId i, mi_name = js_trim (mii_name i),
              mi_priceCents = mii_priceCents i\<rparr>) items"

definition buildVersion :: "iso_date \<Rightarrow> nat \<Rightarrow> string \<Rightarrow> menuItemInput list \<Rightarrow> menuVersion" where
  "buildVersion now v name items =
     \<lparr>mv_version = v, mv_name = js_trim name, mv_items = menu_normalizeItems items, mv_createdAt = now\<rparr>"

definition createMenu ::
  "uuid \<Rightarrow> iso_date \<Rightarrow> iso_date \<Rightarrow> createMenuInput \<Rightarrow> menu_repo \<Rightarrow> menu \<times> menu_repo" where
  "createMenu uid now1 now2 inp r =
     (let firstVersion = buildVersion now2 1 (cmi_name inp) (cmi_items inp);
          m = \<lparr>mn_id = uid, mn_merchantId = cmi_merchantId inp, mn_storeId = cmi_storeId inp,
               mn_currentVersion = 1, mn_versions = [firstVersion],
               mn_createdAt = now1, mn_updatedAt = now1\<rparr>
      in (m, menu_save m r))"

definition updateMenu ::
  "iso_date \<Rightarrow> iso_date \<Rightarrow> uuid \<Rightarrow> updateMenuInput \<Rightarrow> menu_repo \<Rightarrow> (menu_repo, menu_error, menu) outcome" where
  "updateMenu now1 now2 menuId inp r =
     (case menu_findById menuId r of
        None \<Rightarrow> (Inl (MenuNotFound menuId), r)
      | Some m \<Rightarrow>
          let nextVersion = mn_currentVersion m + 1;
              version = buildVersion now1 nextVersion (umi_name inp) (umi_items inp);
              updated = m\<lparr>mn_currentVersion := nextVersion, mn_versions := mn_versions m @ [version],
                          mn_updatedAt := now2\<rparr>
          in (Inr updated, menu_save updated r))"

definition getMenu :: "uuid \<Rightarrow> menu_repo \<Rightarrow> menu_error + menu" where
  "getMenu menuId r = (case menu_findById menuId r of None \<Rightarrow> Inl (MenuNotFound menuId) | Some m \<Rightarrow> Inr m)"

definition getMenuVersions :: "uuid \<Rightarrow> menu_repo \<Rightarrow> menu_error + menuVersion list" where
  "getMenuVersions menuId r = (case getMenu menuId r of Inl e \<Rightarrow> Inl e | Inr m \<Rightarrow> Inr (mn_versions m))"

section \<open>Item availability\<close>

record itemAvailability =
  ia_itemId :: string
  ia_available :: bool
  ia_reason :: "string option"
  ia_updatedAt :: iso_date

record updateItemAvailabilityInput =
  uia_available :: bool
  uia_reason :: "string option"

type_synonym item_repo = "(string, itemAvailability) jsmap"

definition item_save :: "itemAvailability \<Rightarrow> item_repo \<Rightarrow> item_repo" where
  "item_save a r = map_set (ia_itemId a) a r"

definition item_findByItemId :: "string \<Rightarrow> item_repo \<Rightarrow> itemAvailability option" where
  "item_findByItemId i r = map_get r i"

interpretation items: keyed_repository ia_itemId "[]" item_save item_findByItemId map_values map_wf
  unfolding item_save_def item_findByItemId_def by (rule jsmap_repository)

definition setAvailability ::
  "iso_date \<Rightarrow> string \<Rightarrow> updateItemAvailabilityInput \<Rightarrow> item_repo \<Rightarrow> itemAvailability \<times> item_repo" where
  "setAvailability now itemId inp r =
     (let a = \<lparr>ia_itemId = itemId, ia_available = uia_available inp, ia_reason = uia_reason inp,
               ia_updatedAt = now\<rparr>
      in (a, item_save a r))"

definition getAvailability :: "iso_date \<Rightarrow> string \<Rightarrow> item_repo \<Rightarrow> itemAvailability" where
  "getAvailability now itemId r =
     (case item_findByItemId itemId r of
        Some a \<Rightarrow> a
      | None \<Rightarrow> \<lparr>ia_itemId = itemId, ia_available = True, ia_reason = None, ia_updatedAt = now\<rparr>)"

section \<open>Store status and orderability\<close>

record storeSchedule =
  ss_open :: string
  ss_close :: string
  ss_timezone :: string

record storeStatus =
  st_storeId :: string
  st_paused :: bool
  st_schedule :: storeSchedule
  st_updatedAt :: iso_date

record updateStoreStatusInput =
  uss_paused :: bool
  uss_schedule :: storeSchedule

datatype orderabilityReason = ORD_OK | STORE_PAUSED | OUTSIDE_STORE_HOURS | STORE_STATUS_NOT_CONFIGURED

record storeOrderability =
  so_orderable :: bool
  so_reason :: orderabilityReason
  so_evaluatedAt :: iso_date

type_synonym status_repo = "(string, storeStatus) jsmap"

definition status_save :: "storeStatus \<Rightarrow> status_repo \<Rightarrow> status_repo" where
  "status_save s r = map_set (st_storeId s) s r"

definition status_findByStoreId :: "string \<Rightarrow> status_repo \<Rightarrow> storeStatus option" where
  "status_findByStoreId i r = map_get r i"

interpretation statuses: keyed_repository st_storeId "[]" status_save status_findByStoreId map_values map_wf
  unfolding status_save_def status_findByStoreId_def by (rule jsmap_repository)

definition setStatus :: "iso_date \<Rightarrow> string \<Rightarrow> updateStoreStatusInput \<Rightarrow> status_repo \<Rightarrow> storeStatus \<times> status_repo" where
  "setStatus now storeId inp r =
     (let s = \<lparr>st_storeId = storeId, st_paused = uss_paused inp, st_schedule = uss_schedule inp,
               st_updatedAt = now\<rparr>
      in (s, status_save s r))"

text \<open>\<open>const [hours, minutes] = hhmm.split(":").map(Number)\<close>; a missing part is \<open>NaN\<close>.\<close>

definition toMinutes :: "string \<Rightarrow> jsnum" where
  "toMinutes hhmm =
     (case map js_Number (split_char (CHR '':'') hhmm) of
        hours # minutes # _ \<Rightarrow> num_add (num_mul hours (Fin 60)) minutes
      | _ \<Rightarrow> NaN)"

text \<open>A date is its milliseconds since the epoch.\<close>

definition getCurrentMinutesUtc :: "int \<Rightarrow> int" where
  "getCurrentMinutesUtc t = (t div 3600000 mod 24) * 60 + t div 60000 mod 60"

definition evaluateOrderability :: "host \<Rightarrow> string \<Rightarrow> int \<Rightarrow> status_repo \<Rightarrow> storeOrderability" where
  "evaluateOrderability h storeId t r =
     (let result = (\<lambda>b reason. \<lparr>so_orderable = b, so_reason = reason, so_evaluatedAt = host_toISOString h t\<rparr>)
      in case status_findByStoreId storeId r of
        None \<Rightarrow> result False STORE_STATUS_NOT_CONFIGURED
      | Some s \<Rightarrow>
          if st_paused s then result False STORE_PAUSED
          else
            let nowMinutes = num_int (getCurrentMinutesUtc t);
                openMinutes = toMinutes (ss_open (st_schedule s));
                closeMinutes = toMinutes (ss_close (st_schedule s));
                withinHours =
                  (if num_le openMinutes closeMinutes
                   then num_le openMinutes nowMinutes \<and> num_le nowMinutes closeMinutes
                   else num_le openMinutes nowMinutes \<or> num_le nowMinutes closeMinutes)
            in if \<not> withinHours then result False OUTSIDE_STORE_HOURS
               else result True ORD_OK)"

text \<open>\<open>isValidHHMM\<close> of the HTTP layer, which guards every schedule that is stored.\<close>

definition isValidHHMM :: "string \<Rightarrow> bool" where
  "isValidHHMM v =
     (case v of
        [a, b, c, d, e] \<Rightarrow>
          (case (digit_value a, digit_value b, digit_value d, digit_value e) of
             (Some h1, Some h2, Some m1, Some m2) \<Rightarrow>
               c = CHR '':'' \<and> num_le (Fin 0) (js_Number [a, b]) \<and> num_le (js_Number [a, b]) (Fin 23)
               \<and> num_le (Fin 0) (js_Number [d, e]) \<and> num_le (js_Number [d, e]) (Fin 59)
           | _ \<Rightarrow> False)
      | _ \<Rightarrow> False)"

section \<open>Preparation time\<close>

datatype prepSource = DEFAULT_FALLBACK | CATALOG_HEURISTIC

record prepTimeEstimate =
  pt_estimatedMinutes :: nat
  pt_source :: prepSource

definition getEstimate :: "string \<Rightarrow> menu_repo \<Rightarrow> prepTimeEstimate" where
  "getEstimate storeId r =
     (case js_sort (\<lambda>a b. mn_currentVersion a < mn_currentVersion b) (menu_listByStoreId storeId r) of
        [] \<Rightarrow> \<lparr>pt_estimatedMinutes = 20, pt_source = DEFAULT_FALLBACK\<rparr>
      | latest # _ \<Rightarrow>
          let itemCount = (if mn_versions latest = [] then 0 else length (mv_items (last (mn_versions latest))))
          in \<lparr>pt_estimatedMinutes = 10 + itemCount * 2, pt_source = CATALOG_HEURISTIC\<rparr>)"

section \<open>Store discovery\<close>

record discoverableStore =
  ds_storeId :: string
  ds_merchantId :: string
  ds_menuId :: uuid
  ds_menuVersion :: nat
  ds_orderable :: bool
  ds_reason :: orderabilityReason
  ds_evaluatedAt :: iso_date

text \<open>\<open>new Date(a).getTime() > new Date(b).getTime()\<close>\<close>

definition later :: "host \<Rightarrow> iso_date \<Rightarrow> iso_date \<Rightarrow> bool" where
  "later h a b = (case (host_getTime h a, host_getTime h b) of (Some x, Some y) \<Rightarrow> x > y | _ \<Rightarrow> False)"

definition select_latest :: "host \<Rightarrow> menu \<Rightarrow> (string, menu) jsmap \<Rightarrow> (string, menu) jsmap" where
  "select_latest h m latest =
     (case map_get latest (mn_storeId m) of
        None \<Rightarrow> map_set (mn_storeId m) m latest
      | Some existing \<Rightarrow>
          if later h (mn_updatedAt m) (mn_updatedAt existing)
          then map_set (mn_storeId m) m latest else latest)"

definition selectLatestMenuByStore :: "host \<Rightarrow> menu list \<Rightarrow> (string, menu) jsmap" where
  "selectLatestMenuByStore h menus = fold (select_latest h) menus []"

definition discovery_entry :: "host \<Rightarrow> int \<Rightarrow> status_repo \<Rightarrow> menu \<Rightarrow> discoverableStore" where
  "discovery_entry h t sr m =
     (let o' = evaluateOrderability h (mn_storeId m) t sr
      in \<lparr>ds_storeId = mn_storeId m, ds_merchantId = mn_merchantId m, ds_menuId = mn_id m,
          ds_menuVersion = mn_currentVersion m, ds_orderable = so_orderable o',
          ds_reason = so_reason o', ds_evaluatedAt = so_evaluatedAt o'\<rparr>)"

definition listStores :: "host \<Rightarrow> int \<Rightarrow> bool option \<Rightarrow> menu_repo \<Rightarrow> status_repo \<Rightarrow> discoverableStore list" where
  "listStores h t orderable mr sr =
     (let latestByStore = selectLatestMenuByStore h (menu_list mr);
          entries = map (discovery_entry h t sr) (map_values latestByStore);
          kept = filter (\<lambda>e. case orderable of None \<Rightarrow> True | Some b \<Rightarrow> ds_orderable e = b) entries
      in js_sort (\<lambda>l r. locale_gt h (ds_storeId l) (ds_storeId r)) kept)"

section \<open>The menu of a store\<close>

record storeMenuViewItem =
  svi_itemId :: string
  svi_name :: string
  svi_priceCents :: jsnum
  svi_available :: bool
  svi_unavailableReason :: "string option"

record storeMenuView =
  sv_storeId :: string
  sv_menuId :: uuid
  sv_menuName :: string
  sv_version :: nat
  sv_items :: "storeMenuViewItem list"

datatype store_menu_error = StoreMenuNotFound string

definition view_item :: "item_repo \<Rightarrow> menuItem \<Rightarrow> storeMenuViewItem" where
  "view_item ir i =
     (let a = item_findByItemId (mi_itemId i) ir
      in \<lparr>svi_itemId = mi_itemId i, svi_name = mi_name i, svi_priceCents = mi_priceCents i,
          svi_available = nullish (map_option ia_available a) True,
          svi_unavailableReason = (case a of None \<Rightarrow> None | Some x \<Rightarrow> ia_reason x)\<rparr>)"

definition current_version :: "menu \<Rightarrow> menuVersion option" where
  "current_version m =
     (case List.find (\<lambda>c. mv_version c = mn_currentVersion m) (mn_versions m) of
        Some v \<Rightarrow> Some v
      | None \<Rightarrow> if mn_versions m = [] then None else Some (last (mn_versions m)))"

definition getStoreMenu ::
  "host \<Rightarrow> string \<Rightarrow> bool \<Rightarrow> menu_repo \<Rightarrow> item_repo \<Rightarrow> store_menu_error + storeMenuView" where
  "getStoreMenu h storeId availableOnly mr ir =
     (case js_sort (\<lambda>l r. locale_gt h (mn_updatedAt r) (mn_updatedAt l)) (menu_listByStoreId storeId mr) of
        [] \<Rightarrow> Inl (StoreMenuNotFound storeId)
      | m # _ \<Rightarrow>
          (case current_version m of
             None \<Rightarrow> Inl (StoreMenuNotFound storeId)
           | Some version \<Rightarrow>
               let items = map (view_item ir) (mv_items version);
                   filteredItems = (if availableOnly then filter svi_available items else items)
               in Inr \<lparr>sv_storeId = storeId, sv_menuId = mn_id m, sv_menuName = mv_name version,
                       sv_version = mv_version version, sv_items = filteredItems\<rparr>))"

section \<open>Runs of the menu service\<close>

datatype menu_op =
    CreateMenu uuid iso_date iso_date createMenuInput
  | UpdateMenu iso_date iso_date uuid updateMenuInput

fun menu_step :: "menu_op \<Rightarrow> menu_repo \<Rightarrow> menu_repo" where
  "menu_step (CreateMenu uid n1 n2 inp) r = snd (createMenu uid n1 n2 inp r)"
| "menu_step (UpdateMenu n1 n2 i inp) r = snd (updateMenu n1 n2 i inp r)"

fun menu_run :: "menu_op list \<Rightarrow> menu_repo \<Rightarrow> menu_repo" where
  "menu_run [] r = r"
| "menu_run (op # ops) r = menu_run ops (menu_step op r)"

text \<open>The identifiers \<open>randomUUID\<close> draws are not in use.\<close>

fun menu_fresh :: "menu_op list \<Rightarrow> menu_repo \<Rightarrow> bool" where
  "menu_fresh [] r = True"
| "menu_fresh (op # ops) r =
     ((case op of CreateMenu uid _ _ _ \<Rightarrow> menu_findById uid r = None | _ \<Rightarrow> True) \<and> menu_fresh ops (menu_step op r))"

definition versions_numbered :: "menu \<Rightarrow> bool" where
  "versions_numbered m = (1 \<le> mn_currentVersion m \<and> map mv_version (mn_versions m) = [1..<mn_currentVersion m + 1])"

definition menus_ok :: "menu_repo \<Rightarrow> bool" where
  "menus_ok r = (map_wf r \<and> menus.keys_agree r \<and> menus.every versions_numbered r)"

lemma menus_ok_empty: "menus_ok []"
  by (simp add: menus_ok_def menus.keys_agree_fresh menus.every_fresh)

lemma menus_ok_save: "menus_ok r \<Longrightarrow> versions_numbered m \<Longrightarrow> menus_ok (menu_save m r)"
  by (simp add: menus_ok_def menus.wf_save menus.keys_agree_save menus.every_save)

lemma menus_ok_find: "menus_ok r \<Longrightarrow> menu_findById i r = Some m \<Longrightarrow> versions_numbered m \<and> mn_id m = i"
  by (simp add: menus_ok_def menus.every_def menus.keys_agree_def)

lemma menu_step_ok: "menus_ok r \<Longrightarrow> menus_ok (menu_step op r)"
proof (cases op)
  case (CreateMenu uid n1 n2 inp)
  assume "menus_ok r"
  with CreateMenu show ?thesis
    by (auto simp: createMenu_def Let_def versions_numbered_def buildVersion_def intro!: menus_ok_save)
next
  case (UpdateMenu n1 n2 i inp)
  assume r: "menus_ok r"
  show ?thesis
  proof (cases "menu_findById i r")
    case None
    with UpdateMenu r show ?thesis by (simp add: updateMenu_def)
  next
    case (Some m)
    then have "versions_numbered m" using r menus_ok_find by blast
    with Some UpdateMenu r show ?thesis
      by (auto simp: updateMenu_def Let_def versions_numbered_def buildVersion_def intro!: menus_ok_save)
  qed
qed

lemma menu_run_ok: "menus_ok r \<Longrightarrow> menus_ok (menu_run ops r)"
  by (induction ops arbitrary: r) (simp_all add: menu_step_ok)

lemma run_versions: "m \<in> set (menu_list (menu_run ops [])) \<Longrightarrow> versions_numbered m"
  using menu_run_ok [OF menus_ok_empty, of ops] menus.every_records [of "menu_run ops []" versions_numbered]
  unfolding menus_ok_def by blast

lemma menu_step_history:
  assumes "menus_ok r" "menu_fresh [op] r" "menu_findById i r = Some m"
  shows "\<exists>m'. menu_findById i (menu_step op r) = Some m' \<and> prefix (mn_versions m) (mn_versions m')"
proof (cases op)
  case (CreateMenu uid n1 n2 inp)
  with assms show ?thesis by (auto simp: createMenu_def Let_def menus.find_save)
next
  case (UpdateMenu n1 n2 j inp)
  with assms show ?thesis
    using menus_ok_find [OF assms(1)]
    by (fastforce simp: updateMenu_def Let_def menus.find_save split: option.splits)
qed

lemma menu_run_history:
  "menus_ok r \<Longrightarrow> menu_fresh ops r \<Longrightarrow> menu_findById i r = Some m \<Longrightarrow>
   \<exists>m'. menu_findById i (menu_run ops r) = Some m' \<and> prefix (mn_versions m) (mn_versions m')"
proof (induction ops arbitrary: r m)
  case Nil
  then show ?case by simp
next
  case (Cons op ops)
  from Cons.prems obtain m1 where m1: "menu_findById i (menu_step op r) = Some m1" "prefix (mn_versions m) (mn_versions m1)"
    using menu_step_history [of r op i m] by auto
  with Cons.IH [of "menu_step op r" m1] Cons.prems menu_step_ok
  show ?case by (auto intro: prefix_order.trans)
qed

text \<open>With its versions numbered from 1 the current version of a menu is the last one.\<close>

lemma find_numbered:
  "map f xs = [1..<length xs + 1] \<Longrightarrow> xs \<noteq> [] \<Longrightarrow> List.find (\<lambda>x. f x = length xs) xs = Some (last xs)"
proof (induction xs rule: rev_induct)
  case Nil
  then show ?case by simp
next
  case (snoc x xs)
  then have f: "f x = length xs + 1" and fs: "map f xs = [1..<length xs + 1]" by auto
  have "\<forall>y \<in> set xs. f y \<noteq> length xs + 1"
  proof
    fix y assume "y \<in> set xs"
    then have "f y \<in> set (map f xs)" by simp
    then show "f y \<noteq> length xs + 1" unfolding fs by auto
  qed
  then have "List.find (\<lambda>y. f y = length xs + 1) xs = None" by (auto simp: find_None_iff)
  then show ?case using f by (simp add: find_append)
qed

lemma current_version_last:
  assumes "versions_numbered m"
  shows "current_version m = Some (last (mn_versions m)) \<and> mv_version (last (mn_versions m)) = mn_currentVersion m"
proof -
  let ?vs = "mn_versions m"
  have vs: "map mv_version ?vs = [1..<mn_currentVersion m + 1]" "1 \<le> mn_currentVersion m"
    using assms by (auto simp: versions_numbered_def)
  then have len: "length ?vs = mn_currentVersion m" by (metis length_map length_upt add_diff_cancel_right')
  have ne: "?vs \<noteq> []" using len vs(2) by auto
  have find: "List.find (\<lambda>c. mv_version c = mn_currentVersion m) ?vs = Some (last ?vs)"
    using find_numbered [of mv_version ?vs] vs(1) ne by (simp add: len)
  then have "mv_version (last ?vs) = mn_currentVersion m" by (auto simp: find_Some_iff)
  with find show ?thesis by (simp add: current_version_def)
qed

section \<open>Discovery picks the latest menu of each store\<close>

definition latest_upto :: "host \<Rightarrow> menu list \<Rightarrow> (string, menu) jsmap \<Rightarrow> bool" where
  "latest_upto h ms l =
     (map_wf l \<and>
      (\<forall>s m. map_get l s = Some m \<longrightarrow> m \<in> set ms \<and> mn_storeId m = s \<and>
         (\<forall>m' \<in> set ms. mn_storeId m' = s \<longrightarrow> \<not> later h (mn_updatedAt m') (mn_updatedAt m))) \<and>
      (\<forall>m' \<in> set ms. map_get l (mn_storeId m') \<noteq> None))"

lemma select_latest_step:
  assumes l: "latest_upto h ms l" and d: "\<forall>m' \<in> set (ms @ [m]). host_getTime h (mn_updatedAt m') \<noteq> None"
  shows "latest_upto h (ms @ [m]) (select_latest h m l)"
proof (cases "map_get l (mn_storeId m)")
  case None
  have n: "\<And>m'. m' \<in> set ms \<Longrightarrow> mn_storeId m' \<noteq> mn_storeId m" using l None by (auto simp: latest_upto_def)
  from None have "select_latest h m l = map_set (mn_storeId m) m l" by (simp add: select_latest_def)
  then show ?thesis using l n by (auto simp: latest_upto_def map_get_set later_def split: option.splits)
next
  case (Some e)
  then have e: "e \<in> set ms" "mn_storeId e = mn_storeId m"
    "\<And>m'. m' \<in> set ms \<Longrightarrow> mn_storeId m' = mn_storeId m \<Longrightarrow> \<not> later h (mn_updatedAt m') (mn_updatedAt e)"
    using l by (auto simp: latest_upto_def)
  show ?thesis
  proof (cases "later h (mn_updatedAt m) (mn_updatedAt e)")
    case True
    have "\<not> later h (mn_updatedAt m') (mn_updatedAt m)" if "m' \<in> set (ms @ [m])" "mn_storeId m' = mn_storeId m" for m'
      using that e(3) [of m'] True by (auto simp: later_def split: option.splits)
    with Some True l show ?thesis
      by (auto simp: latest_upto_def select_latest_def map_get_set)
  next
    case False
    with Some l e show ?thesis by (auto simp: latest_upto_def select_latest_def)
  qed
qed

lemma fold_select_latest:
  "latest_upto h ms l \<Longrightarrow> \<forall>m' \<in> set (ms @ ms'). host_getTime h (mn_updatedAt m') \<noteq> None \<Longrightarrow>
   latest_upto h (ms @ ms') (fold (select_latest h) ms' l)"
proof (induction ms' arbitrary: ms l)
  case Nil
  then show ?case by simp
next
  case (Cons m ms')
  then have "latest_upto h (ms @ [m]) (select_latest h m l)" by (intro select_latest_step) auto
  with Cons.IH [of "ms @ [m]"] Cons.prems show ?case by simp
qed

lemma selectLatestMenuByStore_latest:
  "\<forall>m' \<in> set ms. host_getTime h (mn_updatedAt m') \<noteq> None \<Longrightarrow> latest_upto h ms (selectLatestMenuByStore h ms)"
  using fold_select_latest [of h "[]" "[]" ms] by (simp add: selectLatestMenuByStore_def latest_upto_def)

section \<open>Opening hours\<close>

lemma isValidHHMM_minutes:
  assumes "isValidHHMM v"
  obtains k where "toMinutes v = num_int k" and "0 \<le> k" and "k < 1440"
proof -
  obtain a b c d e where v: "v = [a, b, c, d, e]"
    using assms by (auto simp: isValidHHMM_def split: list.splits)
  obtain h1 h2 m1 m2 where dg: "digit_value a = Some h1" "digit_value b = Some h2" "digit_value d = Some m1" "digit_value e = Some m2"
    using assms by (auto simp: v isValidHHMM_def split: option.splits)
  let ?h = "int (10 * h1 + h2)" and ?m = "int (10 * m1 + m2)"
  have n: "js_Number [a, b] = num_int ?h" "js_Number [d, e] = num_int ?m"
    by (rule js_Number_two_digits [OF dg(1,2)]) (rule js_Number_two_digits [OF dg(3,4)])
  have c: "c = CHR '':''" and h: "num_le (js_Number [a, b]) (Fin 23)" and m: "num_le (js_Number [d, e]) (Fin 59)"
    using assms dg by (auto simp: v isValidHHMM_def)
  have h23: "?h \<le> 23" using h unfolding n num_le_int_numeral .
  have m59: "?m \<le> 59" using m unfolding n num_le_int_numeral .
  have "split_char (CHR '':'') v = [[a, b], [d, e]]"
    using dg [THEN digit_not_special(13)] by (simp add: v c)
  then have "toMinutes v = num_add (num_mul (num_int ?h) (num_int 60)) (num_int ?m)"
    by (simp add: toMinutes_def n)
  also have "\<dots> = num_int (?h * 60 + ?m)"
    using num_mul_int [of ?h 60] num_add_int [of "?h * 60" ?m] h23 m59 by simp
  finally show thesis using h23 m59 that [of "?h * 60 + ?m"] by simp
qed

lemma minutes_of_day: "0 \<le> getCurrentMinutesUtc t \<and> getCurrentMinutesUtc t < 1440"
  by (simp add: getCurrentMinutesUtc_def)

lemma cyclic_window:
  fixes n p c :: int
  assumes "0 \<le> n" "n < 1440" "0 \<le> p" "p < 1440" "0 \<le> c" "c < 1440"
  shows "(if p \<le> c then p \<le> n \<and> n \<le> c else p \<le> n \<or> n \<le> c) \<longleftrightarrow> (n - p) mod 1440 \<le> (c - p) mod 1440"
proof -
  have m: "(x - p) mod 1440 = (if p \<le> x then x - p else x - p + 1440)" if "0 \<le> x" "x < 1440" for x
  proof (cases "p \<le> x")
    case False
    then have "(x - p + 1440) mod 1440 = x - p + 1440" using that assms by (intro mod_pos_pos_trivial) simp_all
    with False show ?thesis by simp
  qed (use that assms in simp)
  show ?thesis using assms by (auto simp: m)
qed

lemma isValidHHMM_digits:
  assumes "digit_value a = Some h1" "digit_value b = Some h2" "digit_value d = Some m1" "digit_value e = Some m2"
    and "10 * h1 + h2 \<le> 23" "10 * m1 + m2 \<le> 59"
  shows "isValidHHMM [a, b, CHR '':'', d, e]"
proof -
  have n: "js_Number [a, b] = num_int (int (10 * h1 + h2))" "js_Number [d, e] = num_int (int (10 * m1 + m2))"
    by (rule js_Number_two_digits [OF assms(1,2)]) (rule js_Number_two_digits [OF assms(3,4)])
  have "of_nat (10 * h1 + h2) \<le> (23::rat)" "of_nat (10 * m1 + m2) \<le> (59::rat)"
    using assms(5,6) of_nat_le_iff [where 'a = rat] by (metis of_nat_numeral)+
  then show ?thesis
    unfolding isValidHHMM_def using n assms(1-4) by simp
qed

lemma same_multiset_distinct: "mset xs = mset ys \<Longrightarrow> distinct (map f xs) = distinct (map f ys)"
  by (rule mset_eq_imp_distinct_iff) simp

lemma discovery_entry_storeId [simp]: "ds_storeId (discovery_entry h t sr m) = mn_storeId m"
  by (simp add: discovery_entry_def Let_def)

definition wanted :: "bool option \<Rightarrow> discoverableStore \<Rightarrow> bool" where
  "wanted f e = (case f of None \<Rightarrow> True | Some b \<Rightarrow> ds_orderable e = b)"

lemma listStores_eq:
  "listStores h t f mr sr = js_sort (\<lambda>l r. locale_gt h (ds_storeId l) (ds_storeId r))
     (filter (wanted f) (map (discovery_entry h t sr) (map_values (selectLatestMenuByStore h (menu_list mr)))))"
  by (simp add: listStores_def Let_def wanted_def [abs_def])

lemma selected_menu:
  assumes "\<forall>m \<in> set (menu_list mr). host_getTime h (mn_updatedAt m) \<noteq> None"
  shows "m \<in> set (map_values (selectLatestMenuByStore h (menu_list mr))) \<longleftrightarrow>
    map_get (selectLatestMenuByStore h (menu_list mr)) (mn_storeId m) = Some m"
  using selectLatestMenuByStore_latest [OF assms] in_map_values [of "selectLatestMenuByStore h (menu_list mr)" m]
  unfolding latest_upto_def by metis

lemma discovery_distinct:
  assumes "\<forall>m \<in> set (menu_list mr). host_getTime h (mn_updatedAt m) \<noteq> None"
  shows "distinct (map ds_storeId (listStores h t f mr sr))"
proof -
  let ?l = "selectLatestMenuByStore h (menu_list mr)"
  have l: "latest_upto h (menu_list mr) ?l" using assms by (rule selectLatestMenuByStore_latest)
  then have wf: "map_wf ?l" by (simp add: latest_upto_def)
  have "map mn_storeId (map_values ?l) = map_keys ?l"
    using l by (auto simp: map_values_def map_keys_def latest_upto_def dest: map_wf_get)
  then have "distinct (map ds_storeId (map (discovery_entry h t sr) (map_values ?l)))"
    using wf by (simp add: comp_def map_wf_def)
  then have "distinct (map ds_storeId (filter (wanted f) (map (discovery_entry h t sr) (map_values ?l))))"
    by (rule distinct_map_filter)
  then show ?thesis
    unfolding listStores_eq by (subst same_multiset_distinct [OF mset_js_sort])
qed

lemma discovery_entries:
  assumes "\<forall>m \<in> set (menu_list mr). host_getTime h (mn_updatedAt m) \<noteq> None"
    and "e \<in> set (listStores h t f mr sr)"
  shows "\<exists>m \<in> set (menu_list mr). e = discovery_entry h t sr m \<and> wanted f e \<and>
    (\<forall>m' \<in> set (menu_list mr). mn_storeId m' = mn_storeId m \<longrightarrow> \<not> later h (mn_updatedAt m') (mn_updatedAt m))"
proof -
  obtain m where m: "m \<in> set (map_values (selectLatestMenuByStore h (menu_list mr)))" "e = discovery_entry h t sr m" "wanted f e"
    using assms(2) by (auto simp: listStores_eq)
  then have "map_get (selectLatestMenuByStore h (menu_list mr)) (mn_storeId m) = Some m"
    using selected_menu [OF assms(1)] by blast
  then show ?thesis
    using m(2,3) selectLatestMenuByStore_latest [OF assms(1)] unfolding latest_upto_def by metis
qed

lemma discovery_complete:
  assumes "\<forall>m \<in> set (menu_list mr). host_getTime h (mn_updatedAt m) \<noteq> None" and "m \<in> set (menu_list mr)"
  shows "mn_storeId m \<in> ds_storeId ` set (listStores h t None mr sr)"
proof -
  have l: "latest_upto h (menu_list mr) (selectLatestMenuByStore h (menu_list mr))"
    by (rule selectLatestMenuByStore_latest [OF assms(1)])
  then obtain e where e1: "map_get (selectLatestMenuByStore h (menu_list mr)) (mn_storeId m) = Some e"
    using assms(2) unfolding latest_upto_def by blast
  then have "mn_storeId e = mn_storeId m" using l unfolding latest_upto_def by blast
  note e = e1 this
  then have "e \<in> set (map_values (selectLatestMenuByStore h (menu_list mr)))"
    using selected_menu [OF assms(1)] by simp
  then have "discovery_entry h t sr e \<in> set (listStores h t None mr sr)"
    by (simp add: listStores_eq wanted_def)
  then have "ds_storeId (discovery_entry h t sr e) \<in> ds_storeId ` set (listStores h t None mr sr)" by (rule imageI)
  then show ?thesis using e(2) by simp
qed

lemma listing_sorted:
  assumes "consistent_collation h"
  shows "sorted_wrt (\<lambda>a b. \<not> locale_gt h (ds_storeId a) (ds_storeId b)) (listStores h t f mr sr)"
  unfolding listStores_eq by (rule comparator_contract.sorted_js_sort [OF consistent_collation_comparator [OF assms]])

section \<open>Properties\<close>

text \<open>C21: Along any run of menu creations (with fresh identifiers) and updates, a menu found at
  some point is still found later, its versions are numbered 1, 2, ... up to the current
  version, and the versions it had are a prefix of those it has: no version is lost,
  renumbered or changed.\<close>

theorem menu_history:
  assumes "menu_fresh later_ops (menu_run ops [])" and "menu_findById i (menu_run ops []) = Some m"
  shows "\<exists>m'. menu_findById i (menu_run later_ops (menu_run ops [])) = Some m' \<and>
     prefix (mn_versions m) (mn_versions m') \<and>
     map mv_version (mn_versions m') = [1..<mn_currentVersion m' + 1] \<and> 1 \<le> mn_currentVersion m' \<and> mn_id m' = i"
proof -
  have ok: "menus_ok (menu_run ops [])" by (rule menu_run_ok) (rule menus_ok_empty)
  then obtain m' where "menu_findById i (menu_run later_ops (menu_run ops [])) = Some m'"
    "prefix (mn_versions m) (mn_versions m')"
    using menu_run_history assms by blast
  moreover from this(1) have "versions_numbered m' \<and> mn_id m' = i"
    using menus_ok_find menu_run_ok [OF ok] by blast
  ultimately show ?thesis by (auto simp: versions_numbered_def)
qed

definition demo_menu_input :: createMenuInput where
  "demo_menu_input = \<lparr>cmi_merchantId = ''m1'', cmi_storeId = ''s1'', cmi_name = '' Lunch '',
     cmi_items = [\<lparr>mii_itemId = ''i1'', mii_name = ''Soup'', mii_priceCents = Fin 500\<rparr>]\<rparr>"

definition demo_menu_update :: updateMenuInput where
  "demo_menu_update = \<lparr>umi_name = ''Dinner'', umi_items = []\<rparr>"

lemma menu_history_witness:
  "\<exists>m'. menu_findById ''u'' (menu_run [UpdateMenu ''7'' ''8'' ''u'' demo_menu_update]
       (menu_run [CreateMenu ''u'' ''5'' ''6'' demo_menu_input] [])) = Some m' \<and>
     prefix (mn_versions (fst (createMenu ''u'' ''5'' ''6'' demo_menu_input []))) (mn_versions m') \<and>
     map mv_version (mn_versions m') = [1..<mn_currentVersion m' + 1] \<and> 1 \<le> mn_currentVersion m' \<and> mn_id m' = ''u''"
  by (rule menu_history) (simp_all add: createMenu_def Let_def menus.find_save menus.find_fresh)

text \<open>C22: For a stored schedule with valid HH:MM times a store that is not paused is orderable
  exactly when the minute of the day lies on the way from the opening to the closing
  minute around the clock, so overnight windows (open after close) are right too; a paused
  store and a store without a status are never orderable, with their own reasons.\<close>

theorem orderability_window:
  assumes "status_findByStoreId sid r = Some s"
    and "isValidHHMM (ss_open (st_schedule s))" and "isValidHHMM (ss_close (st_schedule s))"
  shows "\<exists>p c. toMinutes (ss_open (st_schedule s)) = num_int p \<and> toMinutes (ss_close (st_schedule s)) = num_int c \<and>
     so_reason (evaluateOrderability h sid t r) =
       (if st_paused s then STORE_PAUSED
        else if (getCurrentMinutesUtc t - p) mod 1440 \<le> (c - p) mod 1440 then ORD_OK else OUTSIDE_STORE_HOURS) \<and>
     (so_orderable (evaluateOrderability h sid t r) \<longleftrightarrow> so_reason (evaluateOrderability h sid t r) = ORD_OK)"
proof -
  obtain p where p: "toMinutes (ss_open (st_schedule s)) = num_int p" "0 \<le> p" "p < 1440"
    using assms(2) by (rule isValidHHMM_minutes)
  obtain c where c: "toMinutes (ss_close (st_schedule s)) = num_int c" "0 \<le> c" "c < 1440"
    using assms(3) by (rule isValidHHMM_minutes)
  have w: "(if p \<le> c then p \<le> getCurrentMinutesUtc t \<and> getCurrentMinutesUtc t \<le> c
            else p \<le> getCurrentMinutesUtc t \<or> getCurrentMinutesUtc t \<le> c) \<longleftrightarrow>
           (getCurrentMinutesUtc t - p) mod 1440 \<le> (c - p) mod 1440"
    using cyclic_window minutes_of_day p c by blast
  have "so_reason (evaluateOrderability h sid t r) =
       (if st_paused s then STORE_PAUSED
        else if (getCurrentMinutesUtc t - p) mod 1440 \<le> (c - p) mod 1440 then ORD_OK else OUTSIDE_STORE_HOURS) \<and>
     (so_orderable (evaluateOrderability h sid t r) \<longleftrightarrow> so_reason (evaluateOrderability h sid t r) = ORD_OK)"
    unfolding w [symmetric] by (simp add: evaluateOrderability_def assms(1) p(1) c(1) Let_def)
  with p(1) c(1) show ?thesis by blast
qed

definition night_store :: storeStatus where
  "night_store = \<lparr>st_storeId = ''s1'', st_paused = False,
     st_schedule = \<lparr>ss_open = ''22:00'', ss_close = ''02:30'', ss_timezone = ''UTC''\<rparr>, st_updatedAt = ''0''\<rparr>"

lemma orderability_window_witness:
  "\<exists>p c. toMinutes ''22:00'' = num_int p \<and> toMinutes ''02:30'' = num_int c \<and>
     so_reason (evaluateOrderability epoch_host ''s1'' 3600000 [(''s1'', night_store)]) =
       (if (getCurrentMinutesUtc 3600000 - p) mod 1440 \<le> (c - p) mod 1440 then ORD_OK else OUTSIDE_STORE_HOURS)"
proof -
  have v1: "isValidHHMM ''22:00''"
    by (rule isValidHHMM_digits [of _ 2 _ 2 _ 0 _ 0]) (simp_all add: digit_value_def)
  have v2: "isValidHHMM ''02:30''"
    by (rule isValidHHMM_digits [of _ 0 _ 2 _ 3 _ 0]) (simp_all add: digit_value_def)
  have s: "status_findByStoreId ''s1'' [(''s1'', night_store)] = Some night_store"
    "ss_open (st_schedule night_store) = ''22:00''" "ss_close (st_schedule night_store) = ''02:30''"
    "st_paused night_store = False"
    by (simp_all add: status_findByStoreId_def map_get_def night_store_def)
  show ?thesis
    using orderability_window [OF s(1), of epoch_host 3600000, unfolded s(2-4), OF v1 v2] unfolding if_False by blast
qed

text \<open>Store discovery lists each store that has a menu at most once, in collation order of the
  store ids, with a menu of that store such that no menu of the store was updated later,
  with the orderability of the store at the requested time, and (without a filter) it
  misses no store.\<close>

lemma discovery_latest:
  assumes "consistent_collation h" and "\<forall>m \<in> set (menu_list mr). host_getTime h (mn_updatedAt m) \<noteq> None"
  shows "distinct (map ds_storeId (listStores h t flt mr sr)) \<and>
    sorted_wrt (\<lambda>a b. \<not> locale_gt h (ds_storeId a) (ds_storeId b)) (listStores h t flt mr sr) \<and>
    (\<forall>e \<in> set (listStores h t flt mr sr). \<exists>m \<in> set (menu_list mr).
       e = discovery_entry h t sr m \<and> wanted flt e \<and>
       (\<forall>m' \<in> set (menu_list mr). mn_storeId m' = mn_storeId m \<longrightarrow> \<not> later h (mn_updatedAt m') (mn_updatedAt m))) \<and>
    (\<forall>m \<in> set (menu_list mr). mn_storeId m \<in> ds_storeId ` set (listStores h t None mr sr))"
  using discovery_entries [OF assms(2)] discovery_complete [OF assms(2)] discovery_distinct [OF assms(2)]
    listing_sorted [OF assms(1)] by blast

lemma discovery_latest_witness:
  "distinct (map ds_storeId (listStores epoch_host 0 None (menu_run [CreateMenu ''u'' ''5'' ''6'' demo_menu_input] []) []))"
proof -
  let ?r = "menu_run [CreateMenu ''u'' ''5'' ''6'' demo_menu_input] []"
  have "\<forall>m \<in> set (menu_list ?r). host_getTime epoch_host (mn_updatedAt m) \<noteq> None"
    by (simp add: createMenu_def Let_def menu_save_def menu_list_def map_values_def map_set_def
        epoch_host_def is_digit_char_def digit_value_def)
  then show ?thesis using discovery_latest [OF epoch_host_consistent, of ?r 0 None "[]"] by blast
qed

text \<open>The menu a consumer sees is one whose update time no other menu of the store exceeds in
  collation order, in its current and newest version; items not set otherwise are shown
  available, and with \<open>availableOnly\<close> only available items are shown; an error is returned
  exactly when the store has no menu.\<close>

lemma store_menu_current:
  assumes "consistent_collation h" and "mr = menu_run ops []"
  shows "(case getStoreMenu h sid ao mr ir of
      Inl e \<Rightarrow> e = StoreMenuNotFound sid \<and> menu_listByStoreId sid mr = []
    | Inr v \<Rightarrow> (\<exists>m \<in> set (menu_listByStoreId sid mr).
         sv_menuId v = mn_id m \<and> sv_version v = mn_currentVersion m \<and> mn_versions m \<noteq> [] \<and>
         sv_items v = (if ao then filter svi_available else id) (map (view_item ir) (mv_items (last (mn_versions m)))) \<and>
         (\<forall>m' \<in> set (menu_listByStoreId sid mr). \<not> locale_gt h (mn_updatedAt m') (mn_updatedAt m))))"
proof (cases "js_sort (\<lambda>l r. locale_gt h (mn_updatedAt r) (mn_updatedAt l)) (menu_listByStoreId sid mr)")
  case Nil
  then have "menu_listByStoreId sid mr = []" by (metis length_0_conv length_js_sort)
  with Nil show ?thesis by (simp add: getStoreMenu_def)
next
  case (Cons m ms)
  let ?gt = "\<lambda>l r. locale_gt h (mn_updatedAt r) (mn_updatedAt l)"
  have m: "m \<in> set (menu_listByStoreId sid mr)" by (metis Cons list.set_intros(1) set_js_sort)
  have least: "\<not> locale_gt h (mn_updatedAt m') (mn_updatedAt m)" if "m' \<in> set (menu_listByStoreId sid mr)" for m'
    using comparator_contract.hd_js_sort_least [OF consistent_collation_rev_comparator [OF assms(1)] that, of mn_updatedAt] Cons by simp
  have "versions_numbered m"
    using m assms(2) run_versions [of m ops] by (auto simp: menu_listByStoreId_def menu_list_def)
  then have "current_version m = Some (last (mn_versions m))" "mv_version (last (mn_versions m)) = mn_currentVersion m"
    "mn_versions m \<noteq> []"
    using current_version_last by (auto simp: versions_numbered_def)
  then have "getStoreMenu h sid ao mr ir = Inr \<lparr>sv_storeId = sid, sv_menuId = mn_id m,
      sv_menuName = mv_name (last (mn_versions m)), sv_version = mn_currentVersion m,
      sv_items = (if ao then filter svi_available else id) (map (view_item ir) (mv_items (last (mn_versions m))))\<rparr>"
    using Cons by (simp add: getStoreMenu_def Let_def)
  then show ?thesis using m least \<open>mn_versions m \<noteq> []\<close> by auto
qed

lemma store_menu_current_witness:
  "case getStoreMenu epoch_host ''s1'' True (menu_run [CreateMenu ''u'' ''5'' ''6'' demo_menu_input] []) [] of
     Inl e \<Rightarrow> False | Inr v \<Rightarrow> sv_version v = 1"
  using store_menu_current [OF epoch_host_consistent refl,
    where sid = "''s1''" and ao = True and ops = "[CreateMenu ''u'' ''5'' ''6'' demo_menu_input]" and ir = "[]"]
  by (auto simp: createMenu_def Let_def menu_save_def menu_listByStoreId_def map_values_def map_set_def demo_menu_input_def
      split: sum.splits)

end
