(* ===== verification/Identity.thy ===== *)
theory Identity
  imports EventBus
begin

text \<open>
  Identity (\<open>core-api/src/modules/identity\<close>): registration, login, rotating refresh
  tokens, signed access tokens and role permissions. A string is read as its UTF-8 bytes,
  so \<open>Buffer.from(value)\<close> is the identity. The keyed hash and the JSON text of
  the claims are the record \<open>jwt_lib\<close>; random bytes, identifiers and clock readings are
  arguments in the order the code asks for them.
\<close>

section \<open>Users\<close>

datatype user_role = Consumer | Courier | Merchant_operator | Support_agent | Finance_ops | System_admin

definition role_name :: "user_role \<Rightarrow> string" where
  "role_name r = (case r of
     Consumer \<Rightarrow> ''consumer'' | Courier \<Rightarrow> ''courier'' | Merchant_operator \<Rightarrow> ''merchant_operator''
   | Support_agent \<Rightarrow> ''support_agent'' | Finance_ops \<Rightarrow> ''finance_ops'' | System_admin \<Rightarrow> ''system_admin'')"

record registerIdentityInput =
  rin_email :: string
  rin_phone :: string
  rin_passwordHash :: string
  rin_role :: user_role

record identityUser =
  iu_id :: uuid
  iu_email :: string
  iu_phone :: string
  iu_passwordHash :: string
  iu_role :: user_role
  iu_createdAt :: iso_date

record identity_repo =
  ir_usersById :: "(uuid, identityUser) jsmap"
  ir_userIdByEmail :: "(string, uuid) jsmap"
  ir_userIdByPhone :: "(string, uuid) jsmap"

definition empty_identity_repo :: identity_repo where
  "empty_identity_repo = \<lparr>ir_usersById = [], ir_userIdByEmail = [], ir_userIdByPhone = []\<rparr>"

definition user_findById :: "uuid \<Rightarrow> identity_repo \<Rightarrow> identityUser option" where
  "user_findById i r = map_get (ir_usersById r) i"

text \<open>\<open>if (!id)\<close>: a missing or empty identifier is not looked up.\<close>

definition user_byIndex :: "uuid option \<Rightarrow> identity_repo \<Rightarrow> identityUser option" where
  "user_byIndex oi r = (case oi of None \<Rightarrow> None | Some i \<Rightarrow> if i = [] then None else map_get (ir_usersById r) i)"

definition findByEmail :: "string \<Rightarrow> identity_repo \<Rightarrow> identityUser option" where
  "findByEmail e r = user_byIndex (map_get (ir_userIdByEmail r) (toLowerCase e)) r"

definition findByPhone :: "string \<Rightarrow> identity_repo \<Rightarrow> identityUser option" where
  "findByPhone p r = user_byIndex (map_get (ir_userIdByPhone r) p) r"

definition user_save :: "identityUser \<Rightarrow> identity_repo \<Rightarrow> identity_repo" where
  "user_save u r = r\<lparr>
     ir_usersById := map_set (iu_id u) u (ir_usersById r),
     ir_userIdByEmail := map_set (toLowerCase (iu_email u)) (iu_id u) (ir_userIdByEmail r),
     ir_userIdByPhone := map_set (iu_phone u) (iu_id u) (ir_userIdByPhone r)\<rparr>"

datatype duplicate_identity_error = IDENTITY_EMAIL_EXISTS | IDENTITY_PHONE_EXISTS

record identity_service =
  is_repository :: identity_repo
  is_eventBus :: event_bus

definition user_registered :: "identityUser \<Rightarrow> iso_date \<Rightarrow> domain_event" where
  "user_registered user now = mk_event ''identity.user_registered.v1'' now
     [(''id'', JStr (iu_id user)), (''email'', JStr (iu_email user)),
      (''phone'', JStr (iu_phone user)), (''role'', JStr (role_name (iu_role user)))]"

definition register ::
  "uuid \<Rightarrow> iso_date \<Rightarrow> iso_date \<Rightarrow> registerIdentityInput \<Rightarrow> identity_service
     \<Rightarrow> (identity_service, duplicate_identity_error, identityUser) outcome" where
  "register uid now1 now2 inp s =
     (let normalizedEmail = toLowerCase (js_trim (rin_email inp));
          normalizedPhone = js_trim (rin_phone inp)
      in if findByEmail normalizedEmail (is_repository s) \<noteq> None then (Inl IDENTITY_EMAIL_EXISTS, s)
      else if findByPhone normalizedPhone (is_repository s) \<noteq> None then (Inl IDENTITY_PHONE_EXISTS, s)
      else
        let user = \<lparr>iu_id = uid, iu_email = normalizedEmail, iu_phone = normalizedPhone,
                    iu_passwordHash = rin_passwordHash inp, iu_role = rin_role inp, iu_createdAt = now1\<rparr>;
            event = user_registered user now2
        in (Inr user, s\<lparr>is_repository := user_save user (is_repository s),
                       is_eventBus := publish event (is_eventBus s)\<rparr>))"

section \<open>Refresh sessions\<close>

record refreshSession =
  rs_token :: string
  rs_userId :: uuid
  rs_familyId :: uuid
  rs_used :: bool
  rs_revoked :: bool
  rs_expiresAtEpochSeconds :: int

record session_store =
  se_byToken :: "(string, refreshSession) jsmap"
  se_tokenFamilies :: "(uuid, string list) jsmap"

definition empty_session_store :: session_store where
  "empty_session_store = \<lparr>se_byToken = [], se_tokenFamilies = []\<rparr>"

definition session_save :: "refreshSession \<Rightarrow> session_store \<Rightarrow> session_store" where
  "session_save r s =
     (let byToken = map_set (rs_token r) r (se_byToken s);
          family = set_add (rs_token r) (nullish (map_get (se_tokenFamilies s) (rs_familyId r)) [])
      in s\<lparr>se_byToken := byToken, se_tokenFamilies := map_set (rs_familyId r) family (se_tokenFamilies s)\<rparr>)"

definition session_get :: "string \<Rightarrow> session_store \<Rightarrow> refreshSession option" where
  "session_get t s = map_get (se_byToken s) t"

definition markUsed :: "string \<Rightarrow> session_store \<Rightarrow> session_store" where
  "markUsed t s =
     (case map_get (se_byToken s) t of
        None \<Rightarrow> s
      | Some r \<Rightarrow> s\<lparr>se_byToken := map_set t (r\<lparr>rs_used := True\<rparr>) (se_byToken s)\<rparr>)"

definition revoke_token :: "string \<Rightarrow> session_store \<Rightarrow> session_store" where
  "revoke_token t s =
     (case map_get (se_byToken s) t of
        None \<Rightarrow> s
      | Some r \<Rightarrow> s\<lparr>se_byToken := map_set t (r\<lparr>rs_revoked := True\<rparr>) (se_byToken s)\<rparr>)"

definition revokeFamily :: "uuid \<Rightarrow> session_store \<Rightarrow> session_store" where
  "revokeFamily f s =
     (case map_get (se_tokenFamilies s) f of
        None \<Rightarrow> s
      | Some tokens \<Rightarrow> fold revoke_token tokens s)"

section \<open>Base64 and signed tokens\<close>

definition base64_alphabet :: string where
  "base64_alphabet = ''ABCDEFGHIJKLMNOPQRSTUVWXYZabcdefghijklmnopqrstuvwxyz0123456789+/''"

definition b64_char :: "nat \<Rightarrow> char" where
  "b64_char n = base64_alphabet ! (n mod 64)"

fun base64 :: "nat list \<Rightarrow> string" where
  "base64 [] = []"
| "base64 [a] = [b64_char (a div 4), b64_char (a mod 4 * 16), CHR ''='', CHR ''='']"
| "base64 [a, b] = [b64_char (a div 4), b64_char (a mod 4 * 16 + b div 16), b64_char (b mod 16 * 4), CHR ''='']"
| "base64 (a # b # c # bs) =
     b64_char (a div 4) # b64_char (a mod 4 * 16 + b div 16) # b64_char (b mod 16 * 4 + c div 64) # b64_char (c mod 64)
     # base64 bs"

definition bytes_of :: "string \<Rightarrow> nat list" where
  "bytes_of s = map of_char s"

definition base64Url :: "string \<Rightarrow> string" where
  "base64Url v =
     rev (dropWhile (\<lambda>c. c = CHR ''='')
       (rev (map (\<lambda>c. if c = CHR ''+'' then CHR ''-'' else if c = CHR ''/'' then CHR ''_'' else c)
          (base64 (bytes_of v)))))"

text \<open>
  \<open>Buffer.from(s, "base64")\<close> stops at the first \<open>=\<close>, skips characters outside the
  alphabet (it takes both alphabets) and drops an incomplete last byte.
\<close>

definition b64_value :: "char \<Rightarrow> nat option" where
  "b64_value c =
     (let k = (of_char c :: nat)
      in if 65 \<le> k \<and> k \<le> 90 then Some (k - 65)
         else if 97 \<le> k \<and> k \<le> 122 then Some (k - 71)
         else if 48 \<le> k \<and> k \<le> 57 then Some (k + 4)
         else if c = CHR ''+'' \<or> c = CHR ''-'' then Some 62
         else if c = CHR ''/'' \<or> c = CHR ''_'' then Some 63
         else None)"

fun b64_bytes :: "nat list \<Rightarrow> nat list" where
  "b64_bytes (p # q # r # t # vs) = (p * 4 + q div 16) # (q mod 16 * 16 + r div 4) # (r mod 4 * 64 + t) # b64_bytes vs"
| "b64_bytes [p, q, r] = [p * 4 + q div 16, q mod 16 * 16 + r div 4]"
| "b64_bytes [p, q] = [p * 4 + q div 16]"
| "b64_bytes vs = []"

definition base64_decode :: "string \<Rightarrow> string" where
  "base64_decode s = map char_of (b64_bytes (List.map_filter b64_value (takeWhile (\<lambda>c. c \<noteq> CHR ''='') s)))"

definition base64UrlDecode :: "string \<Rightarrow> string" where
  "base64UrlDecode v =
     (let normalized = map (\<lambda>c. if c = CHR ''-'' then CHR ''+'' else if c = CHR ''_'' then CHR ''/'' else c) v;
          width = (length normalized + 3) div 4 * 4;
          padded = normalized @ replicate (width - length normalized) (CHR ''='')
      in base64_decode padded)"

record accessTokenClaims =
  cl_sub :: string
  cl_email :: string
  cl_role :: string
  cl_iat :: int
  cl_exp :: int

text \<open>
  \<open>jl_hmacSha256 secret data\<close> is the digest of \<open>createHmac("sha256", secret)\<close>;
  \<open>jl_parse\<close> is \<open>None\<close> where \<open>JSON.parse\<close> throws; a value without \<open>exp\<close> reads as 0.
\<close>

record jwt_lib =
  jl_hmacSha256 :: "string \<Rightarrow> string \<Rightarrow> string"
  jl_stringify :: "accessTokenClaims \<Rightarrow> string"
  jl_parse :: "string \<Rightarrow> accessTokenClaims option"

definition jwt_header :: string where
  "jwt_header = (let q = [CHR 0x22] in
     ''{'' @ q @ ''alg'' @ q @ '':'' @ q @ ''HS256'' @ q @ '','' @ q @ ''typ'' @ q @ '':'' @ q @ ''JWT'' @ q @ ''}'')"

definition signJwt :: "jwt_lib \<Rightarrow> accessTokenClaims \<Rightarrow> string \<Rightarrow> string" where
  "signJwt L payload secret =
     (let header = base64Url jwt_header;
          body = base64Url (jl_stringify L payload);
          signature = base64Url (jl_hmacSha256 L secret (header @ ''.'' @ body))
      in header @ ''.'' @ body @ ''.'' @ signature)"

section \<open>AuthService\<close>

datatype auth_error =
    IDENTITY_INVALID_CREDENTIALS
  | IDENTITY_INVALID_REFRESH_TOKEN
  | IDENTITY_REFRESH_REPLAY_DETECTED
  | IDENTITY_INVALID_ACCESS_TOKEN
  | IDENTITY_MFA_REQUIRED
  | IDENTITY_INVALID_MFA_CODE
  | JSON_SYNTAX_ERROR

record loginInput =
  li_email :: string
  li_passwordHash :: string
  li_mfaCode :: "string option"

record sessionTokens =
  tk_accessToken :: string
  tk_refreshToken :: string

record auth_service =
  au_repository :: identity_repo
  au_eventBus :: event_bus
  au_sessionStore :: session_store
  au_jwtSecret :: string

datatype session_reason = LoginReason | RefreshReason

text \<open>What one call of \<open>issueSession\<close> draws: the clock in seconds, 48 random bytes, a date.\<close>

record session_draw =
  sd_now :: int
  sd_bytes :: string
  sd_occurredAt :: iso_date

definition epoch_seconds :: "int \<Rightarrow> int" where
  "epoch_seconds ms = ms div 1000"

definition issueSession ::
  "jwt_lib \<Rightarrow> session_draw \<Rightarrow> identityUser \<Rightarrow> session_reason \<Rightarrow> uuid \<Rightarrow> auth_service \<Rightarrow> sessionTokens \<times> auth_service" where
  "issueSession L d user reason familyId s =
     (let now = epoch_seconds (sd_now d);
          accessToken = signJwt L \<lparr>cl_sub = iu_id user, cl_email = iu_email user, cl_role = role_name (iu_role user),
                                   cl_iat = now, cl_exp = now + 15 * 60\<rparr> (au_jwtSecret s);
          refreshToken = base64Url (sd_bytes d);
          s1 = s\<lparr>au_sessionStore := session_save
                  \<lparr>rs_token = refreshToken, rs_userId = iu_id user, rs_familyId = familyId, rs_used = False,
                   rs_revoked = False, rs_expiresAtEpochSeconds = now + 30 * 24 * 60 * 60\<rparr> (au_sessionStore s)\<rparr>;
          event = mk_event ''identity.session_issued.v1'' (sd_occurredAt d)
                    [(''userId'', JStr (iu_id user)),
                     (''reason'', JStr (case reason of LoginReason \<Rightarrow> ''login'' | RefreshReason \<Rightarrow> ''refresh''))]
      in (\<lparr>tk_accessToken = accessToken, tk_refreshToken = refreshToken\<rparr>,
          s1\<lparr>au_eventBus := publish event (au_eventBus s1)\<rparr>))"

definition privilegedRoles :: "string list" where
  "privilegedRoles = [''support_agent'', ''finance_ops'', ''system_admin'']"

definition login ::
  "jwt_lib \<Rightarrow> uuid \<Rightarrow> session_draw \<Rightarrow> loginInput \<Rightarrow> auth_service \<Rightarrow> (auth_service, auth_error, sessionTokens) outcome" where
  "login L familyId d inp s =
     (let email = toLowerCase (js_trim (li_email inp)) in
      case findByEmail email (au_repository s) of
        None \<Rightarrow> (Inl IDENTITY_INVALID_CREDENTIALS, s)
      | Some user \<Rightarrow>
          if iu_passwordHash user \<noteq> li_passwordHash inp then (Inl IDENTITY_INVALID_CREDENTIALS, s)
          else if role_name (iu_role user) \<in> set privilegedRoles \<and> (li_mfaCode inp = None \<or> li_mfaCode inp = Some [])
          then (Inl IDENTITY_MFA_REQUIRED, s)
          else if role_name (iu_role user) \<in> set privilegedRoles \<and> li_mfaCode inp \<noteq> Some ''123456''
          then (Inl IDENTITY_INVALID_MFA_CODE, s)
          else (case issueSession L d user LoginReason familyId s of (tokens, s') \<Rightarrow> (Inr tokens, s')))"

definition refresh ::
  "jwt_lib \<Rightarrow> int \<Rightarrow> session_draw \<Rightarrow> string \<Rightarrow> auth_service \<Rightarrow> (auth_service, auth_error, sessionTokens) outcome" where
  "refresh L nowMs d refreshToken s =
     (case session_get refreshToken (au_sessionStore s) of
        None \<Rightarrow> (Inl IDENTITY_INVALID_REFRESH_TOKEN, s)
      | Some r \<Rightarrow>
          if rs_expiresAtEpochSeconds r < epoch_seconds nowMs \<or> rs_revoked r
          then (Inl IDENTITY_INVALID_REFRESH_TOKEN, s)
          else if rs_used r
          then (Inl IDENTITY_REFRESH_REPLAY_DETECTED,
                s\<lparr>au_sessionStore := revokeFamily (rs_familyId r) (au_sessionStore s)\<rparr>)
          else
            let s1 = s\<lparr>au_sessionStore := markUsed (rs_token r) (au_sessionStore s)\<rparr>
            in case user_findById (rs_userId r) (au_repository s1) of
                 None \<Rightarrow> (Inl IDENTITY_INVALID_REFRESH_TOKEN, s1)
               | Some user \<Rightarrow>
                   (case issueSession L d user RefreshReason (rs_familyId r) s1 of
                      (tokens, s2) \<Rightarrow> (Inr tokens, s2)))"

definition verifyAccessToken :: "jwt_lib \<Rightarrow> int \<Rightarrow> string \<Rightarrow> auth_service \<Rightarrow> auth_error + accessTokenClaims" where
  "verifyAccessToken L nowMs accessToken s =
     (case split_char (CHR ''.'') accessToken of
        [header, payload, signature] \<Rightarrow>
          if base64Url (jl_hmacSha256 L (au_jwtSecret s) (header @ ''.'' @ payload)) \<noteq> signature
          then Inl IDENTITY_INVALID_ACCESS_TOKEN
          else (case jl_parse L (base64UrlDecode payload) of
                  None \<Rightarrow> Inl JSON_SYNTAX_ERROR
                | Some claims \<Rightarrow>
                    if cl_exp claims = 0 \<or> cl_exp claims < epoch_seconds nowMs
                    then Inl IDENTITY_INVALID_ACCESS_TOKEN else Inr claims)
      | _ \<Rightarrow> Inl IDENTITY_INVALID_ACCESS_TOKEN)"

section \<open>Role permissions\<close>

definition rolePermissions :: "(string \<times> string list) list" where
  "rolePermissions =
     [(''consumer'', [''orders:read'', ''orders:write'']),
      (''courier'', [''orders:read'', ''orders:write'']),
      (''merchant_operator'', [''orders:read'', ''orders:write'']),
      (''support_agent'', [''support:intervene'', ''orders:read'']),
      (''finance_ops'', [''orders:read'']),
      (''system_admin'', [''*''])]"

text \<open>An inherited property has no method \<open>has\<close>: the call throws (\<open>None\<close>).\<close>

definition isAllowed :: "string \<Rightarrow> string \<Rightarrow> bool option" where
  "isAllowed role permission =
     (case obj_lookup rolePermissions role of
        Missing \<Rightarrow> Some False
      | Inherited \<Rightarrow> None
      | Own permissions \<Rightarrow> Some (''*'' \<in> set permissions \<or> permission \<in> set permissions))"


section \<open>Registration keeps emails and phones unique\<close>

definition identity_ok :: "identity_repo \<Rightarrow> bool" where
  "identity_ok r = (\<forall>i u. user_findById i r = Some u \<longrightarrow>
     iu_id u = i \<and> i \<noteq> [] \<and> toLowerCase (iu_email u) = iu_email u \<and>
     map_get (ir_userIdByEmail r) (iu_email u) = Some i \<and> map_get (ir_userIdByPhone r) (iu_phone u) = Some i)"

lemma user_byIndex_get: "i \<noteq> [] \<Longrightarrow> user_byIndex (Some i) r = user_findById i r"
  by (simp add: user_byIndex_def user_findById_def)

lemma identity_ok_lookup:
  assumes "identity_ok r" "user_findById i r = Some u"
  shows "findByEmail (iu_email u) r = Some u \<and> findByPhone (iu_phone u) r = Some u"
proof -
  have u: "i \<noteq> []" "toLowerCase (iu_email u) = iu_email u" "map_get (ir_userIdByEmail r) (iu_email u) = Some i"
    "map_get (ir_userIdByPhone r) (iu_phone u) = Some i"
    using assms unfolding identity_ok_def by blast+
  with assms(2) show ?thesis
    by (simp add: findByEmail_def findByPhone_def user_byIndex_get)
qed

lemma register_cases:
  obtains (email) "register uid n1 n2 inp s = (Inl IDENTITY_EMAIL_EXISTS, s)"
    "findByEmail (toLowerCase (js_trim (rin_email inp))) (is_repository s) \<noteq> None"
  | (phone) "register uid n1 n2 inp s = (Inl IDENTITY_PHONE_EXISTS, s)"
    "findByPhone (js_trim (rin_phone inp)) (is_repository s) \<noteq> None"
  | (new) u where "register uid n1 n2 inp s = (Inr u, s\<lparr>is_repository := user_save u (is_repository s),
        is_eventBus := publish (user_registered u n2) (is_eventBus s)\<rparr>)"
    "iu_id u = uid" "iu_email u = toLowerCase (js_trim (rin_email inp))" "iu_phone u = js_trim (rin_phone inp)"
    "findByEmail (iu_email u) (is_repository s) = None" "findByPhone (iu_phone u) (is_repository s) = None"
proof (cases "findByEmail (toLowerCase (js_trim (rin_email inp))) (is_repository s) \<noteq> None")
  case True
  then show thesis by (intro email) (simp_all add: register_def Let_def)
next
  case e: False
  show thesis
  proof (cases "findByPhone (js_trim (rin_phone inp)) (is_repository s) \<noteq> None")
    case True
    with e show thesis by (intro phone) (simp_all add: register_def Let_def)
  next
    case False
    let ?u = "\<lparr>iu_id = uid, iu_email = toLowerCase (js_trim (rin_email inp)), iu_phone = js_trim (rin_phone inp),
      iu_passwordHash = rin_passwordHash inp, iu_role = rin_role inp, iu_createdAt = n1\<rparr>"
    from e False show thesis by (intro new [of ?u]) (simp_all add: register_def Let_def)
  qed
qed

lemma user_findById_save: "user_findById i (user_save u r) = (if i = iu_id u then Some u else user_findById i r)"
  by (simp add: user_findById_def user_save_def map_get_set)

lemma identity_ok_save:
  assumes r: "identity_ok r" and fresh: "user_findById (iu_id u) r = None" "iu_id u \<noteq> []"
    and low: "toLowerCase (iu_email u) = iu_email u"
    and new: "findByEmail (iu_email u) r = None" "findByPhone (iu_phone u) r = None"
  shows "identity_ok (user_save u r)"
proof -
  have other: "iu_email v \<noteq> iu_email u \<and> iu_phone v \<noteq> iu_phone u" if "user_findById i r = Some v" for i v
    using identity_ok_lookup [OF r that] new by auto
  show ?thesis
    unfolding identity_ok_def
  proof (intro allI impI)
    fix i v assume v: "user_findById i (user_save u r) = Some v"
    show "iu_id v = i \<and> i \<noteq> [] \<and> toLowerCase (iu_email v) = iu_email v \<and>
       map_get (ir_userIdByEmail (user_save u r)) (iu_email v) = Some i \<and>
       map_get (ir_userIdByPhone (user_save u r)) (iu_phone v) = Some i"
    proof (cases "i = iu_id u")
      case True
      with v low fresh(2) show ?thesis by (auto simp: user_findById_save) (simp_all add: user_save_def)
    next
      case False
      with v have v: "user_findById i r = Some v" by (simp add: user_findById_save)
      have "iu_id v = i" "i \<noteq> []" "toLowerCase (iu_email v) = iu_email v"
        "map_get (ir_userIdByEmail r) (iu_email v) = Some i" "map_get (ir_userIdByPhone r) (iu_phone v) = Some i"
        using r v unfolding identity_ok_def by blast+
      with other [OF v] low show ?thesis by (simp add: user_save_def map_get_set)
    qed
  qed
qed

record registration =
  rg_uid :: uuid
  rg_now1 :: iso_date
  rg_now2 :: iso_date
  rg_input :: registerIdentityInput

definition registration_step :: "registration \<Rightarrow> identity_service \<Rightarrow> identity_service" where
  "registration_step g s = snd (register (rg_uid g) (rg_now1 g) (rg_now2 g) (rg_input g) s)"

text \<open>The identifiers \<open>randomUUID\<close> draws are not empty and not in use.\<close>

fun registrations_fresh :: "registration list \<Rightarrow> identity_service \<Rightarrow> bool" where
  "registrations_fresh [] s = True"
| "registrations_fresh (g # gs) s =
     (rg_uid g \<noteq> [] \<and> user_findById (rg_uid g) (is_repository s) = None \<and> registrations_fresh gs (registration_step g s))"

lemma registration_step_ok:
  assumes "identity_ok (is_repository s)" "rg_uid g \<noteq> []" "user_findById (rg_uid g) (is_repository s) = None"
  shows "identity_ok (is_repository (registration_step g s))"
  using register_cases [of "rg_uid g" "rg_now1 g" "rg_now2 g" "rg_input g" s]
proof cases
  case (new u)
  with assms show ?thesis by (simp add: registration_step_def identity_ok_save)
qed (use assms in \<open>simp_all add: registration_step_def\<close>)

lemma registrations_ok:
  "identity_ok (is_repository s) \<Longrightarrow> registrations_fresh gs s \<Longrightarrow> identity_ok (is_repository (fold registration_step gs s))"
  by (induction gs arbitrary: s) (simp_all add: registration_step_ok)

lemma identity_ok_empty: "identity_ok empty_identity_repo"
  by (simp add: identity_ok_def user_findById_def empty_identity_repo_def)

section \<open>The session store\<close>

definition sessions_ok :: "session_store \<Rightarrow> bool" where
  "sessions_ok s =
     ((\<forall>t r. session_get t s = Some r \<longrightarrow>
        rs_token r = t \<and> (\<exists>ts. map_get (se_tokenFamilies s) (rs_familyId r) = Some ts \<and> t \<in> set ts)) \<and>
      (\<forall>f ts t. map_get (se_tokenFamilies s) f = Some ts \<longrightarrow> t \<in> set ts \<longrightarrow>
        (\<exists>r. session_get t s = Some r \<and> rs_familyId r = f)))"

lemma sessions_ok_empty: "sessions_ok empty_session_store"
  by (simp add: sessions_ok_def session_get_def empty_session_store_def)

lemma session_get_save: "session_get t (session_save r s) = (if t = rs_token r then Some r else session_get t s)"
  by (simp add: session_get_def session_save_def Let_def map_get_set)

lemma session_get_markUsed:
  "session_get t (markUsed t' s) = (if t = t' then map_option (rs_used_update (\<lambda>_. True)) (session_get t s) else session_get t s)"
  by (auto simp: session_get_def markUsed_def map_get_set split: option.splits)

lemma session_get_revoke_token:
  "session_get t (revoke_token t' s) = (if t = t' then map_option (rs_revoked_update (\<lambda>_. True)) (session_get t s) else session_get t s)"
  by (auto simp: session_get_def revoke_token_def map_get_set split: option.splits)

lemma session_get_fold_revoke:
  "session_get t (fold revoke_token ts s) =
   (if t \<in> set ts then map_option (rs_revoked_update (\<lambda>_. True)) (session_get t s) else session_get t s)"
  by (induction ts arbitrary: s) (auto simp: session_get_revoke_token map_option.compositionality comp_def)

lemma families_kept [simp]:
  "se_tokenFamilies (markUsed t s) = se_tokenFamilies s"
  "se_tokenFamilies (revoke_token t s) = se_tokenFamilies s"
  "se_tokenFamilies (fold revoke_token ts s) = se_tokenFamilies s"
  "se_tokenFamilies (revokeFamily f s) = se_tokenFamilies s"
proof -
  show r: "se_tokenFamilies (revoke_token t s) = se_tokenFamilies s" for t s
    by (simp add: revoke_token_def split: option.splits)
  show f: "se_tokenFamilies (fold revoke_token ts s) = se_tokenFamilies s" for ts
    by (induction ts arbitrary: s) (simp_all add: r)
  show "se_tokenFamilies (markUsed t s) = se_tokenFamilies s"
    by (simp add: markUsed_def split: option.splits)
  show "se_tokenFamilies (revokeFamily f s) = se_tokenFamilies s"
    by (simp add: revokeFamily_def f split: option.splits)
qed

lemma session_get_revokeFamily:
  assumes "sessions_ok s"
  shows "session_get t (revokeFamily f s) =
    map_option (\<lambda>r. if rs_familyId r = f then r\<lparr>rs_revoked := True\<rparr> else r) (session_get t s)"
proof (cases "session_get t s")
  case None
  then show ?thesis by (auto simp: revokeFamily_def session_get_fold_revoke split: option.splits)
next
  case (Some r)
  obtain ts where ts: "map_get (se_tokenFamilies s) (rs_familyId r) = Some ts" "t \<in> set ts"
    using assms Some unfolding sessions_ok_def by blast
  show ?thesis
  proof (cases "rs_familyId r = f")
    case True
    with Some ts show ?thesis by (auto simp: revokeFamily_def session_get_fold_revoke)
  next
    case False
    have "t \<notin> set us" if "map_get (se_tokenFamilies s) f = Some us" for us
      using assms that False Some unfolding sessions_ok_def by (metis option.inject)
    with False Some show ?thesis
      by (auto simp: revokeFamily_def session_get_fold_revoke split: option.splits)
  qed
qed

text \<open>An update of stored records that leaves token and family alone keeps the invariant.\<close>

lemma sessions_ok_update:
  assumes s: "sessions_ok s" and fam: "se_tokenFamilies s' = se_tokenFamilies s"
    and get: "\<And>t. session_get t s' = map_option g (session_get t s)"
    and g: "\<And>r. rs_token (g r) = rs_token r" "\<And>r. rs_familyId (g r) = rs_familyId r"
  shows "sessions_ok s'"
  unfolding sessions_ok_def fam get
proof (intro conjI allI impI)
  fix t q assume "map_option g (session_get t s) = Some q"
  then obtain r where r: "session_get t s = Some r" "q = g r" by auto
  then have "rs_token r = t" "\<exists>ts. map_get (se_tokenFamilies s) (rs_familyId r) = Some ts \<and> t \<in> set ts"
    using s unfolding sessions_ok_def by blast+
  with r(2) g show "rs_token q = t"
    "\<exists>ts. map_get (se_tokenFamilies s) (rs_familyId q) = Some ts \<and> t \<in> set ts" by simp_all
next
  fix f ts t assume "map_get (se_tokenFamilies s) f = Some ts" "t \<in> set ts"
  then obtain r where "session_get t s = Some r" "rs_familyId r = f"
    using s unfolding sessions_ok_def by blast
  then show "\<exists>r. map_option g (session_get t s) = Some r \<and> rs_familyId r = f" by (simp add: g)
qed

lemma session_get_markUsed':
  assumes "sessions_ok s"
  shows "session_get t (markUsed t' s) = map_option (\<lambda>r. if rs_token r = t' then r\<lparr>rs_used := True\<rparr> else r) (session_get t s)"
proof (cases "session_get t s")
  case (Some r)
  then have "rs_token r = t" using assms unfolding sessions_ok_def by blast
  with Some show ?thesis by (auto simp: session_get_markUsed)
qed (auto simp: session_get_markUsed)

lemma sessions_ok_markUsed: "sessions_ok s \<Longrightarrow> sessions_ok (markUsed t s)"
  by (rule sessions_ok_update [OF _ _ session_get_markUsed']) simp_all

lemma sessions_ok_revokeFamily: "sessions_ok s \<Longrightarrow> sessions_ok (revokeFamily f s)"
  by (rule sessions_ok_update [OF _ _ session_get_revokeFamily]) simp_all

lemma sessions_ok_save:
  assumes s: "sessions_ok s" and fresh: "session_get (rs_token r) s = None"
  shows "sessions_ok (session_save r s)"
  unfolding sessions_ok_def
proof (intro conjI allI impI)
  let ?fam = "se_tokenFamilies (session_save r s)"
  have fam: "map_get ?fam f = (if f = rs_familyId r
      then Some (set_add (rs_token r) (nullish (map_get (se_tokenFamilies s) f) [])) else map_get (se_tokenFamilies s) f)" for f
    by (simp add: session_save_def Let_def map_get_set)
  fix t q assume q: "session_get t (session_save r s) = Some q"
  show "rs_token q = t" using q s unfolding sessions_ok_def by (auto simp: session_get_save split: if_splits)
  show "\<exists>ts. map_get ?fam (rs_familyId q) = Some ts \<and> t \<in> set ts"
  proof (cases "t = rs_token r")
    case True
    with q have "q = r" by (simp add: session_get_save)
    with True fam [of "rs_familyId r"] show ?thesis by simp
  next
    case False
    with q have "session_get t s = Some q" by (simp add: session_get_save)
    then obtain ts where "map_get (se_tokenFamilies s) (rs_familyId q) = Some ts" "t \<in> set ts"
      using s unfolding sessions_ok_def by blast
    then show ?thesis by (auto simp: fam)
  qed
next
  fix f ts t
  assume f: "map_get (se_tokenFamilies (session_save r s)) f = Some ts" "t \<in> set ts"
  show "\<exists>q. session_get t (session_save r s) = Some q \<and> rs_familyId q = f"
  proof (cases "t = rs_token r \<and> f = rs_familyId r")
    case False
    then have old: "\<exists>us. map_get (se_tokenFamilies s) f = Some us \<and> t \<in> set us"
      using f by (cases "map_get (se_tokenFamilies s) f") (auto simp: session_save_def Let_def map_get_set split: if_splits)
    then obtain q where q: "session_get t s = Some q" "rs_familyId q = f"
      using s unfolding sessions_ok_def by blast
    moreover from q fresh have "t \<noteq> rs_token r" by auto
    ultimately show ?thesis by (simp add: session_get_save)
  qed (simp add: session_get_save)
qed


section \<open>Runs of the authentication service\<close>

text \<open>
  \<open>Register_users\<close> stands for registrations: the identity service writes the
  repository that the authentication service reads.
\<close>

datatype auth_op =
    OpLogin uuid session_draw loginInput
  | OpRefresh int session_draw string
  | Register_users identity_repo

fun auth_step :: "jwt_lib \<Rightarrow> auth_op \<Rightarrow> auth_service \<Rightarrow> auth_service" where
  "auth_step L (OpLogin f d inp) s = snd (login L f d inp s)"
| "auth_step L (OpRefresh t d tok) s = snd (refresh L t d tok s)"
| "auth_step L (Register_users r) s = s\<lparr>au_repository := r\<rparr>"

fun auth_run :: "jwt_lib \<Rightarrow> auth_op list \<Rightarrow> auth_service \<Rightarrow> auth_service" where
  "auth_run L [] s = s"
| "auth_run L (op # ops) s = auth_run L ops (auth_step L op s)"

text \<open>Random tokens and family identifiers are not in use.\<close>

definition draw_fresh :: "session_draw \<Rightarrow> auth_service \<Rightarrow> bool" where
  "draw_fresh d s = (session_get (base64Url (sd_bytes d)) (au_sessionStore s) = None)"

fun auth_op_fresh :: "auth_op \<Rightarrow> auth_service \<Rightarrow> bool" where
  "auth_op_fresh (OpLogin f d inp) s = (draw_fresh d s \<and> map_get (se_tokenFamilies (au_sessionStore s)) f = None)"
| "auth_op_fresh (OpRefresh t d tok) s = draw_fresh d s"
| "auth_op_fresh (Register_users r) s = True"

fun auth_fresh :: "jwt_lib \<Rightarrow> auth_op list \<Rightarrow> auth_service \<Rightarrow> bool" where
  "auth_fresh L [] s = True"
| "auth_fresh L (op # ops) s = (auth_op_fresh op s \<and> auth_fresh L ops (auth_step L op s))"

definition auth_init :: "identity_repo \<Rightarrow> event_bus \<Rightarrow> string \<Rightarrow> auth_service" where
  "auth_init r b secret =
     \<lparr>au_repository = r, au_eventBus = b, au_sessionStore = empty_session_store, au_jwtSecret = secret\<rparr>"

definition new_session :: "session_draw \<Rightarrow> uuid \<Rightarrow> uuid \<Rightarrow> refreshSession" where
  "new_session d u f = \<lparr>rs_token = base64Url (sd_bytes d), rs_userId = u, rs_familyId = f, rs_used = False,
     rs_revoked = False, rs_expiresAtEpochSeconds = epoch_seconds (sd_now d) + 30 * 24 * 60 * 60\<rparr>"

lemma new_session_sel [simp]:
  "rs_token (new_session d u f) = base64Url (sd_bytes d)" "rs_familyId (new_session d u f) = f"
  by (simp_all add: new_session_def)

lemma issueSession_store:
  "au_sessionStore (snd (issueSession L d u reason f s)) = session_save (new_session d (iu_id u) f) (au_sessionStore s)"
  "tk_refreshToken (fst (issueSession L d u reason f s)) = base64Url (sd_bytes d)"
  by (simp_all add: issueSession_def Let_def new_session_def)

text \<open>What a step does to the session store.\<close>

lemma login_store:
  "au_sessionStore (snd (login L f d inp s)) = au_sessionStore s \<or>
   (\<exists>u. au_sessionStore (snd (login L f d inp s)) = session_save (new_session d u f) (au_sessionStore s))"
  by (auto simp: login_def Let_def issueSession_store split: option.splits prod.splits)
     (metis issueSession_store(1) snd_conv)+

lemma refresh_outcome:
  obtains (unknown) "session_get tok (au_sessionStore s) = None" "refresh L t d tok s = (Inl IDENTITY_INVALID_REFRESH_TOKEN, s)"
  | (dead) r where "session_get tok (au_sessionStore s) = Some r"
      "rs_expiresAtEpochSeconds r < epoch_seconds t \<or> rs_revoked r"
      "refresh L t d tok s = (Inl IDENTITY_INVALID_REFRESH_TOKEN, s)"
  | (replay) r where "session_get tok (au_sessionStore s) = Some r" "rs_used r"
      "refresh L t d tok s = (Inl IDENTITY_REFRESH_REPLAY_DETECTED,
         s\<lparr>au_sessionStore := revokeFamily (rs_familyId r) (au_sessionStore s)\<rparr>)"
  | (no_user) r where "session_get tok (au_sessionStore s) = Some r" "\<not> rs_used r" "\<not> rs_revoked r"
      "refresh L t d tok s = (Inl IDENTITY_INVALID_REFRESH_TOKEN,
         s\<lparr>au_sessionStore := markUsed (rs_token r) (au_sessionStore s)\<rparr>)"
  | (rotated) r u tokens where "session_get tok (au_sessionStore s) = Some r" "\<not> rs_used r" "\<not> rs_revoked r"
      "fst (refresh L t d tok s) = Inr tokens"
      "au_sessionStore (snd (refresh L t d tok s)) =
         session_save (new_session d u (rs_familyId r)) (markUsed (rs_token r) (au_sessionStore s))"
proof (cases "session_get tok (au_sessionStore s)")
  case None
  then show thesis by (intro unknown) (simp_all add: refresh_def)
next
  case (Some r)
  show thesis
  proof (cases "rs_expiresAtEpochSeconds r < epoch_seconds t \<or> rs_revoked r")
    case True
    with Some show thesis by (intro dead) (simp_all add: refresh_def)
  next
    case live: False
    show thesis
    proof (cases "rs_used r")
      case True
      with Some live show thesis by (intro replay) (simp_all add: refresh_def)
    next
      case unused: False
      let ?s1 = "s\<lparr>au_sessionStore := markUsed (rs_token r) (au_sessionStore s)\<rparr>"
      show thesis
      proof (cases "user_findById (rs_userId r) (au_repository s)")
        case None
        with Some live unused show thesis by (intro no_user) (simp_all add: refresh_def Let_def)
      next
        case user: (Some u)
        obtain tokens s2 where i: "issueSession L d u RefreshReason (rs_familyId r) ?s1 = (tokens, s2)"
          by (meson surj_pair)
        then have "refresh L t d tok s = (Inr tokens, s2)"
          using Some live unused user by (simp add: refresh_def Let_def)
        moreover have "au_sessionStore s2 =
            session_save (new_session d (iu_id u) (rs_familyId r)) (markUsed (rs_token r) (au_sessionStore s))"
          using issueSession_store(1) [of L d u RefreshReason "rs_familyId r" ?s1] i by simp
        ultimately show thesis using Some live unused by (intro rotated) simp_all
      qed
    qed
  qed
qed

lemma replay_record:
  assumes "refresh L t d tok s = (Inl IDENTITY_REFRESH_REPLAY_DETECTED, s')"
  obtains r where "session_get tok (au_sessionStore s) = Some r"
    "s' = s\<lparr>au_sessionStore := revokeFamily (rs_familyId r) (au_sessionStore s)\<rparr>"
  using refresh_outcome [of tok s L t d]
proof cases
  case (replay r)
  with assms that show thesis by simp
qed (use assms in simp_all)

text \<open>
  A property of stored sessions is kept along runs when marking, revoking and the new
  sessions keep it.
\<close>

lemma auth_step_sessions_ok:
  assumes s: "sessions_ok (au_sessionStore s)" and fresh: "auth_op_fresh op s"
  shows "sessions_ok (au_sessionStore (auth_step L op s))"
proof (cases op)
  case (OpLogin f d inp)
  with s fresh login_store [of L f d inp s] show ?thesis
    by (auto simp: draw_fresh_def intro!: sessions_ok_save)
next
  case (OpRefresh t d tok)
  show ?thesis
    using refresh_outcome [of tok s L t d]
  proof cases
    case (rotated r u tokens)
    have "session_get (base64Url (sd_bytes d)) (markUsed (rs_token r) (au_sessionStore s)) = None"
      using fresh OpRefresh by (auto simp: draw_fresh_def session_get_markUsed)
    with rotated OpRefresh s show ?thesis by (simp add: sessions_ok_save sessions_ok_markUsed)
  qed (use OpRefresh s in \<open>simp_all add: sessions_ok_markUsed sessions_ok_revokeFamily\<close>)
qed (use s in simp)

lemma auth_run_sessions_ok:
  "sessions_ok (au_sessionStore s) \<Longrightarrow> auth_fresh L ops s \<Longrightarrow> sessions_ok (au_sessionStore (auth_run L ops s))"
  by (induction ops arbitrary: s) (simp_all add: auth_step_sessions_ok)

text \<open>A spent token: used or revoked.\<close>

definition spent :: "string \<Rightarrow> session_store \<Rightarrow> bool" where
  "spent tok s = (\<exists>r. session_get tok s = Some r \<and> (rs_used r \<or> rs_revoked r))"

lemma spent_markUsed: "spent tok s \<Longrightarrow> spent tok (markUsed t s)"
  by (auto simp: spent_def session_get_markUsed)

lemma spent_revokeFamily: "sessions_ok s \<Longrightarrow> spent tok s \<Longrightarrow> spent tok (revokeFamily f s)"
  by (cases "session_get tok s") (auto simp: spent_def session_get_revokeFamily)

lemma spent_save: "spent tok s \<Longrightarrow> session_get (rs_token r) s = None \<Longrightarrow> spent tok (session_save r s)"
  unfolding spent_def session_get_save by (metis option.distinct(1))

lemma spent_step:
  assumes s: "sessions_ok (au_sessionStore s)" and fresh: "auth_op_fresh op s" and tok: "spent tok (au_sessionStore s)"
  shows "spent tok (au_sessionStore (auth_step L op s))"
proof (cases op)
  case (OpLogin f d inp)
  with tok fresh login_store [of L f d inp s] show ?thesis by (auto simp: draw_fresh_def intro!: spent_save)
next
  case (OpRefresh t d tok')
  show ?thesis
    using refresh_outcome [of tok' s L t d]
  proof cases
    case (rotated r u tokens)
    have "session_get (base64Url (sd_bytes d)) (markUsed (rs_token r) (au_sessionStore s)) = None"
      using fresh OpRefresh by (auto simp: draw_fresh_def session_get_markUsed)
    with rotated OpRefresh tok show ?thesis by (simp add: spent_save spent_markUsed)
  qed (use OpRefresh tok s in \<open>simp_all add: spent_markUsed spent_revokeFamily\<close>)
qed (use tok in simp)

lemma spent_run:
  "sessions_ok (au_sessionStore s) \<Longrightarrow> auth_fresh L ops s \<Longrightarrow> spent tok (au_sessionStore s) \<Longrightarrow>
   spent tok (au_sessionStore (auth_run L ops s))"
  by (induction ops arbitrary: s) (simp_all add: auth_step_sessions_ok spent_step)

lemma spent_refresh: "spent tok (au_sessionStore s) \<Longrightarrow> \<exists>e. fst (refresh L t d tok s) = Inl e"
  by (auto simp: spent_def refresh_def)

text \<open>A dead family: all its tokens are revoked, and it is known.\<close>

definition family_dead :: "uuid \<Rightarrow> session_store \<Rightarrow> bool" where
  "family_dead f s = (map_get (se_tokenFamilies s) f \<noteq> None \<and>
     (\<forall>t r. session_get t s = Some r \<longrightarrow> rs_familyId r = f \<longrightarrow> rs_revoked r))"

lemma family_dead_markUsed: "family_dead f s \<Longrightarrow> family_dead f (markUsed t s)"
  by (auto simp: family_dead_def session_get_markUsed split: if_splits)

lemma family_dead_revokeFamily: "sessions_ok s \<Longrightarrow> family_dead f s \<Longrightarrow> family_dead f (revokeFamily g s)"
  by (auto simp: family_dead_def session_get_revokeFamily)

lemma family_dead_save: "family_dead f s \<Longrightarrow> rs_familyId r \<noteq> f \<Longrightarrow> family_dead f (session_save r s)"
  by (auto simp: family_dead_def session_get_save session_save_def Let_def map_get_set)
     (auto simp: session_get_def map_get_set split: if_splits)

lemma revokeFamily_dead:
  assumes "sessions_ok s" "session_get tok s = Some r"
  shows "family_dead (rs_familyId r) (revokeFamily (rs_familyId r) s)"
proof -
  have "map_get (se_tokenFamilies s) (rs_familyId r) \<noteq> None" using assms unfolding sessions_ok_def by fastforce
  then show ?thesis
    by (auto simp: family_dead_def session_get_revokeFamily [OF assms(1)] dest!: arg_cong [of _ _ rs_revoked] split: if_splits)
qed

lemma family_dead_step:
  assumes s: "sessions_ok (au_sessionStore s)" and fresh: "auth_op_fresh op s" and f: "family_dead f (au_sessionStore s)"
  shows "family_dead f (au_sessionStore (auth_step L op s))"
proof (cases op)
  case (OpLogin g d inp)
  with fresh f have "g \<noteq> f" by (auto simp: family_dead_def)
  with OpLogin f login_store [of L g d inp s] show ?thesis by (auto intro!: family_dead_save)
next
  case (OpRefresh t d tok)
  show ?thesis
    using refresh_outcome [of tok s L t d]
  proof cases
    case (rotated r u tokens)
    then have "rs_familyId r \<noteq> f" using f unfolding family_dead_def by blast
    with rotated OpRefresh f show ?thesis by (simp add: family_dead_save family_dead_markUsed)
  qed (use OpRefresh f s in \<open>simp_all add: family_dead_markUsed family_dead_revokeFamily\<close>)
qed (use f in simp)

lemma family_dead_run:
  "sessions_ok (au_sessionStore s) \<Longrightarrow> auth_fresh L ops s \<Longrightarrow> family_dead f (au_sessionStore s) \<Longrightarrow>
   family_dead f (au_sessionStore (auth_run L ops s))"
  by (induction ops arbitrary: s) (simp_all add: auth_step_sessions_ok family_dead_step)

lemma family_dead_refresh:
  "family_dead f (au_sessionStore s) \<Longrightarrow> session_get tok (au_sessionStore s) = Some r \<Longrightarrow> rs_familyId r = f \<Longrightarrow>
   refresh L t d tok s = (Inl IDENTITY_INVALID_REFRESH_TOKEN, s)"
  by (auto simp: family_dead_def refresh_def)


section \<open>Base64\<close>

lemma b64_alphabet_values: "\<forall>p \<in> set (enumerate 0 base64_alphabet). b64_value (snd p) = Some (fst p)"
  by (simp add: base64_alphabet_def b64_value_def)

lemma b64_alphabet_length: "length base64_alphabet = 64"
  by (simp add: base64_alphabet_def)

lemma b64_alphabet_url: "\<forall>c \<in> set base64_alphabet. c \<noteq> CHR ''='' \<and> c \<noteq> CHR ''-'' \<and> c \<noteq> CHR ''_'' \<and> c \<noteq> CHR ''.''"
  by (simp add: base64_alphabet_def)

lemma b64_char_in: "b64_char n \<in> set base64_alphabet"
  unfolding b64_char_def by (intro nth_mem) (simp add: b64_alphabet_length)

lemma b64_value_char: "b64_value (b64_char n) = Some (n mod 64)"
proof -
  have "b64_value (base64_alphabet ! k) = Some k" if "k < 64" for k
    using bspec [OF b64_alphabet_values, of "(k, base64_alphabet ! k)"] that
    by (simp add: in_set_enumerate_eq b64_alphabet_length)
  then show ?thesis by (simp add: b64_char_def)
qed

definition url_char :: "char \<Rightarrow> char" where
  "url_char c = (if c = CHR ''+'' then CHR ''-'' else if c = CHR ''/'' then CHR ''_'' else c)"

definition std_char :: "char \<Rightarrow> char" where
  "std_char c = (if c = CHR ''-'' then CHR ''+'' else if c = CHR ''_'' then CHR ''/'' else c)"

lemma url_b64_char:
  "url_char (b64_char n) \<noteq> CHR ''=''" "url_char (b64_char n) \<noteq> CHR ''.''" "std_char (url_char (b64_char n)) = b64_char n"
  "b64_char n \<noteq> CHR ''=''"
  using b64_alphabet_url b64_char_in [of n] by (auto simp: url_char_def std_char_def)

fun sextets :: "nat list \<Rightarrow> nat list" where
  "sextets [] = []"
| "sextets [a] = [a div 4, a mod 4 * 16]"
| "sextets [a, b] = [a div 4, a mod 4 * 16 + b div 16, b mod 16 * 4]"
| "sextets (a # b # c # bs) =
     a div 4 # (a mod 4 * 16 + b div 16) # (b mod 16 * 4 + c div 64) # (c mod 64) # sextets bs"

lemma base64_sextets: "\<exists>k. base64 bs = map b64_char (sextets bs) @ replicate k (CHR ''='')"
proof (induction bs rule: sextets.induct)
  case 1
  show ?case by simp
next
  case (2 a)
  show ?case by (rule exI [of _ 2]) (simp add: numeral_2_eq_2)
next
  case (3 a b)
  show ?case by (rule exI [of _ 1]) simp
next
  case (4 a b c bs)
  then show ?case by simp
qed

lemma sextets_small: "\<forall>b \<in> set bs. b < 256 \<Longrightarrow> \<forall>v \<in> set (sextets bs). v < 64"
  by (induction bs rule: sextets.induct) auto

lemma b64_bytes_sextets: "\<forall>b \<in> set bs. b < 256 \<Longrightarrow> b64_bytes (sextets bs) = bs"
proof (induction bs rule: sextets.induct)
  case (4 a b c bs)
  have "b mod 16 * 16 + (b mod 16 * 4 + c div 64) div 4 = b" if "False" using that by simp
  have "(a mod 4 * 16 + b div 16) div 16 = a mod 4" "(a mod 4 * 16 + b div 16) mod 16 = b div 16"
    "(b mod 16 * 4 + c div 64) div 4 = b mod 16" "(b mod 16 * 4 + c div 64) mod 4 = c div 64"
    using 4 by auto
  moreover have "a div 4 * 4 + a mod 4 = a" "b div 16 * 16 + b mod 16 = b" "c div 64 * 64 + c mod 64 = c" by simp_all
  ultimately show ?case using 4 by (simp add: add.commute)
next
  case (3 a b)
  have "(a mod 4 * 16 + b div 16) div 16 = a mod 4" "(a mod 4 * 16 + b div 16) mod 16 = b div 16"
    using 3 by auto
  moreover have "a div 4 * 4 + a mod 4 = a" "b div 16 * 16 + b mod 16 = b" by simp_all
  ultimately show ?case by simp
qed simp_all

lemma dropWhile_replicate: "P x \<Longrightarrow> dropWhile P (replicate k x @ ys) = dropWhile P ys"
  by (induction k) simp_all

lemma base64Url_eq: "base64Url v = map (\<lambda>n. url_char (b64_char n)) (sextets (bytes_of v))"
proof -
  obtain k where k: "base64 (bytes_of v) = map b64_char (sextets (bytes_of v)) @ replicate k (CHR ''='')"
    using base64_sextets by blast
  let ?u = "map (\<lambda>n. url_char (b64_char n)) (sextets (bytes_of v))"
  have e: "map url_char (base64 (bytes_of v)) = ?u @ replicate k (CHR ''='')"
    by (simp add: k url_char_def)
  have "dropWhile (\<lambda>c. c = CHR ''='') (replicate k (CHR ''='') @ rev ?u) = rev ?u"
  proof (cases "rev ?u")
    case Nil
    then show ?thesis by (simp add: dropWhile_replicate)
  next
    case (Cons x xs)
    then have "x \<in> set (rev ?u)" by simp
    then have "x \<noteq> CHR ''=''" using url_b64_char(1) by auto
    with Cons show ?thesis by (simp add: dropWhile_replicate)
  qed
  then have "rev (dropWhile (\<lambda>c. c = CHR ''='') (rev (map url_char (base64 (bytes_of v))))) = ?u"
    unfolding e by simp
  then show ?thesis by (simp add: base64Url_def url_char_def [abs_def])
qed

lemma base64Url_no_dot: "CHR ''.'' \<notin> set (base64Url v)"
proof -
  have "url_char (b64_char n) \<noteq> CHR ''.''" for n by (rule url_b64_char(2))
  then show ?thesis by (auto simp: base64Url_eq dest: sym)
qed

lemma map_filter_b64: "\<forall>v \<in> set vs. v < 64 \<Longrightarrow> List.map_filter b64_value (map b64_char vs) = vs"
  by (induction vs) (simp_all add: List.map_filter_simps b64_value_char)

lemma base64Url_roundtrip: "base64UrlDecode (base64Url v) = v"
proof -
  let ?vs = "sextets (bytes_of v)"
  have small: "\<forall>b \<in> set (bytes_of v). b < 256" by (auto simp: bytes_of_def)
  have n: "map (\<lambda>c. if c = CHR ''-'' then CHR ''+'' else if c = CHR ''_'' then CHR ''/'' else c) (base64Url v) = map b64_char ?vs"
    unfolding base64Url_eq std_char_def [abs_def, symmetric] by (simp add: comp_def url_b64_char(3))
  have t: "takeWhile (\<lambda>c. c \<noteq> CHR ''='') (map b64_char vs @ replicate m (CHR ''='')) = map b64_char vs" for vs m
    by (induction vs) (simp_all add: url_b64_char(4) takeWhile_replicate)
  have "base64UrlDecode (base64Url v) = map char_of (b64_bytes ?vs)"
    using sextets_small [OF small] by (simp add: base64UrlDecode_def n Let_def base64_decode_def t map_filter_b64)
  then show ?thesis using b64_bytes_sextets [OF small] by (simp add: bytes_of_def comp_def)
qed

lemma split_char_none: "c \<notin> set s \<Longrightarrow> split_char c s = [s]"
  by (induction s) auto

lemma split_char_append: "c \<notin> set s \<Longrightarrow> split_char c (s @ [c] @ t) = s # split_char c t"
  by (induction s) auto

lemma split_signJwt:
  "split_char (CHR ''.'') (signJwt L c k) = [base64Url jwt_header, base64Url (jl_stringify L c),
     base64Url (jl_hmacSha256 L k (base64Url jwt_header @ ''.'' @ base64Url (jl_stringify L c)))]"
proof -
  have a: "split_char (CHR ''.'') (base64Url v @ ''.'' @ t) = base64Url v # split_char (CHR ''.'') t" for v t
    using split_char_append [OF base64Url_no_dot, of v t] by simp
  show ?thesis
    unfolding signJwt_def Let_def a split_char_none [OF base64Url_no_dot] ..
qed


section \<open>Properties\<close>

text \<open>After any sequence of registrations with fresh identifiers no two users share an email
  or a phone, every user is found by the email in any case and by the phone, and a
  registration succeeds exactly when neither its email nor its phone is taken.\<close>

lemma registration_unique:
  assumes "registrations_fresh gs s0" and "is_repository s0 = empty_identity_repo"
  shows "let r = is_repository (fold registration_step gs s0) in
    (\<forall>i j u v. user_findById i r = Some u \<longrightarrow> user_findById j r = Some v \<longrightarrow>
        iu_email u = iu_email v \<or> iu_phone u = iu_phone v \<longrightarrow> i = j) \<and>
    (\<forall>i u e. user_findById i r = Some u \<longrightarrow> toLowerCase e = iu_email u \<longrightarrow> findByEmail e r = Some u) \<and>
    (\<forall>uid n1 n2 inp. succeeded (register uid n1 n2 inp (fold registration_step gs s0)) \<longleftrightarrow>
        findByEmail (js_trim (rin_email inp)) r = None \<and> findByPhone (js_trim (rin_phone inp)) r = None)"
proof -
  let ?r = "is_repository (fold registration_step gs s0)"
  have ok: "identity_ok ?r" using assms by (simp add: registrations_ok identity_ok_empty)
  have same: "i = j" if "user_findById i ?r = Some u" "user_findById j ?r = Some v"
    "iu_email u = iu_email v \<or> iu_phone u = iu_phone v" for i j u v
    using that identity_ok_lookup [OF ok that(1)] identity_ok_lookup [OF ok that(2)] ok
    unfolding identity_ok_def by (metis option.inject)
  have lower: "findByEmail e ?r = findByEmail (toLowerCase e) ?r" for e by (simp add: findByEmail_def)
  have email: "findByEmail e ?r = Some u" if "user_findById i ?r = Some u" "toLowerCase e = iu_email u" for i u e
    using identity_ok_lookup [OF ok that(1)] that(2) lower by metis
  have "succeeded (register uid n1 n2 inp (fold registration_step gs s0)) \<longleftrightarrow>
      findByEmail (js_trim (rin_email inp)) ?r = None \<and> findByPhone (js_trim (rin_phone inp)) ?r = None" for uid n1 n2 inp
    by (simp add: register_def Let_def lower [of "js_trim (rin_email inp)"])
  with same email show ?thesis unfolding Let_def by blast
qed

definition demo_registration :: registration where
  "demo_registration = \<lparr>rg_uid = ''u1'', rg_now1 = ''1'', rg_now2 = ''2'',
     rg_input = \<lparr>rin_email = '' Ann@X.io'', rin_phone = ''123'', rin_passwordHash = ''pw'', rin_role = Consumer\<rparr>\<rparr>"

lemma registration_unique_witness:
  "let r = is_repository (fold registration_step [demo_registration]
       \<lparr>is_repository = empty_identity_repo, is_eventBus = empty_bus\<rparr>) in
   \<forall>i u e. user_findById i r = Some u \<longrightarrow> toLowerCase e = iu_email u \<longrightarrow> findByEmail e r = Some u"
  using registration_unique [of "[demo_registration]" "\<lparr>is_repository = empty_identity_repo, is_eventBus = empty_bus\<rparr>"]
  by (simp add: demo_registration_def user_findById_def empty_identity_repo_def Let_def)

text \<open>C8: Once a refresh token has been exchanged for a new session, no later exchange of the same
  token succeeds, whatever logins, refreshes and registrations happen in between: each
  refresh token is used at most once.\<close>

theorem refresh_single_use:
  assumes "auth_fresh L ops (auth_init repo bus secret)" and "s = auth_run L ops (auth_init repo bus secret)"
    and "fst (refresh L t d tok s) = Inr tokens"
    and "auth_fresh L (OpRefresh t d tok # later_ops) s"
  shows "\<exists>e. fst (refresh L t' d' tok (auth_run L (OpRefresh t d tok # later_ops) s)) = Inl e"
proof -
  have s: "sessions_ok (au_sessionStore s)"
    using assms(1,2) auth_run_sessions_ok by (simp add: auth_init_def sessions_ok_empty)
  have fresh: "auth_op_fresh (OpRefresh t d tok) s" "auth_fresh L later_ops (auth_step L (OpRefresh t d tok) s)"
    using assms(4) by simp_all
  have "spent tok (au_sessionStore (auth_step L (OpRefresh t d tok) s))"
    using refresh_outcome [of tok s L t d]
  proof cases
    case (rotated r u tokens)
    have "rs_token r = tok" using s rotated(1) unfolding sessions_ok_def by blast
    with rotated have "spent tok (markUsed tok (au_sessionStore s))" by (simp add: spent_def session_get_markUsed)
    moreover have "session_get (base64Url (sd_bytes d)) (markUsed tok (au_sessionStore s)) = None"
      using fresh(1) by (auto simp: draw_fresh_def session_get_markUsed)
    ultimately show ?thesis using rotated \<open>rs_token r = tok\<close> by (simp add: spent_save)
  qed (use assms(3) in simp_all)
  then show ?thesis
    using spent_run [OF auth_step_sessions_ok [OF s fresh(1)] fresh(2)] spent_refresh by simp
qed

definition demo_user :: identityUser where
  "demo_user = \<lparr>iu_id = ''u1'', iu_email = ''a'', iu_phone = ''1'', iu_passwordHash = ''pw'', iu_role = Consumer,
     iu_createdAt = ''0''\<rparr>"

definition demo_draw :: "string \<Rightarrow> session_draw" where
  "demo_draw b = \<lparr>sd_now = 1000, sd_bytes = b, sd_occurredAt = ''0''\<rparr>"

definition demo_jwt :: jwt_lib where
  "demo_jwt = \<lparr>jl_hmacSha256 = (\<lambda>k v. k), jl_stringify = (\<lambda>c. cl_sub c),
     jl_parse = (\<lambda>s. Some \<lparr>cl_sub = s, cl_email = ''a'', cl_role = ''consumer'', cl_iat = 1, cl_exp = 901\<rparr>)\<rparr>"

definition demo_auth_ops :: "auth_op list" where
  "demo_auth_ops = [Register_users (user_save demo_user empty_identity_repo),
     OpLogin ''f1'' (demo_draw ''A'') \<lparr>li_email = ''a'', li_passwordHash = ''pw'', li_mfaCode = None\<rparr>]"

lemmas demo_auth_simps =
  demo_auth_ops_def auth_init_def demo_user_def demo_draw_def draw_fresh_def login_def Let_def issueSession_def
  user_save_def empty_identity_repo_def findByEmail_def user_byIndex_def toLowerCase_def lower_char_def js_trim_def
  is_space_def map_set_def map_get_def privilegedRoles_def role_name_def session_save_def session_get_def
  empty_session_store_def set_add_def epoch_seconds_def base64Url_def bytes_of_def b64_char_def base64_alphabet_def
  refresh_def markUsed_def revokeFamily_def revoke_token_def user_findById_def

lemma refresh_single_use_witness:
  "\<exists>e. fst (refresh demo_jwt 3000 (demo_draw ''C'') ''QQ''
      (auth_run demo_jwt [OpRefresh 2000 (demo_draw ''B'') ''QQ''] (auth_run demo_jwt demo_auth_ops (auth_init empty_identity_repo empty_bus ''k'')))) = Inl e"
  by (rule refresh_single_use [OF _ refl, where tokens =
        "\<lparr>tk_accessToken = signJwt demo_jwt \<lparr>cl_sub = ''u1'', cl_email = ''a'', cl_role = ''consumer'', cl_iat = 1, cl_exp = 901\<rparr> ''k'',
          tk_refreshToken = ''Qg''\<rparr>"])
     (simp_all add: demo_auth_simps)

text \<open>A replayed refresh token revokes its family for good: after the replay is detected, every
  token of the family (those issued before and those in any later state) is rejected as
  invalid, whatever operations follow.\<close>

lemma replay_revokes_family:
  assumes "auth_fresh L ops (auth_init repo bus secret)" and "s = auth_run L ops (auth_init repo bus secret)"
    and "refresh L t d tok s = (Inl IDENTITY_REFRESH_REPLAY_DETECTED, s')"
    and "auth_fresh L later_ops s'"
  shows "\<exists>r. session_get tok (au_sessionStore s) = Some r \<and>
    (\<forall>tok' q. session_get tok' (au_sessionStore s) = Some q \<longrightarrow> rs_familyId q = rs_familyId r \<longrightarrow>
       (\<exists>q'. session_get tok' (au_sessionStore s') = Some q' \<and> rs_revoked q')) \<and>
    (\<forall>tok' q t' d'. session_get tok' (au_sessionStore (auth_run L later_ops s')) = Some q \<longrightarrow>
       rs_familyId q = rs_familyId r \<longrightarrow>
       fst (refresh L t' d' tok' (auth_run L later_ops s')) = Inl IDENTITY_INVALID_REFRESH_TOKEN)"
proof -
  have s: "sessions_ok (au_sessionStore s)"
    using assms(1,2) auth_run_sessions_ok by (simp add: auth_init_def sessions_ok_empty)
  obtain r where r: "session_get tok (au_sessionStore s) = Some r"
    and s': "s' = s\<lparr>au_sessionStore := revokeFamily (rs_familyId r) (au_sessionStore s)\<rparr>"
    using assms(3) by (rule replay_record)
  have s'_ok: "sessions_ok (au_sessionStore s')" by (simp add: s' s sessions_ok_revokeFamily)
  have dead: "family_dead (rs_familyId r) (au_sessionStore s')" by (simp add: s' revokeFamily_dead [OF s r])
  have later: "family_dead (rs_familyId r) (au_sessionStore (auth_run L later_ops s'))"
    by (rule family_dead_run [OF s'_ok assms(4) dead])
  have "\<exists>q'. session_get tok' (au_sessionStore s') = Some q' \<and> rs_revoked q'"
    if "session_get tok' (au_sessionStore s) = Some q" "rs_familyId q = rs_familyId r" for tok' q
    using that by (simp add: s' session_get_revokeFamily [OF s])
  with r later show ?thesis by (auto simp: family_dead_refresh)
qed

lemma replay_revokes_family_witness:
  "\<exists>r. session_get ''QQ'' (au_sessionStore (auth_run demo_jwt (demo_auth_ops @ [OpRefresh 2000 (demo_draw ''B'') ''QQ''])
         (auth_init empty_identity_repo empty_bus ''k''))) = Some r"
proof -
  let ?s = "auth_run demo_jwt (demo_auth_ops @ [OpRefresh 2000 (demo_draw ''B'') ''QQ'']) (auth_init empty_identity_repo empty_bus ''k'')"
  have fresh: "auth_fresh demo_jwt (demo_auth_ops @ [OpRefresh 2000 (demo_draw ''B'') ''QQ'']) (auth_init empty_identity_repo empty_bus ''k'')"
    by (simp add: demo_auth_simps)
  have "refresh demo_jwt 3000 (demo_draw ''C'') ''QQ'' ?s = (Inl IDENTITY_REFRESH_REPLAY_DETECTED,
      snd (refresh demo_jwt 3000 (demo_draw ''C'') ''QQ'' ?s))"
    by (simp add: demo_auth_simps)
  from replay_revokes_family [OF fresh refl this, of "[]"] show ?thesis by auto
qed

text \<open>A login with a wrong email or password is rejected as invalid credentials and changes
  nothing; with right ones a privileged role gets a session exactly with the code
  123456, an ordinary role always, and the session is one new unused token of a new
  family in the name of the user.\<close>

lemma login_gate:
  "(case findByEmail (js_trim (li_email inp)) (au_repository s) of
      None \<Rightarrow> login L f d inp s = (Inl IDENTITY_INVALID_CREDENTIALS, s)
    | Some u \<Rightarrow>
        if iu_passwordHash u \<noteq> li_passwordHash inp then login L f d inp s = (Inl IDENTITY_INVALID_CREDENTIALS, s)
        else if iu_role u \<in> {Support_agent, Finance_ops, System_admin} \<and> li_mfaCode inp \<noteq> Some ''123456''
        then \<exists>e \<in> {IDENTITY_MFA_REQUIRED, IDENTITY_INVALID_MFA_CODE}. login L f d inp s = (Inl e, s)
        else (\<exists>tokens. fst (login L f d inp s) = Inr tokens \<and>
          session_get (tk_refreshToken tokens) (au_sessionStore (snd (login L f d inp s))) =
            Some (new_session d (iu_id u) f)))"
proof -
  have lower: "findByEmail (js_trim (li_email inp)) (au_repository s) =
      findByEmail (toLowerCase (js_trim (li_email inp))) (au_repository s)" by (simp add: findByEmail_def)
  show ?thesis
  proof (cases "findByEmail (toLowerCase (js_trim (li_email inp))) (au_repository s)")
    case None
    then show ?thesis by (simp add: lower login_def Let_def)
  next
    case (Some u)
    have priv: "role_name (iu_role u) \<in> set privilegedRoles \<longleftrightarrow> iu_role u \<in> {Support_agent, Finance_ops, System_admin}"
      by (cases "iu_role u") (simp_all add: role_name_def privilegedRoles_def)
    obtain tokens s' where i: "issueSession L d u LoginReason f s = (tokens, s')" by (meson surj_pair)
    with issueSession_store [of L d u LoginReason f s] have
      "session_get (tk_refreshToken tokens) (au_sessionStore s') = Some (new_session d (iu_id u) f)"
      by (simp add: session_get_save)
    with Some i show ?thesis by (auto simp: lower login_def Let_def priv)
  qed
qed

text \<open>An access token that the service signed is accepted until it expires and returns exactly
  the claims it was signed with (the JSON text of the claims parsing back), from the
  Base64 encoding through the signature check; after the expiry it is rejected, and any
  accepted token carries the keyed hash of its own header and payload.\<close>

lemma access_token_roundtrip:
  assumes "jl_parse L (jl_stringify L c) = Some c" and "cl_exp c \<noteq> 0"
  shows "verifyAccessToken L t (signJwt L c (au_jwtSecret s)) s =
      (if cl_exp c < epoch_seconds t then Inl IDENTITY_INVALID_ACCESS_TOKEN else Inr c) \<and>
    (\<forall>tok claims. verifyAccessToken L t tok s = Inr claims \<longrightarrow>
      (\<exists>header payload. split_char (CHR ''.'') tok =
         [header, payload, base64Url (jl_hmacSha256 L (au_jwtSecret s) (header @ ''.'' @ payload))]))"
  using assms unfolding verifyAccessToken_def split_signJwt
  by (auto simp: base64Url_roundtrip split: list.splits if_splits option.splits)

lemma access_token_roundtrip_witness:
  "let c = \<lparr>cl_sub = ''u1'', cl_email = ''a'', cl_role = ''consumer'', cl_iat = 1, cl_exp = 901\<rparr> in
   verifyAccessToken demo_jwt 5000 (signJwt demo_jwt c ''k'') (auth_init empty_identity_repo empty_bus ''k'') = Inr c"
  using access_token_roundtrip [of demo_jwt "\<lparr>cl_sub = ''u1'', cl_email = ''a'', cl_role = ''consumer'', cl_iat = 1, cl_exp = 901\<rparr>"
      5000 "auth_init empty_identity_repo empty_bus ''k''"]
  by (simp add: demo_jwt_def auth_init_def epoch_seconds_def)

end
