(* ===== verification/Ordering.thy ===== *)
theory Ordering
  imports Catalog
begin

text \<open>
  Ordering up to the checkout (\<open>core-api/src/modules/consumer-ordering\<close> and
  \<open>pricing-promotions\<close>, with \<open>packages/geo-abstraction\<close>): baskets, delivery zones, quotes
  with tax and promotions, and checkouts that refer to a quote snapshot. The hash of the
  JSON text of a quote is the parameter \<open>hashJson\<close>.
\<close>

section \<open>Baskets\<close>

record basketItemInput =
  bii_itemId :: string
  bii_name :: string
  bii_quantity :: jsnum
  bii_unitPriceCents :: jsnum
  bii_modifiers :: "string list"
  bii_note :: "string option"

record basketItem =
  bi_itemId :: string
  bi_name :: string
  bi_quantity :: jsnum
  bi_unitPriceCents :: jsnum
  bi_modifiers :: "string list"
  bi_note :: "string option"

record basket =
  bk_id :: uuid
  bk_consumerId :: string
  bk_merchantId :: string
  bk_currency :: string
  bk_items :: "basketItem list"
  bk_createdAt :: iso_date
  bk_updatedAt :: iso_date

record createBasketInput =
  cbi_consumerId :: string
  cbi_merchantId :: string
  cbi_currency :: string

type_synonym basket_repo = "(uuid, basket) jsmap"

definition basket_save :: "basket \<Rightarrow> basket_repo \<Rightarrow> basket_repo" where
  "basket_save b r = map_set (bk_id b) b r"

definition basket_findById :: "uuid \<Rightarrow> basket_repo \<Rightarrow> basket option" where
  "basket_findById i r = map_get r i"

interpretation baskets: keyed_repository bk_id "[]" basket_save basket_findById map_values map_wf
  unfolding basket_save_def basket_findById_def by (rule jsmap_repository)

datatype basket_error = BasketNotFound uuid | BasketItemUnavailable "string list"

definition basket_normalizeItems :: "basketItemInput list \<Rightarrow> basketItem list" where
  "basket_normalizeItems items = map (\<lambda>i. \<lparr>bi_itemId = bii_itemId i, bi_name = bii_name i,
     bi_quantity = bii_quantity i, bi_unitPriceCents = bii_unitPriceCents i,
     bi_modifiers = bii_modifiers i, bi_note = bii_note i\<rparr>) items"

definition createBasket :: "iso_date \<Rightarrow> uuid \<Rightarrow> createBasketInput \<Rightarrow> basket_repo \<Rightarrow> basket \<times> basket_repo" where
  "createBasket now uid inp r =
     (let b = \<lparr>bk_id = uid, bk_consumerId = cbi_consumerId inp, bk_merchantId = cbi_merchantId inp,
               bk_currency = cbi_currency inp, bk_items = [], bk_createdAt = now, bk_updatedAt = now\<rparr>
      in (b, basket_save b r))"

text \<open>The availability service reads the clock (\<open>nows i\<close>) for an item it has no record of.\<close>

definition unavailable_items :: "(nat \<Rightarrow> iso_date) \<Rightarrow> basketItemInput list \<Rightarrow> item_repo \<Rightarrow> string list" where
  "unavailable_items nows items ir =
     map (bii_itemId \<circ> snd)
       (filter (\<lambda>(i, item). \<not> ia_available (getAvailability (nows i) (bii_itemId item) ir)) (enumerate 0 items))"

definition updateBasket ::
  "(nat \<Rightarrow> iso_date) \<Rightarrow> iso_date \<Rightarrow> uuid \<Rightarrow> basketItemInput list \<Rightarrow> item_repo \<Rightarrow> basket_repo
     \<Rightarrow> (basket_repo, basket_error, basket) outcome" where
  "updateBasket nows now basketId items ir r =
     (case basket_findById basketId r of
        None \<Rightarrow> (Inl (BasketNotFound basketId), r)
      | Some b \<Rightarrow>
          let unavailableItemIds = unavailable_items nows items ir
          in if unavailableItemIds \<noteq> [] then (Inl (BasketItemUnavailable unavailableItemIds), r)
             else let updated = b\<lparr>bk_items := basket_normalizeItems items, bk_updatedAt := now\<rparr>
                  in (Inr updated, basket_save updated r))"

definition getBasket :: "uuid \<Rightarrow> basket_repo \<Rightarrow> basket_error + basket" where
  "getBasket basketId r = (case basket_findById basketId r of None \<Rightarrow> Inl (BasketNotFound basketId) | Some b \<Rightarrow> Inr b)"

section \<open>Delivery zones\<close>

record deliveryZone =
  dz_zoneId :: string
  dz_name :: string
  dz_minLat :: jsnum
  dz_maxLat :: jsnum
  dz_minLng :: jsnum
  dz_maxLng :: jsnum
  dz_updatedAt :: iso_date

record upsertDeliveryZoneInput =
  uz_zoneId :: string
  uz_name :: string
  uz_minLat :: jsnum
  uz_maxLat :: jsnum
  uz_minLng :: jsnum
  uz_maxLng :: jsnum

record geoPoint =
  gp_latitude :: jsnum
  gp_longitude :: jsnum

record deliveryZoneAlternative =
  za_zoneId :: string
  za_name :: string
  za_distanceScore :: jsnum

record validateZoneResult =
  vz_serviceable :: bool
  vz_zoneId :: "string option"
  vz_reason :: "string option"
  vz_alternatives :: "deliveryZoneAlternative list"

type_synonym zone_repo = "(string, deliveryZone) jsmap"

definition zone_upsert :: "deliveryZone \<Rightarrow> zone_repo \<Rightarrow> zone_repo" where
  "zone_upsert z r = map_set (dz_zoneId z) z r"

definition zone_list :: "zone_repo \<Rightarrow> deliveryZone list" where
  "zone_list r = map_values r"

interpretation zones: keyed_repository dz_zoneId "[]" zone_upsert "\<lambda>k r. map_get r k" zone_list map_wf
  unfolding zone_upsert_def zone_list_def by (rule jsmap_repository)

definition isInside :: "deliveryZone \<Rightarrow> jsnum \<Rightarrow> jsnum \<Rightarrow> bool" where
  "isInside z latitude longitude =
     (num_le (dz_minLat z) latitude \<and> num_le latitude (dz_maxLat z) \<and>
      num_le (dz_minLng z) longitude \<and> num_le longitude (dz_maxLng z))"

definition center :: "deliveryZone \<Rightarrow> geoPoint" where
  "center z = \<lparr>gp_latitude = num_div (num_add (dz_minLat z) (dz_maxLat z)) (Fin 2),
               gp_longitude = num_div (num_add (dz_minLng z) (dz_maxLng z)) (Fin 2)\<rparr>"

definition distanceScore :: "geoPoint \<Rightarrow> geoPoint \<Rightarrow> jsnum" where
  "distanceScore p q =
     (let dLat = num_sub (gp_latitude p) (gp_latitude q);
          dLng = num_sub (gp_longitude p) (gp_longitude q)
      in number_toFixed 6 (math_sqrt (num_add (num_mul dLat dLat) (num_mul dLng dLng))))"

definition upsertZone :: "iso_date \<Rightarrow> upsertDeliveryZoneInput \<Rightarrow> zone_repo \<Rightarrow> deliveryZone \<times> zone_repo" where
  "upsertZone now inp r =
     (let z = \<lparr>dz_zoneId = uz_zoneId inp, dz_name = uz_name inp, dz_minLat = uz_minLat inp, dz_maxLat = uz_maxLat inp,
               dz_minLng = uz_minLng inp, dz_maxLng = uz_maxLng inp, dz_updatedAt = now\<rparr>
      in (z, zone_upsert z r))"

definition zone_alternative :: "geoPoint \<Rightarrow> deliveryZone \<Rightarrow> deliveryZoneAlternative" where
  "zone_alternative p z = \<lparr>za_zoneId = dz_zoneId z, za_name = dz_name z, za_distanceScore = distanceScore p (center z)\<rparr>"

text \<open>\<open>left.distanceScore - right.distanceScore > 0\<close>\<close>

definition score_gt :: "deliveryZoneAlternative \<Rightarrow> deliveryZoneAlternative \<Rightarrow> bool" where
  "score_gt l r = num_lt (Fin 0) (num_sub (za_distanceScore l) (za_distanceScore r))"

definition validatePoint :: "geoPoint \<Rightarrow> zone_repo \<Rightarrow> validateZoneResult" where
  "validatePoint p r =
     (let zs = zone_list r
      in case List.find (\<lambda>z. isInside z (gp_latitude p) (gp_longitude p)) zs of
           Some matched \<Rightarrow>
             \<lparr>vz_serviceable = True, vz_zoneId = Some (dz_zoneId matched), vz_reason = None, vz_alternatives = []\<rparr>
         | None \<Rightarrow>
             \<lparr>vz_serviceable = False, vz_zoneId = None, vz_reason = Some ''OUT_OF_ZONE'',
              vz_alternatives = take 3 (js_sort score_gt (map (zone_alternative p) zs))\<rparr>)"

section \<open>Geo providers\<close>

record routeEstimate =
  re_provider :: string
  re_distanceMeters :: jsnum
  re_etaSeconds :: jsnum

record inMemoryGeoProvider =
  gv_name :: string
  gv_etaSeconds :: jsnum
  gv_distanceMeters :: jsnum

definition estimateRoute :: "inMemoryGeoProvider \<Rightarrow> geoPoint \<Rightarrow> geoPoint \<Rightarrow> routeEstimate" where
  "estimateRoute g src dst =
     \<lparr>re_provider = gv_name g, re_distanceMeters = gv_distanceMeters g, re_etaSeconds = gv_etaSeconds g\<rparr>"

datatype geo_error = GeoProviderNotFound string

definition getProvider :: "string \<Rightarrow> inMemoryGeoProvider list \<Rightarrow> string option \<Rightarrow> geo_error + inMemoryGeoProvider" where
  "getProvider defaultProvider providers name =
     (let byName = map_from_entries (map (\<lambda>g. (gv_name g, g)) providers);
          selectedName = nullish name defaultProvider
      in case map_get byName selectedName of None \<Rightarrow> Inl (GeoProviderNotFound selectedName) | Some g \<Rightarrow> Inr g)"

section \<open>Quotes\<close>

definition TAX_RATE :: jsnum where "TAX_RATE = double_of (8875 / 100000)"

definition SERVICE_FEE_CENTS :: jsnum where "SERVICE_FEE_CENTS = Fin 199"

definition DELIVERY_FEE_CENTS :: jsnum where "DELIVERY_FEE_CENTS = Fin 299"

datatype promoReason = NO_PROMO | PROMO_NOT_FOUND | MINIMUM_NOT_MET | ELIGIBLE

record promotionInput =
  pin_subtotalCents :: jsnum
  pin_promoCode :: "string option"
  pin_deliveryFeeCents :: "jsnum option"

record promotionResult =
  pr_eligible :: bool
  pr_reason :: promoReason
  pr_discountCents :: jsnum
  pr_promoCode :: "string option"

record quote =
  qt_quoteId :: uuid
  qt_quoteHash :: string
  qt_basketId :: uuid
  qt_currency :: string
  qt_subtotalCents :: jsnum
  qt_taxCents :: jsnum
  qt_serviceFeeCents :: jsnum
  qt_deliveryFeeCents :: jsnum
  qt_discountCents :: jsnum
  qt_totalCents :: jsnum
  qt_promo :: promotionResult
  qt_generatedAt :: iso_date

type_synonym quote_repo = "(uuid, quote) jsmap"

definition quote_save :: "quote \<Rightarrow> quote_repo \<Rightarrow> quote_repo" where
  "quote_save q r = map_set (qt_quoteId q) q r"

definition quote_findById :: "uuid \<Rightarrow> quote_repo \<Rightarrow> quote option" where
  "quote_findById i r = map_get r i"

interpretation quotes: keyed_repository qt_quoteId "[]" quote_save quote_findById map_values map_wf
  unfolding quote_save_def quote_findById_def by (rule jsmap_repository)

definition subtotalFromBasket :: "basket \<Rightarrow> jsnum" where
  "subtotalFromBasket b =
     foldl (\<lambda>total item. num_add total (num_mul (bi_quantity item) (bi_unitPriceCents item))) (Fin 0) (bk_items b)"

definition evaluatePromotion :: "promotionInput \<Rightarrow> promotionResult" where
  "evaluatePromotion inp =
     (case pin_promoCode inp of
        None \<Rightarrow> \<lparr>pr_eligible = False, pr_reason = NO_PROMO, pr_discountCents = Fin 0, pr_promoCode = None\<rparr>
      | Some [] \<Rightarrow> \<lparr>pr_eligible = False, pr_reason = NO_PROMO, pr_discountCents = Fin 0, pr_promoCode = None\<rparr>
      | Some promoCode \<Rightarrow>
          let code = toUpperCase promoCode
          in if code = ''WELCOME10'' then
               (if num_lt (pin_subtotalCents inp) (Fin 1000)
                then \<lparr>pr_eligible = False, pr_reason = MINIMUM_NOT_MET, pr_discountCents = Fin 0, pr_promoCode = Some code\<rparr>
                else \<lparr>pr_eligible = True, pr_reason = ELIGIBLE,
                      pr_discountCents = math_min (math_round (num_mul (pin_subtotalCents inp) (double_of (1 / 10)))) (Fin 1000),
                      pr_promoCode = Some code\<rparr>)
             else if code = ''FREESHIP'' then
               \<lparr>pr_eligible = True, pr_reason = ELIGIBLE,
                pr_discountCents = nullish (pin_deliveryFeeCents inp) DELIVERY_FEE_CENTS, pr_promoCode = Some code\<rparr>
             else \<lparr>pr_eligible = False, pr_reason = PROMO_NOT_FOUND, pr_discountCents = Fin 0, pr_promoCode = Some code\<rparr>)"

datatype quote_error = QuoteBasketNotFound uuid

definition generateQuote ::
  "((string \<times> json) list \<Rightarrow> string) \<Rightarrow> uuid \<Rightarrow> iso_date \<Rightarrow> uuid \<Rightarrow> string option \<Rightarrow> basket_repo \<Rightarrow> quote_repo
     \<Rightarrow> (quote_repo, quote_error, quote) outcome" where
  "generateQuote hashJson uid now basketId promoCode br r =
     (case basket_findById basketId br of
        None \<Rightarrow> (Inl (QuoteBasketNotFound basketId), r)
      | Some b \<Rightarrow>
          let subtotalCents = subtotalFromBasket b;
              taxCents = math_round (num_mul subtotalCents TAX_RATE);
              promo = evaluatePromotion \<lparr>pin_subtotalCents = subtotalCents, pin_promoCode = promoCode,
                                         pin_deliveryFeeCents = Some DELIVERY_FEE_CENTS\<rparr>;
              discountCents = pr_discountCents promo;
              totalCents = math_max (Fin 0)
                (num_sub (num_add (num_add (num_add subtotalCents taxCents) SERVICE_FEE_CENTS) DELIVERY_FEE_CENTS) discountCents);
              quoteHash = hashJson
                [(''basketId'', JStr (bk_id b)), (''currency'', JStr (bk_currency b)), (''subtotalCents'', JNum subtotalCents),
                 (''taxCents'', JNum taxCents), (''serviceFeeCents'', JNum SERVICE_FEE_CENTS),
                 (''deliveryFeeCents'', JNum DELIVERY_FEE_CENTS), (''discountCents'', JNum discountCents),
                 (''totalCents'', JNum totalCents), (''promoCode'', jopt JStr (pr_promoCode promo))];
              q = \<lparr>qt_quoteId = uid, qt_quoteHash = quoteHash, qt_basketId = bk_id b, qt_currency = bk_currency b,
                   qt_subtotalCents = subtotalCents, qt_taxCents = taxCents, qt_serviceFeeCents = SERVICE_FEE_CENTS,
                   qt_deliveryFeeCents = DELIVERY_FEE_CENTS, qt_discountCents = discountCents, qt_totalCents = totalCents,
                   qt_promo = promo, qt_generatedAt = now\<rparr>
          in (Inr q, quote_save q r))"

section \<open>Checkout\<close>

record checkoutInput =
  cin_basketId :: uuid
  cin_quoteId :: uuid
  cin_quoteHash :: string

record checkoutPayload =
  cp_checkoutId :: uuid
  cp_basketId :: uuid
  cp_quoteId :: uuid
  cp_quoteHash :: string
  cp_totalCents :: jsnum
  cp_currency :: string
  cp_expiresAt :: iso_date

type_synonym checkout_repo = "(uuid, checkoutPayload) jsmap"

definition checkout_save :: "checkoutPayload \<Rightarrow> checkout_repo \<Rightarrow> checkout_repo" where
  "checkout_save c r = map_set (cp_checkoutId c) c r"

definition checkout_findById :: "uuid \<Rightarrow> checkout_repo \<Rightarrow> checkoutPayload option" where
  "checkout_findById i r = map_get r i"

interpretation checkouts: keyed_repository cp_checkoutId "[]" checkout_save checkout_findById map_values map_wf
  unfolding checkout_save_def checkout_findById_def by (rule jsmap_repository)

datatype checkout_error = QuoteSnapshotNotFound | QuoteSnapshotMismatch

definition createCheckout ::
  "host \<Rightarrow> int \<Rightarrow> uuid \<Rightarrow> checkoutInput \<Rightarrow> quote_repo \<Rightarrow> checkout_repo \<Rightarrow> (checkout_repo, checkout_error, checkoutPayload) outcome" where
  "createCheckout h nowMs uid inp qr r =
     (case quote_findById (cin_quoteId inp) qr of
        None \<Rightarrow> (Inl QuoteSnapshotNotFound, r)
      | Some q \<Rightarrow>
          if qt_basketId q \<noteq> cin_basketId inp \<or> qt_quoteHash q \<noteq> cin_quoteHash inp
          then (Inl QuoteSnapshotMismatch, r)
          else
            let payload = \<lparr>cp_checkoutId = uid, cp_basketId = cin_basketId inp, cp_quoteId = cin_quoteId inp,
                           cp_quoteHash = cin_quoteHash inp, cp_totalCents = qt_totalCents q, cp_currency = qt_currency q,
                           cp_expiresAt = host_toISOString h (nowMs + 10 * 60 * 1000)\<rparr>
            in (Inr payload, checkout_save payload r))"


section \<open>Basket updates are all or nothing\<close>

lemma unavailable_items_eq:
  "unavailable_items nows items ir =
     map bii_itemId (filter (\<lambda>i. \<not> (case item_findByItemId (bii_itemId i) ir of None \<Rightarrow> True | Some a \<Rightarrow> ia_available a)) items)"
proof -
  have av: "ia_available (getAvailability n k ir) = (case item_findByItemId k ir of None \<Rightarrow> True | Some a \<Rightarrow> ia_available a)" for n k
    by (simp add: getAvailability_def split: option.splits)
  have "map (bii_itemId \<circ> snd) (filter (\<lambda>(i, item). P item) (enumerate n items)) = map bii_itemId (filter P items)" for P n
    by (induction items arbitrary: n) simp_all
  then show ?thesis by (simp add: unavailable_items_def av)
qed

section \<open>Amounts\<close>

text \<open>A basket whose quantities and prices are integers, with their sum of products.\<close>

definition integral_items :: "basketItem list \<Rightarrow> (int \<times> int) list \<Rightarrow> bool" where
  "integral_items items qs = list_all2 (\<lambda>i (q, u). bi_quantity i = num_int q \<and> bi_unitPriceCents i = num_int u \<and> 0 \<le> q \<and> 0 \<le> u) items qs"

definition sum_products :: "(int \<times> int) list \<Rightarrow> int" where
  "sum_products qs = sum_list (map (\<lambda>(q, u). q * u) qs)"

lemma sum_products_nonneg: "integral_items items qs \<Longrightarrow> 0 \<le> sum_products qs"
  unfolding integral_items_def by (induction items qs rule: list_all2_induct) (auto simp: sum_products_def)

lemma foldl_products:
  assumes "integral_items items qs" "0 \<le> acc" "acc + sum_products qs < 2 ^ 53"
  shows "foldl (\<lambda>total item. num_add total (num_mul (bi_quantity item) (bi_unitPriceCents item))) (num_int acc) items =
    num_int (acc + sum_products qs)"
  using assms
proof (induction items arbitrary: acc qs)
  case Nil
  then show ?case by (simp add: integral_items_def sum_products_def)
next
  case (Cons i items)
  obtain q u qs' where qs: "qs = (q, u) # qs'" and i: "bi_quantity i = num_int q" "bi_unitPriceCents i = num_int u" "0 \<le> q" "0 \<le> u"
    and rest: "integral_items items qs'"
    using Cons.prems(1) by (cases qs) (auto simp: integral_items_def)
  have nn: "0 \<le> sum_products qs'" using rest by (rule sum_products_nonneg)
  have pos: "0 \<le> q * u" using i by simp
  have S: "sum_products qs = q * u + sum_products qs'" by (simp add: qs sum_products_def)
  have bound: "acc + q * u < 2 ^ 53" using Cons.prems(3) nn unfolding S by linarith
  have "num_mul (num_int q) (num_int u) = num_int (q * u)"
    using pos bound Cons.prems(2) by (intro num_mul_int) simp
  moreover have "num_add (num_int acc) (num_int (q * u)) = num_int (acc + q * u)"
    using pos bound Cons.prems(2) by (intro num_add_int) simp
  moreover have "foldl (\<lambda>total item. num_add total (num_mul (bi_quantity item) (bi_unitPriceCents item))) (num_int (acc + q * u)) items =
      num_int (acc + q * u + sum_products qs')"
    using rest pos Cons.prems(2,3) unfolding S by (intro Cons.IH) simp_all
  ultimately show ?case unfolding foldl_Cons i by (simp only: S add.assoc)
qed

lemma subtotal_exact:
  "integral_items (bk_items b) qs \<Longrightarrow> sum_products qs < 2 ^ 53 \<Longrightarrow> subtotalFromBasket b = num_int (sum_products qs)"
  using foldl_products [of "bk_items b" qs 0] by (simp add: subtotalFromBasket_def)

lemma tax_rate_constant: "TAX_RATE = double_of (of_int 71 / of_int 800)"
  by (simp add: TAX_RATE_def)

lemma math_min_int: "math_min (num_int a) (num_int b) = num_int (min a b)"
  by (simp add: math_min_def min_def)

lemma math_max_int: "math_max (num_int a) (num_int b) = num_int (max a b)"
  by (simp add: math_max_def max_def)

text \<open>The discount on an integral subtotal.\<close>

definition discount_of :: "int \<Rightarrow> string option \<Rightarrow> int \<Rightarrow> bool" where
  "discount_of S promo D =
     (case promo of
        None \<Rightarrow> D = 0
      | Some code \<Rightarrow>
          if toUpperCase code = ''WELCOME10'' \<and> 1000 \<le> S
          then (D = 1000 \<and> 9995 \<le> S \<or> D < 1000 \<and> 2 * \<bar>10 * D - S\<bar> \<le> 10)
          else D = (if toUpperCase code = ''FREESHIP'' then 299 else 0))"

lemma discount_exact:
  assumes "0 \<le> S" "S < 2 ^ 40"
  obtains D where "pr_discountCents (evaluatePromotion \<lparr>pin_subtotalCents = num_int S, pin_promoCode = promo,
      pin_deliveryFeeCents = Some DELIVERY_FEE_CENTS\<rparr>) = num_int D" and "discount_of S promo D" and "0 \<le> D" and "D \<le> S + 299"
proof -
  obtain r where r: "math_round (num_mul (num_int S) (double_of (1 / 10))) = num_int r" "2 * \<bar>10 * r - 1 * S\<bar> \<le> 10"
    using round_times_constant [of 1 10 S] assms by auto
  let ?w = "\<lambda>c. toUpperCase c = ''WELCOME10''"
  show thesis
  proof (cases "promo = None \<or> promo = Some []")
    case True
    then show thesis using assms
      by (intro that [of 0]) (auto simp: evaluatePromotion_def discount_of_def toUpperCase_def)
  next
    case False
    then obtain a cs where c: "promo = Some (a # cs)" by (cases promo) (auto simp: neq_Nil_conv)
    show thesis
    proof (cases "?w (a # cs)")
      case w: True
      show thesis
      proof (cases "1000 \<le> S")
        case True
        then have "\<not> num_lt (num_int S) (Fin 1000)" by simp
        then have "pr_discountCents (evaluatePromotion \<lparr>pin_subtotalCents = num_int S, pin_promoCode = promo,
            pin_deliveryFeeCents = Some DELIVERY_FEE_CENTS\<rparr>) = num_int (min r 1000)"
          using w math_min_int [of r 1000] by (simp add: c evaluatePromotion_def r(1))
        then show thesis using True w r(2) c by (intro that [of "min r 1000"]) (auto simp: discount_of_def min_def)
      next
        case False
        then have "num_lt (num_int S) (Fin 1000)" by simp
        with False w c assms show thesis by (intro that [of 0]) (simp_all add: evaluatePromotion_def discount_of_def)
      qed
    next
      case False
      then show thesis using assms c
        by (intro that [of "if toUpperCase (a # cs) = ''FREESHIP'' then 299 else 0"])
           (simp_all add: evaluatePromotion_def discount_of_def Let_def DELIVERY_FEE_CENTS_def)
    qed
  qed
qed

section \<open>Alternatives are the nearest zones\<close>

text \<open>With finite coordinates no distance is NaN, even where a computation overflows.\<close>

definition finite_zone :: "deliveryZone \<Rightarrow> bool" where
  "finite_zone z = (is_finite (dz_minLat z) \<and> is_finite (dz_maxLat z) \<and> is_finite (dz_minLng z) \<and> is_finite (dz_maxLng z))"

definition finite_point :: "geoPoint \<Rightarrow> bool" where
  "finite_point p = (is_finite (gp_latitude p) \<and> is_finite (gp_longitude p))"

definition nonneg_num :: "jsnum \<Rightarrow> bool" where
  "nonneg_num a = (case a of Fin x \<Rightarrow> 0 \<le> x | PInf \<Rightarrow> True | _ \<Rightarrow> False)"

lemma double_of_not_NaN: "double_of x \<noteq> NaN"
  by (simp add: double_of_def Let_def)

lemma double_of_nonneg: "0 \<le> x \<Longrightarrow> nonneg_num (double_of x)"
  using round_half_even_ge [of 0 "\<bar>x\<bar> / 2 powi double_exp x"] powi_pos [of "double_exp x"]
  by (auto simp: double_of_def Let_def nonneg_num_def)

lemma nonneg_square: "a \<noteq> NaN \<Longrightarrow> nonneg_num (num_mul a a)"
  by (cases a) (simp_all add: double_of_nonneg [unfolded nonneg_num_def] nonneg_num_def num_inf_def)

lemma nonneg_add: "nonneg_num a \<Longrightarrow> nonneg_num b \<Longrightarrow> nonneg_num (num_add a b)"
  by (cases a; cases b) (simp_all add: nonneg_num_def double_of_nonneg [unfolded nonneg_num_def])

lemma fixed_sqrt_not_NaN: "nonneg_num a \<Longrightarrow> number_toFixed 6 (math_sqrt a) \<noteq> NaN"
  by (cases a) (simp_all add: nonneg_num_def Let_def double_of_not_NaN)

lemma offset_not_NaN:
  "is_finite a \<Longrightarrow> is_finite b \<Longrightarrow> is_finite c \<Longrightarrow> num_sub a (num_div (num_add b c) (Fin 2)) \<noteq> NaN"
proof -
  assume "is_finite a" "is_finite b" "is_finite c"
  then obtain x y z where "a = Fin x" "b = Fin y" "c = Fin z"
    by (auto simp: is_finite_def split: jsnum.splits)
  moreover have "num_div j (Fin 2) \<noteq> NaN" if "j \<noteq> NaN" for j
    using that double_of_not_NaN by (cases j) (simp_all add: num_inf_def)
  moreover have "num_sub (Fin x) j \<noteq> NaN" if "j \<noteq> NaN" for j x
    using that double_of_not_NaN by (cases j) (simp_all add: num_sub_def)
  ultimately show ?thesis by (simp add: double_of_not_NaN)
qed

lemma score_not_NaN: "finite_zone z \<Longrightarrow> finite_point p \<Longrightarrow> za_distanceScore (zone_alternative p z) \<noteq> NaN"
  by (simp add: zone_alternative_def distanceScore_def Let_def center_def fixed_sqrt_not_NaN nonneg_add nonneg_square
      offset_not_NaN finite_zone_def finite_point_def)

lemma score_is_double: "is_double (za_distanceScore (zone_alternative p z))"
proof -
  have "is_double (number_toFixed 6 a)" for a by (cases a) (simp_all add: Let_def is_double_def [of NaN] is_double_def [of PInf] is_double_def [of NInf])
  then show ?thesis by (simp add: zone_alternative_def distanceScore_def Let_def)
qed

lemma alternatives_sorted:
  assumes "\<forall>z \<in> set zs. za_distanceScore (zone_alternative p z) \<noteq> NaN"
  shows "sorted_wrt (\<lambda>a b. \<not> za_distanceScore b < za_distanceScore a) (js_sort score_gt (map (zone_alternative p) zs))"
proof -
  have "js_sort score_gt (map (zone_alternative p) zs) =
      js_sort (\<lambda>x y. za_distanceScore y < za_distanceScore x) (map (zone_alternative p) zs)"
    using assms by (intro js_sort_cong) (auto simp: score_gt_def num_sub_positive score_is_double)
  then show ?thesis using comparator_contract.sorted_js_sort [OF key_comparator] by metis
qed

section \<open>Runs of the ordering services\<close>

record ordering =
  og_items :: item_repo
  og_baskets :: basket_repo
  og_quotes :: quote_repo
  og_checkouts :: checkout_repo

datatype ordering_op =
    OpCreateBasket iso_date uuid createBasketInput
  | OpUpdateBasket "nat \<Rightarrow> iso_date" iso_date uuid "basketItemInput list"
  | OpSetAvailability iso_date string updateItemAvailabilityInput
  | OpQuote uuid iso_date uuid "string option"
  | OpCheckout int uuid checkoutInput

fun ordering_step :: "host \<Rightarrow> ((string \<times> json) list \<Rightarrow> string) \<Rightarrow> ordering_op \<Rightarrow> ordering \<Rightarrow> ordering" where
  "ordering_step h H (OpCreateBasket now uid inp) s = s\<lparr>og_baskets := snd (createBasket now uid inp (og_baskets s))\<rparr>"
| "ordering_step h H (OpUpdateBasket nows now i items) s =
     s\<lparr>og_baskets := snd (updateBasket nows now i items (og_items s) (og_baskets s))\<rparr>"
| "ordering_step h H (OpSetAvailability now i inp) s = s\<lparr>og_items := snd (setAvailability now i inp (og_items s))\<rparr>"
| "ordering_step h H (OpQuote uid now i promo) s =
     s\<lparr>og_quotes := snd (generateQuote H uid now i promo (og_baskets s) (og_quotes s))\<rparr>"
| "ordering_step h H (OpCheckout nowMs uid inp) s =
     s\<lparr>og_checkouts := snd (createCheckout h nowMs uid inp (og_quotes s) (og_checkouts s))\<rparr>"

text \<open>A new quote gets an identifier that is not in use.\<close>

fun ordering_fresh :: "host \<Rightarrow> ((string \<times> json) list \<Rightarrow> string) \<Rightarrow> ordering_op list \<Rightarrow> ordering \<Rightarrow> bool" where
  "ordering_fresh h H [] s = True"
| "ordering_fresh h H (op # ops) s =
     ((case op of OpQuote uid _ _ _ \<Rightarrow> quote_findById uid (og_quotes s) = None | _ \<Rightarrow> True) \<and>
      ordering_fresh h H ops (ordering_step h H op s))"

lemma generateQuote_cases:
  "generateQuote H uid now i promo br r = (Inl (QuoteBasketNotFound i), r) \<or>
   (\<exists>q. generateQuote H uid now i promo br r = (Inr q, quote_save q r) \<and> qt_quoteId q = uid)"
  by (cases "basket_findById i br") (simp_all add: generateQuote_def Let_def)

lemma generateQuote_fields:
  assumes "basket_findById i br = Some b"
  shows "\<exists>q. generateQuote H uid now i promo br r = (Inr q, quote_save q r) \<and>
    qt_subtotalCents q = subtotalFromBasket b \<and>
    qt_taxCents q = math_round (num_mul (subtotalFromBasket b) TAX_RATE) \<and>
    qt_discountCents q = pr_discountCents (evaluatePromotion \<lparr>pin_subtotalCents = subtotalFromBasket b, pin_promoCode = promo,
      pin_deliveryFeeCents = Some DELIVERY_FEE_CENTS\<rparr>) \<and>
    qt_totalCents q = math_max (Fin 0) (num_sub (num_add (num_add (num_add (subtotalFromBasket b)
        (math_round (num_mul (subtotalFromBasket b) TAX_RATE))) SERVICE_FEE_CENTS) DELIVERY_FEE_CENTS)
      (pr_discountCents (evaluatePromotion \<lparr>pin_subtotalCents = subtotalFromBasket b, pin_promoCode = promo,
        pin_deliveryFeeCents = Some DELIVERY_FEE_CENTS\<rparr>)))"
  by (simp add: generateQuote_def assms Let_def)

lemma quote_kept_step:
  assumes "ordering_fresh h H [op] s" "quote_findById i (og_quotes s) = Some q"
  shows "quote_findById i (og_quotes (ordering_step h H op s)) = Some q"
proof (cases op)
  case (OpQuote uid now b promo)
  with assms show ?thesis
    using generateQuote_cases [of H uid now b promo "og_baskets s" "og_quotes s"]
    by (auto simp: quotes.find_save)
qed (use assms in simp_all)

lemma quote_kept:
  "ordering_fresh h H ops s \<Longrightarrow> quote_findById i (og_quotes s) = Some q \<Longrightarrow>
   quote_findById i (og_quotes (fold (ordering_step h H) ops s)) = Some q"
  by (induction ops arbitrary: s) (simp_all add: quote_kept_step)


section \<open>Properties\<close>

text \<open>A basket update is all or nothing: it is rejected, changing nothing, with exactly the ids
  of the requested items that are marked unavailable (in the order requested, repetitions
  included) when there are any, and otherwise stores the requested items in place of the
  old ones and leaves the owner, merchant and every other basket alone.\<close>

lemma basket_update_atomic:
  assumes "basket_findById i r = Some b" and "map_wf r" and "bk_id b = i"
  shows "let out = filter (\<lambda>k. \<exists>a. item_findByItemId k ir = Some a \<and> \<not> ia_available a) (map bii_itemId items);
             res = updateBasket nows now i items ir r
         in (out \<noteq> [] \<longrightarrow> res = (Inl (BasketItemUnavailable out), r)) \<and>
            (out = [] \<longrightarrow> (\<exists>b'. fst res = Inr b' \<and> basket_findById i (snd res) = Some b' \<and> map_wf (snd res) \<and>
               bk_items b' = basket_normalizeItems items \<and> map bi_itemId (bk_items b') = map bii_itemId items \<and>
               bk_consumerId b' = bk_consumerId b \<and> bk_merchantId b' = bk_merchantId b \<and>
               (\<forall>j. j \<noteq> i \<longrightarrow> basket_findById j (snd res) = basket_findById j r)))"
proof -
  have "unavailable_items nows items ir =
      filter (\<lambda>k. \<exists>a. item_findByItemId k ir = Some a \<and> \<not> ia_available a) (map bii_itemId items)"
    unfolding unavailable_items_eq filter_map comp_def
    by (intro arg_cong [of _ _ "map bii_itemId"] filter_cong refl) (auto split: option.splits)
  with assms show ?thesis
    by (simp add: updateBasket_def Let_def baskets.find_save baskets.wf_save basket_normalizeItems_def comp_def)
qed

definition demo_basket :: basket where
  "demo_basket = \<lparr>bk_id = ''b1'', bk_consumerId = ''c1'', bk_merchantId = ''m1'', bk_currency = ''USD'',
     bk_items = [\<lparr>bi_itemId = ''i1'', bi_name = ''Soup'', bi_quantity = Fin 2, bi_unitPriceCents = Fin 750,
                  bi_modifiers = [], bi_note = None\<rparr>], bk_createdAt = ''0'', bk_updatedAt = ''0''\<rparr>"

lemma basket_update_atomic_witness:
  "updateBasket (\<lambda>n. ''0'') ''5'' ''b1'' [\<lparr>bii_itemId = ''i2'', bii_name = ''Tea'', bii_quantity = Fin 1,
       bii_unitPriceCents = Fin 300, bii_modifiers = [], bii_note = None\<rparr>]
     [(''i2'', \<lparr>ia_itemId = ''i2'', ia_available = False, ia_reason = None, ia_updatedAt = ''0''\<rparr>)] [(''b1'', demo_basket)]
   = (Inl (BasketItemUnavailable [''i2'']), [(''b1'', demo_basket)])"
  using basket_update_atomic [of "''b1''" "[(''b1'', demo_basket)]" demo_basket
      "[(''i2'', \<lparr>ia_itemId = ''i2'', ia_available = False, ia_reason = None, ia_updatedAt = ''0''\<rparr>)]"
      "[\<lparr>bii_itemId = ''i2'', bii_name = ''Tea'', bii_quantity = Fin 1, bii_unitPriceCents = Fin 300,
         bii_modifiers = [], bii_note = None\<rparr>]" "\<lambda>n. ''0''" "''5''"]
  by (simp add: basket_findById_def map_get_def map_wf_def map_keys_def demo_basket_def item_findByItemId_def Let_def)

text \<open>A point is serviceable exactly when some zone contains it; otherwise, for finite
  coordinates, the alternatives are at most three zones, sorted by their distance score,
  and no zone that is left out is nearer than one that is listed.\<close>

lemma nearest_zones:
  assumes "finite_point p" and "\<forall>z \<in> set (zone_list r). finite_zone z"
  shows "vz_serviceable (validatePoint p r) = (\<exists>z \<in> set (zone_list r). isInside z (gp_latitude p) (gp_longitude p)) \<and>
    (vz_serviceable (validatePoint p r) \<longrightarrow> vz_alternatives (validatePoint p r) = []) \<and>
    (\<not> vz_serviceable (validatePoint p r) \<longrightarrow>
       (let alts = vz_alternatives (validatePoint p r) in
        length alts = min 3 (length (zone_list r)) \<and>
        sorted_wrt (\<lambda>a b. \<not> za_distanceScore b < za_distanceScore a) alts \<and>
        (\<exists>rest. mset alts + mset rest = mset (map (zone_alternative p) (zone_list r)) \<and>
           (\<forall>a \<in> set alts. \<forall>b \<in> set rest. \<not> za_distanceScore b < za_distanceScore a))))"
proof -
  let ?srt = "js_sort score_gt (map (zone_alternative p) (zone_list r))"
  have sorted: "sorted_wrt (\<lambda>a b. \<not> za_distanceScore b < za_distanceScore a) ?srt"
    using assms score_not_NaN by (intro alternatives_sorted) blast
  have cut: "mset (take 3 ?srt) + mset (drop 3 ?srt) = mset (map (zone_alternative p) (zone_list r))"
    by (metis append_take_drop_id mset_append mset_js_sort)
  have len: "length (take 3 ?srt) = min 3 (length (zone_list r))" by (simp add: min.commute)
  have least: "\<forall>a \<in> set (take 3 ?srt). \<forall>b \<in> set (drop 3 ?srt). \<not> za_distanceScore b < za_distanceScore a"
    using sorted_take_least [OF sorted] by blast
  show ?thesis
  proof (cases "List.find (\<lambda>z. isInside z (gp_latitude p) (gp_longitude p)) (zone_list r)")
    case None
    then have "\<not> (\<exists>z \<in> set (zone_list r). isInside z (gp_latitude p) (gp_longitude p))" by (auto simp: find_None_iff)
    moreover have v: "validatePoint p r = \<lparr>vz_serviceable = False, vz_zoneId = None, vz_reason = Some ''OUT_OF_ZONE'',
        vz_alternatives = take 3 ?srt\<rparr>" using None by (simp add: validatePoint_def)
    ultimately show ?thesis
      using cut least len sorted_wrt_take [OF sorted, of 3] unfolding v Let_def by auto
  next
    case (Some z)
    then have "\<exists>z \<in> set (zone_list r). isInside z (gp_latitude p) (gp_longitude p)" by (auto simp: find_Some_iff)
    with Some show ?thesis by (simp add: validatePoint_def)
  qed
qed

definition demo_zone :: deliveryZone where
  "demo_zone = \<lparr>dz_zoneId = ''z1'', dz_name = ''North'', dz_minLat = Fin 0, dz_maxLat = Fin 2, dz_minLng = Fin 0,
     dz_maxLng = Fin 2, dz_updatedAt = ''0''\<rparr>"

lemma nearest_zones_witness:
  "length (vz_alternatives (validatePoint \<lparr>gp_latitude = Fin 4, gp_longitude = Fin 5\<rparr> [(''z1'', demo_zone)])) = 1"
proof -
  let ?p = "\<lparr>gp_latitude = Fin 4, gp_longitude = Fin 5\<rparr>"
  have "\<not> isInside demo_zone (Fin 4) (Fin 5)" "finite_zone demo_zone" "finite_point ?p"
    by (simp_all add: isInside_def demo_zone_def finite_zone_def finite_point_def is_finite_def)
  moreover have "zone_list [(''z1'', demo_zone)] = [demo_zone]" by (simp add: zone_list_def map_values_def)
  ultimately show ?thesis using nearest_zones [of ?p "[(''z1'', demo_zone)]"] by (simp add: Let_def)
qed

text \<open>C16: For a basket of integer quantities and prices with a subtotal below 2 to the 40 cents the
  floating-point computation of the quote is exact where it must be: the subtotal is the
  exact sum, the tax is a nearest integer to 8.875 percent of it, the discount follows
  the promotion (10 percent rounded to a nearest cent and capped at 1000, the delivery
  fee, or none), and the total is subtotal plus tax plus both fees minus discount, never
  clipped at zero.\<close>

theorem quote_amounts:
  assumes "basket_findById i br = Some b" and "integral_items (bk_items b) qs" and "sum_products qs < 2 ^ 40"
  shows "\<exists>q tax D. generateQuote H uid now i promo br r = (Inr q, quote_save q r) \<and>
    qt_subtotalCents q = num_int (sum_products qs) \<and>
    qt_taxCents q = num_int tax \<and> 2 * \<bar>800 * tax - 71 * sum_products qs\<bar> \<le> 800 \<and>
    qt_discountCents q = num_int D \<and> discount_of (sum_products qs) promo D \<and>
    qt_totalCents q = num_int (sum_products qs + tax + 199 + 299 - D) \<and> 0 \<le> sum_products qs + tax + 199 + 299 - D"
proof -
  let ?S = "sum_products qs"
  have S: "0 \<le> ?S" using assms(2) by (rule sum_products_nonneg)
  have sub: "subtotalFromBasket b = num_int ?S" using assms(2,3) by (intro subtotal_exact) simp_all
  obtain tax where tax: "math_round (num_mul (num_int ?S) TAX_RATE) = num_int tax" "2 * \<bar>800 * tax - 71 * ?S\<bar> \<le> 800"
    using round_times_constant [of 71 800 ?S] S assms(3) unfolding tax_rate_constant by auto
  have t: "0 \<le> tax" "tax \<le> ?S + 1"
    using tax(2) S by (simp_all add: abs_if split: if_splits)
  obtain D where D: "pr_discountCents (evaluatePromotion \<lparr>pin_subtotalCents = num_int ?S, pin_promoCode = promo,
      pin_deliveryFeeCents = Some DELIVERY_FEE_CENTS\<rparr>) = num_int D" "discount_of ?S promo D" "0 \<le> D" "D \<le> ?S + 299"
    using discount_exact [OF S assms(3)] by blast
  have a: "num_add (num_int ?S) (num_int tax) = num_int (?S + tax)"
    "num_add (num_int (?S + tax)) (num_int 199) = num_int (?S + tax + 199)"
    "num_add (num_int (?S + tax + 199)) (num_int 299) = num_int (?S + tax + 199 + 299)"
    "num_sub (num_int (?S + tax + 199 + 299)) (num_int D) = num_int (?S + tax + 199 + 299 - D)"
    using S t D assms(3) by (intro num_add_int num_sub_int; simp)+
  have fees: "SERVICE_FEE_CENTS = num_int 199" "DELIVERY_FEE_CENTS = num_int 299"
    by (simp_all add: SERVICE_FEE_CENTS_def DELIVERY_FEE_CENTS_def)
  have pos: "0 \<le> ?S + tax + 199 + 299 - D" using S t D by linarith
  have total: "math_max (Fin 0) (num_int (?S + tax + 199 + 299 - D)) = num_int (?S + tax + 199 + 299 - D)"
    using math_max_int [of 0] pos by (simp only: of_int_0 max_absorb2)
  show ?thesis
    using generateQuote_fields [OF assms(1), of H uid now promo r] D(2) tax(2) pos
    unfolding sub tax(1) D(1) unfolding fees a total by blast
qed

lemma quote_amounts_witness:
  "\<exists>q tax D. generateQuote (\<lambda>ps. ''hash'') ''q1'' ''0'' ''b1'' (Some ''welcome10'') [(''b1'', demo_basket)] [] = (Inr q, quote_save q []) \<and>
     qt_subtotalCents q = num_int 1500 \<and> qt_taxCents q = num_int tax \<and> qt_discountCents q = num_int D"
  using quote_amounts [of "''b1''" "[(''b1'', demo_basket)]" demo_basket "[(2, 750)]" "\<lambda>ps. ''hash''" "''q1''" "''0''" "Some ''welcome10''" "[]"]
  by (auto simp: basket_findById_def map_get_def demo_basket_def integral_items_def sum_products_def)

text \<open>A quote is a snapshot: once stored, and whatever basket changes, availability changes,
  further quotes and checkouts follow, a checkout with its id, hash and basket succeeds
  with the total and currency of the quote, and one with another hash or basket is
  rejected. In particular a change of the basket after the quote does not make it stale.\<close>

lemma checkout_snapshot:
  assumes "ordering_fresh h H ops s" and "quote_findById qid (og_quotes s) = Some q"
    and "s' = fold (ordering_step h H) ops s"
  shows "(\<exists>c. fst (createCheckout h nowMs uid \<lparr>cin_basketId = qt_basketId q, cin_quoteId = qid, cin_quoteHash = qt_quoteHash q\<rparr>
              (og_quotes s') (og_checkouts s')) = Inr c \<and>
           cp_totalCents c = qt_totalCents q \<and> cp_currency c = qt_currency q \<and> cp_basketId c = qt_basketId q) \<and>
    (\<forall>inp. cin_quoteId inp = qid \<longrightarrow> cin_quoteHash inp \<noteq> qt_quoteHash q \<or> cin_basketId inp \<noteq> qt_basketId q \<longrightarrow>
       createCheckout h nowMs uid inp (og_quotes s') (og_checkouts s') = (Inl QuoteSnapshotMismatch, og_checkouts s'))"
proof -
  have "quote_findById qid (og_quotes s') = Some q" unfolding assms(3) by (rule quote_kept [OF assms(1,2)])
  then show ?thesis by (auto simp: createCheckout_def Let_def)
qed

definition demo_ordering :: ordering where
  "demo_ordering = ordering_step epoch_host (\<lambda>ps. ''hash'') (OpQuote ''q1'' ''0'' ''b1'' None)
     \<lparr>og_items = [], og_baskets = [(''b1'', demo_basket)], og_quotes = [], og_checkouts = []\<rparr>"

lemma checkout_snapshot_witness:
  "\<exists>c q. fst (createCheckout epoch_host 0 ''k1'' \<lparr>cin_basketId = ''b1'', cin_quoteId = ''q1'', cin_quoteHash = ''hash''\<rparr>
      (og_quotes (fold (ordering_step epoch_host (\<lambda>ps. ''hash'')) [OpUpdateBasket (\<lambda>n. ''0'') ''5'' ''b1'' []] demo_ordering)) []) = Inr c \<and>
    quote_findById ''q1'' (og_quotes demo_ordering) = Some q \<and> cp_totalCents c = qt_totalCents q"
proof -
  obtain q where q: "quote_findById ''q1'' (og_quotes demo_ordering) = Some q" "qt_basketId q = ''b1''" "qt_quoteHash q = ''hash''"
    by (simp add: demo_ordering_def generateQuote_def Let_def basket_findById_def map_get_def demo_basket_def quotes.find_save)
  have c: "og_checkouts (fold (ordering_step epoch_host (\<lambda>ps. ''hash'')) [OpUpdateBasket (\<lambda>n. ''0'') ''5'' ''b1'' []] demo_ordering) = []"
    by (simp add: demo_ordering_def)
  show ?thesis
    using checkout_snapshot [of epoch_host "\<lambda>ps. ''hash''" "[OpUpdateBasket (\<lambda>n. ''0'') ''5'' ''b1'' []]", OF _ q(1) refl, of 0 "''k1''"]
    unfolding q(2,3) c using q(1) by (simp only: ordering_fresh.simps ordering_op.case) blast
qed

end
