(* ===== verification/Orders.thy ===== *)
theory Orders
  imports Ordering
begin

text \<open>
  Order orchestration (\<open>core-api/src/modules/order-orchestration\<close>): the order service
  (created, accepted, dispatched, delivered, cancelled) and the timeline it projects from
  its events. \<open>order_service\<close> mirrors the fields of the class; a publication goes to the
  bus and then to the timeline, as in \<open>publishEvent\<close>.
\<close>

section \<open>Orders\<close>

datatype orderStatus =
    CREATED | MERCHANT_ACCEPTED | DISPATCH_PENDING | COURIER_ASSIGNED | PICKED_UP | DELIVERED | CANCELLED

definition orderStatus_name :: "orderStatus \<Rightarrow> string" where
  "orderStatus_name s = (case s of
     CREATED \<Rightarrow> ''CREATED'' | MERCHANT_ACCEPTED \<Rightarrow> ''MERCHANT_ACCEPTED'' | DISPATCH_PENDING \<Rightarrow> ''DISPATCH_PENDING''
   | COURIER_ASSIGNED \<Rightarrow> ''COURIER_ASSIGNED'' | PICKED_UP \<Rightarrow> ''PICKED_UP'' | DELIVERED \<Rightarrow> ''DELIVERED''
   | CANCELLED \<Rightarrow> ''CANCELLED'')"

record order =
  or_id :: uuid
  or_checkoutId :: uuid
  or_quoteHash :: string
  or_consumerId :: "string option"
  or_merchantId :: "string option"
  or_courierId :: "string option"
  or_status :: orderStatus
  or_cancellationReason :: "string option"
  or_cancelledBy :: "string option"
  or_createdAt :: iso_date
  or_updatedAt :: iso_date

record createOrderInput =
  coi_checkoutId :: uuid
  coi_quoteHash :: string

datatype cancellationActor = ByConsumer | ByMerchantOperator | BySupportAgent | BySystemAdmin

definition actor_name :: "cancellationActor \<Rightarrow> string" where
  "actor_name a = (case a of
     ByConsumer \<Rightarrow> ''consumer'' | ByMerchantOperator \<Rightarrow> ''merchant_operator''
   | BySupportAgent \<Rightarrow> ''support_agent'' | BySystemAdmin \<Rightarrow> ''system_admin'')"

record requestCancellationInput =
  rci_actor :: cancellationActor
  rci_reasonCode :: string

type_synonym order_repo = "(uuid, order) jsmap"

definition order_save :: "order \<Rightarrow> order_repo \<Rightarrow> order_repo" where
  "order_save v r = map_set (or_id v) v r"

definition order_findById :: "uuid \<Rightarrow> order_repo \<Rightarrow> order option" where
  "order_findById i r = map_get r i"

definition order_list :: "order_repo \<Rightarrow> order list" where
  "order_list r = map_values r"

interpretation orders: keyed_repository or_id "[]" order_save order_findById order_list map_wf
  unfolding order_save_def order_findById_def order_list_def by (rule jsmap_repository)

datatype order_error =
    InvalidCheckout uuid
  | OrderNotFound uuid
  | QuoteHashMismatch
  | CancellationNotAllowed uuid cancellationActor orderStatus

section \<open>The timeline\<close>

record timelineEntry =
  te_orderId :: uuid
  te_eventType :: string
  te_status :: string
  te_occurredAt :: iso_date
  te_details :: "(string \<times> string) list"

type_synonym timeline_repo = "(uuid, timelineEntry list) jsmap"

definition timeline_append :: "timelineEntry \<Rightarrow> timeline_repo \<Rightarrow> timeline_repo" where
  "timeline_append e r = map_set (te_orderId e) (nullish (map_get r (te_orderId e)) [] @ [e]) r"

definition timeline_getByOrderId :: "uuid \<Rightarrow> timeline_repo \<Rightarrow> timelineEntry list" where
  "timeline_getByOrderId i r = nullish (map_get r i) []"

definition eventStatusMap :: "(string \<times> string) list" where
  "eventStatusMap =
     [(''order.created.v1'', ''CREATED''),
      (''order.confirmed.v1'', ''MERCHANT_ACCEPTED''),
      (''dispatch.assignment.requested.v1'', ''DISPATCH_PENDING''),
      (''dispatch.assignment.completed.v1'', ''COURIER_ASSIGNED''),
      (''order.picked_up.v1'', ''PICKED_UP''),
      (''order.delivered.v1'', ''DELIVERED''),
      (''order.cancel_requested.v1'', ''CANCEL_REQUESTED''),
      (''order.cancelled.v1'', ''CANCELLED'')]"

text \<open>Event types are literals of the sources, none of them the name of an inherited property.\<close>

definition toTimelineEntry :: "domain_event \<Rightarrow> timelineEntry option" where
  "toTimelineEntry e =
     (case obj_lookup eventStatusMap (ev_type e) of
        Own status \<Rightarrow>
          (case jstring (jprop (ev_payload e) ''orderId'') of
             None \<Rightarrow> None
           | Some i \<Rightarrow>
               Some \<lparr>te_orderId = i, te_eventType = ev_type e, te_status = status, te_occurredAt = ev_occurredAt e,
                 te_details =
                   (case jstring (jprop (ev_payload e) ''reasonCode'') of None \<Rightarrow> [] | Some c \<Rightarrow> [(''reasonCode'', c)]) @
                   (case jstring (jprop (ev_payload e) ''cancelledBy'') of None \<Rightarrow> [] | Some c \<Rightarrow> [(''cancelledBy'', c)])\<rparr>)
      | _ \<Rightarrow> None)"

definition projectEvent :: "domain_event \<Rightarrow> timeline_repo \<Rightarrow> timeline_repo" where
  "projectEvent e r = (case toTimelineEntry e of None \<Rightarrow> r | Some entry \<Rightarrow> timeline_append entry r)"

record rebuildSummary =
  rb_entriesRebuilt :: nat
  rb_ordersRebuilt :: nat

definition rebuildFromEventLog :: "event_bus \<Rightarrow> timeline_repo \<Rightarrow> rebuildSummary \<times> timeline_repo" where
  "rebuildFromEventLog b r =
     (let (entriesRebuilt, r') =
        fold (\<lambda>e (n, r). case toTimelineEntry e of None \<Rightarrow> (n, r) | Some entry \<Rightarrow> (n + 1, timeline_append entry r))
          (bus_events b) (0, [])
      in (\<lparr>rb_entriesRebuilt = entriesRebuilt, rb_ordersRebuilt = length r'\<rparr>, r'))"

section \<open>OrderService\<close>

record order_service =
  os_checkouts :: checkout_repo
  os_orders :: order_repo
  os_eventBus :: event_bus
  os_timeline :: "timeline_repo option"
  os_baskets :: "basket_repo option"

definition publishEvent :: "domain_event \<Rightarrow> order_service \<Rightarrow> order_service" where
  "publishEvent e s =
     (let s1 = s\<lparr>os_eventBus := flush (publish e (os_eventBus s))\<rparr>
      in s1\<lparr>os_timeline := map_option (projectEvent e) (os_timeline s1)\<rparr>)"

definition store_order :: "order \<Rightarrow> order_service \<Rightarrow> order_service" where
  "store_order v s = s\<lparr>os_orders := order_save v (os_orders s)\<rparr>"

definition createOrder :: "iso_date \<Rightarrow> uuid \<Rightarrow> createOrderInput \<Rightarrow> order_service \<Rightarrow> (order_service, order_error, order) outcome" where
  "createOrder now uid inp s =
     (case checkout_findById (coi_checkoutId inp) (os_checkouts s) of
        None \<Rightarrow> (Inl (InvalidCheckout (coi_checkoutId inp)), s)
      | Some checkout \<Rightarrow>
          if cp_quoteHash checkout \<noteq> coi_quoteHash inp then (Inl QuoteHashMismatch, s)
          else
            let basket = Option.bind (os_baskets s) (basket_findById (cp_basketId checkout));
                v = \<lparr>or_id = uid, or_checkoutId = coi_checkoutId inp, or_quoteHash = coi_quoteHash inp,
                     or_consumerId = map_option bk_consumerId basket, or_merchantId = map_option bk_merchantId basket,
                     or_courierId = None, or_status = CREATED, or_cancellationReason = None, or_cancelledBy = None,
                     or_createdAt = now, or_updatedAt = now\<rparr>
            in (Inr v, publishEvent (mk_event ''order.created.v1'' now
                         [(''orderId'', JStr (or_id v)), (''checkoutId'', JStr (or_checkoutId v))]) (store_order v s)))"

definition merchantAcceptOrder :: "iso_date \<Rightarrow> uuid \<Rightarrow> order_service \<Rightarrow> (order_service, order_error, order) outcome" where
  "merchantAcceptOrder now orderId s =
     (case order_findById orderId (os_orders s) of
        None \<Rightarrow> (Inl (OrderNotFound orderId), s)
      | Some v \<Rightarrow>
          if or_status v \<noteq> CREATED then (Inr v, s)
          else
            let updated = v\<lparr>or_status := MERCHANT_ACCEPTED, or_courierId := None, or_cancellationReason := None,
                            or_cancelledBy := None, or_updatedAt := now\<rparr>
            in (Inr updated, publishEvent (mk_event ''order.confirmed.v1'' (or_updatedAt updated)
                               [(''orderId'', JStr (or_id updated))]) (store_order updated s)))"

definition handleMerchantDecisionTimeout :: "iso_date \<Rightarrow> uuid \<Rightarrow> order_service \<Rightarrow> (order_service, order_error, order) outcome" where
  "handleMerchantDecisionTimeout now orderId s =
     (case order_findById orderId (os_orders s) of
        None \<Rightarrow> (Inl (OrderNotFound orderId), s)
      | Some v \<Rightarrow>
          if or_status v \<noteq> CREATED then (Inr v, s)
          else
            let updated = v\<lparr>or_status := CANCELLED, or_cancellationReason := Some ''MERCHANT_TIMEOUT'',
                            or_cancelledBy := Some ''system'', or_updatedAt := now\<rparr>
            in (Inr updated, publishEvent (mk_event ''order.cancelled.v1'' (or_updatedAt updated)
                               [(''orderId'', JStr (or_id updated)),
                                (''reasonCode'', jopt JStr (or_cancellationReason updated)),
                                (''cancelledBy'', jopt JStr (or_cancelledBy updated))]) (store_order updated s)))"

definition requestDispatch :: "iso_date \<Rightarrow> uuid \<Rightarrow> order_service \<Rightarrow> (order_service, order_error, order) outcome" where
  "requestDispatch now orderId s =
     (case order_findById orderId (os_orders s) of
        None \<Rightarrow> (Inl (OrderNotFound orderId), s)
      | Some v \<Rightarrow>
          if or_status v \<noteq> MERCHANT_ACCEPTED then (Inr v, s)
          else
            let updated = v\<lparr>or_status := DISPATCH_PENDING, or_courierId := None, or_updatedAt := now\<rparr>
            in (Inr updated, publishEvent (mk_event ''dispatch.assignment.requested.v1'' (or_updatedAt updated)
                               [(''orderId'', JStr (or_id updated)), (''checkoutId'', JStr (or_checkoutId updated))])
                             (store_order updated s)))"

definition courier_event :: "string \<Rightarrow> order \<Rightarrow> string \<Rightarrow> domain_event" where
  "courier_event t v courierId = mk_event t (or_updatedAt v) [(''orderId'', JStr (or_id v)), (''courierId'', JStr courierId)]"

definition assignCourier :: "iso_date \<Rightarrow> uuid \<Rightarrow> string \<Rightarrow> order_service \<Rightarrow> (order_service, order_error, order) outcome" where
  "assignCourier now orderId courierId s =
     (case order_findById orderId (os_orders s) of
        None \<Rightarrow> (Inl (OrderNotFound orderId), s)
      | Some v \<Rightarrow>
          if or_status v = COURIER_ASSIGNED \<and> or_courierId v = Some courierId then (Inr v, s)
          else if or_status v \<noteq> DISPATCH_PENDING then (Inr v, s)
          else
            let updated = v\<lparr>or_courierId := Some courierId, or_status := COURIER_ASSIGNED, or_updatedAt := now\<rparr>
            in (Inr updated, publishEvent (courier_event ''dispatch.assignment.completed.v1'' updated courierId)
                             (store_order updated s)))"

definition markPickedUp :: "iso_date \<Rightarrow> uuid \<Rightarrow> string \<Rightarrow> order_service \<Rightarrow> (order_service, order_error, order) outcome" where
  "markPickedUp now orderId courierId s =
     (case order_findById orderId (os_orders s) of
        None \<Rightarrow> (Inl (OrderNotFound orderId), s)
      | Some v \<Rightarrow>
          if or_status v = PICKED_UP \<and> or_courierId v = Some courierId then (Inr v, s)
          else if or_status v \<noteq> COURIER_ASSIGNED \<or> or_courierId v \<noteq> Some courierId then (Inr v, s)
          else
            let updated = v\<lparr>or_status := PICKED_UP, or_updatedAt := now\<rparr>
            in (Inr updated, publishEvent (courier_event ''order.picked_up.v1'' updated courierId) (store_order updated s)))"

definition markDelivered :: "iso_date \<Rightarrow> uuid \<Rightarrow> string \<Rightarrow> order_service \<Rightarrow> (order_service, order_error, order) outcome" where
  "markDelivered now orderId courierId s =
     (case order_findById orderId (os_orders s) of
        None \<Rightarrow> (Inl (OrderNotFound orderId), s)
      | Some v \<Rightarrow>
          if or_status v = DELIVERED \<and> or_courierId v = Some courierId then (Inr v, s)
          else if or_status v \<noteq> PICKED_UP \<or> or_courierId v \<noteq> Some courierId then (Inr v, s)
          else
            let updated = v\<lparr>or_status := DELIVERED, or_updatedAt := now\<rparr>
            in (Inr updated, publishEvent (courier_event ''order.delivered.v1'' updated courierId) (store_order updated s)))"

definition getOrder :: "uuid \<Rightarrow> order_service \<Rightarrow> order_error + order" where
  "getOrder orderId s =
     (case order_findById orderId (os_orders s) of None \<Rightarrow> Inl (OrderNotFound orderId) | Some v \<Rightarrow> Inr v)"

definition cancellationPolicy :: "cancellationActor \<Rightarrow> orderStatus set" where
  "cancellationPolicy a = (case a of
     ByConsumer \<Rightarrow> {CREATED, MERCHANT_ACCEPTED}
   | ByMerchantOperator \<Rightarrow> {CREATED, MERCHANT_ACCEPTED, DISPATCH_PENDING, COURIER_ASSIGNED}
   | BySupportAgent \<Rightarrow> {CREATED, MERCHANT_ACCEPTED, DISPATCH_PENDING, COURIER_ASSIGNED}
   | BySystemAdmin \<Rightarrow> {CREATED, MERCHANT_ACCEPTED, DISPATCH_PENDING, COURIER_ASSIGNED})"

definition cancel_event :: "string \<Rightarrow> iso_date \<Rightarrow> uuid \<Rightarrow> requestCancellationInput \<Rightarrow> domain_event" where
  "cancel_event t now i inp = mk_event t now
     [(''orderId'', JStr i), (''reasonCode'', JStr (rci_reasonCode inp)), (''cancelledBy'', JStr (actor_name (rci_actor inp)))]"

definition requestCancellation ::
  "iso_date \<Rightarrow> uuid \<Rightarrow> requestCancellationInput \<Rightarrow> order_service \<Rightarrow> (order_service, order_error, order) outcome" where
  "requestCancellation now orderId inp s =
     (case order_findById orderId (os_orders s) of
        None \<Rightarrow> (Inl (OrderNotFound orderId), s)
      | Some v \<Rightarrow>
          if or_status v = CANCELLED then (Inr v, s)
          else if or_status v \<notin> cancellationPolicy (rci_actor inp)
          then (Inl (CancellationNotAllowed (or_id v) (rci_actor inp) (or_status v)), s)
          else
            let s1 = publishEvent (cancel_event ''order.cancel_requested.v1'' now (or_id v) inp) s;
                updated = v\<lparr>or_status := CANCELLED, or_cancellationReason := Some (rci_reasonCode inp),
                            or_cancelledBy := Some (actor_name (rci_actor inp)), or_updatedAt := now\<rparr>
            in (Inr updated, publishEvent (cancel_event ''order.cancelled.v1'' now (or_id updated) inp) (store_order updated s1)))"

text \<open>An empty string in the query does not filter, as \<open>input?.consumerId && ...\<close>.\<close>

definition listOrders :: "string option \<Rightarrow> string option \<Rightarrow> orderStatus option \<Rightarrow> order_service \<Rightarrow> order list" where
  "listOrders consumerId merchantId status s =
     filter (\<lambda>v. (case consumerId of Some c \<Rightarrow> c = [] \<or> or_consumerId v = Some c | None \<Rightarrow> True) \<and>
                 (case merchantId of Some m \<Rightarrow> m = [] \<or> or_merchantId v = Some m | None \<Rightarrow> True) \<and>
                 (case status of Some t \<Rightarrow> or_status v = t | None \<Rightarrow> True))
       (order_list (os_orders s))"

section \<open>The lifecycle of an order\<close>

text \<open>
  The specification of the service: what one call may do to one order, and the events it
  publishes. \<open>order_change before after events\<close> has no \<open>before\<close> for a creation.
\<close>

inductive order_change :: "order option \<Rightarrow> order \<Rightarrow> domain_event list \<Rightarrow> bool" where
  created: "or_status v = CREATED \<Longrightarrow> or_courierId v = None \<Longrightarrow> or_cancellationReason v = None \<Longrightarrow> or_cancelledBy v = None \<Longrightarrow>
    order_change None v [mk_event ''order.created.v1'' (or_updatedAt v)
      [(''orderId'', JStr (or_id v)), (''checkoutId'', JStr (or_checkoutId v))]]"
| accepted: "or_status v = CREATED \<Longrightarrow>
    order_change (Some v) (v\<lparr>or_status := MERCHANT_ACCEPTED, or_courierId := None, or_cancellationReason := None,
        or_cancelledBy := None, or_updatedAt := now\<rparr>)
      [mk_event ''order.confirmed.v1'' now [(''orderId'', JStr (or_id v))]]"
| timed_out: "or_status v = CREATED \<Longrightarrow>
    order_change (Some v) (v\<lparr>or_status := CANCELLED, or_cancellationReason := Some ''MERCHANT_TIMEOUT'',
        or_cancelledBy := Some ''system'', or_updatedAt := now\<rparr>)
      [mk_event ''order.cancelled.v1'' now [(''orderId'', JStr (or_id v)), (''reasonCode'', JStr ''MERCHANT_TIMEOUT''),
         (''cancelledBy'', JStr ''system'')]]"
| dispatched: "or_status v = MERCHANT_ACCEPTED \<Longrightarrow>
    order_change (Some v) (v\<lparr>or_status := DISPATCH_PENDING, or_courierId := None, or_updatedAt := now\<rparr>)
      [mk_event ''dispatch.assignment.requested.v1'' now [(''orderId'', JStr (or_id v)), (''checkoutId'', JStr (or_checkoutId v))]]"
| assigned: "or_status v = DISPATCH_PENDING \<Longrightarrow>
    order_change (Some v) (v\<lparr>or_courierId := Some c, or_status := COURIER_ASSIGNED, or_updatedAt := now\<rparr>)
      [mk_event ''dispatch.assignment.completed.v1'' now [(''orderId'', JStr (or_id v)), (''courierId'', JStr c)]]"
| picked_up: "or_status v = COURIER_ASSIGNED \<Longrightarrow> or_courierId v = Some c \<Longrightarrow>
    order_change (Some v) (v\<lparr>or_status := PICKED_UP, or_updatedAt := now\<rparr>)
      [mk_event ''order.picked_up.v1'' now [(''orderId'', JStr (or_id v)), (''courierId'', JStr c)]]"
| delivered: "or_status v = PICKED_UP \<Longrightarrow> or_courierId v = Some c \<Longrightarrow>
    order_change (Some v) (v\<lparr>or_status := DELIVERED, or_updatedAt := now\<rparr>)
      [mk_event ''order.delivered.v1'' now [(''orderId'', JStr (or_id v)), (''courierId'', JStr c)]]"
| cancelled: "or_status v \<in> cancellationPolicy (rci_actor inp) \<Longrightarrow>
    order_change (Some v) (v\<lparr>or_status := CANCELLED, or_cancellationReason := Some (rci_reasonCode inp),
        or_cancelledBy := Some (actor_name (rci_actor inp)), or_updatedAt := now\<rparr>)
      [cancel_event ''order.cancel_requested.v1'' now (or_id v) inp, cancel_event ''order.cancelled.v1'' now (or_id v) inp]"

inductive_cases order_change_None: "order_change None v es"
inductive_cases order_change_Some: "order_change (Some u) v es"

text \<open>Runs: the calls of the service, and what others do to the stores it shares.\<close>

datatype order_op =
    OpCreateOrder iso_date uuid createOrderInput
  | OpAccept iso_date uuid
  | OpTimeout iso_date uuid
  | OpRequestDispatch iso_date uuid
  | OpAssign iso_date uuid string
  | OpPickUp iso_date uuid string
  | OpDeliver iso_date uuid string
  | OpCancel iso_date uuid requestCancellationInput
  | OpOrderInputs checkout_repo "basket_repo option"
  | OpForeignEvent domain_event

fun order_step :: "order_op \<Rightarrow> order_service \<Rightarrow> order_service" where
  "order_step (OpCreateOrder now uid inp) s = snd (createOrder now uid inp s)"
| "order_step (OpAccept now i) s = snd (merchantAcceptOrder now i s)"
| "order_step (OpTimeout now i) s = snd (handleMerchantDecisionTimeout now i s)"
| "order_step (OpRequestDispatch now i) s = snd (requestDispatch now i s)"
| "order_step (OpAssign now i c) s = snd (assignCourier now i c s)"
| "order_step (OpPickUp now i c) s = snd (markPickedUp now i c s)"
| "order_step (OpDeliver now i c) s = snd (markDelivered now i c s)"
| "order_step (OpCancel now i inp) s = snd (requestCancellation now i inp s)"
| "order_step (OpOrderInputs cr br) s = s\<lparr>os_checkouts := cr, os_baskets := br\<rparr>"
| "order_step (OpForeignEvent e) s = s\<lparr>os_eventBus := publish e (os_eventBus s)\<rparr>"

text \<open>New orders get unused identifiers; the events of others are not order events.\<close>

fun order_op_ok :: "order_op \<Rightarrow> order_service \<Rightarrow> bool" where
  "order_op_ok (OpCreateOrder now uid inp) s = (order_findById uid (os_orders s) = None)"
| "order_op_ok (OpForeignEvent e) s = (toTimelineEntry e = None)"
| "order_op_ok op s = True"

definition status_rank :: "orderStatus \<Rightarrow> nat" where
  "status_rank s = (case s of CREATED \<Rightarrow> 0 | MERCHANT_ACCEPTED \<Rightarrow> 1 | DISPATCH_PENDING \<Rightarrow> 2 | COURIER_ASSIGNED \<Rightarrow> 3
     | PICKED_UP \<Rightarrow> 4 | DELIVERED \<Rightarrow> 5 | CANCELLED \<Rightarrow> 5)"

definition order_status_in :: "uuid \<Rightarrow> order_service \<Rightarrow> orderStatus option" where
  "order_status_in i s = map_option or_status (order_findById i (os_orders s))"

lemma publishEvent_frame [simp]:
  "os_orders (publishEvent e s) = os_orders s"
  "bus_events (os_eventBus (publishEvent e s)) = bus_events (os_eventBus s) @ [e]"
  "os_timeline (publishEvent e s) = map_option (projectEvent e) (os_timeline s)"
  "os_checkouts (publishEvent e s) = os_checkouts s"
  "os_baskets (publishEvent e s) = os_baskets s"
  by (simp_all add: publishEvent_def Let_def)

lemma store_order_frame [simp]:
  "os_orders (store_order v s) = order_save v (os_orders s)"
  "os_eventBus (store_order v s) = os_eventBus s"
  "os_timeline (store_order v s) = os_timeline s"
  by (simp_all add: store_order_def)

text \<open>The outcome of a call: nothing happens, or one order changes by the specification.\<close>

definition order_effect :: "order_service \<Rightarrow> order_service \<Rightarrow> bool" where
  "order_effect s s' =
     (\<exists>b v es. order_change b v es \<and> b = order_findById (or_id v) (os_orders s) \<and>
        os_orders s' = order_save v (os_orders s) \<and>
        bus_events (os_eventBus s') = bus_events (os_eventBus s) @ es \<and>
        os_timeline s' = map_option (fold projectEvent es) (os_timeline s))"

definition same_orders :: "order_service \<Rightarrow> order_service \<Rightarrow> bool" where
  "same_orders s s' = (os_orders s' = os_orders s \<and> os_timeline s' = os_timeline s \<and>
     (\<exists>es. bus_events (os_eventBus s') = bus_events (os_eventBus s) @ es \<and> (\<forall>e \<in> set es. toTimelineEntry e = None)))"

lemma same_orders_refl [simp]: "same_orders s s"
  by (auto simp: same_orders_def)

lemma fold_short [simp]: "fold f [a] = f a" "fold f [a, b] = f b \<circ> f a"
  by (simp_all add: fun_eq_iff)

lemma order_effectI:
  assumes "order_change (order_findById (or_id v) (os_orders s)) v es"
    and "os_orders s' = order_save v (os_orders s)" "bus_events (os_eventBus s') = bus_events (os_eventBus s) @ es"
    and "os_timeline s' = map_option (fold projectEvent es) (os_timeline s)"
  shows "order_effect s s'"
  using assms unfolding order_effect_def by blast


section \<open>Every call follows the specification\<close>

definition orders_ok :: "order_service \<Rightarrow> bool" where
  "orders_ok s = (map_wf (os_orders s) \<and> orders.keys_agree (os_orders s))"

lemma orders_ok_id: "orders_ok s \<Longrightarrow> order_findById i (os_orders s) = Some v \<Longrightarrow> or_id v = i"
  by (simp add: orders_ok_def orders.keys_agree_def)

lemma orders_ok_save: "orders_ok s \<Longrightarrow> os_orders s' = order_save v (os_orders s) \<Longrightarrow> orders_ok s'"
  by (simp add: orders_ok_def orders.keys_agree_save orders.wf_save)

lemma createOrder_effect:
  assumes "order_findById uid (os_orders s) = None"
  shows "same_orders s (snd (createOrder now uid inp s)) \<or> order_effect s (snd (createOrder now uid inp s))"
proof (cases "\<exists>c. checkout_findById (coi_checkoutId inp) (os_checkouts s) = Some c \<and> cp_quoteHash c = coi_quoteHash inp")
  case True
  then obtain c where c: "checkout_findById (coi_checkoutId inp) (os_checkouts s) = Some c" "cp_quoteHash c = coi_quoteHash inp"
    by blast
  let ?b = "Option.bind (os_baskets s) (basket_findById (cp_basketId c))"
  let ?v = "\<lparr>or_id = uid, or_checkoutId = coi_checkoutId inp, or_quoteHash = coi_quoteHash inp,
     or_consumerId = map_option bk_consumerId ?b, or_merchantId = map_option bk_merchantId ?b,
     or_courierId = None, or_status = CREATED, or_cancellationReason = None, or_cancelledBy = None,
     or_createdAt = now, or_updatedAt = now\<rparr>"
  have "order_change None ?v [mk_event ''order.created.v1'' (or_updatedAt ?v)
      [(''orderId'', JStr (or_id ?v)), (''checkoutId'', JStr (or_checkoutId ?v))]]"
    by (rule order_change.created) simp_all
  then have "order_effect s (snd (createOrder now uid inp s))"
    using c assms by (intro order_effectI [of ?v s "[mk_event ''order.created.v1'' now
      [(''orderId'', JStr uid), (''checkoutId'', JStr (coi_checkoutId inp))]]"]) (simp_all add: createOrder_def Let_def)
  then show ?thesis ..
next
  case False
  then have "snd (createOrder now uid inp s) = s" by (auto simp: createOrder_def split: option.splits)
  then show ?thesis by simp
qed

lemma transition_effect:
  assumes ok: "orders_ok s" and v: "order_findById i (os_orders s) = Some v"
    and change: "order_change (Some v) u [e]" and id: "or_id u = or_id v"
  shows "order_effect s (publishEvent e (store_order u s))"
  using change orders_ok_id [OF ok v] v id by (intro order_effectI [of u s "[e]"]) simp_all

lemma merchantAcceptOrder_effect:
  assumes "orders_ok s"
  shows "snd (merchantAcceptOrder now i s) = s \<or> order_effect s (snd (merchantAcceptOrder now i s))"
proof (cases "\<exists>v. order_findById i (os_orders s) = Some v \<and> or_status v = CREATED")
  case True
  then obtain v where v: "order_findById i (os_orders s) = Some v" "or_status v = CREATED" by blast
  then show ?thesis
    using transition_effect [OF assms v(1) order_change.accepted [of v now]] by (simp add: merchantAcceptOrder_def Let_def)
qed (auto simp: merchantAcceptOrder_def split: option.splits)

lemma handleMerchantDecisionTimeout_effect:
  assumes "orders_ok s"
  shows "snd (handleMerchantDecisionTimeout now i s) = s \<or> order_effect s (snd (handleMerchantDecisionTimeout now i s))"
proof (cases "\<exists>v. order_findById i (os_orders s) = Some v \<and> or_status v = CREATED")
  case True
  then obtain v where v: "order_findById i (os_orders s) = Some v" "or_status v = CREATED" by blast
  then show ?thesis
    using transition_effect [OF assms v(1) order_change.timed_out [of v now]]
    by (simp add: handleMerchantDecisionTimeout_def Let_def jopt_def)
qed (auto simp: handleMerchantDecisionTimeout_def split: option.splits)

lemma requestDispatch_effect:
  assumes "orders_ok s"
  shows "snd (requestDispatch now i s) = s \<or> order_effect s (snd (requestDispatch now i s))"
proof (cases "\<exists>v. order_findById i (os_orders s) = Some v \<and> or_status v = MERCHANT_ACCEPTED")
  case True
  then obtain v where v: "order_findById i (os_orders s) = Some v" "or_status v = MERCHANT_ACCEPTED" by blast
  then show ?thesis
    using transition_effect [OF assms v(1) order_change.dispatched [of v now]] by (simp add: requestDispatch_def Let_def)
qed (auto simp: requestDispatch_def split: option.splits)

lemma assignCourier_effect:
  assumes "orders_ok s"
  shows "snd (assignCourier now i c s) = s \<or> order_effect s (snd (assignCourier now i c s))"
proof (cases "\<exists>v. order_findById i (os_orders s) = Some v \<and> or_status v = DISPATCH_PENDING")
  case True
  then obtain v where v: "order_findById i (os_orders s) = Some v" "or_status v = DISPATCH_PENDING" by blast
  then show ?thesis
    using transition_effect [OF assms v(1) order_change.assigned [of v now c]]
    by (simp add: assignCourier_def Let_def courier_event_def)
qed (auto simp: assignCourier_def split: option.splits)

lemma markPickedUp_effect:
  assumes "orders_ok s"
  shows "snd (markPickedUp now i c s) = s \<or> order_effect s (snd (markPickedUp now i c s))"
proof (cases "\<exists>v. order_findById i (os_orders s) = Some v \<and> or_status v = COURIER_ASSIGNED \<and> or_courierId v = Some c")
  case True
  then obtain v where v: "order_findById i (os_orders s) = Some v" "or_status v = COURIER_ASSIGNED" "or_courierId v = Some c" by blast
  then show ?thesis
    using transition_effect [OF assms v(1) order_change.picked_up [of v c now]]
    by (simp add: markPickedUp_def Let_def courier_event_def)
qed (auto simp: markPickedUp_def split: option.splits)

lemma markDelivered_effect:
  assumes "orders_ok s"
  shows "snd (markDelivered now i c s) = s \<or> order_effect s (snd (markDelivered now i c s))"
proof (cases "\<exists>v. order_findById i (os_orders s) = Some v \<and> or_status v = PICKED_UP \<and> or_courierId v = Some c")
  case True
  then obtain v where v: "order_findById i (os_orders s) = Some v" "or_status v = PICKED_UP" "or_courierId v = Some c" by blast
  then show ?thesis
    using transition_effect [OF assms v(1) order_change.delivered [of v c now]]
    by (simp add: markDelivered_def Let_def courier_event_def)
qed (auto simp: markDelivered_def split: option.splits)

lemma not_cancellable: "CANCELLED \<notin> cancellationPolicy a" "DELIVERED \<notin> cancellationPolicy a" "PICKED_UP \<notin> cancellationPolicy a"
  by (cases a; simp add: cancellationPolicy_def)+

lemma requestCancellation_effect:
  assumes "orders_ok s"
  shows "snd (requestCancellation now i inp s) = s \<or> order_effect s (snd (requestCancellation now i inp s))"
proof (cases "\<exists>v. order_findById i (os_orders s) = Some v \<and> or_status v \<in> cancellationPolicy (rci_actor inp)")
  case True
  then obtain v where v: "order_findById i (os_orders s) = Some v" "or_status v \<in> cancellationPolicy (rci_actor inp)" by blast
  let ?u = "v\<lparr>or_status := CANCELLED, or_cancellationReason := Some (rci_reasonCode inp),
     or_cancelledBy := Some (actor_name (rci_actor inp)), or_updatedAt := now\<rparr>"
  have "or_status v \<noteq> CANCELLED" using v(2) not_cancellable by metis
  then have "order_effect s (snd (requestCancellation now i inp s))"
    using v orders_ok_id [OF assms v(1)] order_change.cancelled [OF v(2), of now]
    by (intro order_effectI [of ?u s "[cancel_event ''order.cancel_requested.v1'' now (or_id v) inp,
      cancel_event ''order.cancelled.v1'' now (or_id v) inp]"]) (simp_all add: requestCancellation_def Let_def option.map_comp)
  then show ?thesis ..
qed (auto simp: requestCancellation_def split: option.splits)

lemma order_step_effect:
  assumes ok: "orders_ok s" and op: "order_op_ok op s"
  shows "same_orders s (order_step op s) \<or> order_effect s (order_step op s)"
proof (cases op)
  case (OpForeignEvent e)
  with op show ?thesis by (simp add: same_orders_def)
next
  case (OpOrderInputs cr br)
  then show ?thesis by (simp add: same_orders_def)
next
  case (OpCreateOrder now uid inp)
  with op show ?thesis using createOrder_effect by simp
next
  case (OpAccept now i)
  then show ?thesis using merchantAcceptOrder_effect [OF ok, of now i] by auto
next
  case (OpTimeout now i)
  then show ?thesis using handleMerchantDecisionTimeout_effect [OF ok, of now i] by auto
next
  case (OpRequestDispatch now i)
  then show ?thesis using requestDispatch_effect [OF ok, of now i] by auto
next
  case (OpAssign now i c)
  then show ?thesis using assignCourier_effect [OF ok, of now i c] by auto
next
  case (OpPickUp now i c)
  then show ?thesis using markPickedUp_effect [OF ok, of now i c] by auto
next
  case (OpDeliver now i c)
  then show ?thesis using markDelivered_effect [OF ok, of now i c] by auto
next
  case (OpCancel now i inp)
  then show ?thesis using requestCancellation_effect [OF ok, of now i inp] by auto
qed

lemma order_step_ok: "orders_ok s \<Longrightarrow> order_op_ok op s \<Longrightarrow> orders_ok (order_step op s)"
  using order_step_effect [of s op] orders_ok_save unfolding order_effect_def same_orders_def orders_ok_def
  by (metis orders.keys_agree_save orders.wf_save)

text \<open>
  What the rest of the development needs of a step: each order is left as it was, is new,
  or changes by the specification.
\<close>

lemma order_step_order:
  assumes ok: "orders_ok s" and op: "order_op_ok op s" and v: "order_findById i (os_orders (order_step op s)) = Some v"
  shows "order_findById i (os_orders s) = Some v \<or> (\<exists>es. order_change (order_findById i (os_orders s)) v es)"
  using order_step_effect [OF ok op]
proof
  assume "order_effect s (order_step op s)"
  then obtain u es where u: "order_change (order_findById (or_id u) (os_orders s)) u es"
    "os_orders (order_step op s) = order_save u (os_orders s)" unfolding order_effect_def by blast
  with v show ?thesis by (cases "i = or_id u") (auto simp: orders.find_save)
qed (use v in \<open>simp add: same_orders_def\<close>)

lemma order_step_found:
  assumes ok: "orders_ok s" and op: "order_op_ok op s" and v: "order_findById i (os_orders s) = Some v"
  shows "\<exists>u. order_findById i (os_orders (order_step op s)) = Some u \<and> (u = v \<or> (\<exists>es. order_change (Some v) u es))"
proof -
  have "\<exists>u. order_findById i (os_orders (order_step op s)) = Some u"
    using order_step_effect [OF ok op] v unfolding order_effect_def same_orders_def
    by (metis orders.find_save)
  then show ?thesis using order_step_order [OF ok op] v by fastforce
qed

lemma order_change_rank: "order_change (Some v) u es \<Longrightarrow> status_rank (or_status v) < status_rank (or_status u)"
  by (erule order_change_Some)
     (auto simp: status_rank_def cancellationPolicy_def split: cancellationActor.splits orderStatus.splits if_splits)

interpretation order_lifecycle: ranked_status order_status_in status_rank order_step "\<lambda>op s. orders_ok s \<and> order_op_ok op s"
proof
  fix op s k a
  assume "orders_ok s \<and> order_op_ok op s" "order_status_in k s = Some a"
  then show "\<exists>b. order_status_in k (order_step op s) = Some b \<and> (b = a \<or> status_rank a < status_rank b)"
    using order_step_found [of s op k] order_change_rank by (fastforce simp: order_status_in_def)
qed


fun order_ops_ok :: "order_op list \<Rightarrow> order_service \<Rightarrow> bool" where
  "order_ops_ok [] s = True"
| "order_ops_ok (op # ops) s = (order_op_ok op s \<and> order_ops_ok ops (order_step op s))"

lemma order_run_ok: "orders_ok s \<Longrightarrow> order_ops_ok ops s \<Longrightarrow> order_lifecycle.run_ok ops s"
  by (induction ops arbitrary: s) (simp_all add: order_step_ok)

lemma order_ops_ok_append: "order_ops_ok (xs @ ys) s \<longleftrightarrow> order_ops_ok xs s \<and> order_ops_ok ys (fold order_step xs s)"
  by (induction xs arbitrary: s) simp_all

section \<open>Invariants of orders\<close>

definition order_wf :: "order \<Rightarrow> bool" where
  "order_wf v =
     ((or_status v \<in> {CREATED, MERCHANT_ACCEPTED, DISPATCH_PENDING} \<longrightarrow> or_courierId v = None) \<and>
      (or_status v \<in> {COURIER_ASSIGNED, PICKED_UP, DELIVERED} \<longrightarrow> or_courierId v \<noteq> None) \<and>
      (or_status v = CANCELLED \<longleftrightarrow> or_cancelledBy v \<noteq> None) \<and>
      (or_cancellationReason v = None \<longleftrightarrow> or_cancelledBy v = None))"

lemma order_change_wf: "order_change b v es \<Longrightarrow> (\<And>u. b = Some u \<Longrightarrow> order_wf u) \<Longrightarrow> order_wf v"
  by (erule order_change.cases) (auto simp: order_wf_def)

text \<open>What no change touches, and the courier, who stays once assigned.\<close>

definition same_origin :: "order \<Rightarrow> order \<Rightarrow> bool" where
  "same_origin v u = (or_id u = or_id v \<and> or_checkoutId u = or_checkoutId v \<and> or_quoteHash u = or_quoteHash v \<and>
     or_consumerId u = or_consumerId v \<and> or_merchantId u = or_merchantId v \<and> or_createdAt u = or_createdAt v \<and>
     (or_courierId v \<noteq> None \<longrightarrow> or_courierId u = or_courierId v))"

lemma order_change_origin: "order_change (Some v) u es \<Longrightarrow> order_wf v \<Longrightarrow> same_origin v u"
  by (erule order_change_Some) (auto simp: same_origin_def order_wf_def)

lemma same_origin_trans: "same_origin a b \<Longrightarrow> same_origin b c \<Longrightarrow> same_origin a c"
  by (auto simp: same_origin_def)

definition all_orders_wf :: "order_service \<Rightarrow> bool" where
  "all_orders_wf s = (orders_ok s \<and> orders.every order_wf (os_orders s))"

lemma all_orders_wf_step:
  assumes "all_orders_wf s" "order_op_ok op s" shows "all_orders_wf (order_step op s)"
  using assms order_step_ok order_step_order order_change_wf unfolding all_orders_wf_def orders.every_def by metis

lemma all_orders_wf_run:
  "all_orders_wf s \<Longrightarrow> order_ops_ok ops s \<Longrightarrow> all_orders_wf (fold order_step ops s)"
  by (induction ops arbitrary: s) (simp_all add: all_orders_wf_step)

lemma order_run_found:
  "all_orders_wf s \<Longrightarrow> order_ops_ok ops s \<Longrightarrow> order_findById i (os_orders s) = Some v \<Longrightarrow>
   \<exists>u. order_findById i (os_orders (fold order_step ops s)) = Some u \<and> same_origin v u"
proof (induction ops arbitrary: s v)
  case Nil
  then show ?case by (simp add: same_origin_def)
next
  case (Cons op ops)
  then have op: "orders_ok s" "order_op_ok op s" and wf: "order_wf v"
    by (auto simp: all_orders_wf_def orders.every_def)
  obtain u where u: "order_findById i (os_orders (order_step op s)) = Some u" "u = v \<or> (\<exists>es. order_change (Some v) u es)"
    using order_step_found [OF op Cons.prems(3)] by blast
  have "same_origin v v" by (simp add: same_origin_def)
  then have vu: "same_origin v u" using u(2) order_change_origin [OF _ wf] by blast
  obtain w where w: "order_findById i (os_orders (fold order_step ops (order_step op s))) = Some w" "same_origin u w"
    using Cons.IH [OF all_orders_wf_step [OF Cons.prems(1) op(2)] _ u(1)] Cons.prems(2)
    unfolding order_ops_ok.simps by blast
  have "same_origin v w" using vu w(2) by (rule same_origin_trans)
  with w(1) show ?case unfolding fold_Cons comp_apply by blast
qed

definition order_init :: "checkout_repo \<Rightarrow> basket_repo option \<Rightarrow> event_bus \<Rightarrow> timeline_repo option \<Rightarrow> order_service" where
  "order_init cr br b t = \<lparr>os_checkouts = cr, os_orders = [], os_eventBus = b, os_timeline = t, os_baskets = br\<rparr>"

lemma all_orders_wf_init: "all_orders_wf (order_init cr br b t)"
  by (simp add: all_orders_wf_def orders_ok_def order_init_def orders.keys_agree_fresh orders.every_fresh)

section \<open>The timeline is the projection of the event log\<close>

definition entries_of :: "uuid \<Rightarrow> domain_event list \<Rightarrow> timelineEntry list" where
  "entries_of i es = filter (\<lambda>t. te_orderId t = i) (List.map_filter toTimelineEntry es)"

lemma entries_of_append [simp]: "entries_of i (es @ fs) = entries_of i es @ entries_of i fs"
  by (simp add: entries_of_def List.map_filter_def)

lemma entries_of_Cons [simp]:
  "entries_of i (e # es) = (case toTimelineEntry e of None \<Rightarrow> [] | Some t \<Rightarrow> if te_orderId t = i then [t] else []) @ entries_of i es"
  by (simp add: entries_of_def List.map_filter_simps split: option.split)

lemma entries_of_Nil [simp]: "entries_of i [] = []"
  by (simp add: entries_of_def List.map_filter_simps)

lemma entries_of_foreign: "\<forall>e \<in> set es. toTimelineEntry e = None \<Longrightarrow> entries_of i es = []"
  by (induction es) simp_all

lemma timeline_project:
  "timeline_getByOrderId i (projectEvent e r) = timeline_getByOrderId i r @ entries_of i [e]"
  by (auto simp: projectEvent_def timeline_append_def timeline_getByOrderId_def map_get_set split: option.split)

lemma timeline_project_all:
  "timeline_getByOrderId i (fold projectEvent es r) = timeline_getByOrderId i r @ entries_of i es"
proof (induction es arbitrary: r)
  case (Cons e es)
  show ?case
    using Cons [of "projectEvent e r"] by (simp add: timeline_project)
qed simp

lemma rebuild_project: "snd (rebuildFromEventLog b r) = fold projectEvent (bus_events b) []"
proof -
  have "snd (fold (\<lambda>e (n, r). case toTimelineEntry e of None \<Rightarrow> (n, r) | Some entry \<Rightarrow> (n + 1, timeline_append entry r))
      es (n, r)) = fold projectEvent es r" for es n r
    by (induction es arbitrary: n r) (auto simp: projectEvent_def split: option.split)
  then show ?thesis by (simp add: rebuildFromEventLog_def Let_def case_prod_unfold)
qed

text \<open>The last entry of an order carries its status.\<close>

lemma eventStatusMap_lookup [simp]:
  "obj_lookup eventStatusMap ''order.created.v1'' = Own ''CREATED''"
  "obj_lookup eventStatusMap ''order.confirmed.v1'' = Own ''MERCHANT_ACCEPTED''"
  "obj_lookup eventStatusMap ''dispatch.assignment.requested.v1'' = Own ''DISPATCH_PENDING''"
  "obj_lookup eventStatusMap ''dispatch.assignment.completed.v1'' = Own ''COURIER_ASSIGNED''"
  "obj_lookup eventStatusMap ''order.picked_up.v1'' = Own ''PICKED_UP''"
  "obj_lookup eventStatusMap ''order.delivered.v1'' = Own ''DELIVERED''"
  "obj_lookup eventStatusMap ''order.cancel_requested.v1'' = Own ''CANCEL_REQUESTED''"
  "obj_lookup eventStatusMap ''order.cancelled.v1'' = Own ''CANCELLED''"
  by (simp_all add: eventStatusMap_def obj_lookup_def)

lemma order_event_entry:
  "obj_lookup eventStatusMap t = Own st \<Longrightarrow>
   \<exists>d. toTimelineEntry (mk_event t w ((''orderId'', JStr i) # ps)) =
     Some \<lparr>te_orderId = i, te_eventType = t, te_status = st, te_occurredAt = w, te_details = d\<rparr>"
  by (simp add: toTimelineEntry_def jprop_def)

lemma order_event_entries:
  "obj_lookup eventStatusMap t = Own st \<Longrightarrow>
   (\<exists>e. entries_of i [mk_event t w ((''orderId'', JStr i) # ps)] = [e] \<and> te_status e = st) \<and>
   (j \<noteq> i \<longrightarrow> entries_of j [mk_event t w ((''orderId'', JStr i) # ps)] = [])"
  using order_event_entry [of t st w i ps] by auto

lemma last_entry:
  "\<exists>e. entries_of i [x] = [e] \<and> te_status e = st \<Longrightarrow> \<exists>pre e. entries_of i (es @ [x]) = pre @ [e] \<and> te_status e = st"
  unfolding entries_of_append by auto

text \<open>The events of a change are about the order changed, and the last one announces its status.\<close>

lemma order_change_events:
  assumes "order_change b v es" "\<And>u. b = Some u \<Longrightarrow> or_id u = or_id v"
  shows "\<exists>pre t w ps. es = pre @ [mk_event t w ((''orderId'', JStr (or_id v)) # ps)] \<and>
     obj_lookup eventStatusMap t = Own (orderStatus_name (or_status v)) \<and>
     (\<forall>e \<in> set pre. \<exists>t w ps st. e = mk_event t w ((''orderId'', JStr (or_id v)) # ps) \<and> obj_lookup eventStatusMap t = Own st)"
  using assms
proof cases
  case (cancelled u inp now)
  have "\<exists>pre. es = pre @ [cancel_event ''order.cancelled.v1'' now (or_id v) inp] \<and>
      pre = [cancel_event ''order.cancel_requested.v1'' now (or_id v) inp]"
    using cancelled by simp
  then show ?thesis using cancelled(2)
    by (fastforce simp: cancel_event_def orderStatus_name_def)
qed (fastforce simp: orderStatus_name_def intro: exI [of _ "[]"])+

lemma order_change_entries:
  assumes "order_change b v es" "\<And>u. b = Some u \<Longrightarrow> or_id u = or_id v"
  shows "\<exists>pre t. entries_of (or_id v) es = pre @ [t] \<and> te_status t = orderStatus_name (or_status v)"
    and "i \<noteq> or_id v \<Longrightarrow> entries_of i es = []"
proof -
  obtain pre t w ps where es: "es = pre @ [mk_event t w ((''orderId'', JStr (or_id v)) # ps)]"
    "obj_lookup eventStatusMap t = Own (orderStatus_name (or_status v))"
    "\<forall>e \<in> set pre. \<exists>t w ps st. e = mk_event t w ((''orderId'', JStr (or_id v)) # ps) \<and> obj_lookup eventStatusMap t = Own st"
    using order_change_events [OF assms] by blast
  show "\<exists>pre t. entries_of (or_id v) es = pre @ [t] \<and> te_status t = orderStatus_name (or_status v)"
    unfolding es(1) by (rule last_entry) (use order_event_entries [OF es(2)] in blast)
  assume i: "i \<noteq> or_id v"
  have "entries_of i xs = []" if "set xs \<subseteq> set pre" for xs
    using that
  proof (induction xs)
    case (Cons e xs)
    then obtain t w ps st where "e = mk_event t w ((''orderId'', JStr (or_id v)) # ps)" "obj_lookup eventStatusMap t = Own st"
      using es(3) by fastforce
    with order_event_entries [OF this(2), of "or_id v" w ps i] i Cons show ?case by simp
  qed simp
  with order_event_entries [OF es(2), of "or_id v" w ps i] i show "entries_of i es = []"
    unfolding es(1) entries_of_append by simp
qed

definition timeline_ok :: "order_service \<Rightarrow> bool" where
  "timeline_ok s =
     ((\<forall>t. os_timeline s = Some t \<longrightarrow> t = fold projectEvent (bus_events (os_eventBus s)) []) \<and>
      (\<forall>i v. order_findById i (os_orders s) = Some v \<longrightarrow>
         (\<exists>pre t. entries_of i (bus_events (os_eventBus s)) = pre @ [t] \<and> te_status t = orderStatus_name (or_status v))))"

lemma projectEvent_foreign: "\<forall>e \<in> set es. toTimelineEntry e = None \<Longrightarrow> fold projectEvent es r = r"
  by (induction es arbitrary: r) (simp_all add: projectEvent_def)

lemma timeline_ok_step:
  assumes s: "orders_ok s" "timeline_ok s" and op: "order_op_ok op s"
  shows "timeline_ok (order_step op s)"
  using order_step_effect [OF s(1) op]
proof
  assume "same_orders s (order_step op s)"
  then show ?thesis
    using s(2) unfolding timeline_ok_def same_orders_def by (auto simp: projectEvent_foreign entries_of_foreign)
next
  assume "order_effect s (order_step op s)"
  then obtain v es where v: "order_change (order_findById (or_id v) (os_orders s)) v es"
    "os_orders (order_step op s) = order_save v (os_orders s)"
    "bus_events (os_eventBus (order_step op s)) = bus_events (os_eventBus s) @ es"
    "os_timeline (order_step op s) = map_option (fold projectEvent es) (os_timeline s)"
    unfolding order_effect_def by blast
  have id: "\<And>u. order_findById (or_id v) (os_orders s) = Some u \<Longrightarrow> or_id u = or_id v"
    using orders_ok_id [OF s(1)] by blast
  obtain pre t where t: "entries_of (or_id v) es = pre @ [t]" "te_status t = orderStatus_name (or_status v)"
    using order_change_entries(1) [OF v(1) id] by blast
  show ?thesis
    unfolding timeline_ok_def v(2,3,4)
  proof (intro conjI allI impI)
    fix x assume "map_option (fold projectEvent es) (os_timeline s) = Some x"
    then show "x = fold projectEvent (bus_events (os_eventBus s) @ es) []"
      using s(2) by (auto simp: timeline_ok_def)
  next
    fix i w assume w: "order_findById i (order_save v (os_orders s)) = Some w"
    show "\<exists>pre t. entries_of i (bus_events (os_eventBus s) @ es) = pre @ [t] \<and> te_status t = orderStatus_name (or_status w)"
    proof (cases "i = or_id v")
      case True
      with w t show ?thesis by (auto simp: orders.find_save)
    next
      case False
      with w s(2) order_change_entries(2) [OF v(1) id] show ?thesis
        by (auto simp: orders.find_save timeline_ok_def)
    qed
  qed
qed

lemma timeline_ok_run:
  "orders_ok s \<Longrightarrow> timeline_ok s \<Longrightarrow> order_ops_ok ops s \<Longrightarrow> timeline_ok (fold order_step ops s)"
  by (induction ops arbitrary: s) (simp_all add: timeline_ok_step order_step_ok)


section \<open>Properties\<close>


definition demo_checkout :: checkoutPayload where
  "demo_checkout = \<lparr>cp_checkoutId = ''k1'', cp_basketId = ''b1'', cp_quoteId = ''q1'', cp_quoteHash = ''h'',
     cp_totalCents = Fin 100, cp_currency = ''USD'', cp_expiresAt = ''0''\<rparr>"

definition demo_order_start :: order_service where
  "demo_order_start = order_init [(''k1'', demo_checkout)] None empty_bus (Some [])"

definition demo_order_ops :: "order_op list" where
  "demo_order_ops = [OpCreateOrder ''1'' ''o1'' \<lparr>coi_checkoutId = ''k1'', coi_quoteHash = ''h''\<rparr>, OpAccept ''2'' ''o1'',
     OpRequestDispatch ''3'' ''o1'', OpAssign ''4'' ''o1'' ''c1'', OpPickUp ''5'' ''o1'' ''c1'']"

definition demo_order :: order where
  "demo_order = \<lparr>or_id = ''o1'', or_checkoutId = ''k1'', or_quoteHash = ''h'', or_consumerId = None, or_merchantId = None,
     or_courierId = Some ''c1'', or_status = PICKED_UP, or_cancellationReason = None, or_cancelledBy = None,
     or_createdAt = ''1'', or_updatedAt = ''5''\<rparr>"

lemmas demo_order_simps =
  demo_order_ops_def demo_order_start_def order_init_def demo_checkout_def demo_order_def orders_ok_def
  createOrder_def merchantAcceptOrder_def requestDispatch_def assignCourier_def markPickedUp_def markDelivered_def
  requestCancellation_def checkout_findById_def map_get_def Let_def publishEvent_def store_order_def order_save_def
  order_findById_def map_set_def map_wf_def map_keys_def

lemma demo_order_run: "order_findById ''o1'' (os_orders (fold order_step demo_order_ops demo_order_start)) = Some demo_order"
  by (simp add: demo_order_simps)


text \<open>In every reachable state an order has a courier from its assignment on and none before
  (a cancelled order keeps the courier it had), and it has a cancellation reason and
  canceller exactly when it is cancelled.\<close>

lemma order_fields_consistent:
  assumes "order_ops_ok ops (order_init cr br b t)"
    and "order_findById i (os_orders (fold order_step ops (order_init cr br b t))) = Some v"
  shows "or_id v = i \<and>
    (or_status v \<in> {CREATED, MERCHANT_ACCEPTED, DISPATCH_PENDING} \<longrightarrow> or_courierId v = None) \<and>
    (or_status v \<in> {COURIER_ASSIGNED, PICKED_UP, DELIVERED} \<longrightarrow> or_courierId v \<noteq> None) \<and>
    (or_status v = CANCELLED \<longleftrightarrow> or_cancelledBy v \<noteq> None) \<and> (or_cancellationReason v = None \<longleftrightarrow> or_cancelledBy v = None)"
  using all_orders_wf_run [OF all_orders_wf_init assms(1)] assms(2)
  unfolding all_orders_wf_def orders.every_def orders_ok_def orders.keys_agree_def order_wf_def by blast

lemma order_fields_consistent_witness:
  "or_id demo_order = ''o1'' \<and> or_courierId demo_order \<noteq> None"
proof -
  have "order_ops_ok demo_order_ops demo_order_start"
    by (simp add: demo_order_simps)
  from order_fields_consistent [OF this [unfolded demo_order_start_def] demo_order_run [unfolded demo_order_start_def]]
  show ?thesis by (simp add: demo_order_def)
qed

text \<open>C23: A consumer can cancel an order until it is dispatched, merchants, support and admins until
  the courier picks it up; then the order becomes CANCELLED with their reason and the two
  cancellation events are published in order. A cancelled order stays as it is, any other
  request is rejected, and both leave the whole state alone.\<close>

theorem cancellation_policy_exact:
  assumes "order_findById i (os_orders s) = Some v" and "or_id v = i"
  shows "let res = requestCancellation now i inp s;
             limit = (if rci_actor inp = ByConsumer then 2 else 4)
    in (if or_status v = CANCELLED then res = (Inr v, s)
        else if status_rank (or_status v) < limit
        then (\<exists>u. fst res = Inr u \<and> order_findById i (os_orders (snd res)) = Some u \<and> or_status u = CANCELLED \<and>
               or_cancellationReason u = Some (rci_reasonCode inp) \<and> or_cancelledBy u = Some (actor_name (rci_actor inp)) \<and>
               same_origin v u \<and>
               map ev_type (bus_events (os_eventBus (snd res))) =
                 map ev_type (bus_events (os_eventBus s)) @ [''order.cancel_requested.v1'', ''order.cancelled.v1''])
        else res = (Inl (CancellationNotAllowed i (rci_actor inp) (or_status v)), s))"
proof -
  have "or_status v \<noteq> CANCELLED \<Longrightarrow> or_status v \<in> cancellationPolicy (rci_actor inp) \<longleftrightarrow>
      status_rank (or_status v) < (if rci_actor inp = ByConsumer then 2 else 4)"
    by (cases "or_status v"; cases "rci_actor inp") (simp_all add: cancellationPolicy_def status_rank_def)
  with assms show ?thesis
    by (simp add: requestCancellation_def Let_def orders.find_save same_origin_def cancel_event_def)
qed

lemma cancellation_policy_exact_witness:
  "requestCancellation ''9'' ''o1'' \<lparr>rci_actor = BySupportAgent, rci_reasonCode = ''LATE''\<rparr>
     (fold order_step demo_order_ops demo_order_start) =
   (Inl (CancellationNotAllowed ''o1'' BySupportAgent PICKED_UP), fold order_step demo_order_ops demo_order_start)"
  using cancellation_policy_exact [OF demo_order_run, of "''9''" "\<lparr>rci_actor = BySupportAgent, rci_reasonCode = ''LATE''\<rparr>"]
  by (simp add: demo_order_def status_rank_def)



end
