(* ===== verification/Dispatch.thy ===== *)
theory Dispatch
  imports Orders
begin

text \<open>
  Dispatch (\<open>core-api/src/modules/dispatch\<close>): courier jobs made from dispatched orders,
  the assignment client of the dispatch engine, courier telemetry, and the routes of
  \<open>server.ts\<close> that tie a job to its order. The remote procedure of the dispatch engine is a
  parameter of the routes that call it.
\<close>

section \<open>Courier jobs\<close>

datatype courierJobStatus = JOB_AVAILABLE | JOB_ACCEPTED | JOB_PICKED_UP | JOB_DROPPED_OFF

record courierJob =
  cj_jobId :: uuid
  cj_orderId :: uuid
  cj_status :: courierJobStatus
  cj_courierId :: "string option"
  cj_acceptedAt :: "iso_date option"
  cj_pickedUpAt :: "iso_date option"
  cj_droppedOffAt :: "iso_date option"

type_synonym job_repo = "(uuid, courierJob) jsmap"

definition job_save :: "courierJob \<Rightarrow> job_repo \<Rightarrow> job_repo" where
  "job_save j r = map_set (cj_jobId j) j r"

definition job_findById :: "uuid \<Rightarrow> job_repo \<Rightarrow> courierJob option" where
  "job_findById i r = map_get r i"

definition job_list :: "job_repo \<Rightarrow> courierJob list" where
  "job_list r = map_values r"

interpretation jobs: keyed_repository cj_jobId "[]" job_save job_findById job_list map_wf
  unfolding job_save_def job_findById_def job_list_def by (rule jsmap_repository)

datatype job_conflict =
    ExpectedStatus courierJobStatus courierJobStatus
  | CourierMismatch "string option" string

datatype job_error = CourierJobNotFound uuid | CourierJobStateConflict uuid job_conflict

definition job_of_order :: "order \<Rightarrow> courierJob" where
  "job_of_order v = \<lparr>cj_jobId = or_id v, cj_orderId = or_id v, cj_status = JOB_AVAILABLE, cj_courierId = None,
     cj_acceptedAt = None, cj_pickedUpAt = None, cj_droppedOffAt = None\<rparr>"

definition sync_order :: "order \<Rightarrow> job_repo \<Rightarrow> job_repo" where
  "sync_order v r =
     (if or_status v \<noteq> DISPATCH_PENDING then r
      else if job_findById (or_id v) r \<noteq> None then r
      else job_save (job_of_order v) r)"

definition syncDispatchPendingOrders :: "order_repo \<Rightarrow> job_repo \<Rightarrow> job_repo" where
  "syncDispatchPendingOrders orders r = fold sync_order (order_list orders) r"

definition listAvailableJobs :: "order_repo \<Rightarrow> job_repo \<Rightarrow> courierJob list \<times> job_repo" where
  "listAvailableJobs orders r =
     (let r1 = syncDispatchPendingOrders orders r in (filter (\<lambda>j. cj_status j = JOB_AVAILABLE) (job_list r1), r1))"

definition listJobs :: "string \<Rightarrow> courierJobStatus option \<Rightarrow> order_repo \<Rightarrow> job_repo \<Rightarrow> courierJob list \<times> job_repo" where
  "listJobs courierId status orders r =
     (let r1 = syncDispatchPendingOrders orders r
      in (filter (\<lambda>j. cj_courierId j = Some courierId \<and> (case status of None \<Rightarrow> True | Some t \<Rightarrow> cj_status j = t)) (job_list r1), r1))"

definition requireJob :: "uuid \<Rightarrow> job_repo \<Rightarrow> job_error + courierJob" where
  "requireJob jobId r = (case job_findById jobId r of None \<Rightarrow> Inl (CourierJobNotFound jobId) | Some j \<Rightarrow> Inr j)"

definition getJob :: "uuid \<Rightarrow> order_repo \<Rightarrow> job_repo \<Rightarrow> (job_repo, job_error, courierJob) outcome" where
  "getJob jobId orders r = (let r1 = syncDispatchPendingOrders orders r in (requireJob jobId r1, r1))"

definition acceptJob :: "iso_date \<Rightarrow> uuid \<Rightarrow> string \<Rightarrow> order_repo \<Rightarrow> job_repo \<Rightarrow> (job_repo, job_error, courierJob) outcome" where
  "acceptJob now jobId courierId orders r =
     (let r1 = syncDispatchPendingOrders orders r
      in case requireJob jobId r1 of
           Inl e \<Rightarrow> (Inl e, r1)
         | Inr job \<Rightarrow>
             if cj_status job = JOB_ACCEPTED \<and> cj_courierId job = Some courierId then (Inr job, r1)
             else if cj_status job \<noteq> JOB_AVAILABLE
             then (Inl (CourierJobStateConflict jobId (ExpectedStatus JOB_AVAILABLE (cj_status job))), r1)
             else
               let updated = job\<lparr>cj_status := JOB_ACCEPTED, cj_courierId := Some courierId, cj_acceptedAt := Some now\<rparr>
               in (Inr updated, job_save updated r1))"

definition pickupJob :: "iso_date \<Rightarrow> uuid \<Rightarrow> string \<Rightarrow> order_repo \<Rightarrow> job_repo \<Rightarrow> (job_repo, job_error, courierJob) outcome" where
  "pickupJob now jobId courierId orders r =
     (let r1 = syncDispatchPendingOrders orders r
      in case requireJob jobId r1 of
           Inl e \<Rightarrow> (Inl e, r1)
         | Inr job \<Rightarrow>
             if cj_status job = JOB_PICKED_UP \<and> cj_courierId job = Some courierId then (Inr job, r1)
             else if cj_status job \<noteq> JOB_ACCEPTED
             then (Inl (CourierJobStateConflict jobId (ExpectedStatus JOB_ACCEPTED (cj_status job))), r1)
             else if cj_courierId job \<noteq> Some courierId
             then (Inl (CourierJobStateConflict jobId (CourierMismatch (cj_courierId job) courierId)), r1)
             else
               let updated = job\<lparr>cj_status := JOB_PICKED_UP, cj_pickedUpAt := Some now\<rparr>
               in (Inr updated, job_save updated r1))"

definition dropoffJob :: "iso_date \<Rightarrow> uuid \<Rightarrow> string \<Rightarrow> order_repo \<Rightarrow> job_repo \<Rightarrow> (job_repo, job_error, courierJob) outcome" where
  "dropoffJob now jobId courierId orders r =
     (let r1 = syncDispatchPendingOrders orders r
      in case requireJob jobId r1 of
           Inl e \<Rightarrow> (Inl e, r1)
         | Inr job \<Rightarrow>
             if cj_status job = JOB_DROPPED_OFF \<and> cj_courierId job = Some courierId then (Inr job, r1)
             else if cj_status job \<noteq> JOB_PICKED_UP
             then (Inl (CourierJobStateConflict jobId (ExpectedStatus JOB_PICKED_UP (cj_status job))), r1)
             else if cj_courierId job \<noteq> Some courierId
             then (Inl (CourierJobStateConflict jobId (CourierMismatch (cj_courierId job) courierId)), r1)
             else
               let updated = job\<lparr>cj_status := JOB_DROPPED_OFF, cj_droppedOffAt := Some now\<rparr>
               in (Inr updated, job_save updated r1))"

section \<open>Telemetry\<close>

record telemetryInput =
  ti_courierId :: string
  ti_observedAtEpochMs :: jsnum
  ti_speedMps :: jsnum
  ti_distanceToDropoffMeters :: jsnum

record telemetryDecision =
  td_accepted :: bool
  td_dropReason :: string
  td_etaSeconds :: jsnum

type_synonym telemetry_state = "(string, jsnum) jsmap"

definition ingest :: "telemetryInput \<Rightarrow> telemetry_state \<Rightarrow> telemetryDecision \<times> telemetry_state" where
  "ingest inp lastSeenByCourier =
     (if (case map_get lastSeenByCourier (ti_courierId inp) of
            Some lastSeen \<Rightarrow> num_le (ti_observedAtEpochMs inp) lastSeen | None \<Rightarrow> False)
      then (\<lparr>td_accepted = False, td_dropReason = ''OUT_OF_ORDER'', td_etaSeconds = Fin 0\<rparr>, lastSeenByCourier)
      else
        let distance = math_max (Fin 0) (ti_distanceToDropoffMeters inp);
            speed = (if num_lt (Fin 0) (ti_speedMps inp) then ti_speedMps inp else Fin 4);
            etaSeconds = math_max (Fin 30) (math_ceil (num_div distance speed))
        in (\<lparr>td_accepted = True, td_dropReason = '''', td_etaSeconds = etaSeconds\<rparr>,
            map_set (ti_courierId inp) (ti_observedAtEpochMs inp) lastSeenByCourier))"

section \<open>The assignment client\<close>

record assignmentCandidate =
  ac_courierId :: string
  ac_distanceMeters :: jsnum
  ac_available :: bool
  ac_activeOrders :: jsnum
  ac_withinRestWindow :: bool

record assignmentInput =
  ai_orderId :: uuid
  ai_candidates :: "assignmentCandidate list"
  ai_slaPressure :: jsnum
  ai_merchantSelfDeliveryEnabled :: bool

record assignmentDecision =
  ad_assignmentId :: string
  ad_mode :: string
  ad_courierId :: "string option"
  ad_etaSeconds :: jsnum
  ad_reasonCodes :: "string list"

record assignGrpcResponse =
  gr_assignment_id :: "string option"
  gr_mode :: "string option"
  gr_courier_id :: "string option"
  gr_eta_seconds :: "jsnum option"
  gr_reason_codes :: "string list option"

definition grpc_request :: "assignmentInput \<Rightarrow> (string \<times> json) list" where
  "grpc_request inp =
     [(''order_id'', JStr (ai_orderId inp)),
      (''candidates'', JArr (map (\<lambda>c. JObj [(''courier_id'', JStr (ac_courierId c)),
         (''distance_meters'', JNum (ac_distanceMeters c)), (''available'', JBool (ac_available c)),
         (''active_orders'', JNum (ac_activeOrders c)), (''within_rest_window'', JBool (ac_withinRestWindow c))])
        (ai_candidates inp))),
      (''sla_pressure'', JNum (ai_slaPressure inp)),
      (''merchant_self_delivery_enabled'', JBool (ai_merchantSelfDeliveryEnabled inp))]"

text \<open>\<open>call\<close> is the remote procedure: an error or a response. An error rejects the promise.\<close>

definition grpc_assign ::
  "((string \<times> json) list \<Rightarrow> 'e + assignGrpcResponse) \<Rightarrow> assignmentInput \<Rightarrow> 'e + assignmentDecision" where
  "grpc_assign call inp =
     (case call (grpc_request inp) of
        Inl e \<Rightarrow> Inl e
      | Inr response \<Rightarrow>
          Inr \<lparr>ad_assignmentId = nullish (gr_assignment_id response) [],
               ad_mode = nullish (gr_mode response) ''UNASSIGNED'',
               ad_courierId = (case gr_courier_id response of Some c \<Rightarrow> if c \<noteq> [] then Some c else None | None \<Rightarrow> None),
               ad_etaSeconds = nullish (gr_eta_seconds response) (Fin 0),
               ad_reasonCodes = nullish (gr_reason_codes response) []\<rparr>)"

section \<open>Routes that move a job and its order\<close>

record dispatch_state =
  dp_orders :: order_service
  dp_jobs :: job_repo

datatype 'e route_error = RouteJob job_error | RouteOrder order_error | RouteRpc 'e

text \<open>\<open>POST /courier/jobs/:id/accept\<close>: the job first, then the order.\<close>

definition job_route ::
  "(order_repo \<Rightarrow> job_repo \<Rightarrow> (job_repo, job_error, courierJob) outcome) \<Rightarrow>
   (uuid \<Rightarrow> order_service \<Rightarrow> (order_service, order_error, order) outcome) \<Rightarrow>
   dispatch_state \<Rightarrow> (dispatch_state, 'e route_error, courierJob) outcome" where
  "job_route jobCall orderCall s =
     (case jobCall (os_orders (dp_orders s)) (dp_jobs s) of
        (Inl e, r) \<Rightarrow> (Inl (RouteJob e), s\<lparr>dp_jobs := r\<rparr>)
      | (Inr job, r) \<Rightarrow>
          (case orderCall (cj_orderId job) (dp_orders s) of
             (Inl e, os) \<Rightarrow> (Inl (RouteOrder e), s\<lparr>dp_jobs := r, dp_orders := os\<rparr>)
           | (Inr v, os) \<Rightarrow> (Inr job, s\<lparr>dp_jobs := r, dp_orders := os\<rparr>)))"

definition acceptRoute ::
  "iso_date \<Rightarrow> iso_date \<Rightarrow> uuid \<Rightarrow> string \<Rightarrow> dispatch_state \<Rightarrow> (dispatch_state, 'e route_error, courierJob) outcome" where
  "acceptRoute now1 now2 jobId courierId s =
     job_route (acceptJob now1 jobId courierId) (\<lambda>i. assignCourier now2 i courierId) s"

definition pickupRoute ::
  "iso_date \<Rightarrow> iso_date \<Rightarrow> uuid \<Rightarrow> string \<Rightarrow> dispatch_state \<Rightarrow> (dispatch_state, 'e route_error, courierJob) outcome" where
  "pickupRoute now1 now2 jobId courierId s =
     job_route (pickupJob now1 jobId courierId) (\<lambda>i. markPickedUp now2 i courierId) s"

definition dropoffRoute ::
  "iso_date \<Rightarrow> iso_date \<Rightarrow> uuid \<Rightarrow> string \<Rightarrow> dispatch_state \<Rightarrow> (dispatch_state, 'e route_error, courierJob) outcome" where
  "dropoffRoute now1 now2 jobId courierId s =
     job_route (dropoffJob now1 jobId courierId) (\<lambda>i. markDelivered now2 i courierId) s"

text \<open>
  \<open>POST /internal/orders/:id/request-dispatch\<close>. \<open>client\<close> is the assignment client when one
  is configured, \<open>input\<close> the assignment payload when the request has one.
\<close>

definition requestDispatchRoute ::
  "iso_date \<Rightarrow> iso_date \<Rightarrow> uuid \<Rightarrow> (uuid \<Rightarrow> assignmentInput) option \<Rightarrow> (assignmentInput \<Rightarrow> 'e + assignmentDecision) option \<Rightarrow>
   dispatch_state \<Rightarrow> (dispatch_state, 'e route_error, order \<times> assignmentDecision option) outcome" where
  "requestDispatchRoute now1 now2 orderId input client s =
     (case requestDispatch now1 orderId (dp_orders s) of
        (Inl e, os) \<Rightarrow> (Inl (RouteOrder e), s\<lparr>dp_orders := os\<rparr>)
      | (Inr v, os) \<Rightarrow>
          let s1 = s\<lparr>dp_orders := os\<rparr>
          in case (or_status v = DISPATCH_PENDING, input, client) of
               (True, Some inp, Some assign) \<Rightarrow>
                 (case assign (inp orderId) of
                    Inl e \<Rightarrow> (Inl (RouteRpc e), s1)
                  | Inr assignment \<Rightarrow>
                      (case (ad_mode assignment = ''COURIER'', ad_courierId assignment) of
                         (True, Some c) \<Rightarrow>
                           if c = [] then (Inr (v, Some assignment), s1)
                           else (case assignCourier now2 orderId c (dp_orders s1) of
                                   (Inl e, os2) \<Rightarrow> (Inl (RouteOrder e), s1\<lparr>dp_orders := os2\<rparr>)
                                 | (Inr w, os2) \<Rightarrow> (Inr (w, Some assignment), s1\<lparr>dp_orders := os2\<rparr>))
                       | _ \<Rightarrow> (Inr (v, Some assignment), s1)))
             | _ \<Rightarrow> (Inr (v, None), s1))"


section \<open>Synchronisation\<close>

definition fresh_job :: "uuid \<Rightarrow> courierJob" where
  "fresh_job i = \<lparr>cj_jobId = i, cj_orderId = i, cj_status = JOB_AVAILABLE, cj_courierId = None,
     cj_acceptedAt = None, cj_pickedUpAt = None, cj_droppedOffAt = None\<rparr>"

lemma job_of_order_fresh: "job_of_order v = fresh_job (or_id v)"
  by (simp add: job_of_order_def fresh_job_def)

lemma fresh_job_sel [simp]:
  "cj_jobId (fresh_job i) = i" "cj_orderId (fresh_job i) = i" "cj_status (fresh_job i) = JOB_AVAILABLE"
  "cj_courierId (fresh_job i) = None"
  by (simp_all add: fresh_job_def)

lemma sync_find:
  "job_findById i (fold sync_order vs r) =
     (case job_findById i r of
        Some j \<Rightarrow> Some j
      | None \<Rightarrow> if \<exists>v \<in> set vs. or_id v = i \<and> or_status v = DISPATCH_PENDING then Some (fresh_job i) else None)"
proof (induction vs arbitrary: r)
  case Nil
  then show ?case by (simp split: option.split)
next
  case (Cons v vs)
  have "job_findById i (sync_order v r) =
      (case job_findById i r of Some j \<Rightarrow> Some j
       | None \<Rightarrow> if or_id v = i \<and> or_status v = DISPATCH_PENDING then Some (fresh_job i) else None)"
    by (auto simp: sync_order_def job_of_order_fresh jobs.find_save split: option.split)
  then show ?case by (simp add: Cons split: option.split)
qed

definition order_pending :: "uuid \<Rightarrow> order_repo \<Rightarrow> bool" where
  "order_pending i orders = (\<exists>v. order_findById i orders = Some v \<and> or_status v = DISPATCH_PENDING)"

lemma syncDispatchPendingOrders_find:
  assumes "map_wf orders" "orders.keys_agree orders"
  shows "job_findById i (syncDispatchPendingOrders orders r) =
     (case job_findById i r of Some j \<Rightarrow> Some j | None \<Rightarrow> if order_pending i orders then Some (fresh_job i) else None)"
proof -
  have "(\<exists>v \<in> set (order_list orders). or_id v = i \<and> or_status v = DISPATCH_PENDING) \<longleftrightarrow> order_pending i orders"
    using assms orders.all_records_iff [OF assms(1)]
    by (auto simp: order_pending_def orders.keys_agree_def) blast
  then show ?thesis by (simp add: syncDispatchPendingOrders_def sync_find split: option.split)
qed

lemma sync_keeps: "job_findById i r = Some j \<Longrightarrow> job_findById i (syncDispatchPendingOrders orders r) = Some j"
  by (simp add: syncDispatchPendingOrders_def sync_find)

lemma sync_new:
  "job_findById i (syncDispatchPendingOrders orders r) = Some j \<Longrightarrow> job_findById i r = Some j \<or> j = fresh_job i"
  by (auto simp: syncDispatchPendingOrders_def sync_find split: option.splits if_splits)

section \<open>The life of a job\<close>

inductive job_change :: "courierJob \<Rightarrow> courierJob \<Rightarrow> bool" where
  job_accepted: "cj_status j = JOB_AVAILABLE \<Longrightarrow>
    job_change j (j\<lparr>cj_status := JOB_ACCEPTED, cj_courierId := Some c, cj_acceptedAt := Some now\<rparr>)"
| job_picked_up: "cj_status j = JOB_ACCEPTED \<Longrightarrow> job_change j (j\<lparr>cj_status := JOB_PICKED_UP, cj_pickedUpAt := Some now\<rparr>)"
| job_dropped_off: "cj_status j = JOB_PICKED_UP \<Longrightarrow> job_change j (j\<lparr>cj_status := JOB_DROPPED_OFF, cj_droppedOffAt := Some now\<rparr>)"

definition job_rank :: "courierJobStatus \<Rightarrow> nat" where
  "job_rank t = (case t of JOB_AVAILABLE \<Rightarrow> 0 | JOB_ACCEPTED \<Rightarrow> 1 | JOB_PICKED_UP \<Rightarrow> 2 | JOB_DROPPED_OFF \<Rightarrow> 3)"

lemma job_change_rank: "job_change j k \<Longrightarrow> job_rank (cj_status j) < job_rank (cj_status k)"
  by (erule job_change.cases) (simp_all add: job_rank_def)

definition job_wf :: "courierJob \<Rightarrow> bool" where
  "job_wf j = (cj_orderId j = cj_jobId j \<and> (cj_courierId j = None \<longleftrightarrow> cj_status j = JOB_AVAILABLE) \<and>
     (cj_acceptedAt j = None \<longleftrightarrow> cj_status j = JOB_AVAILABLE) \<and>
     (cj_pickedUpAt j = None \<longleftrightarrow> job_rank (cj_status j) < 2) \<and>
     (cj_droppedOffAt j = None \<longleftrightarrow> cj_status j \<noteq> JOB_DROPPED_OFF))"

lemma job_change_wf: "job_change j k \<Longrightarrow> job_wf j \<Longrightarrow> job_wf k"
  by (erule job_change.cases) (auto simp: job_wf_def job_rank_def)

lemma fresh_job_wf: "job_wf (fresh_job i)"
  by (simp add: fresh_job_def job_wf_def job_rank_def)

definition same_job :: "courierJob \<Rightarrow> courierJob \<Rightarrow> bool" where
  "same_job j k = (cj_jobId k = cj_jobId j \<and> cj_orderId k = cj_orderId j \<and>
     (cj_courierId j \<noteq> None \<longrightarrow> cj_courierId k = cj_courierId j))"

lemma job_change_same: "job_change j k \<Longrightarrow> job_wf j \<Longrightarrow> same_job j k"
  by (erule job_change.cases) (auto simp: same_job_def job_wf_def)

definition jobs_ok :: "job_repo \<Rightarrow> bool" where
  "jobs_ok r = (map_wf r \<and> jobs.keys_agree r \<and> jobs.every job_wf r)"

lemma jobs_ok_sync: "jobs_ok r \<Longrightarrow> jobs_ok (syncDispatchPendingOrders orders r)"
proof -
  have "jobs_ok (sync_order v r)" if "jobs_ok r" for v r
    using that by (simp add: sync_order_def jobs_ok_def jobs.wf_save jobs.keys_agree_save jobs.every_save
        job_of_order_fresh fresh_job_wf)
  then show "jobs_ok r \<Longrightarrow> jobs_ok (syncDispatchPendingOrders orders r)"
    unfolding syncDispatchPendingOrders_def by (induction "order_list orders" arbitrary: r) (simp_all add: fold_invariant [where Q = "\<lambda>_. True"])
qed

lemma jobs_ok_find: "jobs_ok r \<Longrightarrow> job_findById i r = Some j \<Longrightarrow> cj_jobId j = i \<and> job_wf j"
  by (simp add: jobs_ok_def jobs.keys_agree_def jobs.every_def)

text \<open>What a call does to the jobs: synchronisation, and at most one change.\<close>

definition job_effect :: "job_repo \<Rightarrow> job_repo \<Rightarrow> bool" where
  "job_effect r1 r' = (r' = r1 \<or> (\<exists>j k. job_findById (cj_jobId k) r1 = Some j \<and> job_change j k \<and> r' = job_save k r1))"

lemma job_effect_refl [simp]: "job_effect r r"
  by (simp add: job_effect_def)

lemma job_effect_save:
  "jobs_ok r \<Longrightarrow> job_findById i r = Some j \<Longrightarrow> job_change j k \<Longrightarrow> job_effect r (job_save k r)"
  using jobs_ok_find [of r i j] job_change_same [of j k] unfolding job_effect_def same_job_def by metis

lemma requireJob_Inr: "requireJob i r = Inr j \<longleftrightarrow> job_findById i r = Some j"
  by (simp add: requireJob_def split: option.split)

lemma acceptJob_effect:
  assumes "jobs_ok r"
  shows "job_effect (syncDispatchPendingOrders orders r) (snd (acceptJob now i c orders r))"
  using job_effect_save [OF jobs_ok_sync [OF assms, of orders]] job_accepted [of _ now c]
  by (auto simp: acceptJob_def Let_def requireJob_Inr split: sum.split)

lemma pickupJob_effect:
  assumes "jobs_ok r"
  shows "job_effect (syncDispatchPendingOrders orders r) (snd (pickupJob now i c orders r))"
  using job_effect_save [OF jobs_ok_sync [OF assms, of orders]] job_picked_up [of _ now]
  by (auto simp: pickupJob_def Let_def requireJob_Inr split: sum.split)

lemma dropoffJob_effect:
  assumes "jobs_ok r"
  shows "job_effect (syncDispatchPendingOrders orders r) (snd (dropoffJob now i c orders r))"
  using job_effect_save [OF jobs_ok_sync [OF assms, of orders]] job_dropped_off [of _ now]
  by (auto simp: dropoffJob_def Let_def requireJob_Inr split: sum.split)

lemma jobs_ok_effect: "jobs_ok r \<Longrightarrow> job_effect r r' \<Longrightarrow> jobs_ok r'"
  using jobs_ok_find job_change_wf unfolding job_effect_def jobs_ok_def
  by (metis jobs.every_def jobs.every_save jobs.keys_agree_save jobs.wf_save)

lemma job_effect_found:
  assumes "job_effect r r'" "job_findById i r = Some j"
  shows "\<exists>k. job_findById i r' = Some k \<and> (k = j \<or> job_change j k)"
  using assms unfolding job_effect_def by (metis jobs.find_save option.inject)

text \<open>Calls of the job service, each at some state of the orders.\<close>

datatype job_op =
    JobSync order_repo
  | JobAccept iso_date uuid string order_repo
  | JobPickup iso_date uuid string order_repo
  | JobDropoff iso_date uuid string order_repo

fun job_step :: "job_op \<Rightarrow> job_repo \<Rightarrow> job_repo" where
  "job_step (JobSync orders) r = snd (listAvailableJobs orders r)"
| "job_step (JobAccept now i c orders) r = snd (acceptJob now i c orders r)"
| "job_step (JobPickup now i c orders) r = snd (pickupJob now i c orders r)"
| "job_step (JobDropoff now i c orders) r = snd (dropoffJob now i c orders r)"

fun job_op_orders :: "job_op \<Rightarrow> order_repo" where
  "job_op_orders (JobSync orders) = orders"
| "job_op_orders (JobAccept now i c orders) = orders"
| "job_op_orders (JobPickup now i c orders) = orders"
| "job_op_orders (JobDropoff now i c orders) = orders"

lemma job_step_effect: "jobs_ok r \<Longrightarrow> job_effect (syncDispatchPendingOrders (job_op_orders op) r) (job_step op r)"
  by (cases op) (simp_all add: listAvailableJobs_def Let_def acceptJob_effect pickupJob_effect dropoffJob_effect)

lemma job_step_ok: "jobs_ok r \<Longrightarrow> jobs_ok (job_step op r)"
  using job_step_effect jobs_ok_effect jobs_ok_sync by blast

lemma job_step_found:
  "jobs_ok r \<Longrightarrow> job_findById i r = Some j \<Longrightarrow> \<exists>k. job_findById i (job_step op r) = Some k \<and> (k = j \<or> job_change j k)"
  using job_effect_found [OF job_step_effect sync_keeps] by blast

definition job_status_in :: "uuid \<Rightarrow> job_repo \<Rightarrow> courierJobStatus option" where
  "job_status_in i r = map_option cj_status (job_findById i r)"

interpretation job_lifecycle: ranked_status job_status_in job_rank job_step "\<lambda>op r. jobs_ok r"
proof
  fix op r k a
  assume "jobs_ok r" "job_status_in k r = Some a"
  then show "\<exists>b. job_status_in k (job_step op r) = Some b \<and> (b = a \<or> job_rank a < job_rank b)"
    using job_step_found [of r k _ op] job_change_rank by (fastforce simp: job_status_in_def)
qed

lemma job_run_ok: "jobs_ok r \<Longrightarrow> job_lifecycle.run_ok ops r"
  by (induction ops arbitrary: r) (simp_all add: job_step_ok)

lemma jobs_ok_run: "jobs_ok r \<Longrightarrow> jobs_ok (fold job_step ops r)"
  by (induction ops arbitrary: r) (simp_all add: job_step_ok)

lemma job_run_found:
  "jobs_ok r \<Longrightarrow> job_findById i r = Some j \<Longrightarrow> \<exists>k. job_findById i (fold job_step ops r) = Some k \<and> same_job j k"
proof (induction ops arbitrary: r j)
  case Nil
  then show ?case by (simp add: same_job_def)
next
  case (Cons op ops)
  obtain k where k: "job_findById i (job_step op r) = Some k" "k = j \<or> job_change j k"
    using job_step_found [OF Cons.prems] by blast
  have jk: "same_job j k"
    using k(2) job_change_same [of j k] jobs_ok_find [OF Cons.prems] by (auto simp: same_job_def)
  obtain l where l: "job_findById i (fold job_step ops (job_step op r)) = Some l" "same_job k l"
    using Cons.IH [OF job_step_ok [OF Cons.prems(1)] k(1)] by blast
  have "same_job j l" using jk l(2) by (auto simp: same_job_def)
  with l(1) show ?case by auto
qed

lemma jobs_ok_empty: "jobs_ok []"
  by (simp add: jobs_ok_def jobs.keys_agree_fresh jobs.every_fresh)


section \<open>Jobs and orders agree\<close>

text \<open>
  The routes of the courier, the dispatch request without a remote assignment, and the
  other calls of the order service. A job matches an order when their statuses correspond
  and they have the same courier; a cancelled order keeps whatever job it has.
\<close>

datatype dispatch_op =
    RouteAccept iso_date iso_date uuid string
  | RoutePickup iso_date iso_date uuid string
  | RouteDropoff iso_date iso_date uuid string
  | RouteListJobs
  | RouteOrder_op order_op

fun dispatch_step :: "dispatch_op \<Rightarrow> dispatch_state \<Rightarrow> dispatch_state" where
  "dispatch_step (RouteAccept n1 n2 i c) s = snd (acceptRoute n1 n2 i c s :: (dispatch_state, unit route_error, courierJob) outcome)"
| "dispatch_step (RoutePickup n1 n2 i c) s = snd (pickupRoute n1 n2 i c s :: (dispatch_state, unit route_error, courierJob) outcome)"
| "dispatch_step (RouteDropoff n1 n2 i c) s = snd (dropoffRoute n1 n2 i c s :: (dispatch_state, unit route_error, courierJob) outcome)"
| "dispatch_step RouteListJobs s = s\<lparr>dp_jobs := snd (listAvailableJobs (os_orders (dp_orders s)) (dp_jobs s))\<rparr>"
| "dispatch_step (RouteOrder_op op) s = s\<lparr>dp_orders := order_step op (dp_orders s)\<rparr>"

text \<open>Couriers reach orders through the job routes only.\<close>

fun no_courier_call :: "order_op \<Rightarrow> bool" where
  "no_courier_call (OpAssign now i c) = False"
| "no_courier_call (OpPickUp now i c) = False"
| "no_courier_call (OpDeliver now i c) = False"
| "no_courier_call op = True"

fun dispatch_op_ok :: "dispatch_op \<Rightarrow> dispatch_state \<Rightarrow> bool" where
  "dispatch_op_ok (RouteOrder_op op) s = (no_courier_call op \<and> order_op_ok op (dp_orders s))"
| "dispatch_op_ok op s = True"

fun dispatch_ops_ok :: "dispatch_op list \<Rightarrow> dispatch_state \<Rightarrow> bool" where
  "dispatch_ops_ok [] s = True"
| "dispatch_ops_ok (op # ops) s = (dispatch_op_ok op s \<and> dispatch_ops_ok ops (dispatch_step op s))"

definition job_matches :: "courierJob \<Rightarrow> order \<Rightarrow> bool" where
  "job_matches j v =
     (or_status v = CANCELLED \<or>
      cj_status j = JOB_AVAILABLE \<and> or_status v = DISPATCH_PENDING \<or>
      or_courierId v = cj_courierId j \<and>
        (cj_status j = JOB_ACCEPTED \<and> or_status v = COURIER_ASSIGNED \<or>
         cj_status j = JOB_PICKED_UP \<and> or_status v = PICKED_UP \<or>
         cj_status j = JOB_DROPPED_OFF \<and> or_status v = DELIVERED))"

definition jobs_match :: "job_repo \<Rightarrow> order_repo \<Rightarrow> bool" where
  "jobs_match r orders = (\<forall>i j. job_findById i r = Some j \<longrightarrow> (\<exists>v. order_findById i orders = Some v \<and> job_matches j v))"

definition dispatch_ok :: "dispatch_state \<Rightarrow> bool" where
  "dispatch_ok s = (all_orders_wf (dp_orders s) \<and> jobs_ok (dp_jobs s) \<and> jobs_match (dp_jobs s) (os_orders (dp_orders s)))"

lemma jobs_match_sync:
  assumes "orders_ok s" "jobs_match r (os_orders s)"
  shows "jobs_match (syncDispatchPendingOrders (os_orders s) r) (os_orders s)"
  unfolding jobs_match_def
proof (intro allI impI)
  fix i j assume j: "job_findById i (syncDispatchPendingOrders (os_orders s) r) = Some j"
  show "\<exists>v. order_findById i (os_orders s) = Some v \<and> job_matches j v"
  proof (cases "job_findById i r")
    case (Some k)
    with j assms(2) show ?thesis by (auto simp: sync_keeps jobs_match_def)
  next
    case None
    with j assms(1) have "order_pending i (os_orders s)" "j = fresh_job i"
      by (auto simp: orders_ok_def syncDispatchPendingOrders_find split: if_splits)
    then show ?thesis by (auto simp: order_pending_def job_matches_def)
  qed
qed

text \<open>Replacing one job and one order, or nothing, keeps the agreement.\<close>

lemma jobs_match_change:
  assumes "jobs_match r orders"
    and "\<And>k. k \<noteq> i \<Longrightarrow> job_findById k r' = job_findById k r"
    and "\<And>k. k \<noteq> i \<Longrightarrow> order_findById k orders' = order_findById k orders"
    and "\<And>j. job_findById i r' = Some j \<Longrightarrow> \<exists>v. order_findById i orders' = Some v \<and> job_matches j v"
  shows "jobs_match r' orders'"
  using assms unfolding jobs_match_def by metis

text \<open>A job route, for any job call and order call that act as theirs do.\<close>

lemma job_route_agree:
  fixes s :: dispatch_state
  defines "orders \<equiv> os_orders (dp_orders s)" and "r1 \<equiv> syncDispatchPendingOrders (os_orders (dp_orders s)) (dp_jobs s)"
  assumes s: "dispatch_ok s"
    and err: "\<And>e r. jobCall orders (dp_jobs s) = (Inl e, r) \<Longrightarrow> r = r1"
    and call: "\<And>j r. jobCall orders (dp_jobs s) = (Inr j, r) \<Longrightarrow> cj_jobId j = i \<and> cj_orderId j = i \<and>
        (r = r1 \<and> job_findById i r1 = Some j \<or> r = job_save j r1 \<and> (\<exists>k. job_findById i r1 = Some k \<and> job_change k j))"
    and order: "\<And>s'. all_orders_wf s' \<Longrightarrow> all_orders_wf (snd (orderCall i s'))"
    and other: "\<And>k. k \<noteq> i \<Longrightarrow> order_findById k (os_orders (snd (orderCall i (dp_orders s)))) = order_findById k orders"
    and match: "\<And>k j r v. jobCall orders (dp_jobs s) = (Inr j, r) \<Longrightarrow> job_findById i r1 = Some k \<Longrightarrow>
        order_findById i orders = Some v \<Longrightarrow> job_matches k v \<Longrightarrow>
        \<exists>w. order_findById i (os_orders (snd (orderCall i (dp_orders s)))) = Some w \<and> job_matches j w"
  shows "dispatch_ok (snd (job_route jobCall orderCall s))" (is "dispatch_ok (snd ?res)")
proof -
  have wf: "all_orders_wf (dp_orders s)" and jobs: "jobs_ok r1" and m: "jobs_match r1 orders"
    using s jobs_ok_sync jobs_match_sync unfolding dispatch_ok_def all_orders_wf_def orders_def r1_def by auto
  show ?thesis
  proof (cases "jobCall orders (dp_jobs s)")
    case (Pair res r)
    show ?thesis
    proof (cases res)
      case (Inl e)
      then have "r = r1" using err Pair by simp
      with Inl Pair wf jobs m show ?thesis by (simp add: job_route_def dispatch_ok_def orders_def)
    next
      case (Inr j)
      then have jc: "jobCall orders (dp_jobs s) = (Inr j, r)" using Pair by simp
      obtain k where k: "job_findById i r1 = Some k" using call [OF jc] by auto
      then obtain v where v: "order_findById i orders = Some v" "job_matches k v" using m unfolding jobs_match_def by blast
      have r: "jobs_ok r" "\<And>l. l \<noteq> i \<Longrightarrow> job_findById l r = job_findById l r1" "job_findById i r = Some j"
        using call [OF jc] jobs jobs_ok_effect [OF jobs, of r] by (auto simp: job_effect_def jobs.find_save)
      let ?os = "snd (orderCall i (dp_orders s))"
      have "jobs_match r (os_orders ?os)"
        using match [OF jc k v] r(3) by (intro jobs_match_change [OF m r(2) other]) auto
      moreover have "dp_jobs (snd ?res) = r \<and> dp_orders (snd ?res) = ?os"
        using jc call [OF jc] by (auto simp: job_route_def orders_def split: prod.split sum.split)
      ultimately show ?thesis using r(1) order [OF wf] by (simp add: dispatch_ok_def)
    qed
  qed
qed

lemma order_call_wf:
  "all_orders_wf s \<Longrightarrow> all_orders_wf (snd (assignCourier n i c s))"
  "all_orders_wf s \<Longrightarrow> all_orders_wf (snd (markPickedUp n i c s))"
  "all_orders_wf s \<Longrightarrow> all_orders_wf (snd (markDelivered n i c s))"
  using all_orders_wf_step [of s "OpAssign n i c"] all_orders_wf_step [of s "OpPickUp n i c"]
    all_orders_wf_step [of s "OpDeliver n i c"] by simp_all

lemma order_call_other:
  assumes "orders_ok s" "k \<noteq> i"
  shows "order_findById k (os_orders (snd (assignCourier n i c s))) = order_findById k (os_orders s)"
    and "order_findById k (os_orders (snd (markPickedUp n i c s))) = order_findById k (os_orders s)"
    and "order_findById k (os_orders (snd (markDelivered n i c s))) = order_findById k (os_orders s)"
  using assms orders_ok_id [OF assms(1), of i]
  by (auto simp: assignCourier_def markPickedUp_def markDelivered_def Let_def orders.find_save split: option.split)

lemma job_call_error:
  "acceptJob n i c orders r = (Inl e, r') \<Longrightarrow> r' = syncDispatchPendingOrders orders r"
  "pickupJob n i c orders r = (Inl e, r') \<Longrightarrow> r' = syncDispatchPendingOrders orders r"
  "dropoffJob n i c orders r = (Inl e, r') \<Longrightarrow> r' = syncDispatchPendingOrders orders r"
  by (auto simp: acceptJob_def pickupJob_def dropoffJob_def Let_def split: sum.splits if_splits)

lemma acceptJob_Inr:
  assumes "acceptJob n i c orders r = (Inr j, r')"
  shows "\<exists>k. job_findById i (syncDispatchPendingOrders orders r) = Some k \<and> cj_courierId j = Some c \<and>
     (j = k \<and> cj_status j = JOB_ACCEPTED \<and> r' = syncDispatchPendingOrders orders r \<or>
      cj_status k = JOB_AVAILABLE \<and> j = k\<lparr>cj_status := JOB_ACCEPTED, cj_courierId := Some c, cj_acceptedAt := Some n\<rparr> \<and>
      r' = job_save j (syncDispatchPendingOrders orders r))"
  using assms by (auto simp: acceptJob_def Let_def requireJob_Inr split: sum.splits if_splits)

lemma pickupJob_Inr:
  assumes "pickupJob n i c orders r = (Inr j, r')"
  shows "\<exists>k. job_findById i (syncDispatchPendingOrders orders r) = Some k \<and> cj_courierId k = Some c \<and>
     (j = k \<and> cj_status j = JOB_PICKED_UP \<and> r' = syncDispatchPendingOrders orders r \<or>
      cj_status k = JOB_ACCEPTED \<and> j = k\<lparr>cj_status := JOB_PICKED_UP, cj_pickedUpAt := Some n\<rparr> \<and>
      r' = job_save j (syncDispatchPendingOrders orders r))"
  using assms by (auto simp: pickupJob_def Let_def requireJob_Inr split: sum.splits if_splits)

lemma dropoffJob_Inr:
  assumes "dropoffJob n i c orders r = (Inr j, r')"
  shows "\<exists>k. job_findById i (syncDispatchPendingOrders orders r) = Some k \<and> cj_courierId k = Some c \<and>
     (j = k \<and> cj_status j = JOB_DROPPED_OFF \<and> r' = syncDispatchPendingOrders orders r \<or>
      cj_status k = JOB_PICKED_UP \<and> j = k\<lparr>cj_status := JOB_DROPPED_OFF, cj_droppedOffAt := Some n\<rparr> \<and>
      r' = job_save j (syncDispatchPendingOrders orders r))"
  using assms by (auto simp: dropoffJob_def Let_def requireJob_Inr split: sum.splits if_splits)

lemma synced_job: "jobs_ok r \<Longrightarrow> job_findById i (syncDispatchPendingOrders orders r) = Some k \<Longrightarrow> cj_jobId k = i \<and> cj_orderId k = i"
  using jobs_ok_find [OF jobs_ok_sync] unfolding job_wf_def by metis

lemma acceptRoute_agree:
  assumes s: "dispatch_ok s" shows "dispatch_ok (snd (acceptRoute n1 n2 i c s))"
  unfolding acceptRoute_def
proof (rule job_route_agree [where i = i, OF s])
  have wf: "orders_ok (dp_orders s)" and jobs: "jobs_ok (dp_jobs s)" using s by (auto simp: dispatch_ok_def all_orders_wf_def)
  note j = synced_job [OF jobs, of i "os_orders (dp_orders s)"]
  fix jb r assume call: "acceptJob n1 i c (os_orders (dp_orders s)) (dp_jobs s) = (Inr jb, r)"
  show "cj_jobId jb = i \<and> cj_orderId jb = i \<and>
      (r = syncDispatchPendingOrders (os_orders (dp_orders s)) (dp_jobs s) \<and>
         job_findById i (syncDispatchPendingOrders (os_orders (dp_orders s)) (dp_jobs s)) = Some jb \<or>
       r = job_save jb (syncDispatchPendingOrders (os_orders (dp_orders s)) (dp_jobs s)) \<and>
       (\<exists>k. job_findById i (syncDispatchPendingOrders (os_orders (dp_orders s)) (dp_jobs s)) = Some k \<and> job_change k jb))"
    using acceptJob_Inr [OF call] j job_accepted [of _ n1 c] by auto
  fix k v assume "job_findById i (syncDispatchPendingOrders (os_orders (dp_orders s)) (dp_jobs s)) = Some k"
    "order_findById i (os_orders (dp_orders s)) = Some v" "job_matches k v"
  with acceptJob_Inr [OF call] orders_ok_id [OF wf, of i]
  show "\<exists>w. order_findById i (os_orders (snd (assignCourier n2 i c (dp_orders s)))) = Some w \<and> job_matches jb w"
    by (auto simp: job_matches_def assignCourier_def Let_def orders.find_save)
qed (use s job_call_error order_call_wf order_call_other in \<open>auto simp: dispatch_ok_def all_orders_wf_def\<close>)


lemma pickupRoute_agree:
  assumes s: "dispatch_ok s" shows "dispatch_ok (snd (pickupRoute n1 n2 i c s))"
  unfolding pickupRoute_def
proof (rule job_route_agree [where i = i, OF s])
  have wf: "orders_ok (dp_orders s)" and jobs: "jobs_ok (dp_jobs s)" using s by (auto simp: dispatch_ok_def all_orders_wf_def)
  note j = synced_job [OF jobs, of i "os_orders (dp_orders s)"]
  fix jb r assume call: "pickupJob n1 i c (os_orders (dp_orders s)) (dp_jobs s) = (Inr jb, r)"
  show "cj_jobId jb = i \<and> cj_orderId jb = i \<and>
      (r = syncDispatchPendingOrders (os_orders (dp_orders s)) (dp_jobs s) \<and>
         job_findById i (syncDispatchPendingOrders (os_orders (dp_orders s)) (dp_jobs s)) = Some jb \<or>
       r = job_save jb (syncDispatchPendingOrders (os_orders (dp_orders s)) (dp_jobs s)) \<and>
       (\<exists>k. job_findById i (syncDispatchPendingOrders (os_orders (dp_orders s)) (dp_jobs s)) = Some k \<and> job_change k jb))"
    using pickupJob_Inr [OF call] j job_picked_up [of _ n1] by auto
  fix k v assume "job_findById i (syncDispatchPendingOrders (os_orders (dp_orders s)) (dp_jobs s)) = Some k"
    "order_findById i (os_orders (dp_orders s)) = Some v" "job_matches k v"
  with pickupJob_Inr [OF call] orders_ok_id [OF wf, of i]
  show "\<exists>w. order_findById i (os_orders (snd (markPickedUp n2 i c (dp_orders s)))) = Some w \<and> job_matches jb w"
    by (auto simp: job_matches_def markPickedUp_def Let_def orders.find_save)
qed (use s job_call_error order_call_wf order_call_other in \<open>auto simp: dispatch_ok_def all_orders_wf_def\<close>)

lemma dropoffRoute_agree:
  assumes s: "dispatch_ok s" shows "dispatch_ok (snd (dropoffRoute n1 n2 i c s))"
  unfolding dropoffRoute_def
proof (rule job_route_agree [where i = i, OF s])
  have wf: "orders_ok (dp_orders s)" and jobs: "jobs_ok (dp_jobs s)" using s by (auto simp: dispatch_ok_def all_orders_wf_def)
  note j = synced_job [OF jobs, of i "os_orders (dp_orders s)"]
  fix jb r assume call: "dropoffJob n1 i c (os_orders (dp_orders s)) (dp_jobs s) = (Inr jb, r)"
  show "cj_jobId jb = i \<and> cj_orderId jb = i \<and>
      (r = syncDispatchPendingOrders (os_orders (dp_orders s)) (dp_jobs s) \<and>
         job_findById i (syncDispatchPendingOrders (os_orders (dp_orders s)) (dp_jobs s)) = Some jb \<or>
       r = job_save jb (syncDispatchPendingOrders (os_orders (dp_orders s)) (dp_jobs s)) \<and>
       (\<exists>k. job_findById i (syncDispatchPendingOrders (os_orders (dp_orders s)) (dp_jobs s)) = Some k \<and> job_change k jb))"
    using dropoffJob_Inr [OF call] j job_dropped_off [of _ n1] by auto
  fix k v assume "job_findById i (syncDispatchPendingOrders (os_orders (dp_orders s)) (dp_jobs s)) = Some k"
    "order_findById i (os_orders (dp_orders s)) = Some v" "job_matches k v"
  with dropoffJob_Inr [OF call] orders_ok_id [OF wf, of i]
  show "\<exists>w. order_findById i (os_orders (snd (markDelivered n2 i c (dp_orders s)))) = Some w \<and> job_matches jb w"
    by (auto simp: job_matches_def markDelivered_def Let_def orders.find_save)
qed (use s job_call_error order_call_wf order_call_other in \<open>auto simp: dispatch_ok_def all_orders_wf_def\<close>)

text \<open>The other calls leave a dispatched order as it is, or cancel it.\<close>

lemma other_call_order:
  assumes ok: "orders_ok s" and op: "no_courier_call op" "order_op_ok op s"
    and v: "order_findById i (os_orders s) = Some v" "or_status v \<notin> {CREATED, MERCHANT_ACCEPTED}"
  shows "\<exists>u. order_findById i (os_orders (order_step op s)) = Some u \<and> (u = v \<or> or_status u = CANCELLED)"
proof (cases op)
  case (OpCreateOrder now uid inp)
  with op v show ?thesis
    by (auto simp: createOrder_def Let_def orders.find_save split: option.split)
qed (use op v orders_ok_id [OF ok] in \<open>auto simp: merchantAcceptOrder_def handleMerchantDecisionTimeout_def requestDispatch_def
      requestCancellation_def Let_def orders.find_save split: option.split\<close>)

lemma dispatch_ok_step:
  assumes s: "dispatch_ok s" and op: "dispatch_op_ok op s"
  shows "dispatch_ok (dispatch_step op s)"
proof (cases op)
  case RouteListJobs
  with s jobs_ok_sync jobs_match_sync show ?thesis
    by (auto simp: dispatch_ok_def listAvailableJobs_def Let_def all_orders_wf_def)
next
  case (RouteOrder_op oop)
  have o: "orders_ok (dp_orders s)" "no_courier_call oop" "order_op_ok oop (dp_orders s)"
    using s op RouteOrder_op by (auto simp: dispatch_ok_def all_orders_wf_def)
  have "jobs_match (dp_jobs s) (os_orders (order_step oop (dp_orders s)))"
    unfolding jobs_match_def
  proof (intro allI impI)
    fix i j assume "job_findById i (dp_jobs s) = Some j"
    then obtain v where v: "order_findById i (os_orders (dp_orders s)) = Some v" "job_matches j v"
      using s unfolding dispatch_ok_def jobs_match_def by blast
    have "or_status v \<notin> {CREATED, MERCHANT_ACCEPTED}" using v(2) by (auto simp: job_matches_def)
    from other_call_order [OF o v(1) this] v(2)
    show "\<exists>u. order_findById i (os_orders (order_step oop (dp_orders s))) = Some u \<and> job_matches j u"
      by (auto simp: job_matches_def)
  qed
  with s RouteOrder_op o all_orders_wf_step show ?thesis by (simp add: dispatch_ok_def)
qed (use s in \<open>simp_all add: acceptRoute_agree pickupRoute_agree dropoffRoute_agree\<close>)

lemma dispatch_ok_run: "dispatch_ok s \<Longrightarrow> dispatch_ops_ok ops s \<Longrightarrow> dispatch_ok (fold dispatch_step ops s)"
  by (induction ops arbitrary: s) (simp_all add: dispatch_ok_step)

definition dispatch_init :: "order_service \<Rightarrow> dispatch_state" where
  "dispatch_init s = \<lparr>dp_orders = s, dp_jobs = []\<rparr>"

lemma dispatch_ok_init: "all_orders_wf s \<Longrightarrow> dispatch_ok (dispatch_init s)"
  by (simp add: dispatch_ok_def dispatch_init_def jobs_ok_empty jobs_match_def job_findById_def)

section \<open>Telemetry is monotone\<close>

fun ingest_all :: "telemetryInput list \<Rightarrow> telemetry_state \<Rightarrow> (telemetryInput \<times> telemetryDecision) list \<times> telemetry_state" where
  "ingest_all [] t = ([], t)"
| "ingest_all (x # xs) t =
     (let (d, t1) = ingest x t; (ds, t2) = ingest_all xs t1 in ((x, d) # ds, t2))"

definition accepted_times :: "string \<Rightarrow> (telemetryInput \<times> telemetryDecision) list \<Rightarrow> jsnum list" where
  "accepted_times c ds = map (ti_observedAtEpochMs \<circ> fst) (filter (\<lambda>(x, d). td_accepted d \<and> ti_courierId x = c) ds)"

lemma ingest_cases:
  "(td_accepted (fst (ingest x t)) \<and> snd (ingest x t) = map_set (ti_courierId x) (ti_observedAtEpochMs x) t \<and>
      (\<forall>l. map_get t (ti_courierId x) = Some l \<longrightarrow> \<not> num_le (ti_observedAtEpochMs x) l)) \<or>
   (\<not> td_accepted (fst (ingest x t)) \<and> snd (ingest x t) = t)"
  by (auto simp: ingest_def Let_def split: option.splits)

lemma accepted_times_sorted:
  assumes "\<forall>x \<in> set xs. is_finite (ti_observedAtEpochMs x)" "\<forall>c l. map_get t c = Some l \<longrightarrow> is_finite l"
  shows "sorted_wrt num_lt (accepted_times c (fst (ingest_all xs t))) \<and>
    (\<forall>l. map_get t c = Some l \<longrightarrow> (\<forall>x \<in> set (accepted_times c (fst (ingest_all xs t))). num_lt l x))"
  using assms
proof (induction xs arbitrary: t)
  case Nil
  then show ?case by (simp add: accepted_times_def)
next
  case (Cons x xs)
  let ?t1 = "snd (ingest x t)" and ?ys = "accepted_times c (fst (ingest_all xs (snd (ingest x t))))"
  have split: "fst (ingest_all (x # xs) t) = (x, fst (ingest x t)) # fst (ingest_all xs ?t1)"
    by (simp add: case_prod_unfold Let_def)
  have fin: "\<forall>c l. map_get ?t1 c = Some l \<longrightarrow> is_finite l"
    using ingest_cases [of x t] Cons.prems by (auto simp: map_get_set split: if_splits)
  have IH: "sorted_wrt num_lt ?ys" "\<And>l y. map_get ?t1 c = Some l \<Longrightarrow> y \<in> set ?ys \<Longrightarrow> num_lt l y"
    using Cons.IH [OF _ fin] Cons.prems(1) by auto
  have trans: "num_lt a b \<Longrightarrow> num_lt b d \<Longrightarrow> num_lt a d" for a b d by (cases a; cases b; cases d) auto
  show ?case
  proof (cases "td_accepted (fst (ingest x t)) \<and> ti_courierId x = c")
    case True
    then have t1: "?t1 = map_set c (ti_observedAtEpochMs x) t"
      "\<forall>l. map_get t c = Some l \<longrightarrow> \<not> num_le (ti_observedAtEpochMs x) l"
      using ingest_cases [of x t] by auto
    have times: "accepted_times c (fst (ingest_all (x # xs) t)) = ti_observedAtEpochMs x # ?ys"
      using True by (simp add: accepted_times_def case_prod_unfold Let_def)
    have later: "\<forall>y \<in> set ?ys. num_lt (ti_observedAtEpochMs x) y" using IH(2) by (simp add: t1(1))
    have "num_lt l (ti_observedAtEpochMs x)" if "map_get t c = Some l" for l
    proof -
      have "is_finite l" "is_finite (ti_observedAtEpochMs x)" using that Cons.prems by auto
      then have "l \<noteq> NaN" "ti_observedAtEpochMs x \<noteq> NaN" by (auto simp: is_finite_def)
      then show ?thesis using t1(2) that not_num_le by blast
    qed
    with times later IH(1) trans show ?thesis by fastforce
  next
    case False
    then have times: "accepted_times c (fst (ingest_all (x # xs) t)) = ?ys"
      by (auto simp: accepted_times_def case_prod_unfold Let_def)
    have "map_get ?t1 c = map_get t c" using False ingest_cases [of x t] by (auto simp: map_get_set)
    with times IH show ?thesis by simp
  qed
qed


lemma eta_bound:
  assumes "is_finite (ti_speedMps x)" "is_finite (ti_distanceToDropoffMeters x)" "td_accepted (fst (ingest x t))"
  shows "num_le (Fin 30) (td_etaSeconds (fst (ingest x t)))"
proof -
  obtain a b where ab: "ti_speedMps x = Fin a" "ti_distanceToDropoffMeters x = Fin b"
    using assms(1,2) by (auto simp: is_finite_def split: jsnum.splits)
  have "math_ceil (num_div (math_max (Fin 0) (Fin b)) (if num_lt (Fin 0) (Fin a) then Fin a else Fin 4)) \<noteq> NaN"
  proof -
    have c: "math_ceil j \<noteq> NaN" if "j \<noteq> NaN" for j using that by (cases j) simp_all
    show ?thesis
      by (rule c) (auto simp: math_max_def double_of_def Let_def)
  qed
  then have "num_le (Fin 30) (math_max (Fin 30) (math_ceil (num_div (math_max (Fin 0) (Fin b))
      (if num_lt (Fin 0) (Fin a) then Fin a else Fin 4))))"
    using math_max_not_less by blast
  then show ?thesis using assms(3) ab by (auto simp: ingest_def Let_def split: option.splits if_splits)
qed

section \<open>Properties\<close>

text \<open>C24: Along any run of the job service, at whatever states of the orders its calls find, a job
  found once is found later for the same order; its status only moves forward (available,
  accepted, picked up, dropped off); once accepted it keeps its courier for good; and its
  timestamps and courier are set exactly as its status says.\<close>

theorem job_lifecycle_forward:
  assumes "job_findById i (fold job_step ops []) = Some j"
  shows "\<exists>k. job_findById i (fold job_step (ops @ later_ops) []) = Some k \<and> same_job j k \<and> job_wf k \<and> cj_jobId k = i \<and>
    (cj_status k = cj_status j \<or> job_rank (cj_status j) < job_rank (cj_status k))"
proof -
  let ?r = "fold job_step ops []"
  have ok: "jobs_ok ?r" by (rule jobs_ok_run [OF jobs_ok_empty])
  obtain k where k: "job_findById i (fold job_step later_ops ?r) = Some k" "same_job j k"
    using job_run_found [OF ok assms] by blast
  have "job_status_in i ?r = Some (cj_status j)" using assms by (simp add: job_status_in_def)
  from job_lifecycle.run_status [OF job_run_ok [OF ok] this, of later_ops] k(1)
  have "cj_status k = cj_status j \<or> job_rank (cj_status j) < job_rank (cj_status k)" by (simp add: job_status_in_def)
  with k jobs_ok_find [OF jobs_ok_run [OF ok] k(1)] show ?thesis by simp
qed

definition pending_order :: order where
  "pending_order = demo_order\<lparr>or_status := DISPATCH_PENDING, or_courierId := None\<rparr>"

lemma job_lifecycle_forward_witness:
  "\<exists>k. job_findById ''o1'' (fold job_step ([JobSync [(''o1'', pending_order)]] @
      [JobAccept ''7'' ''o1'' ''c1'' [(''o1'', pending_order)]]) []) = Some k \<and> job_wf k"
proof -
  have "job_findById ''o1'' (fold job_step [JobSync [(''o1'', pending_order)]] []) = Some (fresh_job ''o1'')"
    by (simp add: listAvailableJobs_def Let_def syncDispatchPendingOrders_def order_list_def map_values_def sync_order_def
        pending_order_def demo_order_def job_of_order_fresh job_findById_def job_save_def map_set_def map_get_def)
  from job_lifecycle_forward [OF this, of "[JobAccept ''7'' ''o1'' ''c1'' [(''o1'', pending_order)]]"] show ?thesis by blast
qed

text \<open>C12: As long as couriers act through the job routes, every job stays in step with its order in
  every reachable state: the order exists, and unless it was cancelled the two statuses
  correspond and name the same courier.\<close>

theorem jobs_agree_with_orders:
  assumes "all_orders_wf s0" and "dispatch_ops_ok ops (dispatch_init s0)"
    and "s = fold dispatch_step ops (dispatch_init s0)" and "job_findById i (dp_jobs s) = Some j"
  shows "\<exists>v. order_findById i (os_orders (dp_orders s)) = Some v \<and>
    (or_status v = CANCELLED \<or>
     cj_status j = JOB_AVAILABLE \<and> or_status v = DISPATCH_PENDING \<or>
     or_courierId v = cj_courierId j \<and>
       (cj_status j = JOB_ACCEPTED \<and> or_status v = COURIER_ASSIGNED \<or>
        cj_status j = JOB_PICKED_UP \<and> or_status v = PICKED_UP \<or>
        cj_status j = JOB_DROPPED_OFF \<and> or_status v = DELIVERED))"
proof -
  have "dispatch_ok s" unfolding assms(3) by (rule dispatch_ok_run [OF dispatch_ok_init [OF assms(1)] assms(2)])
  then show ?thesis using assms(4) unfolding dispatch_ok_def jobs_match_def job_matches_def by blast
qed

definition demo_dispatch_ops :: "dispatch_op list" where
  "demo_dispatch_ops = [RouteOrder_op (OpCreateOrder ''1'' ''o1'' \<lparr>coi_checkoutId = ''k1'', coi_quoteHash = ''h''\<rparr>),
     RouteOrder_op (OpAccept ''2'' ''o1''), RouteOrder_op (OpRequestDispatch ''3'' ''o1''),
     RouteAccept ''4'' ''5'' ''o1'' ''c1'', RoutePickup ''6'' ''7'' ''o1'' ''c1'']"

lemmas demo_job_simps =
  acceptRoute_def pickupRoute_def job_route_def acceptJob_def pickupJob_def requireJob_def job_findById_def job_save_def
  syncDispatchPendingOrders_def sync_order_def job_of_order_def order_list_def map_values_def dispatch_init_def

lemma jobs_agree_with_orders_witness:
  "\<exists>j v. job_findById ''o1'' (dp_jobs (fold dispatch_step demo_dispatch_ops (dispatch_init demo_order_start))) = Some j \<and>
     cj_status j = JOB_PICKED_UP \<and>
     order_findById ''o1'' (os_orders (dp_orders (fold dispatch_step demo_dispatch_ops (dispatch_init demo_order_start)))) = Some v \<and>
     (or_status v = CANCELLED \<or> or_courierId v = cj_courierId j)"
proof -
  have ok: "dispatch_ops_ok demo_dispatch_ops (dispatch_init demo_order_start)"
    by (simp add: demo_dispatch_ops_def demo_order_simps demo_job_simps)
  obtain j where j: "job_findById ''o1'' (dp_jobs (fold dispatch_step demo_dispatch_ops (dispatch_init demo_order_start))) = Some j"
    "cj_status j = JOB_PICKED_UP"
    by (simp add: demo_dispatch_ops_def demo_order_simps demo_job_simps)
  from jobs_agree_with_orders [OF _ ok refl j(1)] j show ?thesis
    using all_orders_wf_init by (fastforce simp: demo_order_start_def)
qed

text \<open>C25: The assignment that a dispatch request gets from the dispatch engine moves the order but
  not the job: an available job of the order stays available, and another courier can
  still accept it while the order keeps the courier that was assigned.\<close>

theorem remote_assignment_leaves_job:
  assumes "dispatch_ok s" and "order_findById i (os_orders (dp_orders s)) = Some v" and "or_status v = DISPATCH_PENDING"
    and "job_findById i (dp_jobs s) = Some j" and "cj_status j = JOB_AVAILABLE"
    and "assign (inp i) = Inr d" and "ad_mode d = ''COURIER''" and "ad_courierId d = Some c" and "c \<noteq> []" and "c' \<noteq> c"
    and "s1 = snd (requestDispatchRoute n1 n2 i (Some inp) (Some assign) s)"
    and "s2 = snd (acceptRoute n3 n4 i c' s1)"
  shows "\<exists>w k. order_findById i (os_orders (dp_orders s2)) = Some w \<and> or_courierId w = Some c \<and>
    job_findById i (dp_jobs s2) = Some k \<and> cj_status k = JOB_ACCEPTED \<and> cj_courierId k = Some c'"
proof -
  have id: "or_id v = i" using assms(1,2) orders_ok_id by (auto simp: dispatch_ok_def all_orders_wf_def)
  have jid: "cj_jobId j = i" "cj_orderId j = i"
    using assms(1,4) jobs_ok_find by (auto simp: dispatch_ok_def job_wf_def)
  let ?v = "v\<lparr>or_courierId := Some c, or_status := COURIER_ASSIGNED, or_updatedAt := n2\<rparr>"
  have "assignCourier n2 i c (dp_orders s) =
      (Inr ?v, publishEvent (courier_event ''dispatch.assignment.completed.v1'' ?v c) (store_order ?v (dp_orders s)))"
    using assms(2,3) by (simp add: assignCourier_def Let_def)
  then have s1: "os_orders (dp_orders s1) = order_save ?v (os_orders (dp_orders s))" "dp_jobs s1 = dp_jobs s"
    using assms(2,3,6-9) unfolding assms(11) by (simp_all add: requestDispatchRoute_def requestDispatch_def)
  have v1: "order_findById i (os_orders (dp_orders s1)) = Some ?v" by (simp add: s1 orders.find_save id)
  have j1: "job_findById i (syncDispatchPendingOrders (os_orders (dp_orders s1)) (dp_jobs s1)) = Some j"
    using assms(4) by (simp add: s1(2) sync_keeps)
  show ?thesis
    unfolding assms(12) acceptRoute_def job_route_def
    using v1 j1 assms(5,10) jid
    by (simp add: acceptJob_def Let_def requireJob_def assignCourier_def jobs.find_save)
qed

definition demo_dispatch :: dispatch_state where
  "demo_dispatch = fold dispatch_step
     [RouteOrder_op (OpCreateOrder ''1'' ''o1'' \<lparr>coi_checkoutId = ''k1'', coi_quoteHash = ''h''\<rparr>),
      RouteOrder_op (OpAccept ''2'' ''o1''), RouteOrder_op (OpRequestDispatch ''3'' ''o1''), RouteListJobs]
     (dispatch_init demo_order_start)"

definition demo_assignment :: assignmentDecision where
  "demo_assignment = \<lparr>ad_assignmentId = ''a'', ad_mode = ''COURIER'', ad_courierId = Some ''c1'', ad_etaSeconds = Fin 60,
     ad_reasonCodes = []\<rparr>"

definition demo_assignment_input :: "uuid \<Rightarrow> assignmentInput" where
  "demo_assignment_input i = \<lparr>ai_orderId = i, ai_candidates = [], ai_slaPressure = Fin 0, ai_merchantSelfDeliveryEnabled = False\<rparr>"

lemma remote_assignment_leaves_job_witness:
  "\<exists>w k. order_findById ''o1'' (os_orders (dp_orders (snd (acceptRoute ''6'' ''7'' ''o1'' ''c2''
        (snd (requestDispatchRoute ''4'' ''5'' ''o1'' (Some demo_assignment_input)
          (Some (\<lambda>x. Inr demo_assignment :: unit + assignmentDecision)) demo_dispatch))
        :: (dispatch_state, unit route_error, courierJob) outcome)))) = Some w \<and>
     or_courierId w = Some ''c1'' \<and>
     job_findById ''o1'' (dp_jobs (snd (acceptRoute ''6'' ''7'' ''o1'' ''c2''
        (snd (requestDispatchRoute ''4'' ''5'' ''o1'' (Some demo_assignment_input)
          (Some (\<lambda>x. Inr demo_assignment :: unit + assignmentDecision)) demo_dispatch))
        :: (dispatch_state, unit route_error, courierJob) outcome))) = Some k \<and> cj_courierId k = Some ''c2''"
proof -
  have ok: "dispatch_ok demo_dispatch"
    unfolding demo_dispatch_def demo_order_start_def
    by (rule dispatch_ok_run [OF dispatch_ok_init [OF all_orders_wf_init]])
       (simp add: demo_order_simps dispatch_init_def)
  obtain v where v: "order_findById ''o1'' (os_orders (dp_orders demo_dispatch)) = Some v" "or_status v = DISPATCH_PENDING"
    by (simp add: demo_dispatch_def demo_order_simps demo_job_simps)
  obtain j where j: "job_findById ''o1'' (dp_jobs demo_dispatch) = Some j" "cj_status j = JOB_AVAILABLE"
    by (simp add: demo_dispatch_def demo_order_simps demo_job_simps listAvailableJobs_def)
  have a: "ad_mode demo_assignment = ''COURIER''" "ad_courierId demo_assignment = Some ''c1''"
    by (simp_all add: demo_assignment_def)
  show ?thesis
    using remote_assignment_leaves_job [OF ok v j refl a _ _ refl refl, of "''c2''"] by (simp; blast)
qed

text \<open>The observations accepted for a courier are strictly increasing in time whatever order the
  reports arrive in, and the estimate of an accepted report with finite numbers is at
  least the minimum of 30 seconds.\<close>

lemma telemetry_monotone:
  assumes "\<forall>x \<in> set xs. is_finite (ti_observedAtEpochMs x)"
  shows "sorted_wrt num_lt (accepted_times c (fst (ingest_all xs []))) \<and>
    (is_finite (ti_speedMps y) \<and> is_finite (ti_distanceToDropoffMeters y) \<and> td_accepted (fst (ingest y t)) \<longrightarrow>
       num_le (Fin 30) (td_etaSeconds (fst (ingest y t))))"
  using accepted_times_sorted [OF assms, of "[]" c] eta_bound [of y t] by simp

lemma telemetry_monotone_witness:
  "sorted_wrt num_lt (accepted_times ''c'' (fst (ingest_all
     (map (\<lambda>n. \<lparr>ti_courierId = ''c'', ti_observedAtEpochMs = Fin n, ti_speedMps = Fin 4, ti_distanceToDropoffMeters = Fin 100\<rparr>)
       [10, 30, 20]) [])))"
  using telemetry_monotone [of "map (\<lambda>n. \<lparr>ti_courierId = ''c'', ti_observedAtEpochMs = Fin n, ti_speedMps = Fin 4,
      ti_distanceToDropoffMeters = Fin 100\<rparr>) [10, 30, 20]" "''c''"]
  by (simp add: is_finite_def)

end
