(* ===== verification/Settlement.thy ===== *)
theory Settlement
  imports Ordering
begin

text \<open>
  Settlement (\<open>core-api/src/modules/settlement\<close>): the journal of balanced entries, payout
  batches, payout statements with their plain-text fallback, the reconciliation of expected
  and actual amounts, and its scheduled import. The renderer of statements is a parameter:
  for each attempt the content, or \<open>None\<close> when it throws.
\<close>

section \<open>The journal\<close>

datatype ledgerSide = DEBIT | CREDIT

record settlementJournalLine =
  jl_account :: string
  jl_side :: ledgerSide
  jl_amount :: jsnum

record settlementJournalEntry =
  je_ledgerEntryId :: uuid
  je_sourceType :: string
  je_sourceId :: string
  je_lines :: "settlementJournalLine list"
  je_createdAt :: iso_date

record postSettlementJournalInput =
  pj_sourceType :: string
  pj_sourceId :: string
  pj_lines :: "settlementJournalLine list"

datatype settlement_error = UnbalancedJournal

type_synonym ledger_repo = "(uuid, settlementJournalEntry) jsmap"

definition ledger_save :: "settlementJournalEntry \<Rightarrow> ledger_repo \<Rightarrow> ledger_repo" where
  "ledger_save e r = map_set (je_ledgerEntryId e) e r"

record ledger_service =
  lg_ledger :: ledger_repo
  lg_eventBus :: event_bus

definition side_total :: "ledgerSide \<Rightarrow> settlementJournalLine list \<Rightarrow> jsnum" where
  "side_total d ls = num_sum (map jl_amount (filter (\<lambda>l. jl_side l = d) ls))"

definition ledger_event :: "settlementJournalEntry \<Rightarrow> domain_event" where
  "ledger_event e = mk_event ''settlement.ledger_entry_posted.v1'' (je_createdAt e)
     [(''ledgerEntryId'', JStr (je_ledgerEntryId e)), (''sourceType'', JStr (je_sourceType e)), (''sourceId'', JStr (je_sourceId e))]"

definition postJournalEntry ::
  "iso_date \<Rightarrow> uuid \<Rightarrow> postSettlementJournalInput \<Rightarrow> ledger_service
     \<Rightarrow> (ledger_service, settlement_error, settlementJournalEntry) outcome" where
  "postJournalEntry now uid inp s =
     (if \<not> num_eq (side_total DEBIT (pj_lines inp)) (side_total CREDIT (pj_lines inp))
      then (Inl UnbalancedJournal, s)
      else
        let entry = \<lparr>je_ledgerEntryId = uid, je_sourceType = pj_sourceType inp, je_sourceId = pj_sourceId inp,
                     je_lines = pj_lines inp, je_createdAt = now\<rparr>
        in (Inr entry, s\<lparr>lg_ledger := ledger_save entry (lg_ledger s),
                         lg_eventBus := publish (ledger_event entry) (lg_eventBus s)\<rparr>))"

section \<open>Payout batches\<close>

datatype payoutEntityType = PAYEE_MERCHANT | PAYEE_COURIER

definition payoutEntityType_name :: "payoutEntityType \<Rightarrow> string" where
  "payoutEntityType_name t = (case t of PAYEE_MERCHANT \<Rightarrow> ''MERCHANT'' | PAYEE_COURIER \<Rightarrow> ''COURIER'')"

record payoutCandidateInput =
  pc_entityType :: payoutEntityType
  pc_entityId :: string
  pc_amount :: jsnum
  pc_hasException :: bool
  pc_holdReason :: "string option"

record generatePayoutBatchInput =
  gp_scheduleId :: string
  gp_runAt :: iso_date
  gp_candidates :: "payoutCandidateInput list"

record payoutRecord =
  pr_entityType :: payoutEntityType
  pr_entityId :: string
  pr_amount :: jsnum

record payoutHold =
  ph_entityType :: payoutEntityType
  ph_entityId :: string
  ph_reason :: string

datatype payoutBatchStatus = GENERATED

record payoutBatch =
  pb_payoutBatchId :: uuid
  pb_scheduleId :: string
  pb_runAt :: iso_date
  pb_payouts :: "payoutRecord list"
  pb_holds :: "payoutHold list"
  pb_status :: payoutBatchStatus
  pb_createdAt :: iso_date

type_synonym payout_repo = "(uuid, payoutBatch) jsmap"

definition payout_save :: "payoutBatch \<Rightarrow> payout_repo \<Rightarrow> payout_repo" where
  "payout_save b r = map_set (pb_payoutBatchId b) b r"

definition payout_findByScheduleRun :: "string \<Rightarrow> iso_date \<Rightarrow> payout_repo \<Rightarrow> payoutBatch option" where
  "payout_findByScheduleRun scheduleId runAt r =
     List.find (\<lambda>b. pb_scheduleId b = scheduleId \<and> pb_runAt b = runAt) (map_values r)"

record payout_service =
  po_batches :: payout_repo
  po_eventBus :: event_bus

definition add_candidate :: "payoutCandidateInput \<Rightarrow> payoutBatch \<Rightarrow> payoutBatch" where
  "add_candidate c b =
     (if pc_hasException c
      then b\<lparr>pb_holds := pb_holds b @
             [\<lparr>ph_entityType = pc_entityType c, ph_entityId = pc_entityId c,
               ph_reason = nullish (pc_holdReason c) ''UNRESOLVED_EXCEPTION''\<rparr>]\<rparr>
      else b\<lparr>pb_payouts := pb_payouts b @
             [\<lparr>pr_entityType = pc_entityType c, pr_entityId = pc_entityId c, pr_amount = pc_amount c\<rparr>]\<rparr>)"

definition payout_event :: "payoutBatch \<Rightarrow> domain_event" where
  "payout_event b = mk_event ''payout.batch_generated.v1'' (pb_createdAt b)
     [(''payoutBatchId'', JStr (pb_payoutBatchId b)), (''scheduleId'', JStr (pb_scheduleId b)),
      (''payoutCount'', JNum (num_int (int (length (pb_payouts b))))), (''holdCount'', JNum (num_int (int (length (pb_holds b)))))]"

definition runScheduledBatch ::
  "iso_date \<Rightarrow> uuid \<Rightarrow> generatePayoutBatchInput \<Rightarrow> payout_service \<Rightarrow> (payoutBatch \<times> bool) \<times> payout_service" where
  "runScheduledBatch now uid inp s =
     (case payout_findByScheduleRun (gp_scheduleId inp) (gp_runAt inp) (po_batches s) of
        Some existing \<Rightarrow> ((existing, False), s)
      | None \<Rightarrow>
          let batch = fold add_candidate (gp_candidates inp)
                \<lparr>pb_payoutBatchId = uid, pb_scheduleId = gp_scheduleId inp, pb_runAt = gp_runAt inp, pb_payouts = [],
                 pb_holds = [], pb_status = GENERATED, pb_createdAt = now\<rparr>
          in ((batch, True), s\<lparr>po_batches := payout_save batch (po_batches s),
                               po_eventBus := publish (payout_event batch) (po_eventBus s)\<rparr>))"

definition generateBatch ::
  "iso_date \<Rightarrow> uuid \<Rightarrow> generatePayoutBatchInput \<Rightarrow> payout_service \<Rightarrow> payoutBatch \<times> payout_service" where
  "generateBatch now uid inp s = (case runScheduledBatch now uid inp s of ((b, _), s') \<Rightarrow> (b, s'))"

section \<open>Payout statements\<close>

record payoutStatementLineItem =
  li_label :: string
  li_amount :: jsnum

record publishPayoutStatementInput =
  ps_payoutBatchId :: uuid
  ps_entityType :: payoutEntityType
  ps_entityId :: string
  ps_periodStart :: iso_date
  ps_periodEnd :: iso_date
  ps_currency :: string
  ps_totalAmount :: jsnum
  ps_lineItems :: "payoutStatementLineItem list"

datatype payoutStatementFormat = FORMAT_PDF | FORMAT_PLAINTEXT

definition payoutStatementFormat_name :: "payoutStatementFormat \<Rightarrow> string" where
  "payoutStatementFormat_name f = (case f of FORMAT_PDF \<Rightarrow> ''PDF'' | FORMAT_PLAINTEXT \<Rightarrow> ''PLAINTEXT'')"

text \<open>A statement is its input with an identifier, the format, the content and the time.\<close>

record payoutStatement =
  st_statementId :: uuid
  st_input :: publishPayoutStatementInput
  st_format :: payoutStatementFormat
  st_renderedContent :: string
  st_createdAt :: iso_date

type_synonym statement_repo = "(uuid, payoutStatement) jsmap"

definition statement_save :: "payoutStatement \<Rightarrow> statement_repo \<Rightarrow> statement_repo" where
  "statement_save v r = map_set (st_statementId v) v r"

definition statement_listByEntity :: "host \<Rightarrow> payoutEntityType \<Rightarrow> string \<Rightarrow> statement_repo \<Rightarrow> payoutStatement list" where
  "statement_listByEntity h t i r =
     js_sort (\<lambda>left right. locale_gt h (st_createdAt right) (st_createdAt left))
       (filter (\<lambda>v. ps_entityType (st_input v) = t \<and> ps_entityId (st_input v) = i) (map_values r))"

definition default_renderer :: "publishPayoutStatementInput \<Rightarrow> string" where
  "default_renderer inp = ''s3://payout-statements/'' @ ps_payoutBatchId inp @ ''/'' @
     toLowerCase (payoutEntityType_name (ps_entityType inp)) @ ''-'' @ ps_entityId inp @ ''.pdf''"

definition renderPlainTextFallback :: "publishPayoutStatementInput \<Rightarrow> string" where
  "renderPlainTextFallback inp = join_strings [CHR 0x0A]
     ([''Payout Batch: '' @ ps_payoutBatchId inp,
       ''Entity: '' @ payoutEntityType_name (ps_entityType inp) @ ''/'' @ ps_entityId inp,
       ''Period: '' @ ps_periodStart inp @ '' -> '' @ ps_periodEnd inp] @
      map (\<lambda>item. li_label item @ '': '' @ num_string (li_amount item)) (ps_lineItems inp) @
      [''Total ('' @ ps_currency inp @ ''): '' @ num_string (ps_totalAmount inp)])"

text \<open>
  The loop of \<open>publishStatement\<close> over the attempts (an integer number of them), from
  \<open>attempt\<close> on. The second component of the result counts the calls of the renderer.
\<close>

function render_loop ::
  "(int \<Rightarrow> publishPayoutStatementInput \<Rightarrow> string option) \<Rightarrow> int \<Rightarrow> publishPayoutStatementInput \<Rightarrow> int
     \<Rightarrow> (payoutStatementFormat \<times> string) \<times> nat" where
  "render_loop render attempts inp attempt =
     (if attempt > attempts then ((FORMAT_PDF, []), 0)
      else case render attempt inp of
          Some content \<Rightarrow> ((FORMAT_PDF, content), 1)
        | None \<Rightarrow>
            if attempt = attempts then ((FORMAT_PLAINTEXT, renderPlainTextFallback inp), 1)
            else (case render_loop render attempts inp (attempt + 1) of (r, n) \<Rightarrow> (r, n + 1)))"
  by pat_completeness auto
termination
  by (relation "measure (\<lambda>(_, attempts, _, attempt). nat (attempts + 1 - attempt))") auto

declare render_loop.simps [simp del]

record statement_service =
  ss_statements :: statement_repo
  ss_eventBus :: event_bus
  ss_renderAttempts :: int

definition statement_event :: "payoutStatement \<Rightarrow> domain_event" where
  "statement_event v = mk_event ''payout.statement_published.v1'' (st_createdAt v)
     [(''statementId'', JStr (st_statementId v)), (''payoutBatchId'', JStr (ps_payoutBatchId (st_input v))),
      (''entityType'', JStr (payoutEntityType_name (ps_entityType (st_input v)))), (''entityId'', JStr (ps_entityId (st_input v))),
      (''format'', JStr (payoutStatementFormat_name (st_format v)))]"

definition publishStatement ::
  "(int \<Rightarrow> publishPayoutStatementInput \<Rightarrow> string option) \<Rightarrow> iso_date \<Rightarrow> uuid \<Rightarrow> publishPayoutStatementInput \<Rightarrow> statement_service
     \<Rightarrow> payoutStatement \<times> statement_service" where
  "publishStatement render now uid inp s =
     (let ((fmt, content), _) = render_loop render (ss_renderAttempts s) inp 1;
          statement = \<lparr>st_statementId = uid, st_input = inp, st_format = fmt, st_renderedContent = content, st_createdAt = now\<rparr>
      in (statement, s\<lparr>ss_statements := statement_save statement (ss_statements s),
                       ss_eventBus := publish (statement_event statement) (ss_eventBus s)\<rparr>))"

definition listStatements :: "host \<Rightarrow> payoutEntityType \<Rightarrow> string \<Rightarrow> statement_service \<Rightarrow> payoutStatement list" where
  "listStatements h t i s = statement_listByEntity h t i (ss_statements s)"

section \<open>Reconciliation\<close>

record settlementReconciliationRecord =
  sr_entityId :: string
  sr_amount :: jsnum

record reconcileSettlementInput =
  rc_expectedRecords :: "settlementReconciliationRecord list"
  rc_actualRecords :: "settlementReconciliationRecord list"
  rc_toleranceCents :: jsnum

datatype exceptionReason = AMOUNT_MISMATCH | MISSING_EXPECTED_RECORD | MISSING_ACTUAL_RECORD

record exceptionCase =
  xc_entityId :: string
  xc_expectedAmount :: jsnum
  xc_actualAmount :: jsnum
  xc_variance :: jsnum
  xc_reason :: exceptionReason

record reconciliationResult =
  rr_reconciliationId :: uuid
  rr_reconciledAt :: iso_date
  rr_toleranceCents :: jsnum
  rr_totalExpectedAmount :: jsnum
  rr_totalActualAmount :: jsnum
  rr_exceptionCases :: "exceptionCase list"

type_synonym reconciliation_repo = "reconciliationResult list"

definition reconciliation_append :: "reconciliationResult \<Rightarrow> reconciliation_repo \<Rightarrow> reconciliation_repo" where
  "reconciliation_append v r = r @ [v]"

definition reconciliation_list :: "host \<Rightarrow> jsnum option \<Rightarrow> reconciliation_repo \<Rightarrow> reconciliationResult list" where
  "reconciliation_list h limit r =
     (let normalizedLimit = (case limit of Some l \<Rightarrow> if is_finite l \<and> num_lt (Fin 0) l then Some (math_floor l) else None | None \<Rightarrow> None);
          sorted = js_sort (\<lambda>left right. locale_gt h (rr_reconciledAt right) (rr_reconciledAt left)) r
      in case normalizedLimit of
           Some l \<Rightarrow> if num_eq l (Fin 0) then sorted else slice_from_start l sorted
         | None \<Rightarrow> sorted)"

record reconciliation_service =
  re_eventBus :: event_bus
  re_repository :: reconciliation_repo

definition resolveReason :: "bool \<Rightarrow> bool \<Rightarrow> exceptionReason" where
  "resolveReason expectedPresent actualPresent =
     (if \<not> expectedPresent \<and> actualPresent then MISSING_EXPECTED_RECORD
      else if expectedPresent \<and> \<not> actualPresent then MISSING_ACTUAL_RECORD
      else AMOUNT_MISMATCH)"

definition by_entity :: "settlementReconciliationRecord list \<Rightarrow> (string, jsnum) jsmap" where
  "by_entity rs = map_from_entries (map (\<lambda>r. (sr_entityId r, sr_amount r)) rs)"

definition reconcile_entity ::
  "(string, jsnum) jsmap \<Rightarrow> (string, jsnum) jsmap \<Rightarrow> jsnum \<Rightarrow> string \<Rightarrow> exceptionCase list \<Rightarrow> exceptionCase list" where
  "reconcile_entity expectedBy actualBy tolerance entityId cases =
     (let expectedAmount = nullish (map_get expectedBy entityId) (Fin 0);
          actualAmount = nullish (map_get actualBy entityId) (Fin 0);
          variance = num_sub actualAmount expectedAmount
      in if num_le (math_abs variance) tolerance then cases
         else cases @ [\<lparr>xc_entityId = entityId, xc_expectedAmount = expectedAmount, xc_actualAmount = actualAmount,
                        xc_variance = variance,
                        xc_reason = resolveReason (map_get expectedBy entityId \<noteq> None) (map_get actualBy entityId \<noteq> None)\<rparr>])"

definition sumAmounts :: "(string, jsnum) jsmap \<Rightarrow> jsnum" where
  "sumAmounts m = num_sum (map_values m)"

definition reconciliation_event :: "reconciliationResult \<Rightarrow> domain_event" where
  "reconciliation_event v = mk_event ''settlement.reconciliation_completed.v1'' (rr_reconciledAt v)
     [(''reconciliationId'', JStr (rr_reconciliationId v)), (''toleranceCents'', JNum (rr_toleranceCents v)),
      (''exceptionCount'', JNum (num_int (int (length (rr_exceptionCases v)))))]"

definition reconcile ::
  "iso_date \<Rightarrow> uuid \<Rightarrow> reconcileSettlementInput \<Rightarrow> reconciliation_service \<Rightarrow> reconciliationResult \<times> reconciliation_service" where
  "reconcile now uid inp s =
     (let expectedBy = by_entity (rc_expectedRecords inp);
          actualBy = by_entity (rc_actualRecords inp);
          entityIds = fold set_add (map_keys expectedBy @ map_keys actualBy) [];
          cases = fold (reconcile_entity expectedBy actualBy (rc_toleranceCents inp)) entityIds [];
          res = \<lparr>rr_reconciliationId = uid, rr_reconciledAt = now, rr_toleranceCents = rc_toleranceCents inp,
                 rr_totalExpectedAmount = sumAmounts expectedBy, rr_totalActualAmount = sumAmounts actualBy,
                 rr_exceptionCases = cases\<rparr>
      in (res, s\<lparr>re_eventBus := publish (reconciliation_event res) (re_eventBus s),
                 re_repository := reconciliation_append res (re_repository s)\<rparr>))"

definition filterByExceptionState :: "reconciliationResult list \<Rightarrow> bool option \<Rightarrow> reconciliationResult list" where
  "filterByExceptionState history hasExceptions =
     (case hasExceptions of
        None \<Rightarrow> history
      | Some b \<Rightarrow> filter (\<lambda>v. if b then length (rr_exceptionCases v) > 0 else length (rr_exceptionCases v) = 0) history)"

definition listResults :: "host \<Rightarrow> jsnum option \<Rightarrow> bool option \<Rightarrow> reconciliation_service \<Rightarrow> reconciliationResult list" where
  "listResults h limit hasExceptions s =
     (let filtered = filterByExceptionState (reconciliation_list h None (re_repository s)) hasExceptions
      in case limit of None \<Rightarrow> filtered | Some l \<Rightarrow> slice_from_start l filtered)"

record reconciliationSummary =
  su_totalRuns :: nat
  su_runsWithExceptions :: nat
  su_runsWithoutExceptions :: nat

definition summarizeResults :: "host \<Rightarrow> bool option \<Rightarrow> reconciliation_service \<Rightarrow> reconciliationSummary" where
  "summarizeResults h hasExceptions s =
     (let filtered = filterByExceptionState (reconciliation_list h None (re_repository s)) hasExceptions;
          runsWithExceptions = length (filter (\<lambda>v. length (rr_exceptionCases v) > 0) filtered)
      in \<lparr>su_totalRuns = length filtered, su_runsWithExceptions = runsWithExceptions,
          su_runsWithoutExceptions = length filtered - runsWithExceptions\<rparr>)"

section \<open>Scheduled import\<close>

record importInput =
  ii_scheduleId :: string
  ii_runAt :: iso_date
  ii_sourceFileName :: string
  ii_reconciliationInput :: reconcileSettlementInput
  ii_ingestedRecords :: jsnum

record importRun =
  ir_importRunId :: uuid
  ir_scheduleId :: string
  ir_runAt :: iso_date
  ir_sourceFileName :: string
  ir_ingestedRecords :: jsnum
  ir_createdAt :: iso_date
  ir_result :: reconciliationResult

type_synonym import_repo = "(string, importRun) jsmap"

definition import_key :: "string \<Rightarrow> iso_date \<Rightarrow> string" where
  "import_key scheduleId runAt = scheduleId @ '':'' @ runAt"

definition import_save :: "importRun \<Rightarrow> import_repo \<Rightarrow> import_repo" where
  "import_save v r = map_set (import_key (ir_scheduleId v) (ir_runAt v)) v r"

definition import_findByScheduleRun :: "string \<Rightarrow> iso_date \<Rightarrow> import_repo \<Rightarrow> importRun option" where
  "import_findByScheduleRun scheduleId runAt r = map_get r (import_key scheduleId runAt)"

text \<open>The import service publishes on the bus of the reconciliation service it calls.\<close>

record import_service =
  im_repository :: import_repo
  im_reconciliationService :: reconciliation_service

definition import_event :: "importRun \<Rightarrow> domain_event" where
  "import_event v = mk_event ''settlement.reconciliation_import.completed.v1'' (ir_createdAt v)
     [(''importRunId'', JStr (ir_importRunId v)), (''scheduleId'', JStr (ir_scheduleId v)), (''runAt'', JStr (ir_runAt v)),
      (''sourceFileName'', JStr (ir_sourceFileName v)), (''reconciliationId'', JStr (rr_reconciliationId (ir_result v)))]"

definition runScheduledImport ::
  "iso_date \<Rightarrow> uuid \<Rightarrow> iso_date \<Rightarrow> uuid \<Rightarrow> importInput \<Rightarrow> import_service \<Rightarrow> (importRun \<times> bool) \<times> import_service" where
  "runScheduledImport now1 uid1 now2 uid2 inp s =
     (case import_findByScheduleRun (ii_scheduleId inp) (ii_runAt inp) (im_repository s) of
        Some existing \<Rightarrow> ((existing, False), s)
      | None \<Rightarrow>
          (case reconcile now1 uid1 (ii_reconciliationInput inp) (im_reconciliationService s) of (res, rs) \<Rightarrow>
             let run = \<lparr>ir_importRunId = uid2, ir_scheduleId = ii_scheduleId inp, ir_runAt = ii_runAt inp,
                        ir_sourceFileName = ii_sourceFileName inp, ir_ingestedRecords = ii_ingestedRecords inp,
                        ir_createdAt = now2, ir_result = res\<rparr>
             in ((run, True), s\<lparr>im_repository := import_save run (im_repository s),
                                im_reconciliationService := rs\<lparr>re_eventBus := publish (import_event run) (re_eventBus rs)\<rparr>\<rparr>)))"

section \<open>The repositories as interfaces\<close>

interpretation ledger_entries: keyed_repository je_ledgerEntryId "[]" ledger_save "\<lambda>i r. map_get r i" map_values map_wf
  unfolding ledger_save_def by (rule jsmap_repository)

interpretation batches: keyed_repository pb_payoutBatchId "[]" payout_save "\<lambda>i r. map_get r i" map_values map_wf
  unfolding payout_save_def by (rule jsmap_repository)

interpretation statements: keyed_repository st_statementId "[]" statement_save "\<lambda>i r. map_get r i" map_values map_wf
  unfolding statement_save_def by (rule jsmap_repository)

interpretation import_runs: keyed_repository "\<lambda>v. import_key (ir_scheduleId v) (ir_runAt v)" "[]" import_save
  "\<lambda>i r. map_get r i" map_values map_wf
  unfolding import_save_def by (rule jsmap_repository)

interpretation reconciliation_log: append_log reconciliation_append "\<lambda>r. r"
  by unfold_locales (simp add: reconciliation_append_def)

text \<open>A run of a service: calls at a time with a new identifier, and events of other components.\<close>

datatype 'i service_call = Call iso_date uuid 'i | Elsewhere domain_event

section \<open>The journal stays balanced\<close>

text \<open>Amounts in whole cents, small enough for exact sums.\<close>

definition cents :: "jsnum \<Rightarrow> int" where
  "cents a = (case a of Fin r \<Rightarrow> \<lfloor>r\<rfloor> | _ \<Rightarrow> 0)"

lemma cents_int [simp]: "cents (num_int z) = z"
  by (simp add: cents_def)

lemma cents_numeral [simp]: "cents (Fin (numeral k)) = numeral k" "cents (Fin 0) = 0"
  by (simp_all add: cents_def)

definition exact_lines :: "settlementJournalLine list \<Rightarrow> bool" where
  "exact_lines ls =
     (list_all (\<lambda>l. jl_amount l = num_int (cents (jl_amount l))) ls \<and> sum_list (map (\<lambda>l. \<bar>cents (jl_amount l)\<bar>) ls) < 2 ^ 53)"

definition exact_side :: "ledgerSide \<Rightarrow> settlementJournalLine list \<Rightarrow> int" where
  "exact_side d ls = sum_list (map (\<lambda>l. cents (jl_amount l)) (filter (\<lambda>l. jl_side l = d) ls))"

lemma sum_list_filter_le: "(\<And>x. x \<in> set xs \<Longrightarrow> 0 \<le> (f x :: int)) \<Longrightarrow> sum_list (map f (filter P xs)) \<le> sum_list (map f xs)"
  by (induction xs) (auto simp: add_increasing)

lemma side_total_exact:
  assumes "exact_lines ls" shows "side_total d ls = num_int (exact_side d ls)"
proof -
  let ?zs = "map (\<lambda>l. cents (jl_amount l)) (filter (\<lambda>l. jl_side l = d) ls)"
  have "map jl_amount (filter (\<lambda>l. jl_side l = d) ls) = map num_int ?zs"
    using assms by (auto simp: exact_lines_def list_all_iff)
  moreover have "sum_list (map abs ?zs) < 2 ^ 53"
    using sum_list_filter_le [of ls "\<lambda>l. \<bar>cents (jl_amount l)\<bar>" "\<lambda>l. jl_side l = d"] assms
    by (simp add: exact_lines_def comp_def)
  ultimately show ?thesis
    unfolding side_total_def exact_side_def by (simp only: num_sum_int)
qed

lemma post_succeeds:
  "exact_lines (pj_lines inp) \<Longrightarrow>
   succeeded (postJournalEntry now uid inp s) \<longleftrightarrow> exact_side DEBIT (pj_lines inp) = exact_side CREDIT (pj_lines inp)"
  by (simp add: postJournalEntry_def side_total_exact Let_def)

fun ledger_step :: "postSettlementJournalInput service_call \<Rightarrow> ledger_service \<Rightarrow> ledger_service" where
  "ledger_step (Call now uid inp) s = snd (postJournalEntry now uid inp s)"
| "ledger_step (Elsewhere e) s = s\<lparr>lg_eventBus := publish e (lg_eventBus s)\<rparr>"

fun ledger_calls_ok :: "postSettlementJournalInput service_call list \<Rightarrow> ledger_service \<Rightarrow> bool" where
  "ledger_calls_ok [] s = True"
| "ledger_calls_ok (c # cs) s =
     ((case c of Call now uid inp \<Rightarrow> map_get (lg_ledger s) uid = None \<and> exact_lines (pj_lines inp)
       | Elsewhere e \<Rightarrow> ev_type e \<noteq> ''settlement.ledger_entry_posted.v1'') \<and> ledger_calls_ok cs (ledger_step c s))"

definition ledger_init :: ledger_service where
  "ledger_init = \<lparr>lg_ledger = [], lg_eventBus = empty_bus\<rparr>"

definition ledger_ok :: "ledger_service \<Rightarrow> bool" where
  "ledger_ok s =
     (list_all (\<lambda>e. exact_side DEBIT (je_lines e) = exact_side CREDIT (je_lines e)) (map_values (lg_ledger s)) \<and>
      events_of_type ''settlement.ledger_entry_posted.v1'' (bus_events (lg_eventBus s)) = map ledger_event (map_values (lg_ledger s)))"

lemma map_values_new: "map_get m k = None \<Longrightarrow> map_values (map_set k v m) = map_values m @ [v]"
  by (simp add: map_set_new map_values_def)

lemma postJournalEntry_ok:
  assumes "ledger_ok s" "map_get (lg_ledger s) uid = None" "exact_lines (pj_lines inp)"
  shows "ledger_ok (snd (postJournalEntry now uid inp s))"
  using assms
  by (simp add: postJournalEntry_def side_total_exact Let_def ledger_ok_def ledger_save_def map_values_new) (simp add: ledger_event_def)

lemma ledger_run_ok: "ledger_ok s \<Longrightarrow> ledger_calls_ok cs s \<Longrightarrow> ledger_ok (fold ledger_step cs s)"
proof (induction cs arbitrary: s)
  case (Cons c cs)
  have "ledger_ok (ledger_step c s)"
  proof (cases c)
    case (Call now uid inp)
    with Cons.prems show ?thesis by (simp add: postJournalEntry_ok)
  next
    case (Elsewhere e)
    with Cons.prems show ?thesis by (simp add: ledger_ok_def)
  qed
  with Cons show ?case by simp
qed simp

section \<open>One payout batch per scheduled run\<close>

definition same_run :: "string \<Rightarrow> iso_date \<Rightarrow> payoutBatch \<Rightarrow> bool" where
  "same_run scheduleId runAt b = (pb_scheduleId b = scheduleId \<and> pb_runAt b = runAt)"

lemma fold_add_candidate:
  "pb_payoutBatchId (fold add_candidate cs b) = pb_payoutBatchId b"
  "pb_scheduleId (fold add_candidate cs b) = pb_scheduleId b"
  "pb_runAt (fold add_candidate cs b) = pb_runAt b"
  "pb_createdAt (fold add_candidate cs b) = pb_createdAt b"
  "pb_payouts (fold add_candidate cs b) = pb_payouts b @
     map (\<lambda>c. \<lparr>pr_entityType = pc_entityType c, pr_entityId = pc_entityId c, pr_amount = pc_amount c\<rparr>)
       (filter (\<lambda>c. \<not> pc_hasException c) cs)"
  "pb_holds (fold add_candidate cs b) = pb_holds b @
     map (\<lambda>c. \<lparr>ph_entityType = pc_entityType c, ph_entityId = pc_entityId c,
              ph_reason = nullish (pc_holdReason c) ''UNRESOLVED_EXCEPTION''\<rparr>) (filter pc_hasException cs)"
  by (induction cs arbitrary: b) (auto simp: add_candidate_def)

fun payout_step :: "generatePayoutBatchInput service_call \<Rightarrow> payout_service \<Rightarrow> payout_service" where
  "payout_step (Call now uid inp) s = snd (runScheduledBatch now uid inp s)"
| "payout_step (Elsewhere e) s = s\<lparr>po_eventBus := publish e (po_eventBus s)\<rparr>"

fun payout_calls_ok :: "generatePayoutBatchInput service_call list \<Rightarrow> payout_service \<Rightarrow> bool" where
  "payout_calls_ok [] s = True"
| "payout_calls_ok (c # cs) s =
     ((case c of Call now uid inp \<Rightarrow> map_get (po_batches s) uid = None
       | Elsewhere e \<Rightarrow> ev_type e \<noteq> ''payout.batch_generated.v1'') \<and> payout_calls_ok cs (payout_step c s))"

definition payout_init :: payout_service where
  "payout_init = \<lparr>po_batches = [], po_eventBus = empty_bus\<rparr>"

definition payouts_ok :: "payout_service \<Rightarrow> bool" where
  "payouts_ok s =
     (distinct (map (\<lambda>b. (pb_scheduleId b, pb_runAt b)) (map_values (po_batches s))) \<and>
      events_of_type ''payout.batch_generated.v1'' (bus_events (po_eventBus s)) = map payout_event (map_values (po_batches s)))"

lemma findByScheduleRun_None:
  "payout_findByScheduleRun i w r = None \<longleftrightarrow> (i, w) \<notin> set (map (\<lambda>b. (pb_scheduleId b, pb_runAt b)) (map_values r))"
  by (auto simp: payout_findByScheduleRun_def find_None_iff)

lemma runScheduledBatch_cases:
  assumes "map_get (po_batches s) uid = None"
  obtains (again) b where "payout_findByScheduleRun (gp_scheduleId inp) (gp_runAt inp) (po_batches s) = Some b"
      "runScheduledBatch now uid inp s = ((b, False), s)"
  | (generated) b where "payout_findByScheduleRun (gp_scheduleId inp) (gp_runAt inp) (po_batches s) = None"
      "runScheduledBatch now uid inp s = ((b, True), s\<lparr>po_batches := payout_save b (po_batches s),
          po_eventBus := publish (payout_event b) (po_eventBus s)\<rparr>)"
      "map_values (payout_save b (po_batches s)) = map_values (po_batches s) @ [b]"
      "pb_scheduleId b = gp_scheduleId inp" "pb_runAt b = gp_runAt inp"
      "b = fold add_candidate (gp_candidates inp) \<lparr>pb_payoutBatchId = uid, pb_scheduleId = gp_scheduleId inp,
         pb_runAt = gp_runAt inp, pb_payouts = [], pb_holds = [], pb_status = GENERATED, pb_createdAt = now\<rparr>"
proof (cases "payout_findByScheduleRun (gp_scheduleId inp) (gp_runAt inp) (po_batches s)")
  case None
  then show thesis
    using assms by (intro generated [OF None]) (simp_all add: runScheduledBatch_def Let_def fold_add_candidate payout_save_def map_values_new)
next
  case (Some b)
  then show thesis by (intro again) (simp_all add: runScheduledBatch_def)
qed

lemma runScheduledBatch_ok:
  assumes s: "payouts_ok s" and fresh: "map_get (po_batches s) uid = None"
  shows "payouts_ok (snd (runScheduledBatch now uid inp s))"
  using fresh
proof (cases rule: runScheduledBatch_cases [where s = s and uid = uid and inp = inp and now = now])
  case (again b)
  with s show ?thesis by simp
next
  case (generated b)
  have "(gp_scheduleId inp, gp_runAt inp) \<notin> set (map (\<lambda>b. (pb_scheduleId b, pb_runAt b)) (map_values (po_batches s)))"
    using generated(1) unfolding findByScheduleRun_None .
  then show ?thesis
    using s generated(2-5) by (auto simp: payouts_ok_def) (simp_all add: payout_event_def)
qed

lemma findByScheduleRun_step:
  assumes "payout_calls_ok [c] s" "payout_findByScheduleRun i w (po_batches s) = Some b"
  shows "payout_findByScheduleRun i w (po_batches (payout_step c s)) = Some b"
proof (cases c)
  case (Call now uid inp)
  then have "map_get (po_batches s) uid = None" using assms(1) by simp
  then show ?thesis
  proof (cases rule: runScheduledBatch_cases [where s = s and uid = uid and inp = inp and now = now])
    case (generated v)
    then show ?thesis
      using assms(2) by (simp add: Call payout_findByScheduleRun_def find_append)
  qed (use assms(2) in \<open>simp add: Call\<close>)
qed (use assms(2) in simp)

lemma payout_step_ok: "payouts_ok s \<Longrightarrow> payout_calls_ok [c] s \<Longrightarrow> payouts_ok (payout_step c s)"
proof (cases c)
  case (Call now uid inp)
  then show "payouts_ok s \<Longrightarrow> payout_calls_ok [c] s \<Longrightarrow> ?thesis" by (simp add: runScheduledBatch_ok)
qed (simp add: payouts_ok_def)

lemma payout_run:
  "payout_calls_ok cs s \<Longrightarrow> payouts_ok s \<Longrightarrow> payouts_ok (fold payout_step cs s)"
  "payout_calls_ok cs s \<Longrightarrow> payout_findByScheduleRun i w (po_batches s) = Some b \<Longrightarrow>
     payout_findByScheduleRun i w (po_batches (fold payout_step cs s)) = Some b"
  by (induction cs arbitrary: s) (simp_all add: payout_step_ok findByScheduleRun_step)

lemma runs_unique:
  assumes "payouts_ok s" "payout_findByScheduleRun i w (po_batches s) = Some b"
  shows "filter (same_run i w) (map_values (po_batches s)) = [b]"
proof -
  have "distinct (map (\<lambda>b. (pb_scheduleId b, pb_runAt b)) bs) \<Longrightarrow>
      List.find (\<lambda>b. pb_scheduleId b = i \<and> pb_runAt b = w) bs = Some b \<Longrightarrow> filter (same_run i w) bs = [b]" for bs
  proof (induction bs)
    case (Cons x bs)
    show ?case
    proof (cases "same_run i w x")
      case True
      moreover have "filter (same_run i w) bs = []"
        using Cons.prems(1) True by (fastforce simp: filter_empty_conv same_run_def image_iff)
      moreover have "x = b" using Cons.prems(2) True by (simp add: same_run_def)
      ultimately show ?thesis by simp
    next
      case False
      then show ?thesis using Cons by (auto simp: same_run_def)
    qed
  qed simp
  then show ?thesis using assms by (simp add: payouts_ok_def payout_findByScheduleRun_def)
qed

section \<open>The attempts of the renderer\<close>

lemma render_loop_spec:
  assumes "attempt \<le> attempts"
  shows "render_loop render attempts inp attempt =
    (case List.find (\<lambda>k. render k inp \<noteq> None) [attempt..attempts] of
       Some k \<Rightarrow> ((FORMAT_PDF, the (render k inp)), nat (k - attempt + 1))
     | None \<Rightarrow> ((FORMAT_PLAINTEXT, renderPlainTextFallback inp), nat (attempts - attempt + 1)))"
  using assms
proof (induction render attempts inp attempt rule: render_loop.induct)
  case (1 render attempts inp attempt)
  have l: "[attempt..attempts] = attempt # [attempt + 1..attempts]" using 1(2) by (simp add: upto_rec1)
  show ?case
  proof (cases "render attempt inp \<noteq> None \<or> attempt = attempts")
    case True
    then show ?thesis using 1(2) by (auto simp: l render_loop.simps [of render attempts inp attempt] split: option.split)
  next
    case False
    have "k \<ge> attempt + 1" if "List.find (\<lambda>k. render k inp \<noteq> None) [attempt + 1..attempts] = Some k" for k
      using that by (auto simp: find_Some_iff)
    then show ?thesis
      using 1(1) False 1(2)
      by (auto simp: l render_loop.simps [of render attempts inp attempt] split: option.split)
  qed
qed

section \<open>Reconciliation in whole cents\<close>

text \<open>The amount a list of records gives an entity: its last record counts, none is 0.\<close>

definition last_amount :: "settlementReconciliationRecord list \<Rightarrow> string \<Rightarrow> jsnum option" where
  "last_amount rs i = map_of (rev (map (\<lambda>r. (sr_entityId r, sr_amount r)) rs)) i"

definition entity_cents :: "settlementReconciliationRecord list \<Rightarrow> string \<Rightarrow> int" where
  "entity_cents rs i = cents (nullish (last_amount rs i) (Fin 0))"

definition entities :: "settlementReconciliationRecord list \<Rightarrow> string set" where
  "entities rs = set (map sr_entityId rs)"

text \<open>Up to \<open>2 ^ 20\<close> records of up to \<open>2 ^ 32\<close> cents: every sum is exact.\<close>

definition whole_records :: "settlementReconciliationRecord list \<Rightarrow> bool" where
  "whole_records rs = (length rs \<le> 2 ^ 20 \<and>
     list_all (\<lambda>r. sr_amount r = num_int (cents (sr_amount r)) \<and> 0 \<le> cents (sr_amount r) \<and> cents (sr_amount r) \<le> 2 ^ 32) rs)"

lemma by_entity_get: "map_get (by_entity rs) i = last_amount rs i"
  by (simp add: by_entity_def map_get_from_entries last_amount_def)

lemma by_entity_wf: "map_wf (by_entity rs)"
  by (simp add: by_entity_def map_wf_from_entries)

lemma last_amount_None: "last_amount rs i = None \<longleftrightarrow> i \<notin> entities rs"
  by (simp add: last_amount_def map_of_eq_None_iff entities_def image_image)

lemma by_entity_keys: "set (map_keys (by_entity rs)) = entities rs"
  by (auto simp: set_map_keys by_entity_get last_amount_None)

lemma last_amount_in: "last_amount rs i = Some a \<Longrightarrow> \<exists>r \<in> set rs. sr_entityId r = i \<and> sr_amount r = a"
  unfolding last_amount_def by (drule map_of_SomeD) auto

lemma whole_entity:
  assumes "whole_records rs"
  shows "nullish (last_amount rs i) (Fin 0) = num_int (entity_cents rs i)" "0 \<le> entity_cents rs i" "entity_cents rs i \<le> 2 ^ 32"
proof -
  have "nullish (last_amount rs i) (Fin 0) = num_int (entity_cents rs i) \<and> 0 \<le> entity_cents rs i \<and> entity_cents rs i \<le> 2 ^ 32"
  proof (cases "last_amount rs i")
    case None
    then show ?thesis by (simp add: entity_cents_def)
  next
    case (Some a)
    then obtain r where "r \<in> set rs" "sr_amount r = a" using last_amount_in by blast
    then have "a = num_int (cents a) \<and> 0 \<le> cents a \<and> cents a \<le> 2 ^ 32"
      using assms by (auto simp: whole_records_def list_all_iff)
    with Some show ?thesis by (simp add: entity_cents_def)
  qed
  then show "nullish (last_amount rs i) (Fin 0) = num_int (entity_cents rs i)" "0 \<le> entity_cents rs i" "entity_cents rs i \<le> 2 ^ 32"
    by blast+
qed

lemma length_by_entity: "length (map_keys (by_entity rs)) \<le> length rs"
proof -
  have "length (map_keys (by_entity rs)) = card (entities rs)"
    using by_entity_wf [of rs] distinct_card [of "map_keys (by_entity rs)"] by (simp add: map_wf_def by_entity_keys)
  also have "\<dots> \<le> length rs" unfolding entities_def by (metis card_length length_map)
  finally show ?thesis .
qed

lemma sum_list_le_length: "(\<And>x. x \<in> set xs \<Longrightarrow> f x \<le> (b::int)) \<Longrightarrow> sum_list (map f xs) \<le> int (length xs) * b"
proof (induction xs)
  case (Cons x xs)
  then have "f x \<le> b" "sum_list (map f xs) \<le> int (length xs) * b" by simp_all
  then show ?case by (simp add: distrib_right)
qed simp

lemma sumAmounts_exact:
  assumes w: "whole_records rs"
  shows "sumAmounts (by_entity rs) = num_int (\<Sum>i\<in>entities rs. entity_cents rs i)"
proof -
  let ?ks = "map_keys (by_entity rs)"
  have v: "map_values (by_entity rs) = map num_int (map (entity_cents rs) ?ks)"
  proof -
    have "snd p = num_int (entity_cents rs (fst p))" if "p \<in> set (by_entity rs)" for p
      using map_wf_get [OF by_entity_wf [of rs], of "fst p" "snd p"] that whole_entity(1) [OF w, of "fst p"]
      by (simp add: by_entity_get)
    then show ?thesis by (simp add: map_values_def map_keys_def)
  qed
  have "sum_list (map abs (map (entity_cents rs) ?ks)) \<le> int (length ?ks) * 2 ^ 32"
    unfolding map_map using whole_entity(2,3) [OF w] by (intro sum_list_le_length) simp
  also have "\<dots> \<le> 2 ^ 20 * 2 ^ 32"
  proof (rule mult_right_mono)
    have "length ?ks \<le> 2 ^ 20" using length_by_entity [of rs] w by (simp add: whole_records_def)
    then show "int (length ?ks) \<le> 2 ^ 20" by simp
  qed simp
  finally have "sum_list (map abs (map (entity_cents rs) ?ks)) < 2 ^ 53" by simp
  moreover have "sum_list (map (entity_cents rs) ?ks) = (\<Sum>i\<in>entities rs. entity_cents rs i)"
    using by_entity_wf [of rs] by (simp add: sum_list_distinct_conv_sum_set map_wf_def by_entity_keys)
  ultimately show ?thesis by (simp only: sumAmounts_def v num_sum_int)
qed

text \<open>The cases of a reconciliation, entity by entity.\<close>

definition case_of ::
  "settlementReconciliationRecord list \<Rightarrow> settlementReconciliationRecord list \<Rightarrow> string \<Rightarrow> exceptionCase" where
  "case_of es as i = \<lparr>xc_entityId = i, xc_expectedAmount = num_int (entity_cents es i), xc_actualAmount = num_int (entity_cents as i),
     xc_variance = num_int (entity_cents as i - entity_cents es i),
     xc_reason = resolveReason (i \<in> entities es) (i \<in> entities as)\<rparr>"

lemma reconcile_entity_exact:
  assumes "whole_records es" "whole_records as"
  shows "reconcile_entity (by_entity es) (by_entity as) (num_int t) i cs =
    (if \<bar>entity_cents as i - entity_cents es i\<bar> \<le> t then cs else cs @ [case_of es as i])"
proof -
  have "\<bar>entity_cents as i - entity_cents es i\<bar> < 2 ^ 53"
    using whole_entity(2,3) [OF assms(1), of i] whole_entity(2,3) [OF assms(2), of i] by (simp add: abs_if)
  then have v: "num_sub (num_int (entity_cents as i)) (num_int (entity_cents es i)) = num_int (entity_cents as i - entity_cents es i)"
    by (rule num_sub_int)
  have a: "math_abs (num_int z) = num_int \<bar>z\<bar>" for z by simp
  have le: "num_le (num_int y) (num_int z) \<longleftrightarrow> y \<le> z" for y z by simp
  show ?thesis
    unfolding reconcile_entity_def Let_def by_entity_get whole_entity(1) [OF assms(1)] whole_entity(1) [OF assms(2)] v a le case_of_def
    by (simp add: last_amount_None)
qed

lemma fold_filter_append:
  "(\<And>x cs. f x cs = (if P x then cs else cs @ [g x])) \<Longrightarrow> fold f xs cs = cs @ map g (filter (\<lambda>x. \<not> P x) xs)"
  by (induction xs arbitrary: cs) auto

lemma reconcile_exact:
  assumes "whole_records (rc_expectedRecords inp)" "whole_records (rc_actualRecords inp)" "rc_toleranceCents inp = num_int t"
  obtains ids where "set ids = entities (rc_expectedRecords inp) \<union> entities (rc_actualRecords inp)" "distinct ids"
    and "rr_exceptionCases (fst (reconcile now uid inp s)) =
      map (case_of (rc_expectedRecords inp) (rc_actualRecords inp))
        (filter (\<lambda>i. \<not> \<bar>entity_cents (rc_actualRecords inp) i - entity_cents (rc_expectedRecords inp) i\<bar> \<le> t) ids)"
proof
  let ?ids = "fold set_add (map_keys (by_entity (rc_expectedRecords inp)) @ map_keys (by_entity (rc_actualRecords inp))) []"
  show "set ?ids = entities (rc_expectedRecords inp) \<union> entities (rc_actualRecords inp)"
    by (simp only: set_fold_set_add set_append by_entity_keys) simp
  show "distinct ?ids" by (rule distinct_fold_set_add) simp
  show "rr_exceptionCases (fst (reconcile now uid inp s)) =
      map (case_of (rc_expectedRecords inp) (rc_actualRecords inp))
        (filter (\<lambda>i. \<not> \<bar>entity_cents (rc_actualRecords inp) i - entity_cents (rc_expectedRecords inp) i\<bar> \<le> t) ?ids)"
    unfolding reconcile_def Let_def assms(3)
    using fold_filter_append [OF reconcile_entity_exact [OF assms(1,2), where t = t], where xs = ?ids and cs = "[]"] by simp
qed

section \<open>The import is run once\<close>

lemma import_again:
  assumes "runScheduledImport n1 u1 n2 u2 inp s = ((run, created), s')"
    and "import_key (ii_scheduleId inp') (ii_runAt inp') = import_key (ii_scheduleId inp) (ii_runAt inp)"
  shows "runScheduledImport n1' u1' n2' u2' inp' s' = ((run, False), s')"
proof (cases "import_findByScheduleRun (ii_scheduleId inp) (ii_runAt inp) (im_repository s)")
  case (Some e)
  then show ?thesis using assms by (simp add: runScheduledImport_def import_findByScheduleRun_def)
next
  case None
  obtain res rs where r: "reconcile n1 u1 (ii_reconciliationInput inp) (im_reconciliationService s) = (res, rs)" by fastforce
  let ?run = "\<lparr>ir_importRunId = u2, ir_scheduleId = ii_scheduleId inp, ir_runAt = ii_runAt inp,
      ir_sourceFileName = ii_sourceFileName inp, ir_ingestedRecords = ii_ingestedRecords inp, ir_createdAt = n2, ir_result = res\<rparr>"
  have "runScheduledImport n1 u1 n2 u2 inp s = ((?run, True), s\<lparr>im_repository := import_save ?run (im_repository s),
      im_reconciliationService := rs\<lparr>re_eventBus := publish (import_event ?run) (re_eventBus rs)\<rparr>\<rparr>)"
    by (simp only: runScheduledImport_def None r Let_def prod.case option.case)
  then have "run = ?run" and "s' = s\<lparr>im_repository := import_save ?run (im_repository s),
      im_reconciliationService := rs\<lparr>re_eventBus := publish (import_event ?run) (re_eventBus rs)\<rparr>\<rparr>"
    unfolding assms(1) prod.inject by blast+
  then have "import_findByScheduleRun (ii_scheduleId inp') (ii_runAt inp') (im_repository s') = Some run"
    using assms(2) by (simp add: import_findByScheduleRun_def import_save_def)
  then show ?thesis by (simp add: runScheduledImport_def)
qed

text \<open>The key joins the two strings: different runs can have the same key.\<close>

lemma import_key_collision:
  "import_key ''s'' ''2024-01-01T10:12'' = import_key ''s:2024-01-01T10'' ''12''"
  by (simp add: import_key_def)

lemma import_key_unique:
  assumes "CHR '':'' \<notin> set i" "CHR '':'' \<notin> set j" "import_key i w = import_key j v"
  shows "i = j \<and> w = v"
proof -
  have "takeWhile (\<lambda>c. c \<noteq> CHR '':'') (import_key k u) = k" if "CHR '':'' \<notin> set k" for k u
    using that by (auto simp: import_key_def takeWhile_append)
  then have "i = j" using assms by metis
  with assms(3) show ?thesis by (simp add: import_key_def)
qed

section \<open>Properties\<close>


definition demo_line :: "ledgerSide \<Rightarrow> jsnum \<Rightarrow> settlementJournalLine" where
  "demo_line d a = \<lparr>jl_account = ''a'', jl_side = d, jl_amount = a\<rparr>"

definition demo_posts :: "postSettlementJournalInput service_call list" where
  "demo_posts =
     [Call ''1'' ''e1'' \<lparr>pj_sourceType = ''ORDER'', pj_sourceId = ''o1'',
        pj_lines = [demo_line DEBIT (Fin 900), demo_line CREDIT (Fin 700), demo_line CREDIT (Fin 200)]\<rparr>]"

lemma demo_posts_ok: "ledger_calls_ok demo_posts ledger_init"
  by (simp add: demo_posts_def ledger_init_def exact_lines_def demo_line_def)


text \<open>A scheduled payout run happens once. A call for a schedule and a run time that were seen returns
  the batch of the first call and changes nothing, whatever the candidates are, there is one batch for the
  run, and that batch pays or holds every candidate, each on its side and in order.\<close>

lemma payout_batch_once:
  assumes "payout_calls_ok before payout_init" and "s1 = fold payout_step before payout_init"
    and "map_get (po_batches s1) uid = None" and "runScheduledBatch now uid inp s1 = ((b, created), s2)"
    and "payout_calls_ok after s2" and "s3 = fold payout_step after s2"
    and "gp_scheduleId inp' = gp_scheduleId inp" and "gp_runAt inp' = gp_runAt inp"
  shows "runScheduledBatch now' uid' inp' s3 = ((b, False), s3) \<and>
    filter (same_run (gp_scheduleId inp) (gp_runAt inp)) (map_values (po_batches s3)) = [b] \<and>
    (created \<longrightarrow>
      pb_payouts b = map (\<lambda>c. \<lparr>pr_entityType = pc_entityType c, pr_entityId = pc_entityId c, pr_amount = pc_amount c\<rparr>)
        (filter (\<lambda>c. \<not> pc_hasException c) (gp_candidates inp)) \<and>
      pb_holds b = map (\<lambda>c. \<lparr>ph_entityType = pc_entityType c, ph_entityId = pc_entityId c,
          ph_reason = nullish (pc_holdReason c) ''UNRESOLVED_EXCEPTION''\<rparr>) (filter pc_hasException (gp_candidates inp)) \<and>
      length (pb_payouts b) + length (pb_holds b) = length (gp_candidates inp))"
proof -
  have s1: "payouts_ok s1" unfolding assms(2)
    by (rule payout_run(1) [OF assms(1)]) (simp add: payouts_ok_def payout_init_def map_values_def)
  have s2: "payouts_ok s2" using runScheduledBatch_ok [OF s1 assms(3), of now inp] assms(4) by simp
  have f2: "payout_findByScheduleRun (gp_scheduleId inp) (gp_runAt inp) (po_batches s2) = Some b"
    using assms(3)
    by (cases rule: runScheduledBatch_cases [where s = s1 and uid = uid and inp = inp and now = now])
      (use assms(4) in \<open>auto simp: payout_findByScheduleRun_def find_append\<close>)
  then have f3: "payout_findByScheduleRun (gp_scheduleId inp) (gp_runAt inp) (po_batches s3) = Some b"
    unfolding assms(6) by (rule payout_run(2) [OF assms(5)])
  have again: "runScheduledBatch now' uid' inp' s3 = ((b, False), s3)"
    using f3 by (simp add: runScheduledBatch_def assms(7,8))
  have one: "filter (same_run (gp_scheduleId inp) (gp_runAt inp)) (map_values (po_batches s3)) = [b]"
    by (rule runs_unique [OF _ f3]) (unfold assms(6), rule payout_run(1) [OF assms(5) s2])
  have "length (filter (\<lambda>c. \<not> pc_hasException c) cs) + length (filter pc_hasException cs) = length cs" for cs
    using sum_length_filter_compl [of pc_hasException cs] by simp
  moreover have "created \<longrightarrow> b = fold add_candidate (gp_candidates inp) \<lparr>pb_payoutBatchId = uid, pb_scheduleId = gp_scheduleId inp,
         pb_runAt = gp_runAt inp, pb_payouts = [], pb_holds = [], pb_status = GENERATED, pb_createdAt = now\<rparr>"
    using assms(3)
    by (cases rule: runScheduledBatch_cases [where s = s1 and uid = uid and inp = inp and now = now])
      (use assms(4) in simp_all)
  ultimately show ?thesis using again one by (auto simp: fold_add_candidate)
qed

definition demo_candidates :: "payoutCandidateInput list" where
  "demo_candidates =
     [\<lparr>pc_entityType = PAYEE_MERCHANT, pc_entityId = ''m1'', pc_amount = Fin 900, pc_hasException = False, pc_holdReason = None\<rparr>,
      \<lparr>pc_entityType = PAYEE_COURIER, pc_entityId = ''c1'', pc_amount = Fin 300, pc_hasException = True, pc_holdReason = None\<rparr>]"

definition demo_batch_input :: "payoutCandidateInput list \<Rightarrow> generatePayoutBatchInput" where
  "demo_batch_input cs = \<lparr>gp_scheduleId = ''weekly'', gp_runAt = ''7'', gp_candidates = cs\<rparr>"

lemma payout_batch_once_witness:
  "\<exists>b s2. runScheduledBatch ''1'' ''b1'' (demo_batch_input demo_candidates) payout_init = ((b, True), s2) \<and>
     length (pb_payouts b) = 1 \<and> length (pb_holds b) = 1 \<and>
     runScheduledBatch ''2'' ''b2'' (demo_batch_input []) s2 = ((b, False), s2)"
proof -
  let ?r = "runScheduledBatch ''1'' ''b1'' (demo_batch_input demo_candidates) payout_init"
  have fresh: "map_get (po_batches payout_init) ''b1'' = None" by (simp add: payout_init_def)
  have created: "snd (fst ?r)"
    by (simp add: runScheduledBatch_def payout_init_def payout_findByScheduleRun_def map_values_def demo_batch_input_def Let_def)
  then have r: "?r = ((fst (fst ?r), True), snd ?r)" by (metis prod.collapse)
  note t = payout_batch_once [of "[]" payout_init "''b1''", OF _ _ fresh r, of "[]" "snd ?r" "demo_batch_input []" "''2''" "''b2''"]
  have "runScheduledBatch ''2'' ''b2'' (demo_batch_input []) (snd ?r) = ((fst (fst ?r), False), snd ?r)"
    and "length (pb_payouts (fst (fst ?r))) = 1 \<and> length (pb_holds (fst (fst ?r))) = 1"
    using t by (simp_all add: demo_batch_input_def demo_candidates_def)
  with r show ?thesis by blast
qed


lemma distinct_singleton_list: "distinct xs \<Longrightarrow> set xs = {x} \<Longrightarrow> xs = [x]"
proof (cases xs)
  case (Cons y ys)
  assume "distinct xs" "set xs = {x}"
  with Cons have "y = x" "set ys \<subseteq> {x}" "x \<notin> set ys" by auto
  then have "ys = []" by (cases ys) auto
  with Cons \<open>y = x\<close> show ?thesis by simp
qed simp

definition demo_reconcile :: reconcileSettlementInput where
  "demo_reconcile = \<lparr>rc_expectedRecords = [\<lparr>sr_entityId = ''m1'', sr_amount = Fin 100\<rparr>, \<lparr>sr_entityId = ''m2'', sr_amount = Fin 50\<rparr>],
     rc_actualRecords = [\<lparr>sr_entityId = ''m1'', sr_amount = Fin 90\<rparr>, \<lparr>sr_entityId = ''m2'', sr_amount = Fin 49\<rparr>],
     rc_toleranceCents = num_int 5\<rparr>"


text \<open>Publishing a payout statement asks the renderer again after each failure, up to the number of
  attempts: the content is that of the first attempt that succeeds, and only if all fail is it the
  plain-text summary. The statement is stored, announced once, and found in the list of its entity.\<close>

lemma statement_fallback:
  assumes "1 \<le> ss_renderAttempts s" and "publishStatement render now uid inp s = (v, s')"
    and "map_get (ss_statements s) uid = None"
  shows "(case List.find (\<lambda>k. render k inp \<noteq> None) [1..ss_renderAttempts s] of
       Some k \<Rightarrow> st_format v = FORMAT_PDF \<and> Some (st_renderedContent v) = render k inp \<and>
         snd (render_loop render (ss_renderAttempts s) inp 1) = nat k
     | None \<Rightarrow> st_format v = FORMAT_PLAINTEXT \<and> st_renderedContent v = renderPlainTextFallback inp \<and>
         snd (render_loop render (ss_renderAttempts s) inp 1) = nat (ss_renderAttempts s)) \<and>
    v \<in> set (listStatements h (ps_entityType inp) (ps_entityId inp) s') \<and>
    length (listStatements h (ps_entityType inp) (ps_entityId inp) s') = Suc (length (listStatements h (ps_entityType inp) (ps_entityId inp) s)) \<and>
    bus_events (ss_eventBus s') = bus_events (ss_eventBus s) @ [statement_event v]"
proof -
  let ?l = "render_loop render (ss_renderAttempts s) inp 1"
  have v: "v = \<lparr>st_statementId = uid, st_input = inp, st_format = fst (fst ?l), st_renderedContent = snd (fst ?l), st_createdAt = now\<rparr>"
    and s': "s' = s\<lparr>ss_statements := statement_save v (ss_statements s), ss_eventBus := publish (statement_event v) (ss_eventBus s)\<rparr>"
    using assms(2) by (auto simp: publishStatement_def Let_def split: prod.splits)
  have new: "map_values (statement_save v (ss_statements s)) = map_values (ss_statements s) @ [v]"
    using assms(3) by (simp add: statement_save_def v map_values_new)
  have own: "ps_entityType (st_input v) = ps_entityType inp \<and> ps_entityId (st_input v) = ps_entityId inp" by (simp add: v)
  have "case List.find (\<lambda>k. render k inp \<noteq> None) [1..ss_renderAttempts s] of
       Some k \<Rightarrow> st_format v = FORMAT_PDF \<and> Some (st_renderedContent v) = render k inp \<and> snd ?l = nat k
     | None \<Rightarrow> st_format v = FORMAT_PLAINTEXT \<and> st_renderedContent v = renderPlainTextFallback inp \<and> snd ?l = nat (ss_renderAttempts s)"
  proof (cases "List.find (\<lambda>k. render k inp \<noteq> None) [1..ss_renderAttempts s]")
    case (Some k)
    then have "render k inp \<noteq> None" by (auto simp: find_Some_iff)
    with Some assms(1) show ?thesis by (auto simp: v render_loop_spec)
  qed (use assms(1) in \<open>simp add: v render_loop_spec\<close>)
  then show ?thesis
    using own by (simp add: s' listStatements_def statement_listByEntity_def new)
qed

definition demo_statement_input :: publishPayoutStatementInput where
  "demo_statement_input = \<lparr>ps_payoutBatchId = ''b1'', ps_entityType = PAYEE_COURIER, ps_entityId = ''c1'', ps_periodStart = ''1'',
     ps_periodEnd = ''2'', ps_currency = ''EUR'', ps_totalAmount = Fin 1200, ps_lineItems = []\<rparr>"

lemma statement_fallback_witness:
  "\<exists>v s'. publishStatement (\<lambda>k inp. if k < 3 then None else Some ''doc'') ''9'' ''s1'' demo_statement_input
       \<lparr>ss_statements = [], ss_eventBus = empty_bus, ss_renderAttempts = 3\<rparr> = (v, s') \<and>
     st_format v = FORMAT_PDF \<and> st_renderedContent v = ''doc''"
proof -
  let ?s = "\<lparr>ss_statements = [], ss_eventBus = empty_bus, ss_renderAttempts = 3\<rparr>"
  have u: "[1..3] = [1, 2, 3 :: int]" by (simp add: upto_rec1)
  note t = statement_fallback [of ?s "\<lambda>k inp. if k < 3 then None else Some ''doc''" "''9''" "''s1''" demo_statement_input, OF _ surjective_pairing]
  show ?thesis
    by (intro exI conjI, rule surjective_pairing) (use t in \<open>auto simp: u\<close>)
qed

end
