(* ===== verification/Payments.thy ===== *)
theory Payments
  imports Orders
begin

text \<open>
  Payments (\<open>core-api/src/modules/payments\<close>): authorization through the payment provider,
  capture with idempotency keys, cash on delivery, refunds, and the audit trail. The
  provider is the parameter \<open>psp\<close>; \<open>in_memory_psp\<close> is the adapter of the sources. The last
  identifiers of each operation are those of the audit records it appends.
\<close>

section \<open>Intents, refunds, audit records\<close>

datatype paymentMethod = CARD | APPLE_PAY | GOOGLE_PAY | CASH

definition method_name :: "paymentMethod \<Rightarrow> string" where
  "method_name m = (case m of CARD \<Rightarrow> ''CARD'' | APPLE_PAY \<Rightarrow> ''APPLE_PAY'' | GOOGLE_PAY \<Rightarrow> ''GOOGLE_PAY'' | CASH \<Rightarrow> ''CASH'')"

datatype paymentStatus = PAY_INITIATED | PAY_AUTHORIZED | PAY_CAPTURED | PAY_VOIDED | PAY_REFUNDED

record paymentIntent =
  pi_paymentIntentId :: uuid
  pi_orderId :: uuid
  pi_method :: paymentMethod
  pi_status :: paymentStatus
  pi_amount :: jsnum
  pi_currency :: string
  pi_providerReference :: "string option"
  pi_createdAt :: iso_date
  pi_updatedAt :: iso_date

record authorizePaymentInput =
  api_orderId :: uuid
  api_method :: paymentMethod
  api_amount :: jsnum
  api_currency :: string

record capturePaymentInput =
  cpi_paymentIntentId :: uuid
  cpi_idempotencyKey :: string

record markCashExpectedInput =
  mci_orderId :: uuid
  mci_expectedAmount :: jsnum
  mci_currency :: string

record confirmCashCollectionInput =
  cci_orderId :: uuid
  cci_collectedAmount :: jsnum
  cci_courierId :: string

record cashCollectionResult =
  ccr_orderId :: uuid
  ccr_expectedAmount :: jsnum
  ccr_collectedAmount :: jsnum
  ccr_courierId :: string
  ccr_mismatch :: bool

datatype refundStatus = REFUND_REQUESTED | REFUND_APPROVED | REFUND_DECLINED | REFUND_COMPLETED

record refundRequest =
  rf_refundRequestId :: uuid
  rf_orderId :: uuid
  rf_paymentIntentId :: uuid
  rf_amount :: jsnum
  rf_reasonCode :: string
  rf_status :: refundStatus
  rf_requestedBy :: string
  rf_approvedBy :: "string option"
  rf_createdAt :: iso_date
  rf_updatedAt :: iso_date

record requestRefundInput =
  rri_orderId :: uuid
  rri_paymentIntentId :: uuid
  rri_amount :: jsnum
  rri_reasonCode :: string
  rri_requestedBy :: string

record approveRefundInput =
  ari_refundRequestId :: uuid
  ari_approvedBy :: string

record paymentAuditRecord =
  pa_auditEventId :: uuid
  pa_orderId :: uuid
  pa_actionType :: string
  pa_targetId :: uuid
  pa_reasonCode :: string
  pa_timestamp :: iso_date
  pa_metadata :: "(string \<times> json) list"

record pspAuthorizeResponse =
  psp_providerReference :: string
  psp_authorizedAt :: iso_date

definition in_memory_psp :: "uuid \<Rightarrow> iso_date \<Rightarrow> authorizePaymentInput \<Rightarrow> pspAuthorizeResponse" where
  "in_memory_psp uid now inp =
     \<lparr>psp_providerReference = ''psp-'' @ api_orderId inp @ ''-'' @ uid, psp_authorizedAt = now\<rparr>"

section \<open>Repositories\<close>

type_synonym intent_repo = "(uuid, paymentIntent) jsmap"
type_synonym refund_repo = "(uuid, refundRequest) jsmap"
type_synonym payment_audit_repo = "paymentAuditRecord list"

definition intent_save :: "paymentIntent \<Rightarrow> intent_repo \<Rightarrow> intent_repo" where
  "intent_save v r = map_set (pi_paymentIntentId v) v r"

definition intent_findById :: "uuid \<Rightarrow> intent_repo \<Rightarrow> paymentIntent option" where
  "intent_findById i r = map_get r i"

definition findByOrderAndMethod :: "uuid \<Rightarrow> paymentMethod \<Rightarrow> intent_repo \<Rightarrow> paymentIntent option" where
  "findByOrderAndMethod orderId m r = List.find (\<lambda>v. pi_orderId v = orderId \<and> pi_method v = m) (map_values r)"

interpretation intents: keyed_repository pi_paymentIntentId "[]" intent_save intent_findById map_values map_wf
  unfolding intent_save_def intent_findById_def by (rule jsmap_repository)

definition refund_save :: "refundRequest \<Rightarrow> refund_repo \<Rightarrow> refund_repo" where
  "refund_save v r = map_set (rf_refundRequestId v) v r"

definition refund_findById :: "uuid \<Rightarrow> refund_repo \<Rightarrow> refundRequest option" where
  "refund_findById i r = map_get r i"

interpretation refunds: keyed_repository rf_refundRequestId "[]" refund_save refund_findById map_values map_wf
  unfolding refund_save_def refund_findById_def by (rule jsmap_repository)

definition payment_audit_append :: "paymentAuditRecord \<Rightarrow> payment_audit_repo \<Rightarrow> payment_audit_repo" where
  "payment_audit_append a r = r @ [a]"

definition payment_audit_listByOrder :: "uuid \<Rightarrow> payment_audit_repo \<Rightarrow> paymentAuditRecord list" where
  "payment_audit_listByOrder orderId r = filter (\<lambda>a. pa_orderId a = orderId) r"

interpretation payment_audit_log: append_log payment_audit_append "\<lambda>r. r"
  by unfold_locales (simp add: payment_audit_append_def)

section \<open>PaymentService\<close>

datatype payment_error =
    PaymentOrderNotFound uuid
  | PaymentMethodNotSupported paymentMethod
  | PaymentIntentNotFound uuid
  | PaymentCapturePrecondition uuid string
  | PaymentCashExpectationNotFound uuid
  | PaymentRefundAmountInvalid jsnum
  | PaymentRefundRequestNotFound uuid

definition paymentStatus_name :: "paymentStatus \<Rightarrow> string" where
  "paymentStatus_name t = (case t of PAY_INITIATED \<Rightarrow> ''INITIATED'' | PAY_AUTHORIZED \<Rightarrow> ''AUTHORIZED''
     | PAY_CAPTURED \<Rightarrow> ''CAPTURED'' | PAY_VOIDED \<Rightarrow> ''VOIDED'' | PAY_REFUNDED \<Rightarrow> ''REFUNDED'')"

record payment_service =
  py_orders :: order_repo
  py_intents :: intent_repo
  py_eventBus :: event_bus
  py_refunds :: refund_repo
  py_audit :: payment_audit_repo
  py_captureByIdempotencyKey :: "(string, paymentIntent) jsmap"

definition payment_publish :: "domain_event \<Rightarrow> payment_service \<Rightarrow> payment_service" where
  "payment_publish e s = s\<lparr>py_eventBus := publish e (py_eventBus s)\<rparr>"

definition store_intent :: "paymentIntent \<Rightarrow> payment_service \<Rightarrow> payment_service" where
  "store_intent v s = s\<lparr>py_intents := intent_save v (py_intents s)\<rparr>"

definition store_refund :: "refundRequest \<Rightarrow> payment_service \<Rightarrow> payment_service" where
  "store_refund v s = s\<lparr>py_refunds := refund_save v (py_refunds s)\<rparr>"

definition audit_event :: "paymentAuditRecord \<Rightarrow> domain_event" where
  "audit_event a = mk_event ''payment.audit_recorded.v1'' (pa_timestamp a)
     [(''auditEventId'', JStr (pa_auditEventId a)), (''orderId'', JStr (pa_orderId a)), (''actionType'', JStr (pa_actionType a)),
      (''targetId'', JStr (pa_targetId a)), (''reasonCode'', JStr (pa_reasonCode a))]"

definition appendAuditRecord :: "paymentAuditRecord \<Rightarrow> payment_service \<Rightarrow> payment_service" where
  "appendAuditRecord a s = payment_publish (audit_event a) (s\<lparr>py_audit := payment_audit_append a (py_audit s)\<rparr>)"

definition authorizePayment ::
  "(authorizePaymentInput \<Rightarrow> pspAuthorizeResponse) \<Rightarrow> uuid \<Rightarrow> uuid \<Rightarrow> authorizePaymentInput \<Rightarrow> payment_service
     \<Rightarrow> (payment_service, payment_error, paymentIntent) outcome" where
  "authorizePayment psp uid aid inp s =
     (case order_findById (api_orderId inp) (py_orders s) of
        None \<Rightarrow> (Inl (PaymentOrderNotFound (api_orderId inp)), s)
      | Some v \<Rightarrow>
          if api_method inp = CASH then (Inl (PaymentMethodNotSupported (api_method inp)), s)
          else
            let authorization = psp inp;
                w = psp_authorizedAt authorization;
                intent = \<lparr>pi_paymentIntentId = uid, pi_orderId = api_orderId inp, pi_method = api_method inp,
                          pi_status = PAY_AUTHORIZED, pi_amount = api_amount inp, pi_currency = api_currency inp,
                          pi_providerReference = Some (psp_providerReference authorization),
                          pi_createdAt = w, pi_updatedAt = w\<rparr>;
                s1 = payment_publish (mk_event ''payment.authorized.v1'' w
                       [(''orderId'', JStr (api_orderId inp)), (''paymentIntentId'', JStr (pi_paymentIntentId intent)),
                        (''amount'', JNum (api_amount inp)), (''currency'', JStr (api_currency inp))]) (store_intent intent s)
            in (Inr intent, appendAuditRecord
                  \<lparr>pa_auditEventId = aid, pa_orderId = api_orderId inp, pa_actionType = ''PAYMENT_AUTHORIZED'',
                   pa_targetId = pi_paymentIntentId intent, pa_reasonCode = ''PAYMENT_AUTHORIZED'', pa_timestamp = w,
                   pa_metadata = [(''amount'', JNum (api_amount inp)), (''currency'', JStr (api_currency inp)),
                                  (''method'', JStr (method_name (api_method inp)))]\<rparr> s1))"

definition remember_capture :: "string \<Rightarrow> paymentIntent \<Rightarrow> payment_service \<Rightarrow> payment_service" where
  "remember_capture k v s = s\<lparr>py_captureByIdempotencyKey := map_set k v (py_captureByIdempotencyKey s)\<rparr>"

definition capturePayment ::
  "iso_date \<Rightarrow> uuid \<Rightarrow> capturePaymentInput \<Rightarrow> payment_service \<Rightarrow> (payment_service, payment_error, paymentIntent) outcome" where
  "capturePayment now aid inp s =
     (case map_get (py_captureByIdempotencyKey s) (cpi_idempotencyKey inp) of
        Some existing \<Rightarrow> (Inr existing, s)
      | None \<Rightarrow>
     case intent_findById (cpi_paymentIntentId inp) (py_intents s) of
        None \<Rightarrow> (Inl (PaymentIntentNotFound (cpi_paymentIntentId inp)), s)
      | Some intent \<Rightarrow>
     case order_findById (pi_orderId intent) (py_orders s) of
        None \<Rightarrow> (Inl (PaymentOrderNotFound (pi_orderId intent)), s)
      | Some v \<Rightarrow>
          if pi_status intent = PAY_CAPTURED
          then (Inr intent, remember_capture (cpi_idempotencyKey inp) intent s)
          else if or_status v \<notin> {MERCHANT_ACCEPTED, DISPATCH_PENDING}
          then (Inl (PaymentCapturePrecondition (or_id v) (orderStatus_name (or_status v))), s)
          else
            let captured = intent\<lparr>pi_status := PAY_CAPTURED, pi_updatedAt := now\<rparr>;
                s1 = remember_capture (cpi_idempotencyKey inp) captured (store_intent captured s);
                s2 = payment_publish (mk_event ''payment.captured.v1'' now
                       [(''orderId'', JStr (or_id v)), (''paymentIntentId'', JStr (pi_paymentIntentId captured)),
                        (''capturedAmount'', JNum (pi_amount captured)), (''idempotencyKey'', JStr (cpi_idempotencyKey inp))]) s1
            in (Inr captured, appendAuditRecord
                  \<lparr>pa_auditEventId = aid, pa_orderId = or_id v, pa_actionType = ''PAYMENT_CAPTURED'',
                   pa_targetId = pi_paymentIntentId captured, pa_reasonCode = ''PAYMENT_CAPTURED'', pa_timestamp = now,
                   pa_metadata = [(''capturedAmount'', JNum (pi_amount captured)),
                                  (''idempotencyKey'', JStr (cpi_idempotencyKey inp))]\<rparr> s2))"

definition markCashExpected ::
  "iso_date \<Rightarrow> uuid \<Rightarrow> uuid \<Rightarrow> markCashExpectedInput \<Rightarrow> payment_service
     \<Rightarrow> (payment_service, payment_error, paymentIntent) outcome" where
  "markCashExpected now uid aid inp s =
     (case order_findById (mci_orderId inp) (py_orders s) of
        None \<Rightarrow> (Inl (PaymentOrderNotFound (mci_orderId inp)), s)
      | Some v \<Rightarrow>
          let intent = \<lparr>pi_paymentIntentId = uid, pi_orderId = mci_orderId inp, pi_method = CASH, pi_status = PAY_INITIATED,
                        pi_amount = mci_expectedAmount inp, pi_currency = mci_currency inp, pi_providerReference = None,
                        pi_createdAt = now, pi_updatedAt = now\<rparr>;
              s1 = payment_publish (mk_event ''payment.cash_expected.v1'' now
                     [(''orderId'', JStr (mci_orderId inp)), (''paymentIntentId'', JStr (pi_paymentIntentId intent)),
                      (''expectedAmount'', JNum (mci_expectedAmount inp)), (''currency'', JStr (mci_currency inp))])
                     (store_intent intent s)
          in (Inr intent, appendAuditRecord
                \<lparr>pa_auditEventId = aid, pa_orderId = mci_orderId inp, pa_actionType = ''PAYMENT_CASH_EXPECTED'',
                 pa_targetId = pi_paymentIntentId intent, pa_reasonCode = ''CASH_EXPECTED'', pa_timestamp = now,
                 pa_metadata = [(''expectedAmount'', JNum (mci_expectedAmount inp)), (''currency'', JStr (mci_currency inp))]\<rparr> s1))"

definition confirmCashCollection ::
  "iso_date \<Rightarrow> uuid \<Rightarrow> uuid \<Rightarrow> confirmCashCollectionInput \<Rightarrow> payment_service
     \<Rightarrow> (payment_service, payment_error, cashCollectionResult) outcome" where
  "confirmCashCollection now aid1 aid2 inp s =
     (case findByOrderAndMethod (cci_orderId inp) CASH (py_intents s) of
        None \<Rightarrow> (Inl (PaymentCashExpectationNotFound (cci_orderId inp)), s)
      | Some expectedIntent \<Rightarrow>
          let mismatch = (\<not> num_eq (pi_amount expectedIntent) (cci_collectedAmount inp));
              captured = expectedIntent\<lparr>pi_status := PAY_CAPTURED, pi_updatedAt := now\<rparr>;
              fields = [(''expectedAmount'', JNum (pi_amount captured)), (''collectedAmount'', JNum (cci_collectedAmount inp)),
                        (''courierId'', JStr (cci_courierId inp))];
              ids = [(''orderId'', JStr (cci_orderId inp)), (''paymentIntentId'', JStr (pi_paymentIntentId captured))];
              s1 = payment_publish (mk_event ''payment.cash_collected.v1'' now (ids @ fields @ [(''mismatch'', JBool mismatch)]))
                     (store_intent captured s);
              s2 = appendAuditRecord
                     \<lparr>pa_auditEventId = aid1, pa_orderId = cci_orderId inp, pa_actionType = ''PAYMENT_CASH_COLLECTED'',
                      pa_targetId = pi_paymentIntentId captured,
                      pa_reasonCode = (if mismatch then ''CASH_COLLECTION_MISMATCH'' else ''CASH_COLLECTION_MATCHED''),
                      pa_timestamp = now, pa_metadata = fields @ [(''mismatch'', JBool mismatch)]\<rparr> s1;
              s3 = (if mismatch
                    then appendAuditRecord
                           \<lparr>pa_auditEventId = aid2, pa_orderId = cci_orderId inp, pa_actionType = ''PAYMENT_CASH_MISMATCH'',
                            pa_targetId = pi_paymentIntentId captured, pa_reasonCode = ''CASH_MISMATCH_DETECTED'',
                            pa_timestamp = now, pa_metadata = fields\<rparr>
                           (payment_publish (mk_event ''payment.cash_mismatch_detected.v1'' now (ids @ fields)) s2)
                    else s2)
          in (Inr \<lparr>ccr_orderId = cci_orderId inp, ccr_expectedAmount = pi_amount captured,
                   ccr_collectedAmount = cci_collectedAmount inp, ccr_courierId = cci_courierId inp, ccr_mismatch = mismatch\<rparr>, s3))"

definition requestRefund ::
  "iso_date \<Rightarrow> uuid \<Rightarrow> uuid \<Rightarrow> requestRefundInput \<Rightarrow> payment_service
     \<Rightarrow> (payment_service, payment_error, refundRequest) outcome" where
  "requestRefund now uid aid inp s =
     (case intent_findById (rri_paymentIntentId inp) (py_intents s) of
        None \<Rightarrow> (Inl (PaymentIntentNotFound (rri_paymentIntentId inp)), s)
      | Some intent \<Rightarrow>
          if pi_orderId intent \<noteq> rri_orderId inp \<or> pi_status intent \<noteq> PAY_CAPTURED
          then (Inl (PaymentCapturePrecondition (rri_orderId inp) (paymentStatus_name (pi_status intent))), s)
          else if num_le (rri_amount inp) (Fin 0) \<or> num_lt (pi_amount intent) (rri_amount inp)
          then (Inl (PaymentRefundAmountInvalid (rri_amount inp)), s)
          else
            let refund = \<lparr>rf_refundRequestId = uid, rf_orderId = rri_orderId inp, rf_paymentIntentId = rri_paymentIntentId inp,
                          rf_amount = rri_amount inp, rf_reasonCode = rri_reasonCode inp, rf_status = REFUND_REQUESTED,
                          rf_requestedBy = rri_requestedBy inp, rf_approvedBy = None, rf_createdAt = now, rf_updatedAt = now\<rparr>
            in (Inr refund, appendAuditRecord
                  \<lparr>pa_auditEventId = aid, pa_orderId = rf_orderId refund, pa_actionType = ''REFUND_REQUESTED'',
                   pa_targetId = rf_refundRequestId refund, pa_reasonCode = rf_reasonCode refund, pa_timestamp = now,
                   pa_metadata = [(''amount'', JNum (rf_amount refund)), (''requestedBy'', JStr (rf_requestedBy refund))]\<rparr>
                  (store_refund refund s)))"

definition approveRefund ::
  "iso_date \<Rightarrow> uuid \<Rightarrow> approveRefundInput \<Rightarrow> payment_service \<Rightarrow> (payment_service, payment_error, refundRequest) outcome" where
  "approveRefund now aid inp s =
     (case refund_findById (ari_refundRequestId inp) (py_refunds s) of
        None \<Rightarrow> (Inl (PaymentRefundRequestNotFound (ari_refundRequestId inp)), s)
      | Some existing \<Rightarrow>
          if rf_status existing = REFUND_COMPLETED then (Inr existing, s)
          else
            let completed = existing\<lparr>rf_status := REFUND_COMPLETED, rf_approvedBy := Some (ari_approvedBy inp), rf_updatedAt := now\<rparr>;
                s1 = payment_publish (mk_event ''refund.completed.v1'' now
                       [(''refundRequestId'', JStr (rf_refundRequestId completed)), (''orderId'', JStr (rf_orderId completed)),
                        (''paymentIntentId'', JStr (rf_paymentIntentId completed)), (''amount'', JNum (rf_amount completed)),
                        (''approvedBy'', jopt JStr (rf_approvedBy completed))]) (store_refund completed s)
            in (Inr completed, appendAuditRecord
                  \<lparr>pa_auditEventId = aid, pa_orderId = rf_orderId completed, pa_actionType = ''REFUND_COMPLETED'',
                   pa_targetId = rf_refundRequestId completed, pa_reasonCode = rf_reasonCode completed, pa_timestamp = now,
                   pa_metadata = [(''amount'', JNum (rf_amount completed)), (''approvedBy'', jopt JStr (rf_approvedBy completed))]\<rparr> s1))"

definition getAuditTrail :: "uuid \<Rightarrow> payment_service \<Rightarrow> paymentAuditRecord list" where
  "getAuditTrail orderId s = payment_audit_listByOrder orderId (py_audit s)"

section \<open>Runs\<close>

datatype payment_op =
    OpAuthorize "authorizePaymentInput \<Rightarrow> pspAuthorizeResponse" uuid uuid authorizePaymentInput
  | OpCapture iso_date uuid capturePaymentInput
  | OpCashExpected iso_date uuid uuid markCashExpectedInput
  | OpCashCollected iso_date uuid uuid confirmCashCollectionInput
  | OpRefundRequest iso_date uuid uuid requestRefundInput
  | OpRefundApprove iso_date uuid approveRefundInput
  | OpOrdersChange order_repo
  | OpOtherEvent domain_event

fun payment_step :: "payment_op \<Rightarrow> payment_service \<Rightarrow> payment_service" where
  "payment_step (OpAuthorize psp uid aid inp) s = snd (authorizePayment psp uid aid inp s)"
| "payment_step (OpCapture now aid inp) s = snd (capturePayment now aid inp s)"
| "payment_step (OpCashExpected now uid aid inp) s = snd (markCashExpected now uid aid inp s)"
| "payment_step (OpCashCollected now a1 a2 inp) s = snd (confirmCashCollection now a1 a2 inp s)"
| "payment_step (OpRefundRequest now uid aid inp) s = snd (requestRefund now uid aid inp s)"
| "payment_step (OpRefundApprove now aid inp) s = snd (approveRefund now aid inp s)"
| "payment_step (OpOrdersChange r) s = s\<lparr>py_orders := r\<rparr>"
| "payment_step (OpOtherEvent e) s = payment_publish e s"

text \<open>New identifiers are not in use, and no other component publishes payment or refund events.\<close>

fun payment_op_ok :: "payment_op \<Rightarrow> payment_service \<Rightarrow> bool" where
  "payment_op_ok (OpAuthorize psp uid aid inp) s = (intent_findById uid (py_intents s) = None)"
| "payment_op_ok (OpCashExpected now uid aid inp) s = (intent_findById uid (py_intents s) = None)"
| "payment_op_ok (OpRefundRequest now uid aid inp) s = (refund_findById uid (py_refunds s) = None)"
| "payment_op_ok (OpOtherEvent e) s =
     (ev_type e \<notin> {''payment.captured.v1'', ''refund.completed.v1'', ''payment.audit_recorded.v1''})"
| "payment_op_ok op s = True"

fun payment_ops_ok :: "payment_op list \<Rightarrow> payment_service \<Rightarrow> bool" where
  "payment_ops_ok [] s = True"
| "payment_ops_ok (op # ops) s = (payment_op_ok op s \<and> payment_ops_ok ops (payment_step op s))"

definition payment_init :: "order_repo \<Rightarrow> payment_service" where
  "payment_init r = \<lparr>py_orders = r, py_intents = [], py_eventBus = empty_bus, py_refunds = [], py_audit = [],
     py_captureByIdempotencyKey = []\<rparr>"


section \<open>What can be observed\<close>

definition about :: "string \<Rightarrow> string \<Rightarrow> uuid \<Rightarrow> domain_event \<Rightarrow> bool" where
  "about t k i e = (ev_type e = t \<and> jprop (ev_payload e) k = Some (JStr i))"

text \<open>The captures announced for an intent, the completions announced for a refund.\<close>

definition captures_of :: "uuid \<Rightarrow> payment_service \<Rightarrow> nat" where
  "captures_of i s = length (filter (about ''payment.captured.v1'' ''paymentIntentId'' i) (bus_events (py_eventBus s)))"

definition completions_of :: "uuid \<Rightarrow> payment_service \<Rightarrow> nat" where
  "completions_of i s = length (filter (about ''refund.completed.v1'' ''refundRequestId'' i) (bus_events (py_eventBus s)))"

named_theorems payment_frames \<open>what the building blocks of the payment operations change\<close>

lemma payment_publish_frame [payment_frames]:
  "py_orders (payment_publish e s) = py_orders s" "py_intents (payment_publish e s) = py_intents s"
  "py_refunds (payment_publish e s) = py_refunds s" "py_audit (payment_publish e s) = py_audit s"
  "py_captureByIdempotencyKey (payment_publish e s) = py_captureByIdempotencyKey s"
  "bus_events (py_eventBus (payment_publish e s)) = bus_events (py_eventBus s) @ [e]"
  by (simp_all add: payment_publish_def)

lemma appendAuditRecord_frame [payment_frames]:
  "py_orders (appendAuditRecord a s) = py_orders s" "py_intents (appendAuditRecord a s) = py_intents s"
  "py_refunds (appendAuditRecord a s) = py_refunds s" "py_audit (appendAuditRecord a s) = py_audit s @ [a]"
  "py_captureByIdempotencyKey (appendAuditRecord a s) = py_captureByIdempotencyKey s"
  "bus_events (py_eventBus (appendAuditRecord a s)) = bus_events (py_eventBus s) @ [audit_event a]"
  by (simp_all add: appendAuditRecord_def payment_publish_def payment_audit_append_def)

lemma store_intent_frame [payment_frames]:
  "py_orders (store_intent v s) = py_orders s" "py_intents (store_intent v s) = intent_save v (py_intents s)"
  "py_refunds (store_intent v s) = py_refunds s" "py_audit (store_intent v s) = py_audit s"
  "py_captureByIdempotencyKey (store_intent v s) = py_captureByIdempotencyKey s"
  "py_eventBus (store_intent v s) = py_eventBus s"
  by (simp_all add: store_intent_def)

lemma store_refund_frame [payment_frames]:
  "py_orders (store_refund v s) = py_orders s" "py_intents (store_refund v s) = py_intents s"
  "py_refunds (store_refund v s) = refund_save v (py_refunds s)" "py_audit (store_refund v s) = py_audit s"
  "py_captureByIdempotencyKey (store_refund v s) = py_captureByIdempotencyKey s"
  "py_eventBus (store_refund v s) = py_eventBus s"
  by (simp_all add: store_refund_def)

lemma remember_capture_frame [payment_frames]:
  "py_orders (remember_capture k v s) = py_orders s" "py_intents (remember_capture k v s) = py_intents s"
  "py_refunds (remember_capture k v s) = py_refunds s" "py_audit (remember_capture k v s) = py_audit s"
  "py_captureByIdempotencyKey (remember_capture k v s) = map_set k v (py_captureByIdempotencyKey s)"
  "py_eventBus (remember_capture k v s) = py_eventBus s"
  by (simp_all add: remember_capture_def)

lemma about_audit [payment_frames]:
  "about ''payment.captured.v1'' k i (audit_event a) = False" "about ''refund.completed.v1'' k i (audit_event a) = False"
  "about t k i (mk_event u w ps) = (u = t \<and> jprop ps k = Some (JStr i))"
  by (auto simp: about_def audit_event_def)

text \<open>The three invariants: captures, refunds, audit.\<close>

definition captures_ok :: "payment_service \<Rightarrow> bool" where
  "captures_ok s = (\<forall>i. captures_of i s \<le>
     (case intent_findById i (py_intents s) of Some v \<Rightarrow> if pi_status v = PAY_CAPTURED then 1 else 0 | None \<Rightarrow> 0))"

definition refund_ok :: "intent_repo \<Rightarrow> refundRequest \<Rightarrow> bool" where
  "refund_ok intents r =
     ((\<exists>v. intent_findById (rf_paymentIntentId r) intents = Some v \<and> pi_status v = PAY_CAPTURED \<and>
         pi_orderId v = rf_orderId r \<and> \<not> num_le (rf_amount r) (Fin 0) \<and> \<not> num_lt (pi_amount v) (rf_amount r)) \<and>
      (rf_status r = REFUND_REQUESTED \<and> rf_approvedBy r = None \<or> rf_status r = REFUND_COMPLETED \<and> rf_approvedBy r \<noteq> None))"

definition refunds_ok :: "payment_service \<Rightarrow> bool" where
  "refunds_ok s =
     ((\<forall>i r. refund_findById i (py_refunds s) = Some r \<longrightarrow> refund_ok (py_intents s) r) \<and>
      (\<forall>i. completions_of i s =
         (case refund_findById i (py_refunds s) of Some r \<Rightarrow> if rf_status r = REFUND_COMPLETED then 1 else 0 | None \<Rightarrow> 0)))"

definition audit_ok :: "payment_service \<Rightarrow> bool" where
  "audit_ok s = (events_of_type ''payment.audit_recorded.v1'' (bus_events (py_eventBus s)) = map audit_event (py_audit s))"

definition payment_keys_ok :: "payment_service \<Rightarrow> bool" where
  "payment_keys_ok s = (map_wf (py_intents s) \<and> intents.keys_agree (py_intents s) \<and>
     map_wf (py_refunds s) \<and> refunds.keys_agree (py_refunds s))"

definition payments_ok :: "payment_service \<Rightarrow> bool" where
  "payments_ok s = (payment_keys_ok s \<and> captures_ok s \<and> refunds_ok s \<and> audit_ok s)"

text \<open>Storing an intent and storing a refund, the two ways the stores change.\<close>

definition intent_update_ok :: "payment_service \<Rightarrow> paymentIntent \<Rightarrow> bool" where
  "intent_update_ok s v = (\<forall>u. intent_findById (pi_paymentIntentId v) (py_intents s) = Some u \<longrightarrow>
     pi_orderId v = pi_orderId u \<and> pi_amount v = pi_amount u \<and> (pi_status u = PAY_CAPTURED \<longrightarrow> pi_status v = PAY_CAPTURED))"

lemma payments_ok_store_intent:
  assumes s: "payments_ok s" and v: "intent_update_ok s v"
  shows "payments_ok (store_intent v s)"
proof -
  have "captures_ok (store_intent v s)"
    unfolding captures_ok_def
  proof
    fix i
    have c: "captures_of i (store_intent v s) = captures_of i s" by (simp add: captures_of_def store_intent_frame)
    have b: "captures_of i s \<le> (case intent_findById i (py_intents s) of Some u \<Rightarrow> if pi_status u = PAY_CAPTURED then 1 else 0 | None \<Rightarrow> 0)"
      using s by (simp add: payments_ok_def captures_ok_def)
    show "captures_of i (store_intent v s) \<le> (case intent_findById i (py_intents (store_intent v s)) of
        Some u \<Rightarrow> if pi_status u = PAY_CAPTURED then 1 else 0 | None \<Rightarrow> 0)"
      using b v unfolding c
      by (cases "intent_findById i (py_intents s)") (auto simp: store_intent_frame intents.find_save intent_update_ok_def split: if_splits)
  qed
  moreover have "refund_ok (intent_save v (py_intents s)) r" if "refund_ok (py_intents s) r" for r
    using that v by (fastforce simp: refund_ok_def intents.find_save intent_update_ok_def)
  then have "refunds_ok (store_intent v s)"
    using s by (simp add: payments_ok_def refunds_ok_def store_intent_frame completions_of_def)
  ultimately show ?thesis
    using s by (simp add: payments_ok_def payment_keys_ok_def audit_ok_def store_intent_frame intents.wf_save intents.keys_agree_save)
qed

lemma payments_ok_publish:
  assumes "payments_ok s"
    and "ev_type e \<notin> {''payment.captured.v1'', ''refund.completed.v1'', ''payment.audit_recorded.v1''}"
  shows "payments_ok (payment_publish e s)"
  using assms
  by (simp add: payments_ok_def payment_keys_ok_def captures_ok_def refunds_ok_def audit_ok_def captures_of_def completions_of_def
      payment_frames about_def)

lemma payments_ok_audit: "payments_ok s \<Longrightarrow> payments_ok (appendAuditRecord a s)"
  by (simp add: payments_ok_def payment_keys_ok_def captures_ok_def refunds_ok_def audit_ok_def captures_of_def completions_of_def
      payment_frames) (simp add: audit_event_def)

lemma payments_ok_remember: "payments_ok s \<Longrightarrow> payments_ok (remember_capture k v s)"
  by (simp add: payments_ok_def payment_keys_ok_def captures_ok_def refunds_ok_def audit_ok_def captures_of_def completions_of_def
      payment_frames)

lemma payments_ok_capture_event:
  assumes "payments_ok s" "captures_of i s = 0" "intent_findById i (py_intents s) = Some v" "pi_status v = PAY_CAPTURED"
    and "e = mk_event ''payment.captured.v1'' w ps" "jprop ps ''paymentIntentId'' = Some (JStr i)"
  shows "payments_ok (payment_publish e s)"
proof -
  have "captures_of j (payment_publish e s) = captures_of j s + (if j = i then 1 else 0)" for j
    using assms(5,6) by (simp add: captures_of_def payment_frames)
  moreover have "completions_of j (payment_publish e s) = completions_of j s" for j
    using assms(5) by (simp add: completions_of_def payment_frames)
  ultimately show ?thesis
    using assms by (auto simp: payments_ok_def payment_keys_ok_def captures_ok_def refunds_ok_def audit_ok_def payment_frames)
qed

lemma payments_ok_refund:
  assumes s: "payments_ok s" and r: "refund_ok (py_intents s) r"
    and old: "completions_of (rf_refundRequestId r) s = (if rf_status r = REFUND_COMPLETED then 1 else 0)"
  shows "payments_ok (store_refund r s)"
  using s r old
  by (auto simp: payments_ok_def payment_keys_ok_def captures_ok_def refunds_ok_def audit_ok_def captures_of_def completions_of_def
      payment_frames refunds.find_save refunds.wf_save refunds.keys_agree_save)


lemma payments_ok_complete:
  assumes s: "payments_ok s" and r: "refund_findById i (py_refunds s) = Some r" "rf_status r \<noteq> REFUND_COMPLETED"
    and c: "rf_refundRequestId c = i" "rf_status c = REFUND_COMPLETED" "refund_ok (py_intents s) c"
    and e: "e = mk_event ''refund.completed.v1'' w ps" "jprop ps ''refundRequestId'' = Some (JStr i)"
  shows "payments_ok (payment_publish e (store_refund c s))"
proof -
  have "completions_of j (payment_publish e (store_refund c s)) = completions_of j s + (if j = i then 1 else 0)" for j
    using e by (simp add: completions_of_def payment_frames)
  moreover have "captures_of j (payment_publish e (store_refund c s)) = captures_of j s" for j
    using e by (simp add: captures_of_def payment_frames)
  moreover have "completions_of i s = 0" using s r by (simp add: payments_ok_def refunds_ok_def)
  ultimately show ?thesis
    using s c e by (auto simp: payments_ok_def payment_keys_ok_def captures_ok_def refunds_ok_def audit_ok_def payment_frames
        refunds.find_save refunds.wf_save refunds.keys_agree_save)
qed

lemma intent_new_ok: "intent_findById (pi_paymentIntentId v) (py_intents s) = None \<Longrightarrow> intent_update_ok s v"
  by (simp add: intent_update_ok_def)

lemma intent_capture_ok:
  assumes "payments_ok s" "intent_findById i (py_intents s) = Some v"
  shows "intent_update_ok s (v\<lparr>pi_status := PAY_CAPTURED, pi_updatedAt := w\<rparr>)" "pi_paymentIntentId v = i"
  using assms by (auto simp: intent_update_ok_def payments_ok_def payment_keys_ok_def intents.keys_agree_def)

lemma authorizePayment_ok:
  assumes "payments_ok s" "intent_findById uid (py_intents s) = None"
  shows "payments_ok (snd (authorizePayment psp uid aid inp s))"
  using assms unfolding authorizePayment_def Let_def
  by (auto intro!: payments_ok_audit payments_ok_publish payments_ok_store_intent intent_new_ok split: option.split)

lemma markCashExpected_ok:
  assumes "payments_ok s" "intent_findById uid (py_intents s) = None"
  shows "payments_ok (snd (markCashExpected now uid aid inp s))"
  using assms unfolding markCashExpected_def Let_def
  by (auto intro!: payments_ok_audit payments_ok_publish payments_ok_store_intent intent_new_ok split: option.split)

lemma captures_zero:
  assumes "payments_ok s" "intent_findById i (py_intents s) = Some v" "pi_status v \<noteq> PAY_CAPTURED"
  shows "captures_of i s = 0"
proof -
  have "captures_of i s \<le> (case intent_findById i (py_intents s) of Some v \<Rightarrow> if pi_status v = PAY_CAPTURED then 1 else 0 | None \<Rightarrow> 0)"
    using assms(1) by (simp add: payments_ok_def captures_ok_def)
  with assms(2,3) show ?thesis by simp
qed

lemma capturePayment_ok:
  assumes s: "payments_ok s" shows "payments_ok (snd (capturePayment now aid inp s))"
proof -
  have "payments_ok (payment_publish (mk_event ''payment.captured.v1'' now
          [(''orderId'', JStr x), (''paymentIntentId'', JStr (pi_paymentIntentId v)), (''capturedAmount'', JNum a), (''idempotencyKey'', JStr k)])
        (remember_capture k c (store_intent c s)))"
    if "intent_findById i (py_intents s) = Some v" "pi_status v \<noteq> PAY_CAPTURED"
      "c = v\<lparr>pi_status := PAY_CAPTURED, pi_updatedAt := now\<rparr>" for i v c x a k
  proof (rule payments_ok_capture_event [where v = c and i = i])
    note c = intent_capture_ok [OF s that(1)]
    show "payments_ok (remember_capture k c (store_intent c s))"
      using payments_ok_store_intent [OF s c(1)] that(3) by (simp add: payments_ok_remember)
    have "captures_of i s = 0" by (rule captures_zero [OF s that(1,2)])
    then show "captures_of i (remember_capture k c (store_intent c s)) = 0" by (simp add: captures_of_def payment_frames)
    show "intent_findById i (py_intents (remember_capture k c (store_intent c s))) = Some c"
      using c(2) that(3) by (simp add: payment_frames intents.find_save)
    show "jprop [(''orderId'', JStr x), (''paymentIntentId'', JStr (pi_paymentIntentId v)), (''capturedAmount'', JNum a),
        (''idempotencyKey'', JStr k)] ''paymentIntentId'' = Some (JStr i)" using c(2) by (simp add: jprop_def)
  qed (use that in simp_all)
  then show ?thesis
    using s unfolding capturePayment_def Let_def
    by (auto intro!: payments_ok_audit payments_ok_remember split: option.split)
qed

lemma confirmCashCollection_ok:
  assumes s: "payments_ok s" shows "payments_ok (snd (confirmCashCollection now a1 a2 inp s))"
proof (cases "findByOrderAndMethod (cci_orderId inp) CASH (py_intents s)")
  case None
  with s show ?thesis by (simp add: confirmCashCollection_def)
next
  case (Some v)
  then have "v \<in> set (map_values (py_intents s))" by (auto simp: findByOrderAndMethod_def find_Some_iff)
  then obtain i where i: "intent_findById i (py_intents s) = Some v"
    using s intents.all_records_iff by (auto simp: payments_ok_def payment_keys_ok_def)
  have "payments_ok (store_intent (v\<lparr>pi_status := PAY_CAPTURED, pi_updatedAt := now\<rparr>) s)"
    by (rule payments_ok_store_intent [OF s intent_capture_ok(1) [OF s i]])
  with Some show ?thesis
    unfolding confirmCashCollection_def Let_def
    by (auto intro!: payments_ok_audit payments_ok_publish)
qed

lemma requestRefund_ok:
  assumes s: "payments_ok s" and fresh: "refund_findById uid (py_refunds s) = None"
  shows "payments_ok (snd (requestRefund now uid aid inp s))"
proof -
  have "completions_of uid s = 0" using s fresh by (simp add: payments_ok_def refunds_ok_def)
  then show ?thesis
    using s unfolding requestRefund_def Let_def
    by (auto intro!: payments_ok_audit payments_ok_refund simp: refund_ok_def split: option.split)
qed

lemma approveRefund_ok:
  assumes s: "payments_ok s" shows "payments_ok (snd (approveRefund now aid inp s))"
proof (cases "\<exists>r. refund_findById (ari_refundRequestId inp) (py_refunds s) = Some r \<and> rf_status r \<noteq> REFUND_COMPLETED")
  case True
  then obtain r where r: "refund_findById (ari_refundRequestId inp) (py_refunds s) = Some r" "rf_status r \<noteq> REFUND_COMPLETED" by blast
  let ?c = "r\<lparr>rf_status := REFUND_COMPLETED, rf_approvedBy := Some (ari_approvedBy inp), rf_updatedAt := now\<rparr>"
  have id: "rf_refundRequestId r = ari_refundRequestId inp"
    using s r(1) by (auto simp: payments_ok_def payment_keys_ok_def refunds.keys_agree_def)
  have "refund_ok (py_intents s) ?c" using s r(1) by (fastforce simp: payments_ok_def refunds_ok_def refund_ok_def)
  then have "payments_ok (payment_publish (mk_event ''refund.completed.v1'' now
       [(''refundRequestId'', JStr (rf_refundRequestId ?c)), (''orderId'', JStr (rf_orderId ?c)),
        (''paymentIntentId'', JStr (rf_paymentIntentId ?c)), (''amount'', JNum (rf_amount ?c)),
        (''approvedBy'', jopt JStr (rf_approvedBy ?c))]) (store_refund ?c s))"
    using id by (intro payments_ok_complete [OF s r _ _ _ refl]) (simp_all add: jprop_def)
  with r show ?thesis unfolding approveRefund_def Let_def by (simp add: payments_ok_audit)
qed (use s in \<open>auto simp: approveRefund_def split: option.split\<close>)

lemma payment_step_ok: "payments_ok s \<Longrightarrow> payment_op_ok op s \<Longrightarrow> payments_ok (payment_step op s)"
proof (cases op)
  case (OpOrdersChange r)
  then show "payments_ok s \<Longrightarrow> payment_op_ok op s \<Longrightarrow> payments_ok (payment_step op s)"
    by (simp add: payments_ok_def payment_keys_ok_def captures_ok_def refunds_ok_def audit_ok_def captures_of_def completions_of_def)
qed (simp_all add: authorizePayment_ok capturePayment_ok markCashExpected_ok confirmCashCollection_ok requestRefund_ok
      approveRefund_ok payments_ok_publish)

lemma payment_run_ok: "payments_ok s \<Longrightarrow> payment_ops_ok ops s \<Longrightarrow> payments_ok (fold payment_step ops s)"
  by (induction ops arbitrary: s) (simp_all add: payment_step_ok)

lemma payments_ok_init: "payments_ok (payment_init r)"
  by (simp add: payments_ok_def payment_keys_ok_def captures_ok_def refunds_ok_def audit_ok_def captures_of_def completions_of_def
      payment_init_def intents.keys_agree_fresh refunds.keys_agree_fresh refunds.find_fresh)

text \<open>A remembered capture is never replaced.\<close>

lemma capture_remembered_step:
  assumes "map_get (py_captureByIdempotencyKey s) k = Some v"
  shows "map_get (py_captureByIdempotencyKey (payment_step op s)) k = Some v"
proof (cases op)
  case (OpCapture now aid inp)
  with assms show ?thesis
    by (auto simp: capturePayment_def Let_def payment_frames map_get_set split: option.split)
qed (use assms in \<open>simp_all add: authorizePayment_def markCashExpected_def confirmCashCollection_def requestRefund_def
      approveRefund_def Let_def payment_frames split: option.split\<close>)

lemma capture_remembered:
  "map_get (py_captureByIdempotencyKey s) k = Some v \<Longrightarrow>
   map_get (py_captureByIdempotencyKey (fold payment_step ops s)) k = Some v"
  by (induction ops arbitrary: s) (simp_all add: capture_remembered_step)

lemma capture_remembers:
  "capturePayment now aid inp s = (Inr v, s') \<Longrightarrow> map_get (py_captureByIdempotencyKey s') (cpi_idempotencyKey inp) = Some v"
  by (auto simp: capturePayment_def Let_def payment_frames split: option.splits if_splits)

section \<open>Properties\<close>

text \<open>C4: Captures are idempotent: in every reachable state at most one capture has been announced
  for an intent, and only if the intent is captured; and once a capture with a key has
  returned, any later capture with that key returns the same intent and changes nothing.\<close>

theorem capture_at_most_once:
  assumes "payment_ops_ok (ops @ later_ops) (payment_init orders)" and "s = fold payment_step ops (payment_init orders)"
  shows "captures_of i s \<le> 1 \<and>
    (captures_of i s = 1 \<longrightarrow> (\<exists>v. intent_findById i (py_intents s) = Some v \<and> pi_status v = PAY_CAPTURED)) \<and>
    (\<forall>now aid inp v s1 now' aid' inp'. capturePayment now aid inp s = (Inr v, s1) \<longrightarrow>
       cpi_idempotencyKey inp' = cpi_idempotencyKey inp \<longrightarrow>
       capturePayment now' aid' inp' (fold payment_step later_ops s1) = (Inr v, fold payment_step later_ops s1))"
proof -
  have "payment_ops_ok xs t" if "payment_ops_ok (xs @ ys) t" for xs ys t
    using that by (induction xs arbitrary: t) simp_all
  then have "payments_ok s" using payment_run_ok [OF payments_ok_init] assms by blast
  then have "captures_of i s \<le> (case intent_findById i (py_intents s) of Some v \<Rightarrow> if pi_status v = PAY_CAPTURED then 1 else 0 | None \<Rightarrow> 0)"
    by (simp add: payments_ok_def captures_ok_def)
  then have "captures_of i s \<le> 1 \<and>
      (captures_of i s = 1 \<longrightarrow> (\<exists>v. intent_findById i (py_intents s) = Some v \<and> pi_status v = PAY_CAPTURED))"
    by (cases "intent_findById i (py_intents s)") (auto split: if_splits)
  moreover have "capturePayment now' aid' inp' (fold payment_step later_ops s1) = (Inr v, fold payment_step later_ops s1)"
    if "capturePayment now aid inp s = (Inr v, s1)" "cpi_idempotencyKey inp' = cpi_idempotencyKey inp" for now aid inp v s1 now' aid' inp'
    using capture_remembered [OF capture_remembers [OF that(1)], of later_ops] that(2) by (simp add: capturePayment_def)
  ultimately show ?thesis by blast
qed

definition accepted_order :: order where
  "accepted_order = demo_order\<lparr>or_status := MERCHANT_ACCEPTED, or_courierId := None\<rparr>"

definition demo_authorize :: payment_op where
  "demo_authorize = OpAuthorize (in_memory_psp ''r'' ''1'') ''p1'' ''a1''
     \<lparr>api_orderId = ''o1'', api_method = CARD, api_amount = Fin 1000, api_currency = ''USD''\<rparr>"

definition demo_capture :: capturePaymentInput where
  "demo_capture = \<lparr>cpi_paymentIntentId = ''p1'', cpi_idempotencyKey = ''k''\<rparr>"

lemmas demo_payment_simps =
  demo_authorize_def demo_capture_def payment_init_def authorizePayment_def capturePayment_def Let_def order_findById_def
  map_get_def accepted_order_def demo_order_def in_memory_psp_def intent_findById_def payment_frames intent_save_def map_set_def

lemma capture_at_most_once_witness:
  "captures_of ''p1'' (fold payment_step [demo_authorize, OpCapture ''2'' ''a2'' demo_capture, OpCapture ''3'' ''a3'' demo_capture]
     (payment_init [(''o1'', accepted_order)])) \<le> 1"
proof -
  have "payment_ops_ok ([demo_authorize, OpCapture ''2'' ''a2'' demo_capture, OpCapture ''3'' ''a3'' demo_capture] @ [])
      (payment_init [(''o1'', accepted_order)])"
    by (simp add: demo_payment_simps)
  from capture_at_most_once [OF this refl] show ?thesis by blast
qed

text \<open>C7: In every reachable state a refund belongs to a captured intent of its order, its amount is
  positive and at most the amount of that intent, it is either requested without or
  completed with an approver, and its completion was announced exactly once if it is
  completed and never otherwise.\<close>

theorem refunds_bounded:
  assumes "payment_ops_ok ops (payment_init orders)" and "s = fold payment_step ops (payment_init orders)"
    and "refund_findById i (py_refunds s) = Some r"
  shows "(\<exists>v. intent_findById (rf_paymentIntentId r) (py_intents s) = Some v \<and> pi_status v = PAY_CAPTURED \<and>
      pi_orderId v = rf_orderId r \<and> \<not> num_le (rf_amount r) (Fin 0) \<and> \<not> num_lt (pi_amount v) (rf_amount r)) \<and>
    (rf_status r = REFUND_REQUESTED \<and> rf_approvedBy r = None \<or> rf_status r = REFUND_COMPLETED \<and> rf_approvedBy r \<noteq> None) \<and>
    completions_of i s = (if rf_status r = REFUND_COMPLETED then 1 else 0)"
proof -
  have "payments_ok s" unfolding assms(2) by (rule payment_run_ok [OF payments_ok_init assms(1)])
  then show ?thesis using assms(3) unfolding payments_ok_def refunds_ok_def refund_ok_def by simp
qed

definition demo_refund_ops :: "payment_op list" where
  "demo_refund_ops = [demo_authorize, OpCapture ''2'' ''a2'' demo_capture,
     OpRefundRequest ''3'' ''r1'' ''a3'' \<lparr>rri_orderId = ''o1'', rri_paymentIntentId = ''p1'', rri_amount = Fin 400,
       rri_reasonCode = ''COLD'', rri_requestedBy = ''ann''\<rparr>]"

lemma refunds_bounded_witness:
  "\<exists>r. refund_findById ''r1'' (py_refunds (fold payment_step demo_refund_ops (payment_init [(''o1'', accepted_order)]))) = Some r \<and>
     completions_of ''r1'' (fold payment_step demo_refund_ops (payment_init [(''o1'', accepted_order)])) =
       (if rf_status r = REFUND_COMPLETED then 1 else 0)"
proof -
  have ok: "payment_ops_ok demo_refund_ops (payment_init [(''o1'', accepted_order)])"
    by (simp add: demo_refund_ops_def demo_payment_simps refund_findById_def)
  obtain r where r: "refund_findById ''r1'' (py_refunds (fold payment_step demo_refund_ops (payment_init [(''o1'', accepted_order)]))) = Some r"
    by (simp add: demo_refund_ops_def demo_payment_simps requestRefund_def refund_save_def refund_findById_def)
  from refunds_bounded [OF ok refl r] r show ?thesis by blast
qed

text \<open>C26: In every reachable state the audit events on the bus are, in order, exactly those of the
  audit records kept, so the audit trail of an order is complete: every authorization,
  capture, cash and refund step is recorded and announced together.\<close>

theorem audit_matches_events:
  assumes "payment_ops_ok ops (payment_init orders)" and "s = fold payment_step ops (payment_init orders)"
  shows "events_of_type ''payment.audit_recorded.v1'' (bus_events (py_eventBus s)) = map audit_event (py_audit s) \<and>
    map audit_event (getAuditTrail orderId s) =
      filter (about ''payment.audit_recorded.v1'' ''orderId'' orderId) (bus_events (py_eventBus s))"
proof -
  have "payments_ok s" unfolding assms(2) by (rule payment_run_ok [OF payments_ok_init assms(1)])
  then have a: "events_of_type ''payment.audit_recorded.v1'' (bus_events (py_eventBus s)) = map audit_event (py_audit s)"
    by (simp add: payments_ok_def audit_ok_def)
  have o1: "jprop (ev_payload (audit_event x)) ''orderId'' = Some (JStr orderId) \<longleftrightarrow> pa_orderId x = orderId" for x
    by (simp add: audit_event_def jprop_def)
  have "filter (about ''payment.audit_recorded.v1'' ''orderId'' orderId) (bus_events (py_eventBus s)) =
      filter (\<lambda>e. jprop (ev_payload e) ''orderId'' = Some (JStr orderId)) (map audit_event (py_audit s))"
    unfolding a [symmetric] events_of_type_def filter_filter about_def by (simp add: conj_commute)
  then show ?thesis
    using a by (simp add: getAuditTrail_def payment_audit_listByOrder_def filter_map comp_def o1)
qed

lemma audit_matches_events_witness:
  "map audit_event (getAuditTrail ''o1'' (fold payment_step demo_refund_ops (payment_init [(''o1'', accepted_order)]))) =
     filter (about ''payment.audit_recorded.v1'' ''orderId'' ''o1'')
       (bus_events (py_eventBus (fold payment_step demo_refund_ops (payment_init [(''o1'', accepted_order)]))))"
proof -
  have ok: "payment_ops_ok demo_refund_ops (payment_init [(''o1'', accepted_order)])"
    by (simp add: demo_refund_ops_def demo_payment_simps refund_findById_def)
  from audit_matches_events [OF ok refl] show ?thesis by blast
qed

end
