(* ===== verification/Support.thy ===== *)
theory Support
  imports Payments
begin

text \<open>
  Support (\<open>core-api/src/modules/support\<close>): tickets with the timeline correlated from the
  orders and the payments, the escalation of tickets over their service level, and the
  interventions a support agent makes through the order and the payment service.
\<close>

section \<open>Tickets and escalations\<close>

datatype supportTicketStatus = TICKET_OPEN | TICKET_INVESTIGATING | TICKET_RESOLVED | TICKET_CLOSED

record supportTicket =
  tk_ticketId :: uuid
  tk_orderId :: uuid
  tk_actorId :: string
  tk_issueType :: string
  tk_summary :: string
  tk_status :: supportTicketStatus
  tk_createdAt :: iso_date
  tk_updatedAt :: iso_date

record createSupportTicketInput =
  ct_orderId :: uuid
  ct_actorId :: string
  ct_issueType :: string
  ct_summary :: string

record supportEscalation =
  se_escalationId :: uuid
  se_ticketId :: uuid
  se_orderId :: uuid
  se_issueType :: string
  se_escalatedAt :: iso_date
  se_reasonCode :: string

type_synonym ticket_repo = "(uuid, supportTicket) jsmap"

definition ticket_save :: "supportTicket \<Rightarrow> ticket_repo \<Rightarrow> ticket_repo" where
  "ticket_save v r = map_set (tk_ticketId v) v r"

definition ticket_findById :: "uuid \<Rightarrow> ticket_repo \<Rightarrow> supportTicket option" where
  "ticket_findById i r = map_get r i"

definition listByStatus :: "supportTicketStatus \<Rightarrow> ticket_repo \<Rightarrow> supportTicket list" where
  "listByStatus st r = filter (\<lambda>v. tk_status v = st) (map_values r)"

interpretation tickets: keyed_repository tk_ticketId "[]" ticket_save ticket_findById map_values map_wf
  unfolding ticket_save_def ticket_findById_def by (rule jsmap_repository)

record escalation_repo =
  er_escalations :: "(uuid, supportEscalation) jsmap"
  er_ticketEscalationIndex :: "uuid list"

definition escalation_save :: "supportEscalation \<Rightarrow> escalation_repo \<Rightarrow> escalation_repo" where
  "escalation_save v r = \<lparr>er_escalations = map_set (se_escalationId v) v (er_escalations r),
     er_ticketEscalationIndex = set_add (se_ticketId v) (er_ticketEscalationIndex r)\<rparr>"

definition hasEscalationForTicket :: "uuid \<Rightarrow> escalation_repo \<Rightarrow> bool" where
  "hasEscalationForTicket i r = (i \<in> set (er_ticketEscalationIndex r))"

definition escalation_list :: "escalation_repo \<Rightarrow> supportEscalation list" where
  "escalation_list r = map_values (er_escalations r)"

section \<open>Tickets and the service level\<close>

text \<open>The ticket repository is shared by the ticket service and the service-level service.\<close>

record support_service =
  sv_tickets :: ticket_repo
  sv_escalations :: escalation_repo
  sv_eventBus :: event_bus

datatype support_error = SupportTicketNotFound uuid | InvalidEvaluationTime

definition createTicket :: "iso_date \<Rightarrow> uuid \<Rightarrow> createSupportTicketInput \<Rightarrow> support_service \<Rightarrow> supportTicket \<times> support_service" where
  "createTicket now uid inp s =
     (let ticket = \<lparr>tk_ticketId = uid, tk_orderId = ct_orderId inp, tk_actorId = ct_actorId inp, tk_issueType = ct_issueType inp,
                    tk_summary = ct_summary inp, tk_status = TICKET_OPEN, tk_createdAt = now, tk_updatedAt = now\<rparr>
      in (ticket, s\<lparr>sv_tickets := ticket_save ticket (sv_tickets s)\<rparr>))"

definition issueTypeSlaMinutes :: "(string \<times> jsnum) list" where
  "issueTypeSlaMinutes = [(''PAYMENT_ISSUE'', Fin 30), (''LATE_DELIVERY'', Fin 30), (''MISSING_ITEM'', Fin 45)]"

text \<open>\<open>new Date(s).getTime()\<close>.\<close>

definition date_num :: "host \<Rightarrow> string \<Rightarrow> jsnum" where
  "date_num h w = (case host_getTime h w of None \<Rightarrow> NaN | Some t \<Rightarrow> num_int t)"

definition ageMinutes :: "host \<Rightarrow> iso_date \<Rightarrow> supportTicket \<Rightarrow> jsnum" where
  "ageMinutes h evaluatedAt ticket =
     math_floor (num_div (num_sub (date_num h evaluatedAt) (date_num h (tk_createdAt ticket))) (Fin 60000))"

text \<open>
  \<open>!(ageMinutes < thresholdMinutes)\<close>. An issue type that is the name of an inherited
  property gives a function or an object as threshold, and the comparison is false.
\<close>

definition sla_due :: "host \<Rightarrow> iso_date \<Rightarrow> supportTicket \<Rightarrow> bool" where
  "sla_due h evaluatedAt ticket =
     (case obj_lookup issueTypeSlaMinutes (tk_issueType ticket) of
        Own thresholdMinutes \<Rightarrow> \<not> num_lt (ageMinutes h evaluatedAt ticket) thresholdMinutes
      | Inherited \<Rightarrow> True
      | Missing \<Rightarrow> \<not> num_lt (ageMinutes h evaluatedAt ticket) (Fin 60))"

definition escalation_event :: "supportEscalation \<Rightarrow> domain_event" where
  "escalation_event v = mk_event ''support.ticket_escalated.v1'' (se_escalatedAt v)
     [(''escalationId'', JStr (se_escalationId v)), (''ticketId'', JStr (se_ticketId v)), (''orderId'', JStr (se_orderId v)),
      (''reasonCode'', JStr (se_reasonCode v))]"

text \<open>The identifier of the escalation of a ticket comes from \<open>uid\<close>.\<close>

definition escalation_for :: "(uuid \<Rightarrow> uuid) \<Rightarrow> iso_date \<Rightarrow> supportTicket \<Rightarrow> supportEscalation" where
  "escalation_for uid evaluatedAt ticket =
     \<lparr>se_escalationId = uid (tk_ticketId ticket), se_ticketId = tk_ticketId ticket, se_orderId = tk_orderId ticket,
      se_issueType = tk_issueType ticket, se_escalatedAt = evaluatedAt, se_reasonCode = ''SLA_BREACH''\<rparr>"

definition evaluate_ticket ::
  "host \<Rightarrow> (uuid \<Rightarrow> uuid) \<Rightarrow> iso_date \<Rightarrow> supportTicket \<Rightarrow> supportEscalation list \<times> support_service
     \<Rightarrow> supportEscalation list \<times> support_service" where
  "evaluate_ticket h uid evaluatedAt ticket acc =
     (case acc of (escalations, s) \<Rightarrow>
        if hasEscalationForTicket (tk_ticketId ticket) (sv_escalations s) then (escalations, s)
        else if \<not> sla_due h evaluatedAt ticket then (escalations, s)
        else
          let escalation = escalation_for uid evaluatedAt ticket
          in (escalations @ [escalation],
              s\<lparr>sv_escalations := escalation_save escalation (sv_escalations s),
                sv_eventBus := publish (escalation_event escalation) (sv_eventBus s)\<rparr>))"

record slaEvaluationResult =
  sx_evaluatedAt :: iso_date
  sx_escalations :: "supportEscalation list"

definition evaluateEscalations ::
  "host \<Rightarrow> (uuid \<Rightarrow> uuid) \<Rightarrow> string \<Rightarrow> support_service \<Rightarrow> (support_service, support_error, slaEvaluationResult) outcome" where
  "evaluateEscalations h uid evaluatedAtInput s =
     (case host_getTime h evaluatedAtInput of
        None \<Rightarrow> (Inl InvalidEvaluationTime, s)
      | Some t \<Rightarrow>
          (let evaluatedAt = host_toISOString h t;
               (escalations, s') = fold (evaluate_ticket h uid evaluatedAt) (listByStatus TICKET_OPEN (sv_tickets s)) ([], s)
           in (Inr \<lparr>sx_evaluatedAt = evaluatedAt, sx_escalations = escalations\<rparr>, s')))"

section \<open>The correlated timeline\<close>

datatype timelineSourceType = ORDER_TIMELINE | PAYMENT_AUDIT

record supportTimelineEntry =
  sy_sourceType :: timelineSourceType
  sy_referenceId :: string
  sy_eventType :: string
  sy_occurredAt :: iso_date
  sy_details :: "(string \<times> json) list"

record ticketTimelineView =
  tv_ticket :: supportTicket
  tv_entries :: "supportTimelineEntry list"

text \<open>\<open>{ ...base, ...more }\<close>: a property of the second object replaces one of \<open>base\<close> in its place.\<close>

definition obj_spread :: "(string \<times> json) list \<Rightarrow> (string \<times> json) list \<Rightarrow> (string \<times> json) list" where
  "obj_spread base ext = fold (\<lambda>(k, v). map_set k v) ext base"

definition order_timeline_entry :: "timelineEntry \<Rightarrow> supportTimelineEntry" where
  "order_timeline_entry e = \<lparr>sy_sourceType = ORDER_TIMELINE, sy_referenceId = te_eventType e, sy_eventType = te_eventType e,
     sy_occurredAt = te_occurredAt e,
     sy_details = obj_spread [(''status'', JStr (te_status e))] (map (\<lambda>(k, v). (k, JStr v)) (te_details e))\<rparr>"

definition payment_audit_entry :: "paymentAuditRecord \<Rightarrow> supportTimelineEntry" where
  "payment_audit_entry e = \<lparr>sy_sourceType = PAYMENT_AUDIT, sy_referenceId = pa_auditEventId e, sy_eventType = pa_actionType e,
     sy_occurredAt = pa_timestamp e,
     sy_details = obj_spread [(''reasonCode'', JStr (pa_reasonCode e)), (''targetId'', JStr (pa_targetId e))] (pa_metadata e)\<rparr>"

definition getCorrelatedTimeline ::
  "host \<Rightarrow> (uuid \<Rightarrow> timelineEntry list) \<Rightarrow> (uuid \<Rightarrow> paymentAuditRecord list) \<Rightarrow> uuid \<Rightarrow> support_service
     \<Rightarrow> support_error + ticketTimelineView" where
  "getCorrelatedTimeline h getOrderTimeline getPaymentAudit ticketId s =
     (case ticket_findById ticketId (sv_tickets s) of
        None \<Rightarrow> Inl (SupportTicketNotFound ticketId)
      | Some ticket \<Rightarrow>
          let entries = map order_timeline_entry (getOrderTimeline (tk_orderId ticket)) @
                        map payment_audit_entry (getPaymentAudit (tk_orderId ticket))
          in Inr \<lparr>tv_ticket = ticket,
                  tv_entries = js_sort (\<lambda>left right. locale_gt h (sy_occurredAt left) (sy_occurredAt right)) entries\<rparr>)"

section \<open>Interventions\<close>

datatype interventionAction = CANCEL_ORDER | REFUND_PAYMENT | REASSIGN_COURIER

definition interventionAction_name :: "interventionAction \<Rightarrow> string" where
  "interventionAction_name a = (case a of CANCEL_ORDER \<Rightarrow> ''CANCEL_ORDER'' | REFUND_PAYMENT \<Rightarrow> ''REFUND_PAYMENT''
     | REASSIGN_COURIER \<Rightarrow> ''REASSIGN_COURIER'')"

record executeInterventionInput =
  xi_actionType :: interventionAction
  xi_actorId :: string
  xi_orderId :: uuid
  xi_reasonCode :: string
  xi_paymentIntentId :: "string option"
  xi_refundAmount :: "jsnum option"

datatype interventionStatus = INTERVENTION_COMPLETED | INTERVENTION_QUEUED

definition interventionStatus_name :: "interventionStatus \<Rightarrow> string" where
  "interventionStatus_name s = (case s of INTERVENTION_COMPLETED \<Rightarrow> ''COMPLETED'' | INTERVENTION_QUEUED \<Rightarrow> ''QUEUED'')"

record interventionResult =
  xr_actionType :: interventionAction
  xr_status :: interventionStatus
  xr_result :: "(string \<times> json) list"

datatype 'e intervention_error = InvalidIntervention | FromDependency 'e

definition intervention_event :: "iso_date \<Rightarrow> executeInterventionInput \<Rightarrow> interventionStatus \<Rightarrow> domain_event" where
  "intervention_event now inp st = mk_event ''support.intervention_executed.v1'' now
     [(''actionType'', JStr (interventionAction_name (xi_actionType inp))), (''actorId'', JStr (xi_actorId inp)),
      (''orderId'', JStr (xi_orderId inp)), (''reasonCode'', JStr (xi_reasonCode inp)), (''status'', JStr (interventionStatus_name st))]"

text \<open>
  The dependencies act on a state \<open>'d\<close> that holds the bus: \<open>cancel\<close> and \<open>refund\<close> return the
  status of the order or the refund, \<open>pub\<close> publishes.
\<close>

definition publishCompleted ::
  "(domain_event \<Rightarrow> 'd \<Rightarrow> 'd) \<Rightarrow> iso_date \<Rightarrow> executeInterventionInput \<Rightarrow> (string \<times> json) list \<Rightarrow> 'd \<Rightarrow> interventionResult \<times> 'd" where
  "publishCompleted pub now inp res d =
     (\<lparr>xr_actionType = xi_actionType inp, xr_status = INTERVENTION_COMPLETED, xr_result = res\<rparr>,
      pub (intervention_event now inp INTERVENTION_COMPLETED) d)"

definition execute_intervention ::
  "(uuid \<Rightarrow> string \<Rightarrow> 'd \<Rightarrow> ('e + string) \<times> 'd) \<Rightarrow> (requestRefundInput \<Rightarrow> 'd \<Rightarrow> ('e + string) \<times> 'd) \<Rightarrow> (domain_event \<Rightarrow> 'd \<Rightarrow> 'd)
     \<Rightarrow> iso_date \<Rightarrow> executeInterventionInput \<Rightarrow> 'd \<Rightarrow> ('e intervention_error + interventionResult) \<times> 'd" where
  "execute_intervention cancel refund pub now inp d =
     (let completed = (\<lambda>r. case r of
            (Inl e, d1) \<Rightarrow> (Inl (FromDependency e), d1)
          | (Inr status, d1) \<Rightarrow>
              (case publishCompleted pub now inp [(''orderId'', JStr (xi_orderId inp)), (''status'', JStr status)] d1 of
                 (res, d2) \<Rightarrow> (Inr res, d2)))
      in case xi_actionType inp of
           CANCEL_ORDER \<Rightarrow> completed (cancel (xi_orderId inp) (xi_reasonCode inp) d)
         | REFUND_PAYMENT \<Rightarrow>
             (case (xi_paymentIntentId inp, xi_refundAmount inp) of
                (Some paymentIntentId, Some refundAmount) \<Rightarrow>
                  if paymentIntentId = [] \<or> num_le refundAmount (Fin 0) then (Inl InvalidIntervention, d)
                  else completed (refund \<lparr>rri_orderId = xi_orderId inp, rri_paymentIntentId = paymentIntentId,
                         rri_amount = refundAmount, rri_reasonCode = xi_reasonCode inp, rri_requestedBy = xi_actorId inp\<rparr> d)
              | _ \<Rightarrow> (Inl InvalidIntervention, d))
         | REASSIGN_COURIER \<Rightarrow>
             (Inr \<lparr>xr_actionType = xi_actionType inp, xr_status = INTERVENTION_QUEUED,
                   xr_result = [(''orderId'', JStr (xi_orderId inp)), (''reasonCode'', JStr (xi_reasonCode inp))]\<rparr>,
              pub (intervention_event now inp INTERVENTION_QUEUED) d))"

section \<open>The wiring of the core API\<close>

text \<open>
  The server hands the support services the order and the payment service, which share the
  order repository and the bus: \<open>on_orders\<close> and \<open>on_payments\<close> run an operation of one and
  show the other its changes.
\<close>

record core_services =
  cs_orders :: order_service
  cs_payments :: payment_service

definition shared :: "core_services \<Rightarrow> bool" where
  "shared c = (py_orders (cs_payments c) = os_orders (cs_orders c) \<and> py_eventBus (cs_payments c) = os_eventBus (cs_orders c))"

definition on_orders :: "(order_service \<Rightarrow> 'a \<times> order_service) \<Rightarrow> core_services \<Rightarrow> 'a \<times> core_services" where
  "on_orders f c = (case f (cs_orders c) of (r, os) \<Rightarrow>
     (r, \<lparr>cs_orders = os, cs_payments = (cs_payments c)\<lparr>py_orders := os_orders os, py_eventBus := os_eventBus os\<rparr>\<rparr>))"

definition on_payments :: "(payment_service \<Rightarrow> 'a \<times> payment_service) \<Rightarrow> core_services \<Rightarrow> 'a \<times> core_services" where
  "on_payments f c = (case f (cs_payments c) of (r, py) \<Rightarrow>
     (r, \<lparr>cs_orders = (cs_orders c)\<lparr>os_eventBus := py_eventBus py\<rparr>, cs_payments = py\<rparr>))"

datatype core_error = FromOrders order_error | FromPayments payment_error

definition refundStatus_name :: "refundStatus \<Rightarrow> string" where
  "refundStatus_name s = (case s of REFUND_REQUESTED \<Rightarrow> ''REQUESTED'' | REFUND_APPROVED \<Rightarrow> ''APPROVED''
     | REFUND_DECLINED \<Rightarrow> ''DECLINED'' | REFUND_COMPLETED \<Rightarrow> ''COMPLETED'')"

definition core_requestCancellation :: "iso_date \<Rightarrow> uuid \<Rightarrow> string \<Rightarrow> core_services \<Rightarrow> (core_error + string) \<times> core_services" where
  "core_requestCancellation now orderId reasonCode =
     on_orders (\<lambda>os. map_prod (map_sum FromOrders (\<lambda>v. orderStatus_name (or_status v))) id
       (requestCancellation now orderId \<lparr>rci_actor = BySupportAgent, rci_reasonCode = reasonCode\<rparr> os))"

definition core_requestRefund :: "iso_date \<Rightarrow> uuid \<Rightarrow> uuid \<Rightarrow> requestRefundInput \<Rightarrow> core_services \<Rightarrow> (core_error + string) \<times> core_services" where
  "core_requestRefund now uid aid inp =
     on_payments (\<lambda>py. map_prod (map_sum FromPayments (\<lambda>v. refundStatus_name (rf_status v))) id (requestRefund now uid aid inp py))"

definition core_publish :: "domain_event \<Rightarrow> core_services \<Rightarrow> core_services" where
  "core_publish e c = snd (on_payments (\<lambda>py. ((), payment_publish e py)) c)"

definition core_intervention ::
  "iso_date \<Rightarrow> uuid \<Rightarrow> uuid \<Rightarrow> iso_date \<Rightarrow> executeInterventionInput \<Rightarrow> core_services
     \<Rightarrow> (core_error intervention_error + interventionResult) \<times> core_services" where
  "core_intervention now1 uid aid now2 = execute_intervention (core_requestCancellation now1) (core_requestRefund now1 uid aid) core_publish now2"

definition core_timeline :: "host \<Rightarrow> uuid \<Rightarrow> core_services \<Rightarrow> support_service \<Rightarrow> support_error + ticketTimelineView" where
  "core_timeline h ticketId c =
     getCorrelatedTimeline h (\<lambda>i. timeline_getByOrderId i (nullish (os_timeline (cs_orders c)) [])) (\<lambda>i. getAuditTrail i (cs_payments c)) ticketId"

section \<open>Runs of the support services\<close>

datatype support_op =
    OpTicket iso_date uuid createSupportTicketInput
  | OpEvaluate host "uuid \<Rightarrow> uuid" string
  | OpSupportElsewhere domain_event

fun support_step :: "support_op \<Rightarrow> support_service \<Rightarrow> support_service" where
  "support_step (OpTicket now uid inp) s = snd (createTicket now uid inp s)"
| "support_step (OpEvaluate h uid w) s = snd (evaluateEscalations h uid w s)"
| "support_step (OpSupportElsewhere e) s = s\<lparr>sv_eventBus := publish e (sv_eventBus s)\<rparr>"

text \<open>The identifiers drawn are new and distinct.\<close>

definition fresh_escalations :: "(uuid \<Rightarrow> uuid) \<Rightarrow> support_service \<Rightarrow> bool" where
  "fresh_escalations uid s = (\<forall>i \<in> set (map_keys (sv_tickets s)). map_get (er_escalations (sv_escalations s)) (uid i) = None \<and>
     (\<forall>j \<in> set (map_keys (sv_tickets s)). uid i = uid j \<longrightarrow> i = j))"

fun support_op_ok :: "support_op \<Rightarrow> support_service \<Rightarrow> bool" where
  "support_op_ok (OpTicket now uid inp) s = (ticket_findById uid (sv_tickets s) = None)"
| "support_op_ok (OpEvaluate h uid w) s = fresh_escalations uid s"
| "support_op_ok (OpSupportElsewhere e) s = (ev_type e \<noteq> ''support.ticket_escalated.v1'')"

fun support_ops_ok :: "support_op list \<Rightarrow> support_service \<Rightarrow> bool" where
  "support_ops_ok [] s = True"
| "support_ops_ok (op # ops) s = (support_op_ok op s \<and> support_ops_ok ops (support_step op s))"

definition support_init :: support_service where
  "support_init = \<lparr>sv_tickets = [], sv_escalations = \<lparr>er_escalations = [], er_ticketEscalationIndex = []\<rparr>, sv_eventBus = empty_bus\<rparr>"

section \<open>One escalation per ticket\<close>

definition record_escalations :: "supportEscalation list \<Rightarrow> support_service \<Rightarrow> support_service" where
  "record_escalations es s = s\<lparr>sv_escalations := fold escalation_save es (sv_escalations s),
     sv_eventBus := publish_all (map escalation_event es) (sv_eventBus s)\<rparr>"

lemma record_escalations_simps:
  "record_escalations [] s = s"
  "record_escalations (e # es) s = record_escalations es (record_escalations [e] s)"
  "sv_tickets (record_escalations es s) = sv_tickets s"
  by (simp_all add: record_escalations_def publish_all_def)

text \<open>The tickets one evaluation escalates, and what is due.\<close>

definition newly_due :: "host \<Rightarrow> iso_date \<Rightarrow> support_service \<Rightarrow> supportTicket list" where
  "newly_due h w s = filter (\<lambda>t. sla_due h w t \<and> \<not> hasEscalationForTicket (tk_ticketId t) (sv_escalations s))
     (listByStatus TICKET_OPEN (sv_tickets s))"

lemma hasEscalation_record:
  "hasEscalationForTicket i (sv_escalations (record_escalations [e] s)) \<longleftrightarrow>
     i = se_ticketId e \<or> hasEscalationForTicket i (sv_escalations s)"
  by (auto simp: record_escalations_def hasEscalationForTicket_def escalation_save_def)

lemma fold_evaluate_ticket:
  assumes "distinct (map tk_ticketId ts)"
  shows "fold (evaluate_ticket h uid w) ts (es, s) =
    (let new = map (escalation_for uid w)
       (filter (\<lambda>t. sla_due h w t \<and> \<not> hasEscalationForTicket (tk_ticketId t) (sv_escalations s)) ts)
     in (es @ new, record_escalations new s))"
  using assms
proof (induction ts arbitrary: es s)
  case Nil
  then show ?case by (simp add: record_escalations_simps)
next
  case (Cons t ts)
  let ?P = "\<lambda>s t. sla_due h w t \<and> \<not> hasEscalationForTicket (tk_ticketId t) (sv_escalations s)"
  let ?e = "escalation_for uid w t"
  have d: "distinct (map tk_ticketId ts)" using Cons.prems by simp
  show ?case
  proof (cases "?P s t")
    case True
    have step: "evaluate_ticket h uid w t (es, s) = (es @ [?e], record_escalations [?e] s)"
      using True by (simp add: evaluate_ticket_def record_escalations_def publish_all_def Let_def)
    have "filter (?P (record_escalations [?e] s)) ts = filter (?P s) ts"
      using Cons.prems by (intro filter_cong refl) (auto simp: hasEscalation_record escalation_for_def image_iff)
    then show ?thesis
      using True by (simp add: step Cons.IH [OF d] Let_def record_escalations_simps(2) [of ?e "map (escalation_for uid w) (filter (?P s) ts)"])
  next
    case False
    then have "evaluate_ticket h uid w t (es, s) = (es, s)" by (auto simp: evaluate_ticket_def)
    with False show ?thesis by (auto simp: Cons.IH [OF d] Let_def)
  qed
qed

lemma filter_map_values_distinct:
  assumes "map_wf m" "tickets.keys_agree m"
  shows "distinct (map tk_ticketId (filter P (map_values m)))"
proof -
  have "map tk_ticketId (map_values m) = map_keys m"
    using assms map_wf_get [OF assms(1)]
    by (auto simp: map_values_def map_keys_def tickets.keys_agree_def ticket_findById_def intro!: map_cong)
  then show ?thesis using assms(1) by (metis distinct_map_filter map_wf_def)
qed

definition escalations_ok :: "support_service \<Rightarrow> bool" where
  "escalations_ok s =
     (map_wf (sv_tickets s) \<and> tickets.keys_agree (sv_tickets s) \<and>
      er_ticketEscalationIndex (sv_escalations s) = map se_ticketId (escalation_list (sv_escalations s)) \<and>
      distinct (er_ticketEscalationIndex (sv_escalations s)) \<and>
      events_of_type ''support.ticket_escalated.v1'' (bus_events (sv_eventBus s)) = map escalation_event (escalation_list (sv_escalations s)))"

lemma evaluateEscalations_result:
  assumes "escalations_ok s" "host_getTime h w = Some t"
  shows "evaluateEscalations h uid w s =
    (Inr \<lparr>sx_evaluatedAt = host_toISOString h t, sx_escalations = map (escalation_for uid (host_toISOString h t)) (newly_due h (host_toISOString h t) s)\<rparr>,
     record_escalations (map (escalation_for uid (host_toISOString h t)) (newly_due h (host_toISOString h t) s)) s)"
proof -
  have "distinct (map tk_ticketId (listByStatus TICKET_OPEN (sv_tickets s)))"
    using assms(1) unfolding listByStatus_def escalations_ok_def by (intro filter_map_values_distinct) blast+
  then show ?thesis
    using assms(2) by (simp add: evaluateEscalations_def fold_evaluate_ticket newly_due_def Let_def)
qed

text \<open>Recording escalations with new identifiers, for tickets without one.\<close>

lemma record_escalations_list:
  assumes "distinct (map se_escalationId es)"
    and "\<forall>e \<in> set es. map_get (er_escalations (sv_escalations s)) (se_escalationId e) = None"
  shows "escalation_list (sv_escalations (record_escalations es s)) = escalation_list (sv_escalations s) @ es"
  using assms
proof (induction es arbitrary: s)
  case Nil
  then show ?case by (simp add: record_escalations_simps)
next
  case (Cons e es)
  have "escalation_list (sv_escalations (record_escalations [e] s)) = escalation_list (sv_escalations s) @ [e]"
    using Cons.prems(2)
    by (simp add: record_escalations_def escalation_list_def escalation_save_def map_set_new map_values_def)
  moreover have "\<forall>x \<in> set es. map_get (er_escalations (sv_escalations (record_escalations [e] s))) (se_escalationId x) = None"
    using Cons.prems by (auto simp: record_escalations_def escalation_save_def map_get_set image_iff)
  ultimately show ?case
    using Cons.IH [of "record_escalations [e] s"] Cons.prems(1) by (simp add: record_escalations_simps(2) [of e es])
qed

lemma record_escalations_index:
  assumes "distinct (map se_ticketId es)" "set (map se_ticketId es) \<inter> set (er_ticketEscalationIndex (sv_escalations s)) = {}"
  shows "er_ticketEscalationIndex (sv_escalations (record_escalations es s)) =
    er_ticketEscalationIndex (sv_escalations s) @ map se_ticketId es"
  using assms
proof (induction es arbitrary: s)
  case Nil
  then show ?case by (simp add: record_escalations_simps)
next
  case (Cons e es)
  have i: "er_ticketEscalationIndex (sv_escalations (record_escalations [e] s)) = er_ticketEscalationIndex (sv_escalations s) @ [se_ticketId e]"
    using Cons.prems(2) by (simp add: record_escalations_def escalation_save_def set_add_def)
  then show ?case
    using Cons.IH [of "record_escalations [e] s"] Cons.prems by (simp add: record_escalations_simps(2) [of e es] i)
qed

lemma newly_due_distinct:
  assumes "escalations_ok s" shows "distinct (map tk_ticketId (newly_due h w s))"
  using assms unfolding newly_due_def listByStatus_def filter_filter escalations_ok_def
  by (intro filter_map_values_distinct) blast+

lemma evaluate_record:
  assumes s: "escalations_ok s" and u: "fresh_escalations uid s"
    and es: "es = map (escalation_for uid w) (newly_due h w s)"
  shows "escalation_list (sv_escalations (record_escalations es s)) = escalation_list (sv_escalations s) @ es"
    and "escalations_ok (record_escalations es s)"
    and "map se_ticketId es = map tk_ticketId (newly_due h w s)"
proof -
  let ?ts = "newly_due h w s"
  have ids: "map se_ticketId es = map tk_ticketId ?ts" by (simp add: es escalation_for_def comp_def)
  have keys: "\<forall>t \<in> set ?ts. tk_ticketId t \<in> set (map_keys (sv_tickets s))"
  proof
    fix t assume "t \<in> set ?ts"
    then have "t \<in> set (map_values (sv_tickets s))" by (simp add: newly_due_def listByStatus_def)
    then obtain i where i: "ticket_findById i (sv_tickets s) = Some t"
      using s tickets.all_records_iff by (auto simp: escalations_ok_def)
    then have "tk_ticketId t = i" using s by (auto simp: escalations_ok_def tickets.keys_agree_def)
    with i show "tk_ticketId t \<in> set (map_keys (sv_tickets s))" by (simp add: set_map_keys ticket_findById_def)
  qed
  have d: "distinct (map tk_ticketId ?ts)" using s by (rule newly_due_distinct)
  have "distinct (map se_escalationId es)"
    using d u keys by (auto simp: es escalation_for_def comp_def distinct_map inj_on_def fresh_escalations_def)
  moreover have "\<forall>e \<in> set es. map_get (er_escalations (sv_escalations s)) (se_escalationId e) = None"
    using u keys by (auto simp: es escalation_for_def fresh_escalations_def)
  ultimately show l: "escalation_list (sv_escalations (record_escalations es s)) = escalation_list (sv_escalations s) @ es"
    by (rule record_escalations_list)
  have dis: "set (map se_ticketId es) \<inter> set (er_ticketEscalationIndex (sv_escalations s)) = {}"
    unfolding ids by (auto simp: newly_due_def hasEscalationForTicket_def)
  have x: "er_ticketEscalationIndex (sv_escalations (record_escalations es s)) =
      er_ticketEscalationIndex (sv_escalations s) @ map se_ticketId es"
    by (rule record_escalations_index) (use d ids dis in simp_all)
  have e: "events_of_type ''support.ticket_escalated.v1'' (map escalation_event es) = map escalation_event es"
    by (simp add: events_of_type_def filter_map escalation_event_def comp_def)
  have "distinct (er_ticketEscalationIndex (sv_escalations s) @ map se_ticketId es)"
  proof -
    have "distinct (er_ticketEscalationIndex (sv_escalations s))" using s unfolding escalations_ok_def by blast
    then show ?thesis using d dis unfolding distinct_append ids by (simp add: Int_commute)
  qed
  then show "escalations_ok (record_escalations es s)"
    using s x l e by (simp add: escalations_ok_def record_escalations_simps) (simp add: record_escalations_def)
  show "map se_ticketId es = map tk_ticketId ?ts" by (rule ids)
qed

lemma support_step_ok:
  assumes "escalations_ok s" "support_op_ok op s" shows "escalations_ok (support_step op s)"
proof (cases op)
  case (OpTicket now uid inp)
  with assms show ?thesis
    by (auto simp: createTicket_def escalations_ok_def Let_def tickets.wf_save tickets.keys_agree_save)
next
  case (OpEvaluate h uid w)
  show ?thesis
  proof (cases "host_getTime h w")
    case None
    with assms OpEvaluate show ?thesis by (simp add: evaluateEscalations_def)
  next
    case (Some t)
    with assms OpEvaluate show ?thesis by (simp add: evaluateEscalations_result evaluate_record(2) [OF _ _ refl])
  qed
next
  case (OpSupportElsewhere e)
  with assms show ?thesis by (auto simp: escalations_ok_def)
qed

lemma support_run_ok: "escalations_ok s \<Longrightarrow> support_ops_ok ops s \<Longrightarrow> escalations_ok (fold support_step ops s)"
  by (induction ops arbitrary: s) (simp_all add: support_step_ok)

lemma support_init_ok: "escalations_ok support_init"
  by (simp add: escalations_ok_def support_init_def tickets.keys_agree_fresh escalation_list_def map_values_def)

section \<open>Properties\<close>

text \<open>In every reachable state an evaluation of the service level at a valid time escalates exactly the open
  tickets that are due and have no escalation, in the order of the tickets; no ticket ever has two
  escalations, the escalations announced are those recorded, and evaluating the same time again
  escalates nothing.\<close>

lemma sla_escalates_once:
  assumes "support_ops_ok ops support_init" and "s = fold support_step ops support_init"
    and "fresh_escalations uid s" and "host_getTime h w = Some t"
    and "evaluateEscalations h uid w s = (Inr res, s')"
  shows "map se_ticketId (sx_escalations res) = map tk_ticketId (newly_due h (host_toISOString h t) s) \<and>
    escalation_list (sv_escalations s') = escalation_list (sv_escalations s) @ sx_escalations res \<and>
    distinct (map se_ticketId (escalation_list (sv_escalations s'))) \<and>
    events_of_type ''support.ticket_escalated.v1'' (bus_events (sv_eventBus s')) = map escalation_event (escalation_list (sv_escalations s')) \<and>
    (\<exists>res'. evaluateEscalations h uid' w s' = (Inr res', s') \<and> sx_escalations res' = [])"
proof -
  let ?w = "host_toISOString h t"
  let ?es = "map (escalation_for uid ?w) (newly_due h ?w s)"
  have s: "escalations_ok s" unfolding assms(2) by (rule support_run_ok [OF support_init_ok assms(1)])
  note r = evaluate_record [OF s assms(3) refl, where h = h and w = ?w]
  have res: "sx_escalations res = ?es" and s': "s' = record_escalations ?es s"
    using assms(5) by (auto simp: evaluateEscalations_result [OF s assms(4)])
  have "tk_ticketId v \<in> set (er_ticketEscalationIndex (sv_escalations s'))" if "v \<in> set (newly_due h ?w s)" for v
  proof -
    have "tk_ticketId v \<in> set (map se_ticketId ?es)" unfolding r(3) using that by simp
    then show ?thesis using r(1,2) unfolding s' escalations_ok_def by auto
  qed
  moreover have "set (er_ticketEscalationIndex (sv_escalations s)) \<subseteq> set (er_ticketEscalationIndex (sv_escalations s'))"
    using s r(1,2) unfolding s' escalations_ok_def by auto
  ultimately have none: "newly_due h ?w s' = []"
    by (fastforce simp: newly_due_def s' record_escalations_simps filter_empty_conv hasEscalationForTicket_def)
  have "evaluateEscalations h uid' w s' = (Inr \<lparr>sx_evaluatedAt = ?w, sx_escalations = []\<rparr>, s')"
    unfolding evaluateEscalations_result [OF r(2) [folded s'] assms(4)] none by (simp add: record_escalations_simps)
  moreover have ok: "escalations_ok s'" unfolding s' by (rule r(2))
  moreover have "distinct (map se_ticketId (escalation_list (sv_escalations s')))"
    using ok unfolding escalations_ok_def by metis
  moreover have "escalation_list (sv_escalations s') = escalation_list (sv_escalations s) @ sx_escalations res"
    unfolding s' res by (rule r(1))
  moreover have "map se_ticketId (sx_escalations res) = map tk_ticketId (newly_due h ?w s)" unfolding res by (rule r(3))
  ultimately show ?thesis unfolding escalations_ok_def by auto
qed

definition demo_ticket_op :: support_op where
  "demo_ticket_op = OpTicket ''0'' ''t1'' \<lparr>ct_orderId = ''o1'', ct_actorId = ''ann'', ct_issueType = ''LATE_DELIVERY'', ct_summary = ''late''\<rparr>"

definition demo_sla_host :: host where
  "demo_sla_host = epoch_host\<lparr>host_toISOString := (\<lambda>t. ''1800000'')\<rparr>"

lemma sla_escalates_once_witness:
  "\<exists>res s'. evaluateEscalations demo_sla_host (\<lambda>i. ''e'' @ i) ''1800000'' (fold support_step [demo_ticket_op] support_init) = (Inr res, s') \<and>
     map se_ticketId (sx_escalations res) = [''t1'']"
proof -
  let ?s = "fold support_step [demo_ticket_op] support_init"
  have s: "?s = support_init\<lparr>sv_tickets := [(''t1'', \<lparr>tk_ticketId = ''t1'', tk_orderId = ''o1'', tk_actorId = ''ann'',
      tk_issueType = ''LATE_DELIVERY'', tk_summary = ''late'', tk_status = TICKET_OPEN, tk_createdAt = ''0'', tk_updatedAt = ''0''\<rparr>)]\<rparr>"
    by (simp add: demo_ticket_op_def createTicket_def ticket_save_def support_init_def map_set_def Let_def)
  have ok: "support_ops_ok [demo_ticket_op] support_init" by (simp add: demo_ticket_op_def support_init_def ticket_findById_def)
  have fresh: "fresh_escalations (\<lambda>i. ''e'' @ i) ?s"
    unfolding s by (simp add: fresh_escalations_def support_init_def map_keys_def)
  have t: "host_getTime demo_sla_host ''1800000'' = Some 1800000" "host_getTime demo_sla_host ''0'' = Some 0"
    by (simp_all add: demo_sla_host_def epoch_host_def is_digit_char_def digit_value_def digits_value_def)
  obtain res s' where r: "evaluateEscalations demo_sla_host (\<lambda>i. ''e'' @ i) ''1800000'' ?s = (Inr res, s')"
    using evaluateEscalations_result [OF support_run_ok [OF support_init_ok ok] t(1)] by blast
  have due: "sla_due demo_sla_host ''1800000'' \<lparr>tk_ticketId = ''t1'', tk_orderId = ''o1'', tk_actorId = ''ann'',
      tk_issueType = ''LATE_DELIVERY'', tk_summary = ''late'', tk_status = TICKET_OPEN, tk_createdAt = ''0'', tk_updatedAt = ''0''\<rparr>"
  proof -
    have "num_sub (Fin 1800000) (Fin 0) = Fin 1800000" using num_sub_int [of 1800000 0] by simp
    moreover have "num_div (Fin 1800000) (Fin 60000) = Fin 30" using double_of_int [of 30] by simp
    ultimately show ?thesis
      by (simp add: sla_due_def ageMinutes_def date_num_def t obj_lookup_def issueTypeSlaMinutes_def)
  qed
  have "host_toISOString demo_sla_host 1800000 = ''1800000''" by (simp add: demo_sla_host_def)
  then have "map tk_ticketId (newly_due demo_sla_host (host_toISOString demo_sla_host 1800000) ?s) = [''t1'']"
    using due unfolding s
    by (simp add: newly_due_def listByStatus_def map_values_def support_init_def hasEscalationForTicket_def)
  then show ?thesis using sla_escalates_once [OF ok refl fresh t(1) r] r by auto
qed

text \<open>The timeline of a ticket holds exactly the timeline entries of its order and the audit records of the
  order's payments, each once, sorted by time; an unknown ticket is an error.\<close>

lemma correlated_timeline_complete:
  assumes "consistent_collation h"
  shows "case core_timeline h ticketId c s of
      Inl e \<Rightarrow> e = SupportTicketNotFound ticketId \<and> ticket_findById ticketId (sv_tickets s) = None
    | Inr view \<Rightarrow>
        ticket_findById ticketId (sv_tickets s) = Some (tv_ticket view) \<and>
        sorted_wrt (\<lambda>a b. \<not> locale_gt h (sy_occurredAt a) (sy_occurredAt b)) (tv_entries view) \<and>
        mset (filter (\<lambda>e. sy_sourceType e = ORDER_TIMELINE) (tv_entries view)) =
          mset (map order_timeline_entry (timeline_getByOrderId (tk_orderId (tv_ticket view)) (nullish (os_timeline (cs_orders c)) []))) \<and>
        mset (filter (\<lambda>e. sy_sourceType e = PAYMENT_AUDIT) (tv_entries view)) =
          mset (map payment_audit_entry (getAuditTrail (tk_orderId (tv_ticket view)) (cs_payments c)))"
proof (cases "ticket_findById ticketId (sv_tickets s)")
  case None
  then show ?thesis by (simp add: core_timeline_def getCorrelatedTimeline_def)
next
  case (Some ticket)
  let ?os = "map order_timeline_entry (timeline_getByOrderId (tk_orderId ticket) (nullish (os_timeline (cs_orders c)) []))"
  let ?ps = "map payment_audit_entry (getAuditTrail (tk_orderId ticket) (cs_payments c))"
  let ?gt = "\<lambda>a b. locale_gt h (sy_occurredAt a) (sy_occurredAt b)"
  have view: "core_timeline h ticketId c s = Inr \<lparr>tv_ticket = ticket, tv_entries = js_sort ?gt (?os @ ?ps)\<rparr>"
    using Some by (simp add: core_timeline_def getCorrelatedTimeline_def)
  have sorted: "sorted_wrt (\<lambda>a b. \<not> ?gt a b) (js_sort ?gt (?os @ ?ps))"
    by (rule comparator_contract.sorted_js_sort [OF consistent_collation_comparator [OF assms]])
  have "filter (\<lambda>e. sy_sourceType e = ORDER_TIMELINE) (?os @ ?ps) = ?os" "filter (\<lambda>e. sy_sourceType e = PAYMENT_AUDIT) (?os @ ?ps) = ?ps"
    by (simp_all add: filter_map comp_def order_timeline_entry_def payment_audit_entry_def)
  then have "mset (filter (\<lambda>e. sy_sourceType e = ORDER_TIMELINE) (js_sort ?gt (?os @ ?ps))) = mset ?os"
    "mset (filter (\<lambda>e. sy_sourceType e = PAYMENT_AUDIT) (js_sort ?gt (?os @ ?ps))) = mset ?ps"
    by (metis mset_filter mset_js_sort)+
  then show ?thesis using Some sorted unfolding view by simp
qed

definition demo_core :: core_services where
  "demo_core = \<lparr>cs_orders = fold order_step demo_order_ops demo_order_start,
     cs_payments = (payment_init [])\<lparr>py_audit := [\<lparr>pa_auditEventId = ''a1'', pa_orderId = ''o1'', pa_actionType = ''PAYMENT_AUTHORIZED'',
       pa_targetId = ''p1'', pa_reasonCode = ''PAYMENT_AUTHORIZED'', pa_timestamp = ''2'', pa_metadata = []\<rparr>]\<rparr>\<rparr>"

definition demo_support :: support_service where
  "demo_support = support_init\<lparr>sv_tickets := [(''t1'', \<lparr>tk_ticketId = ''t1'', tk_orderId = ''o1'', tk_actorId = ''ann'',
      tk_issueType = ''LATE_DELIVERY'', tk_summary = ''late'', tk_status = TICKET_OPEN, tk_createdAt = ''0'', tk_updatedAt = ''0''\<rparr>)]\<rparr>"

lemma correlated_timeline_complete_witness:
  "\<exists>view. core_timeline epoch_host ''t1'' demo_core demo_support = Inr view \<and>
     sorted_wrt (\<lambda>a b. \<not> locale_gt epoch_host (sy_occurredAt a) (sy_occurredAt b)) (tv_entries view) \<and>
     mset (filter (\<lambda>e. sy_sourceType e = PAYMENT_AUDIT) (tv_entries view)) =
       mset (map payment_audit_entry (getAuditTrail ''o1'' (cs_payments demo_core)))"
proof -
  have t: "ticket_findById ''t1'' (sv_tickets demo_support) \<noteq> None" by (simp add: demo_support_def ticket_findById_def map_get_def)
  have o1: "tk_orderId v = ''o1''" if "ticket_findById ''t1'' (sv_tickets demo_support) = Some v" for v
    using that by (auto simp: demo_support_def ticket_findById_def map_get_def)
  show ?thesis
    using correlated_timeline_complete [OF epoch_host_consistent, where ticketId = "''t1''" and c = demo_core and s = demo_support] t o1
    by (auto split: sum.splits)
qed

section \<open>Interventions through the wired services\<close>

abbreviation interventions_of :: "core_services \<Rightarrow> domain_event list" where
  "interventions_of c \<equiv> events_of_type ''support.intervention_executed.v1'' (bus_events (os_eventBus (cs_orders c)))"

lemma shared_on_orders: "shared (snd (on_orders f c))"
  by (simp add: shared_def on_orders_def split: prod.split)

lemma core_publish_simps:
  assumes "shared c"
  shows "shared (core_publish e c)" "interventions_of (core_publish e c) = interventions_of c @ events_of_type ''support.intervention_executed.v1'' [e]"
    "os_orders (cs_orders (core_publish e c)) = os_orders (cs_orders c)"
    "py_refunds (cs_payments (core_publish e c)) = py_refunds (cs_payments c)"
  using assms by (simp_all add: core_publish_def on_payments_def shared_def payment_publish_def)

text \<open>Neither service publishes an intervention.\<close>

lemma requestCancellation_no_intervention:
  "events_of_type ''support.intervention_executed.v1'' (bus_events (os_eventBus (snd (requestCancellation now i inp s)))) =
   events_of_type ''support.intervention_executed.v1'' (bus_events (os_eventBus s))"
  by (simp add: requestCancellation_def Let_def publishEvent_def store_order_def cancel_event_def split: option.split)

lemma requestRefund_no_intervention:
  "py_orders (snd (requestRefund now uid aid inp s)) = py_orders s"
  "events_of_type ''support.intervention_executed.v1'' (bus_events (py_eventBus (snd (requestRefund now uid aid inp s)))) =
   events_of_type ''support.intervention_executed.v1'' (bus_events (py_eventBus s))"
  by (simp_all add: requestRefund_def Let_def payment_frames store_refund_frame split: option.split) (simp add: audit_event_def)

lemma core_requestCancellation_frame:
  assumes "shared c"
  shows "shared (snd (core_requestCancellation now i r c))" "interventions_of (snd (core_requestCancellation now i r c)) = interventions_of c"
proof -
  show "shared (snd (core_requestCancellation now i r c))" by (simp add: core_requestCancellation_def shared_on_orders)
  show "interventions_of (snd (core_requestCancellation now i r c)) = interventions_of c"
    using requestCancellation_no_intervention [of now i "\<lparr>rci_actor = BySupportAgent, rci_reasonCode = r\<rparr>" "cs_orders c"]
    by (cases "requestCancellation now i \<lparr>rci_actor = BySupportAgent, rci_reasonCode = r\<rparr> (cs_orders c)")
      (simp add: core_requestCancellation_def on_orders_def)
qed

lemma core_requestRefund_frame:
  assumes "shared c"
  shows "shared (snd (core_requestRefund now u a inp c))" "interventions_of (snd (core_requestRefund now u a inp c)) = interventions_of c"
  using requestRefund_no_intervention [of now u a inp "cs_payments c"] assms
  by (cases "requestRefund now u a inp (cs_payments c)"; simp add: core_requestRefund_def on_payments_def shared_def)+

lemma core_cancel_result:
  assumes "core_requestCancellation now i r c = (Inr st, c')"
  shows "\<exists>v. order_findById i (os_orders (cs_orders c)) = Some v \<and>
    (or_status v = CANCELLED \<and> os_orders (cs_orders c') = os_orders (cs_orders c) \<or>
     or_status v \<in> cancellationPolicy BySupportAgent \<and>
     os_orders (cs_orders c') = order_save (v\<lparr>or_status := CANCELLED, or_cancellationReason := Some r,
        or_cancelledBy := Some ''support_agent'', or_updatedAt := now\<rparr>) (os_orders (cs_orders c)))"
  using assms
  by (auto simp: core_requestCancellation_def on_orders_def requestCancellation_def Let_def publishEvent_def store_order_def actor_name_def
      split: option.splits if_splits)

lemma requestRefund_stored:
  "succeeded (requestRefund now u a inp s) \<Longrightarrow>
   \<exists>r. refund_findById u (py_refunds (snd (requestRefund now u a inp s))) = Some r \<and> rf_status r = REFUND_REQUESTED \<and>
     rf_orderId r = rri_orderId inp \<and> rf_paymentIntentId r = rri_paymentIntentId inp \<and> rf_amount r = rri_amount inp \<and>
     rf_requestedBy r = rri_requestedBy inp"
  unfolding requestRefund_def Let_def
  by (auto simp: payment_frames refunds.find_save split: option.splits if_splits)

lemma core_refund_result:
  assumes "core_requestRefund now u a inp c = (Inr st, c')"
  shows "\<exists>r. refund_findById u (py_refunds (cs_payments c')) = Some r \<and> rf_status r = REFUND_REQUESTED \<and>
    rf_orderId r = rri_orderId inp \<and> rf_paymentIntentId r = rri_paymentIntentId inp \<and> rf_amount r = rri_amount inp \<and>
    rf_requestedBy r = rri_requestedBy inp"
proof -
  obtain rs py where e: "requestRefund now u a inp (cs_payments c) = (rs, py)" by fastforce
  then have p: "cs_payments c' = py" and rs: "succeeded (rs, py)"
    using assms by (auto simp: core_requestRefund_def on_payments_def) (cases rs, auto)
  show ?thesis
    using requestRefund_stored [of now u a inp "cs_payments c"] rs unfolding e p by simp
qed

text \<open>The three ways an intervention goes.\<close>

lemma core_intervention_cases:
  assumes "core_intervention n1 u a n2 inp c = (r, c')"
  obtains (failed) e where "r = Inl e" "e = InvalidIntervention \<longrightarrow> c' = c"
      "c' = c \<or> (\<exists>x. core_requestCancellation n1 (xi_orderId inp) (xi_reasonCode inp) c = (x, c')) \<or> (\<exists>i x. core_requestRefund n1 u a i c = (x, c'))"
  | (queued) x where "r = Inr x" "xi_actionType inp = REASSIGN_COURIER" "xr_status x = INTERVENTION_QUEUED"
      "c' = core_publish (intervention_event n2 inp INTERVENTION_QUEUED) c"
  | (cancelled) x st c1 where "r = Inr x" "xi_actionType inp = CANCEL_ORDER" "xr_status x = INTERVENTION_COMPLETED"
      "core_requestCancellation n1 (xi_orderId inp) (xi_reasonCode inp) c = (Inr st, c1)"
      "c' = core_publish (intervention_event n2 inp INTERVENTION_COMPLETED) c1"
  | (refunded) x st c1 p m where "r = Inr x" "xi_actionType inp = REFUND_PAYMENT" "xr_status x = INTERVENTION_COMPLETED"
      "xi_paymentIntentId inp = Some p" "xi_refundAmount inp = Some m"
      "core_requestRefund n1 u a \<lparr>rri_orderId = xi_orderId inp, rri_paymentIntentId = p, rri_amount = m,
         rri_reasonCode = xi_reasonCode inp, rri_requestedBy = xi_actorId inp\<rparr> c = (Inr st, c1)"
      "c' = core_publish (intervention_event n2 inp INTERVENTION_COMPLETED) c1"
proof (cases "xi_actionType inp")
  case CANCEL_ORDER
  obtain q d where q: "core_requestCancellation n1 (xi_orderId inp) (xi_reasonCode inp) c = (q, d)" by fastforce
  show thesis
  proof (cases q)
    case (Inl e)
    then show thesis using assms CANCEL_ORDER q by (intro failed [of "FromDependency e"]) (simp_all add: core_intervention_def execute_intervention_def)
  next
    case (Inr st)
    then show thesis
      using assms CANCEL_ORDER q by (intro cancelled [of _ st d])
        (auto simp: core_intervention_def execute_intervention_def publishCompleted_def)
  qed
next
  case REFUND_PAYMENT
  show thesis
  proof (cases "\<exists>p m. xi_paymentIntentId inp = Some p \<and> xi_refundAmount inp = Some m \<and> \<not> (p = [] \<or> num_le m (Fin 0))")
    case False
    then show thesis
      using assms REFUND_PAYMENT by (intro failed [of InvalidIntervention])
        (auto simp: core_intervention_def execute_intervention_def split: option.splits if_splits)
  next
    case True
    then obtain p m where pm: "xi_paymentIntentId inp = Some p" "xi_refundAmount inp = Some m" "\<not> (p = [] \<or> num_le m (Fin 0))" by blast
    let ?i = "\<lparr>rri_orderId = xi_orderId inp, rri_paymentIntentId = p, rri_amount = m,
         rri_reasonCode = xi_reasonCode inp, rri_requestedBy = xi_actorId inp\<rparr>"
    obtain q d where q: "core_requestRefund n1 u a ?i c = (q, d)" by fastforce
    show thesis
    proof (cases q)
      case (Inl e)
      then show thesis using assms REFUND_PAYMENT pm q
        by (intro failed [of "FromDependency e"]) (auto simp: core_intervention_def execute_intervention_def)
    next
      case (Inr st)
      then show thesis using assms REFUND_PAYMENT pm q
        by (intro refunded [of _ p m st d]) (auto simp: core_intervention_def execute_intervention_def publishCompleted_def)
    qed
  qed
next
  case REASSIGN_COURIER
  then show thesis using assms by (intro queued) (auto simp: core_intervention_def execute_intervention_def)
qed

text \<open>A support intervention that fails announces nothing, and one refused for its payload changes nothing.
  One that succeeds announces exactly itself, with the status it returns: a cancellation leaves the order
  cancelled for the order and the payment service alike, a refund leaves a requested refund of the amount
  and the actor under the new identifier, and a courier reassignment is only queued.\<close>

lemma intervention_effects:
  assumes "shared c" and "orders.keys_agree (os_orders (cs_orders c))"
    and "core_intervention n1 u a n2 inp c = (r, c')"
  shows "shared c' \<and> (case r of
      Inl e \<Rightarrow> interventions_of c' = interventions_of c \<and> (e = InvalidIntervention \<longrightarrow> c' = c)
    | Inr x \<Rightarrow>
        interventions_of c' = interventions_of c @ [intervention_event n2 inp (xr_status x)] \<and>
        (case xi_actionType inp of
           CANCEL_ORDER \<Rightarrow> xr_status x = INTERVENTION_COMPLETED \<and>
             (\<exists>v. order_findById (xi_orderId inp) (os_orders (cs_orders c')) = Some v \<and> or_status v = CANCELLED \<and>
                  order_findById (xi_orderId inp) (py_orders (cs_payments c')) = Some v)
         | REFUND_PAYMENT \<Rightarrow> xr_status x = INTERVENTION_COMPLETED \<and>
             (\<exists>f. refund_findById u (py_refunds (cs_payments c')) = Some f \<and> rf_status f = REFUND_REQUESTED \<and>
                  rf_orderId f = xi_orderId inp \<and> Some (rf_amount f) = xi_refundAmount inp \<and> rf_requestedBy f = xi_actorId inp)
         | REASSIGN_COURIER \<Rightarrow> xr_status x = INTERVENTION_QUEUED \<and> os_orders (cs_orders c') = os_orders (cs_orders c)))"
  using assms(3)
proof (cases rule: core_intervention_cases)
  case (failed e)
  then show ?thesis
    using assms(1) core_requestCancellation_frame [OF assms(1), of n1 "xi_orderId inp" "xi_reasonCode inp"]
      core_requestRefund_frame [OF assms(1), of n1 u a] by (auto, metis snd_conv, metis snd_conv)
next
  case (queued x)
  then show ?thesis using assms(1) by (simp add: core_publish_simps intervention_event_def)
next
  case (cancelled x st c1)
  note f = core_requestCancellation_frame [OF assms(1), of n1 "xi_orderId inp" "xi_reasonCode inp", unfolded cancelled(4) snd_conv]
  obtain v where v: "order_findById (xi_orderId inp) (os_orders (cs_orders c1)) = Some v" "or_status v = CANCELLED"
    using core_cancel_result [OF cancelled(4)] assms(2) by (fastforce simp: orders.find_save orders.keys_agree_def)
  have "shared c'" "interventions_of c' = interventions_of c @ [intervention_event n2 inp INTERVENTION_COMPLETED]"
    "os_orders (cs_orders c') = os_orders (cs_orders c1)"
    unfolding cancelled(5) using core_publish_simps [OF f(1)] f(2) by (simp_all add: intervention_event_def)
  then show ?thesis using cancelled(1-3) v by (simp add: shared_def)
next
  case (refunded x st c1 p m)
  note f = core_requestRefund_frame [OF assms(1), of n1 u a, where inp = "\<lparr>rri_orderId = xi_orderId inp, rri_paymentIntentId = p,
    rri_amount = m, rri_reasonCode = xi_reasonCode inp, rri_requestedBy = xi_actorId inp\<rparr>", unfolded refunded(6) snd_conv]
  have "shared c'" "interventions_of c' = interventions_of c @ [intervention_event n2 inp INTERVENTION_COMPLETED]"
    "py_refunds (cs_payments c') = py_refunds (cs_payments c1)"
    unfolding refunded(7) using core_publish_simps [OF f(1)] f(2) by (simp_all add: intervention_event_def)
  then show ?thesis using refunded(1-3,5) core_refund_result [OF refunded(6)] by auto
qed

definition demo_wired :: core_services where
  "demo_wired = \<lparr>cs_orders = (order_init [] None empty_bus (Some []))\<lparr>os_orders := [(''o1'', accepted_order)]\<rparr>,
     cs_payments = payment_init [(''o1'', accepted_order)]\<rparr>"

definition demo_intervention :: executeInterventionInput where
  "demo_intervention = \<lparr>xi_actionType = CANCEL_ORDER, xi_actorId = ''sam'', xi_orderId = ''o1'', xi_reasonCode = ''FRAUD'',
     xi_paymentIntentId = None, xi_refundAmount = None\<rparr>"

lemma intervention_effects_witness:
  "\<exists>v. order_findById ''o1'' (py_orders (cs_payments (snd (core_intervention ''1'' ''r'' ''a'' ''2'' demo_intervention demo_wired)))) = Some v \<and>
     or_status v = CANCELLED"
proof -
  have sh: "shared demo_wired" by (simp add: demo_wired_def shared_def order_init_def payment_init_def)
  have k: "orders.keys_agree (os_orders (cs_orders demo_wired))"
    by (simp add: demo_wired_def orders.keys_agree_def order_findById_def map_get_def demo_payment_simps)
  obtain r c' where r: "core_intervention ''1'' ''r'' ''a'' ''2'' demo_intervention demo_wired = (r, c')" by fastforce
  have "isl r = False"
    using r by (auto simp: core_intervention_def execute_intervention_def demo_intervention_def core_requestCancellation_def on_orders_def
        requestCancellation_def demo_wired_def order_findById_def map_get_def demo_payment_simps publishCompleted_def Let_def
        cancellationPolicy_def order_init_def)
  then obtain x where "r = Inr x" by (cases r) auto
  with intervention_effects [OF sh k r] r show ?thesis by (auto simp: demo_intervention_def)
qed

end
