(* ===== verification/Notifications.thy ===== *)
theory Notifications
  imports EventBus
begin

text \<open>
  Notifications (\<open>core-api/src/modules/notifications\<close>): the templates by event, actor and
  locale, the fan-out of an event over its channels with idempotency keys, the retries with
  exponential backoff up to the dead letters, and the delivery receipts.
\<close>

section \<open>Types\<close>

datatype notificationChannel = PUSH | SMS | EMAIL

definition channel_name :: "notificationChannel \<Rightarrow> string" where
  "channel_name c = (case c of PUSH \<Rightarrow> ''PUSH'' | SMS \<Rightarrow> ''SMS'' | EMAIL \<Rightarrow> ''EMAIL'')"

datatype notificationActor = ToConsumer | ToCourier | ToMerchantOperator | ToSupportAgent

definition notificationActor_name :: "notificationActor \<Rightarrow> string" where
  "notificationActor_name a = (case a of ToConsumer \<Rightarrow> ''consumer'' | ToCourier \<Rightarrow> ''courier''
     | ToMerchantOperator \<Rightarrow> ''merchant_operator'' | ToSupportAgent \<Rightarrow> ''support_agent'')"

record queueNotificationInput =
  qn_eventType :: string
  qn_entityId :: string
  qn_recipientId :: string
  qn_actorType :: "notificationActor option"
  qn_locale :: "string option"

record resolveTemplateInput =
  rt_eventType :: string
  rt_actorType :: notificationActor
  rt_locale :: string

text \<open>
  A locale of the request indexes the template set: it finds a template or, by the name of
  an inherited property, a value that is no template. \<open>template_text\<close> is its string in a
  template literal, which the language leaves open for a native value (\<open>native\<close>).
\<close>

datatype template_value = Template string | NativeValue string

definition template_text :: "(string \<Rightarrow> string) \<Rightarrow> template_value \<Rightarrow> string" where
  "template_text native v = (case v of Template k \<Rightarrow> k | NativeValue n \<Rightarrow> native n)"

record templateResolution =
  tr_templateKey :: template_value
  tr_localeUsed :: string
  tr_localizationWarning :: bool

record notificationQueueItem =
  nq_notificationId :: uuid
  nq_eventType :: string
  nq_entityId :: string
  nq_recipientId :: string
  nq_channel :: notificationChannel
  nq_templateKey :: template_value
  nq_idempotencyKey :: string
  nq_queuedAt :: iso_date

section \<open>Templates\<close>

definition defaultLocale :: string where
  "defaultLocale = ''en-US''"

definition templateCatalog :: "(string \<times> (string \<times> string) list) list" where
  "templateCatalog =
     [(''order.created.v1:consumer'',
        [(''en-US'', ''order.created.consumer.v1''), (''es-US'', ''order.created.consumer.v1.es'')]),
      (''dispatch.assignment.completed.v1:courier'', [(''en-US'', ''dispatch.assignment.completed.courier.v1'')]),
      (''support.ticket_escalated.v1:support_agent'', [(''en-US'', ''support.ticket_escalated.support.v1'')])]"

datatype notification_error = TemplateNotFound | NotIterable

definition template_event :: "iso_date \<Rightarrow> resolveTemplateInput \<Rightarrow> templateResolution \<Rightarrow> domain_event" where
  "template_event now inp r = mk_event ''notification.template_resolved.v1'' now
     ([(''eventType'', JStr (rt_eventType inp)), (''actorType'', JStr (notificationActor_name (rt_actorType inp))),
       (''requestedLocale'', JStr (rt_locale inp)), (''localeUsed'', JStr (tr_localeUsed r))] @
      (case tr_templateKey r of Template k \<Rightarrow> [(''templateKey'', JStr k)] | NativeValue n \<Rightarrow> []) @
      [(''localizationWarning'', JBool (tr_localizationWarning r))])"

text \<open>
  A key of the catalog has a colon, so \<open>catalogKey\<close> names no inherited property. In
  \<open>localized ?? fallback\<close> an inherited property is a value; no template is the empty string.
\<close>

definition resolveTemplate ::
  "iso_date \<Rightarrow> resolveTemplateInput \<Rightarrow> event_bus \<Rightarrow> (event_bus, notification_error, templateResolution) outcome" where
  "resolveTemplate now inp bus =
     (case map_of templateCatalog (rt_eventType inp @ '':'' @ notificationActor_name (rt_actorType inp)) of
        None \<Rightarrow> (Inl TemplateNotFound, bus)
      | Some templateSet \<Rightarrow>
          (let localized = (case obj_lookup templateSet (rt_locale inp) of
                 Own t \<Rightarrow> Some (Template t) | Inherited \<Rightarrow> Some (NativeValue (rt_locale inp)) | Missing \<Rightarrow> None);
               fallback = map_of templateSet defaultLocale
           in case (localized, fallback) of
                (None, None) \<Rightarrow> (Inl TemplateNotFound, bus)
              | _ \<Rightarrow>
                  (let r = \<lparr>tr_templateKey = nullish localized (Template (the fallback)),
                            tr_localeUsed = (if localized \<noteq> None then rt_locale inp else defaultLocale),
                            tr_localizationWarning = (localized = None)\<rparr>
                   in (Inr r, publish (template_event now inp r) bus))))"

section \<open>Fan-out\<close>

record queue_repo =
  qr_queue :: "(uuid, notificationQueueItem) jsmap"
  qr_idempotencyKeys :: "string list"

definition queue_save :: "notificationQueueItem \<Rightarrow> queue_repo \<Rightarrow> queue_repo" where
  "queue_save v r = \<lparr>qr_queue = map_set (nq_notificationId v) v (qr_queue r),
     qr_idempotencyKeys = set_add (nq_idempotencyKey v) (qr_idempotencyKeys r)\<rparr>"

definition hasIdempotencyKey :: "string \<Rightarrow> queue_repo \<Rightarrow> bool" where
  "hasIdempotencyKey k r = (k \<in> set (qr_idempotencyKeys r))"

definition queue_list :: "host \<Rightarrow> queue_repo \<Rightarrow> notificationQueueItem list" where
  "queue_list h r = js_sort (\<lambda>left right. locale_gt h (nq_queuedAt left) (nq_queuedAt right)) (map_values (qr_queue r))"

definition eventSubscriptions :: "(string \<times> notificationChannel list) list" where
  "eventSubscriptions =
     [(''order.created.v1'', [PUSH, SMS]),
      (''dispatch.assignment.completed.v1'', [PUSH]),
      (''support.ticket_escalated.v1'', [EMAIL])]"

record fanout_service =
  nf_queue :: queue_repo
  nf_eventBus :: event_bus
  nf_hasTemplateService :: bool

definition defaultActorType :: "string \<Rightarrow> notificationActor" where
  "defaultActorType eventType =
     (if startsWith eventType ''dispatch.'' then ToCourier
      else if startsWith eventType ''support.'' then ToSupportAgent
      else ToConsumer)"

definition idempotency_key :: "(string \<Rightarrow> string) \<Rightarrow> notificationChannel \<Rightarrow> template_value \<Rightarrow> string \<Rightarrow> string" where
  "idempotency_key native channel templateKey entityId =
     channel_name channel @ '':'' @ template_text native templateKey @ '':'' @ entityId"

definition queued_event :: "notificationQueueItem \<Rightarrow> domain_event" where
  "queued_event v = mk_event ''notification.queued.v1'' (nq_queuedAt v)
     [(''notificationId'', JStr (nq_notificationId v)), (''eventType'', JStr (nq_eventType v)),
      (''entityId'', JStr (nq_entityId v)), (''channel'', JStr (channel_name (nq_channel v)))]"

text \<open>The time and the identifier of the item of a channel come from \<open>clock\<close> and \<open>uid\<close>.\<close>

definition fanout_channel ::
  "(string \<Rightarrow> string) \<Rightarrow> (notificationChannel \<Rightarrow> iso_date) \<Rightarrow> (notificationChannel \<Rightarrow> uuid) \<Rightarrow> queueNotificationInput \<Rightarrow> template_value
     \<Rightarrow> notificationChannel \<Rightarrow> notificationQueueItem list \<times> fanout_service \<Rightarrow> notificationQueueItem list \<times> fanout_service" where
  "fanout_channel native clock uid inp templateKey channel acc =
     (case acc of (queued, s) \<Rightarrow>
        let idempotencyKey = idempotency_key native channel templateKey (qn_entityId inp)
        in if hasIdempotencyKey idempotencyKey (nf_queue s) then (queued, s)
           else
             let item = \<lparr>nq_notificationId = uid channel, nq_eventType = qn_eventType inp, nq_entityId = qn_entityId inp,
                         nq_recipientId = qn_recipientId inp, nq_channel = channel, nq_templateKey = templateKey,
                         nq_idempotencyKey = idempotencyKey, nq_queuedAt = clock channel\<rparr>
             in (queued @ [item], s\<lparr>nf_queue := queue_save item (nf_queue s), nf_eventBus := publish (queued_event item) (nf_eventBus s)\<rparr>))"

definition fanout_template ::
  "iso_date \<Rightarrow> queueNotificationInput \<Rightarrow> fanout_service \<Rightarrow> (fanout_service, notification_error, templateResolution) outcome" where
  "fanout_template now inp s =
     (if nf_hasTemplateService s
      then (case resolveTemplate now \<lparr>rt_eventType = qn_eventType inp,
                rt_actorType = nullish (qn_actorType inp) (defaultActorType (qn_eventType inp)),
                rt_locale = nullish (qn_locale inp) ''en-US''\<rparr> (nf_eventBus s) of
              (r, b) \<Rightarrow> (r, s\<lparr>nf_eventBus := b\<rparr>))
      else (Inr \<lparr>tr_templateKey = Template (qn_eventType inp), tr_localeUsed = nullish (qn_locale inp) ''en-US'',
                 tr_localizationWarning = False\<rparr>, s))"

definition fanout ::
  "(string \<Rightarrow> string) \<Rightarrow> iso_date \<Rightarrow> (notificationChannel \<Rightarrow> iso_date) \<Rightarrow> (notificationChannel \<Rightarrow> uuid) \<Rightarrow> queueNotificationInput
     \<Rightarrow> fanout_service \<Rightarrow> (fanout_service, notification_error, notificationQueueItem list) outcome" where
  "fanout native now clock uid inp s =
     (case fanout_template now inp s of
        (Inl e, s1) \<Rightarrow> (Inl e, s1)
      | (Inr r, s1) \<Rightarrow>
          (case obj_lookup eventSubscriptions (qn_eventType inp) of
             Inherited \<Rightarrow> (Inl NotIterable, s1)
           | lk \<Rightarrow>
               (case fold (fanout_channel native clock uid inp (tr_templateKey r))
                       (case lk of Own channels \<Rightarrow> channels | _ \<Rightarrow> []) ([], s1) of
                  (queued, s2) \<Rightarrow> (Inr queued, s2))))"

section \<open>Retries and dead letters\<close>

record handleFailureInput =
  hf_notificationId :: uuid
  hf_eventType :: string
  hf_channel :: notificationChannel
  hf_entityId :: string
  hf_currentAttempt :: nat
  hf_errorCode :: string
  hf_retriable :: bool

record notificationRetry =
  nr_retryId :: uuid
  nr_notificationId :: uuid
  nr_eventType :: string
  nr_channel :: notificationChannel
  nr_entityId :: string
  nr_attempt :: nat
  nr_delaySeconds :: jsnum
  nr_scheduledAt :: iso_date
  nr_errorCode :: string

datatype deadLetterReason = RETRY_CAP_REACHED | NON_RETRIABLE

definition deadLetterReason_name :: "deadLetterReason \<Rightarrow> string" where
  "deadLetterReason_name r = (case r of RETRY_CAP_REACHED \<Rightarrow> ''RETRY_CAP_REACHED'' | NON_RETRIABLE \<Rightarrow> ''NON_RETRIABLE'')"

record notificationDeadLetter =
  dl_deadLetterId :: uuid
  dl_notificationId :: uuid
  dl_eventType :: string
  dl_channel :: notificationChannel
  dl_entityId :: string
  dl_finalAttempt :: nat
  dl_reason :: deadLetterReason
  dl_errorCode :: string
  dl_createdAt :: iso_date

datatype retryDecision = Retry notificationRetry | DeadLetter notificationDeadLetter

record retry_repo =
  rp_retries :: "notificationRetry list"
  rp_deadLetters :: "notificationDeadLetter list"

definition saveRetry :: "notificationRetry \<Rightarrow> retry_repo \<Rightarrow> retry_repo" where
  "saveRetry v r = r\<lparr>rp_retries := rp_retries r @ [v]\<rparr>"

definition saveDeadLetter :: "notificationDeadLetter \<Rightarrow> retry_repo \<Rightarrow> retry_repo" where
  "saveDeadLetter v r = r\<lparr>rp_deadLetters := rp_deadLetters r @ [v]\<rparr>"

definition listRetries :: "retry_repo \<Rightarrow> notificationRetry list" where
  "listRetries r = rp_retries r"

definition listDeadLetters :: "retry_repo \<Rightarrow> notificationDeadLetter list" where
  "listDeadLetters r = rp_deadLetters r"

interpretation retry_log: append_log saveRetry listRetries
  by unfold_locales (simp add: saveRetry_def listRetries_def)

interpretation dead_letter_log: append_log saveDeadLetter listDeadLetters
  by unfold_locales (simp add: saveDeadLetter_def listDeadLetters_def)

text \<open>The attempts are natural numbers: the route lets only integers from 0 on pass.\<close>

record retry_service =
  ns_retries :: retry_repo
  ns_eventBus :: event_bus
  ns_maxRetries :: nat
  ns_baseDelaySeconds :: jsnum
  ns_maxBackoffSeconds :: jsnum

definition retry_init :: retry_service where
  "retry_init = \<lparr>ns_retries = \<lparr>rp_retries = [], rp_deadLetters = []\<rparr>, ns_eventBus = empty_bus, ns_maxRetries = 3,
     ns_baseDelaySeconds = num_int 10, ns_maxBackoffSeconds = num_int 300\<rparr>"

text \<open>\<open>2 ** n\<close>, infinite from \<open>2 ** 1024\<close> on.\<close>

definition num_pow2 :: "nat \<Rightarrow> jsnum" where
  "num_pow2 n = (if n < 1024 then Fin (2 ^ n) else PInf)"

definition retry_event :: "notificationRetry \<Rightarrow> domain_event" where
  "retry_event v = mk_event ''notification.retry_scheduled.v1'' (nr_scheduledAt v)
     [(''retryId'', JStr (nr_retryId v)), (''notificationId'', JStr (nr_notificationId v)),
      (''attempt'', JNum (num_int (int (nr_attempt v)))), (''delaySeconds'', JNum (nr_delaySeconds v))]"

definition dead_letter_event :: "notificationDeadLetter \<Rightarrow> domain_event" where
  "dead_letter_event v = mk_event ''notification.delivery_failed.v1'' (dl_createdAt v)
     [(''deadLetterId'', JStr (dl_deadLetterId v)), (''notificationId'', JStr (dl_notificationId v)),
      (''reason'', JStr (deadLetterReason_name (dl_reason v)))]"

definition handleFailure :: "iso_date \<Rightarrow> uuid \<Rightarrow> handleFailureInput \<Rightarrow> retry_service \<Rightarrow> retryDecision \<times> retry_service" where
  "handleFailure now uid inp s =
     (if hf_retriable inp \<and> hf_currentAttempt inp < ns_maxRetries s
      then
        let delaySeconds = math_min (num_mul (ns_baseDelaySeconds s) (num_pow2 (hf_currentAttempt inp))) (ns_maxBackoffSeconds s);
            retry = \<lparr>nr_retryId = uid, nr_notificationId = hf_notificationId inp, nr_eventType = hf_eventType inp,
                     nr_channel = hf_channel inp, nr_entityId = hf_entityId inp, nr_attempt = hf_currentAttempt inp + 1,
                     nr_delaySeconds = delaySeconds, nr_scheduledAt = now, nr_errorCode = hf_errorCode inp\<rparr>
        in (Retry retry, s\<lparr>ns_retries := saveRetry retry (ns_retries s), ns_eventBus := publish (retry_event retry) (ns_eventBus s)\<rparr>)
      else
        let deadLetter = \<lparr>dl_deadLetterId = uid, dl_notificationId = hf_notificationId inp, dl_eventType = hf_eventType inp,
                          dl_channel = hf_channel inp, dl_entityId = hf_entityId inp, dl_finalAttempt = hf_currentAttempt inp,
                          dl_reason = (if hf_retriable inp then RETRY_CAP_REACHED else NON_RETRIABLE),
                          dl_errorCode = hf_errorCode inp, dl_createdAt = now\<rparr>
        in (DeadLetter deadLetter, s\<lparr>ns_retries := saveDeadLetter deadLetter (ns_retries s),
              ns_eventBus := publish (dead_letter_event deadLetter) (ns_eventBus s)\<rparr>))"

section \<open>Receipts\<close>

datatype deliveryStatus = SENT | RECEIPT_DELIVERED | FAILED | ACKNOWLEDGED

definition deliveryStatus_name :: "deliveryStatus \<Rightarrow> string" where
  "deliveryStatus_name s = (case s of SENT \<Rightarrow> ''SENT'' | RECEIPT_DELIVERED \<Rightarrow> ''DELIVERED'' | FAILED \<Rightarrow> ''FAILED''
     | ACKNOWLEDGED \<Rightarrow> ''ACKNOWLEDGED'')"

record recordReceiptInput =
  ri_notificationId :: uuid
  ri_channel :: notificationChannel
  ri_entityId :: string
  ri_status :: deliveryStatus
  ri_providerMessageId :: "string option"

record deliveryReceipt =
  dr_receiptId :: uuid
  dr_notificationId :: uuid
  dr_channel :: notificationChannel
  dr_entityId :: string
  dr_status :: deliveryStatus
  dr_providerMessageId :: "string option"
  dr_recordedAt :: iso_date

type_synonym receipt_repo = "deliveryReceipt list"

definition receipt_save :: "deliveryReceipt \<Rightarrow> receipt_repo \<Rightarrow> receipt_repo" where
  "receipt_save v r = r @ [v]"

definition receipt_listByEntity :: "host \<Rightarrow> string \<Rightarrow> receipt_repo \<Rightarrow> deliveryReceipt list" where
  "receipt_listByEntity h entityId r = js_sort (\<lambda>left right. locale_gt h (dr_recordedAt left) (dr_recordedAt right))
     (filter (\<lambda>v. dr_entityId v = entityId) r)"

interpretation receipt_log: append_log receipt_save "\<lambda>r. r"
  by unfold_locales (simp add: receipt_save_def)

record receipt_service =
  rs_receipts :: receipt_repo
  rs_eventBus :: event_bus

definition receipt_event :: "deliveryReceipt \<Rightarrow> domain_event" where
  "receipt_event v = mk_event ''notification.delivery_recorded.v1'' (dr_recordedAt v)
     [(''receiptId'', JStr (dr_receiptId v)), (''notificationId'', JStr (dr_notificationId v)),
      (''channel'', JStr (channel_name (dr_channel v))), (''status'', JStr (deliveryStatus_name (dr_status v)))]"

definition recordReceipt :: "iso_date \<Rightarrow> uuid \<Rightarrow> recordReceiptInput \<Rightarrow> receipt_service \<Rightarrow> deliveryReceipt \<times> receipt_service" where
  "recordReceipt now uid inp s =
     (let receipt = \<lparr>dr_receiptId = uid, dr_notificationId = ri_notificationId inp, dr_channel = ri_channel inp,
                     dr_entityId = ri_entityId inp, dr_status = ri_status inp, dr_providerMessageId = ri_providerMessageId inp,
                     dr_recordedAt = now\<rparr>
      in (receipt, s\<lparr>rs_receipts := receipt_save receipt (rs_receipts s), rs_eventBus := publish (receipt_event receipt) (rs_eventBus s)\<rparr>))"

definition listReceiptsByEntity :: "host \<Rightarrow> string \<Rightarrow> receipt_service \<Rightarrow> deliveryReceipt list" where
  "listReceiptsByEntity h entityId s = receipt_listByEntity h entityId (rs_receipts s)"

section \<open>Templates: localized, default, or an error\<close>

lemma catalog_has_default: "map_of templateCatalog k = Some ts \<Longrightarrow> map_of ts defaultLocale \<noteq> None"
  by (auto simp: templateCatalog_def defaultLocale_def split: if_splits)

lemma resolveTemplate_cases:
  obtains (missing) "map_of templateCatalog (rt_eventType inp @ '':'' @ notificationActor_name (rt_actorType inp)) = None"
      "resolveTemplate now inp b = (Inl TemplateNotFound, b)"
  | (found) ts r where "map_of templateCatalog (rt_eventType inp @ '':'' @ notificationActor_name (rt_actorType inp)) = Some ts"
      "resolveTemplate now inp b = (Inr r, publish (template_event now inp r) b)"
      "tr_localizationWarning r \<longleftrightarrow> obj_lookup ts (rt_locale inp) = Missing"
      "tr_templateKey r = (case obj_lookup ts (rt_locale inp) of Own t \<Rightarrow> Template t | Inherited \<Rightarrow> NativeValue (rt_locale inp)
         | Missing \<Rightarrow> Template (the (map_of ts defaultLocale)))"
proof (cases "map_of templateCatalog (rt_eventType inp @ '':'' @ notificationActor_name (rt_actorType inp))")
  case None
  then show thesis by (intro missing) (simp_all add: resolveTemplate_def)
next
  case (Some ts)
  obtain d where d: "map_of ts defaultLocale = Some d" using catalog_has_default [OF Some] by blast
  let ?l = "case obj_lookup ts (rt_locale inp) of Own t \<Rightarrow> Some (Template t) | Inherited \<Rightarrow> Some (NativeValue (rt_locale inp)) | Missing \<Rightarrow> None"
  let ?r = "\<lparr>tr_templateKey = nullish ?l (Template d), tr_localeUsed = (if ?l \<noteq> None then rt_locale inp else defaultLocale),
    tr_localizationWarning = (?l = None)\<rparr>"
  show thesis
  proof (rule found [OF Some, of ?r])
    show "resolveTemplate now inp b = (Inr ?r, publish (template_event now inp ?r) b)"
      using Some d by (simp add: resolveTemplate_def Let_def split: lookup.split)
  qed (use d in \<open>simp_all split: lookup.split\<close>)
qed

lemma resolveTemplate_fst: "fst (resolveTemplate now inp b) = fst (resolveTemplate now' inp b')"
  by (simp add: resolveTemplate_def Let_def split: option.split)

section \<open>Runs of the fan-out\<close>

datatype fanout_op =
    OpFanout "string \<Rightarrow> string" iso_date "notificationChannel \<Rightarrow> iso_date" "notificationChannel \<Rightarrow> uuid" queueNotificationInput
  | OpFanoutElsewhere domain_event

fun fanout_step :: "fanout_op \<Rightarrow> fanout_service \<Rightarrow> fanout_service" where
  "fanout_step (OpFanout native now clock uid inp) s = snd (fanout native now clock uid inp s)"
| "fanout_step (OpFanoutElsewhere e) s = s\<lparr>nf_eventBus := publish e (nf_eventBus s)\<rparr>"

definition fresh_items :: "(notificationChannel \<Rightarrow> uuid) \<Rightarrow> fanout_service \<Rightarrow> bool" where
  "fresh_items uid s = (inj uid \<and> (\<forall>c. map_get (qr_queue (nf_queue s)) (uid c) = None))"

fun fanout_op_ok :: "fanout_op \<Rightarrow> fanout_service \<Rightarrow> bool" where
  "fanout_op_ok (OpFanout native now clock uid inp) s = fresh_items uid s"
| "fanout_op_ok (OpFanoutElsewhere e) s = (ev_type e \<noteq> ''notification.queued.v1'')"

fun fanout_ops_ok :: "fanout_op list \<Rightarrow> fanout_service \<Rightarrow> bool" where
  "fanout_ops_ok [] s = True"
| "fanout_ops_ok (op # ops) s = (fanout_op_ok op s \<and> fanout_ops_ok ops (fanout_step op s))"

definition fanout_init :: "bool \<Rightarrow> fanout_service" where
  "fanout_init templates = \<lparr>nf_queue = \<lparr>qr_queue = [], qr_idempotencyKeys = []\<rparr>, nf_eventBus = empty_bus, nf_hasTemplateService = templates\<rparr>"

definition queued_items :: "fanout_service \<Rightarrow> notificationQueueItem list" where
  "queued_items s = map_values (qr_queue (nf_queue s))"

definition queue_ok :: "fanout_service \<Rightarrow> bool" where
  "queue_ok s =
     (qr_idempotencyKeys (nf_queue s) = map nq_idempotencyKey (queued_items s) \<and>
      distinct (map nq_idempotencyKey (queued_items s)) \<and>
      events_of_type ''notification.queued.v1'' (bus_events (nf_eventBus s)) = map queued_event (queued_items s))"

text \<open>One channel: skipped when its key is known, else queued under a new key.\<close>

lemma fanout_channel_cases:
  fixes native inp k c s
  defines "key \<equiv> idempotency_key native c k (qn_entityId inp)"
  obtains (known) "hasIdempotencyKey key (nf_queue s)" "fanout_channel native clock uid inp k c (q, s) = (q, s)"
  | (queued) item where "\<not> hasIdempotencyKey key (nf_queue s)" "nq_idempotencyKey item = key" "nq_notificationId item = uid c"
      "fanout_channel native clock uid inp k c (q, s) =
        (q @ [item], s\<lparr>nf_queue := queue_save item (nf_queue s), nf_eventBus := publish (queued_event item) (nf_eventBus s)\<rparr>)"
proof (cases "hasIdempotencyKey key (nf_queue s)")
  case True
  then show thesis by (intro known) (simp_all add: fanout_channel_def key_def Let_def)
next
  case False
  then show thesis by (intro queued) (simp_all add: fanout_channel_def key_def Let_def)
qed

lemma hasIdempotencyKey_save:
  "hasIdempotencyKey k (queue_save item r) \<longleftrightarrow> k = nq_idempotencyKey item \<or> hasIdempotencyKey k r"
  by (auto simp: hasIdempotencyKey_def queue_save_def)

lemma fold_fanout_keys:
  assumes "fold (fanout_channel native clock uid inp k) cs (q, s) = (q', s')"
  shows "(hasIdempotencyKey i (nf_queue s) \<longrightarrow> hasIdempotencyKey i (nf_queue s')) \<and> nf_hasTemplateService s' = nf_hasTemplateService s \<and>
    (\<forall>c \<in> set cs. hasIdempotencyKey (idempotency_key native c k (qn_entityId inp)) (nf_queue s'))"
proof -
  have "(\<forall>i. hasIdempotencyKey i (nf_queue s) \<longrightarrow> hasIdempotencyKey i (nf_queue s')) \<and> nf_hasTemplateService s' = nf_hasTemplateService s \<and>
    (\<forall>c \<in> set cs. hasIdempotencyKey (idempotency_key native c k (qn_entityId inp)) (nf_queue s'))"
    using assms
  proof (induction cs arbitrary: q s)
    case (Cons c cs)
    show ?case
    proof (cases rule: fanout_channel_cases [where native = native and c = c and k = k and inp = inp and s = s and q = q
        and clock = clock and uid = uid])
      case known
      then show ?thesis using Cons.IH [of q s] Cons.prems by auto
    next
      case (queued item)
      then show ?thesis
        using Cons.IH [of "q @ [item]" "s\<lparr>nf_queue := queue_save item (nf_queue s), nf_eventBus := publish (queued_event item) (nf_eventBus s)\<rparr>"] Cons.prems
        by (auto simp: hasIdempotencyKey_save)
    qed
  qed simp
  then show ?thesis by blast
qed

lemma fold_fanout_known:
  "\<forall>c \<in> set cs. hasIdempotencyKey (idempotency_key native c k (qn_entityId inp)) (nf_queue s) \<Longrightarrow>
   fold (fanout_channel native clock uid inp k) cs (q, s) = (q, s)"
  by (induction cs) (simp_all add: fanout_channel_def)

lemma queue_ok_save:
  assumes "queue_ok s" "map_get (qr_queue (nf_queue s)) (nq_notificationId item) = None"
    and "\<not> hasIdempotencyKey (nq_idempotencyKey item) (nf_queue s)"
  shows "queue_ok (s\<lparr>nf_queue := queue_save item (nf_queue s), nf_eventBus := publish (queued_event item) (nf_eventBus s)\<rparr>)"
proof -
  have v: "map_values (qr_queue (queue_save item (nf_queue s))) = queued_items s @ [item]"
    using assms(2) by (simp add: queue_save_def queued_items_def map_set_new map_values_def)
  have k: "qr_idempotencyKeys (queue_save item (nf_queue s)) = qr_idempotencyKeys (nf_queue s) @ [nq_idempotencyKey item]"
    using assms(3) by (simp add: queue_save_def set_add_def hasIdempotencyKey_def)
  have e: "ev_type (queued_event item) = ''notification.queued.v1''" by (simp add: queued_event_def)
  have "nq_idempotencyKey item \<notin> set (qr_idempotencyKeys (nf_queue s))" using assms(3) by (simp add: hasIdempotencyKey_def)
  with assms(1) show ?thesis unfolding queue_ok_def queued_items_def [of "s\<lparr>nf_queue := _, nf_eventBus := _\<rparr>"]
    by (auto simp: v k e)
qed

lemma fold_fanout_ok:
  "queue_ok s \<Longrightarrow> inj uid \<Longrightarrow> distinct cs \<Longrightarrow> \<forall>c \<in> set cs. map_get (qr_queue (nf_queue s)) (uid c) = None \<Longrightarrow>
   queue_ok (snd (fold (fanout_channel native clock uid inp k) cs (q, s)))"
proof (induction cs arbitrary: q s)
  case (Cons c cs)
  show ?case
  proof (cases rule: fanout_channel_cases [where native = native and c = c and k = k and inp = inp and s = s and q = q
      and clock = clock and uid = uid])
    case known
    then show ?thesis using Cons by simp
  next
    case (queued item)
    let ?s = "s\<lparr>nf_queue := queue_save item (nf_queue s), nf_eventBus := publish (queued_event item) (nf_eventBus s)\<rparr>"
    have "queue_ok ?s" using Cons.prems queued by (intro queue_ok_save) simp_all
    moreover have "\<forall>d \<in> set cs. map_get (qr_queue (nf_queue ?s)) (uid d) = None"
      using Cons.prems queued(3) by (auto simp: queue_save_def map_get_set inj_eq)
    ultimately show ?thesis using Cons.IH [of ?s "q @ [item]"] Cons.prems queued(4) by simp
  qed
qed simp

lemma channels_distinct: "map_of eventSubscriptions t = Some cs \<Longrightarrow> distinct cs"
  by (auto simp: eventSubscriptions_def split: if_splits)

text \<open>The template of a fan-out depends on the event, the actor and the locale only.\<close>

lemma fanout_template_fst:
  "nf_hasTemplateService s' = nf_hasTemplateService s \<Longrightarrow> qn_eventType inp' = qn_eventType inp \<Longrightarrow>
   qn_actorType inp' = qn_actorType inp \<Longrightarrow> qn_locale inp' = qn_locale inp \<Longrightarrow>
   fst (fanout_template now' inp' s') = fst (fanout_template now inp s)"
  by (simp add: fanout_template_def split_def resolveTemplate_fst [of now' _ _ now])

lemma fanout_template_frame:
  assumes "fanout_template now inp s = (r, s1)"
  shows "nf_queue s1 = nf_queue s" "nf_hasTemplateService s1 = nf_hasTemplateService s"
    "events_of_type ''notification.queued.v1'' (bus_events (nf_eventBus s1)) = events_of_type ''notification.queued.v1'' (bus_events (nf_eventBus s))"
proof -
  let ?i = "\<lparr>rt_eventType = qn_eventType inp, rt_actorType = nullish (qn_actorType inp) (defaultActorType (qn_eventType inp)),
    rt_locale = nullish (qn_locale inp) ''en-US''\<rparr>"
  have "events_of_type ''notification.queued.v1'' (bus_events (snd (resolveTemplate now ?i b))) = events_of_type ''notification.queued.v1'' (bus_events b)" for b
    by (rule resolveTemplate_cases [of ?i now b]) (simp_all add: template_event_def)
  from this [of "nf_eventBus s"]
  show "nf_queue s1 = nf_queue s" "nf_hasTemplateService s1 = nf_hasTemplateService s"
    "events_of_type ''notification.queued.v1'' (bus_events (nf_eventBus s1)) = events_of_type ''notification.queued.v1'' (bus_events (nf_eventBus s))"
    using assms by (auto simp: fanout_template_def split: if_splits prod.splits)
qed

definition channels_of :: "string \<Rightarrow> notificationChannel list" where
  "channels_of eventType = (case map_of eventSubscriptions eventType of Some cs \<Rightarrow> cs | None \<Rightarrow> [])"

lemma fanout_eq:
  "fanout native now clock uid inp s =
    (case fanout_template now inp s of
       (Inl e, s1) \<Rightarrow> (Inl e, s1)
     | (Inr r, s1) \<Rightarrow>
         if obj_lookup eventSubscriptions (qn_eventType inp) = Inherited then (Inl NotIterable, s1)
         else map_prod Inr id (fold (fanout_channel native clock uid inp (tr_templateKey r)) (channels_of (qn_eventType inp)) ([], s1)))"
  by (auto simp: fanout_def obj_lookup_def channels_of_def map_prod_def split: sum.split option.split prod.split)

lemma queue_ok_template:
  "queue_ok s \<Longrightarrow> fanout_template now inp s = (r, s1) \<Longrightarrow> queue_ok s1"
  using fanout_template_frame [of now inp s r s1] by (simp add: queue_ok_def queued_items_def)

lemma fanout_ok:
  assumes "queue_ok s" "fresh_items uid s" shows "queue_ok (snd (fanout native now clock uid inp s))"
proof -
  obtain r s1 where r: "fanout_template now inp s = (r, s1)" by fastforce
  have s1: "queue_ok s1" "fresh_items uid s1"
    using queue_ok_template [OF assms(1) r] assms(2) fanout_template_frame [OF r] by (simp_all add: fresh_items_def)
  have "distinct (channels_of t)" for t using channels_distinct by (auto simp: channels_of_def split: option.split)
  then have "queue_ok (snd (fold (fanout_channel native clock uid inp k) (channels_of (qn_eventType inp)) ([], s1)))" for k
    using s1 by (intro fold_fanout_ok) (simp_all add: fresh_items_def)
  with s1 show ?thesis by (simp add: fanout_eq r split: sum.split)
qed

lemma fanout_run_ok: "queue_ok s \<Longrightarrow> fanout_ops_ok ops s \<Longrightarrow> queue_ok (fold fanout_step ops s)"
proof (induction ops arbitrary: s)
  case (Cons op ops)
  have "queue_ok (fanout_step op s)"
    using Cons.prems by (cases op) (simp_all add: fanout_ok, simp add: queue_ok_def queued_items_def)
  with Cons show ?case by simp
qed simp

text \<open>A key, once known, stays known, and so does the wiring.\<close>

lemma fanout_keeps:
  "(hasIdempotencyKey i (nf_queue s) \<longrightarrow> hasIdempotencyKey i (nf_queue (snd (fanout native now clock uid inp s)))) \<and>
   nf_hasTemplateService (snd (fanout native now clock uid inp s)) = nf_hasTemplateService s"
proof -
  obtain r s1 where r: "fanout_template now inp s = (r, s1)" by fastforce
  note f = fanout_template_frame [OF r]
  have "(hasIdempotencyKey i (nf_queue s1) \<longrightarrow> hasIdempotencyKey i (nf_queue (snd (fold (fanout_channel native clock uid inp k) cs ([], s1))))) \<and>
    nf_hasTemplateService (snd (fold (fanout_channel native clock uid inp k) cs ([], s1))) = nf_hasTemplateService s1" for k cs
    using fold_fanout_keys [of native clock uid inp k cs "[]" s1] by (metis prod.collapse)
  then show ?thesis using f by (simp add: fanout_eq r split: sum.split)
qed

lemma fanout_run_keeps:
  "(hasIdempotencyKey i (nf_queue s) \<longrightarrow> hasIdempotencyKey i (nf_queue (fold fanout_step ops s))) \<and>
   nf_hasTemplateService (fold fanout_step ops s) = nf_hasTemplateService s"
proof (induction ops arbitrary: s)
  case (Cons op ops)
  have "(hasIdempotencyKey i (nf_queue s) \<longrightarrow> hasIdempotencyKey i (nf_queue (fanout_step op s))) \<and>
      nf_hasTemplateService (fanout_step op s) = nf_hasTemplateService s"
    by (cases op) (simp_all add: fanout_keeps)
  with Cons.IH [of "fanout_step op s"] show ?case by auto
qed simp

section \<open>Properties\<close>

text \<open>C28: In every reachable state no two queued notifications have the same idempotency key, and the events of
  queued notifications are those of the queue. After a fan-out that succeeds, a fan-out of the same event,
  entity, actor and locale, at any later time and to whatever recipient, queues nothing.\<close>

theorem fanout_idempotent:
  assumes "fanout_ops_ok ops (fanout_init templates)" and "s = fold fanout_step ops (fanout_init templates)"
    and "fresh_items uid s" and "fanout native now clock uid inp s = (Inr q, s1)"
    and "fanout_ops_ok later s1" and "s2 = fold fanout_step later s1"
    and "qn_eventType inp' = qn_eventType inp" "qn_entityId inp' = qn_entityId inp"
    and "qn_actorType inp' = qn_actorType inp" "qn_locale inp' = qn_locale inp"
    and "fanout native now' clock' uid' inp' s2 = (r', s3)"
  shows "distinct (map nq_idempotencyKey (queued_items s2)) \<and>
    events_of_type ''notification.queued.v1'' (bus_events (nf_eventBus s2)) = map queued_event (queued_items s2) \<and>
    r' = Inr [] \<and> queued_items s3 = queued_items s2"
proof -
  have "queue_ok (fanout_init templates)" by (simp add: queue_ok_def fanout_init_def queued_items_def map_values_def)
  then have "queue_ok s" unfolding assms(2) by (rule fanout_run_ok [OF _ assms(1)])
  then have s2: "queue_ok s2" unfolding assms(6)
    using fanout_ok [OF _ assms(3), of native now clock inp] assms(4) by (intro fanout_run_ok [OF _ assms(5)]) simp
  obtain r t where r: "fanout_template now inp s = (Inr r, t)"
    using assms(4) by (cases "fanout_template now inp s") (auto simp: fanout_eq split: sum.splits)
  have i: "obj_lookup eventSubscriptions (qn_eventType inp) \<noteq> Inherited"
    and l: "fold (fanout_channel native clock uid inp (tr_templateKey r)) (channels_of (qn_eventType inp)) ([], t) = (q, s1)"
    using assms(4) r by (auto simp: fanout_eq map_prod_def split: if_splits prod.splits)
  have k1: "\<forall>c \<in> set (channels_of (qn_eventType inp)). hasIdempotencyKey (idempotency_key native c (tr_templateKey r) (qn_entityId inp)) (nf_queue s1)"
    and w: "nf_hasTemplateService s2 = nf_hasTemplateService s"
    using fold_fanout_keys [OF l] fanout_run_keeps [of _ s1 later] fanout_template_frame [OF r] by (auto simp: assms(6))
  have k2: "\<forall>c \<in> set (channels_of (qn_eventType inp)). hasIdempotencyKey (idempotency_key native c (tr_templateKey r) (qn_entityId inp)) (nf_queue s2)"
    using k1 fanout_run_keeps [of _ s1 later] by (auto simp: assms(6))
  obtain t' where t': "fanout_template now' inp' s2 = (Inr r, t')"
    using fanout_template_fst [OF w assms(7,9,10), of now' now] r by (cases "fanout_template now' inp' s2") simp
  note f = fanout_template_frame [OF t']
  have "fold (fanout_channel native clock' uid' inp' (tr_templateKey r)) (channels_of (qn_eventType inp')) ([], t') = ([], t')"
    by (rule fold_fanout_known) (simp add: f assms(7,8) k2)
  then have "fanout native now' clock' uid' inp' s2 = (Inr [], t')" using i by (simp add: fanout_eq t' assms(7))
  then show ?thesis using assms(11) s2 f(1) by (simp add: queue_ok_def queued_items_def)
qed

definition demo_fanout_input :: "string \<Rightarrow> queueNotificationInput" where
  "demo_fanout_input recipient = \<lparr>qn_eventType = ''dispatch.assignment.completed.v1'', qn_entityId = ''o1'', qn_recipientId = recipient,
     qn_actorType = None, qn_locale = None\<rparr>"

definition demo_uid :: "string \<Rightarrow> notificationChannel \<Rightarrow> uuid" where
  "demo_uid p c = p @ channel_name c"

lemma demo_uid_fresh: "fresh_items (demo_uid p) (fanout_init templates)"
  by (auto simp: fresh_items_def fanout_init_def demo_uid_def inj_def channel_name_def split: notificationChannel.splits)

lemma fanout_idempotent_witness:
  "\<exists>q s1. fanout id ''1'' (\<lambda>c. ''1'') (demo_uid ''a'') (demo_fanout_input ''ann'') (fanout_init True) = (Inr q, s1) \<and> q \<noteq> [] \<and>
     fst (fanout id ''2'' (\<lambda>c. ''2'') (demo_uid ''b'') (demo_fanout_input ''bob'') s1) = Inr []"
proof -
  have k: "nullish (None :: notificationActor option) (defaultActorType ''dispatch.assignment.completed.v1'') = ToCourier"
    by (simp add: defaultActorType_def startsWith_def)
  have "\<exists>q s1. fanout id ''1'' (\<lambda>c. ''1'') (demo_uid ''a'') (demo_fanout_input ''ann'') (fanout_init True) = (Inr q, s1) \<and> q \<noteq> []"
    by (simp add: fanout_def fanout_template_def fanout_init_def demo_fanout_input_def k resolveTemplate_def templateCatalog_def
        notificationActor_name_def obj_lookup_def defaultLocale_def eventSubscriptions_def fanout_channel_def hasIdempotencyKey_def Let_def
        del: nullish_simps)
  then obtain q s1 where q: "fanout id ''1'' (\<lambda>c. ''1'') (demo_uid ''a'') (demo_fanout_input ''ann'') (fanout_init True) = (Inr q, s1)" "q \<noteq> []"
    by blast
  obtain r s3 where r: "fanout id ''2'' (\<lambda>c. ''2'') (demo_uid ''b'') (demo_fanout_input ''bob'') s1 = (r, s3)" by fastforce
  have "r = Inr []"
    using fanout_idempotent [of "[]" True "fanout_init True", OF _ _ demo_uid_fresh q(1), of "[]" s1, OF _ _ _ _ _ _ _ _ r]
    by (simp add: demo_fanout_input_def)
  with q r show ?thesis by auto
qed

section \<open>Every retriable failure ends\<close>

text \<open>
  The life of a notification that keeps failing: each retry decision leads to the next
  failure, with the attempt it scheduled, until a dead letter.
\<close>

function failure_chain ::
  "(nat \<Rightarrow> iso_date) \<Rightarrow> (nat \<Rightarrow> uuid) \<Rightarrow> handleFailureInput \<Rightarrow> retry_service
     \<Rightarrow> notificationRetry list \<times> notificationDeadLetter \<times> retry_service" where
  "failure_chain clock uid inp s =
     (case handleFailure (clock (hf_currentAttempt inp)) (uid (hf_currentAttempt inp)) inp s of
        (DeadLetter d, s') \<Rightarrow> ([], d, s')
      | (Retry r, s') \<Rightarrow>
          (case failure_chain clock uid (inp\<lparr>hf_currentAttempt := nr_attempt r\<rparr>) s' of (rs, d, s'') \<Rightarrow> (r # rs, d, s'')))"
  by pat_completeness auto
termination
  by (relation "measure (\<lambda>(_, _, inp, s). ns_maxRetries s - hf_currentAttempt inp)")
    (auto simp: handleFailure_def Let_def split: if_splits)

declare failure_chain.simps [simp del]

lemma num_pow2_int: "n < 1024 \<Longrightarrow> num_pow2 n = num_int (2 ^ n)"
  by (simp add: num_pow2_def)

lemma delay_exact:
  assumes "1 \<le> b" "b * 2 ^ n < 2 ^ 53"
  shows "math_min (num_mul (num_int b) (num_pow2 n)) (num_int m) = num_int (min (b * 2 ^ n) m)"
proof -
  have "2 ^ n \<le> b * 2 ^ n" using assms(1) by simp
  then have "(2::int) ^ n < 2 ^ 53" using assms(2) by linarith
  then have "n < 53" by (rule power_less_imp_less_exp [rotated]) simp
  moreover have "num_mul (num_int b) (num_int (2 ^ n)) = num_int (b * 2 ^ n)"
    using assms by (intro num_mul_int) (simp add: abs_mult)
  moreover have "math_min (num_int x) (num_int y) = num_int (min x y)" for x y
    by (simp add: math_min_def min_def)
  ultimately show ?thesis
    by (simp add: num_pow2_int del: num_mul.simps of_int_power of_int_mult)
qed

lemma handleFailure_retry:
  assumes "hf_retriable inp" "hf_currentAttempt inp < ns_maxRetries s"
  obtains r where "handleFailure now uid inp s = (Retry r, s\<lparr>ns_retries := saveRetry r (ns_retries s), ns_eventBus := publish (retry_event r) (ns_eventBus s)\<rparr>)"
    "nr_attempt r = hf_currentAttempt inp + 1"
    "nr_delaySeconds r = math_min (num_mul (ns_baseDelaySeconds s) (num_pow2 (hf_currentAttempt inp))) (ns_maxBackoffSeconds s)"
  using assms by (simp add: handleFailure_def Let_def)

lemma failure_chain_spec:
  assumes "hf_retriable inp" "hf_currentAttempt inp \<le> ns_maxRetries s"
    and "ns_baseDelaySeconds s = num_int b" "1 \<le> b" "b * 2 ^ ns_maxRetries s < 2 ^ 53" "ns_maxBackoffSeconds s = num_int m"
    and "failure_chain clock uid inp s = (rs, d, s')"
  shows "map nr_attempt rs = [Suc (hf_currentAttempt inp)..<Suc (ns_maxRetries s)] \<and>
    map nr_delaySeconds rs = map (\<lambda>n. num_int (min (b * 2 ^ n) m)) [hf_currentAttempt inp..<ns_maxRetries s] \<and>
    dl_reason d = RETRY_CAP_REACHED \<and> dl_finalAttempt d = ns_maxRetries s \<and>
    listRetries (ns_retries s') = listRetries (ns_retries s) @ rs \<and> listDeadLetters (ns_retries s') = listDeadLetters (ns_retries s) @ [d]"
  using assms
proof (induction clock uid inp s arbitrary: rs d s' rule: failure_chain.induct)
  case (1 clock uid inp s)
  let ?k = "hf_currentAttempt inp"
  show ?case
  proof (cases "?k < ns_maxRetries s")
    case False
    with 1(3) have k: "?k = ns_maxRetries s" by simp
    with 1(2,8) show ?thesis
      by (auto simp: failure_chain.simps [of clock uid inp s] handleFailure_def Let_def listRetries_def listDeadLetters_def saveDeadLetter_def)
  next
    case True
    obtain r where r: "handleFailure (clock ?k) (uid ?k) inp s =
        (Retry r, s\<lparr>ns_retries := saveRetry r (ns_retries s), ns_eventBus := publish (retry_event r) (ns_eventBus s)\<rparr>)"
      "nr_attempt r = ?k + 1"
      "nr_delaySeconds r = math_min (num_mul (ns_baseDelaySeconds s) (num_pow2 ?k)) (ns_maxBackoffSeconds s)"
      using handleFailure_retry [OF 1(2) True] by blast
    let ?s = "s\<lparr>ns_retries := saveRetry r (ns_retries s), ns_eventBus := publish (retry_event r) (ns_eventBus s)\<rparr>"
    obtain rs1 where c: "failure_chain clock uid (inp\<lparr>hf_currentAttempt := nr_attempt r\<rparr>) ?s = (rs1, d, s')" "rs = r # rs1"
      using 1(8) by (auto simp: failure_chain.simps [of clock uid inp s] r(1) split: prod.splits)
    have ih: "map nr_attempt rs1 = [Suc (?k + 1)..<Suc (ns_maxRetries s)] \<and>
      map nr_delaySeconds rs1 = map (\<lambda>n. num_int (min (b * 2 ^ n) m)) [?k + 1..<ns_maxRetries s] \<and>
      dl_reason d = RETRY_CAP_REACHED \<and> dl_finalAttempt d = ns_maxRetries s \<and>
      listRetries (ns_retries s') = listRetries (ns_retries ?s) @ rs1 \<and> listDeadLetters (ns_retries s') = listDeadLetters (ns_retries ?s) @ [d]"
      using 1(1) [OF r(1) [symmetric] refl _ _ _ _ _ _ c(1)] 1(2-7) True r(2) by simp
    have "(2::int) ^ ?k \<le> 2 ^ ns_maxRetries s" using True by (intro power_increasing) simp_all
    then have "b * 2 ^ ?k \<le> b * 2 ^ ns_maxRetries s" using 1(5) by (intro mult_left_mono) simp_all
    then have dl: "nr_delaySeconds r = num_int (min (b * 2 ^ ?k) m)"
      unfolding r(3) 1(4) 1(7) using 1(5,6) by (intro delay_exact) linarith+
    have u: "[Suc ?k..<Suc (ns_maxRetries s)] = Suc ?k # [Suc (Suc ?k)..<Suc (ns_maxRetries s)]" "[?k..<ns_maxRetries s] = ?k # [Suc ?k..<ns_maxRetries s]"
      using True by (simp_all add: upt_conv_Cons del: upt_Suc)
    show ?thesis
      using ih dl r(2) unfolding c(2) u by (simp add: saveRetry_def listRetries_def listDeadLetters_def del: upt_Suc)
  qed
qed

text \<open>C29: A notification that keeps failing is given up: from its first failure on, the retries scheduled have
  the attempts up to the maximum, each after the base delay doubled once per attempt and capped at the
  maximal backoff, and after the last one exactly one dead letter is recorded. A failure that is not
  retriable is a dead letter at once.\<close>

theorem retries_end_in_dead_letter:
  assumes "hf_retriable inp" "hf_currentAttempt inp = 0"
    and "ns_baseDelaySeconds s = num_int b" "1 \<le> b" "b * 2 ^ ns_maxRetries s < 2 ^ 53" "ns_maxBackoffSeconds s = num_int m"
    and "failure_chain clock uid inp s = (rs, d, s')"
  shows "map nr_attempt rs = [1..<Suc (ns_maxRetries s)] \<and>
    map nr_delaySeconds rs = map (\<lambda>n. num_int (min (b * 2 ^ n) m)) [0..<ns_maxRetries s] \<and>
    dl_reason d = RETRY_CAP_REACHED \<and> dl_finalAttempt d = ns_maxRetries s \<and>
    listRetries (ns_retries s') = listRetries (ns_retries s) @ rs \<and>
    listDeadLetters (ns_retries s') = listDeadLetters (ns_retries s) @ [d] \<and>
    (\<exists>d0 s0. handleFailure now uid0 (inp\<lparr>hf_retriable := False\<rparr>) s = (DeadLetter d0, s0) \<and>
       dl_reason d0 = NON_RETRIABLE \<and> listRetries (ns_retries s0) = listRetries (ns_retries s))"
  using failure_chain_spec [OF assms(1) _ assms(3-7)] assms(2)
  by (simp add: handleFailure_def saveDeadLetter_def listRetries_def Let_def del: upt_Suc)

definition demo_failure :: handleFailureInput where
  "demo_failure = \<lparr>hf_notificationId = ''n1'', hf_eventType = ''e'', hf_channel = SMS, hf_entityId = ''o1'', hf_currentAttempt = 0,
     hf_errorCode = ''TIMEOUT'', hf_retriable = True\<rparr>"

lemma retries_end_in_dead_letter_witness:
  "\<exists>rs d s'. failure_chain (\<lambda>n. ''1'') (\<lambda>n. replicate n CHR ''x'') demo_failure retry_init = (rs, d, s') \<and>
     map nr_delaySeconds rs = [num_int 10, num_int 20, num_int 40] \<and> dl_finalAttempt d = 3"
proof -
  obtain rs d s' where c: "failure_chain (\<lambda>n. ''1'') (\<lambda>n. replicate n CHR ''x'') demo_failure retry_init = (rs, d, s')"
    by (metis prod.collapse)
  have "hf_retriable demo_failure" "hf_currentAttempt demo_failure = 0" "ns_baseDelaySeconds retry_init = num_int 10"
    "(10::int) * 2 ^ ns_maxRetries retry_init < 2 ^ 53" "ns_maxBackoffSeconds retry_init = num_int 300"
    by (simp_all add: demo_failure_def retry_init_def)
  from retries_end_in_dead_letter [OF this(1-3) _ this(4,5) c] c show ?thesis
    by (simp add: retry_init_def upt_rec numeral_3_eq_3 del: upt_Suc)
qed

end
