(* ===== verification/Json.thy ===== *)
theory Json
  imports EventBus
begin

text \<open>
  \<open>JSON.stringify\<close>: JSON values as text. The alphabet is ASCII; the properties of an object
  are listed in the order the object keeps them.
\<close>

section \<open>JSON.stringify\<close>

definition hex_digit :: "nat \<Rightarrow> char" where
  "hex_digit n = (if n < 10 then char_of (48 + n) else char_of (87 + n))"

definition json_escape_char :: "char \<Rightarrow> string" where
  "json_escape_char c =
     (let k = (of_char c :: nat)
      in if k = 34 then [char_of (92 :: nat), char_of (34 :: nat)]
         else if k = 92 then [char_of (92 :: nat), char_of (92 :: nat)]
         else if k = 8 then [char_of (92 :: nat), CHR ''b'']
         else if k = 9 then [char_of (92 :: nat), CHR ''t'']
         else if k = 10 then [char_of (92 :: nat), CHR ''n'']
         else if k = 12 then [char_of (92 :: nat), CHR ''f'']
         else if k = 13 then [char_of (92 :: nat), CHR ''r'']
         else if k < 32 then [char_of (92 :: nat), CHR ''u'', CHR ''0'', CHR ''0'', hex_digit (k div 16), hex_digit (k mod 16)]
         else [c])"

definition json_quote :: "string \<Rightarrow> string" where
  "json_quote s = [char_of (34 :: nat)] @ concat (map json_escape_char s) @ [char_of (34 :: nat)]"

fun json_stringify :: "json \<Rightarrow> string" where
  "json_stringify JNull = ''null''"
| "json_stringify (JBool b) = (if b then ''true'' else ''false'')"
| "json_stringify (JNum a) = (if is_finite a then num_string a else ''null'')"
| "json_stringify (JStr s) = json_quote s"
| "json_stringify (JArr xs) = ''['' @ join_strings '','' (map json_stringify xs) @ '']''"
| "json_stringify (JObj ps) = ''{'' @ join_strings '','' (map (\<lambda>(k, v). json_quote k @ '':'' @ json_stringify v) ps) @ ''}''"

text \<open>\<open>JSON.parse(JSON.stringify(v))\<close>, a deep copy: only the numbers that JSON lacks change.\<close>

fun json_clone :: "json \<Rightarrow> json" where
  "json_clone (JNum a) = (if is_finite a then JNum a else JNull)"
| "json_clone (JArr xs) = JArr (map json_clone xs)"
| "json_clone (JObj ps) = JObj (map (\<lambda>(k, v). (k, json_clone v)) ps)"
| "json_clone v = v"

fun json_finite :: "json \<Rightarrow> bool" where
  "json_finite (JNum a) = is_finite a"
| "json_finite (JArr xs) = list_all json_finite xs"
| "json_finite (JObj ps) = list_all (\<lambda>(k, v). json_finite v) ps"
| "json_finite v = True"

lemma json_clone_finite: "json_finite v \<Longrightarrow> json_clone v = v"
proof (induction v rule: json_clone.induct)
  case (2 xs)
  then show ?case by (auto simp: list_all_iff intro!: map_idI)
next
  case (3 ps)
  have "(case p of (k, v) \<Rightarrow> (k, json_clone v)) = p" if "p \<in> set ps" for p
    using 3 that by (cases p) (auto simp: list_all_iff)
  then show ?case by (auto intro!: map_idI)
qed simp_all

lemma json_clone_idem: "json_clone (json_clone v) = json_clone v"
  by (induction v rule: json_clone.induct) auto

lemma json_stringify_clone: "json_stringify (json_clone v) = json_stringify v"
proof (induction v rule: json_clone.induct)
  case (2 xs)
  have "map (json_stringify \<circ> json_clone) xs = map json_stringify xs" using 2 by simp
  then show ?case by (simp only: json_clone.simps json_stringify.simps map_map)
next
  case (3 ps)
  have "map (\<lambda>(k, v). json_quote k @ '':'' @ json_stringify v) (map (\<lambda>(k, v). (k, json_clone v)) ps) =
      map (\<lambda>(k, v). json_quote k @ '':'' @ json_stringify v) ps"
    using 3 by (auto intro!: map_cong)
  then show ?case by (simp only: json_clone.simps json_stringify.simps)
qed simp_all

end
