(* ===== verification/Risk.thy ===== *)
theory Risk
  imports Json
begin

text \<open>
  Risk and compliance (\<open>core-api/src/modules/risk-compliance\<close>): the policy rules and their
  decisions, manual reviews, and the audit log whose entries are chained by hashes. The
  digest (\<open>createHash("sha256")\<close>, in hexadecimal) is the parameter \<open>digest\<close>.
\<close>

section \<open>Policy rules\<close>

datatype policyDecision = ALLOW | DENY | REVIEW

definition policyDecision_name :: "policyDecision \<Rightarrow> string" where
  "policyDecision_name d = (case d of ALLOW \<Rightarrow> ''ALLOW'' | DENY \<Rightarrow> ''DENY'' | REVIEW \<Rightarrow> ''REVIEW'')"

record evaluateRiskPolicyInput =
  ep_actionType :: string
  ep_amountCents :: jsnum
  ep_actorId :: string

record riskPolicyRule =
  ru_actionType :: string
  ru_allowUpToCents :: jsnum
  ru_reviewUpToCents :: jsnum

record riskPolicyDecision =
  pd_decisionId :: uuid
  pd_actionType :: string
  pd_amountCents :: jsnum
  pd_actorId :: string
  pd_decision :: policyDecision
  pd_reasonCode :: string
  pd_evaluatedAt :: iso_date

type_synonym policy_repo = "(string, riskPolicyRule) jsmap"

definition defaultRiskPolicyRules :: "riskPolicyRule list" where
  "defaultRiskPolicyRules =
     [\<lparr>ru_actionType = ''REFUND_APPROVAL'', ru_allowUpToCents = Fin 1000, ru_reviewUpToCents = Fin 5000\<rparr>,
      \<lparr>ru_actionType = ''PAYOUT_RELEASE'', ru_allowUpToCents = Fin 5000, ru_reviewUpToCents = Fin 20000\<rparr>,
      \<lparr>ru_actionType = ''ORDER_CANCEL'', ru_allowUpToCents = Fin (2 ^ 53 - 1), ru_reviewUpToCents = Fin (2 ^ 53 - 1)\<rparr>]"

definition policy_upsertRule :: "riskPolicyRule \<Rightarrow> policy_repo \<Rightarrow> policy_repo" where
  "policy_upsertRule v r = map_set (ru_actionType v) v r"

definition policy_init :: "riskPolicyRule list \<Rightarrow> policy_repo" where
  "policy_init rules = fold policy_upsertRule rules []"

definition findRule :: "string \<Rightarrow> policy_repo \<Rightarrow> riskPolicyRule option" where
  "findRule k r = map_get r k"

definition policy_listRules :: "host \<Rightarrow> policy_repo \<Rightarrow> riskPolicyRule list" where
  "policy_listRules h r = js_sort (\<lambda>left right. locale_gt h (ru_actionType left) (ru_actionType right)) (map_values r)"

interpretation policy_rules: keyed_repository ru_actionType "[]" policy_upsertRule findRule map_values map_wf
  unfolding policy_upsertRule_def findRule_def by (rule jsmap_repository)

record policy_service =
  rp_rules :: policy_repo
  rp_eventBus :: event_bus

datatype risk_error = InvalidRiskPolicyRule string | ManualReviewNotFound uuid | ComplianceAuditWriteFailed string

definition decide :: "riskPolicyRule option \<Rightarrow> jsnum \<Rightarrow> policyDecision \<times> string" where
  "decide rule amountCents =
     (case rule of
        None \<Rightarrow> (DENY, ''UNKNOWN_POLICY_PATH'')
      | Some r \<Rightarrow>
          if num_le amountCents (ru_allowUpToCents r) then (ALLOW, ''RULE_ALLOW'')
          else if num_le amountCents (ru_reviewUpToCents r) then (REVIEW, ''RULE_REVIEW'')
          else (DENY, ''RULE_DENY''))"

definition evaluate_policy :: "iso_date \<Rightarrow> uuid \<Rightarrow> evaluateRiskPolicyInput \<Rightarrow> policy_service \<Rightarrow> riskPolicyDecision \<times> policy_service" where
  "evaluate_policy now uid inp s =
     (let (decision, reasonCode) = decide (findRule (ep_actionType inp) (rp_rules s)) (ep_amountCents inp);
          d = \<lparr>pd_decisionId = uid, pd_actionType = ep_actionType inp, pd_amountCents = ep_amountCents inp,
               pd_actorId = ep_actorId inp, pd_decision = decision, pd_reasonCode = reasonCode, pd_evaluatedAt = now\<rparr>
      in (d, s\<lparr>rp_eventBus := publish (mk_event ''risk.policy_decision_made.v1'' now
             [(''decisionId'', JStr (pd_decisionId d)), (''actionType'', JStr (pd_actionType d)), (''actorId'', JStr (pd_actorId d)),
              (''decision'', JStr (policyDecision_name (pd_decision d))), (''reasonCode'', JStr (pd_reasonCode d))]) (rp_eventBus s)\<rparr>))"

definition upsertRule :: "iso_date \<Rightarrow> riskPolicyRule \<Rightarrow> policy_service \<Rightarrow> (policy_service, risk_error, riskPolicyRule) outcome" where
  "upsertRule now inp s =
     (if num_lt (ru_reviewUpToCents inp) (ru_allowUpToCents inp) then (Inl (InvalidRiskPolicyRule (ru_actionType inp)), s)
      else (Inr inp, s\<lparr>rp_rules := policy_upsertRule inp (rp_rules s),
              rp_eventBus := publish (mk_event ''risk.policy_rule_upserted.v1'' now
                [(''actionType'', JStr (ru_actionType inp)), (''allowUpToCents'', JNum (ru_allowUpToCents inp)),
                 (''reviewUpToCents'', JNum (ru_reviewUpToCents inp))]) (rp_eventBus s)\<rparr>))"

definition listRules :: "host \<Rightarrow> policy_service \<Rightarrow> riskPolicyRule list" where
  "listRules h s = policy_listRules h (rp_rules s)"

section \<open>Manual reviews\<close>

datatype manualReviewEntityType = REVIEW_REFUND | REVIEW_PAYOUT
datatype manualReviewStatus = QUEUED | APPROVED | REJECTED
datatype manualReviewDecision = APPROVE | REJECT

definition manualReviewEntityType_name :: "manualReviewEntityType \<Rightarrow> string" where
  "manualReviewEntityType_name t = (case t of REVIEW_REFUND \<Rightarrow> ''REFUND'' | REVIEW_PAYOUT \<Rightarrow> ''PAYOUT'')"

definition manualReviewDecision_name :: "manualReviewDecision \<Rightarrow> string" where
  "manualReviewDecision_name d = (case d of APPROVE \<Rightarrow> ''APPROVE'' | REJECT \<Rightarrow> ''REJECT'')"

record queueManualReviewInput =
  qm_entityType :: manualReviewEntityType
  qm_entityId :: string
  qm_orderId :: "uuid option"
  qm_amountCents :: jsnum
  qm_reasonCode :: string
  qm_requestedBy :: string

record resolveManualReviewInput =
  rm_reviewId :: uuid
  rm_decision :: manualReviewDecision
  rm_resolvedBy :: string
  rm_note :: "string option"

record manualReviewResolution =
  mr_decision :: manualReviewDecision
  mr_resolvedBy :: string
  mr_resolvedAt :: iso_date
  mr_note :: "string option"

record manualReview =
  mv_reviewId :: uuid
  mv_entityType :: manualReviewEntityType
  mv_entityId :: string
  mv_orderId :: "uuid option"
  mv_amountCents :: jsnum
  mv_reasonCode :: string
  mv_requestedBy :: string
  mv_status :: manualReviewStatus
  mv_createdAt :: iso_date
  mv_updatedAt :: iso_date
  mv_resolution :: "manualReviewResolution option"

type_synonym review_repo = "(uuid, manualReview) jsmap"

definition review_save :: "manualReview \<Rightarrow> review_repo \<Rightarrow> review_repo" where
  "review_save v r = map_set (mv_reviewId v) v r"

definition review_findById :: "uuid \<Rightarrow> review_repo \<Rightarrow> manualReview option" where
  "review_findById i r = map_get r i"

interpretation reviews: keyed_repository mv_reviewId "[]" review_save review_findById map_values map_wf
  unfolding review_save_def review_findById_def by (rule jsmap_repository)

record review_service =
  rv_reviews :: review_repo
  rv_eventBus :: event_bus

definition queueReview :: "iso_date \<Rightarrow> uuid \<Rightarrow> queueManualReviewInput \<Rightarrow> review_service \<Rightarrow> manualReview \<times> review_service" where
  "queueReview now uid inp s =
     (let review = \<lparr>mv_reviewId = uid, mv_entityType = qm_entityType inp, mv_entityId = qm_entityId inp, mv_orderId = qm_orderId inp,
                    mv_amountCents = qm_amountCents inp, mv_reasonCode = qm_reasonCode inp, mv_requestedBy = qm_requestedBy inp,
                    mv_status = QUEUED, mv_createdAt = now, mv_updatedAt = now, mv_resolution = None\<rparr>
      in (review, s\<lparr>rv_reviews := review_save review (rv_reviews s),
            rv_eventBus := publish (mk_event ''risk.manual_review_queued.v1'' now
              [(''reviewId'', JStr (mv_reviewId review)), (''entityType'', JStr (manualReviewEntityType_name (mv_entityType review))),
               (''entityId'', JStr (mv_entityId review)), (''reasonCode'', JStr (mv_reasonCode review))]) (rv_eventBus s)\<rparr>))"

definition resolved_event :: "iso_date \<Rightarrow> resolveManualReviewInput \<Rightarrow> manualReview \<Rightarrow> domain_event" where
  "resolved_event now inp v = mk_event ''risk.manual_review_resolved.v1'' now
     [(''reviewId'', JStr (mv_reviewId v)), (''entityType'', JStr (manualReviewEntityType_name (mv_entityType v))),
      (''entityId'', JStr (mv_entityId v)), (''decision'', JStr (manualReviewDecision_name (rm_decision inp))),
      (''resolvedBy'', JStr (rm_resolvedBy inp))]"

definition resolveReview ::
  "iso_date \<Rightarrow> resolveManualReviewInput \<Rightarrow> review_service \<Rightarrow> (review_service, risk_error, manualReview) outcome" where
  "resolveReview now inp s =
     (case review_findById (rm_reviewId inp) (rv_reviews s) of
        None \<Rightarrow> (Inl (ManualReviewNotFound (rm_reviewId inp)), s)
      | Some review \<Rightarrow>
          if mv_status review \<noteq> QUEUED then (Inr review, s)
          else
            let updated = review\<lparr>mv_status := (if rm_decision inp = APPROVE then APPROVED else REJECTED), mv_updatedAt := now,
                  mv_resolution := Some \<lparr>mr_decision = rm_decision inp, mr_resolvedBy = rm_resolvedBy inp, mr_resolvedAt = now,
                                         mr_note = rm_note inp\<rparr>\<rparr>
            in (Inr updated, s\<lparr>rv_reviews := review_save updated (rv_reviews s),
                  rv_eventBus := publish (resolved_event now inp updated) (rv_eventBus s)\<rparr>))"

section \<open>The compliance audit log\<close>

record complianceAuditInput =
  ai_actionType :: string
  ai_actorId :: string
  ai_targetType :: string
  ai_targetId :: string
  ai_reasonCode :: string
  ai_metadata :: "(string \<times> json) list"

record complianceAuditEvent =
  ae_auditEventId :: uuid
  ae_actionType :: string
  ae_actorId :: string
  ae_targetType :: string
  ae_targetId :: string
  ae_reasonCode :: string
  ae_metadata :: "(string \<times> json) list"
  ae_timestamp :: iso_date
  ae_previousHash :: string
  ae_hash :: string

type_synonym audit_repo = "complianceAuditEvent list"

definition audit_append :: "complianceAuditEvent \<Rightarrow> audit_repo \<Rightarrow> audit_repo" where
  "audit_append e r = r @ [e]"

definition audit_latest :: "audit_repo \<Rightarrow> complianceAuditEvent option" where
  "audit_latest r = (if r = [] then None else Some (last r))"

interpretation compliance_log: append_log audit_append "\<lambda>r. r"
  by unfold_locales (simp add: audit_append_def)

record audit_service =
  au_log :: audit_repo
  au_eventBus :: event_bus

text \<open>The value that is hashed: every field of an event but the hash.\<close>

definition hashed_fields :: "complianceAuditEvent \<Rightarrow> json" where
  "hashed_fields e = JObj
     [(''auditEventId'', JStr (ae_auditEventId e)), (''actionType'', JStr (ae_actionType e)), (''actorId'', JStr (ae_actorId e)),
      (''targetType'', JStr (ae_targetType e)), (''targetId'', JStr (ae_targetId e)), (''reasonCode'', JStr (ae_reasonCode e)),
      (''metadata'', JObj (ae_metadata e)), (''timestamp'', JStr (ae_timestamp e)), (''previousHash'', JStr (ae_previousHash e))]"

definition computeHash :: "(string \<Rightarrow> string) \<Rightarrow> json \<Rightarrow> string" where
  "computeHash digest v = digest (json_stringify v)"

definition audit_entry :: "(string \<Rightarrow> string) \<Rightarrow> iso_date \<Rightarrow> uuid \<Rightarrow> complianceAuditInput \<Rightarrow> string \<Rightarrow> complianceAuditEvent" where
  "audit_entry digest now uid inp previousHash =
     (let e = \<lparr>ae_auditEventId = uid, ae_actionType = ai_actionType inp, ae_actorId = ai_actorId inp, ae_targetType = ai_targetType inp,
               ae_targetId = ai_targetId inp, ae_reasonCode = ai_reasonCode inp, ae_metadata = ai_metadata inp, ae_timestamp = now,
               ae_previousHash = previousHash, ae_hash = []\<rparr>
      in e\<lparr>ae_hash := computeHash digest (hashed_fields e)\<rparr>)"

text \<open>The write of the repository may fail (\<open>fault\<close>, the message of its error).\<close>

definition appendEvent ::
  "(string \<Rightarrow> string) \<Rightarrow> string option \<Rightarrow> iso_date \<Rightarrow> uuid \<Rightarrow> complianceAuditInput \<Rightarrow> audit_service
     \<Rightarrow> (audit_service, risk_error, complianceAuditEvent) outcome" where
  "appendEvent digest fault now uid inp s =
     (let previousHash = (case audit_latest (au_log s) of None \<Rightarrow> ''GENESIS'' | Some e \<Rightarrow> ae_hash e);
          event = audit_entry digest now uid inp previousHash
      in case fault of
           Some failureMessage \<Rightarrow>
             (Inl (ComplianceAuditWriteFailed failureMessage),
              s\<lparr>au_eventBus := publish (mk_event ''platform.audit_write_failure_alert.v1'' now
                  [(''actionType'', JStr (ae_actionType event)), (''targetType'', JStr (ae_targetType event)),
                   (''targetId'', JStr (ae_targetId event)), (''reasonCode'', JStr (ae_reasonCode event)),
                   (''failureMessage'', JStr failureMessage)]) (au_eventBus s)\<rparr>)
         | None \<Rightarrow>
             (Inr event,
              s\<lparr>au_log := audit_append event (au_log s),
                au_eventBus := publish (mk_event ''risk.audit_log_appended.v1'' now
                  [(''auditEventId'', JStr (ae_auditEventId event)), (''actionType'', JStr (ae_actionType event)),
                   (''targetType'', JStr (ae_targetType event)), (''targetId'', JStr (ae_targetId event))]) (au_eventBus s)\<rparr>))"

definition listEvents :: "audit_service \<Rightarrow> complianceAuditEvent list" where
  "listEvents s = au_log s"

fun verifyChain_from :: "(string \<Rightarrow> string) \<Rightarrow> string \<Rightarrow> complianceAuditEvent list \<Rightarrow> bool" where
  "verifyChain_from digest expectedPreviousHash [] = True"
| "verifyChain_from digest expectedPreviousHash (e # es) =
     (if ae_previousHash e \<noteq> expectedPreviousHash then False
      else if computeHash digest (hashed_fields e) \<noteq> ae_hash e then False
      else verifyChain_from digest (ae_hash e) es)"

definition verifyChain :: "(string \<Rightarrow> string) \<Rightarrow> complianceAuditEvent list \<Rightarrow> bool" where
  "verifyChain digest events = verifyChain_from digest ''GENESIS'' events"

text \<open>
  \<open>countByActionType[a] = (countByActionType[a] ?? 0) + 1\<close> on an object literal: the name of
  an inherited property finds a value to which 1 is appended as a string (\<open>native\<close>), and the
  assignment to \<open>__proto__\<close> of a string has no effect.
\<close>

datatype count_value = Count nat | Glued string

definition count_action :: "(string \<Rightarrow> string) \<Rightarrow> string \<Rightarrow> (string, count_value) jsmap \<Rightarrow> (string, count_value) jsmap" where
  "count_action native a m =
     (case map_get m a of
        Some (Count n) \<Rightarrow> map_set a (Count (n + 1)) m
      | Some (Glued t) \<Rightarrow> map_set a (Glued (t @ ''1'')) m
      | None \<Rightarrow>
          if a = ''__proto__'' then m
          else if a \<in> set object_prototype_keys then map_set a (Glued (native a @ ''1'')) m
          else map_set a (Count 1) m)"

record evidenceReport =
  er_reportId :: uuid
  er_generatedBy :: string
  er_generatedAt :: iso_date
  er_totalEvents :: nat
  er_chainIntegrity :: bool
  er_countByActionType :: "(string, count_value) jsmap"

definition generateEvidenceReport ::
  "(string \<Rightarrow> string) \<Rightarrow> (string \<Rightarrow> string) \<Rightarrow> uuid \<Rightarrow> string \<Rightarrow> iso_date \<Rightarrow> audit_service \<Rightarrow> evidenceReport \<times> audit_service" where
  "generateEvidenceReport digest native uid generatedBy generatedAt s =
     (let events = au_log s;
          report = \<lparr>er_reportId = uid, er_generatedBy = generatedBy, er_generatedAt = generatedAt, er_totalEvents = length events,
                    er_chainIntegrity = verifyChain digest events,
                    er_countByActionType = fold (count_action native) (map ae_actionType events) []\<rparr>
      in (report, s\<lparr>au_eventBus := publish (mk_event ''platform.evidence_generated.v1'' generatedAt
             [(''reportId'', JStr (er_reportId report)), (''generatedBy'', JStr (er_generatedBy report)),
              (''totalEvents'', JNum (num_int (int (er_totalEvents report)))), (''chainIntegrity'', JBool (er_chainIntegrity report))])
             (au_eventBus s)\<rparr>))"

section \<open>Decisions grow with the amount\<close>

definition severity :: "policyDecision \<Rightarrow> nat" where
  "severity d = (case d of ALLOW \<Rightarrow> 0 | REVIEW \<Rightarrow> 1 | DENY \<Rightarrow> 2)"

lemma decide_monotone:
  "num_le a b \<Longrightarrow> severity (fst (decide rule a)) \<le> severity (fst (decide rule b))"
  by (auto simp: decide_def severity_def split: option.split dest: num_le_trans)

lemma upsertRule_valid:
  assumes "policy_rules.every (\<lambda>r. \<not> num_lt (ru_reviewUpToCents r) (ru_allowUpToCents r)) (rp_rules s)"
  shows "policy_rules.every (\<lambda>r. \<not> num_lt (ru_reviewUpToCents r) (ru_allowUpToCents r)) (rp_rules (snd (upsertRule now inp s)))"
  using assms by (simp add: upsertRule_def policy_rules.every_save)

section \<open>A review is resolved once\<close>

datatype review_op = OpQueueReview iso_date uuid queueManualReviewInput | OpResolveReview iso_date resolveManualReviewInput
  | OpReviewElsewhere domain_event

fun review_step :: "review_op \<Rightarrow> review_service \<Rightarrow> review_service" where
  "review_step (OpQueueReview now uid inp) s = snd (queueReview now uid inp s)"
| "review_step (OpResolveReview now inp) s = snd (resolveReview now inp s)"
| "review_step (OpReviewElsewhere e) s = s\<lparr>rv_eventBus := publish e (rv_eventBus s)\<rparr>"

fun review_op_ok :: "review_op \<Rightarrow> review_service \<Rightarrow> bool" where
  "review_op_ok (OpQueueReview now uid inp) s = (review_findById uid (rv_reviews s) = None)"
| "review_op_ok (OpResolveReview now inp) s = True"
| "review_op_ok (OpReviewElsewhere e) s = (ev_type e \<noteq> ''risk.manual_review_resolved.v1'')"

fun review_ops_ok :: "review_op list \<Rightarrow> review_service \<Rightarrow> bool" where
  "review_ops_ok [] s = True"
| "review_ops_ok (op # ops) s = (review_op_ok op s \<and> review_ops_ok ops (review_step op s))"

lemma review_ops_ok_append: "review_ops_ok (xs @ ys) s = (review_ops_ok xs s \<and> review_ops_ok ys (fold review_step xs s))"
  by (induction xs arbitrary: s) auto

definition review_init :: review_service where
  "review_init = \<lparr>rv_reviews = [], rv_eventBus = empty_bus\<rparr>"

definition resolutions_of :: "uuid \<Rightarrow> review_service \<Rightarrow> domain_event list" where
  "resolutions_of i s = filter (\<lambda>e. ev_type e = ''risk.manual_review_resolved.v1'' \<and> jprop (ev_payload e) ''reviewId'' = Some (JStr i))
     (bus_events (rv_eventBus s))"

text \<open>What a stored review says about its resolution, and the events about it.\<close>

definition review_ok :: "manualReview \<Rightarrow> domain_event list \<Rightarrow> bool" where
  "review_ok v es =
     (case mv_status v of
        QUEUED \<Rightarrow> mv_resolution v = None \<and> es = []
      | st \<Rightarrow> (\<exists>r e. mv_resolution v = Some r \<and> mr_decision r = (if st = APPROVED then APPROVE else REJECT) \<and> es = [e] \<and>
               jprop (ev_payload e) ''resolvedBy'' = Some (JStr (mr_resolvedBy r))))"

definition reviews_ok :: "review_service \<Rightarrow> bool" where
  "reviews_ok s = (reviews.keys_agree (rv_reviews s) \<and>
     (\<forall>i. case review_findById i (rv_reviews s) of None \<Rightarrow> resolutions_of i s = [] | Some v \<Rightarrow> review_ok v (resolutions_of i s)))"

lemma reviews_ok_at:
  "reviews_ok s \<Longrightarrow>
   case review_findById i (rv_reviews s) of None \<Rightarrow> resolutions_of i s = [] | Some v \<Rightarrow> review_ok v (resolutions_of i s)"
  by (simp add: reviews_ok_def)

lemma reviews_okI:
  "reviews.keys_agree (rv_reviews s) \<Longrightarrow>
   (\<And>i. case review_findById i (rv_reviews s) of None \<Rightarrow> resolutions_of i s = [] | Some v \<Rightarrow> review_ok v (resolutions_of i s)) \<Longrightarrow>
   reviews_ok s"
  by (simp add: reviews_ok_def)

lemma resolutions_of_publish:
  "resolutions_of i (s\<lparr>rv_reviews := r, rv_eventBus := publish e (rv_eventBus s)\<rparr>) =
   resolutions_of i s @ (if ev_type e = ''risk.manual_review_resolved.v1'' \<and> jprop (ev_payload e) ''reviewId'' = Some (JStr i) then [e] else [])"
  "resolutions_of i (s\<lparr>rv_eventBus := publish e (rv_eventBus s)\<rparr>) =
   resolutions_of i s @ (if ev_type e = ''risk.manual_review_resolved.v1'' \<and> jprop (ev_payload e) ''reviewId'' = Some (JStr i) then [e] else [])"
  by (simp_all add: resolutions_of_def)

lemma queueReview_ok:
  assumes "reviews_ok s" "review_findById uid (rv_reviews s) = None"
  shows "reviews_ok (snd (queueReview now uid inp s))"
proof -
  have "resolutions_of uid s = []" using reviews_ok_at [OF assms(1), of uid] assms(2) by simp
  then have r: "review_ok (fst (queueReview now uid inp s)) (resolutions_of uid s)"
    by (simp add: queueReview_def Let_def review_ok_def)
  show ?thesis
  proof (rule reviews_okI)
    show "reviews.keys_agree (rv_reviews (snd (queueReview now uid inp s)))"
      using assms(1) by (simp add: queueReview_def Let_def reviews_ok_def reviews.keys_agree_save)
  next
    fix i
    have es: "resolutions_of i (snd (queueReview now uid inp s)) = resolutions_of i s"
      by (simp add: queueReview_def Let_def resolutions_of_publish)
    have fi: "review_findById i (rv_reviews (snd (queueReview now uid inp s))) =
        (if i = uid then Some (fst (queueReview now uid inp s)) else review_findById i (rv_reviews s))"
      by (simp add: queueReview_def Let_def reviews.find_save)
    show "case review_findById i (rv_reviews (snd (queueReview now uid inp s))) of
        None \<Rightarrow> resolutions_of i (snd (queueReview now uid inp s)) = []
      | Some v \<Rightarrow> review_ok v (resolutions_of i (snd (queueReview now uid inp s)))"
      unfolding es fi using reviews_ok_at [OF assms(1), of i] r by simp
  qed
qed

lemma resolveReview_cases:
  obtains (kept) "snd (resolveReview now inp s) = s"
  | (resolved) v u where "review_findById (rm_reviewId inp) (rv_reviews s) = Some v" "mv_status v = QUEUED"
      "u = v\<lparr>mv_status := (if rm_decision inp = APPROVE then APPROVED else REJECTED), mv_updatedAt := now,
         mv_resolution := Some \<lparr>mr_decision = rm_decision inp, mr_resolvedBy = rm_resolvedBy inp, mr_resolvedAt = now, mr_note = rm_note inp\<rparr>\<rparr>"
      "snd (resolveReview now inp s) = s\<lparr>rv_reviews := review_save u (rv_reviews s), rv_eventBus := publish (resolved_event now inp u) (rv_eventBus s)\<rparr>"
proof (cases "review_findById (rm_reviewId inp) (rv_reviews s)")
  case None
  then show thesis by (intro kept) (simp add: resolveReview_def)
next
  case (Some v)
  show thesis
  proof (cases "mv_status v = QUEUED")
    case True
    show thesis using Some True by (intro resolved [OF Some True refl]) (simp add: resolveReview_def Let_def)
  next
    case False
    with Some show thesis by (intro kept) (simp add: resolveReview_def)
  qed
qed

lemma resolved_event_simps:
  "ev_type (resolved_event now inp u) = ''risk.manual_review_resolved.v1''"
  "jprop (ev_payload (resolved_event now inp u)) ''reviewId'' = Some (JStr (mv_reviewId u))"
  "jprop (ev_payload (resolved_event now inp u)) ''resolvedBy'' = Some (JStr (rm_resolvedBy inp))"
  by (simp_all add: resolved_event_def jprop_def)

lemma resolveReview_ok:
  assumes s: "reviews_ok s" shows "reviews_ok (snd (resolveReview now inp s))"
proof (cases rule: resolveReview_cases [where now = now and inp = inp and s = s])
  case kept
  with s show ?thesis by simp
next
  case (resolved v u)
  have id: "mv_reviewId v = rm_reviewId inp" using s resolved(1) by (auto simp: reviews_ok_def reviews.keys_agree_def)
  have none: "resolutions_of (rm_reviewId inp) s = []"
    using reviews_ok_at [OF s, of "rm_reviewId inp"] resolved(1,2) by (simp add: review_ok_def)
  have u: "mv_reviewId u = rm_reviewId inp" using id by (simp add: resolved(3))
  have "review_ok u [resolved_event now inp u]"
    by (cases "rm_decision inp") (simp_all add: resolved(3) review_ok_def resolved_event_simps)
  then have r: "review_ok u (resolutions_of (rm_reviewId inp) s @ [resolved_event now inp u])" by (simp add: none)
  show ?thesis
    unfolding resolved(4)
  proof (rule reviews_okI)
    show "reviews.keys_agree (rv_reviews (s\<lparr>rv_reviews := review_save u (rv_reviews s), rv_eventBus := publish (resolved_event now inp u) (rv_eventBus s)\<rparr>))"
      using s by (simp add: reviews_ok_def reviews.keys_agree_save)
  next
    fix i
    show "case review_findById i (rv_reviews (s\<lparr>rv_reviews := review_save u (rv_reviews s), rv_eventBus := publish (resolved_event now inp u) (rv_eventBus s)\<rparr>)) of
        None \<Rightarrow> resolutions_of i (s\<lparr>rv_reviews := review_save u (rv_reviews s), rv_eventBus := publish (resolved_event now inp u) (rv_eventBus s)\<rparr>) = []
      | Some v \<Rightarrow> review_ok v (resolutions_of i (s\<lparr>rv_reviews := review_save u (rv_reviews s), rv_eventBus := publish (resolved_event now inp u) (rv_eventBus s)\<rparr>))"
      using reviews_ok_at [OF s, of i] r
      by (cases "i = rm_reviewId inp"; cases "review_findById i (rv_reviews s)")
        (simp_all add: resolutions_of_publish resolved_event_simps reviews.find_save u)
  qed
qed

lemma review_step_ok:
  assumes "reviews_ok s" "review_op_ok op s" shows "reviews_ok (review_step op s)"
proof (cases op)
  case (OpReviewElsewhere e)
  then have r: "resolutions_of i (review_step op s) = resolutions_of i s" for i
    using assms(2) by (simp add: resolutions_of_publish)
  have f: "rv_reviews (review_step op s) = rv_reviews s" by (simp add: OpReviewElsewhere)
  show ?thesis using assms(1) unfolding reviews_ok_def r f .
qed (use assms in \<open>simp_all add: queueReview_ok resolveReview_ok\<close>)

lemma review_run_ok: "reviews_ok s \<Longrightarrow> review_ops_ok ops s \<Longrightarrow> reviews_ok (fold review_step ops s)"
  by (induction ops arbitrary: s) (simp_all add: review_step_ok)

lemma review_init_ok: "reviews_ok review_init"
  by (simp add: reviews_ok_def review_init_def reviews.keys_agree_fresh reviews.find_fresh resolutions_of_def)

text \<open>A review keeps its origin, and once resolved it is kept as it is.\<close>

definition review_moves :: "manualReview \<Rightarrow> manualReview \<Rightarrow> bool" where
  "review_moves v w = (mv_reviewId w = mv_reviewId v \<and> mv_amountCents w = mv_amountCents v \<and> mv_requestedBy w = mv_requestedBy v \<and>
     mv_createdAt w = mv_createdAt v \<and> (mv_status v \<noteq> QUEUED \<longrightarrow> w = v))"

lemma review_step_moves:
  assumes "reviews_ok s" "review_op_ok op s" "review_findById i (rv_reviews s) = Some v"
  shows "\<exists>w. review_findById i (rv_reviews (review_step op s)) = Some w \<and> review_moves v w"
proof (cases op)
  case (OpQueueReview now uid inp)
  with assms show ?thesis by (auto simp: queueReview_def Let_def reviews.find_save review_moves_def)
next
  case (OpResolveReview now inp)
  show ?thesis
  proof (cases rule: resolveReview_cases [where now = now and inp = inp and s = s])
    case kept
    with assms OpResolveReview show ?thesis by (simp add: review_moves_def)
  next
    case (resolved x u)
    have "mv_reviewId u = rm_reviewId inp" using assms(1) resolved(1,3) by (auto simp: reviews_ok_def reviews.keys_agree_def)
    with assms(3) resolved OpResolveReview show ?thesis by (auto simp: reviews.find_save review_moves_def)
  qed
next
  case (OpReviewElsewhere e)
  with assms show ?thesis by (simp add: review_moves_def)
qed

lemma review_run_moves:
  "reviews_ok s \<Longrightarrow> review_ops_ok ops s \<Longrightarrow> review_findById i (rv_reviews s) = Some v \<Longrightarrow>
   \<exists>w. review_findById i (rv_reviews (fold review_step ops s)) = Some w \<and> review_moves v w"
proof (induction ops arbitrary: s v)
  case (Cons op ops)
  have op: "review_op_ok op s" using Cons.prems(2) by simp
  obtain u where u: "review_findById i (rv_reviews (review_step op s)) = Some u" "review_moves v u"
    using review_step_moves [OF Cons.prems(1) op Cons.prems(3)] by blast
  obtain w where w: "review_findById i (rv_reviews (fold review_step ops (review_step op s))) = Some w" "review_moves u w"
    using Cons.IH [OF review_step_ok [OF Cons.prems(1) op] _ u(1)] Cons.prems(2) by auto
  have "review_moves v w" using u(2) w(2) unfolding review_moves_def by metis
  with w(1) show ?case by auto
qed (simp add: review_moves_def)

text \<open>A manual review is resolved at most once. In every reachable state it is queued without a
  resolution and without an announcement, or approved or rejected by the decision of its one resolution,
  announced exactly once with the name of the resolver; what a review is about never changes, and a resolved
  review stays as it is whatever is decided later.\<close>

lemma review_resolved_once:
  assumes "review_ops_ok (before @ after) review_init" and "s = fold review_step before review_init"
    and "s' = fold review_step after s" and "review_findById i (rv_reviews s) = Some v"
  shows "\<exists>w. review_findById i (rv_reviews s') = Some w \<and> review_moves v w \<and>
    review_ok v (resolutions_of i s) \<and> review_ok w (resolutions_of i s')"
proof -
  have ok: "reviews_ok s" "review_ops_ok after s"
    using assms(1) review_run_ok [OF review_init_ok] by (auto simp: assms(2) review_ops_ok_append)
  obtain w where w: "review_findById i (rv_reviews s') = Some w" "review_moves v w"
    using review_run_moves [OF ok assms(4)] unfolding assms(3) by blast
  have "reviews_ok s'" unfolding assms(3) by (rule review_run_ok [OF ok])
  then show ?thesis using ok(1) w assms(4) unfolding reviews_ok_def by (metis option.simps(5))
qed

definition demo_review_ops :: "review_op list" where
  "demo_review_ops = [OpQueueReview ''1'' ''r1'' \<lparr>qm_entityType = REVIEW_REFUND, qm_entityId = ''f1'', qm_orderId = None,
      qm_amountCents = Fin 900, qm_reasonCode = ''HIGH'', qm_requestedBy = ''ann''\<rparr>,
    OpResolveReview ''2'' \<lparr>rm_reviewId = ''r1'', rm_decision = APPROVE, rm_resolvedBy = ''bob'', rm_note = None\<rparr>]"

lemma review_resolved_once_witness:
  "\<exists>w. review_findById ''r1'' (rv_reviews (fold review_step
        [OpResolveReview ''3'' \<lparr>rm_reviewId = ''r1'', rm_decision = REJECT, rm_resolvedBy = ''eve'', rm_note = None\<rparr>]
        (fold review_step demo_review_ops review_init))) = Some w \<and> mv_status w = APPROVED"
proof -
  let ?late = "[OpResolveReview ''3'' \<lparr>rm_reviewId = ''r1'', rm_decision = REJECT, rm_resolvedBy = ''eve'', rm_note = None\<rparr>]"
  have ok: "review_ops_ok (demo_review_ops @ ?late) review_init"
    by (simp add: demo_review_ops_def review_init_def review_findById_def)
  obtain v where v: "review_findById ''r1'' (rv_reviews (fold review_step demo_review_ops review_init)) = Some v" "mv_status v = APPROVED"
    by (simp add: demo_review_ops_def review_init_def queueReview_def resolveReview_def review_save_def review_findById_def Let_def)
  from review_resolved_once [OF ok refl refl v(1)] v(2) show ?thesis by (auto simp: review_moves_def)
qed

section \<open>The chain of the audit log\<close>

lemma verifyChain_snoc:
  "verifyChain_from digest p (es @ [e]) \<longleftrightarrow>
     verifyChain_from digest p es \<and> ae_previousHash e = (if es = [] then p else ae_hash (last es)) \<and>
     ae_hash e = computeHash digest (hashed_fields e)"
  by (induction es arbitrary: p) auto

lemma audit_entry_simps:
  "ae_previousHash (audit_entry digest now uid inp p) = p"
  "ae_hash (audit_entry digest now uid inp p) = computeHash digest (hashed_fields (audit_entry digest now uid inp p))"
  by (simp_all add: audit_entry_def hashed_fields_def Let_def)

datatype audit_op = OpAudit "string option" iso_date uuid complianceAuditInput | OpReport uuid string iso_date | OpAuditElsewhere domain_event

fun audit_step :: "(string \<Rightarrow> string) \<Rightarrow> (string \<Rightarrow> string) \<Rightarrow> audit_op \<Rightarrow> audit_service \<Rightarrow> audit_service" where
  "audit_step digest native (OpAudit fault now uid inp) s = snd (appendEvent digest fault now uid inp s)"
| "audit_step digest native (OpReport uid who now) s = snd (generateEvidenceReport digest native uid who now s)"
| "audit_step digest native (OpAuditElsewhere e) s = s\<lparr>au_eventBus := publish e (au_eventBus s)\<rparr>"

lemma audit_step_verifies:
  assumes "verifyChain digest (au_log s)"
  shows "verifyChain digest (au_log (audit_step digest native op s)) \<and> prefix (au_log s) (au_log (audit_step digest native op s))"
proof (cases op)
  case (OpAudit fault now uid inp)
  show ?thesis
  proof (cases fault)
    case None
    let ?p = "case audit_latest (au_log s) of None \<Rightarrow> ''GENESIS'' | Some e \<Rightarrow> ae_hash e"
    have "au_log (audit_step digest native op s) = au_log s @ [audit_entry digest now uid inp ?p]"
      by (simp add: OpAudit None appendEvent_def Let_def audit_append_def)
    moreover have "?p = (if au_log s = [] then ''GENESIS'' else ae_hash (last (au_log s)))" by (simp add: audit_latest_def)
    ultimately show ?thesis
      using assms by (simp add: verifyChain_def verifyChain_snoc audit_entry_simps)
  next
    case (Some m)
    with assms show ?thesis by (simp add: OpAudit appendEvent_def Let_def)
  qed
next
  case (OpReport uid who now)
  with assms show ?thesis by (simp add: generateEvidenceReport_def Let_def)
next
  case (OpAuditElsewhere e)
  with assms show ?thesis by simp
qed

lemma audit_run_verifies: "verifyChain digest (au_log s) \<Longrightarrow> verifyChain digest (au_log (fold (audit_step digest native) ops s))"
  by (induction ops arbitrary: s) (simp_all add: audit_step_verifies)

definition audit_init :: audit_service where
  "audit_init = \<lparr>au_log = [], au_eventBus = empty_bus\<rparr>"

lemma hashed_fields_inject: "hashed_fields a = hashed_fields b \<Longrightarrow> ae_hash a = ae_hash b \<Longrightarrow> a = b"
  by (rule complianceAuditEvent.equality) (simp_all add: hashed_fields_def)

text \<open>What is used of the digest: no two of the entries compared collide, and none hashes to the first link.\<close>

definition no_collision :: "(string \<Rightarrow> string) \<Rightarrow> complianceAuditEvent set \<Rightarrow> bool" where
  "no_collision digest A =
     ((\<forall>a \<in> A. \<forall>b \<in> A. computeHash digest (hashed_fields a) = computeHash digest (hashed_fields b) \<longrightarrow> hashed_fields a = hashed_fields b) \<and>
      (\<forall>a \<in> A. computeHash digest (hashed_fields a) \<noteq> ''GENESIS''))"

lemma chain_determined:
  assumes "verifyChain digest xs" "verifyChain digest ys" "no_collision digest (set xs \<union> set ys)"
    and "xs \<noteq> []" "ys \<noteq> []" "ae_hash (last xs) = ae_hash (last ys)"
  shows "xs = ys"
  using assms
proof (induction xs arbitrary: ys rule: rev_induct)
  case (snoc x xs)
  obtain zs y where ys: "ys = zs @ [y]" using snoc.prems(5) by (metis append_butlast_last_id)
  have x: "verifyChain digest xs" "ae_previousHash x = (if xs = [] then ''GENESIS'' else ae_hash (last xs))"
      "ae_hash x = computeHash digest (hashed_fields x)"
    and y: "verifyChain digest zs" "ae_previousHash y = (if zs = [] then ''GENESIS'' else ae_hash (last zs))"
      "ae_hash y = computeHash digest (hashed_fields y)"
    using snoc.prems(1,2) by (simp_all add: ys verifyChain_def verifyChain_snoc)
  have h: "ae_hash x = ae_hash y" using snoc.prems(6) by (simp add: ys)
  then have "computeHash digest (hashed_fields x) = computeHash digest (hashed_fields y)" using x(3) y(3) by simp
  moreover have "x \<in> set (xs @ [x]) \<union> set ys" "y \<in> set (xs @ [x]) \<union> set ys" by (simp_all add: ys)
  ultimately have "hashed_fields x = hashed_fields y"
    using snoc.prems(3) unfolding no_collision_def by blast
  then have xy: "x = y" using h by (rule hashed_fields_inject)
  have hash_of: "ae_hash (last as) = computeHash digest (hashed_fields (last as))" if "verifyChain digest as" "as \<noteq> []" for as
    using that by (cases as rule: rev_cases) (simp_all add: verifyChain_def verifyChain_snoc)
  have gen: "ae_hash (last as) \<noteq> ''GENESIS''" if "verifyChain digest as" "as \<noteq> []" "set as \<subseteq> set (xs @ [x]) \<union> set ys" for as
  proof -
    have "last as \<in> set (xs @ [x]) \<union> set ys" using that(3) last_in_set [OF that(2)] by blast
    then show ?thesis using snoc.prems(3) unfolding no_collision_def hash_of [OF that(1,2)] by blast
  qed
  have "xs = zs"
  proof (cases "xs = [] \<or> zs = []")
    case True
    then show ?thesis using x(1,2) y(1,2) xy gen [of xs] gen [of zs] by (auto simp: ys split: if_splits)
  next
    case False
    moreover have "no_collision digest (set xs \<union> set zs)" using snoc.prems(3) unfolding no_collision_def ys by auto
    ultimately show ?thesis using snoc.IH [of zs] x(1,2) y(1,2) xy by auto
  qed
  with xy ys show ?case by simp
qed simp

text \<open>C15: The audit log of every reachable state verifies, whatever writes failed, and the evidence report says
  so. The log is tamper-evident: unless two entries collide under the digest, a different list of
  entries that ends with the same hash does not verify.\<close>

theorem audit_log_tamper_evident:
  assumes "s = fold (audit_step digest native) ops audit_init"
  shows "er_chainIntegrity (fst (generateEvidenceReport digest native uid who now s)) \<and>
    er_totalEvents (fst (generateEvidenceReport digest native uid who now s)) = length (listEvents s) \<and>
    (tampered \<noteq> listEvents s \<and> tampered \<noteq> [] \<and> listEvents s \<noteq> [] \<and> ae_hash (last tampered) = ae_hash (last (listEvents s)) \<and>
       no_collision digest (set tampered \<union> set (listEvents s)) \<longrightarrow> \<not> verifyChain digest tampered)"
proof -
  have v: "verifyChain digest (au_log s)" unfolding assms
    by (rule audit_run_verifies) (simp add: audit_init_def verifyChain_def)
  then show ?thesis
    using chain_determined [of digest tampered "au_log s"] by (auto simp: generateEvidenceReport_def Let_def listEvents_def)
qed

definition demo_audit :: "string \<Rightarrow> complianceAuditEvent" where
  "demo_audit actor = audit_entry id ''1'' ''a1'' \<lparr>ai_actionType = ''REFUND'', ai_actorId = actor, ai_targetType = ''ORDER'',
     ai_targetId = ''o1'', ai_reasonCode = ''R'', ai_metadata = []\<rparr> ''GENESIS''"

text \<open>Another actor under the hash of the first entry, with the text itself as digest.\<close>

lemma audit_log_tamper_evident_witness:
  "\<not> verifyChain id [(demo_audit ''eve'')\<lparr>ae_hash := ae_hash (demo_audit ''ann'')\<rparr>]"
proof -
  let ?op = "OpAudit None ''1'' ''a1'' \<lparr>ai_actionType = ''REFUND'', ai_actorId = ''ann'', ai_targetType = ''ORDER'',
     ai_targetId = ''o1'', ai_reasonCode = ''R'', ai_metadata = []\<rparr>"
  let ?s = "fold (audit_step id id) [?op] audit_init"
  have l: "listEvents ?s = [demo_audit ''ann'']"
    by (simp add: listEvents_def audit_init_def appendEvent_def audit_latest_def audit_append_def demo_audit_def Let_def)
  let ?t = "(demo_audit ''eve'')\<lparr>ae_hash := ae_hash (demo_audit ''ann'')\<rparr>"
  have f: "hashed_fields ?t = hashed_fields (demo_audit ''eve'')" by (simp add: hashed_fields_def)
  have n: "computeHash id (hashed_fields (demo_audit ''eve'')) \<noteq> computeHash id (hashed_fields (demo_audit ''ann''))"
    and g: "computeHash id (hashed_fields (demo_audit x)) \<noteq> ''GENESIS''" for x
    by (simp_all add: computeHash_def hashed_fields_def demo_audit_def audit_entry_def json_quote_def json_escape_char_def join_strings_def Let_def)
  have "?t \<noteq> demo_audit ''ann''" by (simp add: demo_audit_def audit_entry_def Let_def)
  moreover have "no_collision id (set [?t] \<union> set [demo_audit ''ann''])"
    using n n [symmetric] g [of "''eve''"] g [of "''ann''"] unfolding no_collision_def by (simp add: f)
  ultimately show ?thesis
    using audit_log_tamper_evident [of ?s id id "[?op]", where tampered = "[?t]"] unfolding l by simp
qed

end
