(* ===== verification/Platform.thy ===== *)
theory Platform
  imports Json "HOL-Library.Multiset"
begin

text \<open>
  The platform layer of \<open>src/core-api/src/platform\<close>: the document stores (the in-memory one
  and the Postgres table), the in-memory broker, the durable event bus with its outbox as a
  step relation over the interleavings of its tasks, and the relay to the realtime gateway.
\<close>

section \<open>InMemoryDocumentStore\<close>

text \<open>
  Namespaces hold values under keys. \<open>clone\<close> is \<open>JSON.parse(JSON.stringify(value))\<close> at the
  type of the values: \<open>json_clone\<close> on JSON values, \<open>event_clone\<close> on domain events.
\<close>

type_synonym 'v document_store = "(string, (string, 'v) jsmap) jsmap"

definition ds_put :: "('v \<Rightarrow> 'v) \<Rightarrow> string \<Rightarrow> string \<Rightarrow> 'v \<Rightarrow> 'v document_store \<Rightarrow> 'v document_store" where
  "ds_put clone ns k v s = map_set ns (map_set k (clone v) (nullish (map_get s ns) [])) s"

definition ds_get :: "('v \<Rightarrow> 'v) \<Rightarrow> string \<Rightarrow> string \<Rightarrow> 'v document_store \<Rightarrow> 'v option" where
  "ds_get clone ns k s =
     (case map_get s ns of None \<Rightarrow> None | Some entries \<Rightarrow> map_option clone (map_get entries k))"

definition ds_list :: "('v \<Rightarrow> 'v) \<Rightarrow> string \<Rightarrow> 'v document_store \<Rightarrow> 'v list" where
  "ds_list clone ns s =
     (case map_get s ns of None \<Rightarrow> [] | Some entries \<Rightarrow> map clone (map_values entries))"

definition ds_listEntries :: "('v \<Rightarrow> 'v) \<Rightarrow> string \<Rightarrow> 'v document_store \<Rightarrow> (string \<times> 'v) list" where
  "ds_listEntries clone ns s =
     (case map_get s ns of None \<Rightarrow> [] | Some entries \<Rightarrow> map (\<lambda>(k, v). (k, clone v)) entries)"

definition ds_delete :: "string \<Rightarrow> string \<Rightarrow> 'v document_store \<Rightarrow> 'v document_store" where
  "ds_delete ns k s =
     (case map_get s ns of
        None \<Rightarrow> s
      | Some entries \<Rightarrow>
          (let rest = map_delete k entries
           in if rest = [] then map_delete ns s else map_set ns rest s))"

text \<open>The entries of a namespace, empty when the namespace is absent.\<close>

definition ds_entries :: "string \<Rightarrow> 'v document_store \<Rightarrow> (string, 'v) jsmap" where
  "ds_entries ns s = nullish (map_get s ns) []"

lemma map_get_delete: "map_get (map_delete k m) k' = (if k' = k then None else map_get m k')"
  by (induction m) (auto simp: map_get_def map_delete_def delete_conv)

lemma map_wf_delete: "map_wf m \<Longrightarrow> map_wf (map_delete k m)"
  by (simp add: map_wf_def map_keys_def map_delete_def distinct_delete)

lemma map_delete_empty [simp]: "map_delete k [] = []"
  by (simp add: map_delete_def)

lemma ds_entries_empty [simp]: "ds_entries ns [] = []"
  by (simp add: ds_entries_def)

lemma ds_entries_put:
  "ds_entries ns' (ds_put clone ns k v s) =
     (if ns' = ns then map_set k (clone v) (ds_entries ns s) else ds_entries ns' s)"
  by (simp add: ds_entries_def ds_put_def map_get_set)

lemma ds_entries_delete:
  "ds_entries ns' (ds_delete ns k s) =
     (if ns' = ns then map_delete k (ds_entries ns s) else ds_entries ns' s)"
  by (cases "map_get s ns") (auto simp: ds_entries_def ds_delete_def Let_def map_get_set map_get_delete)

lemma ds_get_entries: "ds_get clone ns k s = map_option clone (map_get (ds_entries ns s) k)"
  by (cases "map_get s ns") (simp_all add: ds_get_def ds_entries_def)

lemma ds_list_entries: "ds_list clone ns s = map clone (map_values (ds_entries ns s))"
  by (cases "map_get s ns") (simp_all add: ds_list_def ds_entries_def map_values_def)

lemma ds_listEntries_entries: "ds_listEntries clone ns s = map (\<lambda>(k, v). (k, clone v)) (ds_entries ns s)"
  by (cases "map_get s ns") (simp_all add: ds_listEntries_def ds_entries_def)

lemmas ds_reads = ds_get_entries ds_list_entries ds_listEntries_entries

section \<open>PostgresDocumentStore\<close>

text \<open>
  The table \<open>app_documents\<close>: one row per namespace and key. A put inserts the row or, on a
  conflict, updates its value and its \<open>updated_at\<close>; a list orders by \<open>updated_at\<close>. The
  statements are the source's; what SQL leaves open (the order of rows with the same
  \<open>updated_at\<close>) is the order of insertion here.
\<close>

record 'v pg_row =
  pg_namespace :: string
  pg_key :: string
  pg_value :: 'v
  pg_updated_at :: nat

type_synonym 'v pg_store = "'v pg_row list"

definition pg_is :: "string \<Rightarrow> string \<Rightarrow> 'v pg_row \<Rightarrow> bool" where
  "pg_is ns k r = (pg_namespace r = ns \<and> pg_key r = k)"

definition pg_put :: "('v \<Rightarrow> 'v) \<Rightarrow> string \<Rightarrow> string \<Rightarrow> 'v \<Rightarrow> nat \<Rightarrow> 'v pg_store \<Rightarrow> 'v pg_store" where
  "pg_put clone ns k v now s =
     (if \<exists>r \<in> set s. pg_is ns k r
      then map (\<lambda>r. if pg_is ns k r then r\<lparr>pg_value := clone v, pg_updated_at := now\<rparr> else r) s
      else s @ [\<lparr>pg_namespace = ns, pg_key = k, pg_value = clone v, pg_updated_at = now\<rparr>])"

definition pg_get :: "string \<Rightarrow> string \<Rightarrow> 'v pg_store \<Rightarrow> 'v option" where
  "pg_get ns k s = map_option pg_value (List.find (pg_is ns k) s)"

definition pg_rows :: "string \<Rightarrow> 'v pg_store \<Rightarrow> 'v pg_row list" where
  "pg_rows ns s = js_sort (\<lambda>a b. pg_updated_at b < pg_updated_at a) (filter (\<lambda>r. pg_namespace r = ns) s)"

definition pg_list :: "string \<Rightarrow> 'v pg_store \<Rightarrow> 'v list" where
  "pg_list ns s = map pg_value (pg_rows ns s)"

definition pg_listEntries :: "string \<Rightarrow> 'v pg_store \<Rightarrow> (string \<times> 'v) list" where
  "pg_listEntries ns s = map (\<lambda>r. (pg_key r, pg_value r)) (pg_rows ns s)"

definition pg_delete :: "string \<Rightarrow> string \<Rightarrow> 'v pg_store \<Rightarrow> 'v pg_store" where
  "pg_delete ns k s = filter (\<lambda>r. \<not> pg_is ns k r) s"

text \<open>The writes of the interface, and the two stores that run them.\<close>

datatype 'v store_write = Put string string 'v nat | Delete string string

fun ds_write :: "('v \<Rightarrow> 'v) \<Rightarrow> 'v store_write \<Rightarrow> 'v document_store \<Rightarrow> 'v document_store" where
  "ds_write clone (Put ns k v now) s = ds_put clone ns k v s"
| "ds_write clone (Delete ns k) s = ds_delete ns k s"

fun pg_write :: "('v \<Rightarrow> 'v) \<Rightarrow> 'v store_write \<Rightarrow> 'v pg_store \<Rightarrow> 'v pg_store" where
  "pg_write clone (Put ns k v now) s = pg_put clone ns k v now s"
| "pg_write clone (Delete ns k) s = pg_delete ns k s"

definition pg_slice :: "string \<Rightarrow> 'v pg_store \<Rightarrow> (string \<times> 'v) list" where
  "pg_slice ns s = map (\<lambda>r. (pg_key r, pg_value r)) (filter (\<lambda>r. pg_namespace r = ns) s)"

lemma pg_slice_delete: "pg_slice ns' (pg_delete ns k s) = (if ns' = ns then map_delete k (pg_slice ns s) else pg_slice ns' s)"
  by (induction s) (auto simp: pg_slice_def pg_delete_def pg_is_def map_delete_def AList.delete_eq)

lemma pg_get_slice: "pg_get ns k s = map_get (pg_slice ns s) k"
  by (induction s) (auto simp: pg_get_def pg_slice_def map_get_def pg_is_def)

lemma map_set_present:
  "(\<exists>v. (k, v) \<in> set m) \<Longrightarrow> map_wf m \<Longrightarrow> map_set k v m = map (\<lambda>(k', w). (k', if k' = k then v else w)) m"
proof (induction m)
  case Nil
  then show ?case by simp
next
  case (Cons p m)
  obtain k' w where p: "p = (k', w)" by (cases p)
  have id: "map (\<lambda>(k', w). (k', if k' = k then v else w)) m = m" if "k \<notin> fst ` set m"
    using that by (intro map_idI) (auto simp: image_iff split: prod.splits)
  have wf: "map_wf m" "k' \<notin> fst ` set m" using Cons.prems(2) by (simp_all add: p map_wf_def map_keys_def)
  show ?case
  proof (cases "k' = k")
    case True
    with wf id show ?thesis by (simp add: p map_set_def)
  next
    case False
    with Cons.prems(1) have "\<exists>v. (k, v) \<in> set m" by (auto simp: p)
    with Cons.IH wf False show ?thesis by (simp add: p map_set_def)
  qed
qed

lemma pg_slice_put:
  assumes "map_wf (pg_slice ns s)"
  shows "pg_slice ns' (pg_put clone ns k v now s) =
    (if ns' = ns then map_set k (clone v) (pg_slice ns s) else pg_slice ns' s)"
proof (cases "\<exists>r \<in> set s. pg_is ns k r")
  case True
  let ?f = "\<lambda>r. if pg_is ns k r then r\<lparr>pg_value := clone v, pg_updated_at := now\<rparr> else r"
  have "\<exists>w. (k, w) \<in> set (pg_slice ns s)"
    using True by (force simp: pg_slice_def pg_is_def)
  from map_set_present [OF this assms]
  have set: "map_set k (clone v) (pg_slice ns s) = map (\<lambda>(k', w). (k', if k' = k then clone v else w)) (pg_slice ns s)" .
  have "pg_slice ns' (map ?f s) =
      (if ns' = ns then map (\<lambda>(k', w). (k', if k' = k then clone v else w)) (pg_slice ns s) else pg_slice ns' s)"
    by (induction s) (auto simp: pg_slice_def pg_is_def)
  with True set show ?thesis by (simp add: pg_put_def)
next
  case False
  then have "map_get (pg_slice ns s) k = None"
    by (auto simp: map_get_def pg_slice_def pg_is_def map_of_eq_None_iff)
  with False show ?thesis by (simp add: pg_put_def map_set_new) (simp add: pg_slice_def)
qed

text \<open>The simulation: the rows of each namespace are its entries, in the order of insertion.\<close>

definition stores_agree :: "'v document_store \<Rightarrow> 'v pg_store \<Rightarrow> bool" where
  "stores_agree s p = (\<forall>ns. ds_entries ns s = pg_slice ns p \<and> map_wf (pg_slice ns p))"

lemma stores_agree_empty: "stores_agree [] []"
  by (simp add: stores_agree_def pg_slice_def)

lemma stores_agree_write: "stores_agree s p \<Longrightarrow> stores_agree (ds_write clone w s) (pg_write clone w p)"
  by (cases w) (auto simp: stores_agree_def ds_entries_put ds_entries_delete pg_slice_put pg_slice_delete map_wf_delete)

lemma stores_agree_writes: "stores_agree s p \<Longrightarrow> stores_agree (fold (ds_write clone) ws s) (fold (pg_write clone) ws p)"
  by (induction ws arbitrary: s p) (simp_all add: stores_agree_write)

lemma pg_listEntries_mset: "mset (pg_listEntries ns p) = mset (pg_slice ns p)"
  by (simp add: pg_listEntries_def pg_rows_def pg_slice_def)

lemma pg_list_mset: "mset (pg_list ns p) = mset (map snd (pg_slice ns p))"
  by (simp add: pg_list_def pg_rows_def pg_slice_def comp_def)

lemma stored_cloned:
  assumes "\<And>v. clone (clone v) = clone v"
  shows "(\<forall>ns. \<forall>(k, v) \<in> set (ds_entries ns s). clone v = v) \<Longrightarrow>
    \<forall>ns. \<forall>(k, v) \<in> set (ds_entries ns (ds_write clone w s)). clone v = v"
proof (cases w)
  case (Put ns k v now)
  have upd: "set (map_set k (clone v) m) \<subseteq> insert (k, clone v) (set m)" for m :: "(string, 'a) jsmap"
    by (induction m) (auto simp: map_set_def)
  assume "\<forall>ns. \<forall>(k, v) \<in> set (ds_entries ns s). clone v = v"
  then show ?thesis using upd [of "ds_entries ns s"] assms unfolding Put ds_write.simps ds_entries_put
    by (auto dest!: subsetD)
next
  case (Delete ns k)
  assume "\<forall>ns. \<forall>(k, v) \<in> set (ds_entries ns s). clone v = v"
  moreover have "set (map_delete k m) \<subseteq> set m" for m :: "(string, 'a) jsmap"
    by (auto simp: map_delete_def AList.delete_eq)
  ultimately show ?thesis unfolding Delete ds_write.simps ds_entries_delete by (auto dest!: subsetD)
qed

lemma stored_cloned_writes:
  assumes "\<And>v. clone (clone v) = clone v"
  shows "(\<forall>ns. \<forall>(k, v) \<in> set (ds_entries ns s). clone v = v) \<Longrightarrow>
    \<forall>ns. \<forall>(k, v) \<in> set (ds_entries ns (fold (ds_write clone) ws s)). clone v = v"
proof (induction ws arbitrary: s)
  case Nil
  then show ?case by simp
next
  case (Cons w ws)
  show ?case using Cons.IH [OF stored_cloned [OF assms Cons.prems]] by simp
qed




section \<open>InMemoryEventBroker\<close>

record broker_message =
  bm_topic :: string
  bm_payload :: string
  bm_publishedAt :: iso_date

definition broker_publish :: "string \<Rightarrow> string \<Rightarrow> iso_date \<Rightarrow> broker_message list \<Rightarrow> broker_message list" where
  "broker_publish topic payload now ms = ms @ [\<lparr>bm_topic = topic, bm_payload = payload, bm_publishedAt = now\<rparr>]"

interpretation broker_log: append_log "\<lambda>(t, p, w). broker_publish t p w" "\<lambda>ms. map (\<lambda>m. (bm_topic m, bm_payload m, bm_publishedAt m)) ms"
  by unfold_locales (auto simp: broker_publish_def)

section \<open>DurableEventBus\<close>

definition event_clone :: "domain_event \<Rightarrow> domain_event" where
  "event_clone e = e\<lparr>ev_payload := map (\<lambda>(k, v). (k, json_clone v)) (ev_payload e)\<rparr>"

definition event_json :: "domain_event \<Rightarrow> json" where
  "event_json e = JObj [(''type'', JStr (ev_type e)), (''occurredAt'', JStr (ev_occurredAt e)),
     (''payload'', JObj (ev_payload e))]"

lemma event_clone_idem: "event_clone (event_clone e) = event_clone e"
proof -
  have "(\<lambda>(k, v). (k, json_clone v)) \<circ> (\<lambda>(k, v). (k, json_clone v)) = (\<lambda>(k :: string, v). (k, json_clone v))"
    by (auto simp: fun_eq_iff json_clone_idem)
  then show ?thesis by (simp add: event_clone_def)
qed

text \<open>
  The bus is a subclass of the in-memory one. Its constructor starts the hydration, a task
  that replays the outbox into the bus. A publish only adds a task behind the hydration; the
  task publishes on the in-memory bus, then waits for the put into the outbox, then for the
  broker. Tasks begin in the order of the calls, because they are callbacks of one promise;
  after that their waits interleave freely, and each wait may be rejected (the last three
  stages). \<open>dt_tasks\<close> keeps
  the finished tasks as a history; \<open>pendingPublishes\<close> holds the others.
\<close>

datatype hydration = Loading | Hydrated | Hydration_failed

datatype task_stage = Waiting | Storing | Sending | Finished | Not_begun | Not_stored | Not_sent

record publish_task =
  pt_event :: domain_event
  pt_stage :: task_stage

record durable_config =
  dc_documentStore :: bool
  dc_broker :: bool
  dc_outboxNamespace :: string

record durable_bus =
  db_bus :: event_bus
  db_hydration :: hydration
  db_tasks :: "publish_task list"
  db_outbox :: "domain_event document_store"
  db_messages :: "broker_message list"

definition default_durable_config :: durable_config where
  "default_durable_config = \<lparr>dc_documentStore = True, dc_broker = True, dc_outboxNamespace = ''platform.event_outbox''\<rparr>"

text \<open>The constructor, and the subscribers added before the hydration's task runs.\<close>

definition durable_init :: "subscriber list \<Rightarrow> domain_event document_store \<Rightarrow> broker_message list \<Rightarrow> durable_bus" where
  "durable_init subs outbox ms =
     \<lparr>db_bus = fold subscribe subs empty_bus, db_hydration = Loading, db_tasks = [],
      db_outbox = outbox, db_messages = ms\<rparr>"

definition durable_publish :: "domain_event \<Rightarrow> durable_bus \<Rightarrow> durable_bus" where
  "durable_publish e d = d\<lparr>db_tasks := db_tasks d @ [\<lparr>pt_event = e, pt_stage = Waiting\<rparr>]\<rparr>"

definition hydrateFromOutbox :: "durable_config \<Rightarrow> durable_bus \<Rightarrow> durable_bus" where
  "hydrateFromOutbox cfg d =
     (if \<not> dc_documentStore cfg then d\<lparr>db_hydration := Hydrated\<rparr>
      else d\<lparr>db_bus := publish_all (ds_list event_clone (dc_outboxNamespace cfg) (db_outbox d)) (db_bus d),
             db_hydration := Hydrated\<rparr>)"

definition set_stage :: "nat \<Rightarrow> task_stage \<Rightarrow> durable_bus \<Rightarrow> durable_bus" where
  "set_stage i st d = d\<lparr>db_tasks := (db_tasks d)[i := (db_tasks d ! i)\<lparr>pt_stage := st\<rparr>]\<rparr>"

definition persist_event :: "durable_config \<Rightarrow> uuid \<Rightarrow> domain_event \<Rightarrow> durable_bus \<Rightarrow> durable_bus" where
  "persist_event cfg uuid e d =
     (if dc_documentStore cfg
      then d\<lparr>db_outbox := ds_put event_clone (dc_outboxNamespace cfg) uuid e (db_outbox d)\<rparr> else d)"

definition send_event :: "durable_config \<Rightarrow> iso_date \<Rightarrow> domain_event \<Rightarrow> durable_bus \<Rightarrow> durable_bus" where
  "send_event cfg now e d =
     (if dc_broker cfg
      then d\<lparr>db_messages := broker_publish (ev_type e) (json_stringify (event_json e)) now (db_messages d)\<rparr> else d)"

abbreviation task_event :: "durable_bus \<Rightarrow> nat \<Rightarrow> domain_event" where
  "task_event d i \<equiv> pt_event (db_tasks d ! i)"

definition in_stage :: "task_stage \<Rightarrow> nat \<Rightarrow> durable_bus \<Rightarrow> bool" where
  "in_stage st i d = (i < length (db_tasks d) \<and> pt_stage (db_tasks d ! i) = st)"

text \<open>The steps of the bus's own tasks; a failed wait needs a store or a broker to fail.
  \<open>randomUUID\<close> gives a key the outbox does not hold.\<close>

inductive durable_step :: "durable_config \<Rightarrow> durable_bus \<Rightarrow> durable_bus \<Rightarrow> bool" for cfg where
  hydrate: "db_hydration d = Loading \<Longrightarrow> durable_step cfg d (hydrateFromOutbox cfg d)"
| begin_task: "db_hydration d = Hydrated \<Longrightarrow> in_stage Waiting i d \<Longrightarrow> \<forall>j < i. \<not> in_stage Waiting j d \<Longrightarrow>
    durable_step cfg d ((set_stage i Storing d)\<lparr>db_bus := publish (task_event d i) (db_bus d)\<rparr>)"
| store_task: "in_stage Storing i d \<Longrightarrow> map_get (ds_entries (dc_outboxNamespace cfg) (db_outbox d)) uuid = None \<Longrightarrow>
    durable_step cfg d (persist_event cfg uuid (task_event d i) (set_stage i Sending d))"
| send_task: "in_stage Sending i d \<Longrightarrow>
    durable_step cfg d (send_event cfg now (task_event d i) (set_stage i Finished d))"

inductive durable_failure :: "durable_config \<Rightarrow> durable_bus \<Rightarrow> durable_bus \<Rightarrow> bool" for cfg where
  hydrate_fails: "db_hydration d = Loading \<Longrightarrow> dc_documentStore cfg \<Longrightarrow>
    durable_failure cfg d (d\<lparr>db_hydration := Hydration_failed\<rparr>)"
| never_begins: "db_hydration d = Hydration_failed \<Longrightarrow> in_stage Waiting i d \<Longrightarrow>
    durable_failure cfg d (set_stage i Not_begun d)"
| store_fails: "in_stage Storing i d \<Longrightarrow> dc_documentStore cfg \<Longrightarrow> durable_failure cfg d (set_stage i Not_stored d)"
| broker_fails: "in_stage Sending i d \<Longrightarrow> dc_broker cfg \<Longrightarrow> durable_failure cfg d (set_stage i Not_sent d)"

text \<open>A run interleaves calls of \<open>publish\<close>, steps and failures; \<open>es\<close> lists the calls.\<close>

inductive durable_run :: "durable_config \<Rightarrow> durable_bus \<Rightarrow> domain_event list \<Rightarrow> durable_bus \<Rightarrow> bool" for cfg d0 where
  start: "durable_run cfg d0 [] d0"
| publish_call: "durable_run cfg d0 es d \<Longrightarrow> durable_run cfg d0 (es @ [e]) (durable_publish e d)"
| own_step: "durable_run cfg d0 es d \<Longrightarrow> durable_step cfg d d' \<Longrightarrow> durable_run cfg d0 es d'"
| failure: "durable_run cfg d0 es d \<Longrightarrow> durable_failure cfg d d' \<Longrightarrow> durable_run cfg d0 es d'"

text \<open>What the stage of a task says it has done: published on the bus, stored, sent.\<close>

definition begun :: "task_stage \<Rightarrow> bool" where
  "begun st = (st \<notin> {Waiting, Not_begun})"

definition events_in :: "task_stage set \<Rightarrow> durable_bus \<Rightarrow> domain_event multiset" where
  "events_in S d = image_mset pt_event (filter_mset (\<lambda>t. pt_stage t \<in> S) (mset (db_tasks d)))"

text \<open>\<open>flush\<close> waits for the hydration and for the tasks in \<open>pendingPublishes\<close>.\<close>

definition pendingPublishes :: "durable_bus \<Rightarrow> publish_task list" where
  "pendingPublishes d = filter (\<lambda>t. pt_stage t \<in> {Waiting, Storing, Sending}) (db_tasks d)"

definition flushed :: "durable_bus \<Rightarrow> bool" where
  "flushed d = (db_hydration d \<noteq> Loading \<and> pendingPublishes d = [])"

fun stage_work :: "task_stage \<Rightarrow> nat" where
  "stage_work Waiting = 3"
| "stage_work Storing = 2"
| "stage_work Sending = 1"
| "stage_work _ = 0"

definition durable_work :: "durable_bus \<Rightarrow> nat" where
  "durable_work d = (if db_hydration d = Loading then 1 else 0) + sum_list (map (\<lambda>t. stage_work (pt_stage t)) (db_tasks d))"

lemma set_stage_frame [simp]:
  "db_bus (set_stage i st d) = db_bus d"
  "db_hydration (set_stage i st d) = db_hydration d"
  "db_outbox (set_stage i st d) = db_outbox d"
  "db_messages (set_stage i st d) = db_messages d"
  "length (db_tasks (set_stage i st d)) = length (db_tasks d)"
  "map pt_event (db_tasks (set_stage i st d)) = map pt_event (db_tasks d)"
proof -
  show "map pt_event (db_tasks (set_stage i st d)) = map pt_event (db_tasks d)"
    by (simp add: set_stage_def map_update) (metis list_update_id map_update)
qed (simp_all add: set_stage_def)

lemma stage_set_stage:
  "j < length (db_tasks d) \<Longrightarrow>
   pt_stage (db_tasks (set_stage i st d) ! j) = (if j = i then st else pt_stage (db_tasks d ! j))"
  by (simp add: set_stage_def nth_list_update)

lemma persist_frame [simp]:
  "db_bus (persist_event cfg uuid e d) = db_bus d"
  "db_hydration (persist_event cfg uuid e d) = db_hydration d"
  "db_tasks (persist_event cfg uuid e d) = db_tasks d"
  "db_messages (persist_event cfg uuid e d) = db_messages d"
  by (simp_all add: persist_event_def)

lemma send_frame [simp]:
  "db_bus (send_event cfg now e d) = db_bus d"
  "db_hydration (send_event cfg now e d) = db_hydration d"
  "db_tasks (send_event cfg now e d) = db_tasks d"
  "db_outbox (send_event cfg now e d) = db_outbox d"
  by (simp_all add: send_event_def)

lemma tasks_split:
  assumes "i < length xs"
  shows "\<exists>R. mset xs = add_mset (xs ! i) R \<and> mset (xs[i := y]) = add_mset y R"
  using assms by (intro exI [of _ "mset xs - {#xs ! i#}"]) (simp add: mset_update)

lemma events_in_set_stage:
  assumes "in_stage a i d"
  shows "events_in S (set_stage i b d) + (if a \<in> S then {#task_event d i#} else {#}) =
    events_in S d + (if b \<in> S then {#task_event d i#} else {#})"
proof -
  obtain R where "mset (db_tasks d) = add_mset (db_tasks d ! i) R"
    "mset ((db_tasks d)[i := (db_tasks d ! i)\<lparr>pt_stage := b\<rparr>]) = add_mset ((db_tasks d ! i)\<lparr>pt_stage := b\<rparr>) R"
    using tasks_split [of i "db_tasks d" "(db_tasks d ! i)\<lparr>pt_stage := b\<rparr>"] assms by (auto simp: in_stage_def)
  then show ?thesis using assms by (simp add: events_in_def set_stage_def in_stage_def)
qed

lemma work_set_stage:
  assumes "in_stage a i d"
  shows "durable_work (set_stage i b d) + stage_work a = durable_work d + stage_work b"
proof -
  have sum: "durable_work d = (if db_hydration d = Loading then 1 else 0) + (\<Sum>t\<in>#mset (db_tasks d). stage_work (pt_stage t))" for d
    by (simp only: durable_work_def sum_mset_sum_list mset_map [symmetric])
  obtain R where "mset (db_tasks d) = add_mset (db_tasks d ! i) R"
    "mset ((db_tasks d)[i := (db_tasks d ! i)\<lparr>pt_stage := b\<rparr>]) = add_mset ((db_tasks d ! i)\<lparr>pt_stage := b\<rparr>) R"
    using tasks_split [of i "db_tasks d" "(db_tasks d ! i)\<lparr>pt_stage := b\<rparr>"] assms by (auto simp: in_stage_def)
  then show ?thesis using assms by (simp add: sum set_stage_def in_stage_def)
qed

lemma work_of_tasks: "db_hydration d' = db_hydration d \<Longrightarrow> db_tasks d' = db_tasks d \<Longrightarrow> durable_work d' = durable_work d"
  by (simp add: durable_work_def)

lemma events_in_tasks: "db_tasks d' = db_tasks d \<Longrightarrow> events_in S d' = events_in S d"
  by (simp add: events_in_def)

lemma step_work: "durable_step cfg d d' \<Longrightarrow> durable_work d' < durable_work d"
proof (induction rule: durable_step.induct)
  case (hydrate d)
  then show ?case by (simp add: durable_work_def hydrateFromOutbox_def)
next
  case (begin_task d i)
  have "durable_work ((set_stage i Storing d)\<lparr>db_bus := publish (task_event d i) (db_bus d)\<rparr>) = durable_work (set_stage i Storing d)"
    by (rule work_of_tasks) simp_all
  with work_set_stage [OF begin_task(2), of Storing] show ?case by simp
next
  case (store_task i d uuid)
  have "durable_work (persist_event cfg uuid (task_event d i) (set_stage i Sending d)) = durable_work (set_stage i Sending d)"
    by (rule work_of_tasks) simp_all
  with work_set_stage [OF store_task(1), of Sending] show ?case by simp
next
  case (send_task i d now)
  have "durable_work (send_event cfg now (task_event d i) (set_stage i Finished d)) = durable_work (set_stage i Finished d)"
    by (rule work_of_tasks) simp_all
  with work_set_stage [OF send_task(1), of Finished] show ?case by simp
qed

lemma failure_work: "durable_failure cfg d d' \<Longrightarrow> durable_work d' < durable_work d"
proof (induction rule: durable_failure.induct)
  case (hydrate_fails d)
  then show ?case by (simp add: durable_work_def)
next
  case (never_begins d i)
  show ?case using work_set_stage [OF never_begins(2), of Not_begun] by simp
next
  case (store_fails i d)
  show ?case using work_set_stage [OF store_fails(1), of Not_stored] by simp
next
  case (broker_fails i d)
  show ?case using work_set_stage [OF broker_fails(1), of Not_sent] by simp
qed

text \<open>The invariant of a run.\<close>

definition hydrated_events :: "durable_config \<Rightarrow> durable_bus \<Rightarrow> domain_event list" where
  "hydrated_events cfg d0 =
     (if dc_documentStore cfg then ds_list event_clone (dc_outboxNamespace cfg) (db_outbox d0) else [])"

definition outbox_values :: "durable_config \<Rightarrow> durable_bus \<Rightarrow> domain_event multiset" where
  "outbox_values cfg d = mset (map_values (ds_entries (dc_outboxNamespace cfg) (db_outbox d)))"

definition sent_messages :: "durable_bus \<Rightarrow> (string \<times> string) multiset" where
  "sent_messages d = mset (map (\<lambda>m. (bm_topic m, bm_payload m)) (db_messages d))"

definition message_of :: "domain_event \<Rightarrow> string \<times> string" where
  "message_of e = (ev_type e, json_stringify (event_json e))"

definition begun_prefix :: "nat \<Rightarrow> durable_bus \<Rightarrow> bool" where
  "begun_prefix n d = (n \<le> length (db_tasks d) \<and>
     (\<forall>i < length (db_tasks d). begun (pt_stage (db_tasks d ! i)) \<longleftrightarrow> i < n) \<and>
     (\<forall>t \<in> set (db_tasks d). pt_stage t = Not_begun \<longrightarrow> db_hydration d = Hydration_failed) \<and>
     (n = 0 \<or> db_hydration d = Hydrated))"

definition durable_inv :: "durable_config \<Rightarrow> durable_bus \<Rightarrow> domain_event list \<Rightarrow> durable_bus \<Rightarrow> bool" where
  "durable_inv cfg d0 es d =
     (map pt_event (db_tasks d) = es \<and>
      (\<exists>n. begun_prefix n d \<and>
         bus_events (db_bus d) = bus_events (db_bus d0) @
           (if db_hydration d = Hydrated then hydrated_events cfg d0 @ take n es else [])) \<and>
      outbox_values cfg d = outbox_values cfg d0 +
        (if dc_documentStore cfg then image_mset event_clone (events_in {Sending, Finished, Not_sent} d) else {#}) \<and>
      (db_hydration d = Loading \<longrightarrow> db_outbox d = db_outbox d0) \<and>
      sent_messages d = sent_messages d0 +
        (if dc_broker cfg then image_mset message_of (events_in {Finished} d) else {#}))"


lemma begun_prefix_start: "begun_prefix 0 (durable_init subs outbox ms)"
  by (simp add: begun_prefix_def durable_init_def)

lemma durable_inv_start: "durable_inv cfg (durable_init subs outbox ms) [] (durable_init subs outbox ms)"
  unfolding durable_inv_def using begun_prefix_start by (auto simp: durable_init_def events_in_def)

lemma in_set_set_stage:
  "t \<in> set (db_tasks (set_stage i st d)) \<Longrightarrow> t \<in> set (db_tasks d) \<or> pt_stage t = st"
  by (auto simp: set_stage_def dest: set_update_subset_insert [THEN subsetD])

text \<open>A stage change that keeps a task begun (or not) keeps the prefix.\<close>

lemma begun_prefix_set_stage:
  assumes "begun_prefix n d" "in_stage a i d" "begun a = begun b"
    "b = Not_begun \<longrightarrow> db_hydration d = Hydration_failed"
  shows "begun_prefix n (set_stage i b d)"
  using assms in_set_set_stage [of _ i b d]
  unfolding begun_prefix_def by (auto simp: stage_set_stage in_stage_def)

lemma begun_prefix_begin:
  assumes "begun_prefix n d" "db_hydration d = Hydrated" "in_stage Waiting i d" "\<forall>j < i. \<not> in_stage Waiting j d"
  shows "n = i" "begun_prefix (Suc i) (set_stage i Storing d)"
proof -
  have stages: "begun (pt_stage (db_tasks d ! j)) \<longleftrightarrow> j < n" if "j < length (db_tasks d)" for j
    using assms(1) that by (simp add: begun_prefix_def)
  have no_failed: "t \<in> set (db_tasks d) \<Longrightarrow> pt_stage t \<noteq> Not_begun" for t
    using assms(1,2) by (auto simp: begun_prefix_def)
  have i: "i < length (db_tasks d)" "pt_stage (db_tasks d ! i) = Waiting"
    using assms(3) by (simp_all add: in_stage_def)
  have "begun (pt_stage (db_tasks d ! j))" if "j < i" for j
    using assms(4) that i no_failed [of "db_tasks d ! j"] by (auto simp: in_stage_def begun_def)
  then have "j < n" if "j < i" for j using stages that i(1) by simp
  moreover have "\<not> i < n" using stages [OF i(1)] i(2) by (simp add: begun_def)
  ultimately show n: "n = i" by (meson linorder_neqE_nat not_less_iff_gr_or_eq)
  have "begun (pt_stage (db_tasks (set_stage i Storing d) ! j)) \<longleftrightarrow> j < Suc i" if "j < length (db_tasks d)" for j
    using stages [OF that] that by (simp add: stage_set_stage n begun_def less_Suc_eq)
  moreover have "pt_stage t \<noteq> Not_begun" if "t \<in> set (db_tasks (set_stage i Storing d))" for t
    using in_set_set_stage [OF that] no_failed [of t] by auto
  ultimately show "begun_prefix (Suc i) (set_stage i Storing d)"
    unfolding begun_prefix_def using i(1) assms(2) by simp
qed

lemma begun_prefix_cong:
  "db_tasks d' = db_tasks d \<Longrightarrow> db_hydration d' = db_hydration d \<Longrightarrow> begun_prefix n d' = begun_prefix n d"
  by (simp add: begun_prefix_def)

lemma durable_inv_stage:
  assumes inv: "durable_inv cfg d0 es d" and stage: "in_stage a i d" "begun a = begun b"
    "b = Not_begun \<longrightarrow> db_hydration d = Hydration_failed"
    and tasks: "db_tasks d' = db_tasks (set_stage i b d)"
    and same: "db_bus d' = db_bus d" "db_hydration d' = db_hydration d"
    and outbox: "outbox_values cfg d' = outbox_values cfg d +
      (if dc_documentStore cfg \<and> a \<notin> {Sending, Finished, Not_sent} \<and> b \<in> {Sending, Finished, Not_sent}
       then {#event_clone (task_event d i)#} else {#})"
    and messages: "sent_messages d' = sent_messages d +
      (if dc_broker cfg \<and> b = Finished then {#message_of (task_event d i)#} else {#})"
    and moves: "a \<in> {Sending, Finished, Not_sent} \<longrightarrow> b \<in> {Sending, Finished, Not_sent}" "a \<noteq> Finished"
    and loading: "db_hydration d = Loading \<longrightarrow> db_outbox d' = db_outbox d"
  shows "durable_inv cfg d0 es d'"
proof -
  have prefix: "begun_prefix n d \<Longrightarrow> begun_prefix n d'" for n
    using begun_prefix_set_stage [OF _ stage, of n] tasks same unfolding begun_prefix_def by simp
  have stored: "events_in {Sending, Finished, Not_sent} d' = events_in {Sending, Finished, Not_sent} d +
      (if a \<notin> {Sending, Finished, Not_sent} \<and> b \<in> {Sending, Finished, Not_sent} then {#task_event d i#} else {#})"
    using events_in_set_stage [OF stage(1), of "{Sending, Finished, Not_sent}" b] moves
    unfolding events_in_tasks [OF tasks] by (auto split: if_splits)
  have sent: "events_in {Finished} d' = events_in {Finished} d + (if b = Finished then {#task_event d i#} else {#})"
    using events_in_set_stage [OF stage(1), of "{Finished}" b] moves
    unfolding events_in_tasks [OF tasks] by (auto split: if_splits)
  have es: "map pt_event (db_tasks d') = es" using inv by (simp add: tasks durable_inv_def)
  obtain n where n: "begun_prefix n d" "bus_events (db_bus d) = bus_events (db_bus d0) @
      (if db_hydration d = Hydrated then hydrated_events cfg d0 @ take n es else [])"
    using inv unfolding durable_inv_def by blast
  have parts: "outbox_values cfg d = outbox_values cfg d0 +
      (if dc_documentStore cfg then image_mset event_clone (events_in {Sending, Finished, Not_sent} d) else {#})"
    "sent_messages d = sent_messages d0 + (if dc_broker cfg then image_mset message_of (events_in {Finished} d) else {#})"
    "db_hydration d = Loading \<longrightarrow> db_outbox d = db_outbox d0"
    using inv unfolding durable_inv_def by blast+
  have "outbox_values cfg d' = outbox_values cfg d0 +
      (if dc_documentStore cfg then image_mset event_clone (events_in {Sending, Finished, Not_sent} d') else {#})"
    unfolding outbox stored parts(1) by simp
  moreover have "sent_messages d' = sent_messages d0 +
      (if dc_broker cfg then image_mset message_of (events_in {Finished} d') else {#})"
    unfolding messages sent parts(2) by simp
  moreover have "db_hydration d' = Loading \<longrightarrow> db_outbox d' = db_outbox d0"
    using parts(3) loading same by simp
  moreover have "bus_events (db_bus d') = bus_events (db_bus d0) @
      (if db_hydration d' = Hydrated then hydrated_events cfg d0 @ take n es else [])"
    using n(2) same by simp
  ultimately show ?thesis unfolding durable_inv_def using es prefix [OF n(1)] by blast
qed

lemma durable_inv_begun:
  assumes "durable_inv cfg d0 es d" "in_stage a i d" "begun a"
  shows "db_hydration d = Hydrated"
proof -
  obtain n where n: "begun_prefix n d" using assms(1) unfolding durable_inv_def by blast
  then have "i < n" using assms(2,3) by (auto simp: begun_prefix_def in_stage_def)
  with n show ?thesis by (simp add: begun_prefix_def)
qed

lemma outbox_values_cong: "db_outbox d' = db_outbox d \<Longrightarrow> outbox_values cfg d' = outbox_values cfg d"
  by (simp add: outbox_values_def)

lemma sent_messages_cong: "db_messages d' = db_messages d \<Longrightarrow> sent_messages d' = sent_messages d"
  by (simp add: sent_messages_def)

lemma outbox_values_persist:
  "map_get (ds_entries (dc_outboxNamespace cfg) (db_outbox d)) uuid = None \<Longrightarrow>
   outbox_values cfg (persist_event cfg uuid e d) = outbox_values cfg d +
     (if dc_documentStore cfg then {#event_clone e#} else {#})"
  by (simp add: outbox_values_def persist_event_def ds_entries_put map_set_new map_values_def)

lemma sent_messages_send:
  "sent_messages (send_event cfg now e d) = sent_messages d + (if dc_broker cfg then {#message_of e#} else {#})"
  by (simp add: sent_messages_def send_event_def broker_publish_def message_of_def)

lemma durable_inv_step:
  "durable_step cfg d d' \<Longrightarrow> durable_inv cfg d0 es d \<Longrightarrow> durable_inv cfg d0 es d'"
proof (induction rule: durable_step.induct)
  case (hydrate d)
  then obtain n where n: "begun_prefix n d" and ev: "bus_events (db_bus d) = bus_events (db_bus d0)"
    by (auto simp: durable_inv_def)
  have "n = 0" using n hydrate(1) by (simp add: begun_prefix_def)
  then have pre: "begun_prefix 0 (hydrateFromOutbox cfg d)"
    using n hydrate(1) by (auto simp: begun_prefix_def hydrateFromOutbox_def)
  have tasks: "db_tasks (hydrateFromOutbox cfg d) = db_tasks d" "db_outbox (hydrateFromOutbox cfg d) = db_outbox d"
    "db_messages (hydrateFromOutbox cfg d) = db_messages d" "db_hydration (hydrateFromOutbox cfg d) = Hydrated"
    by (simp_all add: hydrateFromOutbox_def)
  have outbox: "db_outbox d = db_outbox d0" using hydrate by (simp add: durable_inv_def)
  have "bus_events (db_bus (hydrateFromOutbox cfg d)) = bus_events (db_bus d0) @ hydrated_events cfg d0 @ take 0 es"
    using ev outbox by (simp add: hydrateFromOutbox_def hydrated_events_def)
  with pre hydrate(2) show ?case
    unfolding durable_inv_def tasks events_in_tasks [OF tasks(1)] outbox_values_cong [OF tasks(2)] sent_messages_cong [OF tasks(3)]
    by auto
next
  case (begin_task d i)
  let ?d = "(set_stage i Storing d)\<lparr>db_bus := publish (task_event d i) (db_bus d)\<rparr>"
  obtain n where n: "begun_prefix n d" and ev: "bus_events (db_bus d) = bus_events (db_bus d0) @ hydrated_events cfg d0 @ take n es"
    and es: "map pt_event (db_tasks d) = es"
    using begin_task by (auto simp: durable_inv_def)
  note prefix = begun_prefix_begin [OF n begin_task(1-3)]
  have "task_event d i = es ! i" "i < length es" using es begin_task(2) by (auto simp: in_stage_def)
  then have events: "bus_events (db_bus ?d) = bus_events (db_bus d0) @ hydrated_events cfg d0 @ take (Suc i) es"
    by (simp add: ev prefix(1) take_Suc_conv_app_nth)
  have pre: "begun_prefix (Suc i) ?d" using prefix(2) begun_prefix_cong [of ?d "set_stage i Storing d"] by simp
  have tasks: "db_tasks ?d = db_tasks (set_stage i Storing d)" by simp
  have same: "events_in {Sending, Finished, Not_sent} ?d = events_in {Sending, Finished, Not_sent} d"
    "events_in {Finished} ?d = events_in {Finished} d"
    unfolding events_in_tasks [OF tasks]
    using events_in_set_stage [OF begin_task(2), of "{Sending, Finished, Not_sent}" Storing]
      events_in_set_stage [OF begin_task(2), of "{Finished}" Storing] by simp_all
  have frame: "outbox_values cfg ?d = outbox_values cfg d" "sent_messages ?d = sent_messages d"
    by (simp_all add: outbox_values_def sent_messages_def)
  have "db_hydration ?d = Hydrated" using begin_task(1) by simp
  moreover have "map pt_event (db_tasks ?d) = es" using es by simp
  ultimately show ?case using begin_task(4) pre events unfolding durable_inv_def same frame by auto
next
  case (store_task i d uuid)
  let ?d = "set_stage i Sending d"
  have "outbox_values cfg (persist_event cfg uuid (task_event d i) ?d) = outbox_values cfg ?d +
      (if dc_documentStore cfg then {#event_clone (task_event d i)#} else {#})"
    by (rule outbox_values_persist) (simp add: store_task(2))
  moreover have "outbox_values cfg ?d = outbox_values cfg d" by (rule outbox_values_cong) simp
  moreover have "db_hydration d \<noteq> Loading"
    using durable_inv_begun [OF store_task(3,1)] by (simp add: begun_def)
  moreover have "sent_messages (persist_event cfg uuid (task_event d i) ?d) = sent_messages d"
    by (rule sent_messages_cong) simp
  ultimately show ?case
    by - (rule durable_inv_stage [OF store_task(3,1), where b = Sending], simp_all add: begun_def)
next
  case (send_task i d now)
  let ?d = "set_stage i Finished d"
  have "sent_messages ?d = sent_messages d" by (rule sent_messages_cong) simp
  moreover have "outbox_values cfg (send_event cfg now (task_event d i) ?d) = outbox_values cfg d"
    by (rule outbox_values_cong) simp
  ultimately show ?case
    by - (rule durable_inv_stage [OF send_task(2,1), where b = Finished], simp_all add: begun_def sent_messages_send)
qed


lemma durable_inv_failure:
  "durable_failure cfg d d' \<Longrightarrow> durable_inv cfg d0 es d \<Longrightarrow> durable_inv cfg d0 es d'"
proof (induction rule: durable_failure.induct)
  case (hydrate_fails d)
  let ?d = "d\<lparr>db_hydration := Hydration_failed\<rparr>"
  obtain n where n: "begun_prefix n d" and ev: "bus_events (db_bus d) = bus_events (db_bus d0)"
    using hydrate_fails by (auto simp: durable_inv_def)
  have "n = 0" using n hydrate_fails(1) by (simp add: begun_prefix_def)
  then have pre: "begun_prefix 0 ?d"
    using n hydrate_fails(1) by (auto simp: begun_prefix_def)
  have frame: "events_in S ?d = events_in S d" "outbox_values cfg ?d = outbox_values cfg d"
    "sent_messages ?d = sent_messages d" for S
    by (simp_all add: events_in_def outbox_values_def sent_messages_def)
  show ?case using hydrate_fails(3) pre ev unfolding durable_inv_def frame by auto
next
  case (never_begins d i)
  show ?case
    by (rule durable_inv_stage [OF never_begins(3,2), where b = Not_begun])
       (simp_all add: begun_def outbox_values_def sent_messages_def never_begins)
next
  case (store_fails i d)
  show ?case
    by (rule durable_inv_stage [OF store_fails(3,1), where b = Not_stored])
       (simp_all add: begun_def outbox_values_def sent_messages_def)
next
  case (broker_fails i d)
  show ?case
    by (rule durable_inv_stage [OF broker_fails(3,1), where b = Not_sent])
       (simp_all add: begun_def outbox_values_def sent_messages_def)
qed

lemma durable_inv_publish:
  assumes "durable_inv cfg d0 es d"
  shows "durable_inv cfg d0 (es @ [e]) (durable_publish e d)"
proof -
  obtain n where n: "begun_prefix n d" "bus_events (db_bus d) = bus_events (db_bus d0) @
      (if db_hydration d = Hydrated then hydrated_events cfg d0 @ take n es else [])"
    using assms unfolding durable_inv_def by blast
  have es: "map pt_event (db_tasks d) = es" using assms by (simp add: durable_inv_def)
  have len: "n \<le> length es" using n(1) es by (auto simp: begun_prefix_def)
  have pre: "begun_prefix n (durable_publish e d)"
    using n(1) by (auto simp: begun_prefix_def durable_publish_def nth_append begun_def less_Suc_eq)
  have frame: "events_in {Sending, Finished, Not_sent} (durable_publish e d) = events_in {Sending, Finished, Not_sent} d"
    "events_in {Finished} (durable_publish e d) = events_in {Finished} d"
    "outbox_values cfg (durable_publish e d) = outbox_values cfg d"
    "sent_messages (durable_publish e d) = sent_messages d"
    "db_bus (durable_publish e d) = db_bus d" "db_outbox (durable_publish e d) = db_outbox d"
    "db_hydration (durable_publish e d) = db_hydration d"
    "map pt_event (db_tasks (durable_publish e d)) = es @ [e]"
    using es by (simp_all add: events_in_def outbox_values_def sent_messages_def durable_publish_def)
  have "bus_events (db_bus d) = bus_events (db_bus d0) @
      (if db_hydration d = Hydrated then hydrated_events cfg d0 @ take n (es @ [e]) else [])"
    using n(2) len by simp
  with pre assms show ?thesis unfolding durable_inv_def frame by blast
qed

lemma durable_inv_run: "durable_run cfg d0 es d \<Longrightarrow> durable_inv cfg d0 [] d0 \<Longrightarrow> durable_inv cfg d0 es d"
  by (induction rule: durable_run.induct)
     (auto intro: durable_inv_publish durable_inv_step durable_inv_failure)

text \<open>Progress: unless everything is flushed, some task can take its next step.\<close>

lemma fresh_uuid: "\<exists>uuid. map_get (m :: (string, 'v) jsmap) uuid = None"
proof -
  have "\<exists>uuid. uuid \<notin> set (map_keys m)"
    by (rule ex_new_if_finite) (simp_all add: infinite_UNIV_listI)
  then show ?thesis by (auto simp: map_get_None_iff)
qed

lemma least_waiting:
  assumes "in_stage st i d"
  shows "\<exists>k. in_stage st k d \<and> (\<forall>j < k. \<not> in_stage st j d)"
  using exists_least_iff [of "\<lambda>k. in_stage st k d"] assms by blast

lemma durable_progress:
  assumes "durable_inv cfg d0 es d" "\<not> flushed d"
  shows "if db_hydration d = Hydration_failed then \<exists>d'. durable_failure cfg d d' else \<exists>d'. durable_step cfg d d'"
proof (cases "db_hydration d = Loading")
  case True
  then show ?thesis by (auto intro: durable_step.hydrate)
next
  case False
  with assms(2) obtain t where "t \<in> set (db_tasks d)" "pt_stage t \<in> {Waiting, Storing, Sending}"
    by (auto simp: flushed_def pendingPublishes_def filter_empty_conv)
  then obtain i where i: "in_stage Waiting i d \<or> in_stage Storing i d \<or> in_stage Sending i d"
    by (auto simp: in_stage_def in_set_conv_nth)
  show ?thesis
  proof (cases "db_hydration d = Hydrated")
    case True
    from fresh_uuid obtain uuid where uuid: "map_get (ds_entries (dc_outboxNamespace cfg) (db_outbox d)) uuid = None"
      by blast
    have "\<exists>d'. durable_step cfg d d'"
      using i least_waiting [of Waiting i d] durable_step.begin_task [OF True]
        durable_step.store_task [OF _ uuid] durable_step.send_task by blast
    with True show ?thesis by simp
  next
    case failed: False
    have "\<not> in_stage Storing i d" "\<not> in_stage Sending i d"
      using durable_inv_begun [OF assms(1)] failed by (auto simp: begun_def)
    with i False failed show ?thesis by (cases "db_hydration d") (auto intro: durable_failure.never_begins)
  qed
qed

lemma step_hydration: "durable_step cfg d d' \<Longrightarrow> db_hydration d \<noteq> Hydration_failed \<Longrightarrow> db_hydration d' \<noteq> Hydration_failed"
  by (induction rule: durable_step.induct) (simp_all add: hydrateFromOutbox_def)

lemma durable_can_flush:
  "durable_inv cfg d0 es d \<Longrightarrow> db_hydration d \<noteq> Hydration_failed \<Longrightarrow>
   \<exists>d'. (durable_step cfg)\<^sup>*\<^sup>* d d' \<and> flushed d'"
proof (induction "durable_work d" arbitrary: d rule: less_induct)
  case less
  show ?case
  proof (cases "flushed d")
    case True
    then show ?thesis by blast
  next
    case False
    from durable_progress [OF less(2) this] less(3) obtain d1 where step: "durable_step cfg d d1" by auto
    from less(1) [OF step_work [OF step] durable_inv_step [OF step less(2)] step_hydration [OF step less(3)]]
    show ?thesis using step by (auto intro: converse_rtranclp_into_rtranclp)
  qed
qed

lemma work_bound: "durable_work d \<le> 1 + 3 * length (db_tasks d)"
proof -
  have "stage_work st \<le> 3" for st by (cases st) simp_all
  then have "sum_list (map (\<lambda>t. stage_work (pt_stage t)) ts) \<le> 3 * length ts" for ts
    by (induction ts) (simp_all add: add_mono)
  from this [of "db_tasks d"] show ?thesis by (simp add: durable_work_def)
qed

lemma bus_events_subscribe [simp]: "bus_events (fold subscribe subs b) = bus_events b"
  by (induction subs arbitrary: b) (simp_all add: subscribe_def)

lemma durable_init_sel [simp]:
  "bus_events (db_bus (durable_init subs outbox ms)) = []"
  "db_outbox (durable_init subs outbox ms) = outbox"
  "db_messages (durable_init subs outbox ms) = ms"
  by (simp_all add: durable_init_def)

lemmas durable_reachable = durable_inv_run [OF _ durable_inv_start]

text \<open>C14: what the durable event bus delivers, over every interleaving of publishes, task steps
  and failures. The in-memory bus holds the persisted events and then a prefix of the
  published ones in the order of the calls; the outbox gains a copy of exactly the events
  whose tasks passed the put, and the broker the messages of exactly those that passed the
  send. When every task has finished nothing is missing and nothing is doubled.\<close>

theorem durable_bus_delivers:
  assumes "durable_run cfg (durable_init subs outbox ms) es d"
  shows "(db_hydration d = Hydrated \<longrightarrow>
      (\<exists>n \<le> length es. bus_events (db_bus d) = hydrated_events cfg (durable_init subs outbox ms) @ take n es)) \<and>
    outbox_values cfg d = outbox_values cfg (durable_init subs outbox ms) +
      (if dc_documentStore cfg then image_mset event_clone (events_in {Sending, Finished, Not_sent} d) else {#}) \<and>
    sent_messages d = sent_messages (durable_init subs outbox ms) +
      (if dc_broker cfg then image_mset message_of (events_in {Finished} d) else {#}) \<and>
    (db_hydration d = Hydrated \<and> (\<forall>t \<in> set (db_tasks d). pt_stage t = Finished) \<longrightarrow>
      bus_events (db_bus d) = hydrated_events cfg (durable_init subs outbox ms) @ es \<and>
      events_in {Sending, Finished, Not_sent} d = mset es \<and> events_in {Finished} d = mset es)"
proof -
  note inv = durable_reachable [OF assms]
  obtain n where n: "begun_prefix n d" "bus_events (db_bus d) =
      (if db_hydration d = Hydrated then hydrated_events cfg (durable_init subs outbox ms) @ take n es else [])"
    using inv unfolding durable_inv_def durable_init_sel append_Nil by blast
  have es: "map pt_event (db_tasks d) = es" using inv by (simp add: durable_inv_def)
  have len: "n \<le> length es" using n(1) es by (auto simp: begun_prefix_def)
  have all: "n = length es" if "\<forall>t \<in> set (db_tasks d). pt_stage t = Finished"
  proof (rule ccontr)
    assume "n \<noteq> length es"
    with len es have "n < length (db_tasks d)" by (metis le_neq_implies_less length_map)
    with n(1) that show False by (auto simp: begun_prefix_def begun_def)
  qed
  have whole: "events_in S d = mset es" if "\<forall>t \<in> set (db_tasks d). pt_stage t = Finished" "Finished \<in> S" for S
  proof -
    have "filter_mset (\<lambda>t. pt_stage t \<in> S) (mset (db_tasks d)) = mset (db_tasks d)"
      using that by (simp add: filter_mset_eq_conv)
    then show ?thesis by (simp add: events_in_def es [symmetric])
  qed
  have "db_hydration d = Hydrated \<longrightarrow>
      (\<exists>n \<le> length es. bus_events (db_bus d) = hydrated_events cfg (durable_init subs outbox ms) @ take n es)"
    using n(2) len by auto
  moreover have "db_hydration d = Hydrated \<and> (\<forall>t \<in> set (db_tasks d). pt_stage t = Finished) \<longrightarrow>
      bus_events (db_bus d) = hydrated_events cfg (durable_init subs outbox ms) @ es \<and>
      events_in {Sending, Finished, Not_sent} d = mset es \<and> events_in {Finished} d = mset es"
    using n(2) all whole by auto
  ultimately show ?thesis using inv unfolding durable_inv_def by blast
qed


text \<open>A run that publishes one event on a bus whose outbox holds another.\<close>

definition demo_old :: domain_event where
  "demo_old = mk_event ''order.created'' ''t0'' [(''orderId'', JStr ''o0'')]"

definition demo_new :: domain_event where
  "demo_new = mk_event ''order.created'' ''t1'' [(''orderId'', JStr ''o1'')]"

definition demo_durable :: durable_bus where
  "demo_durable = durable_init [] (ds_put event_clone ''platform.event_outbox'' ''u0'' demo_old []) []"

lemma demo_run:
  "durable_run default_durable_config demo_durable [demo_new]
     (hydrateFromOutbox default_durable_config (durable_publish demo_new demo_durable))"
  by (rule own_step, rule publish_call [where es = "[]", simplified], rule start, rule hydrate)
     (simp add: durable_publish_def demo_durable_def durable_init_def)

lemma demo_hydrated: "ds_list event_clone ''platform.event_outbox'' (ds_put event_clone ''platform.event_outbox'' ''u0'' demo_old []) = [demo_old]"
  by (simp add: ds_reads ds_entries_put map_set_def map_values_def event_clone_def demo_old_def mk_event_def)

lemma durable_bus_delivers_witness:
  "durable_run default_durable_config demo_durable [demo_new]
     (hydrateFromOutbox default_durable_config (durable_publish demo_new demo_durable)) \<and>
   outbox_values default_durable_config (hydrateFromOutbox default_durable_config (durable_publish demo_new demo_durable)) = {#demo_old#} \<and>
   bus_events (db_bus (hydrateFromOutbox default_durable_config (durable_publish demo_new demo_durable))) = [demo_old]"
proof -
  let ?d = "hydrateFromOutbox default_durable_config (durable_publish demo_new demo_durable)"
  have "outbox_values default_durable_config ?d = outbox_values default_durable_config demo_durable +
      (if dc_documentStore default_durable_config
       then image_mset event_clone (events_in {Sending, Finished, Not_sent} ?d) else {#})"
    using durable_bus_delivers [OF demo_run [unfolded demo_durable_def]] unfolding demo_durable_def by blast
  moreover have "events_in {Sending, Finished, Not_sent} ?d = {#}"
    by (simp add: hydrateFromOutbox_def durable_publish_def demo_durable_def durable_init_def events_in_def)
  moreover have "outbox_values default_durable_config demo_durable = {#demo_old#}"
    by (simp add: outbox_values_def demo_durable_def default_durable_config_def ds_entries_put map_set_def map_values_def
        event_clone_def demo_old_def mk_event_def)
  moreover have "bus_events (db_bus ?d) = [demo_old]"
    by (simp add: hydrateFromOutbox_def durable_publish_def demo_durable_def default_durable_config_def demo_hydrated)
  ultimately show ?thesis using demo_run by simp
qed


section \<open>The realtime relay\<close>

record realtime_envelope =
  re_eventType :: string
  re_entityId :: string
  re_occurredAt :: iso_date
  re_traceId :: string
  re_payload :: "(string \<times> json) list"

record realtime_publication =
  rp_channel :: string
  rp_envelope :: realtime_envelope

definition RELAY_EVENT_PREFIXES :: "string list" where
  "RELAY_EVENT_PREFIXES = [''order.'', ''dispatch.assignment.'']"

definition toRecord :: "json \<Rightarrow> (string \<times> json) list" where
  "toRecord candidate = (case candidate of JObj ps \<Rightarrow> ps | _ \<Rightarrow> [])"

definition toNonEmptyString :: "json option \<Rightarrow> string option" where
  "toNonEmptyString candidate =
     (case jstring candidate of
        None \<Rightarrow> None
      | Some s \<Rightarrow> (let normalized = js_trim s in if 0 < length normalized then Some normalized else None))"

definition relay_envelope :: "domain_event \<Rightarrow> string \<Rightarrow> realtime_envelope" where
  "relay_envelope event orderId =
     (let payload = toRecord (JObj (ev_payload event))
      in \<lparr>re_eventType = ev_type event, re_entityId = orderId, re_occurredAt = ev_occurredAt event,
          re_traceId = nullish (toNonEmptyString (jprop payload ''traceId''))
            (''core-api-'' @ ev_type event @ ''-'' @ orderId),
          re_payload = payload\<rparr>)"

definition relay_channels :: "domain_event \<Rightarrow> string \<Rightarrow> string list" where
  "relay_channels event orderId =
     (let channels = fold set_add [''consumer.order.'' @ orderId, ''merchant.order.'' @ orderId] []
      in if toNonEmptyString (jprop (toRecord (JObj (ev_payload event))) ''courierId'') \<noteq> None
         then set_add (''courier.job.'' @ orderId) channels else channels)"

definition mapDomainEventToRealtimePublications :: "domain_event \<Rightarrow> realtime_publication list" where
  "mapDomainEventToRealtimePublications event =
     (if \<not> list_ex (\<lambda>prefix. startsWith (ev_type event) prefix) RELAY_EVENT_PREFIXES then []
      else case toNonEmptyString (jprop (toRecord (JObj (ev_payload event))) ''orderId'') of
             None \<Rightarrow> []
           | Some orderId \<Rightarrow>
               map (\<lambda>channel. \<lparr>rp_channel = channel, rp_envelope = relay_envelope event orderId\<rparr>)
                 (relay_channels event orderId))"

text \<open>The subscriber awaits one publication after the other; a rejection stops it. The
  publisher is a parameter that acts on a world of its own.\<close>

fun relay_publications ::
  "(string \<Rightarrow> realtime_envelope \<Rightarrow> 'w \<Rightarrow> ('e + unit) \<times> 'w) \<Rightarrow> realtime_publication list \<Rightarrow> 'w \<Rightarrow> ('e + unit) \<times> 'w"
where
  "relay_publications publisher [] w = (Inr (), w)"
| "relay_publications publisher (p # ps) w =
     (case publisher (rp_channel p) (rp_envelope p) w of
        (Inl e, w') \<Rightarrow> (Inl e, w')
      | (Inr _, w') \<Rightarrow> relay_publications publisher ps w')"

definition createRealtimeEventRelaySubscriber ::
  "(string \<Rightarrow> realtime_envelope \<Rightarrow> 'w \<Rightarrow> ('e + unit) \<times> 'w) \<Rightarrow> domain_event \<Rightarrow> 'w \<Rightarrow> ('e + unit) \<times> 'w"
where
  "createRealtimeEventRelaySubscriber publisher event =
     relay_publications publisher (mapDomainEventToRealtimePublications event)"

lemma relay_channels_eq:
  "relay_channels event orderId =
     [''consumer.order.'' @ orderId, ''merchant.order.'' @ orderId] @
     (if toNonEmptyString (jprop (ev_payload event) ''courierId'') \<noteq> None then [''courier.job.'' @ orderId] else [])"
  by (simp add: relay_channels_def toRecord_def set_add_def Let_def)

lemma relay_only_named_orders:
  "p \<in> set (mapDomainEventToRealtimePublications event) \<Longrightarrow>
   \<exists>orderId. toNonEmptyString (jprop (ev_payload event) ''orderId'') = Some orderId \<and>
     rp_envelope p = relay_envelope event orderId \<and> re_entityId (rp_envelope p) = orderId \<and> orderId \<noteq> [] \<and>
     (rp_channel p = ''consumer.order.'' @ orderId \<or> rp_channel p = ''merchant.order.'' @ orderId \<or>
      rp_channel p = ''courier.job.'' @ orderId)"
  unfolding mapDomainEventToRealtimePublications_def relay_channels_eq toRecord_def
  by (auto simp: relay_envelope_def Let_def toNonEmptyString_def split: if_splits option.splits)

text \<open>A relay that returns has published everything, in order; one that fails stopped there.\<close>

definition logging_publisher :: "(nat \<Rightarrow> bool) \<Rightarrow> string \<Rightarrow> realtime_envelope \<Rightarrow> realtime_publication list \<Rightarrow>
    (string + unit) \<times> realtime_publication list" where
  "logging_publisher works channel envelope w =
     (if works (length w) then (Inr (), w @ [\<lparr>rp_channel = channel, rp_envelope = envelope\<rparr>]) else (Inl ''failed'', w))"

lemma relay_prefix:
  "\<exists>n \<le> length ps. snd (relay_publications (logging_publisher works) ps w) = w @ take n ps \<and>
     (fst (relay_publications (logging_publisher works) ps w) = Inr () \<longleftrightarrow> n = length ps)"
proof (induction ps arbitrary: w)
  case Nil
  then show ?case by simp
next
  case (Cons p ps)
  show ?case
  proof (cases "works (length w)")
    case True
    from Cons [of "w @ [p]"] obtain n where n: "n \<le> length ps"
      "snd (relay_publications (logging_publisher works) ps (w @ [p])) = (w @ [p]) @ take n ps"
      "(fst (relay_publications (logging_publisher works) ps (w @ [p])) = Inr ()) = (n = length ps)" by blast
    have "relay_publications (logging_publisher works) (p # ps) w = relay_publications (logging_publisher works) ps (w @ [p])"
      using True by (cases p) (simp add: logging_publisher_def)
    with n show ?thesis by (intro exI [of _ "Suc n"]) simp
  next
    case False
    then show ?thesis by (intro exI [of _ 0]) (simp add: logging_publisher_def)
  qed
qed

subsection \<open>HttpRealtimeEventPublisher\<close>

record http_request =
  hr_url :: string
  hr_method :: string
  hr_headers :: "(string \<times> string) list"
  hr_body :: string

text \<open>\<open>fetch\<close> is a parameter: it rejects or answers with a status.\<close>

type_synonym fetch = "http_request \<Rightarrow> nat option"

definition response_ok :: "nat \<Rightarrow> bool" where
  "response_ok status = (200 \<le> status \<and> status \<le> 299)"

datatype relay_error = Base_url_required | Fetch_rejected | Publish_failed string

record http_publisher =
  hp_publishEndpoint :: string
  hp_publishApiKey :: "string option"

definition strip_trailing_slashes :: "string \<Rightarrow> string" where
  "strip_trailing_slashes s = rev (dropWhile (\<lambda>c. c = CHR ''/'') (rev s))"

definition new_http_publisher :: "string \<Rightarrow> string option \<Rightarrow> relay_error + http_publisher" where
  "new_http_publisher baseUrl publishApiKey =
     (if length (js_trim baseUrl) = 0 then Inl Base_url_required
      else Inr \<lparr>hp_publishEndpoint = strip_trailing_slashes baseUrl @ ''/app/v1/realtime/publish'',
                hp_publishApiKey = publishApiKey\<rparr>)"

definition envelope_json :: "realtime_envelope \<Rightarrow> json" where
  "envelope_json e = JObj [(''eventType'', JStr (re_eventType e)), (''entityId'', JStr (re_entityId e)),
     (''occurredAt'', JStr (re_occurredAt e)), (''traceId'', JStr (re_traceId e)), (''payload'', JObj (re_payload e))]"

definition publish_request :: "http_publisher \<Rightarrow> string \<Rightarrow> realtime_envelope \<Rightarrow> http_request" where
  "publish_request hp channel envelope =
     \<lparr>hr_url = hp_publishEndpoint hp, hr_method = ''POST'',
      hr_headers = [(''content-type'', ''application/json'')] @
        (case hp_publishApiKey hp of Some key \<Rightarrow> if key \<noteq> [] then [(''x-realtime-publish-key'', key)] else [] | None \<Rightarrow> []),
      hr_body = json_stringify (JObj [(''channel'', JStr channel), (''envelope'', envelope_json envelope)])\<rparr>"

definition http_publish :: "fetch \<Rightarrow> http_publisher \<Rightarrow> string \<Rightarrow> realtime_envelope \<Rightarrow> relay_error + unit" where
  "http_publish fetch hp channel envelope =
     (case fetch (publish_request hp channel envelope) of
        None \<Rightarrow> Inl Fetch_rejected
      | Some status \<Rightarrow>
          if \<not> response_ok status
          then Inl (Publish_failed (''REALTIME_PUBLISH_FAILED_'' @ nat_digits status))
          else Inr ())"

lemma http_publish_returns: "http_publish fetch hp channel envelope = Inr () \<longleftrightarrow>
    (\<exists>status. fetch (publish_request hp channel envelope) = Some status \<and> response_ok status)"
  by (cases "fetch (publish_request hp channel envelope)") (simp_all add: http_publish_def)

lemma strip_trailing_slashes_end: "strip_trailing_slashes s \<noteq> [] \<Longrightarrow> last (strip_trailing_slashes s) \<noteq> CHR ''/''"
  unfolding strip_trailing_slashes_def last_rev rev_is_Nil_conv by (rule hd_dropWhile)

end
