(* ===== verification/Persistence.thy ===== *)
theory Persistence
  imports Platform Catalog Identity Dispatch Settlement Support Notifications Risk
begin

text \<open>
  The repositories of \<open>platform/persistence/repositories\<close>: each keeps its records in a namespace
  of the document store (\<open>clone\<close> is the store's JSON copy at the type of the records; the
  object spreads of the repositories copy and change nothing). The simulation lemmas relate
  every persistent repository to the in-memory one it replaces.
\<close>

named_theorems persistent_defs \<open>definitions of the persistent repositories\<close>

section \<open>Catalog and ordering\<close>

definition persistent_menu_save :: "(menu \<Rightarrow> menu) \<Rightarrow> menu \<Rightarrow> menu document_store \<Rightarrow> menu document_store" where
  [persistent_defs]: "persistent_menu_save clone m s = ds_put clone ''catalog.menus'' (mn_id m) m s"

definition persistent_menu_findById :: "(menu \<Rightarrow> menu) \<Rightarrow> uuid \<Rightarrow> menu document_store \<Rightarrow> menu option" where
  [persistent_defs]: "persistent_menu_findById clone i s = ds_get clone ''catalog.menus'' i s"

definition persistent_menu_listByStoreId :: "(menu \<Rightarrow> menu) \<Rightarrow> string \<Rightarrow> menu document_store \<Rightarrow> menu list" where
  [persistent_defs]: "persistent_menu_listByStoreId clone i s = filter (\<lambda>m. mn_storeId m = i) (ds_list clone ''catalog.menus'' s)"

definition persistent_menu_list :: "(menu \<Rightarrow> menu) \<Rightarrow> menu document_store \<Rightarrow> menu list" where
  [persistent_defs]: "persistent_menu_list clone s = ds_list clone ''catalog.menus'' s"

definition persistent_item_save ::
  "(itemAvailability \<Rightarrow> itemAvailability) \<Rightarrow> itemAvailability \<Rightarrow> itemAvailability document_store \<Rightarrow> itemAvailability document_store" where
  [persistent_defs]: "persistent_item_save clone a s = ds_put clone ''catalog.item_availability'' (ia_itemId a) a s"

definition persistent_item_findByItemId ::
  "(itemAvailability \<Rightarrow> itemAvailability) \<Rightarrow> string \<Rightarrow> itemAvailability document_store \<Rightarrow> itemAvailability option" where
  [persistent_defs]: "persistent_item_findByItemId clone i s = ds_get clone ''catalog.item_availability'' i s"

definition persistent_status_save ::
  "(storeStatus \<Rightarrow> storeStatus) \<Rightarrow> storeStatus \<Rightarrow> storeStatus document_store \<Rightarrow> storeStatus document_store" where
  [persistent_defs]: "persistent_status_save clone v s = ds_put clone ''catalog.store_status'' (st_storeId v) v s"

definition persistent_status_findByStoreId ::
  "(storeStatus \<Rightarrow> storeStatus) \<Rightarrow> string \<Rightarrow> storeStatus document_store \<Rightarrow> storeStatus option" where
  [persistent_defs]: "persistent_status_findByStoreId clone i s = ds_get clone ''catalog.store_status'' i s"

definition persistent_basket_save :: "(basket \<Rightarrow> basket) \<Rightarrow> basket \<Rightarrow> basket document_store \<Rightarrow> basket document_store" where
  [persistent_defs]: "persistent_basket_save clone b s = ds_put clone ''ordering.baskets'' (bk_id b) b s"

definition persistent_basket_findById :: "(basket \<Rightarrow> basket) \<Rightarrow> uuid \<Rightarrow> basket document_store \<Rightarrow> basket option" where
  [persistent_defs]: "persistent_basket_findById clone i s = ds_get clone ''ordering.baskets'' i s"

text \<open>An upsert also writes the in-memory map, which no read of the subclass looks at.\<close>

definition persistent_zone_upsert ::
  "(deliveryZone \<Rightarrow> deliveryZone) \<Rightarrow> deliveryZone \<Rightarrow> zone_repo \<times> deliveryZone document_store
     \<Rightarrow> zone_repo \<times> deliveryZone document_store" where
  [persistent_defs]: "persistent_zone_upsert clone z = map_prod (zone_upsert z) (ds_put clone ''ordering.delivery_zones'' (dz_zoneId z) z)"

definition persistent_zone_list ::
  "(deliveryZone \<Rightarrow> deliveryZone) \<Rightarrow> zone_repo \<times> deliveryZone document_store \<Rightarrow> deliveryZone list" where
  [persistent_defs]: "persistent_zone_list clone s = ds_list clone ''ordering.delivery_zones'' (snd s)"

definition persistent_quote_save :: "(quote \<Rightarrow> quote) \<Rightarrow> quote \<Rightarrow> quote document_store \<Rightarrow> quote document_store" where
  [persistent_defs]: "persistent_quote_save clone q s = ds_put clone ''pricing.quotes'' (qt_quoteId q) q s"

definition persistent_quote_findById :: "(quote \<Rightarrow> quote) \<Rightarrow> uuid \<Rightarrow> quote document_store \<Rightarrow> quote option" where
  [persistent_defs]: "persistent_quote_findById clone i s = ds_get clone ''pricing.quotes'' i s"

definition persistent_checkout_save ::
  "(checkoutPayload \<Rightarrow> checkoutPayload) \<Rightarrow> checkoutPayload \<Rightarrow> checkoutPayload document_store \<Rightarrow> checkoutPayload document_store" where
  [persistent_defs]: "persistent_checkout_save clone c s = ds_put clone ''ordering.checkouts'' (cp_checkoutId c) c s"

definition persistent_checkout_findById ::
  "(checkoutPayload \<Rightarrow> checkoutPayload) \<Rightarrow> uuid \<Rightarrow> checkoutPayload document_store \<Rightarrow> checkoutPayload option" where
  [persistent_defs]: "persistent_checkout_findById clone i s = ds_get clone ''ordering.checkouts'' i s"

section \<open>Identity\<close>

definition persistent_user_save ::
  "(identityUser \<Rightarrow> identityUser) \<Rightarrow> identityUser \<Rightarrow> identityUser document_store \<Rightarrow> identityUser document_store" where
  [persistent_defs]: "persistent_user_save clone u s = ds_put clone ''identity.users'' (iu_id u) u s"

definition persistent_user_findById ::
  "(identityUser \<Rightarrow> identityUser) \<Rightarrow> uuid \<Rightarrow> identityUser document_store \<Rightarrow> identityUser option" where
  [persistent_defs]: "persistent_user_findById clone i s = ds_get clone ''identity.users'' i s"

definition persistent_findByEmail ::
  "(identityUser \<Rightarrow> identityUser) \<Rightarrow> string \<Rightarrow> identityUser document_store \<Rightarrow> identityUser option" where
  [persistent_defs]: "persistent_findByEmail clone email s =
     (let normalizedEmail = toLowerCase email
      in List.find (\<lambda>u. toLowerCase (iu_email u) = normalizedEmail) (ds_list clone ''identity.users'' s))"

definition persistent_findByPhone ::
  "(identityUser \<Rightarrow> identityUser) \<Rightarrow> string \<Rightarrow> identityUser document_store \<Rightarrow> identityUser option" where
  [persistent_defs]: "persistent_findByPhone clone phone s = List.find (\<lambda>u. iu_phone u = phone) (ds_list clone ''identity.users'' s)"

type_synonym session_docs = "refreshSession document_store"

definition persistent_session_save :: "(refreshSession \<Rightarrow> refreshSession) \<Rightarrow> refreshSession \<Rightarrow> session_docs \<Rightarrow> session_docs" where
  [persistent_defs]: "persistent_session_save clone r s = ds_put clone ''identity.refresh_sessions'' (rs_token r) r s"

definition persistent_session_get :: "(refreshSession \<Rightarrow> refreshSession) \<Rightarrow> string \<Rightarrow> session_docs \<Rightarrow> refreshSession option" where
  [persistent_defs]: "persistent_session_get clone t s = ds_get clone ''identity.refresh_sessions'' t s"

definition persistent_markUsed :: "(refreshSession \<Rightarrow> refreshSession) \<Rightarrow> string \<Rightarrow> session_docs \<Rightarrow> session_docs" where
  [persistent_defs]: "persistent_markUsed clone t s =
     (case persistent_session_get clone t s of
        None \<Rightarrow> s
      | Some r \<Rightarrow> persistent_session_save clone (r\<lparr>rs_used := True\<rparr>) s)"

definition persistent_revokeFamily :: "(refreshSession \<Rightarrow> refreshSession) \<Rightarrow> uuid \<Rightarrow> session_docs \<Rightarrow> session_docs" where
  [persistent_defs]: "persistent_revokeFamily clone f s =
     fold (\<lambda>(k, r). ds_put clone ''identity.refresh_sessions'' k (r\<lparr>rs_revoked := True\<rparr>))
       (filter (\<lambda>(k, r). rs_familyId r = f) (ds_listEntries clone ''identity.refresh_sessions'' s)) s"

section \<open>Orders, dispatch and payments\<close>

definition persistent_order_save :: "(order \<Rightarrow> order) \<Rightarrow> order \<Rightarrow> order document_store \<Rightarrow> order document_store" where
  [persistent_defs]: "persistent_order_save clone v s = ds_put clone ''orders.records'' (or_id v) v s"

definition persistent_order_findById :: "(order \<Rightarrow> order) \<Rightarrow> uuid \<Rightarrow> order document_store \<Rightarrow> order option" where
  [persistent_defs]: "persistent_order_findById clone i s = ds_get clone ''orders.records'' i s"

definition persistent_order_list :: "(order \<Rightarrow> order) \<Rightarrow> order document_store \<Rightarrow> order list" where
  [persistent_defs]: "persistent_order_list clone s = ds_list clone ''orders.records'' s"

text \<open>Timeline entries lie under a key made of their order, time and type; \<open>clear\<close> does nothing.\<close>

type_synonym timeline_docs = "timelineEntry document_store"

definition timelineKey :: "timelineEntry \<Rightarrow> string" where
  "timelineKey e = te_orderId e @ '':'' @ te_occurredAt e @ '':'' @ te_eventType e"

definition persistent_timeline_append ::
  "(timelineEntry \<Rightarrow> timelineEntry) \<Rightarrow> timelineEntry \<Rightarrow> timeline_repo \<times> timeline_docs \<Rightarrow> timeline_repo \<times> timeline_docs" where
  [persistent_defs]: "persistent_timeline_append clone e =
     map_prod (timeline_append e) (ds_put clone ''orders.timeline_entries'' (timelineKey e) e)"

definition persistent_timeline_getByOrderId ::
  "host \<Rightarrow> (timelineEntry \<Rightarrow> timelineEntry) \<Rightarrow> uuid \<Rightarrow> timeline_repo \<times> timeline_docs \<Rightarrow> timelineEntry list" where
  [persistent_defs]: "persistent_timeline_getByOrderId h clone i s =
     js_sort (\<lambda>left right. locale_gt h (te_occurredAt left) (te_occurredAt right))
       (filter (\<lambda>e. te_orderId e = i) (ds_list clone ''orders.timeline_entries'' (snd s)))"

definition persistent_timeline_clear :: "timeline_repo \<times> timeline_docs \<Rightarrow> timeline_repo \<times> timeline_docs" where
  [persistent_defs]: "persistent_timeline_clear s = s"

definition persistent_timeline_orderCount :: "(timelineEntry \<Rightarrow> timelineEntry) \<Rightarrow> timeline_repo \<times> timeline_docs \<Rightarrow> nat" where
  [persistent_defs]: "persistent_timeline_orderCount clone s =
     length (fold set_add (map te_orderId (ds_list clone ''orders.timeline_entries'' (snd s))) [])"

definition persistent_job_save :: "(courierJob \<Rightarrow> courierJob) \<Rightarrow> courierJob \<Rightarrow> courierJob document_store \<Rightarrow> courierJob document_store" where
  [persistent_defs]: "persistent_job_save clone j s = ds_put clone ''dispatch.courier_jobs'' (cj_jobId j) j s"

definition persistent_job_findById :: "(courierJob \<Rightarrow> courierJob) \<Rightarrow> uuid \<Rightarrow> courierJob document_store \<Rightarrow> courierJob option" where
  [persistent_defs]: "persistent_job_findById clone i s = ds_get clone ''dispatch.courier_jobs'' i s"

definition persistent_job_list :: "(courierJob \<Rightarrow> courierJob) \<Rightarrow> courierJob document_store \<Rightarrow> courierJob list" where
  [persistent_defs]: "persistent_job_list clone s = ds_list clone ''dispatch.courier_jobs'' s"

definition persistent_intent_save ::
  "(paymentIntent \<Rightarrow> paymentIntent) \<Rightarrow> paymentIntent \<Rightarrow> paymentIntent document_store \<Rightarrow> paymentIntent document_store" where
  [persistent_defs]: "persistent_intent_save clone v s = ds_put clone ''payments.payment_intents'' (pi_paymentIntentId v) v s"

definition persistent_intent_findById ::
  "(paymentIntent \<Rightarrow> paymentIntent) \<Rightarrow> uuid \<Rightarrow> paymentIntent document_store \<Rightarrow> paymentIntent option" where
  [persistent_defs]: "persistent_intent_findById clone i s = ds_get clone ''payments.payment_intents'' i s"

definition persistent_findByOrderAndMethod ::
  "(paymentIntent \<Rightarrow> paymentIntent) \<Rightarrow> uuid \<Rightarrow> paymentMethod \<Rightarrow> paymentIntent document_store \<Rightarrow> paymentIntent option" where
  [persistent_defs]: "persistent_findByOrderAndMethod clone orderId m s =
     List.find (\<lambda>v. pi_orderId v = orderId \<and> pi_method v = m) (ds_list clone ''payments.payment_intents'' s)"

definition persistent_refund_save ::
  "(refundRequest \<Rightarrow> refundRequest) \<Rightarrow> refundRequest \<Rightarrow> refundRequest document_store \<Rightarrow> refundRequest document_store" where
  [persistent_defs]: "persistent_refund_save clone v s = ds_put clone ''payments.refund_requests'' (rf_refundRequestId v) v s"

definition persistent_refund_findById ::
  "(refundRequest \<Rightarrow> refundRequest) \<Rightarrow> uuid \<Rightarrow> refundRequest document_store \<Rightarrow> refundRequest option" where
  [persistent_defs]: "persistent_refund_findById clone i s = ds_get clone ''payments.refund_requests'' i s"

definition persistent_payment_audit_append ::
  "(paymentAuditRecord \<Rightarrow> paymentAuditRecord) \<Rightarrow> paymentAuditRecord \<Rightarrow> paymentAuditRecord document_store
     \<Rightarrow> paymentAuditRecord document_store" where
  [persistent_defs]: "persistent_payment_audit_append clone a s = ds_put clone ''payments.audit_records'' (pa_auditEventId a) a s"

definition persistent_payment_audit_listByOrder ::
  "(paymentAuditRecord \<Rightarrow> paymentAuditRecord) \<Rightarrow> uuid \<Rightarrow> paymentAuditRecord document_store \<Rightarrow> paymentAuditRecord list" where
  [persistent_defs]: "persistent_payment_audit_listByOrder clone i s =
     filter (\<lambda>a. pa_orderId a = i) (ds_list clone ''payments.audit_records'' s)"

section \<open>Settlement, notifications, support and risk\<close>

definition persistent_ledger_save ::
  "(settlementJournalEntry \<Rightarrow> settlementJournalEntry) \<Rightarrow> settlementJournalEntry \<Rightarrow> settlementJournalEntry document_store
     \<Rightarrow> settlementJournalEntry document_store" where
  [persistent_defs]: "persistent_ledger_save clone e s = ds_put clone ''settlement.ledger_entries'' (je_ledgerEntryId e) e s"

definition persistent_payout_save ::
  "(payoutBatch \<Rightarrow> payoutBatch) \<Rightarrow> payoutBatch \<Rightarrow> payoutBatch document_store \<Rightarrow> payoutBatch document_store" where
  [persistent_defs]: "persistent_payout_save clone b s = ds_put clone ''settlement.payout_batches'' (pb_payoutBatchId b) b s"

definition persistent_payout_findByScheduleRun ::
  "(payoutBatch \<Rightarrow> payoutBatch) \<Rightarrow> string \<Rightarrow> iso_date \<Rightarrow> payoutBatch document_store \<Rightarrow> payoutBatch option" where
  [persistent_defs]: "persistent_payout_findByScheduleRun clone scheduleId runAt s =
     List.find (\<lambda>b. pb_scheduleId b = scheduleId \<and> pb_runAt b = runAt) (ds_list clone ''settlement.payout_batches'' s)"

definition persistent_statement_save ::
  "(payoutStatement \<Rightarrow> payoutStatement) \<Rightarrow> payoutStatement \<Rightarrow> statement_repo \<times> payoutStatement document_store
     \<Rightarrow> statement_repo \<times> payoutStatement document_store" where
  [persistent_defs]: "persistent_statement_save clone v =
     map_prod (statement_save v) (ds_put clone ''settlement.payout_statements'' (st_statementId v) v)"

definition persistent_statement_listByEntity ::
  "host \<Rightarrow> (payoutStatement \<Rightarrow> payoutStatement) \<Rightarrow> payoutEntityType \<Rightarrow> string \<Rightarrow> statement_repo \<times> payoutStatement document_store
     \<Rightarrow> payoutStatement list" where
  [persistent_defs]: "persistent_statement_listByEntity h clone t i s =
     js_sort (\<lambda>left right. locale_gt h (st_createdAt right) (st_createdAt left))
       (filter (\<lambda>v. ps_entityType (st_input v) = t \<and> ps_entityId (st_input v) = i)
         (ds_list clone ''settlement.payout_statements'' (snd s)))"

definition persistent_import_save ::
  "(importRun \<Rightarrow> importRun) \<Rightarrow> importRun \<Rightarrow> import_repo \<times> importRun document_store \<Rightarrow> import_repo \<times> importRun document_store" where
  [persistent_defs]: "persistent_import_save clone v =
     map_prod (import_save v) (ds_put clone ''settlement.reconciliation_import_runs'' (import_key (ir_scheduleId v) (ir_runAt v)) v)"

definition persistent_import_findByScheduleRun ::
  "(importRun \<Rightarrow> importRun) \<Rightarrow> string \<Rightarrow> iso_date \<Rightarrow> import_repo \<times> importRun document_store \<Rightarrow> importRun option" where
  [persistent_defs]: "persistent_import_findByScheduleRun clone scheduleId runAt s =
     List.find (\<lambda>v. ir_scheduleId v = scheduleId \<and> ir_runAt v = runAt)
       (ds_list clone ''settlement.reconciliation_import_runs'' (snd s))"

definition resultKey :: "reconciliationResult \<Rightarrow> string" where
  "resultKey r = rr_reconciledAt r @ '':'' @ rr_reconciliationId r"

definition persistent_reconciliation_append ::
  "(reconciliationResult \<Rightarrow> reconciliationResult) \<Rightarrow> reconciliationResult \<Rightarrow> reconciliation_repo \<times> reconciliationResult document_store
     \<Rightarrow> reconciliation_repo \<times> reconciliationResult document_store" where
  [persistent_defs]: "persistent_reconciliation_append clone v =
     map_prod (reconciliation_append v) (ds_put clone ''settlement.reconciliation_results'' (resultKey v) v)"

text \<open>A limit that is a positive finite number is rounded down; zero after rounding means no limit.\<close>

definition persistent_reconciliation_list ::
  "host \<Rightarrow> (reconciliationResult \<Rightarrow> reconciliationResult) \<Rightarrow> jsnum option \<Rightarrow> reconciliation_repo \<times> reconciliationResult document_store
     \<Rightarrow> reconciliationResult list" where
  [persistent_defs]: "persistent_reconciliation_list h clone limit s =
     (let normalizedLimit = (case limit of
            Some l \<Rightarrow> if is_finite l \<and> num_lt (Fin 0) l then Some (math_floor l) else None | None \<Rightarrow> None);
          sorted = js_sort (\<lambda>left right. locale_gt h (rr_reconciledAt right) (rr_reconciledAt left))
            (ds_list clone ''settlement.reconciliation_results'' (snd s))
      in case normalizedLimit of
           None \<Rightarrow> sorted
         | Some l \<Rightarrow> if num_eq l (Fin 0) then sorted else slice_from_start l sorted)"

definition persistent_queue_save ::
  "(notificationQueueItem \<Rightarrow> notificationQueueItem) \<Rightarrow> notificationQueueItem \<Rightarrow> queue_repo \<times> notificationQueueItem document_store
     \<Rightarrow> queue_repo \<times> notificationQueueItem document_store" where
  [persistent_defs]: "persistent_queue_save clone v =
     map_prod (queue_save v) (ds_put clone ''notifications.queue'' (nq_notificationId v) v)"

definition persistent_hasIdempotencyKey ::
  "(notificationQueueItem \<Rightarrow> notificationQueueItem) \<Rightarrow> string \<Rightarrow> queue_repo \<times> notificationQueueItem document_store \<Rightarrow> bool" where
  [persistent_defs]: "persistent_hasIdempotencyKey clone k s =
     list_ex (\<lambda>v. nq_idempotencyKey v = k) (ds_list clone ''notifications.queue'' (snd s))"

definition persistent_receipt_save ::
  "(deliveryReceipt \<Rightarrow> deliveryReceipt) \<Rightarrow> deliveryReceipt \<Rightarrow> receipt_repo \<times> deliveryReceipt document_store
     \<Rightarrow> receipt_repo \<times> deliveryReceipt document_store" where
  [persistent_defs]: "persistent_receipt_save clone v =
     map_prod (receipt_save v) (ds_put clone ''notifications.receipts'' (dr_receiptId v) v)"

definition persistent_receipt_listByEntity ::
  "host \<Rightarrow> (deliveryReceipt \<Rightarrow> deliveryReceipt) \<Rightarrow> string \<Rightarrow> receipt_repo \<times> deliveryReceipt document_store \<Rightarrow> deliveryReceipt list" where
  [persistent_defs]: "persistent_receipt_listByEntity h clone i s =
     js_sort (\<lambda>left right. locale_gt h (dr_recordedAt left) (dr_recordedAt right))
       (filter (\<lambda>v. dr_entityId v = i) (ds_list clone ''notifications.receipts'' (snd s)))"

record retry_docs =
  rd_memory :: retry_repo
  rd_retries :: "notificationRetry document_store"
  rd_deadLetters :: "notificationDeadLetter document_store"

definition persistent_saveRetry :: "(notificationRetry \<Rightarrow> notificationRetry) \<Rightarrow> notificationRetry \<Rightarrow> retry_docs \<Rightarrow> retry_docs" where
  [persistent_defs]: "persistent_saveRetry clone v s = s\<lparr>rd_memory := saveRetry v (rd_memory s),
     rd_retries := ds_put clone ''notifications.retries'' (nr_retryId v) v (rd_retries s)\<rparr>"

definition persistent_saveDeadLetter ::
  "(notificationDeadLetter \<Rightarrow> notificationDeadLetter) \<Rightarrow> notificationDeadLetter \<Rightarrow> retry_docs \<Rightarrow> retry_docs" where
  [persistent_defs]: "persistent_saveDeadLetter clone v s = s\<lparr>rd_memory := saveDeadLetter v (rd_memory s),
     rd_deadLetters := ds_put clone ''notifications.dead_letters'' (dl_deadLetterId v) v (rd_deadLetters s)\<rparr>"

text \<open>Tickets are cached in memory: a hit is answered from the cache, a miss fills it.\<close>

type_synonym ticket_docs = "ticket_repo \<times> supportTicket document_store"

definition persistent_ticket_save :: "(supportTicket \<Rightarrow> supportTicket) \<Rightarrow> supportTicket \<Rightarrow> ticket_docs \<Rightarrow> ticket_docs" where
  [persistent_defs]: "persistent_ticket_save clone v = map_prod (ticket_save v) (ds_put clone ''support.tickets'' (tk_ticketId v) v)"

definition persistent_ticket_findById ::
  "(supportTicket \<Rightarrow> supportTicket) \<Rightarrow> uuid \<Rightarrow> ticket_docs \<Rightarrow> supportTicket option \<times> ticket_docs" where
  [persistent_defs]: "persistent_ticket_findById clone i s =
     (case ticket_findById i (fst s) of
        Some cached \<Rightarrow> (Some cached, s)
      | None \<Rightarrow>
          (case ds_get clone ''support.tickets'' i (snd s) of
             None \<Rightarrow> (None, s)
           | Some t \<Rightarrow> (Some t, (ticket_save t (fst s), snd s))))"

definition persistent_ticket_listByStatus ::
  "(supportTicket \<Rightarrow> supportTicket) \<Rightarrow> supportTicketStatus \<Rightarrow> ticket_docs \<Rightarrow> supportTicket list" where
  [persistent_defs]: "persistent_ticket_listByStatus clone st s =
     filter (\<lambda>v. tk_status v = st) (ds_list clone ''support.tickets'' (snd s))"

type_synonym escalation_docs = "escalation_repo \<times> supportEscalation document_store"

definition persistent_escalation_save ::
  "(supportEscalation \<Rightarrow> supportEscalation) \<Rightarrow> supportEscalation \<Rightarrow> escalation_docs \<Rightarrow> escalation_docs" where
  [persistent_defs]: "persistent_escalation_save clone v =
     map_prod (escalation_save v) (ds_put clone ''support.escalations'' (se_escalationId v) v)"

definition persistent_hasEscalationForTicket ::
  "(supportEscalation \<Rightarrow> supportEscalation) \<Rightarrow> uuid \<Rightarrow> escalation_docs \<Rightarrow> bool" where
  [persistent_defs]: "persistent_hasEscalationForTicket clone i s =
     list_ex (\<lambda>v. se_ticketId v = i) (ds_list clone ''support.escalations'' (snd s))"

definition persistent_escalation_list :: "(supportEscalation \<Rightarrow> supportEscalation) \<Rightarrow> escalation_docs \<Rightarrow> supportEscalation list" where
  [persistent_defs]: "persistent_escalation_list clone s = ds_list clone ''support.escalations'' (snd s)"

text \<open>The rules of the in-memory repository (its defaults and its upserts) stand behind the stored ones.\<close>

type_synonym policy_docs = "policy_repo \<times> riskPolicyRule document_store"

definition persistent_findRule :: "(riskPolicyRule \<Rightarrow> riskPolicyRule) \<Rightarrow> string \<Rightarrow> policy_docs \<Rightarrow> riskPolicyRule option" where
  [persistent_defs]: "persistent_findRule clone k s =
     (case ds_get clone ''risk.policy_rules'' k (snd s) of Some v \<Rightarrow> Some v | None \<Rightarrow> findRule k (fst s))"

definition persistent_upsertRule :: "(riskPolicyRule \<Rightarrow> riskPolicyRule) \<Rightarrow> riskPolicyRule \<Rightarrow> policy_docs \<Rightarrow> policy_docs" where
  [persistent_defs]: "persistent_upsertRule clone v =
     map_prod (policy_upsertRule v) (ds_put clone ''risk.policy_rules'' (ru_actionType v) v)"

definition persistent_listRules :: "host \<Rightarrow> (riskPolicyRule \<Rightarrow> riskPolicyRule) \<Rightarrow> policy_docs \<Rightarrow> riskPolicyRule list" where
  [persistent_defs]: "persistent_listRules h clone s =
     (let defaults = policy_listRules h (fst s);
          persisted = ds_list clone ''risk.policy_rules'' (snd s);
          rulesByActionType = fold (\<lambda>v. map_set (ru_actionType v) v) persisted
            (fold (\<lambda>v. map_set (ru_actionType v) v) defaults [])
      in js_sort (\<lambda>left right. locale_gt h (ru_actionType left) (ru_actionType right)) (map_values rulesByActionType))"

definition persistent_review_save ::
  "(manualReview \<Rightarrow> manualReview) \<Rightarrow> manualReview \<Rightarrow> manualReview document_store \<Rightarrow> manualReview document_store" where
  [persistent_defs]: "persistent_review_save clone v s = ds_put clone ''risk.manual_reviews'' (mv_reviewId v) v s"

definition persistent_review_findById ::
  "(manualReview \<Rightarrow> manualReview) \<Rightarrow> uuid \<Rightarrow> manualReview document_store \<Rightarrow> manualReview option" where
  [persistent_defs]: "persistent_review_findById clone i s = ds_get clone ''risk.manual_reviews'' i s"

type_synonym audit_docs = "audit_repo \<times> complianceAuditEvent document_store"

definition persistent_audit_append ::
  "(complianceAuditEvent \<Rightarrow> complianceAuditEvent) \<Rightarrow> complianceAuditEvent \<Rightarrow> audit_docs \<Rightarrow> audit_docs" where
  [persistent_defs]: "persistent_audit_append clone e =
     map_prod (audit_append e) (ds_put clone ''risk.compliance_audit_events'' (ae_auditEventId e) e)"

definition persistent_audit_list :: "(complianceAuditEvent \<Rightarrow> complianceAuditEvent) \<Rightarrow> audit_docs \<Rightarrow> complianceAuditEvent list" where
  [persistent_defs]: "persistent_audit_list clone s = ds_list clone ''risk.compliance_audit_events'' (snd s)"

definition persistent_audit_latest ::
  "(complianceAuditEvent \<Rightarrow> complianceAuditEvent) \<Rightarrow> audit_docs \<Rightarrow> complianceAuditEvent option" where
  [persistent_defs]: "persistent_audit_latest clone s =
     (let entries = ds_listEntries clone ''risk.compliance_audit_events'' (snd s)
      in if length entries = 0 then None else Some (snd (last entries)))"

section \<open>Simulation\<close>

text \<open>The namespace holds the in-memory map, and all its records survive the JSON copy.\<close>

definition mirrors :: "('v \<Rightarrow> 'v) \<Rightarrow> string \<Rightarrow> 'v document_store \<Rightarrow> (string, 'v) jsmap \<Rightarrow> bool" where
  "mirrors clone ns s m = (ds_entries ns s = m \<and> (\<forall>v \<in> set (map_values m). clone v = v))"

lemma map_values_set: "set (map_values (map_set k v m)) \<subseteq> insert v (set (map_values m))"
  by (induction m) (auto simp: map_set_def map_values_def)

lemma mirrors_put: "mirrors clone ns s m \<Longrightarrow> clone v = v \<Longrightarrow> mirrors clone ns (ds_put clone ns k v s) (map_set k v m)"
  using map_values_set [of k v m] by (auto simp: mirrors_def ds_entries_put)

lemma mirrors_get: "mirrors clone ns s m \<Longrightarrow> ds_get clone ns k s = map_get m k"
proof -
  assume m: "mirrors clone ns s m"
  have "clone v = v" if "map_get m k = Some v" for v
    using m map_get_Some_in [OF that] by (force simp: mirrors_def map_values_def)
  with m show ?thesis by (cases "map_get m k") (simp_all add: mirrors_def ds_reads)
qed

lemma mirrors_list: "mirrors clone ns s m \<Longrightarrow> ds_list clone ns s = map_values m"
  by (auto simp: mirrors_def ds_reads intro!: map_idI)

lemma mirrors_empty: "mirrors clone ns [] []"
  by (simp add: mirrors_def map_values_def)

lemmas mirrors_reads = mirrors_get mirrors_list

text \<open>Users: the stored list is scanned where the in-memory repository has two indices.\<close>

definition users_agree :: "identityUser document_store \<Rightarrow> identity_repo \<Rightarrow> bool" where
  "users_agree s r =
     (identity_ok r \<and> mirrors (\<lambda>v. v) ''identity.users'' s (ir_usersById r) \<and> map_wf (ir_usersById r) \<and>
      (\<forall>e i. map_get (ir_userIdByEmail r) e = Some i \<longrightarrow> (\<exists>u. user_findById i r = Some u \<and> iu_email u = e)) \<and>
      (\<forall>p i. map_get (ir_userIdByPhone r) p = Some i \<longrightarrow> (\<exists>u. user_findById i r = Some u \<and> iu_phone u = p)))"

lemma find_unique:
  assumes "\<And>x y. x \<in> set xs \<Longrightarrow> y \<in> set xs \<Longrightarrow> P x \<Longrightarrow> P y \<Longrightarrow> x = y" "x \<in> set xs" "P x"
  shows "List.find P xs = Some x"
  using assms by (induction xs) auto

lemma users_agree_values:
  "users_agree s r \<Longrightarrow> u \<in> set (map_values (ir_usersById r)) \<longleftrightarrow> user_findById (iu_id u) r = Some u"
  unfolding users_agree_def identity_ok_def user_findById_def by (auto simp: in_map_values)

lemma users_agree_reads:
  assumes "users_agree s r"
  shows "persistent_user_findById (\<lambda>v. v) i s = user_findById i r"
    and "persistent_findByEmail (\<lambda>v. v) e s = findByEmail e r"
    and "persistent_findByPhone (\<lambda>v. v) p s = findByPhone p r"
proof -
  have m: "mirrors (\<lambda>v. v) ''identity.users'' s (ir_usersById r)" and ok: "identity_ok r"
    using assms by (simp_all add: users_agree_def)
  show "persistent_user_findById (\<lambda>v. v) i s = user_findById i r"
    by (simp add: persistent_user_findById_def mirrors_reads [OF m] user_findById_def)
  have user: "iu_id u \<noteq> []" "toLowerCase (iu_email u) = iu_email u"
    "map_get (ir_userIdByEmail r) (iu_email u) = Some (iu_id u)" "map_get (ir_userIdByPhone r) (iu_phone u) = Some (iu_id u)"
    if "user_findById (iu_id u) r = Some u" for u
    using ok that unfolding identity_ok_def by blast+
  have index: "map_get (ir_userIdByEmail r) e = Some i \<Longrightarrow> \<exists>u. user_findById i r = Some u \<and> iu_email u = e"
    "map_get (ir_userIdByPhone r) e = Some i \<Longrightarrow> \<exists>u. user_findById i r = Some u \<and> iu_phone u = e" for e i
    using assms unfolding users_agree_def by blast+
  have ident: "user_findById i r = Some u \<Longrightarrow> iu_id u = i" for i u using ok unfolding identity_ok_def by blast
  note vals = users_agree_values [OF assms]
  show "persistent_findByEmail (\<lambda>v. v) e s = findByEmail e r"
  proof (cases "map_get (ir_userIdByEmail r) (toLowerCase e)")
    case None
    have "List.find (\<lambda>u. toLowerCase (iu_email u) = toLowerCase e) (map_values (ir_usersById r)) = None"
      unfolding find_None_iff vals using user(2,3) None by (metis option.distinct(1))
    with None show ?thesis by (simp add: persistent_findByEmail_def mirrors_reads [OF m] findByEmail_def user_byIndex_def)
  next
    case (Some i)
    then obtain u where u: "user_findById i r = Some u" "iu_email u = toLowerCase e" using index by blast
    have i: "iu_id u = i" using ident u(1) .
    have "List.find (\<lambda>u. toLowerCase (iu_email u) = toLowerCase e) (map_values (ir_usersById r)) = Some u"
    proof (rule find_unique)
      fix x y assume "x \<in> set (map_values (ir_usersById r))" "y \<in> set (map_values (ir_usersById r))"
        "toLowerCase (iu_email x) = toLowerCase e" "toLowerCase (iu_email y) = toLowerCase e"
      then show "x = y" unfolding vals using user(2,3) [of x] user(2,3) [of y] by (metis option.inject)
    next
      show "u \<in> set (map_values (ir_usersById r))" unfolding vals using u(1) i by simp
      show "toLowerCase (iu_email u) = toLowerCase e" using u(2) by simp
    qed
    with Some u i user(1) [of u] show ?thesis
      by (simp add: persistent_findByEmail_def mirrors_reads [OF m] findByEmail_def user_byIndex_get)
  qed
  show "persistent_findByPhone (\<lambda>v. v) p s = findByPhone p r"
  proof (cases "map_get (ir_userIdByPhone r) p")
    case None
    have "List.find (\<lambda>u. iu_phone u = p) (map_values (ir_usersById r)) = None"
      unfolding find_None_iff vals using user(4) None by (metis option.distinct(1))
    with None show ?thesis by (simp add: persistent_findByPhone_def mirrors_reads [OF m] findByPhone_def user_byIndex_def)
  next
    case (Some i)
    then obtain u where u: "user_findById i r = Some u" "iu_phone u = p" using index by blast
    have i: "iu_id u = i" using ident u(1) .
    have "List.find (\<lambda>u. iu_phone u = p) (map_values (ir_usersById r)) = Some u"
    proof (rule find_unique)
      fix x y assume "x \<in> set (map_values (ir_usersById r))" "y \<in> set (map_values (ir_usersById r))" "iu_phone x = p" "iu_phone y = p"
      then show "x = y" unfolding vals using user(4) [of x] user(4) [of y] by (metis option.inject)
    next
      show "u \<in> set (map_values (ir_usersById r))" unfolding vals using u(1) i by simp
      show "iu_phone u = p" by (rule u(2))
    qed
    with Some u i user(1) [of u] show ?thesis
      by (simp add: persistent_findByPhone_def mirrors_reads [OF m] findByPhone_def user_byIndex_get)
  qed
qed

lemma users_agree_empty: "users_agree [] empty_identity_repo"
  by (simp add: users_agree_def mirrors_empty identity_ok_def user_findById_def empty_identity_repo_def)

lemma users_agree_save:
  assumes agree: "users_agree s r"
    and new: "user_findById (iu_id u) r = None" "iu_id u \<noteq> []" "toLowerCase (iu_email u) = iu_email u"
      "findByEmail (iu_email u) r = None" "findByPhone (iu_phone u) r = None"
  shows "users_agree (persistent_user_save (\<lambda>v. v) u s) (user_save u r)"
proof -
  have ok: "identity_ok r" and m: "mirrors (\<lambda>v. v) ''identity.users'' s (ir_usersById r)" and wf: "map_wf (ir_usersById r)"
    and index: "\<And>e i. map_get (ir_userIdByEmail r) e = Some i \<Longrightarrow> \<exists>u. user_findById i r = Some u \<and> iu_email u = e"
      "\<And>p i. map_get (ir_userIdByPhone r) p = Some i \<Longrightarrow> \<exists>u. user_findById i r = Some u \<and> iu_phone u = p"
    using agree unfolding users_agree_def by blast+
  have find: "user_findById i (user_save u r) = (if i = iu_id u then Some u else user_findById i r)" for i
    by (simp add: user_findById_def user_save_def map_get_set)
  have old: "iu_email v \<noteq> iu_email u \<and> iu_phone v \<noteq> iu_phone u" if "user_findById i r = Some v" for i v
    using identity_ok_lookup [OF ok that] new(4,5) by auto
  have "identity_ok (user_save u r)"
    unfolding identity_ok_def find using ok old new
    by (auto simp: user_save_def map_get_set identity_ok_def)
  moreover have "mirrors (\<lambda>v. v) ''identity.users'' (persistent_user_save (\<lambda>v. v) u s) (ir_usersById (user_save u r))"
    using mirrors_put [OF m refl] by (simp add: persistent_user_save_def user_save_def)
  moreover have "map_wf (ir_usersById (user_save u r))" using wf by (simp add: user_save_def)
  moreover have "\<exists>v. user_findById i (user_save u r) = Some v \<and> iu_email v = e"
    if "map_get (ir_userIdByEmail (user_save u r)) e = Some i" for e i
    using that index(1) [of e i] new unfolding find by (auto simp: user_save_def map_get_set split: if_splits)
  moreover have "\<exists>v. user_findById i (user_save u r) = Some v \<and> iu_phone v = p"
    if "map_get (ir_userIdByPhone (user_save u r)) p = Some i" for p i
    using that index(2) [of p i] new unfolding find by (auto simp: user_save_def map_get_set split: if_splits)
  ultimately show ?thesis unfolding users_agree_def by blast
qed

text \<open>Sessions: a family is found by scanning where the in-memory store keeps its tokens.\<close>

definition sessions_agree :: "session_docs \<Rightarrow> session_store \<Rightarrow> bool" where
  "sessions_agree s st =
     (sessions_ok st \<and> map_wf (ds_entries ''identity.refresh_sessions'' s) \<and>
      (\<forall>t. map_get (ds_entries ''identity.refresh_sessions'' s) t = session_get t st))"

abbreviation session_entries :: "session_docs \<Rightarrow> (string, refreshSession) jsmap" where
  "session_entries s \<equiv> ds_entries ''identity.refresh_sessions'' s"

lemma sessions_agree_get: "sessions_agree s st \<Longrightarrow> persistent_session_get (\<lambda>v. v) t s = session_get t st"
  by (cases "session_get t st") (simp_all add: sessions_agree_def persistent_session_get_def ds_reads)

lemma sessions_agree_empty: "sessions_agree [] empty_session_store"
  by (simp add: sessions_agree_def sessions_ok_empty) (simp add: session_get_def empty_session_store_def)

lemma sessions_agree_save:
  "sessions_agree s st \<Longrightarrow> session_get (rs_token r) st = None \<Longrightarrow>
   sessions_agree (persistent_session_save (\<lambda>v. v) r s) (session_save r st)"
  by (simp add: sessions_agree_def sessions_ok_save persistent_session_save_def ds_entries_put map_get_set session_get_save)

lemma sessions_agree_markUsed:
  assumes "sessions_agree s st"
  shows "sessions_agree (persistent_markUsed (\<lambda>v. v) t s) (markUsed t st)"
proof (cases "session_get t st")
  case None
  then have "persistent_markUsed (\<lambda>v. v) t s = s" using sessions_agree_get [OF assms] by (simp add: persistent_markUsed_def)
  moreover have "markUsed t st = st" using None by (simp add: markUsed_def session_get_def)
  ultimately show ?thesis using assms by simp
next
  case (Some r)
  have ok: "sessions_ok st" using assms by (simp add: sessions_agree_def)
  have tok: "rs_token r = t" using ok Some unfolding sessions_ok_def by blast
  have "persistent_markUsed (\<lambda>v. v) t s = ds_put (\<lambda>v. v) ''identity.refresh_sessions'' t (r\<lparr>rs_used := True\<rparr>) s"
    using Some tok sessions_agree_get [OF assms] by (simp add: persistent_markUsed_def persistent_session_save_def)
  then show ?thesis using assms sessions_ok_markUsed [OF ok]
    by (simp add: sessions_agree_def ds_entries_put map_get_set session_get_markUsed Some)
qed

lemma fold_revoked_get:
  "map_wf m0 \<Longrightarrow> set kvs \<subseteq> set m0 \<Longrightarrow> ds_entries ns s = m \<Longrightarrow>
   map_get (ds_entries ns (fold (\<lambda>(k, r). ds_put (\<lambda>v. v) ns k (g r)) kvs s)) t =
     (if t \<in> fst ` set kvs then map_option g (map_get m0 t) else map_get m t)"
proof (induction kvs arbitrary: s m)
  case Nil
  then show ?case by simp
next
  case (Cons p kvs)
  obtain k r where p: "p = (k, r)" by (cases p)
  have k: "map_get m0 k = Some r" using Cons.prems(1,2) by (simp add: p map_wf_get)
  have step: "ds_entries ns (ds_put (\<lambda>v. v) ns k (g r) s) = map_set k (g r) m"
    using Cons.prems(3) by (simp add: ds_entries_put)
  have "set kvs \<subseteq> set m0" using Cons.prems(2) by simp
  from Cons.IH [OF Cons.prems(1) this step] k show ?case by (auto simp: p map_get_set)
qed

lemma sessions_agree_revokeFamily:
  assumes "sessions_agree s st"
  shows "sessions_agree (persistent_revokeFamily (\<lambda>v. v) f s) (revokeFamily f st)"
proof -
  let ?m = "session_entries s"
  let ?kvs = "filter (\<lambda>(k, r). rs_familyId r = f) ?m"
  have ok: "sessions_ok st" and wf: "map_wf ?m" and get: "\<And>t. map_get ?m t = session_get t st"
    using assms by (simp_all add: sessions_agree_def)
  have def: "persistent_revokeFamily (\<lambda>v. v) f s =
      fold (\<lambda>(k, r). ds_put (\<lambda>v. v) ''identity.refresh_sessions'' k (r\<lparr>rs_revoked := True\<rparr>)) ?kvs s"
    by (simp add: persistent_revokeFamily_def ds_reads)
  have mem: "t \<in> fst ` set ?kvs \<longleftrightarrow> (\<exists>r. session_get t st = Some r \<and> rs_familyId r = f)" for t
  proof -
    have "t \<in> fst ` set ?kvs \<longleftrightarrow> (\<exists>r. (t, r) \<in> set ?m \<and> rs_familyId r = f)" by force
    moreover have "(t, r) \<in> set ?m \<longleftrightarrow> session_get t st = Some r" for r
      using map_wf_get [OF wf] map_get_Some_in [of ?m t] get by metis
    ultimately show ?thesis by simp
  qed
  have "map_get (session_entries (persistent_revokeFamily (\<lambda>v. v) f s)) t = session_get t (revokeFamily f st)" for t
    unfolding def fold_revoked_get [OF wf filter_is_subset refl] mem session_get_revokeFamily [OF ok] get
    by (cases "session_get t st") auto
  moreover have "map_wf (ds_entries ns (fold (\<lambda>(k, r). ds_put (\<lambda>v. v) ns k (g r)) kvs s'))" if "map_wf (ds_entries ns s')" for ns g kvs s'
    using that by (induction kvs arbitrary: s') (auto simp: ds_entries_put)
  ultimately show ?thesis
    using sessions_ok_revokeFamily [OF ok] wf unfolding sessions_agree_def def by blast
qed

text \<open>Runs of writes on the two storages of the identity module.\<close>

datatype identity_write = SaveUser identityUser | SaveSession refreshSession | MarkUsed string | RevokeFamily uuid

fun memory_write :: "identity_write \<Rightarrow> identity_repo \<times> session_store \<Rightarrow> identity_repo \<times> session_store" where
  "memory_write (SaveUser u) (r, st) = (user_save u r, st)"
| "memory_write (SaveSession v) (r, st) = (r, session_save v st)"
| "memory_write (MarkUsed t) (r, st) = (r, markUsed t st)"
| "memory_write (RevokeFamily f) (r, st) = (r, revokeFamily f st)"

fun document_write :: "identity_write \<Rightarrow> identityUser document_store \<times> session_docs \<Rightarrow> identityUser document_store \<times> session_docs" where
  "document_write (SaveUser u) (us, ss) = (persistent_user_save (\<lambda>v. v) u us, ss)"
| "document_write (SaveSession v) (us, ss) = (us, persistent_session_save (\<lambda>v. v) v ss)"
| "document_write (MarkUsed t) (us, ss) = (us, persistent_markUsed (\<lambda>v. v) t ss)"
| "document_write (RevokeFamily f) (us, ss) = (us, persistent_revokeFamily (\<lambda>v. v) f ss)"

text \<open>What the services guarantee of a write: new users and tokens have fresh keys.\<close>

fun identity_write_ok :: "identity_write \<Rightarrow> identity_repo \<times> session_store \<Rightarrow> bool" where
  "identity_write_ok (SaveUser u) (r, st) =
     (user_findById (iu_id u) r = None \<and> iu_id u \<noteq> [] \<and> toLowerCase (iu_email u) = iu_email u \<and>
      findByEmail (iu_email u) r = None \<and> findByPhone (iu_phone u) r = None)"
| "identity_write_ok (SaveSession v) (r, st) = (session_get (rs_token v) st = None)"
| "identity_write_ok _ s = True"

fun identity_writes_ok :: "identity_write list \<Rightarrow> identity_repo \<times> session_store \<Rightarrow> bool" where
  "identity_writes_ok [] s = True"
| "identity_writes_ok (w # ws) s = (identity_write_ok w s \<and> identity_writes_ok ws (memory_write w s))"

lemma identity_write_agree:
  "users_agree us r \<Longrightarrow> sessions_agree ss st \<Longrightarrow> identity_write_ok w (r, st) \<Longrightarrow>
   users_agree (fst (document_write w (us, ss))) (fst (memory_write w (r, st))) \<and>
   sessions_agree (snd (document_write w (us, ss))) (snd (memory_write w (r, st)))"
  by (cases w) (simp_all add: users_agree_save sessions_agree_save sessions_agree_markUsed sessions_agree_revokeFamily)

lemma identity_writes_agree:
  "users_agree (fst d) (fst m) \<Longrightarrow> sessions_agree (snd d) (snd m) \<Longrightarrow> identity_writes_ok ws m \<Longrightarrow>
   users_agree (fst (fold document_write ws d)) (fst (fold memory_write ws m)) \<and>
   sessions_agree (snd (fold document_write ws d)) (snd (fold memory_write ws m))"
proof (induction ws arbitrary: d m)
  case Nil
  then show ?case by simp
next
  case (Cons w ws)
  have "identity_write_ok w (fst m, snd m)" using Cons.prems(3) by simp
  from identity_write_agree [OF Cons.prems(1,2) this] Cons.IH [of "document_write w d" "memory_write w m"] Cons.prems(3)
  show ?case by simp
qed

text \<open>C20: the persistent identity storage refines the in-memory one. After any run of writes that
  the services can make (users with fresh identifiers, emails and phones, sessions with fresh
  tokens, uses and revocations of families), every lookup by identifier, email or phone and
  every session gives the same answer, although the document store keeps no index of emails,
  phones or families and scans instead.\<close>

theorem persistent_identity_refines:
  assumes "identity_writes_ok ws (empty_identity_repo, empty_session_store)"
  shows "persistent_user_findById (\<lambda>v. v) i (fst (fold document_write ws ([], []))) =
      user_findById i (fst (fold memory_write ws (empty_identity_repo, empty_session_store))) \<and>
    persistent_findByEmail (\<lambda>v. v) e (fst (fold document_write ws ([], []))) =
      findByEmail e (fst (fold memory_write ws (empty_identity_repo, empty_session_store))) \<and>
    persistent_findByPhone (\<lambda>v. v) p (fst (fold document_write ws ([], []))) =
      findByPhone p (fst (fold memory_write ws (empty_identity_repo, empty_session_store))) \<and>
    persistent_session_get (\<lambda>v. v) t (snd (fold document_write ws ([], []))) =
      session_get t (snd (fold memory_write ws (empty_identity_repo, empty_session_store)))"
proof -
  have agree: "users_agree (fst (fold document_write ws ([], []))) (fst (fold memory_write ws (empty_identity_repo, empty_session_store)))"
    "sessions_agree (snd (fold document_write ws ([], []))) (snd (fold memory_write ws (empty_identity_repo, empty_session_store)))"
    using identity_writes_agree [of "([], [])" "(empty_identity_repo, empty_session_store)" ws]
      users_agree_empty sessions_agree_empty assms by simp_all
  show ?thesis
    by (intro conjI users_agree_reads [OF agree(1)] sessions_agree_get [OF agree(2)])
qed

definition demo_user :: identityUser where
  "demo_user = \<lparr>iu_id = ''u1'', iu_email = ''a@b.co'', iu_phone = ''1'', iu_passwordHash = ''h'', iu_role = Consumer, iu_createdAt = ''t''\<rparr>"

definition demo_session :: refreshSession where
  "demo_session = \<lparr>rs_token = ''k1'', rs_userId = ''u1'', rs_familyId = ''f1'', rs_used = False, rs_revoked = False,
     rs_expiresAtEpochSeconds = 100\<rparr>"

lemma persistent_identity_refines_witness:
  "persistent_findByEmail (\<lambda>v. v) ''A@b.co'' (fst (fold document_write [SaveUser demo_user, SaveSession demo_session, RevokeFamily ''f1''] ([], [])))
     = Some demo_user \<and>
   persistent_session_get (\<lambda>v. v) ''k1'' (snd (fold document_write [SaveUser demo_user, SaveSession demo_session, RevokeFamily ''f1''] ([], [])))
     = Some (demo_session\<lparr>rs_revoked := True\<rparr>)"
proof -
  let ?ws = "[SaveUser demo_user, SaveSession demo_session, RevokeFamily ''f1'']"
  have "identity_writes_ok ?ws (empty_identity_repo, empty_session_store)"
    by (simp add: demo_user_def demo_session_def empty_identity_repo_def empty_session_store_def user_findById_def findByEmail_def
        findByPhone_def user_byIndex_def toLowerCase_def lower_char_def session_get_def)
  note refines = persistent_identity_refines [OF this]
  have "findByEmail ''A@b.co'' (fst (fold memory_write ?ws (empty_identity_repo, empty_session_store))) = Some demo_user"
  proof -
    have "toLowerCase ''A@b.co'' = ''a@b.co''" "toLowerCase ''a@b.co'' = ''a@b.co''" by code_simp+
    then show ?thesis by (simp add: demo_user_def empty_identity_repo_def user_save_def findByEmail_def user_byIndex_def)
  qed
  moreover have "session_get ''k1'' (snd (fold memory_write ?ws (empty_identity_repo, empty_session_store))) = Some (demo_session\<lparr>rs_revoked := True\<rparr>)"
    by (simp add: session_get_def session_save_def demo_session_def empty_session_store_def revokeFamily_def revoke_token_def set_add_def Let_def)
  ultimately show ?thesis by (simp only: refines simp_thms)
qed

section \<open>The other repositories\<close>

lemmas memory_defs = menu_save_def menu_findById_def menu_listByStoreId_def menu_list_def item_save_def item_findByItemId_def
  status_save_def status_findByStoreId_def basket_save_def basket_findById_def quote_save_def quote_findById_def
  checkout_save_def checkout_findById_def order_save_def order_findById_def order_list_def job_save_def job_findById_def
  job_list_def intent_save_def intent_findById_def findByOrderAndMethod_def refund_save_def refund_findById_def
  ledger_save_def payout_save_def payout_findByScheduleRun_def review_save_def review_findById_def

lemma persistent_writes_mirror:
  "mirrors c ''catalog.menus'' s m \<Longrightarrow> c v = v \<Longrightarrow> mirrors c ''catalog.menus'' (persistent_menu_save c v s) (menu_save v m)"
  "mirrors c1 ''ordering.baskets'' s1 m1 \<Longrightarrow> c1 v1 = v1 \<Longrightarrow> mirrors c1 ''ordering.baskets'' (persistent_basket_save c1 v1 s1) (basket_save v1 m1)"
  "mirrors c2 ''orders.records'' s2 m2 \<Longrightarrow> c2 v2 = v2 \<Longrightarrow> mirrors c2 ''orders.records'' (persistent_order_save c2 v2 s2) (order_save v2 m2)"
  "mirrors c3 ''dispatch.courier_jobs'' s3 m3 \<Longrightarrow> c3 v3 = v3 \<Longrightarrow> mirrors c3 ''dispatch.courier_jobs'' (persistent_job_save c3 v3 s3) (job_save v3 m3)"
  "mirrors c4 ''payments.payment_intents'' s4 m4 \<Longrightarrow> c4 v4 = v4 \<Longrightarrow>
     mirrors c4 ''payments.payment_intents'' (persistent_intent_save c4 v4 s4) (intent_save v4 m4)"
  "mirrors c5 ''settlement.payout_batches'' s5 m5 \<Longrightarrow> c5 v5 = v5 \<Longrightarrow>
     mirrors c5 ''settlement.payout_batches'' (persistent_payout_save c5 v5 s5) (payout_save v5 m5)"
  by (simp_all add: persistent_defs memory_defs mirrors_put)

lemma persistent_reads_mirror:
  "mirrors c ''catalog.menus'' s m \<Longrightarrow> persistent_menu_findById c i s = menu_findById i m \<and>
     persistent_menu_listByStoreId c i s = menu_listByStoreId i m \<and> persistent_menu_list c s = menu_list m"
  "mirrors c1 ''ordering.baskets'' s1 m1 \<Longrightarrow> persistent_basket_findById c1 i s1 = basket_findById i m1"
  "mirrors c2 ''orders.records'' s2 m2 \<Longrightarrow> persistent_order_findById c2 i s2 = order_findById i m2 \<and> persistent_order_list c2 s2 = order_list m2"
  "mirrors c3 ''dispatch.courier_jobs'' s3 m3 \<Longrightarrow> persistent_job_findById c3 i s3 = job_findById i m3 \<and> persistent_job_list c3 s3 = job_list m3"
  "mirrors c4 ''payments.payment_intents'' s4 m4 \<Longrightarrow> persistent_intent_findById c4 i s4 = intent_findById i m4 \<and>
     persistent_findByOrderAndMethod c4 i method s4 = findByOrderAndMethod i method m4"
  "mirrors c5 ''settlement.payout_batches'' s5 m5 \<Longrightarrow> persistent_payout_findByScheduleRun c5 i t s5 = payout_findByScheduleRun i t m5"
  by (simp_all add: persistent_defs memory_defs mirrors_reads)

text \<open>The queue: scanning the stored items answers what the set of keys answers in memory.\<close>

lemma persistent_queue_keys:
  assumes "set (qr_idempotencyKeys r) = nq_idempotencyKey ` set (ds_list (\<lambda>v. v) ''notifications.queue'' s)"
    and "map_get (ds_entries ''notifications.queue'' s) (nq_notificationId v) = None"
  shows "persistent_hasIdempotencyKey (\<lambda>v. v) k (persistent_queue_save (\<lambda>v. v) v (r, s)) = hasIdempotencyKey k (queue_save v r)"
proof -
  have "persistent_hasIdempotencyKey (\<lambda>v. v) k (persistent_queue_save (\<lambda>v. v) v (r, s)) \<longleftrightarrow>
      k = nq_idempotencyKey v \<or> k \<in> nq_idempotencyKey ` set (ds_list (\<lambda>v. v) ''notifications.queue'' s)"
    by (auto simp: persistent_hasIdempotencyKey_def persistent_queue_save_def ds_reads ds_entries_put map_set_new [OF assms(2)]
        map_values_def list_ex_iff)
  with assms(1) show ?thesis by (auto simp: hasIdempotencyKey_def queue_save_def)
qed

text \<open>A ticket found in the cache or fetched is the stored one, as long as the cache holds stored tickets.\<close>

lemma persistent_ticket_find:
  assumes "\<And>i t. ticket_findById i (fst s) = Some t \<Longrightarrow> ds_get (\<lambda>v. v) ''support.tickets'' i (snd s) = Some t"
    and "\<And>i t. ds_get (\<lambda>v. v) ''support.tickets'' i (snd s) = Some t \<Longrightarrow> tk_ticketId t = i"
  shows "fst (persistent_ticket_findById (\<lambda>v. v) i s) = ds_get (\<lambda>v. v) ''support.tickets'' i (snd s)"
    and "ticket_findById j (fst (snd (persistent_ticket_findById (\<lambda>v. v) i s))) = Some t \<Longrightarrow>
      ds_get (\<lambda>v. v) ''support.tickets'' j (snd (snd (persistent_ticket_findById (\<lambda>v. v) i s))) = Some t"
proof -
  have cases: "persistent_ticket_findById (\<lambda>v. v) i s =
      (case ticket_findById i (fst s) of Some c \<Rightarrow> (Some c, s) | None \<Rightarrow>
        (case ds_get (\<lambda>v. v) ''support.tickets'' i (snd s) of None \<Rightarrow> (None, s) | Some t \<Rightarrow> (Some t, (ticket_save t (fst s), snd s))))"
    by (simp add: persistent_ticket_findById_def)
  show "fst (persistent_ticket_findById (\<lambda>v. v) i s) = ds_get (\<lambda>v. v) ''support.tickets'' i (snd s)"
    unfolding cases using assms(1) [of i] by (auto split: option.splits)
  show "ticket_findById j (fst (snd (persistent_ticket_findById (\<lambda>v. v) i s))) = Some t \<Longrightarrow>
      ds_get (\<lambda>v. v) ''support.tickets'' j (snd (snd (persistent_ticket_findById (\<lambda>v. v) i s))) = Some t"
    unfolding cases using assms
    by (auto simp: ticket_findById_def ticket_save_def map_get_set split: option.splits if_splits)
qed

text \<open>Two timeline entries of one order with the same type and time share a key: the second
  overwrites the first, which the in-memory timeline keeps.\<close>

lemma persistent_timeline_overwrites:
  assumes "timelineKey e' = timelineKey e"
  shows "map_get (ds_entries ''orders.timeline_entries''
      (snd (persistent_timeline_append (\<lambda>v. v) e' (persistent_timeline_append (\<lambda>v. v) e (r, s))))) (timelineKey e) = Some e'"
    and "timeline_getByOrderId (te_orderId e) (fst (persistent_timeline_append (\<lambda>v. v) e (r, s))) =
      timeline_getByOrderId (te_orderId e) r @ [e]"
  using assms by (simp_all add: persistent_timeline_append_def ds_entries_put timeline_append_def timeline_getByOrderId_def)

text \<open>A stored rule overrides the default, also in the list.\<close>

lemma persistent_rule_upserted:
  "persistent_findRule (\<lambda>v. v) k (persistent_upsertRule (\<lambda>v. v) v s) =
     (if k = ru_actionType v then Some v else persistent_findRule (\<lambda>v. v) k s)"
  by (cases s) (simp add: persistent_findRule_def persistent_upsertRule_def ds_reads ds_entries_put map_get_set findRule_def
      policy_upsertRule_def split: option.splits)

end
