(* ===== verification/Requests.thy ===== *)
theory Requests
  imports Catalog Identity Dispatch Settlement Support Notifications Risk "HOL-Library.Monad_Syntax"
begin

text \<open>
  What \<open>core-api/src/server.ts\<close> does with the body and the query of a request before a
  service sees them: \<open>parseJsonBody\<close>, one validator for each route, the CSV reader of the
  settlement import and the bearer token. A validator returns the service's input or the
  error it throws; the checks of one condition all throw the same error, so they are a chain
  in the option monad that \<open>or_throw\<close> turns into that error.
\<close>

section \<open>Reading an unknown value\<close>

datatype request_error = Error_message string | Type_error | Syntax_error

definition jnumber :: "json option \<Rightarrow> jsnum option" where
  "jnumber j = (case j of Some (JNum a) \<Rightarrow> Some a | _ \<Rightarrow> None)"

definition jboolean :: "json option \<Rightarrow> bool option" where
  "jboolean j = (case j of Some (JBool b) \<Rightarrow> Some b | _ \<Rightarrow> None)"

definition jarray :: "json option \<Rightarrow> json list option" where
  "jarray j = (case j of Some (JArr xs) \<Rightarrow> Some xs | _ \<Rightarrow> None)"

text \<open>\<open>x !== undefined && typeof x !== "string"\<close> rejects; an absent value stays absent.\<close>

definition optional_string :: "json option \<Rightarrow> string option option" where
  "optional_string j = (case j of None \<Rightarrow> Some None | Some (JStr s) \<Rightarrow> Some (Some s) | _ \<Rightarrow> None)"

definition blank :: "string \<Rightarrow> bool" where
  "blank s = (length (js_trim s) = 0)"

text \<open>\<open>typeof x !== "string" || x.trim().length === 0\<close>.\<close>

definition filled_string :: "json option \<Rightarrow> string option" where
  "filled_string j = (case jstring j of Some s \<Rightarrow> if blank s then None else Some s | None \<Rightarrow> None)"

text \<open>\<open>names.includes(s)\<close> and the cast that follows it.\<close>

definition named :: "('a \<Rightarrow> string) \<Rightarrow> 'a list \<Rightarrow> string \<Rightarrow> 'a option" where
  "named name vals s = List.find (\<lambda>v. name v = s) vals"

definition check :: "bool \<Rightarrow> unit option" where
  "check b = (if b then Some () else None)"

definition or_throw :: "'a option \<Rightarrow> string \<Rightarrow> request_error + 'a" where
  "or_throw m code = (case m of Some a \<Rightarrow> Inr a | None \<Rightarrow> Inl (Error_message code))"

definition and_then :: "('e + 'a) \<Rightarrow> ('a \<Rightarrow> 'e + 'b) \<Rightarrow> 'e + 'b" where
  "and_then m f = (case m of Inl e \<Rightarrow> Inl e | Inr a \<Rightarrow> f a)"

text \<open>
  The payload is whatever \<open>JSON.parse\<close> returned, cast to a record: reading a property of
  \<open>null\<close> is a type error, and the other primitive values and arrays have none of the
  properties the validators read.
\<close>

definition with_payload :: "json \<Rightarrow> ((string \<Rightarrow> json option) \<Rightarrow> request_error + 'a) \<Rightarrow> request_error + 'a" where
  "with_payload payload f =
     (case payload of JNull \<Rightarrow> Inl Type_error | JObj ps \<Rightarrow> f (jprop ps) | _ \<Rightarrow> f (\<lambda>k. None))"

text \<open>\<open>typeof x !== "object" || x === null || !("k" in x) ...\<close> rejects.\<close>

definition object_with :: "string list \<Rightarrow> json \<Rightarrow> (string \<Rightarrow> json option) option" where
  "object_with keys j =
     (case j of JObj ps \<Rightarrow> if \<forall>k \<in> set keys. jprop ps k \<noteq> None then Some (jprop ps) else None | _ \<Rightarrow> None)"

definition not_number_less :: "jsnum \<Rightarrow> jsnum \<Rightarrow> bool" where
  "not_number_less a b = (\<not> num_lt a b)"

definition is_integer :: "jsnum \<Rightarrow> bool" where
  "is_integer a = (case a of Fin x \<Rightarrow> x \<in> \<int> | _ \<Rightarrow> False)"

lemma or_throw_simps [simp]: "or_throw (Some a) c = Inr a" "or_throw None c = Inl (Error_message c)"
  by (simp_all add: or_throw_def)

lemma or_throw_iff [simp]: "or_throw m c = Inr a \<longleftrightarrow> m = Some a" "or_throw m c = Inl e \<longleftrightarrow> m = None \<and> e = Error_message c"
  by (cases m; auto)+

lemma check_iff [simp]: "check b = Some u \<longleftrightarrow> b" "check b = None \<longleftrightarrow> \<not> b" "check True = Some ()" "check False = None"
  by (auto simp: check_def)

lemma and_then_simps [simp]: "and_then (Inl e) f = Inl e" "and_then (Inr a) f = f a"
  by (simp_all add: and_then_def)

lemma and_then_Inr: "and_then m f = Inr b \<longleftrightarrow> (\<exists>a. m = Inr a \<and> f a = Inr b)"
  by (cases m) auto

lemma and_then_Inl: "and_then m f = Inl e \<longleftrightarrow> m = Inl e \<or> (\<exists>a. m = Inr a \<and> f a = Inl e)"
  by (cases m) auto

lemma jnumber_iff [simp]: "jnumber j = Some a \<longleftrightarrow> j = Some (JNum a)"
  by (auto simp: jnumber_def split: option.splits json.splits)

lemma jnumber_JNum [simp]: "jnumber (Some (JNum a)) = Some a"
  by (simp add: jnumber_def)

lemma jboolean_iff [simp]: "jboolean j = Some b \<longleftrightarrow> j = Some (JBool b)"
  by (auto simp: jboolean_def split: option.splits json.splits)

lemma jarray_iff [simp]: "jarray j = Some xs \<longleftrightarrow> j = Some (JArr xs)"
  by (auto simp: jarray_def split: option.splits json.splits)

lemma jstring_iff: "jstring j = Some s \<longleftrightarrow> j = Some (JStr s)"
  by (auto simp: jstring_def split: option.splits json.splits)

lemma filled_string_iff [simp]: "filled_string j = Some s \<longleftrightarrow> j = Some (JStr s) \<and> \<not> blank s"
  by (auto simp: filled_string_def jstring_iff split: option.splits)

lemma optional_string_iff: "optional_string j = Some s \<longleftrightarrow> (case s of None \<Rightarrow> j = None | Some t \<Rightarrow> j = Some (JStr t))"
  by (auto simp: optional_string_def split: option.splits json.splits)

lemma named_sound: "named name vals s = Some v \<Longrightarrow> name v = s \<and> v \<in> set vals"
  unfolding named_def by (induction vals) (auto split: if_splits)

lemma named_complete: "v \<in> set vals \<Longrightarrow> inj_on name (set vals) \<Longrightarrow> named name vals (name v) = Some v"
proof (induction vals)
  case Nil
  then show ?case by simp
next
  case (Cons a vals)
  show ?case
  proof (cases "a = v")
    case True
    then show ?thesis by (simp add: named_def)
  next
    case False
    with Cons.prems have "name a \<noteq> name v" "v \<in> set vals" by (auto simp: inj_on_def)
    with Cons show ?thesis by (simp add: named_def inj_on_def)
  qed
qed

lemma with_payload_simps [simp]:
  "with_payload JNull f = Inl Type_error"
  "with_payload (JObj ps) f = f (jprop ps)"
  by (simp_all add: with_payload_def)

lemma with_payload_Inr: "with_payload p f = Inr a \<Longrightarrow> (\<exists>ps. p = JObj ps \<and> f (jprop ps) = Inr a) \<or> f (\<lambda>k. None) = Inr a"
  by (cases p) (auto simp: with_payload_def)

lemma with_payload_Inl: "with_payload p f = Inl e \<Longrightarrow> p \<noteq> JNull \<Longrightarrow> \<exists>get. f get = Inl e"
  by (cases p) (auto simp: with_payload_def)

lemma object_with_iff: "object_with keys j = Some get \<longleftrightarrow>
    (\<exists>ps. j = JObj ps \<and> (\<forall>k \<in> set keys. jprop ps k \<noteq> None) \<and> get = jprop ps)"
  by (cases j) (auto simp: object_with_def)

section \<open>Identity and catalog\<close>

definition supportedRoles :: "user_role list" where
  "supportedRoles = [Consumer, Courier, Merchant_operator, Support_agent, Finance_ops, System_admin]"

definition validateRegistrationPayload :: "json \<Rightarrow> request_error + registerIdentityInput" where
  "validateRegistrationPayload payload = with_payload payload (\<lambda>get. or_throw
     (do {
        email \<leftarrow> jstring (get ''email'');
        phone \<leftarrow> jstring (get ''phone'');
        passwordHash \<leftarrow> jstring (get ''passwordHash'');
        role \<leftarrow> jstring (get ''role'');
        role \<leftarrow> named role_name supportedRoles role;
        Some \<lparr>rin_email = email, rin_phone = phone, rin_passwordHash = passwordHash, rin_role = role\<rparr>
      }) ''INVALID_REGISTRATION_PAYLOAD'')"

definition validateLoginPayload :: "json \<Rightarrow> request_error + loginInput" where
  "validateLoginPayload payload = with_payload payload (\<lambda>get. or_throw
     (do {
        email \<leftarrow> jstring (get ''email'');
        passwordHash \<leftarrow> jstring (get ''passwordHash'');
        mfaCode \<leftarrow> optional_string (get ''mfaCode'');
        Some \<lparr>li_email = email, li_passwordHash = passwordHash, li_mfaCode = mfaCode\<rparr>
      }) ''INVALID_LOGIN_PAYLOAD'')"

definition validateRefreshPayload :: "json \<Rightarrow> request_error + string" where
  "validateRefreshPayload payload = with_payload payload (\<lambda>get. or_throw
     (filled_string (get ''refreshToken'')) ''INVALID_REFRESH_PAYLOAD'')"

definition validateMfaVerifyPayload :: "json \<Rightarrow> request_error + loginInput" where
  "validateMfaVerifyPayload payload =
     and_then (validateLoginPayload payload) (\<lambda>input. or_throw
       (case li_mfaCode input of
          Some code \<Rightarrow> if code = [] then None
            else Some \<lparr>li_email = li_email input, li_passwordHash = li_passwordHash input, li_mfaCode = Some code\<rparr>
        | None \<Rightarrow> None) ''INVALID_MFA_VERIFY_PAYLOAD'')"

definition menu_item_of :: "json \<Rightarrow> menuItemInput option" where
  "menu_item_of item =
     do {
       candidate \<leftarrow> object_with [''itemId'', ''name'', ''priceCents''] item;
       itemId \<leftarrow> jstring (candidate ''itemId'');
       name \<leftarrow> filled_string (candidate ''name'');
       priceCents \<leftarrow> jnumber (candidate ''priceCents'');
       check (\<not> num_lt priceCents (Fin 0));
       Some \<lparr>mii_itemId = itemId, mii_name = name, mii_priceCents = priceCents\<rparr>
     }"

definition validateMenuItems :: "json option \<Rightarrow> request_error + menuItemInput list" where
  "validateMenuItems items = or_throw
     (do {
        items \<leftarrow> jarray items;
        check (length items \<noteq> 0);
        those (map menu_item_of items)
      }) ''INVALID_MENU_ITEMS''"

definition validateCreateMenuPayload :: "json \<Rightarrow> request_error + createMenuInput" where
  "validateCreateMenuPayload payload = with_payload payload (\<lambda>get.
     and_then (or_throw
       (do {
          merchantId \<leftarrow> jstring (get ''merchantId'');
          storeId \<leftarrow> jstring (get ''storeId'');
          name \<leftarrow> filled_string (get ''name'');
          Some (merchantId, storeId, name)
        }) ''INVALID_MENU_CREATE_PAYLOAD'') (\<lambda>(merchantId, storeId, name).
     and_then (validateMenuItems (get ''items'')) (\<lambda>items.
       Inr \<lparr>cmi_merchantId = merchantId, cmi_storeId = storeId, cmi_name = name, cmi_items = items\<rparr>)))"

definition validateUpdateMenuPayload :: "json \<Rightarrow> request_error + updateMenuInput" where
  "validateUpdateMenuPayload payload = with_payload payload (\<lambda>get.
     and_then (or_throw (filled_string (get ''name'')) ''INVALID_MENU_UPDATE_PAYLOAD'') (\<lambda>name.
     and_then (validateMenuItems (get ''items'')) (\<lambda>items.
       Inr \<lparr>umi_name = name, umi_items = items\<rparr>)))"

definition validateStoreStatusPayload :: "json \<Rightarrow> request_error + updateStoreStatusInput" where
  "validateStoreStatusPayload payload = with_payload payload (\<lambda>get. or_throw
     (do {
        paused \<leftarrow> jboolean (get ''paused'');
        schedule \<leftarrow> get ''schedule'';
        schedule \<leftarrow> object_with [''open'', ''close'', ''timezone''] schedule;
        open \<leftarrow> jstring (schedule ''open'');
        close \<leftarrow> jstring (schedule ''close'');
        timezone \<leftarrow> filled_string (schedule ''timezone'');
        check (isValidHHMM open \<and> isValidHHMM close);
        Some \<lparr>uss_paused = paused, uss_schedule = \<lparr>ss_open = open, ss_close = close, ss_timezone = timezone\<rparr>\<rparr>
      }) ''INVALID_STORE_STATUS_PAYLOAD'')"

text \<open>\<open>searchParams.get(name)\<close>: the first value under the name.\<close>

type_synonym search_params = "(string \<times> string) list"

definition query_get :: "search_params \<Rightarrow> string \<Rightarrow> string option" where
  "query_get ps k = map_of ps k"

definition query_boolean :: "search_params \<Rightarrow> string \<Rightarrow> bool option option" where
  "query_boolean ps k =
     (case query_get ps k of
        None \<Rightarrow> Some None
      | Some raw \<Rightarrow> if raw \<noteq> ''true'' \<and> raw \<noteq> ''false'' then None else Some (Some (raw = ''true'')))"

record storeDiscoveryQuery =
  sdq_orderable :: "bool option"
  sdq_at :: "int option"

definition validateStoreDiscoveryQuery :: "host \<Rightarrow> search_params \<Rightarrow> request_error + storeDiscoveryQuery" where
  "validateStoreDiscoveryQuery h ps = or_throw
     (do {
        orderable \<leftarrow> query_boolean ps ''orderable'';
        when \<leftarrow> (case query_get ps ''at'' of
            None \<Rightarrow> Some None
          | Some raw \<Rightarrow> map_option Some (host_getTime h raw));
        Some \<lparr>sdq_orderable = orderable, sdq_at = when\<rparr>
      }) ''INVALID_STORE_DISCOVERY_QUERY''"

definition validateStoreMenuQuery :: "search_params \<Rightarrow> request_error + bool option" where
  "validateStoreMenuQuery ps = or_throw (query_boolean ps ''availableOnly'') ''INVALID_STORE_MENU_QUERY''"

definition validateItemAvailabilityPayload :: "json \<Rightarrow> request_error + updateItemAvailabilityInput" where
  "validateItemAvailabilityPayload payload = with_payload payload (\<lambda>get. or_throw
     (do {
        available \<leftarrow> jboolean (get ''available'');
        reason \<leftarrow> optional_string (get ''reason'');
        Some \<lparr>uia_available = available, uia_reason = reason\<rparr>
      }) ''INVALID_ITEM_AVAILABILITY_PAYLOAD'')"

section \<open>Baskets, delivery zones, quotes and checkout\<close>

definition validateCreateBasketPayload :: "json \<Rightarrow> request_error + createBasketInput" where
  "validateCreateBasketPayload payload = with_payload payload (\<lambda>get. or_throw
     (do {
        consumerId \<leftarrow> jstring (get ''consumerId'');
        merchantId \<leftarrow> jstring (get ''merchantId'');
        currency \<leftarrow> filled_string (get ''currency'');
        Some \<lparr>cbi_consumerId = consumerId, cbi_merchantId = merchantId, cbi_currency = currency\<rparr>
      }) ''INVALID_BASKET_CREATE_PAYLOAD'')"

definition basket_item_of :: "json \<Rightarrow> basketItemInput option" where
  "basket_item_of item =
     do {
       candidate \<leftarrow> object_with [''itemId'', ''name'', ''quantity'', ''unitPriceCents'', ''modifiers''] item;
       itemId \<leftarrow> jstring (candidate ''itemId'');
       name \<leftarrow> jstring (candidate ''name'');
       quantity \<leftarrow> jnumber (candidate ''quantity'');
       check (\<not> num_le quantity (Fin 0));
       unitPriceCents \<leftarrow> jnumber (candidate ''unitPriceCents'');
       check (\<not> num_lt unitPriceCents (Fin 0));
       modifiers \<leftarrow> jarray (candidate ''modifiers'');
       modifiers \<leftarrow> those (map (\<lambda>modifier. jstring (Some modifier)) modifiers);
       note \<leftarrow> optional_string (candidate ''note'');
       Some \<lparr>bii_itemId = itemId, bii_name = name, bii_quantity = quantity, bii_unitPriceCents = unitPriceCents,
             bii_modifiers = modifiers, bii_note = note\<rparr>
     }"

definition validateBasketItems :: "json option \<Rightarrow> request_error + basketItemInput list" where
  "validateBasketItems items = or_throw
     (do { items \<leftarrow> jarray items; those (map basket_item_of items) }) ''INVALID_BASKET_ITEMS''"

definition validateUpdateBasketPayload :: "json \<Rightarrow> request_error + basketItemInput list" where
  "validateUpdateBasketPayload payload = with_payload payload (\<lambda>get. validateBasketItems (get ''items''))"

definition validateUpsertDeliveryZonePayload :: "json \<Rightarrow> request_error + upsertDeliveryZoneInput" where
  "validateUpsertDeliveryZonePayload payload = with_payload payload (\<lambda>get. or_throw
     (do {
        zoneId \<leftarrow> jstring (get ''zoneId'');
        name \<leftarrow> jstring (get ''name'');
        minLat \<leftarrow> jnumber (get ''minLat'');
        maxLat \<leftarrow> jnumber (get ''maxLat'');
        minLng \<leftarrow> jnumber (get ''minLng'');
        maxLng \<leftarrow> jnumber (get ''maxLng'');
        Some \<lparr>uz_zoneId = zoneId, uz_name = name, uz_minLat = minLat, uz_maxLat = maxLat,
              uz_minLng = minLng, uz_maxLng = maxLng\<rparr>
      }) ''INVALID_DELIVERY_ZONE_PAYLOAD'')"

definition validateZonePointPayload :: "json \<Rightarrow> request_error + geoPoint" where
  "validateZonePointPayload payload = with_payload payload (\<lambda>get. or_throw
     (do {
        latitude \<leftarrow> jnumber (get ''latitude'');
        longitude \<leftarrow> jnumber (get ''longitude'');
        Some \<lparr>gp_latitude = latitude, gp_longitude = longitude\<rparr>
      }) ''INVALID_ZONE_POINT_PAYLOAD'')"

definition validateGenerateQuotePayload :: "json \<Rightarrow> request_error + string \<times> string option" where
  "validateGenerateQuotePayload payload = with_payload payload (\<lambda>get. or_throw
     (do {
        basketId \<leftarrow> jstring (get ''basketId'');
        promoCode \<leftarrow> optional_string (get ''promoCode'');
        Some (basketId, promoCode)
      }) ''INVALID_QUOTE_PAYLOAD'')"

record promotionEvaluation =
  pe_consumerId :: string
  pe_merchantId :: string
  pe_subtotalCents :: jsnum
  pe_promoCode :: "string option"

definition validatePromotionEvaluatePayload :: "json \<Rightarrow> request_error + promotionEvaluation" where
  "validatePromotionEvaluatePayload payload = with_payload payload (\<lambda>get. or_throw
     (do {
        consumerId \<leftarrow> jstring (get ''consumerId'');
        merchantId \<leftarrow> jstring (get ''merchantId'');
        subtotalCents \<leftarrow> jnumber (get ''subtotalCents'');
        check (\<not> num_lt subtotalCents (Fin 0));
        promoCode \<leftarrow> optional_string (get ''promoCode'');
        Some \<lparr>pe_consumerId = consumerId, pe_merchantId = merchantId, pe_subtotalCents = subtotalCents,
              pe_promoCode = promoCode\<rparr>
      }) ''INVALID_PROMOTION_EVALUATION_PAYLOAD'')"

definition validateCheckoutPayload :: "json \<Rightarrow> request_error + checkoutInput" where
  "validateCheckoutPayload payload = with_payload payload (\<lambda>get. or_throw
     (do {
        basketId \<leftarrow> jstring (get ''basketId'');
        quoteId \<leftarrow> jstring (get ''quoteId'');
        quoteHash \<leftarrow> jstring (get ''quoteHash'');
        Some \<lparr>cin_basketId = basketId, cin_quoteId = quoteId, cin_quoteHash = quoteHash\<rparr>
      }) ''INVALID_CHECKOUT_PAYLOAD'')"

section \<open>Orders and dispatch\<close>

definition validateCreateOrderPayload :: "json \<Rightarrow> request_error + createOrderInput" where
  "validateCreateOrderPayload payload = with_payload payload (\<lambda>get. or_throw
     (do {
        checkoutId \<leftarrow> jstring (get ''checkoutId'');
        quoteHash \<leftarrow> jstring (get ''quoteHash'');
        Some \<lparr>coi_checkoutId = checkoutId, coi_quoteHash = quoteHash\<rparr>
      }) ''INVALID_ORDER_CREATE_PAYLOAD'')"

definition validateOrderCancellationPayload :: "json \<Rightarrow> request_error + string" where
  "validateOrderCancellationPayload payload = with_payload payload (\<lambda>get.
     or_throw (filled_string (get ''reasonCode'')) ''INVALID_ORDER_CANCELLATION_PAYLOAD'')"

definition validateCourierJobCourierPayload :: "json \<Rightarrow> request_error + string" where
  "validateCourierJobCourierPayload payload = with_payload payload (\<lambda>get.
     or_throw (filled_string (get ''courierId'')) ''INVALID_COURIER_JOB_COURIER_PAYLOAD'')"

definition courierJobStatus_wire :: "courierJobStatus \<Rightarrow> string" where
  "courierJobStatus_wire s = (case s of JOB_AVAILABLE \<Rightarrow> ''AVAILABLE'' | JOB_ACCEPTED \<Rightarrow> ''ACCEPTED''
     | JOB_PICKED_UP \<Rightarrow> ''PICKED_UP'' | JOB_DROPPED_OFF \<Rightarrow> ''DROPPED_OFF'')"

definition validCourierJobStatuses :: "courierJobStatus list" where
  "validCourierJobStatuses = [JOB_AVAILABLE, JOB_ACCEPTED, JOB_PICKED_UP, JOB_DROPPED_OFF]"

text \<open>An absent status stays absent; a present one must be named.\<close>

definition optional_named :: "('a \<Rightarrow> string) \<Rightarrow> 'a list \<Rightarrow> string option \<Rightarrow> 'a option option" where
  "optional_named name vals s = (case s of None \<Rightarrow> Some None | Some t \<Rightarrow> map_option Some (named name vals t))"

definition filled_query :: "search_params \<Rightarrow> string \<Rightarrow> string option" where
  "filled_query ps k = (case query_get ps k of Some v \<Rightarrow> if v = [] \<or> blank v then None else Some (js_trim v) | None \<Rightarrow> None)"

definition validateCourierJobListQuery :: "search_params \<Rightarrow> request_error + string \<times> courierJobStatus option" where
  "validateCourierJobListQuery ps = or_throw
     (do {
        courierId \<leftarrow> filled_query ps ''courierId'';
        status \<leftarrow> optional_named courierJobStatus_wire validCourierJobStatuses (query_get ps ''status'');
        Some (courierId, status)
      }) ''INVALID_COURIER_JOB_QUERY''"

definition number_not_NaN :: "json option \<Rightarrow> jsnum option" where
  "number_not_NaN j = (case jnumber j of Some a \<Rightarrow> if a = NaN then None else Some a | None \<Rightarrow> None)"

definition validateCourierTelemetryPayload :: "json \<Rightarrow> request_error + telemetryInput" where
  "validateCourierTelemetryPayload payload = with_payload payload (\<lambda>get. or_throw
     (do {
        courierId \<leftarrow> filled_string (get ''courierId'');
        observedAtEpochMs \<leftarrow> number_not_NaN (get ''observedAtEpochMs'');
        speedMps \<leftarrow> number_not_NaN (get ''speedMps'');
        distanceToDropoffMeters \<leftarrow> number_not_NaN (get ''distanceToDropoffMeters'');
        Some \<lparr>ti_courierId = courierId, ti_observedAtEpochMs = observedAtEpochMs, ti_speedMps = speedMps,
              ti_distanceToDropoffMeters = distanceToDropoffMeters\<rparr>
      }) ''INVALID_COURIER_TELEMETRY_PAYLOAD'')"

definition candidate_of :: "json \<Rightarrow> assignmentCandidate option" where
  "candidate_of candidate =
     do {
       parsed \<leftarrow> object_with [''courierId'', ''distanceMeters'', ''available'', ''activeOrders'', ''withinRestWindow''] candidate;
       courierId \<leftarrow> filled_string (parsed ''courierId'');
       distanceMeters \<leftarrow> jnumber (parsed ''distanceMeters'');
       check (is_finite distanceMeters \<and> \<not> num_lt distanceMeters (Fin 0));
       available \<leftarrow> jboolean (parsed ''available'');
       activeOrders \<leftarrow> jnumber (parsed ''activeOrders'');
       check (is_integer activeOrders \<and> \<not> num_lt activeOrders (Fin 0));
       withinRestWindow \<leftarrow> jboolean (parsed ''withinRestWindow'');
       Some \<lparr>ac_courierId = courierId, ac_distanceMeters = distanceMeters, ac_available = available,
             ac_activeOrders = activeOrders, ac_withinRestWindow = withinRestWindow\<rparr>
     }"

text \<open>\<open>Object.keys(payload).length\<close>: an object's names, the indices of a string or an array,
  none for a number or a boolean, and a type error for \<open>null\<close>.\<close>

definition object_keys_empty :: "json \<Rightarrow> bool" where
  "object_keys_empty payload =
     (case payload of JObj ps \<Rightarrow> ps = [] | JArr xs \<Rightarrow> xs = [] | JStr s \<Rightarrow> s = [] | _ \<Rightarrow> True)"

text \<open>\<open>x ?? d\<close> on an unknown value: \<open>null\<close> counts as absent.\<close>

definition json_nullish :: "json option \<Rightarrow> json \<Rightarrow> json" where
  "json_nullish j d = (case j of None \<Rightarrow> d | Some JNull \<Rightarrow> d | Some v \<Rightarrow> v)"

record assignmentBody =
  ab_candidates :: "assignmentCandidate list"
  ab_slaPressure :: jsnum
  ab_merchantSelfDeliveryEnabled :: bool

definition validateDispatchAssignmentPayload :: "json \<Rightarrow> request_error + assignmentBody option" where
  "validateDispatchAssignmentPayload payload = with_payload payload (\<lambda>get.
     if object_keys_empty payload then Inr None
     else or_throw
       (do {
          candidates \<leftarrow> jarray (get ''candidates'');
          check (length candidates \<noteq> 0);
          candidates \<leftarrow> those (map candidate_of candidates);
          slaPressure \<leftarrow> jnumber (Some (json_nullish (get ''slaPressure'') (JNum (Fin 0))));
          check (is_finite slaPressure \<and> \<not> num_lt slaPressure (Fin 0) \<and> \<not> num_lt (Fin 1) slaPressure);
          merchantSelfDeliveryEnabled \<leftarrow> jboolean (Some (json_nullish (get ''merchantSelfDeliveryEnabled'') (JBool False)));
          Some (Some \<lparr>ab_candidates = candidates, ab_slaPressure = slaPressure,
                      ab_merchantSelfDeliveryEnabled = merchantSelfDeliveryEnabled\<rparr>)
        }) ''INVALID_DISPATCH_REQUEST_PAYLOAD'')"

definition validateMerchantOrderRejectPayload :: "json \<Rightarrow> request_error + string" where
  "validateMerchantOrderRejectPayload payload = with_payload payload (\<lambda>get.
     or_throw (filled_string (get ''reasonCode'')) ''INVALID_MERCHANT_ORDER_REJECT_PAYLOAD'')"

definition validOrderStatuses :: "orderStatus list" where
  "validOrderStatuses = [CREATED, MERCHANT_ACCEPTED, DISPATCH_PENDING, COURIER_ASSIGNED, PICKED_UP, DELIVERED, CANCELLED]"

definition parseOptionalOrderStatus :: "string option \<Rightarrow> request_error + orderStatus option" where
  "parseOptionalOrderStatus status =
     or_throw (optional_named orderStatus_name validOrderStatuses status) ''INVALID_ORDER_STATUS_QUERY''"

definition validateConsumerOrderListQuery :: "search_params \<Rightarrow> request_error + string \<times> orderStatus option" where
  "validateConsumerOrderListQuery ps =
     and_then (or_throw (filled_query ps ''consumerId'') ''INVALID_CONSUMER_ORDER_QUERY'') (\<lambda>consumerId.
     and_then (parseOptionalOrderStatus (query_get ps ''status'')) (\<lambda>status. Inr (consumerId, status)))"

definition validateMerchantOrderListQuery :: "search_params \<Rightarrow> request_error + string \<times> orderStatus option" where
  "validateMerchantOrderListQuery ps =
     and_then (or_throw (filled_query ps ''merchantId'') ''INVALID_MERCHANT_ORDER_QUERY'') (\<lambda>merchantId.
     and_then (parseOptionalOrderStatus (query_get ps ''status'')) (\<lambda>status. Inr (merchantId, status)))"

section \<open>Payments\<close>

definition paymentMethods :: "paymentMethod list" where
  "paymentMethods = [CARD, APPLE_PAY, GOOGLE_PAY, CASH]"

definition positive_number :: "json option \<Rightarrow> jsnum option" where
  "positive_number j = (case jnumber j of Some a \<Rightarrow> if num_le a (Fin 0) then None else Some a | None \<Rightarrow> None)"

definition currency_of :: "json option \<Rightarrow> string option" where
  "currency_of j = (case jstring j of Some s \<Rightarrow> if length (js_trim s) \<noteq> 3 then None else Some s | None \<Rightarrow> None)"

definition validatePaymentAuthorizePayload :: "json \<Rightarrow> request_error + authorizePaymentInput" where
  "validatePaymentAuthorizePayload payload = with_payload payload (\<lambda>get. or_throw
     (do {
        orderId \<leftarrow> jstring (get ''orderId'');
        method \<leftarrow> jstring (get ''method'');
        method \<leftarrow> named method_name paymentMethods method;
        amount \<leftarrow> positive_number (get ''amount'');
        currency \<leftarrow> currency_of (get ''currency'');
        Some \<lparr>api_orderId = orderId, api_method = method, api_amount = amount, api_currency = toUpperCase currency\<rparr>
      }) ''INVALID_PAYMENT_AUTHORIZE_PAYLOAD'')"

definition validatePaymentCapturePayload :: "json \<Rightarrow> request_error + capturePaymentInput" where
  "validatePaymentCapturePayload payload = with_payload payload (\<lambda>get. or_throw
     (do {
        paymentIntentId \<leftarrow> filled_string (get ''paymentIntentId'');
        idempotencyKey \<leftarrow> filled_string (get ''idempotencyKey'');
        Some \<lparr>cpi_paymentIntentId = paymentIntentId, cpi_idempotencyKey = idempotencyKey\<rparr>
      }) ''INVALID_PAYMENT_CAPTURE_PAYLOAD'')"

definition validateCashExpectedPayload :: "json \<Rightarrow> request_error + markCashExpectedInput" where
  "validateCashExpectedPayload payload = with_payload payload (\<lambda>get. or_throw
     (do {
        orderId \<leftarrow> jstring (get ''orderId'');
        expectedAmount \<leftarrow> positive_number (get ''expectedAmount'');
        currency \<leftarrow> currency_of (get ''currency'');
        Some \<lparr>mci_orderId = orderId, mci_expectedAmount = expectedAmount, mci_currency = toUpperCase currency\<rparr>
      }) ''INVALID_CASH_EXPECTED_PAYLOAD'')"

text \<open>The order identifier of a cash collection comes from the route.\<close>

definition validateCashCollectionPayload :: "json \<Rightarrow> request_error + jsnum \<times> string" where
  "validateCashCollectionPayload payload = with_payload payload (\<lambda>get. or_throw
     (do {
        collectedAmount \<leftarrow> positive_number (get ''collectedAmount'');
        courierId \<leftarrow> filled_string (get ''courierId'');
        Some (collectedAmount, courierId)
      }) ''INVALID_CASH_COLLECTION_PAYLOAD'')"

definition validateRefundRequestPayload :: "json \<Rightarrow> request_error + requestRefundInput" where
  "validateRefundRequestPayload payload = with_payload payload (\<lambda>get. or_throw
     (do {
        orderId \<leftarrow> jstring (get ''orderId'');
        paymentIntentId \<leftarrow> jstring (get ''paymentIntentId'');
        amount \<leftarrow> positive_number (get ''amount'');
        reasonCode \<leftarrow> filled_string (get ''reasonCode'');
        requestedBy \<leftarrow> filled_string (get ''requestedBy'');
        Some \<lparr>rri_orderId = orderId, rri_paymentIntentId = paymentIntentId, rri_amount = amount,
              rri_reasonCode = reasonCode, rri_requestedBy = requestedBy\<rparr>
      }) ''INVALID_REFUND_REQUEST_PAYLOAD'')"

definition validateRefundApprovalPayload :: "json \<Rightarrow> request_error + string" where
  "validateRefundApprovalPayload payload = with_payload payload (\<lambda>get.
     or_throw (filled_string (get ''approvedBy'')) ''INVALID_REFUND_APPROVAL_PAYLOAD'')"

section \<open>Settlement\<close>

definition ledgerSide_name :: "ledgerSide \<Rightarrow> string" where
  "ledgerSide_name s = (case s of DEBIT \<Rightarrow> ''DEBIT'' | CREDIT \<Rightarrow> ''CREDIT'')"

definition journal_line_of :: "json \<Rightarrow> settlementJournalLine option" where
  "journal_line_of line =
     do {
       candidate \<leftarrow> object_with [''account'', ''side'', ''amount''] line;
       account \<leftarrow> filled_string (candidate ''account'');
       side \<leftarrow> jstring (candidate ''side'');
       side \<leftarrow> named ledgerSide_name [DEBIT, CREDIT] side;
       amount \<leftarrow> positive_number (candidate ''amount'');
       Some \<lparr>jl_account = account, jl_side = side, jl_amount = amount\<rparr>
     }"

definition validateSettlementJournalPayload :: "json \<Rightarrow> request_error + postSettlementJournalInput" where
  "validateSettlementJournalPayload payload = with_payload payload (\<lambda>get. or_throw
     (do {
        sourceType \<leftarrow> filled_string (get ''sourceType'');
        sourceId \<leftarrow> filled_string (get ''sourceId'');
        lines \<leftarrow> jarray (get ''lines'');
        check (\<not> length lines < 2);
        lines \<leftarrow> those (map journal_line_of lines);
        Some \<lparr>pj_sourceType = sourceType, pj_sourceId = sourceId, pj_lines = lines\<rparr>
      }) ''INVALID_SETTLEMENT_JOURNAL_PAYLOAD'')"

definition finite_amount :: "json option \<Rightarrow> jsnum option" where
  "finite_amount j = (case jnumber j of Some a \<Rightarrow> if \<not> is_finite a \<or> num_lt a (Fin 0) then None else Some a | None \<Rightarrow> None)"

definition reconciliation_record_of :: "json \<Rightarrow> settlementReconciliationRecord option" where
  "reconciliation_record_of record =
     do {
       candidate \<leftarrow> object_with [''entityId'', ''amount''] record;
       entityId \<leftarrow> filled_string (candidate ''entityId'');
       amount \<leftarrow> finite_amount (candidate ''amount'');
       Some \<lparr>sr_entityId = entityId, sr_amount = amount\<rparr>
     }"

definition validateSettlementReconciliationPayload :: "json \<Rightarrow> request_error + reconcileSettlementInput" where
  "validateSettlementReconciliationPayload payload = with_payload payload (\<lambda>get. or_throw
     (do {
        expectedRecords \<leftarrow> jarray (get ''expectedRecords'');
        actualRecords \<leftarrow> jarray (get ''actualRecords'');
        toleranceCents \<leftarrow> finite_amount (get ''toleranceCents'');
        expectedRecords \<leftarrow> those (map reconciliation_record_of expectedRecords);
        actualRecords \<leftarrow> those (map reconciliation_record_of actualRecords);
        Some \<lparr>rc_expectedRecords = expectedRecords, rc_actualRecords = actualRecords, rc_toleranceCents = toleranceCents\<rparr>
      }) ''INVALID_SETTLEMENT_RECONCILIATION_PAYLOAD'')"

text \<open>\<open>split(/\r?\n/)\<close>: a line break takes a carriage return before it along.\<close>

definition drop_return :: "string \<Rightarrow> string" where
  "drop_return s = (if s \<noteq> [] \<and> last s = CHR 0x0D then butlast s else s)"

definition split_lines :: "string \<Rightarrow> string list" where
  "split_lines s = (let pieces = split_char CHR 0x0A s in map drop_return (butlast pieces) @ [last pieces])"

definition csv_row :: "string \<Rightarrow> settlementReconciliationRecord option" where
  "csv_row line =
     (case split_char CHR '','' line of
        [f0, f1] \<Rightarrow>
          (let entityId = js_trim f0; amount = js_Number (js_trim f1)
           in if length entityId = 0 \<or> \<not> is_finite amount \<or> num_lt amount (Fin 0) then None
              else Some \<lparr>sr_entityId = entityId, sr_amount = amount\<rparr>)
      | _ \<Rightarrow> None)"

definition csv_lines :: "string \<Rightarrow> string list" where
  "csv_lines csv = filter (\<lambda>line. 0 < length line) (map js_trim (split_lines csv))"

definition parseSettlementReconciliationCsv :: "string \<Rightarrow> request_error + settlementReconciliationRecord list" where
  "parseSettlementReconciliationCsv csv = or_throw
     (case csv_lines csv of
        [] \<Rightarrow> None
      | header # rows \<Rightarrow> if header \<noteq> ''entityId,amount'' then None else those (map csv_row rows))
     ''INVALID_SETTLEMENT_RECONCILIATION_INGEST_PAYLOAD''"

definition record_json :: "settlementReconciliationRecord \<Rightarrow> json" where
  "record_json r = JObj [(''entityId'', JStr (sr_entityId r)), (''amount'', JNum (sr_amount r))]"

definition validateSettlementReconciliationIngestPayload :: "json \<Rightarrow> request_error + reconcileSettlementInput \<times> nat" where
  "validateSettlementReconciliationIngestPayload payload = with_payload payload (\<lambda>get.
     and_then (or_throw
       (do {
          expectedRecords \<leftarrow> jarray (get ''expectedRecords'');
          actualRecordsCsv \<leftarrow> filled_string (get ''actualRecordsCsv'');
          toleranceCents \<leftarrow> finite_amount (get ''toleranceCents'');
          Some (expectedRecords, actualRecordsCsv, toleranceCents)
        }) ''INVALID_SETTLEMENT_RECONCILIATION_INGEST_PAYLOAD'') (\<lambda>(expectedRecords, actualRecordsCsv, toleranceCents).
     and_then (parseSettlementReconciliationCsv actualRecordsCsv) (\<lambda>actualRecords.
     and_then (validateSettlementReconciliationPayload (JObj
         [(''expectedRecords'', JArr expectedRecords), (''actualRecords'', JArr (map record_json actualRecords)),
          (''toleranceCents'', JNum toleranceCents)])) (\<lambda>input.
       Inr (input, length actualRecords)))))"

definition date_string :: "host \<Rightarrow> json option \<Rightarrow> string option" where
  "date_string h j = (case jstring j of Some s \<Rightarrow> if host_getTime h s = None then None else Some s | None \<Rightarrow> None)"

definition validateSettlementReconciliationImportRunPayload :: "host \<Rightarrow> string \<Rightarrow> json \<Rightarrow> request_error + importInput" where
  "validateSettlementReconciliationImportRunPayload h scheduleId payload = with_payload payload (\<lambda>get. or_throw
     (do {
        check (\<not> blank scheduleId);
        runAt \<leftarrow> date_string h (get ''runAt'');
        sourceFileName \<leftarrow> filled_string (get ''sourceFileName'');
        (input, ingestedRecords) \<leftarrow> (case validateSettlementReconciliationIngestPayload payload of
            Inl e \<Rightarrow> None | Inr v \<Rightarrow> Some v);
        Some \<lparr>ii_scheduleId = scheduleId, ii_runAt = runAt, ii_sourceFileName = sourceFileName,
              ii_reconciliationInput = input, ii_ingestedRecords = Fin (of_nat ingestedRecords)\<rparr>
      }) ''INVALID_SETTLEMENT_RECONCILIATION_IMPORT_RUN_PAYLOAD'')"

definition validateSettlementReconciliationQuery :: "search_params \<Rightarrow> request_error + jsnum option \<times> bool option" where
  "validateSettlementReconciliationQuery ps = or_throw
     (do {
        hasExceptions \<leftarrow> query_boolean ps ''hasExceptions'';
        (case query_get ps ''limit'' of
           None \<Rightarrow> Some (None, hasExceptions)
         | Some rawLimit \<Rightarrow>
             (let parsedLimit = js_Number rawLimit
              in if \<not> is_integer parsedLimit \<or> num_le parsedLimit (Fin 0) then None
                 else Some (Some parsedLimit, hasExceptions)))
      }) ''INVALID_SETTLEMENT_RECONCILIATION_QUERY''"

definition payoutEntityTypes :: "payoutEntityType list" where
  "payoutEntityTypes = [PAYEE_MERCHANT, PAYEE_COURIER]"

definition payout_candidate_of :: "json \<Rightarrow> payoutCandidateInput option" where
  "payout_candidate_of candidate =
     do {
       normalized \<leftarrow> object_with [''entityType'', ''entityId'', ''amount'', ''hasException''] candidate;
       entityType \<leftarrow> jstring (normalized ''entityType'');
       entityType \<leftarrow> named payoutEntityType_name payoutEntityTypes entityType;
       entityId \<leftarrow> filled_string (normalized ''entityId'');
       amount \<leftarrow> jnumber (normalized ''amount'');
       check (\<not> num_lt amount (Fin 0));
       hasException \<leftarrow> jboolean (normalized ''hasException'');
       holdReason \<leftarrow> optional_string (normalized ''holdReason'');
       Some \<lparr>pc_entityType = entityType, pc_entityId = entityId, pc_amount = amount,
             pc_hasException = hasException, pc_holdReason = holdReason\<rparr>
     }"

definition payout_batch_of :: "host \<Rightarrow> (string \<Rightarrow> json option) \<Rightarrow> generatePayoutBatchInput option" where
  "payout_batch_of h get =
     do {
       scheduleId \<leftarrow> filled_string (get ''scheduleId'');
       runAt \<leftarrow> date_string h (get ''runAt'');
       candidates \<leftarrow> jarray (get ''candidates'');
       candidates \<leftarrow> those (map payout_candidate_of candidates);
       Some \<lparr>gp_scheduleId = scheduleId, gp_runAt = runAt, gp_candidates = candidates\<rparr>
     }"

definition validatePayoutBatchPayload :: "host \<Rightarrow> json \<Rightarrow> request_error + generatePayoutBatchInput" where
  "validatePayoutBatchPayload h payload = with_payload payload (\<lambda>get.
     or_throw (payout_batch_of h get) ''INVALID_PAYOUT_BATCH_PAYLOAD'')"

text \<open>\<open>{ ...payload, scheduleId }\<close>: spreading \<open>null\<close> gives no properties, and of a spread
  string or array the indices, which the validator does not read.\<close>

definition validatePayoutScheduleRunPayload :: "host \<Rightarrow> string \<Rightarrow> json \<Rightarrow> request_error + generatePayoutBatchInput" where
  "validatePayoutScheduleRunPayload h scheduleId payload =
     (if blank scheduleId then Inl (Error_message ''INVALID_PAYOUT_SCHEDULE_RUN_PAYLOAD'')
      else let ps = (case payload of JObj ps \<Rightarrow> ps | _ \<Rightarrow> [])
           in case validatePayoutBatchPayload h (JObj (map_set ''scheduleId'' (JStr scheduleId) ps)) of
                Inl e \<Rightarrow> if e = Error_message ''INVALID_PAYOUT_BATCH_PAYLOAD''
                         then Inl (Error_message ''INVALID_PAYOUT_SCHEDULE_RUN_PAYLOAD'') else Inl e
              | Inr input \<Rightarrow> Inr input)"

definition line_item_of :: "json \<Rightarrow> payoutStatementLineItem option" where
  "line_item_of lineItem =
     do {
       normalized \<leftarrow> object_with [''label'', ''amount''] lineItem;
       label \<leftarrow> filled_string (normalized ''label'');
       amount \<leftarrow> jnumber (normalized ''amount'');
       Some \<lparr>li_label = label, li_amount = amount\<rparr>
     }"

definition validatePublishPayoutStatementPayload :: "host \<Rightarrow> json \<Rightarrow> request_error + publishPayoutStatementInput" where
  "validatePublishPayoutStatementPayload h payload = with_payload payload (\<lambda>get. or_throw
     (do {
        payoutBatchId \<leftarrow> filled_string (get ''payoutBatchId'');
        entityType \<leftarrow> jstring (get ''entityType'');
        entityType \<leftarrow> named payoutEntityType_name payoutEntityTypes entityType;
        entityId \<leftarrow> filled_string (get ''entityId'');
        periodStart \<leftarrow> date_string h (get ''periodStart'');
        periodEnd \<leftarrow> date_string h (get ''periodEnd'');
        currency \<leftarrow> filled_string (get ''currency'');
        totalAmount \<leftarrow> jnumber (get ''totalAmount'');
        lineItems \<leftarrow> jarray (get ''lineItems'');
        lineItems \<leftarrow> those (map line_item_of lineItems);
        Some \<lparr>ps_payoutBatchId = payoutBatchId, ps_entityType = entityType, ps_entityId = entityId,
              ps_periodStart = periodStart, ps_periodEnd = periodEnd, ps_currency = currency,
              ps_totalAmount = totalAmount, ps_lineItems = lineItems\<rparr>
      }) ''INVALID_PAYOUT_STATEMENT_PAYLOAD'')"

section \<open>Notifications\<close>

definition notificationActors :: "notificationActor list" where
  "notificationActors = [ToConsumer, ToCourier, ToMerchantOperator, ToSupportAgent]"

text \<open>An optional value must be a string when present; \<open>f\<close> reads it.\<close>

definition optional_read :: "(string \<Rightarrow> 'a option) \<Rightarrow> json option \<Rightarrow> 'a option option" where
  "optional_read f j = (case j of None \<Rightarrow> Some None | Some (JStr s) \<Rightarrow> map_option Some (f s) | _ \<Rightarrow> None)"

definition filled :: "string \<Rightarrow> string option" where
  "filled s = (if blank s then None else Some s)"

definition validateNotificationFanoutPayload :: "json \<Rightarrow> request_error + queueNotificationInput" where
  "validateNotificationFanoutPayload payload = with_payload payload (\<lambda>get. or_throw
     (do {
        eventType \<leftarrow> filled_string (get ''eventType'');
        entityId \<leftarrow> filled_string (get ''entityId'');
        recipientId \<leftarrow> filled_string (get ''recipientId'');
        actorType \<leftarrow> optional_read (named notificationActor_name notificationActors) (get ''actorType'');
        locale \<leftarrow> optional_read filled (get ''locale'');
        Some \<lparr>qn_eventType = eventType, qn_entityId = entityId, qn_recipientId = recipientId,
              qn_actorType = actorType, qn_locale = locale\<rparr>
      }) ''INVALID_NOTIFICATION_FANOUT_PAYLOAD'')"

definition validateTemplateResolvePayload :: "json \<Rightarrow> request_error + resolveTemplateInput" where
  "validateTemplateResolvePayload payload = with_payload payload (\<lambda>get. or_throw
     (do {
        eventType \<leftarrow> filled_string (get ''eventType'');
        actorType \<leftarrow> jstring (get ''actorType'');
        actorType \<leftarrow> named notificationActor_name notificationActors actorType;
        locale \<leftarrow> filled_string (get ''locale'');
        Some \<lparr>rt_eventType = eventType, rt_actorType = actorType, rt_locale = locale\<rparr>
      }) ''INVALID_NOTIFICATION_TEMPLATE_PAYLOAD'')"

definition notificationChannels :: "notificationChannel list" where
  "notificationChannels = [PUSH, SMS, EMAIL]"

definition natural_number :: "json option \<Rightarrow> nat option" where
  "natural_number j =
     (case jnumber j of
        Some (Fin x) \<Rightarrow> if num_lt (Fin x) (Fin 0) \<or> \<not> is_integer (Fin x) then None else Some (nat \<lfloor>x\<rfloor>)
      | _ \<Rightarrow> None)"

definition validateNotificationRetryPayload :: "json \<Rightarrow> request_error + handleFailureInput" where
  "validateNotificationRetryPayload payload = with_payload payload (\<lambda>get. or_throw
     (do {
        notificationId \<leftarrow> filled_string (get ''notificationId'');
        eventType \<leftarrow> filled_string (get ''eventType'');
        channel \<leftarrow> jstring (get ''channel'');
        channel \<leftarrow> named channel_name notificationChannels channel;
        entityId \<leftarrow> filled_string (get ''entityId'');
        currentAttempt \<leftarrow> natural_number (get ''currentAttempt'');
        errorCode \<leftarrow> filled_string (get ''errorCode'');
        retriable \<leftarrow> jboolean (get ''retriable'');
        Some \<lparr>hf_notificationId = notificationId, hf_eventType = eventType, hf_channel = channel,
              hf_entityId = entityId, hf_currentAttempt = currentAttempt, hf_errorCode = errorCode,
              hf_retriable = retriable\<rparr>
      }) ''INVALID_NOTIFICATION_RETRY_PAYLOAD'')"

definition deliveryStatuses :: "deliveryStatus list" where
  "deliveryStatuses = [SENT, RECEIPT_DELIVERED, FAILED, ACKNOWLEDGED]"

definition validateNotificationReceiptPayload :: "json \<Rightarrow> request_error + recordReceiptInput" where
  "validateNotificationReceiptPayload payload = with_payload payload (\<lambda>get. or_throw
     (do {
        notificationId \<leftarrow> filled_string (get ''notificationId'');
        channel \<leftarrow> jstring (get ''channel'');
        channel \<leftarrow> named channel_name notificationChannels channel;
        entityId \<leftarrow> filled_string (get ''entityId'');
        status \<leftarrow> jstring (get ''status'');
        status \<leftarrow> named deliveryStatus_name deliveryStatuses status;
        providerMessageId \<leftarrow> optional_read filled (get ''providerMessageId'');
        Some \<lparr>ri_notificationId = notificationId, ri_channel = channel, ri_entityId = entityId,
              ri_status = status, ri_providerMessageId = providerMessageId\<rparr>
      }) ''INVALID_NOTIFICATION_RECEIPT_PAYLOAD'')"

section \<open>Support, risk and compliance\<close>

definition validateCreateSupportTicketPayload :: "json \<Rightarrow> request_error + createSupportTicketInput" where
  "validateCreateSupportTicketPayload payload = with_payload payload (\<lambda>get. or_throw
     (do {
        orderId \<leftarrow> filled_string (get ''orderId'');
        actorId \<leftarrow> filled_string (get ''actorId'');
        issueType \<leftarrow> filled_string (get ''issueType'');
        summary \<leftarrow> filled_string (get ''summary'');
        Some \<lparr>ct_orderId = orderId, ct_actorId = actorId, ct_issueType = issueType, ct_summary = summary\<rparr>
      }) ''INVALID_SUPPORT_TICKET_PAYLOAD'')"

definition allowedActionTypes :: "interventionAction list" where
  "allowedActionTypes = [CANCEL_ORDER, REFUND_PAYMENT, REASSIGN_COURIER]"

text \<open>Only a refund reads \<open>paymentIntentId\<close> and \<open>refundAmount\<close>, and only for a refund are they
  checked; a value of another type that another action carries along is left out here.\<close>

definition validateSupportInterventionPayload :: "json \<Rightarrow> request_error + executeInterventionInput" where
  "validateSupportInterventionPayload payload = with_payload payload (\<lambda>get. or_throw
     (do {
        actionType \<leftarrow> jstring (get ''actionType'');
        actionType \<leftarrow> named interventionAction_name allowedActionTypes actionType;
        actorId \<leftarrow> filled_string (get ''actorId'');
        orderId \<leftarrow> filled_string (get ''orderId'');
        reasonCode \<leftarrow> filled_string (get ''reasonCode'');
        check (actionType = REFUND_PAYMENT \<longrightarrow>
          filled_string (get ''paymentIntentId'') \<noteq> None \<and> positive_number (get ''refundAmount'') \<noteq> None);
        Some \<lparr>xi_actionType = actionType, xi_actorId = actorId, xi_orderId = orderId, xi_reasonCode = reasonCode,
              xi_paymentIntentId = jstring (get ''paymentIntentId''), xi_refundAmount = jnumber (get ''refundAmount'')\<rparr>
      }) ''INVALID_SUPPORT_INTERVENTION_PAYLOAD'')"

definition validateSupportSlaEvaluationPayload :: "host \<Rightarrow> json \<Rightarrow> request_error + string" where
  "validateSupportSlaEvaluationPayload h payload = with_payload payload (\<lambda>get. or_throw
     (do {
        evaluatedAt \<leftarrow> filled_string (get ''evaluatedAt'');
        check (host_getTime h evaluatedAt \<noteq> None);
        Some evaluatedAt
      }) ''INVALID_SUPPORT_SLA_PAYLOAD'')"

definition validateRiskPolicyEvaluatePayload :: "json \<Rightarrow> request_error + evaluateRiskPolicyInput" where
  "validateRiskPolicyEvaluatePayload payload = with_payload payload (\<lambda>get. or_throw
     (do {
        actionType \<leftarrow> filled_string (get ''actionType'');
        amountCents \<leftarrow> finite_amount (get ''amountCents'');
        actorId \<leftarrow> filled_string (get ''actorId'');
        Some \<lparr>ep_actionType = actionType, ep_amountCents = amountCents, ep_actorId = actorId\<rparr>
      }) ''INVALID_RISK_POLICY_EVALUATE_PAYLOAD'')"

definition validateRiskPolicyRulePayload :: "string \<Rightarrow> json \<Rightarrow> request_error + riskPolicyRule" where
  "validateRiskPolicyRulePayload actionType payload = with_payload payload (\<lambda>get. or_throw
     (do {
        check (\<not> blank actionType);
        allowUpToCents \<leftarrow> finite_amount (get ''allowUpToCents'');
        reviewUpToCents \<leftarrow> finite_amount (get ''reviewUpToCents'');
        Some \<lparr>ru_actionType = actionType, ru_allowUpToCents = allowUpToCents, ru_reviewUpToCents = reviewUpToCents\<rparr>
      }) ''INVALID_RISK_POLICY_RULE_PAYLOAD'')"

definition validateQueueManualReviewPayload :: "json \<Rightarrow> request_error + queueManualReviewInput" where
  "validateQueueManualReviewPayload payload = with_payload payload (\<lambda>get. or_throw
     (do {
        entityType \<leftarrow> jstring (get ''entityType'');
        entityType \<leftarrow> named manualReviewEntityType_name [REVIEW_REFUND, REVIEW_PAYOUT] entityType;
        entityId \<leftarrow> filled_string (get ''entityId'');
        orderId \<leftarrow> optional_string (get ''orderId'');
        amountCents \<leftarrow> finite_amount (get ''amountCents'');
        reasonCode \<leftarrow> filled_string (get ''reasonCode'');
        requestedBy \<leftarrow> filled_string (get ''requestedBy'');
        Some \<lparr>qm_entityType = entityType, qm_entityId = entityId, qm_orderId = orderId, qm_amountCents = amountCents,
              qm_reasonCode = reasonCode, qm_requestedBy = requestedBy\<rparr>
      }) ''INVALID_MANUAL_REVIEW_QUEUE_PAYLOAD'')"

definition validateResolveManualReviewPayload :: "string \<Rightarrow> json \<Rightarrow> request_error + resolveManualReviewInput" where
  "validateResolveManualReviewPayload reviewId payload = with_payload payload (\<lambda>get. or_throw
     (do {
        check (\<not> blank reviewId);
        decision \<leftarrow> jstring (get ''decision'');
        decision \<leftarrow> named manualReviewDecision_name [APPROVE, REJECT] decision;
        resolvedBy \<leftarrow> filled_string (get ''resolvedBy'');
        note \<leftarrow> optional_string (get ''note'');
        Some \<lparr>rm_reviewId = reviewId, rm_decision = decision, rm_resolvedBy = resolvedBy, rm_note = note\<rparr>
      }) ''INVALID_MANUAL_REVIEW_RESOLVE_PAYLOAD'')"

definition jobject :: "json option \<Rightarrow> (string \<times> json) list option" where
  "jobject j = (case j of Some (JObj ps) \<Rightarrow> Some ps | _ \<Rightarrow> None)"

definition validateAppendComplianceAuditPayload :: "json \<Rightarrow> request_error + complianceAuditInput" where
  "validateAppendComplianceAuditPayload payload = with_payload payload (\<lambda>get. or_throw
     (do {
        actionType \<leftarrow> filled_string (get ''actionType'');
        actorId \<leftarrow> filled_string (get ''actorId'');
        targetType \<leftarrow> filled_string (get ''targetType'');
        targetId \<leftarrow> filled_string (get ''targetId'');
        reasonCode \<leftarrow> filled_string (get ''reasonCode'');
        metadata \<leftarrow> jobject (get ''metadata'');
        Some \<lparr>ai_actionType = actionType, ai_actorId = actorId, ai_targetType = targetType, ai_targetId = targetId,
              ai_reasonCode = reasonCode, ai_metadata = metadata\<rparr>
      }) ''INVALID_COMPLIANCE_AUDIT_PAYLOAD'')"

definition validateGenerateComplianceEvidencePayload :: "host \<Rightarrow> json \<Rightarrow> request_error + string \<times> string" where
  "validateGenerateComplianceEvidencePayload h payload = with_payload payload (\<lambda>get. or_throw
     (do {
        generatedBy \<leftarrow> filled_string (get ''generatedBy'');
        generatedAt \<leftarrow> filled_string (get ''generatedAt'');
        check (host_getTime h generatedAt \<noteq> None);
        Some (generatedBy, generatedAt)
      }) ''INVALID_COMPLIANCE_EVIDENCE_PAYLOAD'')"

definition validateBreakGlassActivationPayload :: "json \<Rightarrow> request_error + string \<times> string option" where
  "validateBreakGlassActivationPayload payload = with_payload payload (\<lambda>get. or_throw
     (do {
        reasonCode \<leftarrow> filled_string (get ''reasonCode'');
        justification \<leftarrow> optional_string (get ''justification'');
        Some (js_trim reasonCode, justification)
      }) ''INVALID_BREAK_GLASS_PAYLOAD'')"

section \<open>The body and the bearer token\<close>

text \<open>\<open>JSON.parse\<close> is a parameter: a value, or a syntax error.\<close>

definition parseJsonBody :: "(string \<Rightarrow> json option) \<Rightarrow> string \<Rightarrow> request_error + json" where
  "parseJsonBody json_parse raw =
     (let body = js_trim raw
      in if length body = 0 then Inr (JObj [])
         else case json_parse body of None \<Rightarrow> Inl Syntax_error | Some v \<Rightarrow> Inr v)"

text \<open>\<open>replace("Bearer ", "")\<close> takes out the first occurrence, which is the prefix.\<close>

definition extractBearerToken :: "string option \<Rightarrow> request_error + string" where
  "extractBearerToken authorization =
     (case authorization of
        None \<Rightarrow> Inl (Error_message ''MISSING_BEARER_TOKEN'')
      | Some a \<Rightarrow> if a = [] \<or> \<not> startsWith a ''Bearer '' then Inl (Error_message ''MISSING_BEARER_TOKEN'')
                  else Inr (js_trim (drop (length ''Bearer '') a)))"

section \<open>The import's CSV reads back\<close>

text \<open>Decimal digits read back as the number they print.\<close>

lemma nat_digits_props:
  "list_all is_digit_char (nat_digits n)" "nat_digits n \<noteq> []"
proof -
  have digit: "is_digit_char (char_of (48 + d :: nat))" if "d < 10" for d
    using that by (simp add: is_digit_char_def digit_value_def Let_def)
  show "list_all is_digit_char (nat_digits n)"
  proof (induction n rule: nat_digits.induct)
    case (1 n)
    show ?case using 1 digit [of n] digit [of "n mod 10"] by (subst nat_digits.simps) simp
  qed
  show "nat_digits n \<noteq> []" by (subst nat_digits.simps) simp
qed

lemma digits_value_snoc: "digits_value (s @ [c]) = 10 * digits_value s + (case digit_value c of Some d \<Rightarrow> d | None \<Rightarrow> 0)"
  by (simp add: digits_value_def)

lemma digits_value_nat_digits: "digits_value (nat_digits n) = n"
proof (induction n rule: nat_digits.induct)
  case (1 n)
  have dv: "digit_value (char_of (48 + d :: nat)) = Some d" if "d < 10" for d
    using that by (simp add: digit_value_def Let_def)
  show ?case
  proof (cases "n < 10")
    case True
    then show ?thesis using dv [of n] by (subst nat_digits.simps) (simp add: digits_value_def)
  next
    case False
    then have "digits_value (nat_digits n) = 10 * digits_value (nat_digits (n div 10)) + n mod 10"
      using dv [of "n mod 10"] by (subst nat_digits.simps) (simp add: digits_value_snoc)
    with 1 False show ?thesis by simp
  qed
qed

lemma digit_char_plain: "is_digit_char c \<Longrightarrow> \<not> is_space c \<and> c \<noteq> CHR ''e'' \<and> c \<noteq> CHR ''E'' \<and> c \<noteq> CHR ''.'' \<and>
    c \<noteq> CHR '','' \<and> c \<noteq> CHR 0x0A \<and> c \<noteq> CHR 0x0D \<and> c \<noteq> CHR ''-'' \<and> c \<noteq> CHR ''+'' \<and> c \<noteq> CHR ''x'' \<and> c \<noteq> CHR ''X'' \<and>
    c \<noteq> CHR ''o'' \<and> c \<noteq> CHR ''O'' \<and> c \<noteq> CHR ''b'' \<and> c \<noteq> CHR ''B'' \<and> c \<noteq> CHR ''I''"
  by (auto simp: is_digit_char_def digit_value_def is_space_def Let_def split: if_splits)

lemma js_trim_plain: "s \<noteq> [] \<Longrightarrow> \<not> is_space (hd s) \<Longrightarrow> \<not> is_space (last s) \<Longrightarrow> js_trim s = s"
proof -
  assume "s \<noteq> []" "\<not> is_space (hd s)" "\<not> is_space (last s)"
  moreover from this have "rev s \<noteq> []" "hd (rev s) = last s" by (simp_all add: hd_rev)
  ultimately have "dropWhile is_space s = s" "dropWhile is_space (rev s) = rev s"
    by (metis dropWhile_eq_self_iff)+
  then show "js_trim s = s" by (simp add: js_trim_def)
qed

lemma js_Number_digits:
  assumes "n < 2 ^ 53"
  shows "js_Number (nat_digits n) = Fin (of_nat n)"
proof -
  let ?s = "nat_digits n"
  note digits = nat_digits_props [of n]
  have plain: "c \<in> set ?s \<Longrightarrow> \<not> is_space c \<and> c \<noteq> CHR ''e'' \<and> c \<noteq> CHR ''E'' \<and> c \<noteq> CHR ''.'' \<and> c \<noteq> CHR ''-'' \<and>
      c \<noteq> CHR ''+'' \<and> c \<noteq> CHR ''x'' \<and> c \<noteq> CHR ''X'' \<and> c \<noteq> CHR ''o'' \<and> c \<noteq> CHR ''O'' \<and> c \<noteq> CHR ''b'' \<and> c \<noteq> CHR ''B'' \<and>
      c \<noteq> CHR ''I''" for c
    using digits(1) digit_char_plain by (auto simp: list_all_iff)
  have trim: "js_trim ?s = ?s"
    using digits(2) plain by (intro js_trim_plain) auto
  obtain c r where s: "?s = c # r" using digits(2) by (cases ?s) auto
  have radix: "take 2 ?s \<noteq> [CHR ''0'', x]" if "x \<notin> set ?s" for x
    using that s by (cases r) auto
  have mantissa: "takeWhile (\<lambda>c. c \<noteq> CHR ''e'' \<and> c \<noteq> CHR ''E'') ?s = ?s" "takeWhile (\<lambda>c. c \<noteq> CHR ''.'') ?s = ?s"
    using plain by (auto intro!: takeWhile_eq_all_conv [THEN iffD2])
  have "unsigned_decimal ?s = Some (of_nat n)"
    unfolding unsigned_decimal_def mantissa Let_def using digits
    by (simp add: mantissa digits_value_nat_digits)
  moreover have "c \<noteq> CHR ''-''" "c \<noteq> CHR ''+''" "?s \<noteq> ''Infinity''" using plain s by auto
  moreover have "double_of (of_nat n) = Fin (of_nat n)"
    using double_of_int [of "int n"] assms by simp
  moreover have "take 2 ?s \<noteq> ''0x''" "take 2 ?s \<noteq> ''0X''" "take 2 ?s \<noteq> ''0o''" "take 2 ?s \<noteq> ''0O''" "take 2 ?s \<noteq> ''0b''" "take 2 ?s \<noteq> ''0B''"
    using radix plain by blast+
  ultimately show ?thesis unfolding js_Number_def Let_def trim by (simp add: s [symmetric]) (simp add: s)
qed

text \<open>A file with the records in its rows; lines end in a line feed or in both characters.\<close>

definition csv_line :: "string \<times> nat \<Rightarrow> string" where
  "csv_line r = fst r @ '','' @ nat_digits (snd r)"

definition csv_text :: "string \<Rightarrow> (string \<times> nat) list \<Rightarrow> string" where
  "csv_text brk rs = ''entityId,amount'' @ concat (map (\<lambda>r. brk @ csv_line r) rs)"

definition csv_entity :: "string \<Rightarrow> bool" where
  "csv_entity e = (e \<noteq> [] \<and> js_trim e = e \<and> CHR '','' \<notin> set e \<and> CHR 0x0A \<notin> set e)"

lemma split_lines_join:
  assumes "brk = [CHR 0x0A] \<or> brk = [CHR 0x0D, CHR 0x0A]"
    and "\<forall>l \<in> set (l0 # ls). CHR 0x0A \<notin> set l \<and> l \<noteq> [] \<and> last l \<noteq> CHR 0x0D"
  shows "split_lines (l0 @ concat (map (\<lambda>l. brk @ l) ls)) = l0 # ls"
  using assms(2)
proof (induction ls arbitrary: l0)
  case Nil
  then show ?case by (simp add: split_lines_def split_char_none)
next
  case (Cons l ls)
  obtain cr where brk: "brk = cr @ [CHR 0x0A]" "cr = [] \<or> cr = [CHR 0x0D]" using assms(1) by auto
  let ?rest = "l @ concat (map (\<lambda>l. brk @ l) ls)"
  have "CHR 0x0A \<notin> set (l0 @ cr)" using Cons.prems brk(2) by auto
  from split_char_append [OF this, of ?rest]
  have split: "split_char CHR 0x0A (l0 @ brk @ ?rest) = (l0 @ cr) # split_char CHR 0x0A ?rest"
    by (simp add: brk(1))
  have "drop_return (l0 @ cr) = l0" using Cons.prems brk(2) by (auto simp: drop_return_def)
  moreover have "split_char c t \<noteq> []" for c t by (cases t) (auto split: list.splits)
  ultimately have "split_lines (l0 @ brk @ ?rest) = l0 # split_lines ?rest"
    by (simp add: split_lines_def split Let_def)
  then show ?case using Cons by simp
qed

lemma csv_line_props:
  assumes "csv_entity e"
  shows "CHR 0x0A \<notin> set (csv_line (e, n))" "csv_line (e, n) \<noteq> []" "last (csv_line (e, n)) \<noteq> CHR 0x0D"
    "js_trim (csv_line (e, n)) = csv_line (e, n)"
proof -
  note digits = nat_digits_props [of n]
  have plain: "c \<in> set (nat_digits n) \<Longrightarrow> is_digit_char c" for c using digits(1) by (simp add: list_all_iff)
  have last: "is_digit_char (last (nat_digits n))" using digits(2) plain by simp
  show "CHR 0x0A \<notin> set (csv_line (e, n))"
    using assms plain digit_char_plain by (fastforce simp: csv_line_def csv_entity_def)
  show "csv_line (e, n) \<noteq> []" by (simp add: csv_line_def)
  show "last (csv_line (e, n)) \<noteq> CHR 0x0D" using last digits(2) digit_char_plain by (auto simp: csv_line_def)
  show "js_trim (csv_line (e, n)) = csv_line (e, n)"
  proof (rule js_trim_plain)
    have "\<not> is_space (hd e)"
    proof
      assume sp: "is_space (hd e)"
      obtain c r where e: "e = c # r" using assms by (cases e) (auto simp: csv_entity_def)
      have "length (js_trim e) \<le> length (dropWhile is_space e)"
        by (simp add: js_trim_def) (metis length_dropWhile_le length_rev)
      also have "\<dots> \<le> length r" using sp e length_dropWhile_le by simp
      finally show False using assms e by (simp add: csv_entity_def)
    qed
    then show "\<not> is_space (hd (csv_line (e, n)))" using assms by (simp add: csv_line_def csv_entity_def)
    show "\<not> is_space (last (csv_line (e, n)))" using last digits(2) digit_char_plain by (auto simp: csv_line_def)
  qed (simp add: csv_line_def)
qed

lemma csv_row_line:
  assumes "csv_entity e" "n < 2 ^ 53"
  shows "csv_row (csv_line (e, n)) = Some \<lparr>sr_entityId = e, sr_amount = Fin (of_nat n)\<rparr>"
proof -
  note digits = nat_digits_props [of n]
  have plain: "c \<in> set (nat_digits n) \<Longrightarrow> is_digit_char c" for c using digits(1) by (simp add: list_all_iff)
  have "CHR '','' \<notin> set (nat_digits n)" using plain digit_char_plain by fastforce
  then have "split_char CHR '','' (e @ [CHR '',''] @ nat_digits n) = [e, nat_digits n]"
    using split_char_append [of "CHR '',''" e "nat_digits n"] assms(1) by (simp add: split_char_none csv_entity_def)
  moreover have "js_trim (nat_digits n) = nat_digits n"
    using digits plain digit_char_plain by (intro js_trim_plain) auto
  ultimately show ?thesis
    using assms by (simp add: csv_row_def csv_line_def js_Number_digits csv_entity_def is_finite_def)
qed

lemma those_map_Some: "those (map (\<lambda>x. Some (f x)) xs) = Some (map f xs)"
  by (induction xs) auto

text \<open>C32: the CSV import reads back exactly the file that was written: for entity identifiers
  without commas, line feeds or outer blanks and amounts below 2^53 in decimal digits, with
  either kind of line end, the rows come out in order with nothing lost, and each is a record
  that the reconciliation validator accepts.\<close>

theorem reconciliation_csv_roundtrip:
  assumes "brk = [CHR 0x0A] \<or> brk = [CHR 0x0D, CHR 0x0A]"
    and "\<forall>(e, n) \<in> set rs. csv_entity e \<and> n < 2 ^ 53"
  shows "parseSettlementReconciliationCsv (csv_text brk rs) =
      Inr (map (\<lambda>(e, n). \<lparr>sr_entityId = e, sr_amount = Fin (of_nat n)\<rparr>) rs) \<and>
    those (map (\<lambda>(e, n). reconciliation_record_of (record_json \<lparr>sr_entityId = e, sr_amount = Fin (of_nat n)\<rparr>)) rs) =
      Some (map (\<lambda>(e, n). \<lparr>sr_entityId = e, sr_amount = Fin (of_nat n)\<rparr>) rs)"
proof -
  let ?rec = "\<lambda>(e, n). \<lparr>sr_entityId = e, sr_amount = Fin (of_nat n)\<rparr> :: settlementReconciliationRecord"
  have good: "csv_entity (fst r) \<and> snd r < 2 ^ 53" if "r \<in> set rs" for r using assms(2) that by (cases r) auto
  have lines: "split_lines (csv_text brk rs) = ''entityId,amount'' # map csv_line rs"
    using split_lines_join [OF assms(1), of "''entityId,amount''" "map csv_line rs"] csv_line_props good
    by (force simp: csv_text_def comp_def)
  have rows: "map js_trim (map csv_line rs) = map csv_line rs"
    using csv_line_props(4) good by (auto intro!: map_idI)
  have header: "js_trim ''entityId,amount'' = ''entityId,amount''" by (simp add: js_trim_def is_space_def)
  have "filter (\<lambda>l. 0 < length l) (''entityId,amount'' # map csv_line rs) = ''entityId,amount'' # map csv_line rs"
    by (rule filter_True) (auto simp: csv_line_def)
  then have csv: "csv_lines (csv_text brk rs) = ''entityId,amount'' # map csv_line rs"
    unfolding csv_lines_def lines list.map(2) rows header .
  have "map csv_row (map csv_line rs) = map (\<lambda>r. Some (?rec r)) rs"
    using csv_row_line good by (auto simp: case_prod_beta)
  then have "those (map csv_row (map csv_line rs)) = Some (map ?rec rs)"
    by (simp only: those_map_Some)
  moreover have "map (\<lambda>(e, n). reconciliation_record_of (record_json \<lparr>sr_entityId = e, sr_amount = Fin (of_nat n)\<rparr>)) rs =
      map (\<lambda>r. Some (?rec r)) rs"
  proof (rule map_cong [OF refl])
    fix r assume "r \<in> set rs"
    then have "csv_entity (fst r)" using good by blast
    then show "(\<lambda>(e, n). reconciliation_record_of (record_json \<lparr>sr_entityId = e, sr_amount = Fin (of_nat n)\<rparr>)) r = Some (?rec r)"
      by (cases r) (simp add: reconciliation_record_of_def record_json_def object_with_def jprop_def finite_amount_def
          jnumber_def is_finite_def csv_entity_def filled_string_def blank_def)
  qed
  ultimately show ?thesis by (simp only: parseSettlementReconciliationCsv_def csv list.simps those_map_Some) simp
qed

lemma reconciliation_csv_roundtrip_witness:
  "parseSettlementReconciliationCsv (csv_text [CHR 0x0D, CHR 0x0A] [(''m 1'', 1250), (''c2'', 0)]) =
     Inr [\<lparr>sr_entityId = ''m 1'', sr_amount = Fin 1250\<rparr>, \<lparr>sr_entityId = ''c2'', sr_amount = Fin 0\<rparr>]"
  using reconciliation_csv_roundtrip [of "[CHR 0x0D, CHR 0x0A]" "[(''m 1'', 1250), (''c2'', 0)]"]
  by (simp add: csv_entity_def js_trim_def is_space_def)

section \<open>What a validator's result promises the service\<close>

lemma those_sound: "those (map f xs) = Some ys \<Longrightarrow> y \<in> set ys \<Longrightarrow> \<exists>x \<in> set xs. f x = Some y"
  by (induction xs arbitrary: ys) (auto split: option.splits)

lemma those_length: "those (map f xs) = Some ys \<Longrightarrow> length ys = length xs"
  by (induction xs arbitrary: ys) (auto split: option.splits)

lemma positive_number_iff: "positive_number j = Some a \<longleftrightarrow> j = Some (JNum a) \<and> \<not> num_le a (Fin 0)"
  by (cases "jnumber j") (auto simp: positive_number_def split: if_splits)

lemma finite_amount_iff: "finite_amount j = Some a \<longleftrightarrow> j = Some (JNum a) \<and> is_finite a \<and> \<not> num_lt a (Fin 0)"
  by (cases "jnumber j") (auto simp: finite_amount_def split: if_splits)

lemma currency_of_iff: "currency_of j = Some s \<longleftrightarrow> j = Some (JStr s) \<and> length (js_trim s) = 3"
  by (auto simp: currency_of_def jstring_iff split: option.splits)

lemmas reads = bind_eq_Some_conv jstring_iff positive_number_iff finite_amount_iff currency_of_iff object_with_iff

lemma validated_schedule:
  "validateStoreStatusPayload p = Inr i \<Longrightarrow>
   isValidHHMM (ss_open (uss_schedule i)) \<and> isValidHHMM (ss_close (uss_schedule i)) \<and> \<not> blank (ss_timezone (uss_schedule i))"
  unfolding validateStoreStatusPayload_def by (drule with_payload_Inr) (auto simp: reads)

lemma validated_lines:
  "those (map journal_line_of js) = Some ls \<Longrightarrow> l \<in> set ls \<Longrightarrow> \<not> num_le (jl_amount l) (Fin 0) \<and> \<not> blank (jl_account l)"
  by (drule those_sound, assumption) (auto simp: journal_line_of_def reads)

lemma validated_journal:
  "validateSettlementJournalPayload p = Inr i \<Longrightarrow>
   2 \<le> length (pj_lines i) \<and> (\<forall>l \<in> set (pj_lines i). \<not> num_le (jl_amount l) (Fin 0) \<and> \<not> blank (jl_account l))"
  unfolding validateSettlementJournalPayload_def
  by (drule with_payload_Inr) (auto simp: reads dest: validated_lines those_length)

lemma validated_records:
  "those (map reconciliation_record_of js) = Some rs \<Longrightarrow> r \<in> set rs \<Longrightarrow>
   is_finite (sr_amount r) \<and> \<not> num_lt (sr_amount r) (Fin 0) \<and> \<not> blank (sr_entityId r)"
  by (drule those_sound, assumption) (auto simp: reconciliation_record_of_def reads)

lemma validated_reconciliation:
  "validateSettlementReconciliationPayload p = Inr i \<Longrightarrow>
   is_finite (rc_toleranceCents i) \<and> \<not> num_lt (rc_toleranceCents i) (Fin 0) \<and>
   (\<forall>r \<in> set (rc_expectedRecords i) \<union> set (rc_actualRecords i).
      is_finite (sr_amount r) \<and> \<not> num_lt (sr_amount r) (Fin 0) \<and> \<not> blank (sr_entityId r))"
  unfolding validateSettlementReconciliationPayload_def
  by (drule with_payload_Inr) (auto simp: reads dest: validated_records)

lemma validated_candidate:
  "those (map candidate_of js) = Some cs \<Longrightarrow> c \<in> set cs \<Longrightarrow>
   is_finite (ac_distanceMeters c) \<and> \<not> num_lt (ac_distanceMeters c) (Fin 0) \<and>
   is_integer (ac_activeOrders c) \<and> \<not> num_lt (ac_activeOrders c) (Fin 0) \<and> \<not> blank (ac_courierId c)"
  by (drule those_sound, assumption) (auto simp: candidate_of_def reads)

lemma validated_candidates:
  "validateDispatchAssignmentPayload p = Inr (Some i) \<Longrightarrow>
   ab_candidates i \<noteq> [] \<and> is_finite (ab_slaPressure i) \<and> \<not> num_lt (ab_slaPressure i) (Fin 0) \<and> \<not> num_lt (Fin 1) (ab_slaPressure i) \<and>
   (\<forall>c \<in> set (ab_candidates i). is_finite (ac_distanceMeters c) \<and> \<not> num_lt (ac_distanceMeters c) (Fin 0) \<and>
      is_integer (ac_activeOrders c) \<and> \<not> num_lt (ac_activeOrders c) (Fin 0) \<and> \<not> blank (ac_courierId c))"
  unfolding validateDispatchAssignmentPayload_def
  by (drule with_payload_Inr)
     (auto simp: reads split: if_splits dest: validated_candidate those_length)

lemma validated_menu_item:
  "those (map menu_item_of js) = Some is \<Longrightarrow> i \<in> set is \<Longrightarrow> \<not> blank (mii_name i) \<and> \<not> num_lt (mii_priceCents i) (Fin 0)"
  by (drule those_sound, assumption) (auto simp: menu_item_of_def reads)

lemma validated_menu_items:
  "validateMenuItems j = Inr items \<Longrightarrow>
   items \<noteq> [] \<and> (\<forall>i \<in> set items. \<not> blank (mii_name i) \<and> \<not> num_lt (mii_priceCents i) (Fin 0))"
  unfolding validateMenuItems_def
  by (auto simp: reads dest: validated_menu_item those_length)

lemma validated_authorization:
  "validatePaymentAuthorizePayload p = Inr i \<Longrightarrow>
   \<not> num_le (api_amount i) (Fin 0) \<and> (\<exists>s. length (js_trim s) = 3 \<and> api_currency i = toUpperCase s)"
  unfolding validatePaymentAuthorizePayload_def
  by (drule with_payload_Inr) (auto simp: reads)

end
