(* ===== verification/HttpApi.thy ===== *)
theory HttpApi
  imports Requests Platform
begin

text \<open>
  The answers of \<open>core-api/src/server.ts\<close> when a handler throws: the objects of the services'
  error classes with their codes and messages, the chain of \<open>instanceof\<close> tests of the
  handler's \<open>catch\<close>, and the list of messages that stand for a rejected request.
\<close>

section \<open>Error objects\<close>

datatype error_class =
    DuplicateIdentityError | AuthError | MenuNotFoundError | StoreMenuNotFoundError | BasketNotFoundError
  | QuoteBasketNotFoundError | StaleQuoteError | InvalidCheckoutError | QuoteHashMismatchError | OrderNotFoundError
  | CourierJobNotFoundError | CourierJobStateConflictError | SupportTicketNotFoundError | ManualReviewNotFoundError
  | InvalidRiskPolicyRuleError | PaymentOrderNotFoundError | PaymentIntentNotFoundError
  | PaymentCapturePreconditionError | PaymentCashExpectationNotFoundError | PaymentRefundRequestNotFoundError
  | PaymentRefundAmountInvalidError | UnbalancedJournalError | PaymentMethodNotSupportedError
  | CancellationNotAllowedError | BasketItemUnavailableError | NotificationTemplateNotFoundError
  | ComplianceAuditWriteError | PlainError | TypeErrorClass | SyntaxErrorClass | RangeErrorClass

record error_object =
  eo_class :: error_class
  eo_code :: string
  eo_message :: string
  eo_itemIds :: "string list"

definition error_obj :: "error_class \<Rightarrow> string \<Rightarrow> string \<Rightarrow> error_object" where
  "error_obj c code message = \<lparr>eo_class = c, eo_code = code, eo_message = message, eo_itemIds = []\<rparr>"

definition quoted :: "string \<Rightarrow> string" where
  "quoted s = [CHR 0x27] @ s @ [CHR 0x27]"

definition not_found :: "error_class \<Rightarrow> string \<Rightarrow> string \<Rightarrow> string \<Rightarrow> error_object" where
  "not_found c code what i = error_obj c code (what @ '' '' @ quoted i @ '' was not found.'')"

definition identity_error :: "duplicate_identity_error \<Rightarrow> error_object" where
  "identity_error e = (case e of
     IDENTITY_EMAIL_EXISTS \<Rightarrow>
       error_obj DuplicateIdentityError ''IDENTITY_EMAIL_EXISTS'' ''A user with this email already exists.''
   | IDENTITY_PHONE_EXISTS \<Rightarrow>
       error_obj DuplicateIdentityError ''IDENTITY_PHONE_EXISTS'' ''A user with this phone already exists.'')"

text \<open>Parsing the claims of a forged token can throw a \<open>SyntaxError\<close>.\<close>

definition auth_error_obj :: "auth_error \<Rightarrow> error_object" where
  "auth_error_obj e = (case e of
     IDENTITY_INVALID_CREDENTIALS \<Rightarrow> error_obj AuthError ''IDENTITY_INVALID_CREDENTIALS'' ''Invalid email or password.''
   | IDENTITY_MFA_REQUIRED \<Rightarrow> error_obj AuthError ''IDENTITY_MFA_REQUIRED'' ''MFA verification is required for privileged roles.''
   | IDENTITY_INVALID_MFA_CODE \<Rightarrow> error_obj AuthError ''IDENTITY_INVALID_MFA_CODE'' ''MFA code is invalid.''
   | IDENTITY_INVALID_REFRESH_TOKEN \<Rightarrow> error_obj AuthError ''IDENTITY_INVALID_REFRESH_TOKEN'' ''Refresh token is invalid.''
   | IDENTITY_REFRESH_REPLAY_DETECTED \<Rightarrow> error_obj AuthError ''IDENTITY_REFRESH_REPLAY_DETECTED'' ''Refresh token replay detected.''
   | IDENTITY_INVALID_ACCESS_TOKEN \<Rightarrow> error_obj AuthError ''IDENTITY_INVALID_ACCESS_TOKEN'' ''Access token is invalid.''
   | JSON_SYNTAX_ERROR \<Rightarrow> error_obj SyntaxErrorClass [] ''Unexpected token'')"

definition menu_error_obj :: "menu_error \<Rightarrow> error_object" where
  "menu_error_obj e = (case e of MenuNotFound i \<Rightarrow> not_found MenuNotFoundError ''CATALOG_MENU_NOT_FOUND'' ''Menu'' i)"

definition store_menu_error_obj :: "store_menu_error \<Rightarrow> error_object" where
  "store_menu_error_obj e = (case e of StoreMenuNotFound i \<Rightarrow>
     error_obj StoreMenuNotFoundError ''CATALOG_STORE_MENU_NOT_FOUND'' (''Store '' @ quoted i @ '' does not have an active menu.''))"

definition basket_not_found_obj :: "uuid \<Rightarrow> error_object" where
  "basket_not_found_obj i = not_found BasketNotFoundError ''ORDERING_BASKET_NOT_FOUND'' ''Basket'' i"

definition item_unavailable_obj :: "string list \<Rightarrow> error_object" where
  "item_unavailable_obj ids =
     \<lparr>eo_class = BasketItemUnavailableError, eo_code = ''ORDERING_ITEM_UNAVAILABLE'',
      eo_message = ''Unavailable items: '' @ join_strings '', '' ids, eo_itemIds = ids\<rparr>"

definition basket_error_obj :: "basket_error \<Rightarrow> error_object" where
  "basket_error_obj e = (case e of BasketNotFound i \<Rightarrow> basket_not_found_obj i | BasketItemUnavailable ids \<Rightarrow> item_unavailable_obj ids)"

definition quote_error_obj :: "quote_error \<Rightarrow> error_object" where
  "quote_error_obj e = (case e of QuoteBasketNotFound i \<Rightarrow> not_found QuoteBasketNotFoundError ''ORDERING_BASKET_NOT_FOUND'' ''Basket'' i)"

definition checkout_error_obj :: "checkout_error \<Rightarrow> error_object" where
  "checkout_error_obj e = (case e of
     QuoteSnapshotNotFound \<Rightarrow> error_obj StaleQuoteError ''ORDERING_STALE_QUOTE'' ''Quote snapshot not found.''
   | QuoteSnapshotMismatch \<Rightarrow> error_obj StaleQuoteError ''ORDERING_STALE_QUOTE'' ''Quote snapshot mismatch.'')"

definition order_error_obj :: "order_error \<Rightarrow> error_object" where
  "order_error_obj e = (case e of
     InvalidCheckout i \<Rightarrow> not_found InvalidCheckoutError ''ORDER_INVALID_CHECKOUT'' ''Checkout'' i
   | OrderNotFound i \<Rightarrow> not_found OrderNotFoundError ''ORDER_NOT_FOUND'' ''Order'' i
   | QuoteHashMismatch \<Rightarrow> error_obj QuoteHashMismatchError ''ORDER_QUOTE_HASH_MISMATCH'' ''Quote hash does not match checkout snapshot.''
   | CancellationNotAllowed i actor status \<Rightarrow> error_obj CancellationNotAllowedError ''ORDER_CANCELLATION_NOT_ALLOWED''
       (''Actor '' @ quoted (actor_name actor) @ '' cannot cancel order '' @ quoted i @ '' in status '' @ quoted (orderStatus_name status) @ ''.''))"

definition job_conflict_text :: "job_conflict \<Rightarrow> string" where
  "job_conflict_text c = (case c of
     ExpectedStatus expected actual \<Rightarrow> ''expected '' @ courierJobStatus_wire expected @ '', received '' @ courierJobStatus_wire actual
   | CourierMismatch expected actual \<Rightarrow> ''courier mismatch: expected '' @ nullish expected ''none'' @ '', received '' @ actual)"

definition job_error_obj :: "job_error \<Rightarrow> error_object" where
  "job_error_obj e = (case e of
     CourierJobNotFound i \<Rightarrow> not_found CourierJobNotFoundError ''COURIER_JOB_NOT_FOUND'' ''Courier job'' i
   | CourierJobStateConflict i c \<Rightarrow> error_obj CourierJobStateConflictError ''COURIER_JOB_STATE_CONFLICT''
       (''Courier job '' @ quoted i @ '' state conflict: '' @ job_conflict_text c))"

definition payment_error_obj :: "payment_error \<Rightarrow> error_object" where
  "payment_error_obj e = (case e of
     PaymentOrderNotFound i \<Rightarrow> not_found PaymentOrderNotFoundError ''PAYMENT_ORDER_NOT_FOUND'' ''Order'' i
   | PaymentMethodNotSupported m \<Rightarrow> error_obj PaymentMethodNotSupportedError ''PAYMENT_METHOD_NOT_SUPPORTED''
       (''Payment method '' @ quoted (method_name m) @ '' is not supported for authorization.'')
   | PaymentIntentNotFound i \<Rightarrow> not_found PaymentIntentNotFoundError ''PAYMENT_INTENT_NOT_FOUND'' ''Payment intent'' i
   | PaymentCapturePrecondition i status \<Rightarrow> error_obj PaymentCapturePreconditionError ''PAYMENT_CAPTURE_PRECONDITION_FAILED''
       (''Capture preconditions failed for order '' @ quoted i @ '' in status '' @ quoted status @ ''.'')
   | PaymentCashExpectationNotFound i \<Rightarrow> error_obj PaymentCashExpectationNotFoundError ''PAYMENT_CASH_EXPECTATION_NOT_FOUND''
       (''Cash expectation for order '' @ quoted i @ '' was not found.'')
   | PaymentRefundAmountInvalid a \<Rightarrow> error_obj PaymentRefundAmountInvalidError ''PAYMENT_REFUND_AMOUNT_INVALID''
       (''Refund amount '' @ quoted (num_string a) @ '' is invalid for captured payment.'')
   | PaymentRefundRequestNotFound i \<Rightarrow>
       not_found PaymentRefundRequestNotFoundError ''PAYMENT_REFUND_REQUEST_NOT_FOUND'' ''Refund request'' i)"

definition settlement_error_obj :: "settlement_error \<Rightarrow> error_object" where
  "settlement_error_obj e = (case e of UnbalancedJournal \<Rightarrow>
     error_obj UnbalancedJournalError ''SETTLEMENT_UNBALANCED_JOURNAL'' ''Journal entry is unbalanced.'')"

definition support_error_obj :: "support_error \<Rightarrow> error_object" where
  "support_error_obj e = (case e of
     SupportTicketNotFound i \<Rightarrow> not_found SupportTicketNotFoundError ''SUPPORT_TICKET_NOT_FOUND'' ''Support ticket'' i
   | InvalidEvaluationTime \<Rightarrow> error_obj RangeErrorClass [] ''Invalid time value'')"

definition intervention_error_obj :: "core_error intervention_error \<Rightarrow> error_object" where
  "intervention_error_obj e = (case e of
     InvalidIntervention \<Rightarrow> error_obj PlainError [] ''INVALID_SUPPORT_INTERVENTION_PAYLOAD''
   | FromDependency (FromOrders oe) \<Rightarrow> order_error_obj oe
   | FromDependency (FromPayments pe) \<Rightarrow> payment_error_obj pe)"

definition notification_error_obj :: "notification_error \<Rightarrow> error_object" where
  "notification_error_obj e = (case e of
     TemplateNotFound \<Rightarrow> error_obj NotificationTemplateNotFoundError ''NOTIFICATION_TEMPLATE_NOT_FOUND''
       ''Template not found for event and actor type.''
   | NotIterable \<Rightarrow> error_obj TypeErrorClass [] ''channels is not iterable'')"

definition risk_error_obj :: "risk_error \<Rightarrow> error_object" where
  "risk_error_obj e = (case e of
     InvalidRiskPolicyRule t \<Rightarrow> error_obj InvalidRiskPolicyRuleError ''RISK_POLICY_INVALID_RULE''
       (''Risk policy rule '' @ quoted t @ '' has invalid thresholds.'')
   | ManualReviewNotFound i \<Rightarrow> not_found ManualReviewNotFoundError ''RISK_MANUAL_REVIEW_NOT_FOUND'' ''Manual review'' i
   | ComplianceAuditWriteFailed m \<Rightarrow> error_obj ComplianceAuditWriteError ''COMPLIANCE_AUDIT_WRITE_FAILED'' m)"

definition request_error_obj :: "request_error \<Rightarrow> error_object" where
  "request_error_obj e = (case e of
     Error_message m \<Rightarrow> error_obj PlainError [] m
   | Type_error \<Rightarrow> error_obj TypeErrorClass [] ''Cannot read properties of null''
   | Syntax_error \<Rightarrow> error_obj SyntaxErrorClass [] ''Unexpected token'')"

text \<open>Everything a handler can throw.\<close>

datatype service_error =
    SE_request request_error | SE_identity duplicate_identity_error | SE_auth auth_error | SE_menu menu_error
  | SE_store_menu store_menu_error | SE_basket basket_error | SE_quote quote_error | SE_checkout checkout_error
  | SE_order order_error | SE_job job_error | SE_payment payment_error | SE_settlement settlement_error
  | SE_support support_error | SE_intervention "core_error intervention_error" | SE_notification notification_error
  | SE_risk risk_error

fun thrown :: "service_error \<Rightarrow> error_object" where
  "thrown (SE_request e) = request_error_obj e"
| "thrown (SE_identity e) = identity_error e"
| "thrown (SE_auth e) = auth_error_obj e"
| "thrown (SE_menu e) = menu_error_obj e"
| "thrown (SE_store_menu e) = store_menu_error_obj e"
| "thrown (SE_basket e) = basket_error_obj e"
| "thrown (SE_quote e) = quote_error_obj e"
| "thrown (SE_checkout e) = checkout_error_obj e"
| "thrown (SE_order e) = order_error_obj e"
| "thrown (SE_job e) = job_error_obj e"
| "thrown (SE_payment e) = payment_error_obj e"
| "thrown (SE_settlement e) = settlement_error_obj e"
| "thrown (SE_support e) = support_error_obj e"
| "thrown (SE_intervention e) = intervention_error_obj e"
| "thrown (SE_notification e) = notification_error_obj e"
| "thrown (SE_risk e) = risk_error_obj e"

section \<open>The catch of the request handler\<close>

record http_response =
  hs_status :: nat
  hs_body :: json

definition sendJson :: "nat \<Rightarrow> json \<Rightarrow> http_response" where
  "sendJson status body = \<lparr>hs_status = status, hs_body = body\<rparr>"

definition error_body :: "string \<Rightarrow> string \<Rightarrow> json" where
  "error_body code message = JObj [(''errorCode'', JStr code), (''message'', JStr message)]"

text \<open>The tests \<open>error instanceof C\<close> in their order, with the status each sends.\<close>

definition ordering_statuses :: "(error_class \<times> nat) list" where
  "ordering_statuses =
     [(DuplicateIdentityError, 409), (AuthError, 401), (MenuNotFoundError, 404), (StoreMenuNotFoundError, 404),
      (BasketNotFoundError, 404), (QuoteBasketNotFoundError, 404), (StaleQuoteError, 409), (InvalidCheckoutError, 404),
      (QuoteHashMismatchError, 409), (OrderNotFoundError, 404), (CourierJobNotFoundError, 404),
      (CourierJobStateConflictError, 409), (SupportTicketNotFoundError, 404)]"

definition payment_statuses :: "(error_class \<times> nat) list" where
  "payment_statuses =
     [(ManualReviewNotFoundError, 404), (InvalidRiskPolicyRuleError, 400), (PaymentOrderNotFoundError, 404),
      (PaymentIntentNotFoundError, 404), (PaymentCapturePreconditionError, 409),
      (PaymentCashExpectationNotFoundError, 404), (PaymentRefundRequestNotFoundError, 404),
      (PaymentRefundAmountInvalidError, 409), (UnbalancedJournalError, 409), (PaymentMethodNotSupportedError, 409),
      (CancellationNotAllowedError, 409), (BasketItemUnavailableError, 409), (NotificationTemplateNotFoundError, 404)]"

definition invalid_request_messages :: "string list" where
  "invalid_request_messages =
     [''INVALID_REGISTRATION_PAYLOAD'', ''INVALID_LOGIN_PAYLOAD'', ''INVALID_REFRESH_PAYLOAD'', ''INVALID_MFA_VERIFY_PAYLOAD'',
      ''INVALID_MENU_ITEMS'', ''INVALID_MENU_CREATE_PAYLOAD'', ''INVALID_MENU_UPDATE_PAYLOAD'', ''INVALID_STORE_STATUS_PAYLOAD'',
      ''INVALID_STORE_DISCOVERY_QUERY'', ''INVALID_STORE_MENU_QUERY'', ''INVALID_ORDERABILITY_QUERY'',
      ''INVALID_ITEM_AVAILABILITY_PAYLOAD'', ''INVALID_BASKET_CREATE_PAYLOAD'', ''INVALID_BASKET_ITEMS'',
      ''INVALID_DELIVERY_ZONE_PAYLOAD'', ''INVALID_ZONE_POINT_PAYLOAD'', ''INVALID_QUOTE_PAYLOAD'',
      ''INVALID_PROMOTION_EVALUATION_PAYLOAD'', ''INVALID_CHECKOUT_PAYLOAD'', ''INVALID_ORDER_CREATE_PAYLOAD'',
      ''INVALID_ORDER_CANCELLATION_PAYLOAD'', ''INVALID_CONSUMER_ORDER_QUERY'', ''INVALID_ORDER_STATUS_QUERY'',
      ''INVALID_MERCHANT_ORDER_REJECT_PAYLOAD'', ''INVALID_MERCHANT_ORDER_QUERY'', ''INVALID_COURIER_JOB_QUERY'',
      ''INVALID_COURIER_JOB_COURIER_PAYLOAD'', ''INVALID_COURIER_TELEMETRY_PAYLOAD'', ''INVALID_DISPATCH_REQUEST_PAYLOAD'',
      ''INVALID_SUPPORT_TICKET_PAYLOAD'', ''INVALID_SUPPORT_INTERVENTION_PAYLOAD'', ''INVALID_SUPPORT_SLA_PAYLOAD'',
      ''INVALID_RISK_POLICY_EVALUATE_PAYLOAD'', ''INVALID_RISK_POLICY_RULE_PAYLOAD'', ''INVALID_MANUAL_REVIEW_QUEUE_PAYLOAD'',
      ''INVALID_MANUAL_REVIEW_RESOLVE_PAYLOAD'', ''INVALID_COMPLIANCE_AUDIT_PAYLOAD'', ''INVALID_COMPLIANCE_EVIDENCE_PAYLOAD'',
      ''INVALID_BREAK_GLASS_PAYLOAD'', ''INVALID_PAYMENT_AUTHORIZE_PAYLOAD'', ''INVALID_PAYMENT_CAPTURE_PAYLOAD'',
      ''INVALID_CASH_EXPECTED_PAYLOAD'', ''INVALID_CASH_COLLECTION_PAYLOAD'', ''INVALID_REFUND_REQUEST_PAYLOAD'',
      ''INVALID_REFUND_APPROVAL_PAYLOAD'', ''INVALID_SETTLEMENT_JOURNAL_PAYLOAD'', ''INVALID_SETTLEMENT_RECONCILIATION_PAYLOAD'',
      ''INVALID_SETTLEMENT_RECONCILIATION_INGEST_PAYLOAD'', ''INVALID_SETTLEMENT_RECONCILIATION_IMPORT_RUN_PAYLOAD'',
      ''INVALID_SETTLEMENT_RECONCILIATION_QUERY'', ''INVALID_PAYOUT_BATCH_PAYLOAD'', ''INVALID_PAYOUT_SCHEDULE_RUN_PAYLOAD'',
      ''INVALID_PAYOUT_STATEMENT_PAYLOAD'', ''INVALID_MERCHANT_PAYOUT_QUERY'', ''INVALID_COURIER_PAYOUT_QUERY'',
      ''INVALID_NOTIFICATION_FANOUT_PAYLOAD'', ''INVALID_NOTIFICATION_TEMPLATE_PAYLOAD'', ''INVALID_NOTIFICATION_RETRY_PAYLOAD'',
      ''INVALID_NOTIFICATION_RECEIPT_PAYLOAD'', ''INVALID_NOTIFICATION_RECEIPT_QUERY'', ''MISSING_BEARER_TOKEN'']"

definition class_status :: "error_class \<Rightarrow> nat option" where
  "class_status c = map_of (ordering_statuses @ payment_statuses) c"

definition handle_error :: "error_object \<Rightarrow> http_response" where
  "handle_error e =
     (case class_status (eo_class e) of
        Some status \<Rightarrow>
          sendJson status (JObj ([(''errorCode'', JStr (eo_code e)), (''message'', JStr (eo_message e))] @
            (if eo_class e = BasketItemUnavailableError then [(''itemIds'', JArr (map JStr (eo_itemIds e)))] else [])))
      | None \<Rightarrow>
          if eo_class e = SyntaxErrorClass \<or> eo_message e \<in> set invalid_request_messages then
            (if eo_message e = ''MISSING_BEARER_TOKEN''
             then sendJson 401 (error_body ''IDENTITY_MISSING_TOKEN'' ''Bearer token is required.'')
             else sendJson 400 (error_body ''INVALID_REQUEST'' ''Invalid request payload''))
          else sendJson 500 (error_body ''INTERNAL_ERROR'' ''Unexpected server error''))"

text \<open>The status, as a table over what is thrown.\<close>

definition message_status :: "string \<Rightarrow> nat" where
  "message_status m = (if m = ''MISSING_BEARER_TOKEN'' then 401 else if m \<in> set invalid_request_messages then 400 else 500)"

definition order_status_code :: "order_error \<Rightarrow> nat" where
  "order_status_code e = (case e of InvalidCheckout _ \<Rightarrow> 404 | OrderNotFound _ \<Rightarrow> 404 | _ \<Rightarrow> 409)"

definition payment_status_code :: "payment_error \<Rightarrow> nat" where
  "payment_status_code e = (case e of PaymentMethodNotSupported _ \<Rightarrow> 409 | PaymentCapturePrecondition _ _ \<Rightarrow> 409
     | PaymentRefundAmountInvalid _ \<Rightarrow> 409 | _ \<Rightarrow> 404)"

fun service_status :: "service_error \<Rightarrow> nat" where
  "service_status (SE_request (Error_message m)) = message_status m"
| "service_status (SE_request Type_error) = 500"
| "service_status (SE_request Syntax_error) = 400"
| "service_status (SE_identity e) = 409"
| "service_status (SE_auth e) = (if e = JSON_SYNTAX_ERROR then 400 else 401)"
| "service_status (SE_menu e) = 404"
| "service_status (SE_store_menu e) = 404"
| "service_status (SE_basket (BasketNotFound i)) = 404"
| "service_status (SE_basket (BasketItemUnavailable ids)) = 409"
| "service_status (SE_quote e) = 404"
| "service_status (SE_checkout e) = 409"
| "service_status (SE_order e) = order_status_code e"
| "service_status (SE_job (CourierJobNotFound i)) = 404"
| "service_status (SE_job (CourierJobStateConflict i c)) = 409"
| "service_status (SE_payment e) = payment_status_code e"
| "service_status (SE_settlement e) = 409"
| "service_status (SE_support (SupportTicketNotFound i)) = 404"
| "service_status (SE_support InvalidEvaluationTime) = 500"
| "service_status (SE_intervention InvalidIntervention) = 400"
| "service_status (SE_intervention (FromDependency (FromOrders oe))) = order_status_code oe"
| "service_status (SE_intervention (FromDependency (FromPayments pe))) = payment_status_code pe"
| "service_status (SE_notification TemplateNotFound) = 404"
| "service_status (SE_notification NotIterable) = 500"
| "service_status (SE_risk (InvalidRiskPolicyRule t)) = 400"
| "service_status (SE_risk (ManualReviewNotFound i)) = 404"
| "service_status (SE_risk (ComplianceAuditWriteFailed m)) = message_status m"

lemmas error_objs = error_obj_def not_found_def identity_error_def auth_error_obj_def menu_error_obj_def
  store_menu_error_obj_def basket_error_obj_def basket_not_found_obj_def item_unavailable_obj_def quote_error_obj_def
  checkout_error_obj_def order_error_obj_def job_error_obj_def payment_error_obj_def settlement_error_obj_def
  support_error_obj_def intervention_error_obj_def notification_error_obj_def risk_error_obj_def request_error_obj_def

lemma sendJson_sel [simp]: "hs_status (sendJson n b) = n" "hs_body (sendJson n b) = b"
  by (simp_all add: sendJson_def)

lemma statuses_table: "class_status c =
    (case c of DuplicateIdentityError \<Rightarrow> Some 409 | AuthError \<Rightarrow> Some 401 | InvalidRiskPolicyRuleError \<Rightarrow> Some 400
      | StaleQuoteError \<Rightarrow> Some 409 | QuoteHashMismatchError \<Rightarrow> Some 409 | CourierJobStateConflictError \<Rightarrow> Some 409
      | PaymentCapturePreconditionError \<Rightarrow> Some 409 | PaymentRefundAmountInvalidError \<Rightarrow> Some 409
      | UnbalancedJournalError \<Rightarrow> Some 409 | PaymentMethodNotSupportedError \<Rightarrow> Some 409
      | CancellationNotAllowedError \<Rightarrow> Some 409 | BasketItemUnavailableError \<Rightarrow> Some 409
      | ComplianceAuditWriteError \<Rightarrow> None | PlainError \<Rightarrow> None | TypeErrorClass \<Rightarrow> None | SyntaxErrorClass \<Rightarrow> None
      | RangeErrorClass \<Rightarrow> None | _ \<Rightarrow> Some 404)"
  by (cases c) (simp_all add: class_status_def ordering_statuses_def payment_statuses_def)

lemma bearer_listed: "''MISSING_BEARER_TOKEN'' \<in> set invalid_request_messages"
  by (simp add: invalid_request_messages_def)

lemma natives_unlisted:
  "''Cannot read properties of null'' \<notin> set invalid_request_messages"
  "''Invalid time value'' \<notin> set invalid_request_messages"
  "''channels is not iterable'' \<notin> set invalid_request_messages"
  by (simp_all add: invalid_request_messages_def)

lemma intervention_listed: "''INVALID_SUPPORT_INTERVENTION_PAYLOAD'' \<in> set invalid_request_messages"
  by (simp add: invalid_request_messages_def)

lemma handle_listed:
  "class_status (eo_class e) \<noteq> None \<Longrightarrow>
   hs_status (handle_error e) = the (class_status (eo_class e))"
  by (cases "class_status (eo_class e)") (simp_all add: handle_error_def)

lemma handle_unlisted:
  "class_status (eo_class e) = None \<Longrightarrow>
   hs_status (handle_error e) =
     (if eo_class e = SyntaxErrorClass then if eo_message e = ''MISSING_BEARER_TOKEN'' then 401 else 400
      else message_status (eo_message e))"
  using bearer_listed by (auto simp: handle_error_def message_status_def)

lemmas error_status = error_objs statuses_table handle_listed handle_unlisted

lemma handled_status: "hs_status (handle_error (thrown e)) = service_status e"
proof (cases e)
  case (SE_request x)
  then show ?thesis by (cases x) (simp_all add: error_status message_status_def natives_unlisted)
next
  case (SE_identity x)
  then show ?thesis by (cases x) (simp_all add: error_status)
next
  case (SE_auth x)
  then show ?thesis by (cases x) (simp_all add: error_status)
next
  case (SE_menu x)
  then show ?thesis by (cases x) (simp_all add: error_status)
next
  case (SE_store_menu x)
  then show ?thesis by (cases x) (simp_all add: error_status)
next
  case (SE_basket x)
  then show ?thesis by (cases x) (simp_all add: error_status)
next
  case (SE_quote x)
  then show ?thesis by (cases x) (simp_all add: error_status)
next
  case (SE_checkout x)
  then show ?thesis by (cases x) (simp_all add: error_status)
next
  case (SE_order x)
  then show ?thesis by (cases x) (simp_all add: error_status order_status_code_def)
next
  case (SE_job x)
  then show ?thesis by (cases x) (simp_all add: error_status)
next
  case (SE_payment x)
  then show ?thesis by (cases x) (simp_all add: error_status payment_status_code_def)
next
  case (SE_settlement x)
  then show ?thesis by (cases x) (simp_all add: error_status)
next
  case (SE_support x)
  then show ?thesis by (cases x) (simp_all add: error_status message_status_def natives_unlisted)
next
  case (SE_intervention x)
  show ?thesis
  proof (cases x)
    case InvalidIntervention
    with SE_intervention show ?thesis
      by (simp add: error_status message_status_def intervention_listed)
  next
    case (FromDependency d)
    show ?thesis
    proof (cases d)
      case (FromOrders oe)
      with SE_intervention FromDependency show ?thesis
        by (cases oe) (simp_all add: error_status order_status_code_def)
    next
      case (FromPayments pe)
      with SE_intervention FromDependency show ?thesis
        by (cases pe) (simp_all add: error_status payment_status_code_def)
    qed
  qed
next
  case (SE_notification x)
  then show ?thesis by (cases x) (simp_all add: error_status message_status_def natives_unlisted)
next
  case (SE_risk x)
  then show ?thesis by (cases x) (simp_all add: error_status)
qed

section \<open>A rejected body is answered with 400\<close>

definition invalid_request :: http_response where
  "invalid_request = sendJson 400 (error_body ''INVALID_REQUEST'' ''Invalid request payload'')"

definition answers_400 :: "(json \<Rightarrow> request_error + 'a) \<Rightarrow> bool" where
  "answers_400 v = (\<forall>p e. p \<noteq> JNull \<longrightarrow> v p = Inl e \<longrightarrow> handle_error (request_error_obj e) = invalid_request)"

definition query_answers_400 :: "(search_params \<Rightarrow> request_error + 'a) \<Rightarrow> bool" where
  "query_answers_400 v = (\<forall>ps e. v ps = Inl e \<longrightarrow> handle_error (request_error_obj e) = invalid_request)"

definition listed :: "string \<Rightarrow> bool" where
  "listed c = (c \<in> set invalid_request_messages \<and> c \<noteq> ''MISSING_BEARER_TOKEN'')"

lemma listed_answer: "listed c \<Longrightarrow> handle_error (request_error_obj (Error_message c)) = invalid_request"
  by (simp add: listed_def handle_error_def request_error_obj_def error_obj_def statuses_table invalid_request_def)

lemma answers_or_throw:
  assumes "\<And>p. v p = with_payload p (\<lambda>get. or_throw (g p get) c)" "listed c"
  shows "answers_400 v"
  unfolding answers_400_def assms(1) using listed_answer [OF assms(2)]
  by (auto simp: with_payload_def split: json.splits)

lemma answers_or_throw_then:
  assumes "\<And>p. v p = with_payload p (\<lambda>get. and_then (or_throw (g get) c) (k get))" "listed c"
    and "\<And>get a e. k get a = Inl e \<Longrightarrow> handle_error (request_error_obj e) = invalid_request"
  shows "answers_400 v"
  unfolding answers_400_def assms(1) using listed_answer [OF assms(2)] assms(3)
  by (auto simp: with_payload_def and_then_Inl split: json.splits)

lemma query_or_throw: "(\<And>ps. v ps = or_throw (g ps) c) \<Longrightarrow> listed c \<Longrightarrow> query_answers_400 v"
  using listed_answer by (auto simp: query_answers_400_def)

lemmas listed_simp = listed_def invalid_request_messages_def

lemma items_answer:
  "validateMenuItems j = Inl e \<Longrightarrow> handle_error (request_error_obj e) = invalid_request"
  "validateBasketItems j = Inl e \<Longrightarrow> handle_error (request_error_obj e) = invalid_request"
  using listed_answer by (simp_all add: validateMenuItems_def validateBasketItems_def listed_simp)

lemma identity_and_catalog_answers:
  "answers_400 validateRegistrationPayload" "answers_400 validateLoginPayload" "answers_400 validateRefreshPayload"
  "answers_400 validateCreateMenuPayload" "answers_400 validateUpdateMenuPayload"
  "answers_400 validateStoreStatusPayload" "answers_400 validateItemAvailabilityPayload"
  by (rule answers_or_throw [OF validateRegistrationPayload_def], simp add: listed_simp)
     (rule answers_or_throw [OF validateLoginPayload_def], simp add: listed_simp,
      rule answers_or_throw [OF validateRefreshPayload_def], simp add: listed_simp,
      rule answers_or_throw_then [OF validateCreateMenuPayload_def], simp add: listed_simp,
      auto simp: and_then_Inl dest: items_answer,
      rule answers_or_throw_then [OF validateUpdateMenuPayload_def], simp add: listed_simp,
      auto simp: and_then_Inl dest: items_answer,
      rule answers_or_throw [OF validateStoreStatusPayload_def], simp add: listed_simp,
      rule answers_or_throw [OF validateItemAvailabilityPayload_def], simp add: listed_simp)

lemma ordering_answers:
  "answers_400 validateCreateBasketPayload"
  "answers_400 validateUpsertDeliveryZonePayload"
  "answers_400 validateZonePointPayload"
  "answers_400 validateGenerateQuotePayload"
  "answers_400 validatePromotionEvaluatePayload"
  "answers_400 validateCheckoutPayload"
  by (rule answers_or_throw [OF validateCreateBasketPayload_def], simp add: listed_simp)
     (rule answers_or_throw [OF validateUpsertDeliveryZonePayload_def], simp add: listed_simp,
      rule answers_or_throw [OF validateZonePointPayload_def], simp add: listed_simp,
      rule answers_or_throw [OF validateGenerateQuotePayload_def], simp add: listed_simp,
      rule answers_or_throw [OF validatePromotionEvaluatePayload_def], simp add: listed_simp,
      rule answers_or_throw [OF validateCheckoutPayload_def], simp add: listed_simp)

lemma order_answers:
  "answers_400 validateCreateOrderPayload"
  "answers_400 validateOrderCancellationPayload"
  "answers_400 validateCourierJobCourierPayload"
  "answers_400 validateCourierTelemetryPayload"
  "answers_400 validateMerchantOrderRejectPayload"
  by (rule answers_or_throw [OF validateCreateOrderPayload_def], simp add: listed_simp)
     (rule answers_or_throw [OF validateOrderCancellationPayload_def], simp add: listed_simp,
      rule answers_or_throw [OF validateCourierJobCourierPayload_def], simp add: listed_simp,
      rule answers_or_throw [OF validateCourierTelemetryPayload_def], simp add: listed_simp,
      rule answers_or_throw [OF validateMerchantOrderRejectPayload_def], simp add: listed_simp)

lemma payment_answers:
  "answers_400 validatePaymentAuthorizePayload"
  "answers_400 validatePaymentCapturePayload"
  "answers_400 validateCashExpectedPayload"
  "answers_400 validateCashCollectionPayload"
  "answers_400 validateRefundRequestPayload"
  "answers_400 validateRefundApprovalPayload"
  by (rule answers_or_throw [OF validatePaymentAuthorizePayload_def], simp add: listed_simp)
     (rule answers_or_throw [OF validatePaymentCapturePayload_def], simp add: listed_simp,
      rule answers_or_throw [OF validateCashExpectedPayload_def], simp add: listed_simp,
      rule answers_or_throw [OF validateCashCollectionPayload_def], simp add: listed_simp,
      rule answers_or_throw [OF validateRefundRequestPayload_def], simp add: listed_simp,
      rule answers_or_throw [OF validateRefundApprovalPayload_def], simp add: listed_simp)

lemma settlement_answers:
  "answers_400 validateSettlementJournalPayload"
  "answers_400 validateSettlementReconciliationPayload"
  "answers_400 (validatePayoutBatchPayload h)"
  "answers_400 (validatePublishPayoutStatementPayload h)"
  by (rule answers_or_throw [OF validateSettlementJournalPayload_def], simp add: listed_simp)
     (rule answers_or_throw [OF validateSettlementReconciliationPayload_def], simp add: listed_simp,
      rule answers_or_throw [OF validatePayoutBatchPayload_def], simp add: listed_simp,
      rule answers_or_throw [OF validatePublishPayoutStatementPayload_def], simp add: listed_simp)

lemma notification_answers:
  "answers_400 validateNotificationFanoutPayload"
  "answers_400 validateTemplateResolvePayload"
  "answers_400 validateNotificationRetryPayload"
  "answers_400 validateNotificationReceiptPayload"
  by (rule answers_or_throw [OF validateNotificationFanoutPayload_def], simp add: listed_simp)
     (rule answers_or_throw [OF validateTemplateResolvePayload_def], simp add: listed_simp,
      rule answers_or_throw [OF validateNotificationRetryPayload_def], simp add: listed_simp,
      rule answers_or_throw [OF validateNotificationReceiptPayload_def], simp add: listed_simp)

lemma support_answers:
  "answers_400 validateCreateSupportTicketPayload"
  "answers_400 validateSupportInterventionPayload"
  "answers_400 (validateSupportSlaEvaluationPayload h)"
  "answers_400 validateRiskPolicyEvaluatePayload"
  "answers_400 validateQueueManualReviewPayload"
  "answers_400 validateAppendComplianceAuditPayload"
  "answers_400 (validateGenerateComplianceEvidencePayload h)"
  "answers_400 validateBreakGlassActivationPayload"
  by (rule answers_or_throw [OF validateCreateSupportTicketPayload_def], simp add: listed_simp)
     (rule answers_or_throw [OF validateSupportInterventionPayload_def], simp add: listed_simp,
      rule answers_or_throw [OF validateSupportSlaEvaluationPayload_def], simp add: listed_simp,
      rule answers_or_throw [OF validateRiskPolicyEvaluatePayload_def], simp add: listed_simp,
      rule answers_or_throw [OF validateQueueManualReviewPayload_def], simp add: listed_simp,
      rule answers_or_throw [OF validateAppendComplianceAuditPayload_def], simp add: listed_simp,
      rule answers_or_throw [OF validateGenerateComplianceEvidencePayload_def], simp add: listed_simp,
      rule answers_or_throw [OF validateBreakGlassActivationPayload_def], simp add: listed_simp)

lemma route_value_answers:
  "answers_400 (validateRiskPolicyRulePayload actionType)" "answers_400 (validateResolveManualReviewPayload reviewId)"
  "answers_400 (validateSettlementReconciliationImportRunPayload h scheduleId)"
  by (rule answers_or_throw [OF validateRiskPolicyRulePayload_def], simp add: listed_simp)
     (rule answers_or_throw [OF validateResolveManualReviewPayload_def], simp add: listed_simp,
      rule answers_or_throw [OF validateSettlementReconciliationImportRunPayload_def], simp add: listed_simp)

lemma message_answers:
  "handle_error (request_error_obj (Error_message ''INVALID_MFA_VERIFY_PAYLOAD'')) = invalid_request"
  "handle_error (request_error_obj (Error_message ''INVALID_DISPATCH_REQUEST_PAYLOAD'')) = invalid_request"
  "handle_error (request_error_obj (Error_message ''INVALID_SETTLEMENT_RECONCILIATION_INGEST_PAYLOAD'')) = invalid_request"
  "handle_error (request_error_obj (Error_message ''INVALID_PAYOUT_SCHEDULE_RUN_PAYLOAD'')) = invalid_request"
  "handle_error (request_error_obj (Error_message ''INVALID_CONSUMER_ORDER_QUERY'')) = invalid_request"
  "handle_error (request_error_obj (Error_message ''INVALID_MERCHANT_ORDER_QUERY'')) = invalid_request"
  "handle_error (request_error_obj (Error_message ''INVALID_ORDER_STATUS_QUERY'')) = invalid_request"
  by (rule listed_answer, simp add: listed_simp)+

lemma mfa_answers: "answers_400 validateMfaVerifyPayload"
  using identity_and_catalog_answers(2)
  unfolding answers_400_def validateMfaVerifyPayload_def
  by (auto simp: and_then_Inl message_answers)

lemma basket_update_answers: "answers_400 validateUpdateBasketPayload"
  using items_answer(2) by (auto simp: answers_400_def validateUpdateBasketPayload_def with_payload_def split: json.splits)

lemma dispatch_answers: "answers_400 validateDispatchAssignmentPayload"
  by (auto simp: answers_400_def validateDispatchAssignmentPayload_def with_payload_def message_answers
      split: json.splits if_splits)

lemma ingest_answers: "answers_400 validateSettlementReconciliationIngestPayload"
proof (rule answers_or_throw_then [OF validateSettlementReconciliationIngestPayload_def])
  show "listed ''INVALID_SETTLEMENT_RECONCILIATION_INGEST_PAYLOAD''" by (simp add: listed_simp)
next
  fix a :: "json list \<times> string \<times> jsnum" and e
  assume "(case a of (expectedRecords, actualRecordsCsv, toleranceCents) \<Rightarrow>
     and_then (parseSettlementReconciliationCsv actualRecordsCsv) (\<lambda>actualRecords.
     and_then (validateSettlementReconciliationPayload (JObj
         [(''expectedRecords'', JArr expectedRecords), (''actualRecords'', JArr (map record_json actualRecords)),
          (''toleranceCents'', JNum toleranceCents)])) (\<lambda>input.
       Inr (input, length actualRecords)))) = Inl e"
  then show "handle_error (request_error_obj e) = invalid_request"
    using settlement_answers(2)
    by (cases a) (auto simp: and_then_Inl parseSettlementReconciliationCsv_def answers_400_def message_answers)
qed

lemma schedule_answers: "answers_400 (validatePayoutScheduleRunPayload h scheduleId)"
proof -
  have "handle_error (request_error_obj e) = invalid_request" if "validatePayoutScheduleRunPayload h scheduleId p = Inl e" for p e
  proof (cases "blank scheduleId")
    case True
    with that have "e = Error_message ''INVALID_PAYOUT_SCHEDULE_RUN_PAYLOAD''" by (simp add: validatePayoutScheduleRunPayload_def)
    then show ?thesis by (simp only: message_answers)
  next
    case False
    let ?q = "JObj (map_set ''scheduleId'' (JStr scheduleId) (case p of JObj ps \<Rightarrow> ps | _ \<Rightarrow> []))"
    from False that obtain e' where "validatePayoutBatchPayload h ?q = Inl e'"
      "e = e' \<or> e = Error_message ''INVALID_PAYOUT_SCHEDULE_RUN_PAYLOAD''"
      by (auto simp: validatePayoutScheduleRunPayload_def Let_def split: sum.splits if_splits)
    with settlement_answers(3) [of h] show ?thesis
      by (auto simp: answers_400_def message_answers)
  qed
  then show ?thesis by (simp add: answers_400_def)
qed

lemma query_answers:
  "query_answers_400 (validateStoreDiscoveryQuery h)" "query_answers_400 validateStoreMenuQuery"
  "query_answers_400 validateCourierJobListQuery" "query_answers_400 validateSettlementReconciliationQuery"
  by (rule query_or_throw [OF validateStoreDiscoveryQuery_def], simp add: listed_simp)
     (rule query_or_throw [OF validateStoreMenuQuery_def], simp add: listed_simp,
      rule query_or_throw [OF validateCourierJobListQuery_def], simp add: listed_simp,
      rule query_or_throw [OF validateSettlementReconciliationQuery_def], simp add: listed_simp)

lemma order_query_answers:
  "query_answers_400 validateConsumerOrderListQuery" "query_answers_400 validateMerchantOrderListQuery"
  
  by (auto simp: query_answers_400_def validateConsumerOrderListQuery_def validateMerchantOrderListQuery_def
      parseOptionalOrderStatus_def and_then_Inl message_answers)

lemma only_500: "service_status e = 500 \<longleftrightarrow>
    (case e of SE_request (Error_message m) \<Rightarrow> m \<notin> set invalid_request_messages \<and> m \<noteq> ''MISSING_BEARER_TOKEN''
      | SE_request Type_error \<Rightarrow> True | SE_support InvalidEvaluationTime \<Rightarrow> True | SE_notification NotIterable \<Rightarrow> True
      | SE_risk (ComplianceAuditWriteFailed m) \<Rightarrow> m \<notin> set invalid_request_messages \<and> m \<noteq> ''MISSING_BEARER_TOKEN''
      | _ \<Rightarrow> False)"
  by (cases e rule: service_status.cases)
     (auto simp: message_status_def order_status_code_def payment_status_code_def split: order_error.splits payment_error.splits)


text \<open>A body the fan-out's validator accepts can still end in 500.\<close>

lemma inherited_event_type_crashes:
  "validateNotificationFanoutPayload (JObj [(''eventType'', JStr ''constructor''), (''entityId'', JStr ''o1''), (''recipientId'', JStr ''u1'')]) =
     Inr \<lparr>qn_eventType = ''constructor'', qn_entityId = ''o1'', qn_recipientId = ''u1'', qn_actorType = None, qn_locale = None\<rparr>"
  "obj_lookup eventSubscriptions ''constructor'' = Inherited"
  "hs_status (handle_error (thrown (SE_notification NotIterable))) = 500"
  using handled_status [of "SE_notification NotIterable"]
  by (simp_all add: validateNotificationFanoutPayload_def jprop_def blank_def js_trim_def is_space_def jstring_def
      filled_string_def optional_read_def obj_lookup_def eventSubscriptions_def object_prototype_keys_def)

lemma null_body_crashes:
  "validateLoginPayload JNull = Inl Type_error" "hs_status (handle_error (request_error_obj Type_error)) = 500"
  using handled_status [of "SE_request Type_error"] by (simp_all add: validateLoginPayload_def)

end
