(* ===== verification/Realtime.thy ===== *)
theory Realtime
  imports HttpApi
begin

text \<open>
  The realtime gateway (\<open>app-services/realtime-gateway\<close>): web sockets that subscribe to
  channels, push registrations, and the publication of an envelope to the open sockets of a
  channel or, when none is open, to the registered devices. The ready state of the sockets
  and the outcome of a push belong to the outside and are parameters; what was sent and
  pushed is kept as a history.
\<close>

section \<open>Shared contracts\<close>

text \<open>Reading a body: \<open>payload?.name\<close> is undefined on anything but an object.\<close>

definition body_get :: "json option \<Rightarrow> string \<Rightarrow> json option" where
  "body_get body k = (case body of Some (JObj ps) \<Rightarrow> jprop ps k | _ \<Rightarrow> None)"

definition nonempty_string :: "json option \<Rightarrow> bool" where
  "nonempty_string j = (case jstring j of Some s \<Rightarrow> 0 < length s | None \<Rightarrow> False)"

definition isRealtimeEnvelope :: "host \<Rightarrow> json option \<Rightarrow> bool" where
  "isRealtimeEnvelope h candidate =
     (case candidate of
        Some (JObj ps) \<Rightarrow>
          nonempty_string (jprop ps ''eventType'') \<and>
          nonempty_string (jprop ps ''entityId'') \<and>
          (case jstring (jprop ps ''occurredAt'') of Some t \<Rightarrow> host_getTime h t \<noteq> None | None \<Rightarrow> False) \<and>
          nonempty_string (jprop ps ''traceId'') \<and>
          jobject (jprop ps ''payload'') \<noteq> None
      | _ \<Rightarrow> False)"

section \<open>Push fallback\<close>

datatype pushProvider = Apns | Fcm

definition provider_name :: "pushProvider \<Rightarrow> string" where
  "provider_name p = (case p of Apns \<Rightarrow> ''apns'' | Fcm \<Rightarrow> ''fcm'')"

record pushFallbackTarget =
  pt_channel :: string
  pt_userId :: string
  pt_pushToken :: string
  pt_provider :: pushProvider

record pushFallbackMessage =
  pm_channel :: string
  pm_envelope :: "(string \<times> json) list"
  pm_target :: pushFallbackTarget

definition envelope_text :: "(string \<times> json) list \<Rightarrow> string \<Rightarrow> string" where
  "envelope_text ps k = nullish (jstring (jprop ps k)) []"

definition push_data :: "pushFallbackMessage \<Rightarrow> json" where
  "push_data m =
     (let text = (\<lambda>k. JStr (envelope_text (pm_envelope m) k))
      in JObj [(''channel'', JStr (pm_channel m)), (''reason'', JStr ''NO_ACTIVE_SOCKET''), (''traceId'', text ''traceId''),
          (''eventType'', text ''eventType''), (''entityId'', text ''entityId''), (''occurredAt'', text ''occurredAt'')])"

definition push_body :: "pushFallbackMessage \<Rightarrow> string" where
  "push_body m = envelope_text (pm_envelope m) ''eventType'' @ '' ('' @ envelope_text (pm_envelope m) ''entityId'' @ '')''"

definition apnsPayload :: "pushFallbackMessage \<Rightarrow> json" where
  "apnsPayload m = JObj
     [(''token'', JStr (pt_pushToken (pm_target m))),
      (''aps'', JObj
         [(''alert'', JObj [(''title'', JStr ''FleetFeast delivery update''), (''body'', JStr (push_body m))]),
          (''sound'', JStr ''default''), (''content-available'', JNum (Fin 1))]),
      (''data'', push_data m)]"

definition fcmPayload :: "pushFallbackMessage \<Rightarrow> json" where
  "fcmPayload m = JObj
     [(''token'', JStr (pt_pushToken (pm_target m))),
      (''notification'', JObj [(''title'', JStr ''FleetFeast delivery update''), (''body'', JStr (push_body m))]),
      (''data'', push_data m)]"

record pushAdapterOptions =
  po_endpoint :: string
  po_authToken :: "string option"

datatype push_error = Push_not_configured string | Push_http_error string | Push_rejected

definition push_request :: "string \<Rightarrow> string option \<Rightarrow> json \<Rightarrow> http_request" where
  "push_request endpoint authToken payload =
     \<lparr>hr_url = endpoint, hr_method = ''POST'',
      hr_headers = [(''content-type'', ''application/json'')] @
        (case authToken of Some t \<Rightarrow> if t \<noteq> [] then [(''authorization'', ''Bearer '' @ t)] else [] | None \<Rightarrow> []),
      hr_body = json_stringify payload\<rparr>"

text \<open>The request is aborted after the timeout; to \<open>fetch\<close> that is a rejection.\<close>

definition push_postJson :: "fetch \<Rightarrow> string \<Rightarrow> string option \<Rightarrow> json \<Rightarrow> push_error + unit" where
  "push_postJson fetch endpoint authToken payload =
     (case fetch (push_request endpoint authToken payload) of
        None \<Rightarrow> Inl Push_rejected
      | Some status \<Rightarrow>
          if \<not> response_ok status then Inl (Push_http_error (''PUSH_PROVIDER_HTTP_ERROR:'' @ nat_digits status)) else Inr ())"

text \<open>A sender posts messages of its own provider and ignores the others.\<close>

datatype push_sender = Noop_sender pushProvider | Apns_sender pushAdapterOptions | Fcm_sender pushAdapterOptions

fun sender_provider :: "push_sender \<Rightarrow> pushProvider" where
  "sender_provider (Noop_sender p) = p"
| "sender_provider (Apns_sender opts) = Apns"
| "sender_provider (Fcm_sender opts) = Fcm"

definition apns_send :: "fetch \<Rightarrow> pushAdapterOptions \<Rightarrow> pushFallbackMessage \<Rightarrow> push_error + unit" where
  "apns_send fetch opts m =
     (if pt_provider (pm_target m) \<noteq> Apns then Inr ()
      else push_postJson fetch (strip_trailing_slashes (po_endpoint opts)) (po_authToken opts) (apnsPayload m))"

definition fcm_send :: "fetch \<Rightarrow> pushAdapterOptions \<Rightarrow> pushFallbackMessage \<Rightarrow> push_error + unit" where
  "fcm_send fetch opts m =
     (if pt_provider (pm_target m) \<noteq> Fcm then Inr ()
      else push_postJson fetch (strip_trailing_slashes (po_endpoint opts)) (po_authToken opts) (fcmPayload m))"

fun sender_send :: "fetch \<Rightarrow> push_sender \<Rightarrow> pushFallbackMessage \<Rightarrow> push_error + unit" where
  "sender_send fetch (Noop_sender p) m = Inr ()"
| "sender_send fetch (Apns_sender opts) m = apns_send fetch opts m"
| "sender_send fetch (Fcm_sender opts) m = fcm_send fetch opts m"

definition routing_send :: "fetch \<Rightarrow> push_sender list \<Rightarrow> pushFallbackMessage \<Rightarrow> push_error + unit" where
  "routing_send fetch senders m =
     (let byProvider = map_from_entries (map (\<lambda>s. (sender_provider s, s)) senders)
      in case map_get byProvider (pt_provider (pm_target m)) of
           None \<Rightarrow> Inl (Push_not_configured (''PUSH_PROVIDER_NOT_CONFIGURED:'' @ provider_name (pt_provider (pm_target m))))
         | Some s \<Rightarrow> sender_send fetch s m)"

text \<open>An endpoint that is absent or empty gives a sender that does nothing.\<close>

definition push_endpoint :: "string option \<Rightarrow> string option" where
  "push_endpoint e = (case e of Some u \<Rightarrow> if u = [] then None else Some u | None \<Rightarrow> None)"

definition senders_from_env :: "string option \<Rightarrow> string option \<Rightarrow> string option \<Rightarrow> string option \<Rightarrow> push_sender list" where
  "senders_from_env apnsEndpoint apnsToken fcmEndpoint fcmToken =
     [case push_endpoint apnsEndpoint of Some u \<Rightarrow> Apns_sender \<lparr>po_endpoint = u, po_authToken = apnsToken\<rparr> | None \<Rightarrow> Noop_sender Apns,
      case push_endpoint fcmEndpoint of Some u \<Rightarrow> Fcm_sender \<lparr>po_endpoint = u, po_authToken = fcmToken\<rparr> | None \<Rightarrow> Noop_sender Fcm]"

text \<open>\<open>Number.parseInt(s, 10)\<close>: blanks, a sign and the digits that follow; the rest is ignored.\<close>

definition js_parseInt :: "string \<Rightarrow> jsnum" where
  "js_parseInt s0 =
     (let s = dropWhile is_space s0;
          (neg, t) = (case s of c # r \<Rightarrow> if c = CHR ''-'' then (True, r) else if c = CHR ''+'' then (False, r) else (False, s)
                              | [] \<Rightarrow> (False, s));
          digits = takeWhile is_digit_char t
      in if digits = [] then NaN
         else double_of (if neg then - of_nat (digits_value digits) else of_nat (digits_value digits)))"

definition parseTimeoutMs :: "string option \<Rightarrow> jsnum" where
  "parseTimeoutMs rawValue =
     (case rawValue of
        None \<Rightarrow> Fin 5000
      | Some raw \<Rightarrow>
          if raw = [] then Fin 5000
          else let parsed = js_parseInt raw
               in if \<not> is_finite parsed \<or> num_le parsed (Fin 0) then Fin 5000 else parsed)"

lemma parseTimeoutMs_positive: "is_finite (parseTimeoutMs raw) \<and> num_lt (Fin 0) (parseTimeoutMs raw)"
proof -
  have pos: "num_lt (Fin 0) a" if "is_finite a" "\<not> num_le a (Fin 0)" for a
    using that by (cases a) (auto simp: is_finite_def num_le_def num_eq_def)
  show ?thesis
    by (auto simp: parseTimeoutMs_def Let_def is_finite_def pos split: option.splits)
qed

text \<open>The senders of the environment are routed by provider: every message is posted or ignored,
  never refused as not configured.\<close>

lemma env_routes_every_provider:
  "routing_send fetch (senders_from_env ae atk fe ftk) m =
     sender_send fetch ((senders_from_env ae atk fe ftk) ! (case pt_provider (pm_target m) of Apns \<Rightarrow> 0 | Fcm \<Rightarrow> 1)) m"
  by (cases "pt_provider (pm_target m)"; cases "push_endpoint ae"; cases "push_endpoint fe")
     (simp_all add: routing_send_def senders_from_env_def map_from_entries_def map_set_def map_get_def)

section \<open>The gateway\<close>

text \<open>
  \<open>gw_sent\<close> and \<open>gw_pushed\<close> are the history of the calls \<open>socket.send\<close> and
  \<open>notifier.send\<close>, \<open>gw_failures\<close> that of the rejections logged. A socket is a number; whether
  it is open when a message is published is the parameter \<open>isOpen\<close>.
\<close>

record gateway =
  gw_subscribers :: "(string, nat list) jsmap"
  gw_pushRegistrations :: "(string, (string, pushFallbackTarget) jsmap) jsmap"
  gw_sent :: "(nat \<times> string) list"
  gw_pushed :: "pushFallbackMessage list"
  gw_failures :: "(string \<times> push_error) list"

definition new_gateway :: gateway where
  "new_gateway = \<lparr>gw_subscribers = [], gw_pushRegistrations = [], gw_sent = [], gw_pushed = [], gw_failures = []\<rparr>"

datatype socket_answer = Socket_joined | Socket_refused nat string

definition ws_connect :: "nat \<Rightarrow> json option \<Rightarrow> gateway \<Rightarrow> socket_answer \<times> gateway" where
  "ws_connect socket query_channel g =
     (case filled_string query_channel of
        None \<Rightarrow> (Socket_refused 1008 ''channel is required'', g)
      | Some channel \<Rightarrow>
          (let channelSet = nullish (map_get (gw_subscribers g) channel) []
           in (Socket_joined, g\<lparr>gw_subscribers := map_set channel (set_add socket channelSet) (gw_subscribers g)\<rparr>)))"

definition ws_closed :: "string \<Rightarrow> nat \<Rightarrow> gateway \<Rightarrow> gateway" where
  "ws_closed channel socket g =
     (case map_get (gw_subscribers g) channel of
        None \<Rightarrow> g
      | Some current \<Rightarrow>
          (let left = removeAll socket current
           in g\<lparr>gw_subscribers :=
                 (if left = [] then map_delete channel (gw_subscribers g)
                  else map_set channel left (gw_subscribers g))\<rparr>))"

definition gateway_error :: "nat \<Rightarrow> string \<Rightarrow> string \<Rightarrow> http_response" where
  "gateway_error status code message = \<lparr>hs_status = status, hs_body = error_body code message\<rparr>"

definition gateway_ok :: "string \<Rightarrow> bool \<Rightarrow> http_response" where
  "gateway_ok key v = \<lparr>hs_status = 200, hs_body = JObj [(key, JBool v)]\<rparr>"

definition push_provider :: "json option \<Rightarrow> pushProvider option" where
  "push_provider j = (if j = Some (JStr ''apns'') then Some Apns else if j = Some (JStr ''fcm'') then Some Fcm else None)"

definition registration_of :: "json option \<Rightarrow> pushFallbackTarget option" where
  "registration_of body =
     do {
       channel \<leftarrow> filled_string (body_get body ''channel'');
       userId \<leftarrow> filled_string (body_get body ''userId'');
       pushToken \<leftarrow> filled_string (body_get body ''pushToken'');
       provider \<leftarrow> push_provider (body_get body ''provider'');
       Some \<lparr>pt_channel = channel, pt_userId = userId, pt_pushToken = pushToken, pt_provider = provider\<rparr>
     }"

definition push_register :: "json option \<Rightarrow> gateway \<Rightarrow> http_response \<times> gateway" where
  "push_register body g =
     (case registration_of body of
        None \<Rightarrow> (gateway_error 400 ''INVALID_PUSH_REGISTRATION_PAYLOAD''
                  ''channel, userId, pushToken, and provider (apns|fcm) are required'', g)
      | Some target \<Rightarrow>
          (let byUserId = nullish (map_get (gw_pushRegistrations g) (pt_channel target)) []
           in (gateway_ok ''registered'' True,
               g\<lparr>gw_pushRegistrations :=
                   map_set (pt_channel target) (map_set (pt_userId target) target byUserId) (gw_pushRegistrations g)\<rparr>)))"

definition unregistration_of :: "json option \<Rightarrow> (string \<times> string) option" where
  "unregistration_of body =
     do {
       channel \<leftarrow> filled_string (body_get body ''channel'');
       userId \<leftarrow> filled_string (body_get body ''userId'');
       Some (channel, userId)
     }"

definition push_unregister :: "json option \<Rightarrow> gateway \<Rightarrow> http_response \<times> gateway" where
  "push_unregister body g =
     (case unregistration_of body of
        None \<Rightarrow> (gateway_error 400 ''INVALID_PUSH_UNREGISTER_PAYLOAD'' ''channel and userId are required'', g)
      | Some (channel, userId) \<Rightarrow>
          (case map_get (gw_pushRegistrations g) channel of
             None \<Rightarrow> (gateway_ok ''removed'' False, g)
           | Some byUserId \<Rightarrow>
               (let left = map_delete userId byUserId
                in (gateway_ok ''removed'' True,
                    g\<lparr>gw_pushRegistrations :=
                        (if length left = 0 then map_delete channel (gw_pushRegistrations g)
                         else map_set channel left (gw_pushRegistrations g))\<rparr>))))"

text \<open>\<open>publishToChannel\<close>; the promises of the pushes settle in order.\<close>

definition push_all :: "(pushFallbackMessage \<Rightarrow> push_error + unit) \<Rightarrow> string \<Rightarrow> (string \<times> json) list \<Rightarrow>
    pushFallbackTarget list \<Rightarrow> gateway \<Rightarrow> gateway" where
  "push_all notifier channel envelope targets g =
     (let messages = map (\<lambda>target. \<lparr>pm_channel = channel, pm_envelope = envelope, pm_target = target\<rparr>) targets
      in g\<lparr>gw_pushed := gw_pushed g @ messages,
           gw_failures := gw_failures g @ List.map_filter
             (\<lambda>m. case notifier m of Inl e \<Rightarrow> Some (channel, e) | Inr _ \<Rightarrow> None) messages\<rparr>)"

definition publishToChannel ::
  "host \<Rightarrow> (nat \<Rightarrow> bool) \<Rightarrow> (pushFallbackMessage \<Rightarrow> push_error + unit) \<Rightarrow> string \<Rightarrow> json option \<Rightarrow> gateway \<Rightarrow>
   (string + unit) \<times> gateway"
where
  "publishToChannel h isOpen notifier channel envelope g =
     (if \<not> isRealtimeEnvelope h envelope then (Inl ''INVALID_REALTIME_ENVELOPE'', g)
      else
        let fields = nullish (jobject envelope) [];
            payload = json_stringify (JObj fields);
            channelSet = nullish (map_get (gw_subscribers g) channel) [];
            open_sockets = filter isOpen channelSet;
            g1 = g\<lparr>gw_sent := gw_sent g @ map (\<lambda>socket. (socket, payload)) open_sockets\<rparr>
        in if 0 < length open_sockets then (Inr (), g1)
           else (Inr (),
             case map_get (gw_pushRegistrations g1) channel of
               None \<Rightarrow> g1
             | Some byUserId \<Rightarrow>
                 if length byUserId = 0 then g1
                 else push_all notifier channel fields (map_values byUserId) g1))"

definition realtime_publish ::
  "host \<Rightarrow> string option \<Rightarrow> (nat \<Rightarrow> bool) \<Rightarrow> (pushFallbackMessage \<Rightarrow> push_error + unit) \<Rightarrow>
   string option \<Rightarrow> json option \<Rightarrow> gateway \<Rightarrow> http_response \<times> gateway"
where
  "realtime_publish h publishApiKey isOpen notifier header body g =
     (if publishApiKey \<noteq> None \<and> publishApiKey \<noteq> Some [] \<and> header \<noteq> publishApiKey
      then (gateway_error 401 ''REALTIME_PUBLISH_UNAUTHORIZED'' ''x-realtime-publish-key header is invalid'', g)
      else case filled_string (body_get body ''channel'') of
             None \<Rightarrow> (gateway_error 400 ''INVALID_REALTIME_PUBLISH_PAYLOAD'' ''channel is required'', g)
           | Some channel \<Rightarrow>
               if \<not> isRealtimeEnvelope h (body_get body ''envelope'')
               then (gateway_error 400 ''INVALID_REALTIME_PUBLISH_PAYLOAD'' ''envelope is invalid'', g)
               else (gateway_ok ''published'' True,
                     snd (publishToChannel h isOpen notifier channel (body_get body ''envelope'') g)))"

section \<open>What a gateway has served\<close>

datatype gateway_request =
    Connect nat "json option"
  | Closed string nat
  | Register "json option"
  | Unregister "json option"
  | Publish "nat \<Rightarrow> bool" "string option" "json option"

fun gateway_step ::
  "host \<Rightarrow> string option \<Rightarrow> (pushFallbackMessage \<Rightarrow> push_error + unit) \<Rightarrow> gateway_request \<Rightarrow> gateway \<Rightarrow> gateway"
where
  "gateway_step h key notifier (Connect socket query_channel) g = snd (ws_connect socket query_channel g)"
| "gateway_step h key notifier (Closed channel socket) g = ws_closed channel socket g"
| "gateway_step h key notifier (Register body) g = snd (push_register body g)"
| "gateway_step h key notifier (Unregister body) g = snd (push_unregister body g)"
| "gateway_step h key notifier (Publish isOpen header body) g = snd (realtime_publish h key isOpen notifier header body g)"

text \<open>Who listens and who is registered, read off the requests, the latest first.\<close>

fun listens :: "gateway_request list \<Rightarrow> string \<Rightarrow> nat \<Rightarrow> bool" where
  "listens [] channel s = False"
| "listens (Connect t q # rs) channel s = (t = s \<and> filled_string q = Some channel \<or> listens rs channel s)"
| "listens (Closed c t # rs) channel s = (\<not> (c = channel \<and> t = s) \<and> listens rs channel s)"
| "listens (r # rs) channel s = listens rs channel s"

fun registered :: "gateway_request list \<Rightarrow> string \<Rightarrow> string \<Rightarrow> pushFallbackTarget option" where
  "registered [] channel user = None"
| "registered (Register body # rs) channel user =
     (case registration_of body of
        Some target \<Rightarrow> if pt_channel target = channel \<and> pt_userId target = user then Some target
                       else registered rs channel user
      | None \<Rightarrow> registered rs channel user)"
| "registered (Unregister body # rs) channel user =
     (if unregistration_of body = Some (channel, user) then None else registered rs channel user)"
| "registered (r # rs) channel user = registered rs channel user"

definition members :: "(string, 'v list) jsmap \<Rightarrow> string \<Rightarrow> 'v list" where
  "members m channel = nullish (map_get m channel) []"

definition targets_of :: "gateway \<Rightarrow> string \<Rightarrow> (string, pushFallbackTarget) jsmap" where
  "targets_of g channel = members (gw_pushRegistrations g) channel"

definition gateway_reflects :: "gateway_request list \<Rightarrow> gateway \<Rightarrow> bool" where
  "gateway_reflects rs g =
     ((\<forall>c. distinct (members (gw_subscribers g) c) \<and> map_wf (targets_of g c)) \<and>
      (\<forall>c s. s \<in> set (members (gw_subscribers g) c) \<longleftrightarrow> listens rs c s) \<and>
      (\<forall>c u. map_get (targets_of g c) u = registered rs c u))"

lemma members_set: "members (map_set k v m) c = (if c = k then v else members m c)"
  by (simp add: members_def map_get_set)

lemma members_delete: "members (map_delete k m) c = (if c = k then [] else members m c)"
  by (simp add: members_def map_get_delete)

lemma members_none: "map_get m k = None \<Longrightarrow> members m k = []"
  by (simp add: members_def)

lemma members_some: "map_get m k = Some v \<Longrightarrow> members m k = v"
  by (simp add: members_def)

lemma registered_keys: "registered rs c u = Some t \<Longrightarrow> pt_channel t = c \<and> pt_userId t = u"
proof (induction rs)
  case (Cons r rs)
  then show ?case
    by (cases r) (auto split: option.splits if_splits)
qed simp

lemma members_connect:
  "members (gw_subscribers (snd (ws_connect s q g))) c =
     (if filled_string q = Some c then set_add s (members (gw_subscribers g) c) else members (gw_subscribers g) c)"
  unfolding ws_connect_def by (cases "filled_string q") (simp_all add: Let_def members_set members_def del: filled_string_iff)

lemma members_closed:
  "members (gw_subscribers (ws_closed channel s g)) c =
     (if c = channel then removeAll s (members (gw_subscribers g) c) else members (gw_subscribers g) c)"
  by (cases "map_get (gw_subscribers g) channel")
     (simp_all add: ws_closed_def Let_def members_set members_delete members_none members_some)

lemma targets_register:
  "targets_of (snd (push_register body g)) c =
     (case registration_of body of
        Some t \<Rightarrow> if pt_channel t = c then map_set (pt_userId t) t (targets_of g c) else targets_of g c
      | None \<Rightarrow> targets_of g c)"
  by (cases "registration_of body") (simp_all add: push_register_def Let_def targets_of_def members_def map_get_set)

lemma targets_unregister:
  "targets_of (snd (push_unregister body g)) c =
     (case unregistration_of body of
        Some (channel, u) \<Rightarrow> if channel = c then map_delete u (targets_of g c) else targets_of g c
      | None \<Rightarrow> targets_of g c)"
proof (cases "unregistration_of body")
  case None
  then show ?thesis by (simp add: push_unregister_def)
next
  case (Some p)
  then show ?thesis
    by (cases p; cases "map_get (gw_pushRegistrations g) (fst p)")
       (auto simp: push_unregister_def Let_def targets_of_def members_set members_delete members_none members_some)
qed

lemma connect_frame [simp]: "gw_pushRegistrations (snd (ws_connect s q g)) = gw_pushRegistrations g"
  by (simp add: ws_connect_def Let_def split: option.split)

lemma closed_frame [simp]: "gw_pushRegistrations (ws_closed c s g) = gw_pushRegistrations g"
  by (simp add: ws_closed_def Let_def split: option.split)

lemma register_frame [simp]: "gw_subscribers (snd (push_register body g)) = gw_subscribers g"
  by (simp add: push_register_def Let_def split: option.split)

lemma unregister_frame [simp]: "gw_subscribers (snd (push_unregister body g)) = gw_subscribers g"
  by (simp add: push_unregister_def Let_def split: option.split prod.split)

lemma push_all_frame [simp]:
  "gw_subscribers (push_all notifier c e ts g) = gw_subscribers g"
  "gw_pushRegistrations (push_all notifier c e ts g) = gw_pushRegistrations g"
  "gw_sent (push_all notifier c e ts g) = gw_sent g"
  by (simp_all add: push_all_def Let_def)

lemma publishToChannel_frame [simp]:
  "gw_subscribers (snd (publishToChannel h isOpen notifier c e g)) = gw_subscribers g"
  "gw_pushRegistrations (snd (publishToChannel h isOpen notifier c e g)) = gw_pushRegistrations g"
  by (simp_all add: publishToChannel_def Let_def split: option.split)

lemma realtime_publish_frame [simp]:
  "gw_subscribers (snd (realtime_publish h key isOpen notifier header body g)) = gw_subscribers g"
  "gw_pushRegistrations (snd (realtime_publish h key isOpen notifier header body g)) = gw_pushRegistrations g"
  by (simp_all add: realtime_publish_def split: option.split)

lemmas gateway_members = members_connect members_closed targets_register targets_unregister

lemma reflects_step:
  assumes "gateway_reflects rs g"
  shows "gateway_reflects (r # rs) (gateway_step h key notifier r g)"
proof -
  note a = assms [unfolded gateway_reflects_def]
  show ?thesis
  proof (cases r)
    case (Connect s q)
    then show ?thesis using a by (auto simp: gateway_reflects_def members_connect targets_of_def)
  next
    case (Closed c s)
    then show ?thesis using a by (auto simp: gateway_reflects_def members_closed targets_of_def distinct_removeAll)
  next
    case (Register body)
    then show ?thesis using a
      by (cases "registration_of body") (auto simp: gateway_reflects_def targets_register map_get_set)
  next
    case (Unregister body)
    then show ?thesis using a
      by (cases "unregistration_of body")
         (auto simp: gateway_reflects_def targets_unregister map_get_delete map_wf_delete split: if_splits)
  next
    case (Publish isOpen header body)
    then show ?thesis using a by (simp add: gateway_reflects_def targets_of_def)
  qed
qed

lemma reflects_run: "gateway_reflects (rev rs) (fold (gateway_step h key notifier) rs new_gateway)"
proof (induction rs rule: rev_induct)
  case Nil
  then show ?case by (simp add: gateway_reflects_def new_gateway_def members_def targets_of_def)
next
  case (snoc r rs)
  then show ?case by (simp add: reflects_step)
qed

section \<open>Delivery\<close>

text \<open>
  A publish that is let through reaches every open socket that listens to the channel once;
  when there is none it is pushed once to every registered user.
\<close>

definition push_messages :: "string \<Rightarrow> (string \<times> json) list \<Rightarrow> pushFallbackTarget list \<Rightarrow> pushFallbackMessage list" where
  "push_messages channel env targets =
     map (\<lambda>t. \<lparr>pm_channel = channel, pm_envelope = env, pm_target = t\<rparr>) targets"

lemma publishToChannel_effect:
  assumes "isRealtimeEnvelope h (Some (JObj env))"
  shows "fst (publishToChannel h isOpen notifier c (Some (JObj env)) g) = Inr ()"
    and "gw_sent (snd (publishToChannel h isOpen notifier c (Some (JObj env)) g)) =
      gw_sent g @ map (\<lambda>s. (s, json_stringify (JObj env))) (filter isOpen (members (gw_subscribers g) c))"
    and "gw_pushed (snd (publishToChannel h isOpen notifier c (Some (JObj env)) g)) =
      gw_pushed g @ (if filter isOpen (members (gw_subscribers g) c) \<noteq> [] then []
                     else push_messages c env (map_values (targets_of g c)))"
  using assms
  by (simp_all add: publishToChannel_def Let_def jobject_def members_def targets_of_def push_messages_def push_all_def
      map_values_def split: option.split)

definition lets_through :: "host \<Rightarrow> string option \<Rightarrow> string option \<Rightarrow> json option \<Rightarrow> bool" where
  "lets_through h key header body =
     ((key = None \<or> key = Some [] \<or> header = key) \<and> filled_string (body_get body ''channel'') \<noteq> None \<and>
      isRealtimeEnvelope h (body_get body ''envelope''))"

lemma registered_targets:
  assumes "gateway_reflects rs g"
  shows "distinct (map pt_userId (map_values (targets_of g c))) \<and>
    set (map_values (targets_of g c)) = {t. \<exists>u. registered rs c u = Some t}"
proof -
  let ?m = "targets_of g c"
  have wf: "map_wf ?m" and get: "map_get ?m u = registered rs c u" for u
    using assms by (simp_all add: gateway_reflects_def)
  have "pt_userId (snd e) = fst e" if "e \<in> set ?m" for e
    using that get registered_keys map_wf_get [OF wf, of "fst e" "snd e"] by (metis prod.collapse)
  then have "map pt_userId (map_values ?m) = map_keys ?m"
    by (simp add: map_values_def map_keys_def)
  moreover have "set (map_values ?m) = {t. \<exists>u. registered rs c u = Some t}"
    by (auto simp: in_map_values [OF wf] get)
  ultimately show ?thesis using wf by (simp add: map_wf_def)
qed

lemma envelope_object: "isRealtimeEnvelope h e \<Longrightarrow> \<exists>env. e = Some (JObj env)"
  by (auto simp: isRealtimeEnvelope_def split: option.splits json.splits)

lemma publish_refused:
  "\<not> lets_through h key header body \<Longrightarrow>
   snd (realtime_publish h key isOpen notifier header body g) = g \<and>
   hs_status (fst (realtime_publish h key isOpen notifier header body g)) \<in> {400, 401}"
  unfolding realtime_publish_def lets_through_def gateway_error_def
  by (cases "filled_string (body_get body ''channel'')") (auto simp del: filled_string_iff)

lemma publish_let_through:
  assumes "lets_through h key header body"
  obtains channel env where "body_get body ''channel'' = Some (JStr channel)" "\<not> blank channel"
    "body_get body ''envelope'' = Some (JObj env)" "isRealtimeEnvelope h (Some (JObj env))"
    "realtime_publish h key isOpen notifier header body g =
       (gateway_ok ''published'' True, snd (publishToChannel h isOpen notifier channel (Some (JObj env)) g))"
proof -
  obtain channel where c: "filled_string (body_get body ''channel'') = Some channel"
    using assms by (auto simp: lets_through_def simp del: filled_string_iff)
  obtain env where f: "body_get body ''envelope'' = Some (JObj env)"
    using assms envelope_object by (auto simp: lets_through_def simp del: filled_string_iff)
  have "realtime_publish h key isOpen notifier header body g =
       (gateway_ok ''published'' True, snd (publishToChannel h isOpen notifier channel (Some (JObj env)) g))"
    using assms c f by (auto simp: lets_through_def realtime_publish_def simp del: filled_string_iff)
  with that c f assms show thesis by (auto simp: lets_through_def)
qed

text \<open>C34: Whatever requests the realtime gateway has served, a publish it lets through answers 200, sends
  the envelope exactly once to every open socket whose latest request on the channel was to
  connect, and pushes it exactly once to every user whose latest registration on the channel
  stands if, and only if, there is no such socket; a publish it refuses answers 400 or 401
  and reaches nobody.\<close>

theorem realtime_delivery:
  fixes rs :: "gateway_request list" and h key notifier isOpen header body
  defines "g \<equiv> fold (gateway_step h key notifier) rs new_gateway"
  defines "resp \<equiv> fst (realtime_publish h key isOpen notifier header body g)"
    and "g' \<equiv> snd (realtime_publish h key isOpen notifier header body g)"
  shows "if lets_through h key header body
         then \<exists>channel env sockets targets.
           body_get body ''channel'' = Some (JStr channel) \<and> body_get body ''envelope'' = Some (JObj env) \<and>
           hs_status resp = 200 \<and>
           distinct sockets \<and> set sockets = {s. listens (rev rs) channel s \<and> isOpen s} \<and>
           distinct (map pt_userId targets) \<and> set targets = {t. \<exists>u. registered (rev rs) channel u = Some t} \<and>
           gw_sent g' = gw_sent g @ map (\<lambda>s. (s, json_stringify (JObj env))) sockets \<and>
           gw_pushed g' = gw_pushed g @ (if sockets = [] then push_messages channel env targets else [])
         else hs_status resp \<in> {400, 401} \<and> g' = g"
proof (cases "lets_through h key header body")
  case False
  with publish_refused show ?thesis by (auto simp: resp_def g'_def)
next
  case True
  then obtain channel env where p: "body_get body ''channel'' = Some (JStr channel)"
    "body_get body ''envelope'' = Some (JObj env)" "isRealtimeEnvelope h (Some (JObj env))"
    "realtime_publish h key isOpen notifier header body g =
       (gateway_ok ''published'' True, snd (publishToChannel h isOpen notifier channel (Some (JObj env)) g))"
    by (rule publish_let_through)
  define sockets where "sockets = filter isOpen (members (gw_subscribers g) channel)"
  define targets where "targets = map_values (targets_of g channel)"
  have r: "gateway_reflects (rev rs) g" unfolding g_def by (rule reflects_run)
  have s: "distinct sockets \<and> set sockets = {s. listens (rev rs) channel s \<and> isOpen s}"
    using r by (auto simp: gateway_reflects_def sockets_def)
  have t: "distinct (map pt_userId targets) \<and> set targets = {t. \<exists>u. registered (rev rs) channel u = Some t}"
    unfolding targets_def by (rule registered_targets [OF r])
  note e = publishToChannel_effect(2, 3) [OF p(3), where isOpen = isOpen and notifier = notifier and c = channel and g = g,
      folded sockets_def targets_def]
  show ?thesis
    unfolding if_P [OF True] resp_def g'_def p(4) fst_conv snd_conv
    using s t p(1, 2) e by (intro exI [of _ channel] exI [of _ env] exI [of _ sockets] exI [of _ targets]) (simp add: gateway_ok_def)
qed

definition demo_publish :: "json option" where
  "demo_publish = Some (JObj [(''channel'', JStr ''c''),
     (''envelope'', JObj [(''eventType'', JStr ''e''), (''entityId'', JStr ''i''), (''occurredAt'', JStr ''5''),
        (''traceId'', JStr ''t''), (''payload'', JObj [])])])"

lemma demo_let_through: "lets_through epoch_host None None demo_publish"
  by code_simp

lemma realtime_delivery_witness:
  "gw_sent (snd (realtime_publish epoch_host None (\<lambda>s. s = 7) (\<lambda>m. Inr ()) None demo_publish
     (gateway_step epoch_host None (\<lambda>m. Inr ()) (Connect 7 (Some (JStr ''c''))) new_gateway))) \<noteq> []"
proof -
  have c: "body_get demo_publish ''channel'' = Some (JStr ''c'')" by code_simp
  have b: "\<not> blank ''c''" by code_simp
  show ?thesis
    using realtime_delivery [where rs = "[Connect 7 (Some (JStr ''c''))]" and h = epoch_host and key = None and header = None
        and isOpen = "\<lambda>s. s = 7" and notifier = "\<lambda>m. Inr ()" and body = demo_publish]
    unfolding if_P [OF demo_let_through] by (auto simp: b c)
qed

text \<open>What the relay of the core API publishes is accepted: the event type is listed, the order id
  and the trace id are not empty, and the payload is an object.\<close>

lemma relay_publication_accepted:
  assumes "p \<in> set (mapDomainEventToRealtimePublications event)" "host_getTime h (ev_occurredAt event) \<noteq> None"
  shows "isRealtimeEnvelope h (Some (envelope_json (rp_envelope p)))"
proof -
  from relay_only_named_orders [OF assms(1)] obtain i where i: "rp_envelope p = relay_envelope event i" "i \<noteq> []" by blast
  have ty: "ev_type event \<noteq> []"
    using assms(1) by (auto simp: mapDomainEventToRealtimePublications_def RELAY_EVENT_PREFIXES_def startsWith_def split: if_splits)
  have tr: "toNonEmptyString j = Some t \<Longrightarrow> t \<noteq> []" for j t
    by (auto simp: toNonEmptyString_def Let_def split: option.splits if_splits)
  have "re_traceId (relay_envelope event i) \<noteq> []"
    by (auto simp: relay_envelope_def Let_def nullish_def tr split: option.splits)
  with i ty assms(2) show ?thesis
    by (auto simp: isRealtimeEnvelope_def envelope_json_def jprop_def nonempty_string_def jobject_def relay_envelope_def Let_def)
qed

text \<open>A second \<open>unregister\<close> of a user answers \<open>removed: true\<close> while anyone else is registered on the
  channel.\<close>

lemma unregister_unknown_user:
  assumes "unregistration_of body = Some (channel, u)" "map_get (gw_pushRegistrations g) channel = Some users"
  shows "fst (push_unregister body g) = gateway_ok ''removed'' True"
  using assms by (simp add: push_unregister_def Let_def)

end
