(* ===== verification/AppAuth.thy ===== *)
theory AppAuth
  imports Requests
begin

text \<open>
  The sessions of the client applications (\<open>packages/app-auth\<close>, \<open>packages/shared-contracts\<close>):
  verification of identity tokens, app sessions with an access token and a rotating refresh
  token, the store of the refresh sessions, and the description of order stages the apps
  show. The library \<open>jose\<close>, SHA-256, random bytes and the clock are parameters; a time is in
  milliseconds, the lifetimes are whole seconds.
\<close>

section \<open>Shared contracts\<close>

datatype appPersona = Consumer_persona | Courier_persona | Merchant_persona | Admin_persona

definition persona_name :: "appPersona \<Rightarrow> string" where
  "persona_name p = (case p of
     Consumer_persona \<Rightarrow> ''consumer'' | Courier_persona \<Rightarrow> ''courier''
   | Merchant_persona \<Rightarrow> ''merchant'' | Admin_persona \<Rightarrow> ''admin'')"

definition personas :: "appPersona list" where
  "personas = [Consumer_persona, Courier_persona, Merchant_persona, Admin_persona]"

definition appRoles :: "user_role list" where
  "appRoles = [Consumer, Courier, Merchant_operator, Support_agent, Finance_ops, System_admin]"

record appSession =
  as_sessionId :: uuid
  as_userId :: string
  as_role :: user_role
  as_persona :: appPersona
  as_traceId :: string
  as_refreshTokenId :: uuid
  as_issuedAt :: iso_date
  as_expiresAt :: iso_date

definition createAppSession ::
  "host \<Rightarrow> int \<Rightarrow> uuid \<Rightarrow> string \<Rightarrow> user_role \<Rightarrow> appPersona \<Rightarrow> string \<Rightarrow> uuid \<Rightarrow> int \<Rightarrow> appSession"
where
  "createAppSession h now sessionId userId role persona traceId refreshTokenId expiresInSeconds =
     \<lparr>as_sessionId = sessionId, as_userId = userId, as_role = role, as_persona = persona, as_traceId = traceId,
      as_refreshTokenId = refreshTokenId, as_issuedAt = host_toISOString h now,
      as_expiresAt = host_toISOString h (now + expiresInSeconds * 1000)\<rparr>"

record demoSurfaceLink =
  dl_id :: appPersona
  dl_label :: string
  dl_href :: string
  dl_description :: string
  dl_isCurrent :: bool

definition DEFAULT_DEMO_SURFACE_URLS :: "(appPersona \<times> string) list" where
  "DEFAULT_DEMO_SURFACE_URLS =
     [(Consumer_persona, ''http://127.0.0.1:3003''), (Merchant_persona, ''http://127.0.0.1:3001''),
      (Courier_persona, ''http://127.0.0.1:3004''), (Admin_persona, ''http://127.0.0.1:3002'')]"

definition DEMO_SURFACE_DESCRIPTIONS :: "appPersona \<Rightarrow> string \<times> string" where
  "DEMO_SURFACE_DESCRIPTIONS p = (case p of
     Consumer_persona \<Rightarrow> (''Consumer'', ''Create the order and follow the promise window.'')
   | Merchant_persona \<Rightarrow> (''Merchant'', ''Accept the ticket and release it for dispatch.'')
   | Courier_persona \<Rightarrow> (''Courier'', ''Accept, pick up, and complete fulfillment.'')
   | Admin_persona \<Rightarrow> (''Admin'', ''Show SLOs, incidents, and operating controls.''))"

definition buildDemoSurfaceLinks :: "appPersona \<Rightarrow> (appPersona \<times> string) list \<Rightarrow> demoSurfaceLink list" where
  "buildDemoSurfaceLinks current overrides =
     map (\<lambda>(id, url). \<lparr>dl_id = id, dl_label = fst (DEMO_SURFACE_DESCRIPTIONS id),
            dl_href = nullish (map_of overrides id) url,
            dl_description = snd (DEMO_SURFACE_DESCRIPTIONS id), dl_isCurrent = (id = current)\<rparr>)
       DEFAULT_DEMO_SURFACE_URLS"

datatype stageTone = Attention | Active | Complete

record orderStageDescriptor =
  st_label :: string
  st_persona :: appPersona
  st_tone :: stageTone

definition describeOrderStage :: "string option \<Rightarrow> orderStageDescriptor" where
  "describeOrderStage status =
     (if status = Some ''CREATED''
      then \<lparr>st_label = ''Awaiting Merchant'', st_persona = Merchant_persona, st_tone = Attention\<rparr>
      else if status \<in> {Some ''MERCHANT_ACCEPTED'', Some ''DISPATCH_PENDING'', Some ''DISPATCH_REQUESTED''}
      then \<lparr>st_label = ''Dispatching'', st_persona = Merchant_persona, st_tone = Active\<rparr>
      else if status \<in> {Some ''COURIER_ASSIGNED'', Some ''PICKED_UP''}
      then \<lparr>st_label = ''Courier En Route'', st_persona = Courier_persona, st_tone = Active\<rparr>
      else if status = Some ''DELIVERED''
      then \<lparr>st_label = ''Completed'', st_persona = Consumer_persona, st_tone = Complete\<rparr>
      else \<lparr>st_label = ''Drafting Order'', st_persona = Consumer_persona, st_tone = Attention\<rparr>)"

section \<open>Errors\<close>

datatype appAuthErrorCode =
    OIDC_TOKEN_INVALID | OIDC_VERIFIER_MISCONFIGURED | APP_ACCESS_TOKEN_INVALID
  | APP_REFRESH_TOKEN_INVALID | APP_REFRESH_TOKEN_REPLAYED | APP_REFRESH_TOKEN_DEVICE_MISMATCH

definition app_code_name :: "appAuthErrorCode \<Rightarrow> string" where
  "app_code_name c = (case c of
     OIDC_TOKEN_INVALID \<Rightarrow> ''OIDC_TOKEN_INVALID''
   | OIDC_VERIFIER_MISCONFIGURED \<Rightarrow> ''OIDC_VERIFIER_MISCONFIGURED''
   | APP_ACCESS_TOKEN_INVALID \<Rightarrow> ''APP_ACCESS_TOKEN_INVALID''
   | APP_REFRESH_TOKEN_INVALID \<Rightarrow> ''APP_REFRESH_TOKEN_INVALID''
   | APP_REFRESH_TOKEN_REPLAYED \<Rightarrow> ''APP_REFRESH_TOKEN_REPLAYED''
   | APP_REFRESH_TOKEN_DEVICE_MISMATCH \<Rightarrow> ''APP_REFRESH_TOKEN_DEVICE_MISMATCH'')"

record appAuthError =
  ax_code :: appAuthErrorCode
  ax_message :: string

definition app_error :: "appAuthErrorCode \<Rightarrow> string \<Rightarrow> appAuthError" where
  "app_error code message = \<lparr>ax_code = code, ax_message = message\<rparr>"

record appAuthErrorResponse =
  ar_statusCode :: nat
  ar_errorCode :: appAuthErrorCode
  ar_message :: string

text \<open>What a handler catches: an \<open>AppAuthError\<close> or anything else.\<close>

datatype thrown_error = App_auth_error appAuthError | Other_error string

definition app_error_response :: "appAuthErrorCode \<Rightarrow> nat \<times> string" where
  "app_error_response c = (case c of
     OIDC_TOKEN_INVALID \<Rightarrow> (401, ''OIDC token verification failed.'')
   | OIDC_VERIFIER_MISCONFIGURED \<Rightarrow> (500, ''OIDC verifier configuration is invalid.'')
   | APP_REFRESH_TOKEN_INVALID \<Rightarrow> (401, ''Refresh token is invalid.'')
   | APP_REFRESH_TOKEN_REPLAYED \<Rightarrow> (401, ''Refresh token replay detected.'')
   | APP_REFRESH_TOKEN_DEVICE_MISMATCH \<Rightarrow> (401, ''Refresh token device binding mismatch.'')
   | APP_ACCESS_TOKEN_INVALID \<Rightarrow> (401, ''App access token is invalid.''))"

definition mapAppAuthError :: "thrown_error \<Rightarrow> appAuthErrorResponse option" where
  "mapAppAuthError err =
     (case err of
        Other_error _ \<Rightarrow> None
      | App_auth_error e \<Rightarrow>
          (let (status, message) = app_error_response (ax_code e)
           in Some \<lparr>ar_statusCode = status, ar_errorCode = ax_code e, ar_message = message\<rparr>))"

section \<open>Identity tokens\<close>

record oidcIdentity =
  oi_subject :: string
  oi_email :: "string option"
  oi_issuer :: "string option"
  oi_audience :: "json option"
  oi_claims :: "(string \<times> json) list"

type_synonym oidcVerifier = "string \<Rightarrow> appAuthError + oidcIdentity"

definition toOidcIdentity :: "(string \<times> json) list \<Rightarrow> appAuthError + oidcIdentity" where
  "toOidcIdentity payload =
     (case filled_string (jprop payload ''sub'') of
        None \<Rightarrow> Inl (app_error OIDC_TOKEN_INVALID ''OIDC token subject is missing'')
      | Some sub \<Rightarrow> Inr
          \<lparr>oi_subject = sub, oi_email = jstring (jprop payload ''email''), oi_issuer = jstring (jprop payload ''iss''),
           oi_audience = (case jprop payload ''aud'' of
              Some (JStr s) \<Rightarrow> Some (JStr s) | Some (JArr xs) \<Rightarrow> Some (JArr xs) | _ \<Rightarrow> None),
           oi_claims = payload\<rparr>)"

text \<open>\<open>jwtVerify\<close> against the remote key set is a parameter that rejects or gives the payload; the
  \<open>catch\<close> also covers the check of the subject.\<close>

definition createJwksOidcVerifier :: "(string \<Rightarrow> (string \<times> json) list option) \<Rightarrow> oidcVerifier" where
  "createJwksOidcVerifier remote_verify idToken =
     (case remote_verify idToken of
        None \<Rightarrow> Inl (app_error OIDC_TOKEN_INVALID ''OIDC token verification failed'')
      | Some payload \<Rightarrow>
          (case toOidcIdentity payload of
             Inl _ \<Rightarrow> Inl (app_error OIDC_TOKEN_INVALID ''OIDC token verification failed'')
           | Inr identity \<Rightarrow> Inr identity))"

definition DEV_OIDC_ISSUER :: string where "DEV_OIDC_ISSUER = ''fleetfeast.dev''"

definition DEV_OIDC_AUDIENCE :: string where "DEV_OIDC_AUDIENCE = ''fleetfeast.dev.clients''"

definition segment :: "string list \<Rightarrow> nat \<Rightarrow> string" where
  "segment parts n = (if n < length parts then parts ! n else [])"

definition dev_claims :: "string \<Rightarrow> string \<Rightarrow> string list \<Rightarrow> (string \<times> json) list" where
  "dev_claims subject emailSegment roles =
     [(''sub'', JStr subject), (''iss'', JStr DEV_OIDC_ISSUER), (''aud'', JStr DEV_OIDC_AUDIENCE)] @
     (if 0 < length emailSegment then [(''email'', JStr emailSegment)] else []) @
     (if 0 < length roles then [(''roles'', JArr (map JStr roles))] else [])"

definition roles_of_segment :: "string \<Rightarrow> string list" where
  "roles_of_segment rolesSegment = filter (\<lambda>v. 0 < length v) (map js_trim (split_char (CHR '','') rolesSegment))"

definition dev_parts :: "string \<Rightarrow> string list" where
  "dev_parts idToken = take 3 (split_char (CHR '':'') (drop (length ''dev:'') idToken))"

definition createDevOidcVerifier :: oidcVerifier where
  "createDevOidcVerifier idToken =
     (if \<not> startsWith idToken ''dev:''
      then Inl (app_error OIDC_TOKEN_INVALID ''Expected dev token format'')
      else
        let parts = dev_parts idToken;
            subject = segment parts 0;
            emailSegment = segment parts 1;
            rolesSegment = segment parts 2
        in if subject = [] \<or> blank subject
           then Inl (app_error OIDC_TOKEN_INVALID ''subject is required in dev token'')
           else Inr \<lparr>oi_subject = subject, oi_email = (if 0 < length emailSegment then Some emailSegment else None),
                     oi_issuer = Some DEV_OIDC_ISSUER, oi_audience = Some (JStr DEV_OIDC_AUDIENCE),
                     oi_claims = dev_claims subject emailSegment (roles_of_segment rolesSegment)\<rparr>)"

text \<open>A string of the environment or of an option counts when it is present and not empty.\<close>

definition given :: "string option \<Rightarrow> bool" where
  "given s = (s \<noteq> None \<and> s \<noteq> Some [])"

definition createOidcVerifierFromEnv ::
  "(string \<Rightarrow> string \<Rightarrow> string \<Rightarrow> int \<Rightarrow> oidcVerifier) \<Rightarrow> string option \<Rightarrow> string option \<Rightarrow> string option \<Rightarrow>
   appAuthError + oidcVerifier"
where
  "createOidcVerifierFromEnv jwks_verifier jwksUri issuer audience =
     (if \<not> given jwksUri \<and> \<not> given issuer \<and> \<not> given audience then Inr createDevOidcVerifier
      else if \<not> given jwksUri \<or> \<not> given issuer \<or> \<not> given audience
      then Inl (app_error OIDC_VERIFIER_MISCONFIGURED
             ''OIDC_JWKS_URI, OIDC_ISSUER, and OIDC_AUDIENCE must be provided together'')
      else Inr (jwks_verifier (nullish jwksUri []) (nullish issuer []) (nullish audience []) 5))"

definition extractRolesFromClaims :: "(string \<times> json) list \<Rightarrow> string list" where
  "extractRolesFromClaims claims =
     (let claimsRoles = (case jprop claims ''roles'' of
            None \<Rightarrow> jprop claims ''cognito:groups'' | Some JNull \<Rightarrow> jprop claims ''cognito:groups'' | Some r \<Rightarrow> Some r)
      in case jarray claimsRoles of
           None \<Rightarrow> []
         | Some values \<Rightarrow>
             filter (\<lambda>v. 0 < length v) (map js_trim (List.map_filter (\<lambda>v. jstring (Some v)) values)))"

lemma js_trim_idem [simp]: "js_trim (js_trim s) = js_trim s"
proof -
  define t where "t = dropWhile is_space s"
  define u where "u = rev (dropWhile is_space (rev t))"
  have p: "prefix u t"
    unfolding u_def by (metis rev_rev_ident suffix_dropWhile suffix_to_prefix)
  have "dropWhile is_space u = u"
  proof (cases u)
    case (Cons a r)
    then obtain r' where "t = a # r'" using p by (cases t) auto
    then have "\<not> is_space a" unfolding t_def by (metis hd_dropWhile list.distinct(1) list.sel(1))
    with Cons show ?thesis by simp
  qed simp
  then have "js_trim u = rev (dropWhile is_space (rev u))" by (simp add: js_trim_def)
  also have "\<dots> = u" by (simp add: u_def dropWhile_idem)
  finally show ?thesis by (simp add: js_trim_def u_def t_def)
qed

lemma trim_nonempty_roles:
  "filter (\<lambda>v. 0 < length v) (map js_trim (filter (\<lambda>v. 0 < length v) (map js_trim xs))) =
   filter (\<lambda>v. 0 < length v) (map js_trim xs)"
  by (induction xs) auto

text \<open>The roles of a development token come back without blanks and empty entries.\<close>

lemma extract_dev_roles: "extractRolesFromClaims (dev_claims subject email (roles_of_segment r)) = roles_of_segment r"
proof -
  have m: "List.map_filter (\<lambda>v. jstring (Some v)) (map JStr rs) = rs" for rs
    by (induction rs) (simp_all add: List.map_filter_simps)
  have "jprop (dev_claims subject email roles) ''roles'' = (if roles = [] then None else Some (JArr (map JStr roles)))"
    and "jprop (dev_claims subject email roles) ''cognito:groups'' = None" for roles
    by (simp_all add: dev_claims_def jprop_def)
  then show ?thesis
    by (cases "roles_of_segment r = []")
       (simp_all add: extractRolesFromClaims_def jarray_def m, simp add: roles_of_segment_def trim_nonempty_roles [simplified])
qed

lemma dev_token_roles:
  assumes "createDevOidcVerifier idToken = Inr identity"
  shows "extractRolesFromClaims (oi_claims identity) = roles_of_segment (segment (dev_parts idToken) 2) \<and>
    \<not> blank (oi_subject identity) \<and> prefix ''dev:'' idToken"
proof -
  have s: "startsWith idToken ''dev:''" and b: "\<not> blank (segment (dev_parts idToken) 0)"
    using assms by (auto simp only: createDevOidcVerifier_def Let_def split: if_splits)
  have "identity = \<lparr>oi_subject = segment (dev_parts idToken) 0,
      oi_email = (if 0 < length (segment (dev_parts idToken) 1) then Some (segment (dev_parts idToken) 1) else None),
      oi_issuer = Some DEV_OIDC_ISSUER, oi_audience = Some (JStr DEV_OIDC_AUDIENCE),
      oi_claims = dev_claims (segment (dev_parts idToken) 0) (segment (dev_parts idToken) 1)
        (roles_of_segment (segment (dev_parts idToken) 2))\<rparr>"
    using assms by (auto simp only: createDevOidcVerifier_def Let_def split: if_splits)
  with s b show ?thesis by (simp add: extract_dev_roles startsWith_def)
qed

section \<open>Refresh sessions\<close>

record refreshSessionRecord =
  rf_tokenHash :: string
  rf_familyId :: uuid
  rf_sessionId :: uuid
  rf_userId :: string
  rf_role :: user_role
  rf_persona :: appPersona
  rf_traceId :: string
  rf_refreshTokenId :: uuid
  rf_deviceId :: "string option"
  rf_issuedAt :: iso_date
  rf_expiresAt :: iso_date
  rf_usedAt :: "iso_date option"

record refresh_store =
  fs_byHash :: "(string, refreshSessionRecord) jsmap"
  fs_hashesByFamily :: "(uuid, string list) jsmap"

definition empty_refresh_store :: refresh_store where
  "empty_refresh_store = \<lparr>fs_byHash = [], fs_hashesByFamily = []\<rparr>"

definition refresh_put :: "refreshSessionRecord \<Rightarrow> refresh_store \<Rightarrow> refresh_store" where
  "refresh_put r s =
     (let familyHashes = nullish (map_get (fs_hashesByFamily s) (rf_familyId r)) []
      in s\<lparr>fs_byHash := map_set (rf_tokenHash r) r (fs_byHash s),
           fs_hashesByFamily := map_set (rf_familyId r) (set_add (rf_tokenHash r) familyHashes) (fs_hashesByFamily s)\<rparr>)"

definition refresh_get :: "string \<Rightarrow> refresh_store \<Rightarrow> refreshSessionRecord option" where
  "refresh_get tokenHash s = map_get (fs_byHash s) tokenHash"

definition refresh_markUsed :: "string \<Rightarrow> iso_date \<Rightarrow> refresh_store \<Rightarrow> refresh_store" where
  "refresh_markUsed tokenHash usedAt s =
     (case map_get (fs_byHash s) tokenHash of
        None \<Rightarrow> s
      | Some r \<Rightarrow> s\<lparr>fs_byHash := map_set tokenHash (r\<lparr>rf_usedAt := Some usedAt\<rparr>) (fs_byHash s)\<rparr>)"

definition refresh_revokeFamily :: "uuid \<Rightarrow> iso_date \<Rightarrow> refresh_store \<Rightarrow> refresh_store" where
  "refresh_revokeFamily familyId revokedAt s =
     (case map_get (fs_hashesByFamily s) familyId of
        None \<Rightarrow> s
      | Some familyHashes \<Rightarrow> fold (\<lambda>tokenHash s. refresh_markUsed tokenHash revokedAt s) familyHashes s)"

section \<open>App sessions\<close>

text \<open>
  \<open>jose_sign secret claims\<close> is the compact token with the header \<open>HS256\<close>;
  \<open>jose_verify secret issuer audience now token\<close> is its payload when the signature, the issuer,
  the audience and the time claims are in order.
\<close>

record app_lib =
  jose_sign :: "string \<Rightarrow> (string \<times> json) list \<Rightarrow> string"
  jose_verify :: "string \<Rightarrow> string \<Rightarrow> string \<Rightarrow> int \<Rightarrow> string \<Rightarrow> (string \<times> json) list option"
  lib_sha256_hex :: "string \<Rightarrow> string"

record app_auth_service =
  aa_secretKey :: string
  aa_store :: refresh_store
  aa_accessTtlSeconds :: int
  aa_refreshTtlSeconds :: int
  aa_issuer :: string
  aa_audience :: string

record appSessionAuthOptions =
  ao_jwtSecret :: string
  ao_accessTtlSeconds :: "int option"
  ao_refreshTtlSeconds :: "int option"
  ao_issuer :: "string option"
  ao_audience :: "string option"

definition new_app_auth :: "appSessionAuthOptions \<Rightarrow> appAuthError + app_auth_service" where
  "new_app_auth opts =
     (if length (js_trim (ao_jwtSecret opts)) < 16
      then Inl (app_error OIDC_VERIFIER_MISCONFIGURED ''APP_SESSION_JWT_SECRET must be 16+ chars'')
      else Inr \<lparr>aa_secretKey = ao_jwtSecret opts, aa_store = empty_refresh_store,
                aa_accessTtlSeconds = nullish (ao_accessTtlSeconds opts) 900,
                aa_refreshTtlSeconds = nullish (ao_refreshTtlSeconds opts) (60 * 60 * 24 * 14),
                aa_issuer = nullish (ao_issuer opts) ''fleetfeast.app-services'',
                aa_audience = nullish (ao_audience opts) ''fleetfeast.app-clients''\<rparr>)"

definition app_auth_from_env :: "string option \<Rightarrow> string option \<Rightarrow> string option \<Rightarrow> appAuthError + app_auth_service" where
  "app_auth_from_env secret issuer audience =
     new_app_auth \<lparr>ao_jwtSecret = nullish secret ''fleetfeast-dev-session-secret'',
       ao_accessTtlSeconds = None, ao_refreshTtlSeconds = None,
       ao_issuer = Some (nullish issuer ''fleetfeast.app-services''),
       ao_audience = Some (nullish audience ''fleetfeast.app-clients'')\<rparr>"

record issueAppSessionInput =
  ii_userId :: string
  ii_role :: user_role
  ii_persona :: appPersona
  ii_traceId :: string
  ii_deviceId :: "string option"

record refreshAppSessionInput =
  rx_refreshToken :: string
  rx_traceId :: string
  rx_deviceId :: "string option"

record appTokenPair =
  tp_accessToken :: string
  tp_refreshToken :: string
  tp_expiresInSeconds :: int
  tp_refreshExpiresInSeconds :: int
  tp_refreshExpiresAt :: iso_date

record appSessionBundle =
  sb_session :: appSession
  sb_tokenPair :: appTokenPair

text \<open>The identifiers, random bytes and clock readings an issue draws, in the order of the code.\<close>

record issue_draws =
  id_refreshTokenId :: uuid
  id_sessionId :: uuid
  id_sessionNow :: int
  id_bytes :: string
  id_refreshNow :: int
  id_signNow :: int

definition generateOpaqueToken :: "string \<Rightarrow> string" where
  "generateOpaqueToken bytes = base64Url bytes"

definition hashOpaqueToken :: "app_lib \<Rightarrow> string \<Rightarrow> string" where
  "hashOpaqueToken L token = lib_sha256_hex L token"

definition access_claims :: "string \<Rightarrow> string \<Rightarrow> int \<Rightarrow> int \<Rightarrow> appSession \<Rightarrow> string option \<Rightarrow> (string \<times> json) list" where
  "access_claims issuer audience nowSeconds ttl session deviceId =
     [(''sub'', JStr (as_userId session)), (''sid'', JStr (as_sessionId session)),
      (''role'', JStr (role_name (as_role session))), (''persona'', JStr (persona_name (as_persona session))),
      (''traceId'', JStr (as_traceId session)), (''refreshTokenId'', JStr (as_refreshTokenId session))] @
     (if given deviceId then [(''deviceId'', JStr (nullish deviceId []))] else []) @
     [(''iss'', JStr issuer), (''aud'', JStr audience), (''iat'', JNum (num_int nowSeconds)),
      (''exp'', JNum (num_int (nowSeconds + ttl)))]"

definition signAppAccessToken :: "app_lib \<Rightarrow> int \<Rightarrow> appSession \<Rightarrow> string option \<Rightarrow> app_auth_service \<Rightarrow> string" where
  "signAppAccessToken L now session deviceId s =
     jose_sign L (aa_secretKey s)
       (access_claims (aa_issuer s) (aa_audience s) (now div 1000) (aa_accessTtlSeconds s) session deviceId)"

definition issueSessionInternal ::
  "host \<Rightarrow> app_lib \<Rightarrow> issue_draws \<Rightarrow> issueAppSessionInput \<Rightarrow> uuid \<Rightarrow> app_auth_service \<Rightarrow> appSessionBundle \<times> app_auth_service"
where
  "issueSessionInternal h L d inp familyId s =
     (let session = createAppSession h (id_sessionNow d) (id_sessionId d) (ii_userId inp) (ii_role inp) (ii_persona inp)
            (ii_traceId inp) (id_refreshTokenId d) (aa_accessTtlSeconds s);
          refreshToken = generateOpaqueToken (id_bytes d);
          refreshExpiresAt = host_toISOString h (id_refreshNow d + aa_refreshTtlSeconds s * 1000);
          s1 = s\<lparr>aa_store := refresh_put
                 \<lparr>rf_tokenHash = hashOpaqueToken L refreshToken, rf_familyId = familyId,
                  rf_sessionId = as_sessionId session, rf_userId = as_userId session, rf_role = as_role session,
                  rf_persona = as_persona session, rf_traceId = as_traceId session,
                  rf_refreshTokenId = id_refreshTokenId d, rf_deviceId = ii_deviceId inp,
                  rf_issuedAt = host_toISOString h (id_refreshNow d), rf_expiresAt = refreshExpiresAt,
                  rf_usedAt = None\<rparr> (aa_store s)\<rparr>
      in (\<lparr>sb_session = session,
           sb_tokenPair = \<lparr>tp_accessToken = signAppAccessToken L (id_signNow d) session (ii_deviceId inp) s1,
             tp_refreshToken = refreshToken, tp_expiresInSeconds = aa_accessTtlSeconds s,
             tp_refreshExpiresInSeconds = aa_refreshTtlSeconds s, tp_refreshExpiresAt = refreshExpiresAt\<rparr>\<rparr>, s1))"

definition issueAppSession ::
  "host \<Rightarrow> app_lib \<Rightarrow> uuid \<Rightarrow> issue_draws \<Rightarrow> issueAppSessionInput \<Rightarrow> app_auth_service \<Rightarrow> appSessionBundle \<times> app_auth_service"
where
  "issueAppSession h L familyId d inp s = issueSessionInternal h L d inp familyId s"

text \<open>\<open>new Date(expiresAt).getTime() <= now\<close>: an invalid date compares false.\<close>

definition refresh_expired :: "host \<Rightarrow> int \<Rightarrow> refreshSessionRecord \<Rightarrow> bool" where
  "refresh_expired h now r = (case host_getTime h (rf_expiresAt r) of Some t \<Rightarrow> t \<le> now | None \<Rightarrow> False)"

definition refreshAppSession ::
  "host \<Rightarrow> app_lib \<Rightarrow> int \<Rightarrow> issue_draws \<Rightarrow> refreshAppSessionInput \<Rightarrow> app_auth_service \<Rightarrow>
   (app_auth_service, appAuthError, appSessionBundle) outcome"
where
  "refreshAppSession h L now d inp s =
     (let tokenHash = hashOpaqueToken L (rx_refreshToken inp)
      in case refresh_get tokenHash (aa_store s) of
           None \<Rightarrow> (Inl (app_error APP_REFRESH_TOKEN_INVALID ''Refresh token was not found''), s)
         | Some r \<Rightarrow>
             if refresh_expired h now r
             then (Inl (app_error APP_REFRESH_TOKEN_INVALID ''Refresh token expired''), s)
             else if given (rf_deviceId r) \<and> rf_deviceId r \<noteq> rx_deviceId inp
             then (Inl (app_error APP_REFRESH_TOKEN_DEVICE_MISMATCH ''Refresh token does not match bound device''), s)
             else if given (rf_usedAt r)
             then (Inl (app_error APP_REFRESH_TOKEN_REPLAYED ''Refresh token replay detected''),
                   s\<lparr>aa_store := refresh_revokeFamily (rf_familyId r) (host_toISOString h now) (aa_store s)\<rparr>)
             else
               let s1 = s\<lparr>aa_store := refresh_markUsed tokenHash (host_toISOString h now) (aa_store s)\<rparr>;
                   (bundle, s2) = issueSessionInternal h L d
                     \<lparr>ii_userId = rf_userId r, ii_role = rf_role r, ii_persona = rf_persona r,
                      ii_traceId = rx_traceId inp, ii_deviceId = rf_deviceId r\<rparr> (rf_familyId r) s1
               in (Inr bundle, s2))"

record appAccessTokenClaims =
  ac_userId :: string
  ac_sessionId :: string
  ac_role :: user_role
  ac_persona :: appPersona
  ac_traceId :: string
  ac_refreshTokenId :: string
  ac_deviceId :: "string option"

definition isAppRole :: "json option \<Rightarrow> user_role option" where
  "isAppRole candidate = do { s \<leftarrow> jstring candidate; named role_name appRoles s }"

definition isAppPersona :: "json option \<Rightarrow> appPersona option" where
  "isAppPersona candidate = do { s \<leftarrow> jstring candidate; named persona_name personas s }"

definition toAppAccessTokenClaims :: "(string \<times> json) list \<Rightarrow> appAuthError + appAccessTokenClaims" where
  "toAppAccessTokenClaims payload =
     (let claims = do {
            userId \<leftarrow> jstring (jprop payload ''sub'');
            sessionId \<leftarrow> jstring (jprop payload ''sid'');
            role \<leftarrow> isAppRole (jprop payload ''role'');
            persona \<leftarrow> isAppPersona (jprop payload ''persona'');
            traceId \<leftarrow> jstring (jprop payload ''traceId'');
            refreshTokenId \<leftarrow> jstring (jprop payload ''refreshTokenId'');
            Some \<lparr>ac_userId = userId, ac_sessionId = sessionId, ac_role = role, ac_persona = persona,
                  ac_traceId = traceId, ac_refreshTokenId = refreshTokenId,
                  ac_deviceId = jstring (jprop payload ''deviceId'')\<rparr>
          }
      in case claims of
           None \<Rightarrow> Inl (app_error APP_ACCESS_TOKEN_INVALID ''Access token payload is invalid'')
         | Some c \<Rightarrow> Inr c)"

definition verifyAppAccessToken :: "app_lib \<Rightarrow> int \<Rightarrow> string \<Rightarrow> app_auth_service \<Rightarrow> appAuthError + appAccessTokenClaims" where
  "verifyAppAccessToken L now accessToken s =
     (case jose_verify L (aa_secretKey s) (aa_issuer s) (aa_audience s) now accessToken of
        None \<Rightarrow> Inl (app_error APP_ACCESS_TOKEN_INVALID ''Access token verification failed'')
      | Some payload \<Rightarrow>
          (case toAppAccessTokenClaims payload of
             Inl _ \<Rightarrow> Inl (app_error APP_ACCESS_TOKEN_INVALID ''Access token verification failed'')
           | Inr c \<Rightarrow> Inr c))"

section \<open>Families of refresh tokens\<close>

definition family_hashes :: "refresh_store \<Rightarrow> uuid \<Rightarrow> string list" where
  "family_hashes st f = nullish (map_get (fs_hashesByFamily st) f) []"

definition used_at :: "iso_date \<Rightarrow> refreshSessionRecord \<Rightarrow> refreshSessionRecord" where
  "used_at t r = r\<lparr>rf_usedAt := Some t\<rparr>"

lemma used_at_sel [simp]:
  "rf_tokenHash (used_at t r) = rf_tokenHash r" "rf_familyId (used_at t r) = rf_familyId r"
  "rf_userId (used_at t r) = rf_userId r" "rf_role (used_at t r) = rf_role r"
  "rf_persona (used_at t r) = rf_persona r" "rf_deviceId (used_at t r) = rf_deviceId r"
  "rf_usedAt (used_at t r) = Some t"
  by (simp_all add: used_at_def)

lemma get_put: "refresh_get k (refresh_put r st) = (if k = rf_tokenHash r then Some r else refresh_get k st)"
  by (simp add: refresh_get_def refresh_put_def Let_def map_get_set)

lemma hashes_put:
  "family_hashes (refresh_put r st) f =
     (if f = rf_familyId r then set_add (rf_tokenHash r) (family_hashes st f) else family_hashes st f)"
  by (simp add: family_hashes_def refresh_put_def Let_def map_get_set)

lemma get_mark:
  "refresh_get k (refresh_markUsed t u st) = (if k = t then map_option (used_at u) (refresh_get k st) else refresh_get k st)"
  by (cases "map_get (fs_byHash st) t") (simp_all add: refresh_get_def refresh_markUsed_def map_get_set used_at_def)

lemma hashes_mark [simp]: "family_hashes (refresh_markUsed t u st) f = family_hashes st f"
  by (simp add: family_hashes_def refresh_markUsed_def split: option.split)

lemma hashes_marks [simp]: "family_hashes (fold (\<lambda>t st. refresh_markUsed t u st) ts st) f = family_hashes st f"
  by (induction ts arbitrary: st) simp_all

lemma used_at_twice: "map_option (used_at u) (map_option (used_at u) x) = map_option (used_at u) x"
  by (cases x) (simp_all add: used_at_def)

lemma get_marks:
  "refresh_get k (fold (\<lambda>t st. refresh_markUsed t u st) ts st) =
     (if k \<in> set ts then map_option (used_at u) (refresh_get k st) else refresh_get k st)"
  by (induction ts arbitrary: st) (auto simp: get_mark used_at_twice)

lemma get_revoke:
  "refresh_get k (refresh_revokeFamily f u st) =
     (if k \<in> set (family_hashes st f) then map_option (used_at u) (refresh_get k st) else refresh_get k st)"
  by (cases "map_get (fs_hashesByFamily st) f") (simp_all add: refresh_revokeFamily_def family_hashes_def get_marks)

lemma hashes_revoke [simp]: "family_hashes (refresh_revokeFamily f' u st) f = family_hashes st f"
  by (simp add: refresh_revokeFamily_def split: option.split)

lemmas store_reads = get_put get_mark get_revoke hashes_put

text \<open>A token is live while its session is unused.\<close>

definition token_in :: "refresh_store \<Rightarrow> uuid \<Rightarrow> string \<Rightarrow> bool" where
  "token_in st f k = (\<exists>r. refresh_get k st = Some r \<and> rf_familyId r = f)"

definition live_in :: "refresh_store \<Rightarrow> uuid \<Rightarrow> string \<Rightarrow> bool" where
  "live_in st f k = (\<exists>r. refresh_get k st = Some r \<and> rf_familyId r = f \<and> \<not> given (rf_usedAt r))"

definition same_binding :: "refreshSessionRecord \<Rightarrow> refreshSessionRecord \<Rightarrow> bool" where
  "same_binding r r' =
     (rf_userId r = rf_userId r' \<and> rf_role r = rf_role r' \<and> rf_persona r = rf_persona r' \<and> rf_deviceId r = rf_deviceId r')"

definition families_ok :: "refresh_store \<Rightarrow> bool" where
  "families_ok st =
     ((\<forall>k f. token_in st f k \<longrightarrow> k \<in> set (family_hashes st f)) \<and>
      (\<forall>f k k'. live_in st f k \<longrightarrow> live_in st f k' \<longrightarrow> k = k') \<and>
      (\<forall>k k' r r'. refresh_get k st = Some r \<longrightarrow> refresh_get k' st = Some r' \<longrightarrow> rf_familyId r = rf_familyId r' \<longrightarrow>
         same_binding r r'))"

lemma families_okD:
  assumes "families_ok st"
  shows "token_in st f k \<Longrightarrow> k \<in> set (family_hashes st f)"
    and "live_in st f k \<Longrightarrow> live_in st f k' \<Longrightarrow> k = k'"
    and "refresh_get k st = Some r \<Longrightarrow> refresh_get k' st = Some r' \<Longrightarrow> rf_familyId r = rf_familyId r' \<Longrightarrow> same_binding r r'"
  using assms unfolding families_ok_def by blast+

lemma families_okI:
  assumes "\<And>k f. token_in st f k \<Longrightarrow> k \<in> set (family_hashes st f)"
    and "\<And>f k k'. live_in st f k \<Longrightarrow> live_in st f k' \<Longrightarrow> k = k'"
    and "\<And>k k' r r'. refresh_get k st = Some r \<Longrightarrow> refresh_get k' st = Some r' \<Longrightarrow> rf_familyId r = rf_familyId r' \<Longrightarrow> same_binding r r'"
  shows "families_ok st"
  using assms unfolding families_ok_def by blast

lemma families_ok_empty: "families_ok empty_refresh_store"
  by (simp add: families_ok_def token_in_def live_in_def refresh_get_def empty_refresh_store_def)

text \<open>Marking tokens keeps everything and leaves fewer of them live.\<close>

definition marks :: "(string \<Rightarrow> bool) \<Rightarrow> iso_date \<Rightarrow> refresh_store \<Rightarrow> refresh_store \<Rightarrow> bool" where
  "marks P u st st' =
     ((\<forall>k. refresh_get k st' = (if P k then map_option (used_at u) (refresh_get k st) else refresh_get k st)) \<and>
      (\<forall>f. family_hashes st' f = family_hashes st f))"

lemma marks_revoke: "marks (\<lambda>k. k \<in> set (family_hashes st f)) u st (refresh_revokeFamily f u st)"
  by (simp add: marks_def get_revoke)

lemma marks_mark: "marks (\<lambda>k. k = t) u st (refresh_markUsed t u st)"
  by (simp add: marks_def get_mark)

lemma marks_get:
  assumes "marks P u st st'" "refresh_get k st' = Some r'"
  obtains r where "refresh_get k st = Some r" "r' = (if P k then used_at u r else r)"
  using assms by (cases "refresh_get k st") (auto simp: marks_def split: if_splits)

lemma marks_token: "marks P u st st' \<Longrightarrow> token_in st' f k = token_in st f k"
  by (auto simp: marks_def token_in_def split: if_splits)

lemma marks_live: "marks P u st st' \<Longrightarrow> u \<noteq> [] \<Longrightarrow> live_in st' f k = (live_in st f k \<and> \<not> P k)"
  by (auto simp: marks_def live_in_def given_def split: if_splits)

lemma marks_families:
  assumes "marks P u st st'" "u \<noteq> []" "families_ok st"
  shows "families_ok st'"
proof (rule families_okI)
  show "k \<in> set (family_hashes st' f)" if "token_in st' f k" for k f
    using that assms families_okD(1) [OF assms(3)] by (simp add: marks_token) (simp add: marks_def)
  show "k = k'" if "live_in st' f k" "live_in st' f k'" for f k k'
    using that families_okD(2) [OF assms(3)] unfolding marks_live [OF assms(1, 2)] by blast
  show "same_binding r r'"
    if g: "refresh_get k st' = Some r" "refresh_get k' st' = Some r'" "rf_familyId r = rf_familyId r'" for k k' r r'
  proof -
    obtain q where q: "refresh_get k st = Some q" "r = (if P k then used_at u q else q)"
      using marks_get [OF assms(1) g(1)] .
    obtain q' where q': "refresh_get k' st = Some q'" "r' = (if P k' then used_at u q' else q')"
      using marks_get [OF assms(1) g(2)] .
    have "same_binding q q'"
      using families_okD(3) [OF assms(3) q(1) q'(1)] g(3) q(2) q'(2) by (simp split: if_splits)
    then show ?thesis using q(2) q'(2) by (simp add: same_binding_def)
  qed
qed

lemma put_families:
  assumes "families_ok st" "refresh_get (rf_tokenHash r) st = None" "\<And>k. \<not> live_in st (rf_familyId r) k"
    and "\<And>k q. refresh_get k st = Some q \<Longrightarrow> rf_familyId q = rf_familyId r \<Longrightarrow> same_binding q r"
  shows "families_ok (refresh_put r st)"
proof (rule families_okI)
  show "k \<in> set (family_hashes (refresh_put r st) f)" if "token_in (refresh_put r st) f k" for k f
    using that families_okD(1) [OF assms(1), of f k]
    by (auto simp: token_in_def store_reads split: if_splits)
  show "k = k'" if "live_in (refresh_put r st) f k" "live_in (refresh_put r st) f k'" for f k k'
  proof -
    have l: "live_in (refresh_put r st) f a \<Longrightarrow> a = rf_tokenHash r \<and> f = rf_familyId r \<or> live_in st f a" for a
      by (auto simp: live_in_def get_put split: if_splits)
    show ?thesis using l [OF that(1)] l [OF that(2)] assms(3) families_okD(2) [OF assms(1)] by blast
  qed
  show "same_binding q q'"
    if "refresh_get k (refresh_put r st) = Some q" "refresh_get k' (refresh_put r st) = Some q'" "rf_familyId q = rf_familyId q'"
    for k k' q q'
  proof -
    have s: "same_binding r r" "\<And>a b. same_binding a b \<Longrightarrow> same_binding b a" by (simp_all add: same_binding_def)
    show ?thesis
      using that assms(4) [of k q] assms(4) [of k' q'] families_okD(3) [OF assms(1), of k q k' q'] s
      by (cases "k = rf_tokenHash r"; cases "k' = rf_tokenHash r") (auto simp: get_put)
  qed
qed

section \<open>Runs\<close>

datatype app_op =
    Issue_app uuid issue_draws issueAppSessionInput
  | Refresh_app int issue_draws refreshAppSessionInput

fun app_step :: "host \<Rightarrow> app_lib \<Rightarrow> app_op \<Rightarrow> app_auth_service \<Rightarrow> app_auth_service" where
  "app_step h L (Issue_app familyId d inp) s = snd (issueAppSession h L familyId d inp s)"
| "app_step h L (Refresh_app now d inp) s = snd (refreshAppSession h L now d inp s)"

definition app_run :: "host \<Rightarrow> app_lib \<Rightarrow> app_op list \<Rightarrow> app_auth_service \<Rightarrow> app_auth_service" where
  "app_run h L ops s = fold (app_step h L) ops s"

text \<open>A random family is new, and the digest of a random token is not stored.\<close>

definition fresh_token :: "app_lib \<Rightarrow> issue_draws \<Rightarrow> app_auth_service \<Rightarrow> bool" where
  "fresh_token L d s = (refresh_get (hashOpaqueToken L (generateOpaqueToken (id_bytes d))) (aa_store s) = None)"

fun fresh_op :: "app_lib \<Rightarrow> app_op \<Rightarrow> app_auth_service \<Rightarrow> bool" where
  "fresh_op L (Issue_app familyId d inp) s = (family_hashes (aa_store s) familyId = [] \<and> fresh_token L d s)"
| "fresh_op L (Refresh_app now d inp) s = fresh_token L d s"

fun fresh_run :: "host \<Rightarrow> app_lib \<Rightarrow> app_op list \<Rightarrow> app_auth_service \<Rightarrow> bool" where
  "fresh_run h L [] s = True"
| "fresh_run h L (op # ops) s = (fresh_op L op s \<and> fresh_run h L ops (app_step h L op s))"

lemma app_run_simps: "app_run h L [] s = s" "app_run h L (op # ops) s = app_run h L ops (app_step h L op s)"
  by (simp_all add: app_run_def)

definition issued_record ::
  "host \<Rightarrow> app_lib \<Rightarrow> issue_draws \<Rightarrow> issueAppSessionInput \<Rightarrow> uuid \<Rightarrow> app_auth_service \<Rightarrow> refreshSessionRecord"
where
  "issued_record h L d inp f s =
     \<lparr>rf_tokenHash = hashOpaqueToken L (generateOpaqueToken (id_bytes d)), rf_familyId = f, rf_sessionId = id_sessionId d,
      rf_userId = ii_userId inp, rf_role = ii_role inp, rf_persona = ii_persona inp, rf_traceId = ii_traceId inp,
      rf_refreshTokenId = id_refreshTokenId d, rf_deviceId = ii_deviceId inp,
      rf_issuedAt = host_toISOString h (id_refreshNow d),
      rf_expiresAt = host_toISOString h (id_refreshNow d + aa_refreshTtlSeconds s * 1000), rf_usedAt = None\<rparr>"

lemma issue_store: "aa_store (snd (issueSessionInternal h L d inp f s)) = refresh_put (issued_record h L d inp f s) (aa_store s)"
  by (simp add: issueSessionInternal_def Let_def issued_record_def createAppSession_def)

lemma issued_sel [simp]:
  "rf_tokenHash (issued_record h L d inp f s) = hashOpaqueToken L (generateOpaqueToken (id_bytes d))"
  "rf_familyId (issued_record h L d inp f s) = f" "rf_userId (issued_record h L d inp f s) = ii_userId inp"
  "rf_role (issued_record h L d inp f s) = ii_role inp" "rf_persona (issued_record h L d inp f s) = ii_persona inp"
  "rf_deviceId (issued_record h L d inp f s) = ii_deviceId inp" "rf_usedAt (issued_record h L d inp f s) = None"
  by (simp_all add: issued_record_def)

lemma issue_session:
  "as_userId (sb_session (fst (issueSessionInternal h L d inp f s))) = ii_userId inp"
  "as_role (sb_session (fst (issueSessionInternal h L d inp f s))) = ii_role inp"
  "as_persona (sb_session (fst (issueSessionInternal h L d inp f s))) = ii_persona inp"
  by (simp_all add: issueSessionInternal_def Let_def createAppSession_def)

text \<open>What a refresh does.\<close>

definition refreshed_input :: "refreshSessionRecord \<Rightarrow> refreshAppSessionInput \<Rightarrow> issueAppSessionInput" where
  "refreshed_input r inp =
     \<lparr>ii_userId = rf_userId r, ii_role = rf_role r, ii_persona = rf_persona r, ii_traceId = rx_traceId inp, ii_deviceId = rf_deviceId r\<rparr>"

definition marked :: "host \<Rightarrow> app_lib \<Rightarrow> int \<Rightarrow> refreshAppSessionInput \<Rightarrow> app_auth_service \<Rightarrow> app_auth_service" where
  "marked h L now inp s =
     s\<lparr>aa_store := refresh_markUsed (hashOpaqueToken L (rx_refreshToken inp)) (host_toISOString h now) (aa_store s)\<rparr>"

lemma refresh_cases:
  assumes "refreshAppSession h L now d inp s = (res, s')"
  obtains (rejected) e where "res = Inl e" "ax_code e \<noteq> APP_REFRESH_TOKEN_REPLAYED" "s' = s"
  | (replayed) r e where "refresh_get (hashOpaqueToken L (rx_refreshToken inp)) (aa_store s) = Some r" "given (rf_usedAt r)"
      "res = Inl e" "ax_code e = APP_REFRESH_TOKEN_REPLAYED"
      "s' = s\<lparr>aa_store := refresh_revokeFamily (rf_familyId r) (host_toISOString h now) (aa_store s)\<rparr>"
  | (rotated) r where "refresh_get (hashOpaqueToken L (rx_refreshToken inp)) (aa_store s) = Some r" "\<not> given (rf_usedAt r)"
      "\<not> refresh_expired h now r" "given (rf_deviceId r) \<longrightarrow> rf_deviceId r = rx_deviceId inp"
      "res = Inr (fst (issueSessionInternal h L d (refreshed_input r inp) (rf_familyId r) (marked h L now inp s)))"
      "s' = snd (issueSessionInternal h L d (refreshed_input r inp) (rf_familyId r) (marked h L now inp s))"
proof (cases "refresh_get (hashOpaqueToken L (rx_refreshToken inp)) (aa_store s)")
  case None
  then have "res = Inl (app_error APP_REFRESH_TOKEN_INVALID ''Refresh token was not found'')" "s' = s"
    using assms by (simp_all add: refreshAppSession_def)
  with rejected show ?thesis by (simp add: app_error_def)
next
  case (Some r)
  note e = assms [unfolded refreshAppSession_def Let_def Some option.case]
  consider "refresh_expired h now r" | "\<not> refresh_expired h now r" "given (rf_deviceId r)" "rf_deviceId r \<noteq> rx_deviceId inp"
    | "\<not> refresh_expired h now r" "\<not> (given (rf_deviceId r) \<and> rf_deviceId r \<noteq> rx_deviceId inp)" "given (rf_usedAt r)"
    | "\<not> refresh_expired h now r" "\<not> (given (rf_deviceId r) \<and> rf_deviceId r \<noteq> rx_deviceId inp)" "\<not> given (rf_usedAt r)"
    by blast
  then show ?thesis
  proof cases
    case 1
    with e rejected show ?thesis by (auto simp: app_error_def)
  next
    case 2
    with e rejected show ?thesis by (auto simp: app_error_def)
  next
    case 3
    with e replayed [OF Some] show ?thesis by (auto simp: app_error_def)
  next
    case 4
    with e rotated [OF Some] show ?thesis
      by (auto simp: refreshed_input_def marked_def split: prod.splits)
  qed
qed

text \<open>The timestamps of the host are not empty.\<close>

definition stamps :: "host \<Rightarrow> bool" where
  "stamps h = (\<forall>t. host_toISOString h t \<noteq> [])"

definition dead :: "refresh_store \<Rightarrow> uuid \<Rightarrow> bool" where
  "dead st f = ((\<exists>k. token_in st f k) \<and> (\<forall>k. \<not> live_in st f k))"

text \<open>The store after a refresh that rotates: the token is marked, then the new one is put.\<close>

lemma rotated_store:
  assumes "families_ok (aa_store s)" "stamps h" "fresh_token L d s"
    and r: "refresh_get (hashOpaqueToken L (rx_refreshToken inp)) (aa_store s) = Some r" "\<not> given (rf_usedAt r)"
    and s': "s' = snd (issueSessionInternal h L d (refreshed_input r inp) (rf_familyId r) (marked h L now inp s))"
  shows "families_ok (aa_store s')"
    and "live_in (aa_store s') f k \<Longrightarrow> live_in (aa_store s) f k \<or> f = rf_familyId r"
    and "token_in (aa_store s) f k \<Longrightarrow> token_in (aa_store s') f k"
proof -
  let ?t = "hashOpaqueToken L (rx_refreshToken inp)"
  let ?m = "aa_store (marked h L now inp s)"
  let ?n = "issued_record h L d (refreshed_input r inp) (rf_familyId r) (marked h L now inp s)"
  have u: "host_toISOString h now \<noteq> []" using assms(2) by (simp add: stamps_def)
  have m: "marks (\<lambda>k. k = ?t) (host_toISOString h now) (aa_store s) ?m" by (simp add: marked_def marks_mark)
  have st: "aa_store s' = refresh_put ?n ?m" using s' by (simp add: issue_store)
  have new: "refresh_get (rf_tokenHash ?n) ?m = None"
    using assms(3) by (auto simp: fresh_token_def marked_def get_mark)
  have l: "live_in (aa_store s) (rf_familyId r) ?t" using r by (simp add: live_in_def)
  have none: "\<not> live_in ?m (rf_familyId r) k" for k
    using families_okD(2) [OF assms(1) l] by (auto simp: marks_live [OF m u])
  have same: "same_binding q ?n" if q: "refresh_get k ?m = Some q" "rf_familyId q = rf_familyId r" for k q
  proof -
    obtain q0 where "refresh_get k (aa_store s) = Some q0" "q = (if k = ?t then used_at (host_toISOString h now) q0 else q0)"
      using marks_get [OF m q(1)] .
    moreover from this q(2) have "same_binding q0 r"
      using families_okD(3) [OF assms(1) _ r(1)] by (simp split: if_splits)
    ultimately show ?thesis by (simp add: same_binding_def refreshed_input_def)
  qed
  show "families_ok (aa_store s')"
    unfolding st by (rule put_families [OF marks_families [OF m u assms(1)] new]) (use none same in simp_all)
  show "live_in (aa_store s) f k \<or> f = rf_familyId r" if "live_in (aa_store s') f k"
  proof (cases "k = rf_tokenHash ?n")
    case False
    then have "live_in ?m f k" using that by (simp add: st live_in_def get_put)
    then show ?thesis by (simp add: marks_live [OF m u])
  qed (use that in \<open>simp add: st live_in_def get_put\<close>)
  show "token_in (aa_store s') f k" if "token_in (aa_store s) f k"
  proof -
    have t: "token_in ?m f k" using that by (simp add: marks_token [OF m])
    then have "k \<noteq> rf_tokenHash ?n" using new by (auto simp: token_in_def)
    then show ?thesis using t by (simp add: st token_in_def get_put)
  qed
qed

lemma step_families:
  assumes "families_ok (aa_store s)" "stamps h" "fresh_op L op s"
  shows "families_ok (aa_store (app_step h L op s)) \<and>
    (\<forall>f. dead (aa_store s) f \<longrightarrow> dead (aa_store (app_step h L op s)) f)"
proof (cases op)
  case (Issue_app f d inp)
  let ?n = "issued_record h L d inp f s"
  have st: "aa_store (app_step h L op s) = refresh_put ?n (aa_store s)"
    using Issue_app by (simp add: issueAppSession_def issue_store)
  have new: "refresh_get (rf_tokenHash ?n) (aa_store s) = None" and empty: "\<not> token_in (aa_store s) f k" for k
    using assms Issue_app families_okD(1) [OF assms(1), of f k] by (auto simp: fresh_token_def)
  have "families_ok (refresh_put ?n (aa_store s))"
    using empty by (intro put_families [OF assms(1) new]) (auto simp: live_in_def token_in_def)
  moreover have "dead (refresh_put ?n (aa_store s)) f'" if "dead (aa_store s) f'" for f'
    using that empty new by (auto simp: dead_def token_in_def live_in_def get_put split: if_splits) (metis option.distinct(1))
  ultimately show ?thesis by (simp add: st)
next
  case (Refresh_app now d inp)
  obtain res s' where run: "refreshAppSession h L now d inp s = (res, s')" by fastforce
  then have st: "app_step h L op s = s'" using Refresh_app by simp
  have u: "host_toISOString h now \<noteq> []" using assms(2) by (simp add: stamps_def)
  from run show ?thesis
  proof (cases rule: refresh_cases)
    case (rejected e)
    then show ?thesis using assms(1) st by simp
  next
    case (replayed r e)
    let ?P = "\<lambda>k. k \<in> set (family_hashes (aa_store s) (rf_familyId r))"
    have m: "marks ?P (host_toISOString h now) (aa_store s) (aa_store s')"
      using replayed(5) by (simp add: marks_revoke)
    show ?thesis
      using marks_families [OF m u assms(1)] by (simp add: st dead_def marks_token [OF m] marks_live [OF m u])
  next
    case (rotated r)
    have f: "fresh_token L d s" using assms(3) Refresh_app by simp
    note rot = rotated_store [OF assms(1, 2) f rotated(1, 2, 6)]
    have l: "live_in (aa_store s) (rf_familyId r) (hashOpaqueToken L (rx_refreshToken inp))"
      using rotated(1, 2) by (simp add: live_in_def)
    have "dead (aa_store s') f" if "dead (aa_store s) f" for f
      using that l rot(2, 3) unfolding dead_def by blast
    with rot(1) show ?thesis by (simp add: st)
  qed
qed

lemma run_families:
  assumes "families_ok (aa_store s)" "stamps h" "fresh_run h L ops s"
  shows "families_ok (aa_store (app_run h L ops s)) \<and> (\<forall>f. dead (aa_store s) f \<longrightarrow> dead (aa_store (app_run h L ops s)) f)"
  using assms
proof (induction ops arbitrary: s)
  case (Cons op ops)
  have f: "fresh_op L op s" "fresh_run h L ops (app_step h L op s)" using Cons.prems(3) by simp_all
  note st = step_families [OF Cons.prems(1, 2) f(1)]
  show ?case
    using st Cons.IH [OF conjunct1 [OF st] Cons.prems(2) f(2)] by (simp add: app_run_simps)
qed (simp add: app_run_simps)

lemma session_family_facts:
  assumes "new_app_auth opts = Inr s0" "stamps h" "fresh_run h L ops s0"
    and "s = app_run h L ops s0" "fresh_token L d s" "refreshAppSession h L now d inp s = (res, s')"
  shows "live_in (aa_store s) f k \<Longrightarrow> live_in (aa_store s) f k' \<Longrightarrow> k = k'"
    and "refresh_get k (aa_store s) = Some r \<Longrightarrow> refresh_get k' (aa_store s) = Some r' \<Longrightarrow>
      rf_familyId r = rf_familyId r' \<Longrightarrow> same_binding r r'"
    and "res = Inr bundle \<Longrightarrow> \<exists>r. refresh_get (hashOpaqueToken L (rx_refreshToken inp)) (aa_store s) = Some r \<and>
      live_in (aa_store s) (rf_familyId r) (hashOpaqueToken L (rx_refreshToken inp)) \<and> \<not> refresh_expired h now r \<and>
      (given (rf_deviceId r) \<longrightarrow> rf_deviceId r = rx_deviceId inp) \<and> as_userId (sb_session bundle) = rf_userId r \<and>
      as_role (sb_session bundle) = rf_role r \<and> as_persona (sb_session bundle) = rf_persona r"
    and "res = Inl e \<Longrightarrow> ax_code e = APP_REFRESH_TOKEN_REPLAYED \<Longrightarrow> fresh_run h L ops2 s' \<Longrightarrow>
      \<exists>r. refresh_get (hashOpaqueToken L (rx_refreshToken inp)) (aa_store s) = Some r \<and>
        (\<forall>k. \<not> live_in (aa_store (app_run h L ops2 s')) (rf_familyId r) k)"
proof -
  have "aa_store s0 = empty_refresh_store"
    using assms(1) by (auto simp: new_app_auth_def split: if_splits)
  then have ok: "families_ok (aa_store s)"
    using run_families [OF _ assms(2, 3)] families_ok_empty assms(4) by simp
  show "live_in (aa_store s) f k \<Longrightarrow> live_in (aa_store s) f k' \<Longrightarrow> k = k'"
    by (rule families_okD(2) [OF ok])
  show "refresh_get k (aa_store s) = Some r \<Longrightarrow> refresh_get k' (aa_store s) = Some r' \<Longrightarrow>
      rf_familyId r = rf_familyId r' \<Longrightarrow> same_binding r r'"
    by (rule families_okD(3) [OF ok])
  show "\<exists>r. refresh_get (hashOpaqueToken L (rx_refreshToken inp)) (aa_store s) = Some r \<and>
      live_in (aa_store s) (rf_familyId r) (hashOpaqueToken L (rx_refreshToken inp)) \<and> \<not> refresh_expired h now r \<and>
      (given (rf_deviceId r) \<longrightarrow> rf_deviceId r = rx_deviceId inp) \<and> as_userId (sb_session bundle) = rf_userId r \<and>
      as_role (sb_session bundle) = rf_role r \<and> as_persona (sb_session bundle) = rf_persona r" if "res = Inr bundle"
    using assms(6)
  proof (cases rule: refresh_cases)
    case (rotated r)
    then show ?thesis using that by (auto simp: live_in_def issue_session refreshed_input_def)
  qed (use that in simp_all)
  show "\<exists>r. refresh_get (hashOpaqueToken L (rx_refreshToken inp)) (aa_store s) = Some r \<and>
        (\<forall>k. \<not> live_in (aa_store (app_run h L ops2 s')) (rf_familyId r) k)"
    if "res = Inl e" "ax_code e = APP_REFRESH_TOKEN_REPLAYED" "fresh_run h L ops2 s'"
    using assms(6)
  proof (cases rule: refresh_cases)
    case (replayed r e')
    have fr: "fresh_op L (Refresh_app now d inp) s" and u: "host_toISOString h now \<noteq> []"
      using assms(2, 5) by (simp_all add: stamps_def)
    have ok': "families_ok (aa_store s')"
      using step_families [OF ok assms(2) fr] assms(6) by simp
    have m: "marks (\<lambda>k. k \<in> set (family_hashes (aa_store s) (rf_familyId r))) (host_toISOString h now) (aa_store s) (aa_store s')"
      using replayed(5) by (simp add: marks_revoke)
    have "dead (aa_store s') (rf_familyId r)"
      using families_okD(1) [OF ok] replayed(1)
      by (auto simp: dead_def marks_token [OF m] marks_live [OF m u]) (auto simp: token_in_def live_in_def)
    then have "dead (aa_store (app_run h L ops2 s')) (rf_familyId r)"
      using run_families [OF ok' assms(2) that(3)] by blast
    then show ?thesis using replayed(1) by (auto simp: dead_def)
  qed (use that in simp_all)
qed

text \<open>C9: In every state an app session service reaches, each family of refresh tokens has at most one
  live token and all its tokens stand for the same user, role, persona and device; a refresh
  succeeds only with a live, unexpired token of the bound device, and continues its session;
  and a replay that is detected leaves the family without a live token in every later state.\<close>

theorem app_session_families:
  assumes "new_app_auth opts = Inr s0" "stamps h" "fresh_run h L ops s0"
    and "s = app_run h L ops s0" "fresh_token L d s" "refreshAppSession h L now d inp s = (res, s')"
  shows "(\<forall>f k k'. live_in (aa_store s) f k \<longrightarrow> live_in (aa_store s) f k' \<longrightarrow> k = k') \<and>
    (\<forall>k k' r r'. refresh_get k (aa_store s) = Some r \<longrightarrow> refresh_get k' (aa_store s) = Some r' \<longrightarrow>
      rf_familyId r = rf_familyId r' \<longrightarrow> same_binding r r') \<and>
    (\<forall>bundle. res = Inr bundle \<longrightarrow>
      (\<exists>r. refresh_get (hashOpaqueToken L (rx_refreshToken inp)) (aa_store s) = Some r \<and>
        live_in (aa_store s) (rf_familyId r) (hashOpaqueToken L (rx_refreshToken inp)) \<and> \<not> refresh_expired h now r \<and>
        (given (rf_deviceId r) \<longrightarrow> rf_deviceId r = rx_deviceId inp) \<and> as_userId (sb_session bundle) = rf_userId r \<and>
        as_role (sb_session bundle) = rf_role r \<and> as_persona (sb_session bundle) = rf_persona r)) \<and>
    (\<forall>e ops2. res = Inl e \<longrightarrow> ax_code e = APP_REFRESH_TOKEN_REPLAYED \<longrightarrow> fresh_run h L ops2 s' \<longrightarrow>
      (\<exists>r. refresh_get (hashOpaqueToken L (rx_refreshToken inp)) (aa_store s) = Some r \<and>
        (\<forall>k. \<not> live_in (aa_store (app_run h L ops2 s')) (rf_familyId r) k)))"
  using session_family_facts [OF assms] by blast

definition demo_app_lib :: app_lib where
  "demo_app_lib = \<lparr>jose_sign = (\<lambda>k c. json_stringify (JObj c)), jose_verify = (\<lambda>k i a n t. None), lib_sha256_hex = (\<lambda>s. s)\<rparr>"

definition demo_draws :: "string \<Rightarrow> issue_draws" where
  "demo_draws b = \<lparr>id_refreshTokenId = b, id_sessionId = b, id_sessionNow = 0, id_bytes = b, id_refreshNow = 0, id_signNow = 0\<rparr>"

definition demo_issue :: issueAppSessionInput where
  "demo_issue = \<lparr>ii_userId = ''u'', ii_role = Consumer, ii_persona = Consumer_persona, ii_traceId = ''t'', ii_deviceId = None\<rparr>"

definition demo_refresh :: refreshAppSessionInput where
  "demo_refresh = \<lparr>rx_refreshToken = base64Url ''a'', rx_traceId = ''t'', rx_deviceId = None\<rparr>"

definition demo_app_options :: appSessionAuthOptions where
  "demo_app_options = \<lparr>ao_jwtSecret = ''0123456789abcdef'', ao_accessTtlSeconds = None, ao_refreshTtlSeconds = None,
     ao_issuer = None, ao_audience = None\<rparr>"

definition demo_app_ops :: "app_op list" where
  "demo_app_ops = [Issue_app ''f'' (demo_draws ''a'') demo_issue, Refresh_app 0 (demo_draws ''b'') demo_refresh]"

definition demo_app_service :: app_auth_service where
  "demo_app_service = (case new_app_auth demo_app_options of Inr s \<Rightarrow> s | Inl _ \<Rightarrow> undefined)"

lemma demo_app_new: "new_app_auth demo_app_options = Inr demo_app_service"
  by code_simp

lemma demo_tokens: "base64Url ''a'' = ''YQ''" "base64Url ''b'' = ''Yg''" "base64Url ''c'' = ''Yw''"
  by code_simp+

lemma get_empty: "refresh_get k empty_refresh_store = None"
  by (simp add: refresh_get_def empty_refresh_store_def)

lemma refresh_live:
  assumes "refresh_get (hashOpaqueToken L (rx_refreshToken inp)) (aa_store s) = Some r" "\<not> refresh_expired h now r"
    "rf_deviceId r = None" "rf_usedAt r = None"
  shows "refreshAppSession h L now d inp s =
    (let (b, s') = issueSessionInternal h L d (refreshed_input r inp) (rf_familyId r) (marked h L now inp s) in (Inr b, s'))"
  using assms by (simp add: refreshAppSession_def Let_def given_def refreshed_input_def marked_def)

lemma refresh_used:
  assumes "refresh_get (hashOpaqueToken L (rx_refreshToken inp)) (aa_store s) = Some r" "\<not> refresh_expired h now r"
    "rf_deviceId r = None" "given (rf_usedAt r)"
  shows "fst (refreshAppSession h L now d inp s) = Inl (app_error APP_REFRESH_TOKEN_REPLAYED ''Refresh token replay detected'')"
  using assms by (simp add: refreshAppSession_def Let_def given_def)

lemma demo_hash: "hashOpaqueToken demo_app_lib (rx_refreshToken demo_refresh) = ''YQ''"
  "hashOpaqueToken demo_app_lib (generateOpaqueToken (id_bytes (demo_draws ''a''))) = ''YQ''"
  "hashOpaqueToken demo_app_lib (generateOpaqueToken (id_bytes (demo_draws ''b''))) = ''Yg''"
  "hashOpaqueToken demo_app_lib (generateOpaqueToken (id_bytes (demo_draws ''c''))) = ''Yw''"
  by (simp_all add: hashOpaqueToken_def generateOpaqueToken_def demo_app_lib_def demo_refresh_def demo_draws_def demo_tokens)

definition demo_first :: app_auth_service where
  "demo_first = app_step epoch_host demo_app_lib (Issue_app ''f'' (demo_draws ''a'') demo_issue) demo_app_service"

definition demo_second :: app_auth_service where
  "demo_second = app_step epoch_host demo_app_lib (Refresh_app 0 (demo_draws ''b'') demo_refresh) demo_first"

lemma demo_service_sel: "aa_store demo_app_service = empty_refresh_store" "aa_refreshTtlSeconds demo_app_service = 1209600"
  by (simp_all add: demo_app_service_def new_app_auth_def demo_app_options_def js_trim_def is_space_def)

definition demo_record :: refreshSessionRecord where
  "demo_record = issued_record epoch_host demo_app_lib (demo_draws ''a'') demo_issue ''f'' demo_app_service"

lemma epoch_1000: "host_getTime epoch_host ''1000'' = Some 1000" "host_toISOString epoch_host 1209600000 = ''1000''"
  by code_simp+

lemma demo_record_sel: "rf_deviceId demo_record = None" "rf_usedAt demo_record = None" "rf_tokenHash demo_record = ''YQ''"
    "\<not> refresh_expired epoch_host 0 demo_record"
  by (simp_all add: demo_record_def demo_issue_def demo_hash)
     (simp add: issued_record_def refresh_expired_def demo_service_sel demo_draws_def epoch_1000)

lemma demo_first_store: "aa_store demo_first = refresh_put demo_record empty_refresh_store"
  by (simp add: demo_first_def issueAppSession_def issue_store demo_service_sel demo_record_def)

lemma demo_second_get: "refresh_get ''YQ'' (aa_store demo_second) = Some (used_at ''0'' demo_record)"
  "refresh_get ''Yw'' (aa_store demo_second) = None"
proof -
  have g: "refresh_get (hashOpaqueToken demo_app_lib (rx_refreshToken demo_refresh)) (aa_store demo_first) = Some demo_record"
    by (simp add: demo_first_store get_put demo_hash demo_record_sel)
  have "aa_store demo_second = refresh_put (issued_record epoch_host demo_app_lib (demo_draws ''b'') (refreshed_input demo_record demo_refresh)
      (rf_familyId demo_record) (marked epoch_host demo_app_lib 0 demo_refresh demo_first))
      (refresh_markUsed ''YQ'' (host_toISOString epoch_host 0) (refresh_put demo_record empty_refresh_store))"
    unfolding demo_second_def app_step.simps refresh_live [OF g demo_record_sel(4, 1, 2)]
    by (simp add: split_def Let_def issue_store) (simp add: marked_def demo_first_store demo_hash)
  then show "refresh_get ''YQ'' (aa_store demo_second) = Some (used_at ''0'' demo_record)"
    "refresh_get ''Yw'' (aa_store demo_second) = None"
    by (simp_all add: get_put get_mark demo_hash demo_record_sel get_empty) (simp add: epoch_host_def)
qed

lemma demo_app_run: "app_run epoch_host demo_app_lib demo_app_ops demo_app_service = demo_second"
  by (simp add: app_run_def demo_app_ops_def demo_second_def demo_first_def)

lemma demo_app_fresh: "fresh_run epoch_host demo_app_lib demo_app_ops demo_app_service"
proof -
  have "family_hashes empty_refresh_store f = []" for f
    by (simp add: family_hashes_def empty_refresh_store_def)
  then show ?thesis
    by (simp add: demo_app_ops_def fresh_token_def demo_hash demo_service_sel get_empty del: app_step.simps)
       (simp add: demo_first_def [symmetric] demo_first_store get_put demo_record_sel get_empty del: app_step.simps)
qed

lemma epoch_stamps: "stamps epoch_host"
  by (simp add: stamps_def epoch_host_def)

lemma demo_app_replay:
  "fresh_token demo_app_lib (demo_draws ''c'') demo_second"
  "fst (refreshAppSession epoch_host demo_app_lib 0 (demo_draws ''c'') demo_refresh demo_second) =
     Inl (app_error APP_REFRESH_TOKEN_REPLAYED ''Refresh token replay detected'')"
proof -
  show "fresh_token demo_app_lib (demo_draws ''c'') demo_second"
    by (simp add: fresh_token_def demo_hash demo_second_get)
  show "fst (refreshAppSession epoch_host demo_app_lib 0 (demo_draws ''c'') demo_refresh demo_second) =
     Inl (app_error APP_REFRESH_TOKEN_REPLAYED ''Refresh token replay detected'')"
  proof (rule refresh_used)
    show "refresh_get (hashOpaqueToken demo_app_lib (rx_refreshToken demo_refresh)) (aa_store demo_second) =
        Some (used_at ''0'' demo_record)" by (simp add: demo_hash demo_second_get)
    show "\<not> refresh_expired epoch_host 0 (used_at ''0'' demo_record)"
      using demo_record_sel(4) by (simp add: refresh_expired_def used_at_def)
  qed (simp_all add: given_def demo_record_sel)
qed

lemma app_session_families_witness:
  "\<forall>k. \<not> live_in (aa_store (snd (refreshAppSession epoch_host demo_app_lib 0 (demo_draws ''c'') demo_refresh demo_second)))
     (rf_familyId demo_record) k"
proof -
  obtain res s' where run: "refreshAppSession epoch_host demo_app_lib 0 (demo_draws ''c'') demo_refresh demo_second = (res, s')"
    by fastforce
  then have e: "res = Inl (app_error APP_REFRESH_TOKEN_REPLAYED ''Refresh token replay detected'')"
    using demo_app_replay by simp
  show ?thesis
    using app_session_families [OF demo_app_new epoch_stamps demo_app_fresh demo_app_run [symmetric] demo_app_replay(1) run,
        THEN conjunct2, THEN conjunct2, THEN conjunct2, rule_format, OF e, where ?ops2.0 = "[]"]
    by (simp add: run app_run_simps app_error_def demo_hash demo_second_get)
qed

section \<open>Access tokens\<close>

text \<open>
  What \<open>jose\<close> documents of \<open>jwtVerify\<close>: the payload of a token that was signed with the key comes
  back exactly when the issuer and the audience agree and the token is not expired.
\<close>

definition jose_verifies :: "app_lib \<Rightarrow> bool" where
  "jose_verifies L =
     (\<forall>key issuer audience now claims e.
        jprop claims ''exp'' = Some (JNum (num_int e)) \<longrightarrow>
        jose_verify L key issuer audience now (jose_sign L key claims) =
          (if jprop claims ''iss'' = Some (JStr issuer) \<and> jprop claims ''aud'' = Some (JStr audience) \<and> now div 1000 < e
           then Some claims else None))"

lemma role_named: "named role_name appRoles (role_name r) = Some r"
  by (cases r) (simp_all add: named_def appRoles_def role_name_def)

lemma persona_named: "named persona_name personas (persona_name p) = Some p"
  by (cases p) (simp_all add: named_def personas_def persona_name_def)

lemma access_claims_read:
  "toAppAccessTokenClaims (access_claims issuer audience t ttl session deviceId) =
     Inr \<lparr>ac_userId = as_userId session, ac_sessionId = as_sessionId session, ac_role = as_role session,
          ac_persona = as_persona session, ac_traceId = as_traceId session,
          ac_refreshTokenId = as_refreshTokenId session,
          ac_deviceId = (if given deviceId then deviceId else None)\<rparr>"
proof -
  have "deviceId = Some (nullish deviceId [])" if "given deviceId" using that by (cases deviceId) (simp_all add: given_def)
  then show ?thesis
    by (cases "given deviceId")
       (simp_all add: toAppAccessTokenClaims_def access_claims_def jprop_def isAppRole_def isAppPersona_def role_named persona_named)
qed

lemma access_token_verifies:
  assumes "jose_verifies L"
  shows "verifyAppAccessToken L now (signAppAccessToken L t session deviceId s) s =
    (if now div 1000 < t div 1000 + aa_accessTtlSeconds s
     then Inr \<lparr>ac_userId = as_userId session, ac_sessionId = as_sessionId session, ac_role = as_role session,
            ac_persona = as_persona session, ac_traceId = as_traceId session,
            ac_refreshTokenId = as_refreshTokenId session,
            ac_deviceId = (if given deviceId then deviceId else None)\<rparr>
     else Inl (app_error APP_ACCESS_TOKEN_INVALID ''Access token verification failed''))"
proof -
  let ?c = "access_claims (aa_issuer s) (aa_audience s) (t div 1000) (aa_accessTtlSeconds s) session deviceId"
  have "jprop ?c ''exp'' = Some (JNum (num_int (t div 1000 + aa_accessTtlSeconds s)))"
    "jprop ?c ''iss'' = Some (JStr (aa_issuer s))" "jprop ?c ''aud'' = Some (JStr (aa_audience s))"
    by (simp_all add: access_claims_def jprop_def)
  with assms have "jose_verify L (aa_secretKey s) (aa_issuer s) (aa_audience s) now (jose_sign L (aa_secretKey s) ?c) =
      (if now div 1000 < t div 1000 + aa_accessTtlSeconds s then Some ?c else None)"
    unfolding jose_verifies_def by metis
  then show ?thesis
    by (simp add: verifyAppAccessToken_def signAppAccessToken_def access_claims_read)
qed

lemma app_error_statuses:
  "mapAppAuthError (App_auth_error e) = Some resp \<Longrightarrow> ar_statusCode resp = 500 \<longleftrightarrow> ax_code e = OIDC_VERIFIER_MISCONFIGURED"
  by (cases "ax_code e") (auto simp: mapAppAuthError_def app_error_response_def)

end
