(* ===== verification/Observability.thy ===== *)
theory Observability
  imports Platform
begin

text \<open>
  Observability (\<open>modules/observability\<close>): request traces, the structured log in memory and in
  the document store, and the service-level report. Durations are whole milliseconds.
\<close>

section \<open>Traces and the log\<close>

record traceContext =
  tc_traceId :: uuid
  tc_spanId :: uuid
  tc_method :: string
  tc_route :: string
  tc_startedAt :: iso_date
  tc_startedAtMs :: int

datatype logLevel = INFO | ERROR

record structuredLogEntry =
  sl_timestamp :: iso_date
  sl_level :: logLevel
  sl_service :: string
  sl_traceId :: uuid
  sl_spanId :: uuid
  sl_method :: string
  sl_route :: string
  sl_statusCode :: nat
  sl_durationMs :: int
  sl_message :: string
  sl_metadata :: "(string \<times> json) list"

type_synonym log_repo = "structuredLogEntry list"

definition log_append :: "structuredLogEntry \<Rightarrow> log_repo \<Rightarrow> log_repo" where
  "log_append l s = s @ [l]"

definition log_list :: "uuid option \<Rightarrow> log_repo \<Rightarrow> structuredLogEntry list" where
  "log_list traceId s = filter (\<lambda>l. traceId = None \<or> traceId = Some [] \<or> traceId = Some (sl_traceId l)) s"

record observability_service =
  ob_repository :: log_repo
  ob_eventBus :: event_bus

definition startTrace :: "uuid \<Rightarrow> uuid \<Rightarrow> iso_date \<Rightarrow> int \<Rightarrow> string \<Rightarrow> string \<Rightarrow> traceContext" where
  "startTrace traceId spanId startedAt startedAtMs method route =
     \<lparr>tc_traceId = traceId, tc_spanId = spanId, tc_method = method, tc_route = route,
      tc_startedAt = startedAt, tc_startedAtMs = startedAtMs\<rparr>"

definition trace_event :: "structuredLogEntry \<Rightarrow> domain_event" where
  "trace_event l = mk_event ''platform.trace_emitted.v1'' (sl_timestamp l)
     [(''traceId'', JStr (sl_traceId l)), (''spanId'', JStr (sl_spanId l)), (''method'', JStr (sl_method l)),
      (''route'', JStr (sl_route l)), (''statusCode'', JNum (num_int (int (sl_statusCode l))))]"

definition finishTrace ::
  "iso_date \<Rightarrow> int \<Rightarrow> traceContext \<Rightarrow> nat \<Rightarrow> (string \<times> json) list option \<Rightarrow> observability_service \<Rightarrow>
   structuredLogEntry \<times> observability_service"
where
  "finishTrace timestamp nowMs context statusCode metadata s =
     (let l = \<lparr>sl_timestamp = timestamp, sl_level = (if 500 \<le> statusCode then ERROR else INFO),
               sl_service = ''core-api'', sl_traceId = tc_traceId context, sl_spanId = tc_spanId context,
               sl_method = tc_method context, sl_route = tc_route context, sl_statusCode = statusCode,
               sl_durationMs = nowMs - tc_startedAtMs context, sl_message = ''HTTP request completed'',
               sl_metadata = nullish metadata []\<rparr>
      in (l, s\<lparr>ob_repository := log_append l (ob_repository s), ob_eventBus := publish (trace_event l) (ob_eventBus s)\<rparr>))"

definition listLogs :: "uuid option \<Rightarrow> observability_service \<Rightarrow> structuredLogEntry list" where
  "listLogs traceId s = log_list traceId (ob_repository s)"

section \<open>The service-level report\<close>

datatype breachType = AVAILABILITY | LATENCY_CHECKOUT | LATENCY_TIMELINE

record sloBreach =
  br_type :: breachType
  br_actual :: jsnum
  br_threshold :: jsnum

record sloReport =
  sr_availabilityPercent :: jsnum
  sr_checkoutP95Ms :: jsnum
  sr_timelineP95Ms :: jsnum
  sr_breaches :: "sloBreach list"

text \<open>\<open>xs[i]\<close>: undefined when the number is no index of the array.\<close>

definition array_at :: "'a list \<Rightarrow> jsnum \<Rightarrow> 'a option" where
  "array_at xs i = (case i of
     Fin r \<Rightarrow> if of_int \<lfloor>r\<rfloor> = r \<and> 0 \<le> r \<and> r < of_nat (length xs) then Some (xs ! nat \<lfloor>r\<rfloor>) else None
   | _ \<Rightarrow> None)"

definition percentile95 :: "int list \<Rightarrow> int" where
  "percentile95 xs =
     (if length xs = 0 then 0
      else let sorted_values = js_sort (\<lambda>a b. b < a) xs;
               index = num_sub (math_ceil (num_mul (num_int (int (length sorted_values))) (double_of (95 / 100)))) (Fin 1)
           in nullish (array_at sorted_values (math_max index (Fin 0))) 0)"

definition availability_logs :: "structuredLogEntry list \<Rightarrow> structuredLogEntry list" where
  "availability_logs logs = filter (\<lambda>l. startsWith (sl_route l) ''/api/v1/consumer/checkout'' \<or>
     startsWith (sl_route l) ''/api/v1/consumer/orders'') logs"

definition availability_percent :: "nat \<Rightarrow> nat \<Rightarrow> jsnum" where
  "availability_percent successes requests =
     (if requests = 0 then Fin 100
      else number_toFixed 3 (num_mul (num_div (num_int (int successes)) (num_int (int requests))) (Fin 100)))"

definition breach_event :: "string \<Rightarrow> iso_date \<Rightarrow> string \<Rightarrow> sloBreach \<Rightarrow> domain_event" where
  "breach_event eventType now metric b = mk_event eventType now
     [(''metric'', JStr metric), (''actual'', JNum (br_actual b)), (''threshold'', JNum (br_threshold b))]"

definition checkout_durations :: "structuredLogEntry list \<Rightarrow> int list" where
  "checkout_durations logs = map sl_durationMs (filter (\<lambda>l. startsWith (sl_route l) ''/api/v1/consumer/checkout'') logs)"

definition timeline_durations :: "structuredLogEntry list \<Rightarrow> int list" where
  "timeline_durations logs = map sl_durationMs (filter (\<lambda>l. str_includes (sl_route l) ''/timeline'') logs)"

definition availability_of :: "structuredLogEntry list \<Rightarrow> jsnum" where
  "availability_of logs =
     (let availabilityLogs = availability_logs logs;
          successfulRequests = length (filter (\<lambda>l. sl_statusCode l < 500) availabilityLogs)
      in availability_percent successfulRequests (length availabilityLogs))"

text \<open>Each breach is pushed and published, in the order of the checks.\<close>

definition note_breach ::
  "bool \<Rightarrow> sloBreach \<Rightarrow> domain_event \<Rightarrow> sloBreach list \<times> event_bus \<Rightarrow> sloBreach list \<times> event_bus"
where
  "note_breach violated b e acc = (if violated then (fst acc @ [b], publish e (snd acc)) else acc)"

definition slo_breaches ::
  "iso_date \<Rightarrow> iso_date \<Rightarrow> iso_date \<Rightarrow> jsnum \<Rightarrow> int \<Rightarrow> int \<Rightarrow> event_bus \<Rightarrow> sloBreach list \<times> event_bus"
where
  "slo_breaches now1 now2 now3 availabilityPercent checkoutP95Ms timelineP95Ms bus =
     (let b1 = \<lparr>br_type = AVAILABILITY, br_actual = availabilityPercent, br_threshold = double_of (999 / 10)\<rparr>;
          b2 = \<lparr>br_type = LATENCY_CHECKOUT, br_actual = num_int checkoutP95Ms, br_threshold = Fin 700\<rparr>;
          b3 = \<lparr>br_type = LATENCY_TIMELINE, br_actual = num_int timelineP95Ms, br_threshold = Fin 400\<rparr>
      in note_breach (400 < timelineP95Ms) b3 (breach_event ''platform.latency_budget_breached.v1'' now3 ''timelineP95Ms'' b3)
           (note_breach (700 < checkoutP95Ms) b2 (breach_event ''platform.latency_budget_breached.v1'' now2 ''checkoutP95Ms'' b2)
             (note_breach (num_lt availabilityPercent (double_of (999 / 10))) b1
                (breach_event ''platform.slo_breach_detected.v1'' now1 ''availabilityPercent'' b1) ([], bus))))"

definition slo_evaluate ::
  "iso_date \<Rightarrow> iso_date \<Rightarrow> iso_date \<Rightarrow> structuredLogEntry list \<Rightarrow> event_bus \<Rightarrow> sloReport \<times> event_bus"
where
  "slo_evaluate now1 now2 now3 logs bus =
     (let availabilityPercent = availability_of logs;
          checkoutP95Ms = percentile95 (checkout_durations logs);
          timelineP95Ms = percentile95 (timeline_durations logs);
          (breaches, bus') = slo_breaches now1 now2 now3 availabilityPercent checkoutP95Ms timelineP95Ms bus
      in (\<lparr>sr_availabilityPercent = availabilityPercent, sr_checkoutP95Ms = num_int checkoutP95Ms,
           sr_timelineP95Ms = num_int timelineP95Ms, sr_breaches = breaches\<rparr>, bus'))"

section \<open>The percentile\<close>

lemma ilog2_unique: "2 powi k \<le> x \<Longrightarrow> x < 2 powi (k + 1) \<Longrightarrow> ilog2 x = k"
  using ilog2_bounds [of x] powi_less_imp [of k "ilog2 x + 1"] powi_less_imp [of "ilog2 x" "k + 1"] powi_pos [of k]
  by (meson add1_zle_eq antisym order.strict_trans2 order.strict_trans1 zless_add1_eq zle_add1_eq_le)

lemma double_of_known:
  assumes "2 powi k \<le> x" "x < 2 powi (k + 1)" "- 1022 \<le> k" "k < 1022" "\<bar>x / 2 powi (k - 52) - of_int z\<bar> < 1 / 2"
  shows "double_of x = Fin (of_int z * 2 powi (k - 52))"
proof -
  have x: "0 < x" using assms(1) powi_pos [of k] by linarith
  have "(2 :: rat) powi (k + 1) \<le> 2 powi 1023" using assms(4) by (intro powi_mono) simp
  then have "x < 2 ^ 1023" using assms(2) by (simp add: power_int_def)
  moreover have "double_exp x = k - 52"
    using assms(3) x by (simp add: double_exp_def ilog2_unique [OF assms(1, 2)])
  moreover have "round_half_even (x / 2 powi (k - 52)) = z"
    using round_half_even_error [of "x / 2 powi (k - 52)"] assms(5) by linarith
  ultimately show ?thesis using double_of_pos [OF x] by simp
qed

lemma double_95: "double_of (95 / 100) = Fin (8556839292003942 / 9007199254740992)"
  using double_of_known [of "- 1" "95 / 100" 8556839292003942]
  by (simp add: power_int_minus)

lemma nearest_rank_index:
  assumes "0 < n" "n < 2 ^ 40"
  shows "math_ceil (num_mul (num_int n) (double_of (95 / 100))) = num_int \<lceil>(19 * of_int n / 20 :: rat)\<rceil>"
proof -
  let ?c = "8556839292003942 / 9007199254740992 :: rat"
  let ?x = "of_int n * ?c" and ?m = "\<lceil>(19 * of_int n / 20 :: rat)\<rceil>"
  have n: "(1 :: rat) \<le> of_int n" "(of_int n :: rat) < 2 ^ 40"
    using assms by (simp, metis of_int_less_iff of_int_numeral of_int_power)
  have up: "?x \<le> of_int ?m"
  proof -
    have "?x \<le> 19 * of_int n / 20" using n(1) by (simp add: field_simps)
    then show ?thesis by (meson le_of_int_ceiling order_trans)
  qed
  have big: "2 powi (- 1022) \<le> ?x" "?x < 2 ^ 1023" "0 < ?x"
  proof -
    have "(2 :: rat) powi (- 1022) \<le> 2 powi (- 1)" by (rule powi_mono) simp
    also have "\<dots> \<le> ?x" using n(1) by (simp add: field_simps)
    finally show "2 powi (- 1022) \<le> ?x" .
    have "?x < 2 ^ 40" using n by (simp add: field_simps)
    also have "(2 :: rat) ^ 40 < 2 ^ 1023" by simp
    finally show "?x < 2 ^ 1023" .
    show "0 < ?x" using n(1) by simp
  qed
  obtain y where y: "double_of ?x = Fin y" "\<bar>y - ?x\<bar> \<le> ?x / 2 ^ 53"
    using double_of_error [OF big(1, 2)] .
  have m: "?m < 2 ^ 53"
  proof -
    have "?m \<le> n" using n(1) by (simp add: ceiling_le_iff field_simps)
    then show ?thesis using assms(2) by simp
  qed
  obtain y' where "double_of ?x = Fin y'" "y' \<le> of_int ?m"
    using double_of_le_int [OF up big(3) m] .
  then have le: "y \<le> of_int ?m" using y by simp
  have gt: "of_int ?m - 1 < y"
  proof -
    have "?m < (19 * n) div 20 + 2" "20 * ?m \<le> 19 * n + 19"
      by linarith+
    then have "(20 * of_int ?m :: rat) \<le> 19 * of_int n + 19"
      by (metis (mono_tags) of_int_add of_int_le_iff of_int_mult of_int_numeral)
    moreover have "?x - ?x / 2 ^ 53 \<le> y" using y(2) by linarith
    moreover have "19 * of_int n / 20 - 1 / 100 < ?x - ?x / 2 ^ 53" using n by (simp add: field_simps)
    ultimately show ?thesis by linarith
  qed
  have "\<lceil>y\<rceil> = ?m" using le gt by (simp add: ceiling_eq_iff)
  moreover have "num_mul (num_int n) (double_of (95 / 100)) = Fin y"
    using y(1) unfolding double_95 num_mul.simps .
  ultimately show ?thesis by (simp only: math_ceil.simps)
qed

lemma js_sort_ints: "js_sort (\<lambda>a b. b < a) xs = sort (xs :: int list)"
proof -
  have "sorted_wrt (\<lambda>a b. \<not> b < a) (js_sort (\<lambda>a b. b < a) xs)"
    by (rule comparator_contract.sorted_js_sort [OF key_comparator [where key = "\<lambda>x. x"]])
  then have "sorted (js_sort (\<lambda>a b. b < a) xs)" by (simp add: sorted_wrt_iff_nth_less not_less)
  then show ?thesis by (metis mset_js_sort properties_for_sort)
qed

lemma array_at_int: "0 \<le> i \<Longrightarrow> i < int (length xs) \<Longrightarrow> array_at xs (num_int i) = Some (xs ! nat i)"
  by (simp add: array_at_def)

lemma percentile95_rank:
  assumes "xs \<noteq> []" "length xs < 2 ^ 40"
  shows "percentile95 xs = sort xs ! (nat \<lceil>(19 * of_nat (length xs) / 20 :: rat)\<rceil> - 1)"
proof -
  let ?n = "int (length xs)" and ?m = "\<lceil>(19 * of_nat (length xs) / 20 :: rat)\<rceil>"
  have "int (length xs) < int (2 ^ 40)" using assms(2) by (simp only: of_nat_less_iff)
  then have n: "0 < ?n" "?n < 2 ^ 40" using assms(1) by simp_all
  have m: "1 \<le> ?m" "?m \<le> ?n"
  proof -
    have "(0 :: rat) < 19 * of_nat (length xs) / 20" using assms(1) by simp
    then show "1 \<le> ?m" by linarith
    show "?m \<le> ?n" by (simp add: ceiling_le_iff)
  qed
  have i: "math_ceil (num_mul (num_int ?n) (double_of (95 / 100))) = num_int ?m"
    using nearest_rank_index [OF n] by simp
  have "num_sub (num_int ?m) (Fin 1) = num_int (?m - 1)"
    using num_sub_int [of ?m 1] m n by simp
  then have "math_max (num_sub (num_int ?m) (Fin 1)) (Fin 0) = num_int (?m - 1)"
    using m by (simp add: math_max_def)
  then have "percentile95 xs = nullish (array_at (sort xs) (num_int (?m - 1))) 0"
    using assms(1) i by (simp add: percentile95_def js_sort_ints Let_def)
  also have "\<dots> = sort xs ! nat (?m - 1)" using m array_at_int [of "?m - 1" "sort xs"] by (simp del: of_int_diff)
  finally show ?thesis using m by (simp add: nat_diff_distrib)
qed

lemma sorted_counts:
  fixes xs :: "int list"
  assumes "sorted xs" "i < length xs"
  shows "Suc i \<le> length (filter (\<lambda>x. x \<le> xs ! i) xs)" and "length (filter (\<lambda>x. x < xs ! i) xs) \<le> i"
proof -
  have s: "filter P xs = filter P (take k xs) @ filter P (drop k xs)" for P k
    by (metis append_take_drop_id filter_append)
  have "\<forall>x \<in> set (take (Suc i) xs). x \<le> xs ! i"
    using assms by (auto simp: in_set_conv_nth less_Suc_eq_le sorted_iff_nth_mono)
  then have "filter (\<lambda>x. x \<le> xs ! i) (take (Suc i) xs) = take (Suc i) xs" by (simp add: filter_id_conv)
  then have "length (filter (\<lambda>x. x \<le> xs ! i) xs) = Suc i + length (filter (\<lambda>x. x \<le> xs ! i) (drop (Suc i) xs))"
    using assms(2) s [of "\<lambda>x. x \<le> xs ! i" "Suc i"] by simp
  then show "Suc i \<le> length (filter (\<lambda>x. x \<le> xs ! i) xs)" by simp
  have "\<forall>x \<in> set (drop i xs). \<not> x < xs ! i"
    using assms by (auto simp: in_set_conv_nth not_less sorted_iff_nth_mono)
  then have "filter (\<lambda>x. x < xs ! i) (drop i xs) = []" by (simp add: filter_empty_conv)
  then have "length (filter (\<lambda>x. x < xs ! i) xs) = length (filter (\<lambda>x. x < xs ! i) (take i xs))"
    using s [of "\<lambda>x. x < xs ! i" i] by simp
  also have "\<dots> \<le> i" by (rule order_trans [OF length_filter_le]) simp
  finally show "length (filter (\<lambda>x. x < xs ! i) xs) \<le> i" .
qed

lemma percentile95_spec:
  assumes "xs \<noteq> []" "length xs < 2 ^ 40"
  shows "percentile95 xs \<in> set xs \<and> 19 * length xs \<le> 20 * length (filter (\<lambda>x. x \<le> percentile95 xs) xs) \<and>
    20 * length (filter (\<lambda>x. x < percentile95 xs) xs) < 19 * length xs"
proof -
  define m where "m = nat \<lceil>(19 * of_nat (length xs) / 20 :: rat)\<rceil>"
  have p: "percentile95 xs = sort xs ! (m - 1)" using percentile95_rank [OF assms] by (simp add: m_def)
  have m: "19 * length xs \<le> 20 * m" "20 * m < 19 * length xs + 20" "1 \<le> m" "m \<le> length xs"
  proof -
    have e: "m = (19 * length xs + 19) div 20"
    proof -
      have "\<lceil>(19 * of_nat (length xs) / 20 :: rat)\<rceil> = (19 * int (length xs) + 19) div 20"
        by (rule ceiling_unique; simp add: field_simps)
      then show ?thesis by (simp add: m_def nat_div_distrib nat_add_distrib nat_mult_distrib)
    qed
    have "20 * m + (19 * length xs + 19) mod 20 = 19 * length xs + 19"
      unfolding e by (rule mult_div_mod_eq)
    moreover have "(19 * length xs + 19) mod 20 < 20" by simp
    moreover have "1 \<le> length xs" using assms(1) by (cases xs) auto
    ultimately show "19 * length xs \<le> 20 * m" "20 * m < 19 * length xs + 20" "1 \<le> m" "m \<le> length xs"
      by linarith+
  qed
  have f: "length (filter P (sort xs)) = length (filter P xs)" for P
    by (metis mset_filter mset_sort size_mset)
  have i: "m - 1 < length (sort xs)" using m by simp
  note c = sorted_counts [OF sorted_sort i, unfolded f]
  have "sort xs ! (m - 1) \<in> set xs" using i by (metis nth_mem set_sort)
  with c m show ?thesis unfolding p by linarith
qed

section \<open>The report\<close>

text \<open>Availability as a double, rounded to three decimals.\<close>

lemma availability_value:
  assumes "0 < s" "s \<le> n" "n < 2 ^ 40"
  obtains y where "num_mul (num_div (num_int (int s)) (num_int (int n))) (Fin 100) = Fin y"
    and "\<bar>y - 100 * (of_nat s / of_nat n)\<bar> \<le> 1 / 10 ^ 9" and "0 \<le> y"
proof -
  let ?q = "of_nat s / of_nat n :: rat"
  have n: "(0 :: rat) < of_nat n" "(of_nat n :: rat) < 2 ^ 40"
    using assms by (simp, metis of_nat_less_iff of_nat_numeral of_nat_power)
  have q: "?q \<le> 1" "2 powi (- 40) \<le> ?q"
  proof -
    show "?q \<le> 1" using assms n by simp
    have "(1 :: rat) \<le> of_nat s" using assms(1) by simp
    have "(2 :: rat) powi (- 40) * of_nat n \<le> 1" using n by (simp add: power_int_minus field_simps)
    also have "1 \<le> (of_nat s :: rat)" using assms(1) by simp
    finally show "2 powi (- 40) \<le> ?q" using n by (simp add: field_simps)
  qed
  have lo: "(2 :: rat) powi (- 1022) \<le> 2 powi (- 41)" by (rule powi_mono) simp
  have half: "(2 :: rat) powi (- 41) = 2 powi (- 40) / 2" by (simp add: power_int_minus)
  have small: "(0 :: rat) < 2 powi (- 40)" by (rule powi_pos)
  have huge: "(200 :: rat) < 2 ^ 1023" by simp
  define q where "q = ?q"
  note q = q [folded q_def]
  have "2 powi (- 1022) \<le> q" "q < 2 ^ 1023" using lo half small q huge by linarith+
  then obtain r where r: "double_of q = Fin r" "\<bar>r - q\<bar> \<le> q / 2 ^ 53"
    using double_of_error by blast
  have qpos: "0 < q" using q(2) small by linarith
  have "q / 2 ^ 53 \<le> q / 10 ^ 15" using qpos by (simp add: field_simps)
  then have r': "\<bar>r - q\<bar> \<le> q / 10 ^ 15" using r(2) by linarith
  then have rb: "q / 2 \<le> r" "r \<le> 2 * q" using abs_le_D1 [OF r'] abs_le_D2 [OF r'] qpos by simp_all
  have "2 powi (- 1022) \<le> r * 100" "r * 100 < 2 ^ 1023"
    using rb lo half small q huge by linarith+
  then obtain y where y: "double_of (r * 100) = Fin y" "\<bar>y - r * 100\<bar> \<le> r * 100 / 2 ^ 53"
    using double_of_error by blast
  have "r * 100 / 2 ^ 53 \<le> r * 100 / 10 ^ 15" using rb qpos by (simp add: field_simps)
  then have y': "\<bar>y - r * 100\<bar> \<le> r * 100 / 10 ^ 15" using y(2) by linarith
  have "\<bar>y - 100 * q\<bar> \<le> \<bar>y - r * 100\<bar> + 100 * \<bar>r - q\<bar>"
  proof -
    have "\<bar>100 * (r - q)\<bar> = 100 * \<bar>r - q\<bar>" by (simp only: abs_mult abs_numeral)
    then show ?thesis using abs_triangle_ineq [of "y - r * 100" "100 * (r - q)"] by (simp add: right_diff_distrib)
  qed
  also have "\<dots> \<le> 200 / 10 ^ 15 + 100 / 10 ^ 15" using y' r' rb q(1) by (intro add_mono) (simp_all add: field_simps)
  also have "\<dots> \<le> (1 :: rat) / 10 ^ 9" by simp
  finally have "\<bar>y - 100 * ?q\<bar> \<le> 1 / 10 ^ 9" by (simp add: q_def)
  moreover have "num_mul (num_div (num_int (int s)) (num_int (int n))) (Fin 100) = Fin y"
    using n r(1) y(1) by (simp add: q_def)
  moreover have "0 \<le> y" using abs_le_D2 [OF y'] rb qpos by (simp add: field_simps)
  ultimately show thesis by (intro that) simp_all
qed

lemma double_999: "double_of (999 / 10) = Fin (3514918771674317 / 35184372088832)"
  using double_of_known [of 6 "999 / 10" 7029837543348634]
  by (simp add: power_int_minus)

lemma toFixed_less:
  assumes "0 \<le> y" "\<lfloor>y * 1000 + 1/2\<rfloor> \<le> 99899"
  shows "num_lt (number_toFixed 3 (Fin y)) (double_of (999 / 10))"
proof -
  define n where "n = \<lfloor>y * 1000 + 1/2\<rfloor>"
  have n: "0 \<le> n" "n \<le> 99899" using assms by (simp_all add: n_def)
  have e: "number_toFixed 3 (Fin y) = double_of (of_int n / 1000)"
    using assms(1) by (simp add: n_def Let_def)
  show ?thesis
  proof (cases "n = 0")
    case True
    then show ?thesis unfolding e double_999 by (simp add: double_of_def)
  next
    case False
    then have x: "1 / 1000 \<le> (of_int n / 1000 :: rat)" "(of_int n / 1000 :: rat) \<le> 99899 / 1000" using n by simp_all
    have "(2 :: rat) powi (- 1022) \<le> 2 powi (- 10)" by (rule powi_mono) simp
    moreover have "(2 :: rat) powi (- 10) \<le> 1 / 1000" by (simp add: power_int_minus)
    moreover have "(100 :: rat) < 2 ^ 1023" by simp
    ultimately have "2 powi (- 1022) \<le> (of_int n / 1000 :: rat)" "(of_int n / 1000 :: rat) < 2 ^ 1023" using x by linarith+
    then obtain d where d: "double_of (of_int n / 1000) = Fin d" "\<bar>d - of_int n / 1000\<bar> \<le> of_int n / 1000 / 2 ^ 53"
      by (rule double_of_error)
    have "(of_int n / 1000 / 2 ^ 53 :: rat) \<le> 100 / 2 ^ 53" using x by (intro divide_right_mono) simp_all
    then have "d \<le> 99899 / 1000 + 100 / 2 ^ 53" using abs_le_D1 [OF d(2)] x(2) by linarith
    also have "\<dots> < 3514918771674317 / 35184372088832" by simp
    finally have "d < 3514918771674317 / 35184372088832" .
    then show ?thesis unfolding e d(1) double_999 by simp
  qed
qed

lemma toFixed_not_less:
  assumes "0 \<le> y" "y \<le> 200" "99900 \<le> \<lfloor>y * 1000 + 1/2\<rfloor>"
  shows "\<not> num_lt (number_toFixed 3 (Fin y)) (double_of (999 / 10))"
proof -
  define n where "n = \<lfloor>y * 1000 + 1/2\<rfloor>"
  have n: "99900 \<le> n" "n \<le> 200001" using assms by (simp_all add: n_def)
  have e: "number_toFixed 3 (Fin y) = double_of (of_int n / 1000)"
    using assms(1) by (simp add: n_def Let_def)
  show ?thesis
  proof (cases "n = 99900")
    case True
    then show ?thesis unfolding e by (simp add: double_999)
  next
    case False
    then have "99901 \<le> n" using n by simp
    then have "(of_int 99901 :: rat) \<le> of_int n" "(of_int n :: rat) \<le> of_int 200001"
      using n by (simp_all only: of_int_le_iff)
    then have x: "(99901 / 1000 :: rat) \<le> of_int n / 1000" "(of_int n / 1000 :: rat) \<le> 201" by simp_all
    have "(2 :: rat) powi (- 1022) \<le> 2 powi 0" by (rule powi_mono) simp
    moreover have "(201 :: rat) < 2 ^ 1023" by simp
    ultimately have "2 powi (- 1022) \<le> (of_int n / 1000 :: rat)" "(of_int n / 1000 :: rat) < 2 ^ 1023" using x by simp_all
    then obtain d where d: "double_of (of_int n / 1000) = Fin d" "\<bar>d - of_int n / 1000\<bar> \<le> of_int n / 1000 / 2 ^ 53"
      by (rule double_of_error)
    have "(of_int n / 1000 / 2 ^ 53 :: rat) \<le> 201 / 2 ^ 53" using x by (intro divide_right_mono) simp_all
    then have "99901 / 1000 - 201 / 2 ^ 53 \<le> d" using abs_le_D2 [OF d(2)] x(1) by linarith
    moreover have "(3514918771674317 / 35184372088832 :: rat) \<le> 99901 / 1000 - 201 / 2 ^ 53" by simp
    ultimately have "3514918771674317 / 35184372088832 \<le> d" by linarith
    then show ?thesis unfolding e d(1) double_999 by simp
  qed
qed

text \<open>An availability breach is reported only below 99.9 percent, and always at 99.899 or less.\<close>

lemma availability_breach:
  assumes "s \<le> n" "n < 2 ^ 40"
  shows "num_lt (availability_percent s n) (double_of (999 / 10)) \<Longrightarrow> 1000 * s < 999 * n"
    and "100000 * s \<le> 99899 * n \<Longrightarrow> 0 < n \<Longrightarrow> num_lt (availability_percent s n) (double_of (999 / 10))"
proof -
  consider "n = 0" | "s = 0" "0 < n" | "0 < s" "0 < n" by auto
  then have "(num_lt (availability_percent s n) (double_of (999 / 10)) \<longrightarrow> 1000 * s < 999 * n) \<and>
    (100000 * s \<le> 99899 * n \<longrightarrow> 0 < n \<longrightarrow> num_lt (availability_percent s n) (double_of (999 / 10)))"
  proof cases
    case 1
    then show ?thesis by (simp add: availability_percent_def double_999)
  next
    case 2
    then have "num_mul (num_div (num_int (int s)) (num_int (int n))) (Fin 100) = Fin 0" by (simp add: double_of_def)
    then show ?thesis using 2 toFixed_less [of 0] by (simp add: availability_percent_def)
  next
    case 3
    obtain y where y: "num_mul (num_div (num_int (int s)) (num_int (int n))) (Fin 100) = Fin y"
      "\<bar>y - 100 * (of_nat s / of_nat n)\<bar> \<le> 1 / 10 ^ 9" "0 \<le> y"
      using availability_value [OF 3(1) assms] .
    define q where "q = (of_nat s / of_nat n :: rat)"
    note d = abs_le_D1 [OF y(2), folded q_def] abs_le_D2 [OF y(2), folded q_def]
    have a: "availability_percent s n = number_toFixed 3 (Fin y)"
      using 3(2) by (simp only: availability_percent_def y(1)) simp
    have q: "0 < q" "q \<le> 1" using 3 assms(1) by (simp_all add: q_def)
    have bounds: "100000 * q \<le> 99899 \<longleftrightarrow> 100000 * s \<le> 99899 * n" "999 / 1000 \<le> q \<longleftrightarrow> 999 * n \<le> 1000 * s"
    proof -
      have n: "(0 :: rat) < of_nat n" using 3(2) by simp
      have "100000 * q \<le> 99899 \<longleftrightarrow> (of_nat (100000 * s) :: rat) \<le> of_nat (99899 * n)"
        using n by (simp add: q_def pos_divide_le_eq)
      then show "100000 * q \<le> 99899 \<longleftrightarrow> 100000 * s \<le> 99899 * n" by (simp only: of_nat_le_iff)
      have "999 / 1000 \<le> q \<longleftrightarrow> (of_nat (999 * n) :: rat) \<le> of_nat (1000 * s)"
        using n by (simp add: q_def pos_le_divide_eq mult.commute)
      then show "999 / 1000 \<le> q \<longleftrightarrow> 999 * n \<le> 1000 * s" by (simp only: of_nat_le_iff)
    qed
    have "num_lt (availability_percent s n) (double_of (999 / 10))" if "100000 * q \<le> 99899"
      unfolding a using that d y(3) by (intro toFixed_less) (simp_all add: floor_le_iff)
    moreover have "\<not> num_lt (availability_percent s n) (double_of (999 / 10))" if "999 / 1000 \<le> q"
      unfolding a using that d y(3) q by (intro toFixed_not_less) (simp_all add: le_floor_iff)
    ultimately show ?thesis using bounds by (metis not_less)
  qed
  then show "num_lt (availability_percent s n) (double_of (999 / 10)) \<Longrightarrow> 1000 * s < 999 * n"
    and "100000 * s \<le> 99899 * n \<Longrightarrow> 0 < n \<Longrightarrow> num_lt (availability_percent s n) (double_of (999 / 10))" by blast+
qed

lemma note_breach_fst: "fst (note_breach v b e acc) = fst acc @ (if v then [b] else [])"
  by (simp add: note_breach_def)

lemma note_breach_events: "bus_events (snd (note_breach v b e acc)) = bus_events (snd acc) @ (if v then [e] else [])"
  by (simp add: note_breach_def)

definition p95_of :: "int list \<Rightarrow> int \<Rightarrow> bool" where
  "p95_of xs v = (if xs = [] then v = 0
     else v \<in> set xs \<and> 19 * length xs \<le> 20 * length (filter (\<lambda>x. x \<le> v) xs) \<and>
       20 * length (filter (\<lambda>x. x < v) xs) < 19 * length xs)"

lemma percentile95_p95: "length xs < 2 ^ 40 \<Longrightarrow> p95_of xs (percentile95 xs)"
proof (cases "xs = []")
  case True
  then show ?thesis by (simp add: p95_of_def percentile95_def)
next
  case False
  then show "length xs < 2 ^ 40 \<Longrightarrow> p95_of xs (percentile95 xs)"
    using percentile95_spec [of xs] by (simp add: p95_of_def)
qed

definition breached :: "breachType \<Rightarrow> sloReport \<Rightarrow> bool" where
  "breached t r = (t \<in> br_type ` set (sr_breaches r))"

definition failures :: "structuredLogEntry list \<Rightarrow> nat" where
  "failures logs = length (filter (\<lambda>l. 500 \<le> sl_statusCode l) (availability_logs logs))"

lemma successes_failures:
  "length (filter (\<lambda>l. sl_statusCode l < 500) xs) + length (filter (\<lambda>l. 500 \<le> sl_statusCode l) xs) = length xs"
  by (induction xs) auto

lemma slo_breaches_types:
  "map br_type (fst (slo_breaches now1 now2 now3 a c t bus)) =
     (if num_lt a (double_of (999 / 10)) then [AVAILABILITY] else []) @
     (if 700 < c then [LATENCY_CHECKOUT] else []) @ (if 400 < t then [LATENCY_TIMELINE] else [])"
  unfolding slo_breaches_def Let_def note_breach_fst map_append by simp

lemma slo_breaches_events:
  "length (bus_events (snd (slo_breaches now1 now2 now3 a c t bus))) =
     length (bus_events bus) + length (fst (slo_breaches now1 now2 now3 a c t bus))"
  unfolding slo_breaches_def Let_def note_breach_fst note_breach_events length_append by simp


definition demo_log :: structuredLogEntry where
  "demo_log = \<lparr>sl_timestamp = ''0'', sl_level = ERROR, sl_service = ''core-api'', sl_traceId = ''t'', sl_spanId = ''s'',
     sl_method = ''POST'', sl_route = ''/api/v1/consumer/checkout'', sl_statusCode = 500, sl_durationMs = 800,
     sl_message = ''HTTP request completed'', sl_metadata = []\<rparr>"


section \<open>The log in the document store\<close>

text \<open>
  \<open>PersistentStructuredLogRepository\<close>: the hydration and the writes are tasks that finish later,
  the writes only after the hydration and then in any order. A task that fails is not modelled.
\<close>

record log_store =
  ls_logs :: log_repo
  ls_hydrated :: bool
  ls_pendingWrites :: "structuredLogEntry list"
  ls_store :: "structuredLogEntry document_store"

definition log_namespace :: string where
  "log_namespace = ''platform.structured_logs''"

definition logKey :: "structuredLogEntry \<Rightarrow> string" where
  "logKey l = sl_timestamp l @ '':'' @ sl_traceId l @ '':'' @ sl_spanId l"

definition persistent_log_append :: "structuredLogEntry \<Rightarrow> log_store \<Rightarrow> log_store" where
  "persistent_log_append l s =
     s\<lparr>ls_logs := log_append l (ls_logs s), ls_pendingWrites := ls_pendingWrites s @ [l]\<rparr>"

definition log_hydrate :: "(structuredLogEntry \<Rightarrow> structuredLogEntry) \<Rightarrow> host \<Rightarrow> log_store \<Rightarrow> log_store" where
  "log_hydrate clone h s =
     (let logs = ds_list clone log_namespace (ls_store s);
          sortedLogs = js_sort (\<lambda>a b. locale_gt h (sl_timestamp a) (sl_timestamp b)) logs
      in s\<lparr>ls_logs := fold log_append sortedLogs (ls_logs s), ls_hydrated := True\<rparr>)"

definition log_write :: "(structuredLogEntry \<Rightarrow> structuredLogEntry) \<Rightarrow> structuredLogEntry \<Rightarrow> log_store \<Rightarrow> log_store" where
  "log_write clone l s =
     s\<lparr>ls_store := ds_put clone log_namespace (logKey l) l (ls_store s),
       ls_pendingWrites := remove1 l (ls_pendingWrites s)\<rparr>"

definition log_open :: "structuredLogEntry document_store \<Rightarrow> log_store" where
  "log_open st = \<lparr>ls_logs = [], ls_hydrated = False, ls_pendingWrites = [], ls_store = st\<rparr>"

text \<open>Runs, with the logs appended so far.\<close>

inductive log_runs ::
  "(structuredLogEntry \<Rightarrow> structuredLogEntry) \<Rightarrow> host \<Rightarrow> structuredLogEntry document_store \<Rightarrow>
   structuredLogEntry list \<Rightarrow> log_store \<Rightarrow> bool" for clone h st where
  log_start: "log_runs clone h st [] (log_open st)"
| log_appends: "log_runs clone h st ls s \<Longrightarrow> log_runs clone h st (ls @ [l]) (persistent_log_append l s)"
| log_hydrates: "log_runs clone h st ls s \<Longrightarrow> \<not> ls_hydrated s \<Longrightarrow> log_runs clone h st ls (log_hydrate clone h s)"
| log_writes: "log_runs clone h st ls s \<Longrightarrow> ls_hydrated s \<Longrightarrow> l \<in> set (ls_pendingWrites s) \<Longrightarrow>
    log_runs clone h st ls (log_write clone l s)"

lemma fold_log_append: "fold log_append xs s = s @ xs"
  by (induction xs arbitrary: s) (simp_all add: log_append_def)

definition stored_log :: "log_store \<Rightarrow> structuredLogEntry \<Rightarrow> structuredLogEntry option" where
  "stored_log s l = map_get (ds_entries log_namespace (ls_store s)) (logKey l)"

lemma stored_write: "stored_log (log_write clone l s) x = (if logKey x = logKey l then Some (clone l) else stored_log s x)"
  by (simp add: stored_log_def log_write_def ds_entries_put map_get_set)

text \<open>Every log appended is in memory, and waits to be written or is stored under its key.\<close>

definition log_inv ::
  "(structuredLogEntry \<Rightarrow> structuredLogEntry) \<Rightarrow> structuredLogEntry document_store \<Rightarrow> structuredLogEntry list \<Rightarrow> log_store \<Rightarrow> bool"
where
  "log_inv clone st ls s =
     (mset (ls_logs s) = mset ls + (if ls_hydrated s then mset (ds_list clone log_namespace st) else {#}) \<and>
      (\<not> ls_hydrated s \<longrightarrow> ls_store s = st) \<and> set (ls_pendingWrites s) \<subseteq> set ls \<and>
      (\<forall>l \<in> set ls. l \<in> set (ls_pendingWrites s) \<or>
         (\<exists>l' \<in> set ls. logKey l' = logKey l \<and> stored_log s l = Some (clone l'))))"

lemma log_inv_runs: "log_runs clone h st ls s \<Longrightarrow> log_inv clone st ls s"
proof (induction rule: log_runs.induct)
  case log_start
  then show ?case by (simp add: log_inv_def log_open_def)
next
  case (log_appends ls s l)
  then show ?case
    by (auto simp: log_inv_def persistent_log_append_def log_append_def stored_log_def)
next
  case (log_hydrates ls s)
  have "stored_log (log_hydrate clone h s) x = stored_log s x" for x by (simp add: stored_log_def log_hydrate_def Let_def)
  then show ?case using log_hydrates by (simp add: log_inv_def) (simp add: log_hydrate_def Let_def fold_log_append)
next
  case (log_writes ls s l)
  have l: "l \<in> set ls" using log_writes by (auto simp: log_inv_def)
  have p: "set (ls_pendingWrites (log_write clone l s)) \<subseteq> set (ls_pendingWrites s)"
    "x \<in> set (ls_pendingWrites s) \<Longrightarrow> x = l \<or> x \<in> set (ls_pendingWrites (log_write clone l s))" for x
  proof -
    show "set (ls_pendingWrites (log_write clone l s)) \<subseteq> set (ls_pendingWrites s)"
      by (simp add: log_write_def set_remove1_subset)
    show "x \<in> set (ls_pendingWrites s) \<Longrightarrow> x = l \<or> x \<in> set (ls_pendingWrites (log_write clone l s))"
      by (cases "x = l") (simp_all add: log_write_def in_set_remove1)
  qed
  have "x \<in> set (ls_pendingWrites (log_write clone l s)) \<or>
      (\<exists>l' \<in> set ls. logKey l' = logKey x \<and> stored_log (log_write clone l s) x = Some (clone l'))" if "x \<in> set ls" for x
  proof (cases "logKey x = logKey l")
    case True
    then show ?thesis using l by (auto simp: stored_write)
  next
    case False
    then show ?thesis using that log_writes.IH p(2) [of x] by (auto simp: log_inv_def stored_write)
  qed
  then show ?case
    using log_writes.IH log_writes.hyps(2) p(1) by (auto simp: log_inv_def log_write_def)
qed

text \<open>After a flush every appended log is in memory once, beside the logs loaded, and the store has it
  under its key.\<close>

lemma log_flush_complete:
  assumes "log_runs clone h st ls s" "ls_hydrated s" "ls_pendingWrites s = []"
  shows "mset (ls_logs s) = mset ls + mset (ds_list clone log_namespace st)"
    and "l \<in> set ls \<Longrightarrow> inj_on logKey (set ls) \<Longrightarrow> stored_log s l = Some (clone l)"
proof -
  note i = log_inv_runs [OF assms(1)] 
  show "mset (ls_logs s) = mset ls + mset (ds_list clone log_namespace st)"
    using i assms(2) by (simp add: log_inv_def)
  show "stored_log s l = Some (clone l)" if "l \<in> set ls" "inj_on logKey (set ls)"
    using i assms(3) that by (auto simp: log_inv_def dest: inj_onD)
qed

end
