(* ===== verification/Routing.thy ===== *)
theory Routing
  imports HttpApi
begin

text \<open>
  The routes of the core API (\<open>core-api/src/server.ts\<close>): the tests of method and path that the
  request handler makes, in its order. A path is the \<open>pathname\<close> of the parsed URL. A regular
  expression with \<open>([^/]+)\<close> binds one non-empty segment.
\<close>

section \<open>decodeURIComponent\<close>

text \<open>
  Escapes become bytes, and the bytes have to be UTF-8 (a string holds the bytes of what lies
  beyond ASCII). \<open>None\<close> is the \<open>URIError\<close>.
\<close>

fun unescape :: "string \<Rightarrow> string option" where
  "unescape [] = Some []"
| "unescape (c # s) =
     (if c \<noteq> CHR ''%'' then map_option ((#) c) (unescape s)
      else case s of
        a # b # t \<Rightarrow>
          (case (radix_digit 16 a, radix_digit 16 b) of
             (Some x, Some y) \<Rightarrow> map_option ((#) (char_of (16 * x + y))) (unescape t)
           | _ \<Rightarrow> None)
      | _ \<Rightarrow> None)"

definition continuation :: "nat \<Rightarrow> bool" where
  "continuation b = (128 \<le> b \<and> b < 192)"

text \<open>The well-formed byte sequences of UTF-8: no overlong forms, no surrogates, nothing above
  U+10FFFF.\<close>

definition three_bytes :: "nat \<Rightarrow> nat \<Rightarrow> bool" where
  "three_bytes a b = (continuation b \<and> (a = 224 \<longrightarrow> 160 \<le> b) \<and> (a = 237 \<longrightarrow> b < 160))"

definition four_bytes :: "nat \<Rightarrow> nat \<Rightarrow> bool" where
  "four_bytes a b = (continuation b \<and> (a = 240 \<longrightarrow> 144 \<le> b) \<and> (a = 244 \<longrightarrow> b < 144))"

fun valid_utf8 :: "nat list \<Rightarrow> bool" where
  "valid_utf8 [] = True"
| "valid_utf8 (a # bs) =
     (if a < 128 then valid_utf8 bs
      else if 194 \<le> a \<and> a < 224 then (case bs of b # r \<Rightarrow> continuation b \<and> valid_utf8 r | _ \<Rightarrow> False)
      else if 224 \<le> a \<and> a < 240 then (case bs of b # c # r \<Rightarrow> three_bytes a b \<and> continuation c \<and> valid_utf8 r | _ \<Rightarrow> False)
      else if 240 \<le> a \<and> a < 245 then
        (case bs of b # c # d # r \<Rightarrow> four_bytes a b \<and> continuation c \<and> continuation d \<and> valid_utf8 r | _ \<Rightarrow> False)
      else False)"

definition decodeURIComponent :: "string \<Rightarrow> string option" where
  "decodeURIComponent s =
     (case unescape s of None \<Rightarrow> None | Some t \<Rightarrow> if valid_utf8 (bytes_of t) then Some t else None)"

lemma unescape_plain: "CHR ''%'' \<notin> set s \<Longrightarrow> unescape s = Some s"
  by (induction s) auto

lemma valid_utf8_ascii: "\<forall>b \<in> set bs. b < 128 \<Longrightarrow> valid_utf8 bs"
  by (induction bs) auto

lemma decode_plain:
  assumes "CHR ''%'' \<notin> set s" "\<forall>c \<in> set s. (of_char c :: nat) < 128"
  shows "decodeURIComponent s = Some s"
  using assms by (simp add: decodeURIComponent_def unescape_plain valid_utf8_ascii bytes_of_def)

section \<open>Routes\<close>

text \<open>One datatype per area; an argument is the raw path segment the expression captures.\<close>

datatype platform_route = Logs_route | Slo_route | Health_route | Admin_health_route | Break_glass_route

datatype identity_route = Register_route | Login_route | Refresh_route | Mfa_route

datatype catalog_route =
    List_stores_route | Store_menu_route string | Create_menu_route | Update_menu_route string
  | Menu_versions_route string | Get_menu_route string | Store_status_route string | Orderability_route string
  | Prep_time_route string | Set_availability_route string | Get_availability_route string

datatype ordering_route =
    Upsert_zone_route | Validate_zone_route | Quote_route | Promotion_route | Checkout_route
  | Create_basket_route | Update_basket_route string | Get_basket_route string

datatype order_route =
    Create_order_route | Consumer_orders_route | Get_order_route string | Order_timeline_route string
  | Cancel_order_route string | Accept_order_route string | Reject_order_route string | Merchant_orders_route
  | Order_timeout_route string | Request_dispatch_route string | Rebuild_timeline_route

datatype courier_route =
    Available_jobs_route | List_jobs_route | Get_job_route string | Telemetry_route | Accept_job_route string
  | Pickup_job_route string | Dropoff_job_route string

datatype payment_route =
    Authorize_route | Capture_route | Cash_expected_route | Cash_collection_route string | Request_refund_route
  | Approve_refund_route string | Payment_audit_route string

datatype support_route = Create_ticket_route | Ticket_timeline_route string | Intervention_route | Sla_route

datatype risk_route =
    Evaluate_policy_route | List_rules_route | Upsert_rule_route string | Queue_review_route
  | Resolve_review_route string | Append_audit_route | List_audit_route | Evidence_route

datatype settlement_route =
    Post_journal_route | Reconcile_route | Ingest_route | Import_run_route string | Reconciliation_results_route
  | Generate_payout_route | Payout_run_route string | Publish_statement_route | Merchant_payouts_route
  | Courier_payouts_route

datatype notification_route =
    Fanout_route | Resolve_template_route | Retry_route | Record_receipt_route | List_receipts_route

datatype route =
    Platform platform_route | Identity identity_route | Catalog catalog_route | Ordering ordering_route
  | Orders order_route | Courier courier_route | Payments payment_route | Support support_route | Risk risk_route
  | Settlement settlement_route | Notifications notification_route

text \<open>A pattern is a list of literal segments and captures (\<open>None\<close>).\<close>

type_synonym pattern = "string option list"

record route_entry =
  rt_method :: string
  rt_pattern :: pattern
  rt_route :: "string \<Rightarrow> route"

definition entry :: "string \<Rightarrow> pattern \<Rightarrow> (string \<Rightarrow> route) \<Rightarrow> route_entry" where
  "entry m p r = \<lparr>rt_method = m, rt_pattern = p, rt_route = r\<rparr>"

fun match_segments :: "pattern \<Rightarrow> string list \<Rightarrow> string \<Rightarrow> string option" where
  "match_segments [] [] captured = Some captured"
| "match_segments (Some l # ps) (s # ss) captured = (if s = l then match_segments ps ss captured else None)"
| "match_segments (None # ps) (s # ss) captured = (if s = [] then None else match_segments ps ss s)"
| "match_segments _ _ captured = None"

text \<open>A path starts with a slash: its first piece is empty.\<close>

definition match_path :: "pattern \<Rightarrow> string \<Rightarrow> string option" where
  "match_path p path =
     (case split_char (CHR ''/'') path of
        s # ss \<Rightarrow> if s = [] then match_segments p ss [] else None
      | [] \<Rightarrow> None)"

definition match_entry :: "string \<Rightarrow> string \<Rightarrow> route_entry \<Rightarrow> route option" where
  "match_entry method path e =
     (if method = rt_method e then map_option (rt_route e) (match_path (rt_pattern e) path) else None)"

fun first_match :: "('a \<Rightarrow> 'b option) \<Rightarrow> 'a list \<Rightarrow> 'b option" where
  "first_match f [] = None"
| "first_match f (x # xs) = (case f x of Some y \<Rightarrow> Some y | None \<Rightarrow> first_match f xs)"


section \<open>The tests in their order\<close>

definition routes_identity_ordering :: "route_entry list" where
  "routes_identity_ordering =
     [entry ''GET'' [Some ''internal'', Some ''observability'', Some ''logs''] (\<lambda>_. Platform Logs_route),
      entry ''GET'' [Some ''internal'', Some ''observability'', Some ''slo'', Some ''dashboard''] (\<lambda>_. Platform Slo_route),
      entry ''GET'' [Some ''health''] (\<lambda>_. Platform Health_route),
      entry ''POST'' [Some ''api'', Some ''v1'', Some ''identity'', Some ''register''] (\<lambda>_. Identity Register_route),
      entry ''POST'' [Some ''api'', Some ''v1'', Some ''identity'', Some ''login''] (\<lambda>_. Identity Login_route),
      entry ''POST'' [Some ''api'', Some ''v1'', Some ''identity'', Some ''token'', Some ''refresh''] (\<lambda>_. Identity Refresh_route),
      entry ''POST'' [Some ''api'', Some ''v1'', Some ''identity'', Some ''mfa'', Some ''verify''] (\<lambda>_. Identity Mfa_route),
      entry ''POST'' [Some ''api'', Some ''v1'', Some ''admin'', Some ''delivery-zones''] (\<lambda>_. Ordering Upsert_zone_route),
      entry ''POST'' [Some ''api'', Some ''v1'', Some ''consumer'', Some ''quotes'', Some ''validate-zone''] (\<lambda>_. Ordering Validate_zone_route),
      entry ''POST'' [Some ''api'', Some ''v1'', Some ''consumer'', Some ''quotes''] (\<lambda>_. Ordering Quote_route),
      entry ''GET'' [Some ''api'', Some ''v1'', Some ''consumer'', Some ''stores''] (\<lambda>_. Catalog List_stores_route),
      entry ''GET'' [Some ''api'', Some ''v1'', Some ''consumer'', Some ''stores'', None, Some ''menu''] (Catalog \<circ> Store_menu_route),
      entry ''POST'' [Some ''api'', Some ''v1'', Some ''consumer'', Some ''promotions'', Some ''evaluate''] (\<lambda>_. Ordering Promotion_route),
      entry ''POST'' [Some ''api'', Some ''v1'', Some ''consumer'', Some ''checkout''] (\<lambda>_. Ordering Checkout_route)]"

definition routes_order_payment :: "route_entry list" where
  "routes_order_payment =
     [entry ''POST'' [Some ''api'', Some ''v1'', Some ''consumer'', Some ''orders''] (\<lambda>_. Orders Create_order_route),
      entry ''GET'' [Some ''api'', Some ''v1'', Some ''consumer'', Some ''orders''] (\<lambda>_. Orders Consumer_orders_route),
      entry ''GET'' [Some ''api'', Some ''v1'', Some ''consumer'', Some ''orders'', None] (Orders \<circ> Get_order_route),
      entry ''GET'' [Some ''api'', Some ''v1'', Some ''consumer'', Some ''orders'', None, Some ''timeline''] (Orders \<circ> Order_timeline_route),
      entry ''POST'' [Some ''api'', Some ''v1'', Some ''consumer'', Some ''orders'', None, Some ''cancel''] (Orders \<circ> Cancel_order_route),
      entry ''POST'' [Some ''api'', Some ''v1'', Some ''payments'', Some ''authorize''] (\<lambda>_. Payments Authorize_route),
      entry ''POST'' [Some ''api'', Some ''v1'', Some ''payments'', Some ''capture''] (\<lambda>_. Payments Capture_route),
      entry ''POST'' [Some ''internal'', Some ''payments'', Some ''cash'', Some ''expected''] (\<lambda>_. Payments Cash_expected_route),
      entry ''POST'' [Some ''api'', Some ''v1'', Some ''courier'', Some ''orders'', None, Some ''cash-collection''] (Payments \<circ> Cash_collection_route),
      entry ''GET'' [Some ''api'', Some ''v1'', Some ''courier'', Some ''jobs'', Some ''available''] (\<lambda>_. Courier Available_jobs_route),
      entry ''GET'' [Some ''api'', Some ''v1'', Some ''courier'', Some ''jobs''] (\<lambda>_. Courier List_jobs_route),
      entry ''GET'' [Some ''api'', Some ''v1'', Some ''courier'', Some ''jobs'', None] (Courier \<circ> Get_job_route),
      entry ''POST'' [Some ''api'', Some ''v1'', Some ''courier'', Some ''telemetry''] (\<lambda>_. Courier Telemetry_route),
      entry ''POST'' [Some ''api'', Some ''v1'', Some ''courier'', Some ''jobs'', None, Some ''accept''] (Courier \<circ> Accept_job_route),
      entry ''POST'' [Some ''api'', Some ''v1'', Some ''courier'', Some ''jobs'', None, Some ''pickup''] (Courier \<circ> Pickup_job_route),
      entry ''POST'' [Some ''api'', Some ''v1'', Some ''courier'', Some ''jobs'', None, Some ''dropoff''] (Courier \<circ> Dropoff_job_route)]"

definition routes_support_risk :: "route_entry list" where
  "routes_support_risk =
     [entry ''POST'' [Some ''api'', Some ''v1'', Some ''support'', Some ''tickets''] (\<lambda>_. Support Create_ticket_route),
      entry ''GET'' [Some ''api'', Some ''v1'', Some ''support'', Some ''tickets'', None, Some ''timeline''] (Support \<circ> Ticket_timeline_route),
      entry ''POST'' [Some ''api'', Some ''v1'', Some ''support'', Some ''interventions'', Some ''execute''] (\<lambda>_. Support Intervention_route),
      entry ''POST'' [Some ''internal'', Some ''support'', Some ''sla'', Some ''evaluate''] (\<lambda>_. Support Sla_route),
      entry ''POST'' [Some ''internal'', Some ''risk'', Some ''policy'', Some ''evaluate''] (\<lambda>_. Risk Evaluate_policy_route),
      entry ''GET'' [Some ''internal'', Some ''risk'', Some ''policy'', Some ''rules''] (\<lambda>_. Risk List_rules_route),
      entry ''PUT'' [Some ''internal'', Some ''risk'', Some ''policy'', Some ''rules'', None] (Risk \<circ> Upsert_rule_route),
      entry ''POST'' [Some ''internal'', Some ''risk'', Some ''manual-reviews''] (\<lambda>_. Risk Queue_review_route),
      entry ''POST'' [Some ''api'', Some ''v1'', Some ''admin'', Some ''risk'', Some ''reviews'', None, Some ''resolve''] (Risk \<circ> Resolve_review_route),
      entry ''POST'' [Some ''internal'', Some ''risk'', Some ''compliance'', Some ''audit'', Some ''events''] (\<lambda>_. Risk Append_audit_route),
      entry ''GET'' [Some ''internal'', Some ''risk'', Some ''compliance'', Some ''audit'', Some ''events''] (\<lambda>_. Risk List_audit_route),
      entry ''POST'' [Some ''internal'', Some ''risk'', Some ''compliance'', Some ''evidence'', Some ''jobs''] (\<lambda>_. Risk Evidence_route),
      entry ''POST'' [Some ''api'', Some ''v1'', Some ''support'', Some ''refunds''] (\<lambda>_. Payments Request_refund_route),
      entry ''POST'' [Some ''internal'', Some ''payments'', Some ''refunds'', None, Some ''approve''] (Payments \<circ> Approve_refund_route),
      entry ''GET'' [Some ''internal'', Some ''payments'', Some ''audit'', None] (Payments \<circ> Payment_audit_route)]"

definition routes_settlement_notification :: "route_entry list" where
  "routes_settlement_notification =
     [entry ''POST'' [Some ''internal'', Some ''settlement'', Some ''ledger'', Some ''entries''] (\<lambda>_. Settlement Post_journal_route),
      entry ''POST'' [Some ''internal'', Some ''settlement'', Some ''reconciliation'', Some ''run''] (\<lambda>_. Settlement Reconcile_route),
      entry ''POST'' [Some ''internal'', Some ''settlement'', Some ''reconciliation'', Some ''ingest''] (\<lambda>_. Settlement Ingest_route),
      entry ''POST'' [Some ''internal'', Some ''settlement'', Some ''reconciliation'', Some ''import-schedules'', None, Some ''run''] (Settlement \<circ> Import_run_route),
      entry ''GET'' [Some ''internal'', Some ''settlement'', Some ''reconciliation'', Some ''results''] (\<lambda>_. Settlement Reconciliation_results_route),
      entry ''POST'' [Some ''api'', Some ''v1'', Some ''admin'', Some ''payouts'', Some ''generate''] (\<lambda>_. Settlement Generate_payout_route),
      entry ''POST'' [Some ''internal'', Some ''settlement'', Some ''payout-schedules'', None, Some ''run''] (Settlement \<circ> Payout_run_route),
      entry ''POST'' [Some ''internal'', Some ''settlement'', Some ''payout-statements'', Some ''publish''] (\<lambda>_. Settlement Publish_statement_route),
      entry ''GET'' [Some ''api'', Some ''v1'', Some ''merchant'', Some ''payouts''] (\<lambda>_. Settlement Merchant_payouts_route),
      entry ''GET'' [Some ''api'', Some ''v1'', Some ''courier'', Some ''payouts''] (\<lambda>_. Settlement Courier_payouts_route),
      entry ''POST'' [Some ''internal'', Some ''notifications'', Some ''fanout''] (\<lambda>_. Notifications Fanout_route),
      entry ''POST'' [Some ''internal'', Some ''notifications'', Some ''templates'', Some ''resolve''] (\<lambda>_. Notifications Resolve_template_route),
      entry ''POST'' [Some ''internal'', Some ''notifications'', Some ''retry''] (\<lambda>_. Notifications Retry_route),
      entry ''POST'' [Some ''internal'', Some ''notifications'', Some ''receipts''] (\<lambda>_. Notifications Record_receipt_route),
      entry ''GET'' [Some ''internal'', Some ''notifications'', Some ''receipts''] (\<lambda>_. Notifications List_receipts_route)]"

definition routes_merchant_catalog :: "route_entry list" where
  "routes_merchant_catalog =
     [entry ''POST'' [Some ''api'', Some ''v1'', Some ''merchant'', Some ''orders'', None, Some ''accept''] (Orders \<circ> Accept_order_route),
      entry ''POST'' [Some ''api'', Some ''v1'', Some ''merchant'', Some ''orders'', None, Some ''reject''] (Orders \<circ> Reject_order_route),
      entry ''GET'' [Some ''api'', Some ''v1'', Some ''merchant'', Some ''orders''] (\<lambda>_. Orders Merchant_orders_route),
      entry ''POST'' [Some ''internal'', Some ''orders'', None, Some ''merchant-timeout''] (Orders \<circ> Order_timeout_route),
      entry ''POST'' [Some ''internal'', Some ''orders'', None, Some ''request-dispatch''] (Orders \<circ> Request_dispatch_route),
      entry ''POST'' [Some ''internal'', Some ''orders'', Some ''timeline'', Some ''rebuild''] (\<lambda>_. Orders Rebuild_timeline_route),
      entry ''POST'' [Some ''api'', Some ''v1'', Some ''consumer'', Some ''baskets''] (\<lambda>_. Ordering Create_basket_route),
      entry ''PATCH'' [Some ''api'', Some ''v1'', Some ''consumer'', Some ''baskets'', None] (Ordering \<circ> Update_basket_route),
      entry ''GET'' [Some ''api'', Some ''v1'', Some ''consumer'', Some ''baskets'', None] (Ordering \<circ> Get_basket_route),
      entry ''POST'' [Some ''api'', Some ''v1'', Some ''merchant'', Some ''catalog'', Some ''menus''] (\<lambda>_. Catalog Create_menu_route),
      entry ''PUT'' [Some ''api'', Some ''v1'', Some ''merchant'', Some ''catalog'', Some ''menus'', None] (Catalog \<circ> Update_menu_route),
      entry ''GET'' [Some ''api'', Some ''v1'', Some ''merchant'', Some ''catalog'', Some ''menus'', None, Some ''versions''] (Catalog \<circ> Menu_versions_route),
      entry ''GET'' [Some ''api'', Some ''v1'', Some ''merchant'', Some ''catalog'', Some ''menus'', None] (Catalog \<circ> Get_menu_route),
      entry ''POST'' [Some ''api'', Some ''v1'', Some ''merchant'', Some ''stores'', None, Some ''status''] (Catalog \<circ> Store_status_route),
      entry ''GET'' [Some ''internal'', Some ''catalog'', Some ''stores'', None, Some ''orderability''] (Catalog \<circ> Orderability_route),
      entry ''GET'' [Some ''internal'', Some ''catalog'', Some ''stores'', None, Some ''prep-time''] (Catalog \<circ> Prep_time_route),
      entry ''POST'' [Some ''api'', Some ''v1'', Some ''merchant'', Some ''items'', None, Some ''availability''] (Catalog \<circ> Set_availability_route),
      entry ''GET'' [Some ''internal'', Some ''catalog'', Some ''items'', None, Some ''availability''] (Catalog \<circ> Get_availability_route),
      entry ''GET'' [Some ''api'', Some ''v1'', Some ''admin'', Some ''health''] (\<lambda>_. Platform Admin_health_route),
      entry ''POST'' [Some ''api'', Some ''v1'', Some ''admin'', Some ''break-glass'', Some ''activate''] (\<lambda>_. Platform Break_glass_route)]"

definition routes :: "route_entry list" where
  "routes = routes_identity_ordering @ routes_order_payment @ routes_support_risk @
     routes_settlement_notification @ routes_merchant_catalog"

definition route_of :: "string \<Rightarrow> string \<Rightarrow> route option" where
  "route_of method path = first_match (match_entry method path) routes"


section \<open>The tests determine the route\<close>

text \<open>A request with the path \<open>/s1/s2\<close> has the segments \<open>s1\<close> and \<open>s2\<close>.\<close>

definition render_path :: "string list \<Rightarrow> string" where
  "render_path ss = concat (map ((#) (CHR ''/'')) ss)"

definition segment_ok :: "string \<Rightarrow> bool" where
  "segment_ok s = (s \<noteq> [] \<and> CHR ''/'' \<notin> set s)"

definition fill :: "string \<Rightarrow> pattern \<Rightarrow> string list" where
  "fill i p = map (\<lambda>x. case x of Some l \<Rightarrow> l | None \<Rightarrow> i) p"

definition literals_ok :: "pattern \<Rightarrow> bool" where
  "literals_ok p = list_all (\<lambda>x. case x of Some l \<Rightarrow> l \<noteq> [] \<and> list_all (\<lambda>c. c \<noteq> CHR ''/'') l | None \<Rightarrow> True) p"

lemma split_char_nonempty: "split_char c s \<noteq> []"
  by (cases s) (auto split: list.splits)

lemma concat_split_char: "concat (map ((#) c) (split_char c s)) = c # s"
proof (induction s)
  case (Cons x s)
  then show ?case
    using split_char_nonempty [of c s] by (auto split: list.splits)
qed simp

lemma split_char_free: "p \<in> set (split_char c s) \<Longrightarrow> c \<notin> set p"
  by (induction s arbitrary: p) (auto split: list.splits if_splits)

lemma split_render: "list_all segment_ok ss \<Longrightarrow> split_char (CHR ''/'') (render_path ss) = [] # ss"
proof (induction ss)
  case (Cons s ss)
  have "split_char (CHR ''/'') (s @ render_path ss) = s # ss"
  proof (cases ss)
    case Nil
    with Cons.prems show ?thesis
      by (simp add: render_path_def segment_ok_def split_char_none)
  next
    case (Cons t ts)
    with Cons.IH Cons.prems have "split_char (CHR ''/'') (render_path (t # ts)) = [] # t # ts" by simp
    then have "split_char (CHR ''/'') (t @ render_path ts) = t # ts"
      by (simp add: render_path_def)
    with Cons Cons.prems split_char_append [of "CHR ''/''" s "t @ render_path ts"] show ?thesis
      by (simp add: render_path_def segment_ok_def)
  qed
  then show ?case by (simp add: render_path_def)
qed (simp add: render_path_def)

lemma match_segments_const: "match_segments p ss c = Some d \<Longrightarrow> None \<notin> set p \<Longrightarrow> d = c"
  by (induction p ss c rule: match_segments.induct) (auto split: if_splits)

lemma match_segments_fill:
  assumes "segment_ok i \<or> None \<notin> set p"
  shows "\<exists>c. match_segments p (fill i p) c0 = Some c \<and> (None \<in> set p \<longrightarrow> c = i)"
  using assms
proof (induction p arbitrary: c0)
  case Nil
  then show ?case by (simp add: fill_def)
next
  case (Cons x p)
  show ?case
  proof (cases x)
    case None
    with Cons.prems Cons.IH [of i] show ?thesis
      by (auto simp: fill_def segment_ok_def dest: match_segments_const)
  next
    case (Some l)
    with Cons.prems Cons.IH [of c0] show ?thesis by (auto simp: fill_def)
  qed
qed

text \<open>Patterns have at most one capture.\<close>

definition one_capture :: "pattern \<Rightarrow> bool" where
  "one_capture p = (length (filter (\<lambda>x. x = None) p) \<le> 1)"

lemma match_segments_only:
  assumes "match_segments p ss c0 = Some c" "one_capture p"
  shows "ss = fill c p \<and> (None \<notin> set p \<longrightarrow> c = c0)"
  using assms
proof (induction p ss c0 rule: match_segments.induct)
  case (3 p s ss c0)
  then have *: "s \<noteq> []" "match_segments p ss s = Some c" "None \<notin> set p" "one_capture p"
    by (auto simp: one_capture_def filter_empty_conv split: if_splits)
  with 3 show ?case by (auto simp: fill_def)
qed (auto simp: fill_def one_capture_def split: if_splits)

lemma match_segments_nonempty:
  assumes "match_segments p ss c0 = Some c" "None \<in> set p"
  shows "c \<noteq> []"
  using assms
proof (induction p ss c0 rule: match_segments.induct)
  case (3 p s ss c0)
  then show ?case
    by (cases "None \<in> set p") (auto split: if_splits dest: match_segments_const)
qed (auto split: if_splits)

text \<open>Two tests that no request passes both.\<close>

fun apart :: "pattern \<Rightarrow> pattern \<Rightarrow> bool" where
  "apart [] [] = False"
| "apart (x # xs) (y # ys) =
     ((case (x, y) of (Some a, Some b) \<Rightarrow> a \<noteq> b | _ \<Rightarrow> False) \<or> apart xs ys)"
| "apart [] (y # ys) = True"
| "apart (x # xs) [] = True"

lemma apart_match: "apart p q \<Longrightarrow> match_segments q ss c = Some d \<Longrightarrow> match_segments p ss e = None"
proof (induction p q arbitrary: ss c e rule: apart.induct)
  case (2 x xs y ys)
  then obtain s t where [simp]: "ss = s # t" by (cases ss; cases y) auto
  from 2 show ?case
    by (cases x; cases y) (auto split: if_splits)
next
  case (3 y ys)
  then show ?case by (cases ss; cases y) auto
next
  case (4 x xs)
  then show ?case by (cases ss; cases x) auto
qed auto

definition same_place :: "route_entry \<Rightarrow> route_entry \<Rightarrow> bool" where
  "same_place e f = (rt_method e = rt_method f \<and> \<not> apart (rt_pattern e) (rt_pattern f))"

text \<open>One pair of tests overlaps: the job \<open>available\<close> is read as the list of available jobs.\<close>

definition job_pattern :: pattern where
  "job_pattern = map Some [''api'', ''v1'', ''courier'', ''jobs''] @ [None]"

definition available_pattern :: pattern where
  "available_pattern = map Some [''api'', ''v1'', ''courier'', ''jobs'', ''available'']"

definition overlap_known :: "route_entry \<Rightarrow> route_entry \<Rightarrow> bool" where
  "overlap_known e f =
     (rt_method f = ''GET'' \<and> rt_pattern e = available_pattern \<and> rt_pattern f = job_pattern)"

fun separated :: "route_entry list \<Rightarrow> bool" where
  "separated [] = True"
| "separated (e # es) = (list_all (\<lambda>f. \<not> same_place e f \<or> overlap_known e f) es \<and> separated es)"

lemmas routes_defs = routes_def routes_identity_ordering_def routes_order_payment_def routes_support_risk_def
  routes_settlement_notification_def routes_merchant_catalog_def

text \<open>It is enough to compare the tests with the same method and the same number of segments.\<close>

definition shape :: "route_entry \<Rightarrow> string \<times> nat" where
  "shape e = (rt_method e, length (rt_pattern e))"

lemma apart_length: "length p \<noteq> length q \<Longrightarrow> apart p q"
  by (induction p q rule: apart.induct) auto

lemma same_place_shape: "same_place e f \<Longrightarrow> shape e = shape f"
  using apart_length by (auto simp: same_place_def shape_def)

lemma separated_shapes: "(\<And>k. separated (filter (\<lambda>e. shape e = k) es)) \<Longrightarrow> separated es"
proof (induction es)
  case (Cons e es)
  have "separated (filter (\<lambda>f. shape f = k) es)" for k
    using Cons.prems [of k] by (auto split: if_splits)
  moreover have "\<not> same_place e f \<or> overlap_known e f" if "f \<in> set es" for f
    using Cons.prems [of "shape e"] that same_place_shape [of e f] by (auto simp: list_all_iff)
  ultimately show ?case using Cons.IH by (simp add: list_all_iff)
qed simp

lemma routes_shapes: "list_all (\<lambda>k. separated (filter (\<lambda>e. shape e = k) routes)) (remdups (map shape routes))"
  by code_simp

lemma routes_separated: "separated routes"
proof (rule separated_shapes)
  fix k
  show "separated (filter (\<lambda>e. shape e = k) routes)"
  proof (cases "k \<in> shape ` set routes")
    case True
    with routes_shapes show ?thesis by (auto simp: list_all_iff)
  next
    case False
    then have "filter (\<lambda>e. shape e = k) routes = []" by (auto simp: filter_empty_conv)
    then show ?thesis by simp
  qed
qed

lemma routes_patterns: "list_all (\<lambda>e. one_capture (rt_pattern e) \<and> literals_ok (rt_pattern e)) routes"
  by code_simp

section \<open>The address of a route\<close>

text \<open>The method and the segments of the requests a route answers.\<close>

primrec platform_address :: "platform_route \<Rightarrow> string \<times> string list" where
  "platform_address Logs_route = (''GET'', [''internal'', ''observability'', ''logs''])"
| "platform_address Slo_route = (''GET'', [''internal'', ''observability'', ''slo'', ''dashboard''])"
| "platform_address Health_route = (''GET'', [''health''])"
| "platform_address Admin_health_route = (''GET'', [''api'', ''v1'', ''admin'', ''health''])"
| "platform_address Break_glass_route = (''POST'', [''api'', ''v1'', ''admin'', ''break-glass'', ''activate''])"

primrec identity_address :: "identity_route \<Rightarrow> string \<times> string list" where
  "identity_address Register_route = (''POST'', [''api'', ''v1'', ''identity'', ''register''])"
| "identity_address Login_route = (''POST'', [''api'', ''v1'', ''identity'', ''login''])"
| "identity_address Refresh_route = (''POST'', [''api'', ''v1'', ''identity'', ''token'', ''refresh''])"
| "identity_address Mfa_route = (''POST'', [''api'', ''v1'', ''identity'', ''mfa'', ''verify''])"

primrec catalog_address :: "catalog_route \<Rightarrow> string \<times> string list" where
  "catalog_address List_stores_route = (''GET'', [''api'', ''v1'', ''consumer'', ''stores''])"
| "catalog_address (Store_menu_route i) = (''GET'', [''api'', ''v1'', ''consumer'', ''stores'', i, ''menu''])"
| "catalog_address Create_menu_route = (''POST'', [''api'', ''v1'', ''merchant'', ''catalog'', ''menus''])"
| "catalog_address (Update_menu_route i) = (''PUT'', [''api'', ''v1'', ''merchant'', ''catalog'', ''menus'', i])"
| "catalog_address (Menu_versions_route i) = (''GET'', [''api'', ''v1'', ''merchant'', ''catalog'', ''menus'', i, ''versions''])"
| "catalog_address (Get_menu_route i) = (''GET'', [''api'', ''v1'', ''merchant'', ''catalog'', ''menus'', i])"
| "catalog_address (Store_status_route i) = (''POST'', [''api'', ''v1'', ''merchant'', ''stores'', i, ''status''])"
| "catalog_address (Orderability_route i) = (''GET'', [''internal'', ''catalog'', ''stores'', i, ''orderability''])"
| "catalog_address (Prep_time_route i) = (''GET'', [''internal'', ''catalog'', ''stores'', i, ''prep-time''])"
| "catalog_address (Set_availability_route i) = (''POST'', [''api'', ''v1'', ''merchant'', ''items'', i, ''availability''])"
| "catalog_address (Get_availability_route i) = (''GET'', [''internal'', ''catalog'', ''items'', i, ''availability''])"

primrec ordering_address :: "ordering_route \<Rightarrow> string \<times> string list" where
  "ordering_address Upsert_zone_route = (''POST'', [''api'', ''v1'', ''admin'', ''delivery-zones''])"
| "ordering_address Validate_zone_route = (''POST'', [''api'', ''v1'', ''consumer'', ''quotes'', ''validate-zone''])"
| "ordering_address Quote_route = (''POST'', [''api'', ''v1'', ''consumer'', ''quotes''])"
| "ordering_address Promotion_route = (''POST'', [''api'', ''v1'', ''consumer'', ''promotions'', ''evaluate''])"
| "ordering_address Checkout_route = (''POST'', [''api'', ''v1'', ''consumer'', ''checkout''])"
| "ordering_address Create_basket_route = (''POST'', [''api'', ''v1'', ''consumer'', ''baskets''])"
| "ordering_address (Update_basket_route i) = (''PATCH'', [''api'', ''v1'', ''consumer'', ''baskets'', i])"
| "ordering_address (Get_basket_route i) = (''GET'', [''api'', ''v1'', ''consumer'', ''baskets'', i])"

primrec order_address :: "order_route \<Rightarrow> string \<times> string list" where
  "order_address Create_order_route = (''POST'', [''api'', ''v1'', ''consumer'', ''orders''])"
| "order_address Consumer_orders_route = (''GET'', [''api'', ''v1'', ''consumer'', ''orders''])"
| "order_address (Get_order_route i) = (''GET'', [''api'', ''v1'', ''consumer'', ''orders'', i])"
| "order_address (Order_timeline_route i) = (''GET'', [''api'', ''v1'', ''consumer'', ''orders'', i, ''timeline''])"
| "order_address (Cancel_order_route i) = (''POST'', [''api'', ''v1'', ''consumer'', ''orders'', i, ''cancel''])"
| "order_address (Accept_order_route i) = (''POST'', [''api'', ''v1'', ''merchant'', ''orders'', i, ''accept''])"
| "order_address (Reject_order_route i) = (''POST'', [''api'', ''v1'', ''merchant'', ''orders'', i, ''reject''])"
| "order_address Merchant_orders_route = (''GET'', [''api'', ''v1'', ''merchant'', ''orders''])"
| "order_address (Order_timeout_route i) = (''POST'', [''internal'', ''orders'', i, ''merchant-timeout''])"
| "order_address (Request_dispatch_route i) = (''POST'', [''internal'', ''orders'', i, ''request-dispatch''])"
| "order_address Rebuild_timeline_route = (''POST'', [''internal'', ''orders'', ''timeline'', ''rebuild''])"

primrec courier_address :: "courier_route \<Rightarrow> string \<times> string list" where
  "courier_address Available_jobs_route = (''GET'', [''api'', ''v1'', ''courier'', ''jobs'', ''available''])"
| "courier_address List_jobs_route = (''GET'', [''api'', ''v1'', ''courier'', ''jobs''])"
| "courier_address (Get_job_route i) = (''GET'', [''api'', ''v1'', ''courier'', ''jobs'', i])"
| "courier_address Telemetry_route = (''POST'', [''api'', ''v1'', ''courier'', ''telemetry''])"
| "courier_address (Accept_job_route i) = (''POST'', [''api'', ''v1'', ''courier'', ''jobs'', i, ''accept''])"
| "courier_address (Pickup_job_route i) = (''POST'', [''api'', ''v1'', ''courier'', ''jobs'', i, ''pickup''])"
| "courier_address (Dropoff_job_route i) = (''POST'', [''api'', ''v1'', ''courier'', ''jobs'', i, ''dropoff''])"

primrec payment_address :: "payment_route \<Rightarrow> string \<times> string list" where
  "payment_address Authorize_route = (''POST'', [''api'', ''v1'', ''payments'', ''authorize''])"
| "payment_address Capture_route = (''POST'', [''api'', ''v1'', ''payments'', ''capture''])"
| "payment_address Cash_expected_route = (''POST'', [''internal'', ''payments'', ''cash'', ''expected''])"
| "payment_address (Cash_collection_route i) = (''POST'', [''api'', ''v1'', ''courier'', ''orders'', i, ''cash-collection''])"
| "payment_address Request_refund_route = (''POST'', [''api'', ''v1'', ''support'', ''refunds''])"
| "payment_address (Approve_refund_route i) = (''POST'', [''internal'', ''payments'', ''refunds'', i, ''approve''])"
| "payment_address (Payment_audit_route i) = (''GET'', [''internal'', ''payments'', ''audit'', i])"

primrec support_address :: "support_route \<Rightarrow> string \<times> string list" where
  "support_address Create_ticket_route = (''POST'', [''api'', ''v1'', ''support'', ''tickets''])"
| "support_address (Ticket_timeline_route i) = (''GET'', [''api'', ''v1'', ''support'', ''tickets'', i, ''timeline''])"
| "support_address Intervention_route = (''POST'', [''api'', ''v1'', ''support'', ''interventions'', ''execute''])"
| "support_address Sla_route = (''POST'', [''internal'', ''support'', ''sla'', ''evaluate''])"

primrec risk_address :: "risk_route \<Rightarrow> string \<times> string list" where
  "risk_address Evaluate_policy_route = (''POST'', [''internal'', ''risk'', ''policy'', ''evaluate''])"
| "risk_address List_rules_route = (''GET'', [''internal'', ''risk'', ''policy'', ''rules''])"
| "risk_address (Upsert_rule_route i) = (''PUT'', [''internal'', ''risk'', ''policy'', ''rules'', i])"
| "risk_address Queue_review_route = (''POST'', [''internal'', ''risk'', ''manual-reviews''])"
| "risk_address (Resolve_review_route i) = (''POST'', [''api'', ''v1'', ''admin'', ''risk'', ''reviews'', i, ''resolve''])"
| "risk_address Append_audit_route = (''POST'', [''internal'', ''risk'', ''compliance'', ''audit'', ''events''])"
| "risk_address List_audit_route = (''GET'', [''internal'', ''risk'', ''compliance'', ''audit'', ''events''])"
| "risk_address Evidence_route = (''POST'', [''internal'', ''risk'', ''compliance'', ''evidence'', ''jobs''])"

primrec settlement_address :: "settlement_route \<Rightarrow> string \<times> string list" where
  "settlement_address Post_journal_route = (''POST'', [''internal'', ''settlement'', ''ledger'', ''entries''])"
| "settlement_address Reconcile_route = (''POST'', [''internal'', ''settlement'', ''reconciliation'', ''run''])"
| "settlement_address Ingest_route = (''POST'', [''internal'', ''settlement'', ''reconciliation'', ''ingest''])"
| "settlement_address (Import_run_route i) = (''POST'', [''internal'', ''settlement'', ''reconciliation'', ''import-schedules'', i, ''run''])"
| "settlement_address Reconciliation_results_route = (''GET'', [''internal'', ''settlement'', ''reconciliation'', ''results''])"
| "settlement_address Generate_payout_route = (''POST'', [''api'', ''v1'', ''admin'', ''payouts'', ''generate''])"
| "settlement_address (Payout_run_route i) = (''POST'', [''internal'', ''settlement'', ''payout-schedules'', i, ''run''])"
| "settlement_address Publish_statement_route = (''POST'', [''internal'', ''settlement'', ''payout-statements'', ''publish''])"
| "settlement_address Merchant_payouts_route = (''GET'', [''api'', ''v1'', ''merchant'', ''payouts''])"
| "settlement_address Courier_payouts_route = (''GET'', [''api'', ''v1'', ''courier'', ''payouts''])"

primrec notification_address :: "notification_route \<Rightarrow> string \<times> string list" where
  "notification_address Fanout_route = (''POST'', [''internal'', ''notifications'', ''fanout''])"
| "notification_address Resolve_template_route = (''POST'', [''internal'', ''notifications'', ''templates'', ''resolve''])"
| "notification_address Retry_route = (''POST'', [''internal'', ''notifications'', ''retry''])"
| "notification_address Record_receipt_route = (''POST'', [''internal'', ''notifications'', ''receipts''])"
| "notification_address List_receipts_route = (''GET'', [''internal'', ''notifications'', ''receipts''])"

primrec address_of :: "route \<Rightarrow> string \<times> string list" where
  "address_of (Platform r) = platform_address r"
| "address_of (Identity r) = identity_address r"
| "address_of (Catalog r) = catalog_address r"
| "address_of (Ordering r) = ordering_address r"
| "address_of (Orders r) = order_address r"
| "address_of (Courier r) = courier_address r"
| "address_of (Payments r) = payment_address r"
| "address_of (Support r) = support_address r"
| "address_of (Risk r) = risk_address r"
| "address_of (Settlement r) = settlement_address r"
| "address_of (Notifications r) = notification_address r"

text \<open>Where a path segment is captured, the route keeps it.\<close>

definition entry_ok :: "route_entry \<Rightarrow> bool" where
  "entry_ok e = ((\<forall>i. address_of (rt_route e i) = (rt_method e, fill i (rt_pattern e))) \<and>
     (None \<in> set (rt_pattern e) \<or> (\<forall>i. rt_route e i = rt_route e [])) \<and>
     (rt_method e = ''GET'' \<and> rt_pattern e = job_pattern \<longrightarrow> rt_route e = Courier \<circ> Get_job_route))"

lemma entry_ok_entry [simp]:
  "entry_ok (entry m p r) = ((\<forall>i. address_of (r i) = (m, fill i p)) \<and> (None \<in> set p \<or> (\<forall>i. r i = r [])) \<and>
     (m = ''GET'' \<and> p = job_pattern \<longrightarrow> r = Courier \<circ> Get_job_route))"
  by (simp add: entry_ok_def entry_def)

lemma fill_simps [simp]:
  "fill i [] = []" "fill i (Some l # p) = l # fill i p" "fill i (None # p) = i # fill i p"
  by (simp_all add: fill_def)

lemma routes_identity_ordering_ok: "list_all entry_ok routes_identity_ordering"
  by (simp add: routes_identity_ordering_def job_pattern_def)

lemma routes_order_payment_ok: "list_all entry_ok routes_order_payment"
  by (simp add: routes_order_payment_def job_pattern_def)

lemma routes_support_risk_ok: "list_all entry_ok routes_support_risk"
  by (simp add: routes_support_risk_def job_pattern_def)

lemma routes_settlement_notification_ok: "list_all entry_ok routes_settlement_notification"
  by (simp add: routes_settlement_notification_def job_pattern_def)

lemma routes_merchant_catalog_ok: "list_all entry_ok routes_merchant_catalog"
  by (simp add: routes_merchant_catalog_def job_pattern_def)

lemma routes_ok: "list_all entry_ok routes"
  by (simp only: routes_def list_all_append routes_identity_ordering_ok routes_order_payment_ok routes_support_risk_ok routes_settlement_notification_ok routes_merchant_catalog_ok simp_thms)

lemma entry_route [simp]: "rt_route (entry m p r) = r"
  by (simp add: entry_def)

lemma routes_identity_ordering_functions: "map rt_route routes_identity_ordering =
    [\<lambda>_. Platform Logs_route,
     \<lambda>_. Platform Slo_route,
     \<lambda>_. Platform Health_route,
     \<lambda>_. Identity Register_route,
     \<lambda>_. Identity Login_route,
     \<lambda>_. Identity Refresh_route,
     \<lambda>_. Identity Mfa_route,
     \<lambda>_. Ordering Upsert_zone_route,
     \<lambda>_. Ordering Validate_zone_route,
     \<lambda>_. Ordering Quote_route,
     \<lambda>_. Catalog List_stores_route,
     Catalog \<circ> Store_menu_route,
     \<lambda>_. Ordering Promotion_route,
     \<lambda>_. Ordering Checkout_route]"
  by (simp add: routes_identity_ordering_def job_pattern_def)

lemma routes_order_payment_functions: "map rt_route routes_order_payment =
    [\<lambda>_. Orders Create_order_route,
     \<lambda>_. Orders Consumer_orders_route,
     Orders \<circ> Get_order_route,
     Orders \<circ> Order_timeline_route,
     Orders \<circ> Cancel_order_route,
     \<lambda>_. Payments Authorize_route,
     \<lambda>_. Payments Capture_route,
     \<lambda>_. Payments Cash_expected_route,
     Payments \<circ> Cash_collection_route,
     \<lambda>_. Courier Available_jobs_route,
     \<lambda>_. Courier List_jobs_route,
     Courier \<circ> Get_job_route,
     \<lambda>_. Courier Telemetry_route,
     Courier \<circ> Accept_job_route,
     Courier \<circ> Pickup_job_route,
     Courier \<circ> Dropoff_job_route]"
  by (simp add: routes_order_payment_def job_pattern_def)

lemma routes_support_risk_functions: "map rt_route routes_support_risk =
    [\<lambda>_. Support Create_ticket_route,
     Support \<circ> Ticket_timeline_route,
     \<lambda>_. Support Intervention_route,
     \<lambda>_. Support Sla_route,
     \<lambda>_. Risk Evaluate_policy_route,
     \<lambda>_. Risk List_rules_route,
     Risk \<circ> Upsert_rule_route,
     \<lambda>_. Risk Queue_review_route,
     Risk \<circ> Resolve_review_route,
     \<lambda>_. Risk Append_audit_route,
     \<lambda>_. Risk List_audit_route,
     \<lambda>_. Risk Evidence_route,
     \<lambda>_. Payments Request_refund_route,
     Payments \<circ> Approve_refund_route,
     Payments \<circ> Payment_audit_route]"
  by (simp add: routes_support_risk_def job_pattern_def)

lemma routes_settlement_notification_functions: "map rt_route routes_settlement_notification =
    [\<lambda>_. Settlement Post_journal_route,
     \<lambda>_. Settlement Reconcile_route,
     \<lambda>_. Settlement Ingest_route,
     Settlement \<circ> Import_run_route,
     \<lambda>_. Settlement Reconciliation_results_route,
     \<lambda>_. Settlement Generate_payout_route,
     Settlement \<circ> Payout_run_route,
     \<lambda>_. Settlement Publish_statement_route,
     \<lambda>_. Settlement Merchant_payouts_route,
     \<lambda>_. Settlement Courier_payouts_route,
     \<lambda>_. Notifications Fanout_route,
     \<lambda>_. Notifications Resolve_template_route,
     \<lambda>_. Notifications Retry_route,
     \<lambda>_. Notifications Record_receipt_route,
     \<lambda>_. Notifications List_receipts_route]"
  by (simp add: routes_settlement_notification_def job_pattern_def)

lemma routes_merchant_catalog_functions: "map rt_route routes_merchant_catalog =
    [Orders \<circ> Accept_order_route,
     Orders \<circ> Reject_order_route,
     \<lambda>_. Orders Merchant_orders_route,
     Orders \<circ> Order_timeout_route,
     Orders \<circ> Request_dispatch_route,
     \<lambda>_. Orders Rebuild_timeline_route,
     \<lambda>_. Ordering Create_basket_route,
     Ordering \<circ> Update_basket_route,
     Ordering \<circ> Get_basket_route,
     \<lambda>_. Catalog Create_menu_route,
     Catalog \<circ> Update_menu_route,
     Catalog \<circ> Menu_versions_route,
     Catalog \<circ> Get_menu_route,
     Catalog \<circ> Store_status_route,
     Catalog \<circ> Orderability_route,
     Catalog \<circ> Prep_time_route,
     Catalog \<circ> Set_availability_route,
     Catalog \<circ> Get_availability_route,
     \<lambda>_. Platform Admin_health_route,
     \<lambda>_. Platform Break_glass_route]"
  by (simp add: routes_merchant_catalog_def)

lemmas routes_functions = routes_identity_ordering_functions
  routes_order_payment_functions
  routes_support_risk_functions
  routes_settlement_notification_functions
  routes_merchant_catalog_functions

lemma route_function_exists: "\<exists>f \<in> set (map rt_route routes). \<exists>i. r = f i"
proof (cases r)
  case (Platform x)
  then show ?thesis by (cases x) (simp_all only: routes_def map_append routes_functions, simp_all)
next
  case (Identity x)
  then show ?thesis by (cases x) (simp_all only: routes_def map_append routes_functions, simp_all)
next
  case (Catalog x)
  then show ?thesis by (cases x) (simp_all only: routes_def map_append routes_functions, simp_all)
next
  case (Ordering x)
  then show ?thesis by (cases x) (simp_all only: routes_def map_append routes_functions, simp_all)
next
  case (Orders x)
  then show ?thesis by (cases x) (simp_all only: routes_def map_append routes_functions, simp_all)
next
  case (Courier x)
  then show ?thesis by (cases x) (simp_all only: routes_def map_append routes_functions, simp_all)
next
  case (Payments x)
  then show ?thesis by (cases x) (simp_all only: routes_def map_append routes_functions, simp_all)
next
  case (Support x)
  then show ?thesis by (cases x) (simp_all only: routes_def map_append routes_functions, simp_all)
next
  case (Risk x)
  then show ?thesis by (cases x) (simp_all only: routes_def map_append routes_functions, simp_all)
next
  case (Settlement x)
  then show ?thesis by (cases x) (simp_all only: routes_def map_append routes_functions, simp_all)
next
  case (Notifications x)
  then show ?thesis by (cases x) (simp_all only: routes_def map_append routes_functions, simp_all)
qed

lemma route_entry_exists: "\<exists>e \<in> set routes. \<exists>i. r = rt_route e i"
  using route_function_exists [of r] by auto

lemma match_entry_iff:
  assumes e: "e \<in> set routes"
  shows "match_entry method path e = Some r \<longleftrightarrow>
    (\<exists>i. r = rt_route e i \<and> method = rt_method e \<and> path = render_path (fill i (rt_pattern e)) \<and>
      list_all segment_ok (fill i (rt_pattern e)))"
    (is "?l \<longleftrightarrow> ?r")
proof
  have pattern: "one_capture (rt_pattern e)" "literals_ok (rt_pattern e)" "entry_ok e"
    using e routes_patterns routes_ok by (auto simp: list_all_iff)
  {
    assume ?l
    then obtain c where m: "method = rt_method e" and c: "match_path (rt_pattern e) path = Some c"
      and r: "r = rt_route e c"
      by (auto simp: match_entry_def split: if_splits)
    from c obtain ss where split: "split_char (CHR ''/'') path = [] # ss"
      and ss: "match_segments (rt_pattern e) ss [] = Some c"
      by (auto simp: match_path_def split: list.splits if_splits)
    have fill: "ss = fill c (rt_pattern e)"
      using match_segments_only [OF ss pattern(1)] by simp
    have path: "path = render_path ss"
      using concat_split_char [of "CHR ''/''" path] split by (simp add: render_path_def)
    have ok: "segment_ok s" if s: "s \<in> set ss" for s
    proof -
      have "CHR ''/'' \<notin> set s"
        using split_char_free [of s "CHR ''/''" path] split s by simp
      moreover have "s \<noteq> []"
        using s fill match_segments_nonempty [OF ss] pattern(2)
        by (auto simp: fill_def literals_ok_def list_all_iff split: option.splits)
      ultimately show ?thesis by (simp add: segment_ok_def)
    qed
    with m path fill r show ?r by (auto simp: list_all_iff)
  }
  assume ?r
  then obtain i where i: "r = rt_route e i" "method = rt_method e" "path = render_path (fill i (rt_pattern e))"
    "list_all segment_ok (fill i (rt_pattern e))" by blast
  have "segment_ok i \<or> None \<notin> set (rt_pattern e)"
    using i(4) by (force simp: fill_def list_all_iff)
  then obtain c where c: "match_segments (rt_pattern e) (fill i (rt_pattern e)) [] = Some c"
    "None \<in> set (rt_pattern e) \<longrightarrow> c = i"
    using match_segments_fill by blast
  have "rt_route e c = rt_route e i"
    using c(2) pattern(3) unfolding entry_ok_def by metis
  with c(1) i split_render [OF i(4)] show ?l
    by (simp add: match_entry_def match_path_def)
qed

lemma match_same_place:
  "match_entry m p e = Some r \<Longrightarrow> match_entry m p f = Some q \<Longrightarrow> same_place e f"
  using apart_match by (fastforce simp: match_entry_def match_path_def same_place_def split: if_splits list.splits)

lemma first_match_in: "first_match f es = Some r \<Longrightarrow> \<exists>e \<in> set es. f e = Some r"
  by (induction es) (auto split: option.splits)

lemma first_match_separated:
  assumes "separated es" "e \<in> set es" "match_entry m p e = Some r"
  shows "first_match (match_entry m p) es = Some r \<or>
    (\<exists>e1 \<in> set es. overlap_known e1 e \<and> match_entry m p e1 \<noteq> None)"
  using assms
proof (induction es)
  case (Cons e1 es)
  show ?case
  proof (cases "match_entry m p e1")
    case None
    with Cons show ?thesis by auto
  next
    case (Some q)
    with Cons.prems match_same_place [OF Some Cons.prems(3)] show ?thesis
      by (auto simp: list_all_iff)
  qed
qed simp

lemma render_inj:
  assumes "list_all segment_ok ss" "list_all segment_ok ts" "render_path ss = render_path ts"
  shows "ss = ts"
proof -
  have "[] # ss = [] # ts"
    unfolding split_render [OF assms(1), symmetric] split_render [OF assms(2), symmetric] assms(3) ..
  then show ?thesis by simp
qed

lemma available_first: "route_of ''GET'' (render_path [''api'', ''v1'', ''courier'', ''jobs'', ''available'']) =
    Some (Courier Available_jobs_route)"
proof -
  obtain e i where e: "e \<in> set routes" "Courier Available_jobs_route = rt_route e i"
    using route_entry_exists by blast
  then have ok: "entry_ok e"
    using routes_ok by (auto simp: list_all_iff)
  then have "address_of (rt_route e i) = (rt_method e, fill i (rt_pattern e))"
    by (simp add: entry_ok_def)
  then have addr: "(''GET'', [''api'', ''v1'', ''courier'', ''jobs'', ''available'']) = (rt_method e, fill i (rt_pattern e))"
    unfolding e(2) [symmetric] by simp
  have "list_all segment_ok [''api'', ''v1'', ''courier'', ''jobs'', ''available'']"
    by (simp add: segment_ok_def)
  then have "list_all segment_ok (fill i (rt_pattern e))"
    using addr by (metis prod.inject)
  then have "match_entry ''GET'' (render_path [''api'', ''v1'', ''courier'', ''jobs'', ''available'']) e =
      Some (Courier Available_jobs_route)"
    unfolding match_entry_iff [OF e(1)] using addr e(2)
    by (intro exI [of _ i]) simp
  from first_match_separated [OF routes_separated e(1) this]
  show ?thesis
  proof
    assume "\<exists>e1 \<in> set routes. overlap_known e1 e \<and> match_entry ''GET'' (render_path [''api'', ''v1'', ''courier'', ''jobs'', ''available'']) e1 \<noteq> None"
    then have "rt_route e = Courier \<circ> Get_job_route"
      using ok by (auto simp: overlap_known_def entry_ok_def)
    with e(2) show ?thesis by simp
  qed (simp add: route_of_def)
qed

lemma route_of_iff:
  "route_of method path = Some r \<longleftrightarrow>
     r \<noteq> Courier (Get_job_route ''available'') \<and>
     (case address_of r of (m, ss) \<Rightarrow> method = m \<and> path = render_path ss \<and> list_all segment_ok ss)"
proof
  assume found: "route_of method path = Some r"
  then obtain e where e: "e \<in> set routes" "match_entry method path e = Some r"
    using first_match_in by (fastforce simp: route_of_def)
  then obtain i where i: "r = rt_route e i" "method = rt_method e" "path = render_path (fill i (rt_pattern e))"
    "list_all segment_ok (fill i (rt_pattern e))"
    using match_entry_iff [OF e(1)] by blast
  have "address_of r = (rt_method e, fill i (rt_pattern e))"
    using e(1) routes_ok i(1) by (auto simp: list_all_iff entry_ok_def)
  with i have a: "case address_of r of (m, ss) \<Rightarrow> method = m \<and> path = render_path ss \<and> list_all segment_ok ss"
    by simp
  moreover have "r \<noteq> Courier (Get_job_route ''available'')"
  proof
    assume "r = Courier (Get_job_route ''available'')"
    with a have "method = ''GET''" "path = render_path [''api'', ''v1'', ''courier'', ''jobs'', ''available'']"
      by simp_all
    with found available_first \<open>r = Courier (Get_job_route ''available'')\<close> show False by simp
  qed
  ultimately show "r \<noteq> Courier (Get_job_route ''available'') \<and>
     (case address_of r of (m, ss) \<Rightarrow> method = m \<and> path = render_path ss \<and> list_all segment_ok ss)" by blast
next
  assume a: "r \<noteq> Courier (Get_job_route ''available'') \<and>
     (case address_of r of (m, ss) \<Rightarrow> method = m \<and> path = render_path ss \<and> list_all segment_ok ss)"
  obtain e i where e: "e \<in> set routes" and r: "r = rt_route e i"
    using route_entry_exists by blast
  have ok: "entry_ok e"
    using e routes_ok by (auto simp: list_all_iff)
  then have addr: "address_of r = (rt_method e, fill i (rt_pattern e))"
    using r by (simp add: entry_ok_def)
  with a r have m: "match_entry method path e = Some r"
    using match_entry_iff [OF e] by auto
  have "\<not> (overlap_known e1 e \<and> match_entry method path e1 \<noteq> None)" if e1: "e1 \<in> set routes" for e1
  proof
    assume o: "overlap_known e1 e \<and> match_entry method path e1 \<noteq> None"
    then obtain r1 where "match_entry method path e1 = Some r1" by blast
    then obtain j where j: "path = render_path (fill j available_pattern)" "list_all segment_ok (fill j available_pattern)"
      using match_entry_iff [OF e1] o by (auto simp: overlap_known_def)
    have "fill j available_pattern = fill i job_pattern"
      using render_inj [OF j(2), of "fill i job_pattern"] a addr j(1) o by (simp add: overlap_known_def)
    then have "i = ''available''"
      by (simp add: available_pattern_def job_pattern_def)
    moreover have "rt_route e = Courier \<circ> Get_job_route"
      using ok o by (auto simp: entry_ok_def overlap_known_def)
    ultimately show False using a r by simp
  qed
  with first_match_separated [OF routes_separated e m] show "route_of method path = Some r"
    by (auto simp: route_of_def)
qed


end
