(* ===== verification/Server.thy ===== *)
theory Server
  imports Routing Observability
begin

text \<open>
  The request handler of \<open>core-api/src/server.ts\<close> in its in-memory configuration: the state
  \<open>createServer\<close> wires together (one event bus, every repository once), the services as views
  of that state, one definition per route, and \<open>serve\<close>, which traces a request, runs the
  handler of its route and turns what it throws into a reply. A request runs to its end before
  the next one starts.
\<close>

section \<open>The state of the server\<close>

record server =
  ap_bus :: event_bus
  ap_logs :: log_repo
  ap_users :: identity_repo
  ap_sessions :: session_store
  ap_menus :: menu_repo
  ap_items :: item_repo
  ap_statuses :: status_repo
  ap_baskets :: basket_repo
  ap_zones :: zone_repo
  ap_quotes :: quote_repo
  ap_checkouts :: checkout_repo
  ap_orders :: order_repo
  ap_timeline :: timeline_repo
  ap_jobs :: job_repo
  ap_telemetry :: telemetry_state
  ap_intents :: intent_repo
  ap_refunds :: refund_repo
  ap_paymentAudit :: payment_audit_repo
  ap_captures :: "(string, paymentIntent) jsmap"
  ap_tickets :: ticket_repo
  ap_escalations :: escalation_repo
  ap_rules :: policy_repo
  ap_reviews :: review_repo
  ap_audit :: audit_repo
  ap_ledger :: ledger_repo
  ap_payouts :: payout_repo
  ap_statements :: statement_repo
  ap_reconciliations :: reconciliation_repo
  ap_imports :: import_repo
  ap_queue :: queue_repo
  ap_retries :: retry_repo
  ap_receipts :: receipt_repo

text \<open>The server starts with the default risk rules and empty repositories. \<open>subscribers\<close> holds the
  relay to the realtime gateway when one is configured.\<close>

definition server_init :: "subscriber list \<Rightarrow> server" where
  "server_init subscribers =
     \<lparr>ap_bus = empty_bus\<lparr>bus_subscribers := subscribers\<rparr>, ap_logs = [], ap_users = empty_identity_repo,
      ap_sessions = empty_session_store, ap_menus = [], ap_items = [], ap_statuses = [], ap_baskets = [],
      ap_zones = [], ap_quotes = [], ap_checkouts = [], ap_orders = [], ap_timeline = [], ap_jobs = [],
      ap_telemetry = [], ap_intents = [], ap_refunds = [], ap_paymentAudit = [], ap_captures = [], ap_tickets = [],
      ap_escalations = \<lparr>er_escalations = [], er_ticketEscalationIndex = []\<rparr>,
      ap_rules = policy_init defaultRiskPolicyRules, ap_reviews = [], ap_audit = [], ap_ledger = [], ap_payouts = [],
      ap_statements = [], ap_reconciliations = [], ap_imports = [],
      ap_queue = \<lparr>qr_queue = [], qr_idempotencyKeys = []\<rparr>, ap_retries = \<lparr>rp_retries = [], rp_deadLetters = []\<rparr>,
      ap_receipts = []\<rparr>"

text \<open>What the handlers read from outside: the host, the libraries, the dispatch client.\<close>

record environment =
  cf_host :: host
  cf_jwt :: jwt_lib
  cf_jwtSecret :: string
  cf_sha256 :: "string \<Rightarrow> string"
  cf_native :: "string \<Rightarrow> string"
  cf_quoteHash :: "(string \<times> json) list \<Rightarrow> string"
  cf_parseJson :: "string \<Rightarrow> json option"
  cf_dispatch :: "(assignmentInput \<Rightarrow> string + assignmentDecision) option"

text \<open>What one request draws: dates, milliseconds, identifiers and random bytes, in the order of use.\<close>

record draws =
  dw_traceId :: uuid
  dw_spanId :: uuid
  dw_startedAt :: iso_date
  dw_startedMs :: int
  dw_finishedAt :: iso_date
  dw_finishedMs :: int
  dw_now :: "nat \<Rightarrow> iso_date"
  dw_ms :: "nat \<Rightarrow> int"
  dw_uuid :: "nat \<Rightarrow> uuid"
  dw_bytes :: string
  dw_escalationId :: "uuid \<Rightarrow> uuid"
  dw_channelNow :: "notificationChannel \<Rightarrow> iso_date"
  dw_channelId :: "notificationChannel \<Rightarrow> uuid"

record request =
  rq_method :: string
  rq_path :: string
  rq_query :: search_params
  rq_authorization :: "string option"
  rq_body :: string

section \<open>The services as views of the state\<close>

text \<open>The services share the bus and the repositories by reference: a view reads them from the state
  and writes all of them back.\<close>

record 'c port =
  pt_get :: "server \<Rightarrow> 'c"
  pt_put :: "'c \<Rightarrow> server \<Rightarrow> server"

definition identity_port :: "identity_service port" where
  "identity_port = \<lparr>pt_get = (\<lambda>s. \<lparr>is_repository = ap_users s, is_eventBus = ap_bus s\<rparr>),
     pt_put = (\<lambda>c s. s\<lparr>ap_users := is_repository c, ap_bus := is_eventBus c\<rparr>)\<rparr>"

definition auth_port :: "string \<Rightarrow> auth_service port" where
  "auth_port secret = \<lparr>pt_get = (\<lambda>s. auth_service.make (ap_users s) (ap_bus s) (ap_sessions s) secret),
     pt_put = (\<lambda>c s. s\<lparr>ap_users := au_repository c, ap_bus := auth_service.au_eventBus c, ap_sessions := au_sessionStore c\<rparr>)\<rparr>"

definition menu_port :: "menu_repo port" where
  "menu_port = \<lparr>pt_get = ap_menus, pt_put = (\<lambda>c s. s\<lparr>ap_menus := c\<rparr>)\<rparr>"

definition item_port :: "item_repo port" where
  "item_port = \<lparr>pt_get = ap_items, pt_put = (\<lambda>c s. s\<lparr>ap_items := c\<rparr>)\<rparr>"

definition status_port :: "status_repo port" where
  "status_port = \<lparr>pt_get = ap_statuses, pt_put = (\<lambda>c s. s\<lparr>ap_statuses := c\<rparr>)\<rparr>"

definition basket_port :: "basket_repo port" where
  "basket_port = \<lparr>pt_get = ap_baskets, pt_put = (\<lambda>c s. s\<lparr>ap_baskets := c\<rparr>)\<rparr>"

definition zone_port :: "zone_repo port" where
  "zone_port = \<lparr>pt_get = ap_zones, pt_put = (\<lambda>c s. s\<lparr>ap_zones := c\<rparr>)\<rparr>"

definition quote_port :: "quote_repo port" where
  "quote_port = \<lparr>pt_get = ap_quotes, pt_put = (\<lambda>c s. s\<lparr>ap_quotes := c\<rparr>)\<rparr>"

definition checkout_port :: "checkout_repo port" where
  "checkout_port = \<lparr>pt_get = ap_checkouts, pt_put = (\<lambda>c s. s\<lparr>ap_checkouts := c\<rparr>)\<rparr>"

definition order_port :: "order_service port" where
  "order_port = \<lparr>pt_get = (\<lambda>s. \<lparr>os_checkouts = ap_checkouts s, os_orders = ap_orders s, os_eventBus = ap_bus s,
       os_timeline = Some (ap_timeline s), os_baskets = Some (ap_baskets s)\<rparr>),
     pt_put = (\<lambda>c s. s\<lparr>ap_checkouts := os_checkouts c, ap_orders := os_orders c, ap_bus := os_eventBus c,
       ap_timeline := nullish (os_timeline c) (ap_timeline s), ap_baskets := nullish (os_baskets c) (ap_baskets s)\<rparr>)\<rparr>"

definition timeline_port :: "timeline_repo port" where
  "timeline_port = \<lparr>pt_get = ap_timeline, pt_put = (\<lambda>c s. s\<lparr>ap_timeline := c\<rparr>)\<rparr>"

definition job_port :: "job_repo port" where
  "job_port = \<lparr>pt_get = ap_jobs, pt_put = (\<lambda>c s. s\<lparr>ap_jobs := c\<rparr>)\<rparr>"

definition dispatch_port :: "dispatch_state port" where
  "dispatch_port = \<lparr>pt_get = (\<lambda>s. \<lparr>dp_orders = pt_get order_port s, dp_jobs = ap_jobs s\<rparr>),
     pt_put = (\<lambda>c s. (pt_put order_port (dp_orders c) s)\<lparr>ap_jobs := dp_jobs c\<rparr>)\<rparr>"

definition telemetry_port :: "telemetry_state port" where
  "telemetry_port = \<lparr>pt_get = ap_telemetry, pt_put = (\<lambda>c s. s\<lparr>ap_telemetry := c\<rparr>)\<rparr>"

definition payment_port :: "payment_service port" where
  "payment_port = \<lparr>pt_get = (\<lambda>s. \<lparr>py_orders = ap_orders s, py_intents = ap_intents s, py_eventBus = ap_bus s,
       py_refunds = ap_refunds s, py_audit = ap_paymentAudit s, py_captureByIdempotencyKey = ap_captures s\<rparr>),
     pt_put = (\<lambda>c s. s\<lparr>ap_orders := py_orders c, ap_intents := py_intents c, ap_bus := py_eventBus c,
       ap_refunds := py_refunds c, ap_paymentAudit := py_audit c, ap_captures := py_captureByIdempotencyKey c\<rparr>)\<rparr>"

definition core_port :: "core_services port" where
  "core_port = \<lparr>pt_get = (\<lambda>s. \<lparr>cs_orders = pt_get order_port s, cs_payments = pt_get payment_port s\<rparr>),
     pt_put = (\<lambda>c s. pt_put payment_port (cs_payments c) (pt_put order_port (cs_orders c) s))\<rparr>"

definition support_port :: "support_service port" where
  "support_port = \<lparr>pt_get = (\<lambda>s. \<lparr>sv_tickets = ap_tickets s, sv_escalations = ap_escalations s, sv_eventBus = ap_bus s\<rparr>),
     pt_put = (\<lambda>c s. s\<lparr>ap_tickets := sv_tickets c, ap_escalations := sv_escalations c, ap_bus := sv_eventBus c\<rparr>)\<rparr>"

definition policy_port :: "policy_service port" where
  "policy_port = \<lparr>pt_get = (\<lambda>s. \<lparr>rp_rules = ap_rules s, rp_eventBus = ap_bus s\<rparr>),
     pt_put = (\<lambda>c s. s\<lparr>ap_rules := rp_rules c, ap_bus := rp_eventBus c\<rparr>)\<rparr>"

definition review_port :: "review_service port" where
  "review_port = \<lparr>pt_get = (\<lambda>s. \<lparr>rv_reviews = ap_reviews s, rv_eventBus = ap_bus s\<rparr>),
     pt_put = (\<lambda>c s. s\<lparr>ap_reviews := rv_reviews c, ap_bus := rv_eventBus c\<rparr>)\<rparr>"

definition audit_port :: "audit_service port" where
  "audit_port = \<lparr>pt_get = (\<lambda>s. audit_service.make (ap_audit s) (ap_bus s)),
     pt_put = (\<lambda>c s. s\<lparr>ap_audit := au_log c, ap_bus := audit_service.au_eventBus c\<rparr>)\<rparr>"

definition ledger_port :: "ledger_service port" where
  "ledger_port = \<lparr>pt_get = (\<lambda>s. \<lparr>lg_ledger = ap_ledger s, lg_eventBus = ap_bus s\<rparr>),
     pt_put = (\<lambda>c s. s\<lparr>ap_ledger := lg_ledger c, ap_bus := lg_eventBus c\<rparr>)\<rparr>"

definition payout_port :: "payout_service port" where
  "payout_port = \<lparr>pt_get = (\<lambda>s. \<lparr>po_batches = ap_payouts s, po_eventBus = ap_bus s\<rparr>),
     pt_put = (\<lambda>c s. s\<lparr>ap_payouts := po_batches c, ap_bus := po_eventBus c\<rparr>)\<rparr>"

text \<open>Three attempts to render a statement, the default of the constructor.\<close>

definition statement_port :: "statement_service port" where
  "statement_port = \<lparr>pt_get = (\<lambda>s. \<lparr>ss_statements = ap_statements s, ss_eventBus = ap_bus s, ss_renderAttempts = 3\<rparr>),
     pt_put = (\<lambda>c s. s\<lparr>ap_statements := ss_statements c, ap_bus := ss_eventBus c\<rparr>)\<rparr>"

definition reconciliation_port :: "reconciliation_service port" where
  "reconciliation_port = \<lparr>pt_get = (\<lambda>s. \<lparr>re_eventBus = ap_bus s, re_repository = ap_reconciliations s\<rparr>),
     pt_put = (\<lambda>c s. s\<lparr>ap_bus := re_eventBus c, ap_reconciliations := re_repository c\<rparr>)\<rparr>"

definition import_port :: "import_service port" where
  "import_port = \<lparr>pt_get = (\<lambda>s. \<lparr>im_repository = ap_imports s, im_reconciliationService = pt_get reconciliation_port s\<rparr>),
     pt_put = (\<lambda>c s. (pt_put reconciliation_port (im_reconciliationService c) s)\<lparr>ap_imports := im_repository c\<rparr>)\<rparr>"

definition fanout_port :: "fanout_service port" where
  "fanout_port = \<lparr>pt_get = (\<lambda>s. \<lparr>nf_queue = ap_queue s, nf_eventBus = ap_bus s, nf_hasTemplateService = True\<rparr>),
     pt_put = (\<lambda>c s. s\<lparr>ap_queue := nf_queue c, ap_bus := nf_eventBus c\<rparr>)\<rparr>"

definition bus_port :: "event_bus port" where
  "bus_port = \<lparr>pt_get = ap_bus, pt_put = (\<lambda>c s. s\<lparr>ap_bus := c\<rparr>)\<rparr>"

definition retry_port :: "retry_service port" where
  "retry_port = \<lparr>pt_get = (\<lambda>s. retry_init\<lparr>ns_retries := ap_retries s, ns_eventBus := ap_bus s\<rparr>),
     pt_put = (\<lambda>c s. s\<lparr>ap_retries := ns_retries c, ap_bus := ns_eventBus c\<rparr>)\<rparr>"

definition receipt_port :: "receipt_service port" where
  "receipt_port = \<lparr>pt_get = (\<lambda>s. \<lparr>rs_receipts = ap_receipts s, rs_eventBus = ap_bus s\<rparr>),
     pt_put = (\<lambda>c s. s\<lparr>ap_receipts := rs_receipts c, ap_bus := rs_eventBus c\<rparr>)\<rparr>"

definition observability_port :: "observability_service port" where
  "observability_port = \<lparr>pt_get = (\<lambda>s. \<lparr>ob_repository = ap_logs s, ob_eventBus = ap_bus s\<rparr>),
     pt_put = (\<lambda>c s. s\<lparr>ap_logs := ob_repository c, ap_bus := ob_eventBus c\<rparr>)\<rparr>"

section \<open>Replies and failures\<close>

text \<open>The values the routes send, by area; what \<open>JSON.stringify\<close> makes of them is not modelled.\<close>

datatype platform_body =
    Logs_body "structuredLogEntry list" | Slo_body sloReport | Health_body | Admin_health_body | Break_glass_body uuid string

datatype identity_body = User_body uuid string string user_role iso_date | Tokens_body sessionTokens

datatype catalog_body =
    Stores_body "discoverableStore list" | Store_menu_body storeMenuView | Menu_body menu | Versions_body "menuVersion list"
  | Status_body storeStatus | Orderability_body storeOrderability | Prep_time_body prepTimeEstimate
  | Availability_body itemAvailability

datatype ordering_body =
    Zone_body deliveryZone | Zone_check_body validateZoneResult | Quote_body quote | Promotion_body promotionResult
  | Checkout_body checkoutPayload | Basket_body basket

datatype order_body =
    Order_body order "assignmentDecision option" | Orders_body "order list" | Timeline_body uuid "timelineEntry list"
  | Rebuild_body rebuildSummary

datatype courier_body = Jobs_body "courierJob list" | Job_body courierJob | Telemetry_body telemetryDecision

datatype payment_body =
    Intent_body paymentIntent | Cash_body cashCollectionResult | Refund_body refundRequest
  | Payment_audit_body uuid "paymentAuditRecord list"

datatype support_body =
    Ticket_body supportTicket | Ticket_timeline_body ticketTimelineView | Intervention_body interventionResult
  | Sla_body iso_date nat "supportEscalation list"

datatype risk_body =
    Decision_body riskPolicyDecision | Rules_body "riskPolicyRule list" | Rule_body riskPolicyRule | Review_body manualReview
  | Audit_event_body complianceAuditEvent | Audit_events_body "complianceAuditEvent list" | Evidence_body evidenceReport

datatype settlement_body =
    Journal_body settlementJournalEntry | Reconciliation_body reconciliationResult "nat option" | Import_body importRun
  | Reconciliations_body "reconciliationResult list" reconciliationSummary | Payout_body payoutBatch
  | Statement_body payoutStatement | Statements_body "payoutStatement list"

datatype notification_body =
    Queued_body nat "notificationQueueItem list" | Template_body templateResolution | Retry_body retryDecision
  | Receipt_body deliveryReceipt | Receipts_body string "deliveryReceipt list"

datatype api_body =
    B_platform platform_body | B_identity identity_body | B_catalog catalog_body | B_ordering ordering_body
  | B_order order_body | B_courier courier_body | B_payment payment_body | B_support support_body | B_risk risk_body
  | B_settlement settlement_body | B_notification notification_body | B_error json

type_synonym reply = "nat \<times> api_body"

text \<open>Beside the errors of the services a handler throws the \<open>URIError\<close> of a malformed segment, the error
  of the dispatch client, and the \<open>TypeError\<close> of a role that names an inherited property.\<close>

datatype failure = Service service_error | Uri_malformed | Rpc_failed string | Role_lookup

definition failure_object :: "failure \<Rightarrow> error_object" where
  "failure_object f = (case f of
     Service e \<Rightarrow> thrown e
   | Uri_malformed \<Rightarrow> error_obj PlainError [] ''URI malformed''
   | Rpc_failed m \<Rightarrow> error_obj PlainError [] m
   | Role_lookup \<Rightarrow> error_obj TypeErrorClass [] ''permissions.has is not a function'')"

section \<open>Steps of a handler\<close>

text \<open>A handler keeps what it changed when it throws later.\<close>

type_synonym handler = "server \<Rightarrow> (failure + reply) \<times> server"

definition throw :: "failure \<Rightarrow> handler" where
  "throw f s = (Inl f, s)"

definition reply :: "nat \<Rightarrow> api_body \<Rightarrow> handler" where
  "reply status body s = (Inr (status, body), s)"

definition valid :: "request_error + 'a \<Rightarrow> ('a \<Rightarrow> handler) \<Rightarrow> handler" where
  "valid r k = (case r of Inl e \<Rightarrow> throw (Service (SE_request e)) | Inr x \<Rightarrow> k x)"

definition parsed :: "environment \<Rightarrow> request \<Rightarrow> (json \<Rightarrow> handler) \<Rightarrow> handler" where
  "parsed E q k = valid (parseJsonBody (cf_parseJson E) (rq_body q)) k"

definition with_body :: "environment \<Rightarrow> request \<Rightarrow> (json \<Rightarrow> request_error + 'a) \<Rightarrow> ('a \<Rightarrow> handler) \<Rightarrow> handler" where
  "with_body E q validate k = parsed E q (\<lambda>payload. valid (validate payload) k)"

definition with_segment :: "string \<Rightarrow> (string \<Rightarrow> handler) \<Rightarrow> handler" where
  "with_segment raw k = (case decodeURIComponent raw of None \<Rightarrow> throw Uri_malformed | Some i \<Rightarrow> k i)"

definition inspect :: "(server \<Rightarrow> 'a) \<Rightarrow> ('a \<Rightarrow> handler) \<Rightarrow> handler" where
  "inspect f k s = k (f s) s"

definition demand :: "(server \<Rightarrow> 'e + 'a) \<Rightarrow> ('e \<Rightarrow> service_error) \<Rightarrow> ('a \<Rightarrow> handler) \<Rightarrow> handler" where
  "demand f err k s = (case f s of Inl e \<Rightarrow> throw (Service (err e)) s | Inr x \<Rightarrow> k x s)"

definition call :: "'c port \<Rightarrow> ('e \<Rightarrow> failure) \<Rightarrow> ('c \<Rightarrow> ('e + 'a) \<times> 'c) \<Rightarrow> ('a \<Rightarrow> handler) \<Rightarrow> handler" where
  "call p err op k s =
     (case op (pt_get p s) of
        (Inl e, c) \<Rightarrow> throw (err e) (pt_put p c s)
      | (Inr x, c) \<Rightarrow> k x (pt_put p c s))"

definition perform :: "'c port \<Rightarrow> ('c \<Rightarrow> 'a \<times> 'c) \<Rightarrow> ('a \<Rightarrow> handler) \<Rightarrow> handler" where
  "perform p op k s = (case op (pt_get p s) of (x, c) \<Rightarrow> k x (pt_put p c s))"

definition route_failure :: "string route_error \<Rightarrow> failure" where
  "route_failure e = (case e of RouteJob je \<Rightarrow> Service (SE_job je) | RouteOrder oe \<Rightarrow> Service (SE_order oe) | RouteRpc m \<Rightarrow> Rpc_failed m)"

text \<open>A query parameter that has to be present and not blank.\<close>

definition required_query :: "request \<Rightarrow> string \<Rightarrow> string \<Rightarrow> (string \<Rightarrow> handler) \<Rightarrow> handler" where
  "required_query q name message k =
     (case query_get (rq_query q) name of
        None \<Rightarrow> throw (Service (SE_request (Error_message message)))
      | Some v \<Rightarrow> if v = [] \<or> blank v then throw (Service (SE_request (Error_message message))) else k v)"

section \<open>Observability and identity\<close>

definition logs_route :: "request \<Rightarrow> handler" where
  "logs_route q = inspect (\<lambda>s. listLogs (query_get (rq_query q) ''traceId'') (pt_get observability_port s)) (\<lambda>logs.
     reply 200 (B_platform (Logs_body logs)))"

definition slo_route :: "draws \<Rightarrow> handler" where
  "slo_route d = inspect (\<lambda>s. listLogs None (pt_get observability_port s)) (\<lambda>logs.
     perform bus_port (slo_evaluate (dw_now d 0) (dw_now d 1) (dw_now d 2) logs) (\<lambda>report.
     reply 200 (B_platform (Slo_body report))))"

definition health_route :: handler where
  "health_route = reply 200 (B_platform Health_body)"

definition register_route :: "environment \<Rightarrow> draws \<Rightarrow> request \<Rightarrow> handler" where
  "register_route E d q = with_body E q validateRegistrationPayload (\<lambda>input.
     call identity_port (Service \<circ> SE_identity) (register (dw_uuid d 0) (dw_now d 0) (dw_now d 1) input) (\<lambda>user.
     reply 201 (B_identity (User_body (iu_id user) (iu_email user) (iu_phone user) (iu_role user) (iu_createdAt user)))))"

definition session_draw_of :: "draws \<Rightarrow> nat \<Rightarrow> session_draw" where
  "session_draw_of d n = \<lparr>sd_now = dw_ms d n, sd_bytes = dw_bytes d, sd_occurredAt = dw_now d 0\<rparr>"

definition login_call :: "environment \<Rightarrow> draws \<Rightarrow> loginInput \<Rightarrow> handler" where
  "login_call E d input =
     call (auth_port (cf_jwtSecret E)) (Service \<circ> SE_auth) (login (cf_jwt E) (dw_uuid d 0) (session_draw_of d 0) input) (\<lambda>tokens.
     reply 200 (B_identity (Tokens_body tokens)))"

definition login_route :: "environment \<Rightarrow> draws \<Rightarrow> request \<Rightarrow> handler" where
  "login_route E d q = with_body E q validateLoginPayload (login_call E d)"

definition refresh_route :: "environment \<Rightarrow> draws \<Rightarrow> request \<Rightarrow> handler" where
  "refresh_route E d q = with_body E q validateRefreshPayload (\<lambda>token.
     call (auth_port (cf_jwtSecret E)) (Service \<circ> SE_auth) (refresh (cf_jwt E) (dw_ms d 0) (session_draw_of d 1) token) (\<lambda>tokens.
     reply 200 (B_identity (Tokens_body tokens))))"

definition mfa_route :: "environment \<Rightarrow> draws \<Rightarrow> request \<Rightarrow> handler" where
  "mfa_route E d q = with_body E q validateMfaVerifyPayload (login_call E d)"

text \<open>The guard of the two admin routes.\<close>

definition permission_denied :: handler where
  "permission_denied = reply 403 (B_error (error_body ''IDENTITY_PERMISSION_DENIED'' ''Permission denied.''))"

definition admin_guard :: "environment \<Rightarrow> draws \<Rightarrow> request \<Rightarrow> string \<Rightarrow> (accessTokenClaims \<Rightarrow> handler) \<Rightarrow> handler" where
  "admin_guard E d q permission k = valid (extractBearerToken (rq_authorization q)) (\<lambda>token.
     demand (\<lambda>s. verifyAccessToken (cf_jwt E) (dw_ms d 0) token (pt_get (auth_port (cf_jwtSecret E)) s)) SE_auth (\<lambda>claims.
     (case isAllowed (cl_role claims) permission of
        None \<Rightarrow> throw Role_lookup
      | Some allowed \<Rightarrow> if allowed then k claims else permission_denied)))"

definition admin_health_route :: "environment \<Rightarrow> draws \<Rightarrow> request \<Rightarrow> handler" where
  "admin_health_route E d q = admin_guard E d q ''admin:read'' (\<lambda>_. reply 200 (B_platform Admin_health_body))"

definition break_glass_event :: "accessTokenClaims \<Rightarrow> string \<times> string option \<Rightarrow> complianceAuditInput" where
  "break_glass_event claims input =
     \<lparr>ai_actionType = ''ADMIN_BREAK_GLASS'', ai_actorId = cl_sub claims, ai_targetType = ''PRIVILEGED_ACCESS'',
      ai_targetId = cl_sub claims, ai_reasonCode = fst input,
      ai_metadata = [(''role'', JStr (cl_role claims)), (''email'', JStr (cl_email claims)),
        (''justification'', (case snd input of None \<Rightarrow> JNull | Some j \<Rightarrow> JStr j))]\<rparr>"

definition break_glass_route :: "environment \<Rightarrow> draws \<Rightarrow> request \<Rightarrow> handler" where
  "break_glass_route E d q = admin_guard E d q ''admin:break_glass'' (\<lambda>claims.
     with_body E q validateBreakGlassActivationPayload (\<lambda>input.
     call audit_port (Service \<circ> SE_risk)
       (appendEvent (cf_sha256 E) None (dw_now d 0) (dw_uuid d 0) (break_glass_event claims input)) (\<lambda>event.
     reply 201 (B_platform (Break_glass_body (ae_auditEventId event) (fst input))))))"

section \<open>Catalogue\<close>

definition list_stores_route :: "environment \<Rightarrow> draws \<Rightarrow> request \<Rightarrow> handler" where
  "list_stores_route E d q = valid (validateStoreDiscoveryQuery (cf_host E) (rq_query q)) (\<lambda>query.
     inspect (\<lambda>s. listStores (cf_host E) (nullish (sdq_at query) (dw_ms d 0)) (sdq_orderable query) (ap_menus s) (ap_statuses s)) (\<lambda>stores.
     reply 200 (B_catalog (Stores_body stores))))"

definition store_menu_route :: "environment \<Rightarrow> request \<Rightarrow> string \<Rightarrow> handler" where
  "store_menu_route E q raw = with_segment raw (\<lambda>storeId.
     valid (validateStoreMenuQuery (rq_query q)) (\<lambda>availableOnly.
     demand (\<lambda>s. getStoreMenu (cf_host E) storeId (nullish availableOnly False) (ap_menus s) (ap_items s)) SE_store_menu (\<lambda>menu.
     reply 200 (B_catalog (Store_menu_body menu)))))"

definition create_menu_route :: "environment \<Rightarrow> draws \<Rightarrow> request \<Rightarrow> handler" where
  "create_menu_route E d q = with_body E q validateCreateMenuPayload (\<lambda>input.
     perform menu_port (createMenu (dw_uuid d 0) (dw_now d 0) (dw_now d 1) input) (\<lambda>menu.
     reply 201 (B_catalog (Menu_body menu))))"

definition update_menu_route :: "environment \<Rightarrow> draws \<Rightarrow> request \<Rightarrow> string \<Rightarrow> handler" where
  "update_menu_route E d q raw = with_body E q validateUpdateMenuPayload (\<lambda>input.
     with_segment raw (\<lambda>menuId.
     call menu_port (Service \<circ> SE_menu) (updateMenu (dw_now d 0) (dw_now d 1) menuId input) (\<lambda>menu.
     reply 200 (B_catalog (Menu_body menu)))))"

definition menu_versions_route :: "string \<Rightarrow> handler" where
  "menu_versions_route raw = with_segment raw (\<lambda>menuId.
     demand (getMenuVersions menuId \<circ> ap_menus) SE_menu (\<lambda>versions. reply 200 (B_catalog (Versions_body versions))))"

definition get_menu_route :: "string \<Rightarrow> handler" where
  "get_menu_route raw = with_segment raw (\<lambda>menuId.
     demand (getMenu menuId \<circ> ap_menus) SE_menu (\<lambda>menu. reply 200 (B_catalog (Menu_body menu))))"

definition store_status_route :: "environment \<Rightarrow> draws \<Rightarrow> request \<Rightarrow> string \<Rightarrow> handler" where
  "store_status_route E d q raw = with_body E q validateStoreStatusPayload (\<lambda>input.
     with_segment raw (\<lambda>storeId.
     perform status_port (setStatus (dw_now d 0) storeId input) (\<lambda>status. reply 200 (B_catalog (Status_body status)))))"

definition orderability_time :: "environment \<Rightarrow> draws \<Rightarrow> request \<Rightarrow> int option" where
  "orderability_time E d q = (case query_get (rq_query q) ''at'' of
     None \<Rightarrow> Some (dw_ms d 0)
   | Some raw \<Rightarrow> if raw = [] then Some (dw_ms d 0) else host_getTime (cf_host E) raw)"

definition orderability_route :: "environment \<Rightarrow> draws \<Rightarrow> request \<Rightarrow> string \<Rightarrow> handler" where
  "orderability_route E d q raw = with_segment raw (\<lambda>storeId.
     (case orderability_time E d q of
        None \<Rightarrow> throw (Service (SE_request (Error_message ''INVALID_ORDERABILITY_QUERY'')))
      | Some t \<Rightarrow> inspect (evaluateOrderability (cf_host E) storeId t \<circ> ap_statuses) (\<lambda>result.
          reply 200 (B_catalog (Orderability_body result)))))"

definition prep_time_route :: "string \<Rightarrow> handler" where
  "prep_time_route raw = with_segment raw (\<lambda>storeId.
     inspect (getEstimate storeId \<circ> ap_menus) (\<lambda>estimate. reply 200 (B_catalog (Prep_time_body estimate))))"

definition set_availability_route :: "environment \<Rightarrow> draws \<Rightarrow> request \<Rightarrow> string \<Rightarrow> handler" where
  "set_availability_route E d q raw = with_body E q validateItemAvailabilityPayload (\<lambda>input.
     with_segment raw (\<lambda>itemId.
     perform item_port (setAvailability (dw_now d 0) itemId input) (\<lambda>result. reply 200 (B_catalog (Availability_body result)))))"

definition get_availability_route :: "draws \<Rightarrow> string \<Rightarrow> handler" where
  "get_availability_route d raw = with_segment raw (\<lambda>itemId.
     inspect (getAvailability (dw_now d 0) itemId \<circ> ap_items) (\<lambda>result. reply 200 (B_catalog (Availability_body result))))"

section \<open>Ordering\<close>

definition upsert_zone_route :: "environment \<Rightarrow> draws \<Rightarrow> request \<Rightarrow> handler" where
  "upsert_zone_route E d q = with_body E q validateUpsertDeliveryZonePayload (\<lambda>input.
     perform zone_port (upsertZone (dw_now d 0) input) (\<lambda>zone. reply 201 (B_ordering (Zone_body zone))))"

definition validate_zone_route :: "environment \<Rightarrow> request \<Rightarrow> handler" where
  "validate_zone_route E q = with_body E q validateZonePointPayload (\<lambda>input.
     inspect (validatePoint input \<circ> ap_zones) (\<lambda>result. reply 200 (B_ordering (Zone_check_body result))))"

definition quote_route :: "environment \<Rightarrow> draws \<Rightarrow> request \<Rightarrow> handler" where
  "quote_route E d q = with_body E q validateGenerateQuotePayload (\<lambda>(basketId, promoCode).
     inspect ap_baskets (\<lambda>baskets.
     call quote_port (Service \<circ> SE_quote)
       (generateQuote (cf_quoteHash E) (dw_uuid d 0) (dw_now d 0) basketId promoCode baskets) (\<lambda>quote.
     reply 200 (B_ordering (Quote_body quote)))))"

definition promotion_route :: "environment \<Rightarrow> request \<Rightarrow> handler" where
  "promotion_route E q = with_body E q validatePromotionEvaluatePayload (\<lambda>input.
     reply 200 (B_ordering (Promotion_body (evaluatePromotion
       \<lparr>pin_subtotalCents = pe_subtotalCents input, pin_promoCode = pe_promoCode input, pin_deliveryFeeCents = None\<rparr>))))"

definition checkout_route :: "environment \<Rightarrow> draws \<Rightarrow> request \<Rightarrow> handler" where
  "checkout_route E d q = with_body E q validateCheckoutPayload (\<lambda>input.
     inspect ap_quotes (\<lambda>quotes.
     call checkout_port (Service \<circ> SE_checkout) (createCheckout (cf_host E) (dw_ms d 0) (dw_uuid d 0) input quotes) (\<lambda>checkout.
     reply 200 (B_ordering (Checkout_body checkout)))))"

definition create_basket_route :: "environment \<Rightarrow> draws \<Rightarrow> request \<Rightarrow> handler" where
  "create_basket_route E d q = with_body E q validateCreateBasketPayload (\<lambda>input.
     perform basket_port (createBasket (dw_now d 0) (dw_uuid d 0) input) (\<lambda>basket. reply 201 (B_ordering (Basket_body basket))))"

text \<open>The dates of the availability look-ups are not part of the reply.\<close>

definition update_basket_route :: "environment \<Rightarrow> draws \<Rightarrow> request \<Rightarrow> string \<Rightarrow> handler" where
  "update_basket_route E d q raw = with_body E q validateUpdateBasketPayload (\<lambda>items.
     with_segment raw (\<lambda>basketId.
     inspect ap_items (\<lambda>availability.
     call basket_port (Service \<circ> SE_basket) (updateBasket (\<lambda>n. dw_now d (n + 1)) (dw_now d 0) basketId items availability) (\<lambda>basket.
     reply 200 (B_ordering (Basket_body basket))))))"

definition get_basket_route :: "string \<Rightarrow> handler" where
  "get_basket_route raw = with_segment raw (\<lambda>basketId.
     demand (getBasket basketId \<circ> ap_baskets) SE_basket (\<lambda>basket. reply 200 (B_ordering (Basket_body basket))))"

section \<open>Orders\<close>

definition create_order_route :: "environment \<Rightarrow> draws \<Rightarrow> request \<Rightarrow> handler" where
  "create_order_route E d q = with_body E q validateCreateOrderPayload (\<lambda>input.
     call order_port (Service \<circ> SE_order) (createOrder (dw_now d 0) (dw_uuid d 0) input) (\<lambda>v.
     reply 201 (B_order (Order_body v None))))"

definition consumer_orders_route :: "request \<Rightarrow> handler" where
  "consumer_orders_route q = valid (validateConsumerOrderListQuery (rq_query q)) (\<lambda>(consumerId, status).
     inspect (listOrders (Some consumerId) None status \<circ> pt_get order_port) (\<lambda>orders.
     reply 200 (B_order (Orders_body orders))))"

definition get_order_route :: "string \<Rightarrow> handler" where
  "get_order_route raw = with_segment raw (\<lambda>orderId.
     demand (getOrder orderId \<circ> pt_get order_port) SE_order (\<lambda>v. reply 200 (B_order (Order_body v None))))"

definition order_timeline_route :: "string \<Rightarrow> handler" where
  "order_timeline_route raw = with_segment raw (\<lambda>orderId.
     inspect (timeline_getByOrderId orderId \<circ> ap_timeline) (\<lambda>entries. reply 200 (B_order (Timeline_body orderId entries))))"

definition cancel_order_route :: "environment \<Rightarrow> draws \<Rightarrow> request \<Rightarrow> string \<Rightarrow> handler" where
  "cancel_order_route E d q raw = with_body E q validateOrderCancellationPayload (\<lambda>reasonCode.
     with_segment raw (\<lambda>orderId.
     call order_port (Service \<circ> SE_order)
       (requestCancellation (dw_now d 0) orderId \<lparr>rci_actor = ByConsumer, rci_reasonCode = reasonCode\<rparr>) (\<lambda>v.
     reply 200 (B_order (Order_body v None)))))"

definition accept_order_route :: "draws \<Rightarrow> string \<Rightarrow> handler" where
  "accept_order_route d raw = with_segment raw (\<lambda>orderId.
     call order_port (Service \<circ> SE_order) (merchantAcceptOrder (dw_now d 0) orderId) (\<lambda>v.
     reply 200 (B_order (Order_body v None))))"

definition reject_order_route :: "environment \<Rightarrow> draws \<Rightarrow> request \<Rightarrow> string \<Rightarrow> handler" where
  "reject_order_route E d q raw = with_body E q validateMerchantOrderRejectPayload (\<lambda>reasonCode.
     with_segment raw (\<lambda>orderId.
     call order_port (Service \<circ> SE_order)
       (requestCancellation (dw_now d 0) orderId \<lparr>rci_actor = ByMerchantOperator, rci_reasonCode = reasonCode\<rparr>) (\<lambda>v.
     reply 200 (B_order (Order_body v None)))))"

definition merchant_orders_route :: "request \<Rightarrow> handler" where
  "merchant_orders_route q = valid (validateMerchantOrderListQuery (rq_query q)) (\<lambda>(merchantId, status).
     inspect (listOrders None (Some merchantId) status \<circ> pt_get order_port) (\<lambda>orders.
     reply 200 (B_order (Orders_body orders))))"

definition order_timeout_route :: "draws \<Rightarrow> string \<Rightarrow> handler" where
  "order_timeout_route d raw = with_segment raw (\<lambda>orderId.
     call order_port (Service \<circ> SE_order) (handleMerchantDecisionTimeout (dw_now d 0) orderId) (\<lambda>v.
     reply 200 (B_order (Order_body v None))))"

definition assignment_for :: "assignmentBody \<Rightarrow> uuid \<Rightarrow> assignmentInput" where
  "assignment_for b orderId =
     \<lparr>ai_orderId = orderId, ai_candidates = ab_candidates b, ai_slaPressure = ab_slaPressure b,
      ai_merchantSelfDeliveryEnabled = ab_merchantSelfDeliveryEnabled b\<rparr>"

definition request_dispatch_route :: "environment \<Rightarrow> draws \<Rightarrow> request \<Rightarrow> string \<Rightarrow> handler" where
  "request_dispatch_route E d q raw = with_segment raw (\<lambda>orderId.
     with_body E q validateDispatchAssignmentPayload (\<lambda>input.
     call dispatch_port route_failure
       (requestDispatchRoute (dw_now d 0) (dw_now d 1) orderId (map_option assignment_for input) (cf_dispatch E)) (\<lambda>(v, assignment).
     reply 200 (B_order (Order_body v assignment)))))"

definition rebuild_timeline_route :: handler where
  "rebuild_timeline_route = inspect ap_bus (\<lambda>bus.
     perform timeline_port (rebuildFromEventLog bus) (\<lambda>result. reply 200 (B_order (Rebuild_body result))))"

section \<open>Couriers\<close>

definition available_jobs_route :: handler where
  "available_jobs_route = inspect ap_orders (\<lambda>orders.
     perform job_port (listAvailableJobs orders) (\<lambda>jobs. reply 200 (B_courier (Jobs_body jobs))))"

definition list_jobs_route :: "request \<Rightarrow> handler" where
  "list_jobs_route q = valid (validateCourierJobListQuery (rq_query q)) (\<lambda>(courierId, status).
     inspect ap_orders (\<lambda>orders.
     perform job_port (listJobs courierId status orders) (\<lambda>jobs. reply 200 (B_courier (Jobs_body jobs)))))"

definition get_job_route :: "string \<Rightarrow> handler" where
  "get_job_route raw = with_segment raw (\<lambda>jobId.
     inspect ap_orders (\<lambda>orders.
     call job_port (Service \<circ> SE_job) (getJob jobId orders) (\<lambda>job. reply 200 (B_courier (Job_body job)))))"

definition telemetry_route :: "environment \<Rightarrow> request \<Rightarrow> handler" where
  "telemetry_route E q = with_body E q validateCourierTelemetryPayload (\<lambda>input.
     perform telemetry_port (ingest input) (\<lambda>decision. reply 200 (B_courier (Telemetry_body decision))))"

definition job_reply :: "courierJob \<Rightarrow> handler" where
  "job_reply job = reply 200 (B_courier (Job_body job))"

definition accept_job_route :: "environment \<Rightarrow> draws \<Rightarrow> request \<Rightarrow> string \<Rightarrow> handler" where
  "accept_job_route E d q raw = with_body E q validateCourierJobCourierPayload (\<lambda>courierId.
     with_segment raw (\<lambda>jobId.
     call dispatch_port route_failure (acceptRoute (dw_now d 0) (dw_now d 1) jobId courierId) job_reply))"

definition pickup_job_route :: "environment \<Rightarrow> draws \<Rightarrow> request \<Rightarrow> string \<Rightarrow> handler" where
  "pickup_job_route E d q raw = with_body E q validateCourierJobCourierPayload (\<lambda>courierId.
     with_segment raw (\<lambda>jobId.
     call dispatch_port route_failure (pickupRoute (dw_now d 0) (dw_now d 1) jobId courierId) job_reply))"

definition dropoff_job_route :: "environment \<Rightarrow> draws \<Rightarrow> request \<Rightarrow> string \<Rightarrow> handler" where
  "dropoff_job_route E d q raw = with_body E q validateCourierJobCourierPayload (\<lambda>courierId.
     with_segment raw (\<lambda>jobId.
     call dispatch_port route_failure (dropoffRoute (dw_now d 0) (dw_now d 1) jobId courierId) job_reply))"

section \<open>Payments\<close>

definition authorize_route :: "environment \<Rightarrow> draws \<Rightarrow> request \<Rightarrow> handler" where
  "authorize_route E d q = with_body E q validatePaymentAuthorizePayload (\<lambda>input.
     call payment_port (Service \<circ> SE_payment)
       (authorizePayment (in_memory_psp (dw_uuid d 0) (dw_now d 0)) (dw_uuid d 1) (dw_uuid d 2) input) (\<lambda>v.
     reply 201 (B_payment (Intent_body v))))"

definition capture_route :: "environment \<Rightarrow> draws \<Rightarrow> request \<Rightarrow> handler" where
  "capture_route E d q = with_body E q validatePaymentCapturePayload (\<lambda>input.
     call payment_port (Service \<circ> SE_payment) (capturePayment (dw_now d 0) (dw_uuid d 0) input) (\<lambda>v.
     reply 200 (B_payment (Intent_body v))))"

definition cash_expected_route :: "environment \<Rightarrow> draws \<Rightarrow> request \<Rightarrow> handler" where
  "cash_expected_route E d q = with_body E q validateCashExpectedPayload (\<lambda>input.
     call payment_port (Service \<circ> SE_payment) (markCashExpected (dw_now d 0) (dw_uuid d 0) (dw_uuid d 1) input) (\<lambda>v.
     reply 201 (B_payment (Intent_body v))))"

definition cash_collection_route :: "environment \<Rightarrow> draws \<Rightarrow> request \<Rightarrow> string \<Rightarrow> handler" where
  "cash_collection_route E d q raw = with_body E q validateCashCollectionPayload (\<lambda>(collectedAmount, courierId).
     with_segment raw (\<lambda>orderId.
     call payment_port (Service \<circ> SE_payment)
       (confirmCashCollection (dw_now d 0) (dw_uuid d 0) (dw_uuid d 1)
          \<lparr>cci_orderId = orderId, cci_collectedAmount = collectedAmount, cci_courierId = courierId\<rparr>) (\<lambda>v.
     reply 200 (B_payment (Cash_body v)))))"

definition request_refund_route :: "environment \<Rightarrow> draws \<Rightarrow> request \<Rightarrow> handler" where
  "request_refund_route E d q = with_body E q validateRefundRequestPayload (\<lambda>input.
     call payment_port (Service \<circ> SE_payment) (requestRefund (dw_now d 0) (dw_uuid d 0) (dw_uuid d 1) input) (\<lambda>v.
     reply 201 (B_payment (Refund_body v))))"

definition approve_refund_route :: "environment \<Rightarrow> draws \<Rightarrow> request \<Rightarrow> string \<Rightarrow> handler" where
  "approve_refund_route E d q raw = with_body E q validateRefundApprovalPayload (\<lambda>approvedBy.
     with_segment raw (\<lambda>refundRequestId.
     call payment_port (Service \<circ> SE_payment)
       (approveRefund (dw_now d 0) (dw_uuid d 0) \<lparr>ari_refundRequestId = refundRequestId, ari_approvedBy = approvedBy\<rparr>) (\<lambda>v.
     reply 200 (B_payment (Refund_body v)))))"

definition payment_audit_route :: "string \<Rightarrow> handler" where
  "payment_audit_route raw = with_segment raw (\<lambda>orderId.
     inspect (getAuditTrail orderId \<circ> pt_get payment_port) (\<lambda>records. reply 200 (B_payment (Payment_audit_body orderId records))))"

section \<open>Support\<close>

definition create_ticket_route :: "environment \<Rightarrow> draws \<Rightarrow> request \<Rightarrow> handler" where
  "create_ticket_route E d q = with_body E q validateCreateSupportTicketPayload (\<lambda>input.
     perform support_port (createTicket (dw_now d 0) (dw_uuid d 0) input) (\<lambda>ticket. reply 201 (B_support (Ticket_body ticket))))"

definition ticket_timeline_route :: "environment \<Rightarrow> string \<Rightarrow> handler" where
  "ticket_timeline_route E raw = with_segment raw (\<lambda>ticketId.
     demand (\<lambda>s. core_timeline (cf_host E) ticketId (pt_get core_port s) (pt_get support_port s)) SE_support (\<lambda>timeline.
     reply 200 (B_support (Ticket_timeline_body timeline))))"

definition intervention_route :: "environment \<Rightarrow> draws \<Rightarrow> request \<Rightarrow> handler" where
  "intervention_route E d q = with_body E q validateSupportInterventionPayload (\<lambda>input.
     call core_port (Service \<circ> SE_intervention)
       (core_intervention (dw_now d 0) (dw_uuid d 0) (dw_uuid d 1) (dw_now d 1) input) (\<lambda>result.
     reply (if xr_status result = INTERVENTION_QUEUED then 202 else 200) (B_support (Intervention_body result))))"

definition sla_route :: "environment \<Rightarrow> draws \<Rightarrow> request \<Rightarrow> handler" where
  "sla_route E d q = with_body E q (validateSupportSlaEvaluationPayload (cf_host E)) (\<lambda>input.
     call support_port (Service \<circ> SE_support) (evaluateEscalations (cf_host E) (dw_escalationId d) input) (\<lambda>result.
     reply 200 (B_support (Sla_body (sx_evaluatedAt result) (length (sx_escalations result)) (sx_escalations result)))))"

section \<open>Risk and compliance\<close>

definition evaluate_policy_route :: "environment \<Rightarrow> draws \<Rightarrow> request \<Rightarrow> handler" where
  "evaluate_policy_route E d q = with_body E q validateRiskPolicyEvaluatePayload (\<lambda>input.
     perform policy_port (evaluate_policy (dw_now d 0) (dw_uuid d 0) input) (\<lambda>decision.
     reply 200 (B_risk (Decision_body decision))))"

definition list_rules_route :: "environment \<Rightarrow> handler" where
  "list_rules_route E = inspect (listRules (cf_host E) \<circ> pt_get policy_port) (\<lambda>rules. reply 200 (B_risk (Rules_body rules)))"

definition upsert_rule_route :: "environment \<Rightarrow> draws \<Rightarrow> request \<Rightarrow> string \<Rightarrow> handler" where
  "upsert_rule_route E d q raw = parsed E q (\<lambda>payload.
     with_segment raw (\<lambda>actionType.
     valid (validateRiskPolicyRulePayload actionType payload) (\<lambda>input.
     call policy_port (Service \<circ> SE_risk) (upsertRule (dw_now d 0) input) (\<lambda>rule. reply 200 (B_risk (Rule_body rule))))))"

definition queue_review_route :: "environment \<Rightarrow> draws \<Rightarrow> request \<Rightarrow> handler" where
  "queue_review_route E d q = with_body E q validateQueueManualReviewPayload (\<lambda>input.
     perform review_port (queueReview (dw_now d 0) (dw_uuid d 0) input) (\<lambda>review. reply 201 (B_risk (Review_body review))))"

definition resolve_review_route :: "environment \<Rightarrow> draws \<Rightarrow> request \<Rightarrow> string \<Rightarrow> handler" where
  "resolve_review_route E d q raw = parsed E q (\<lambda>payload.
     with_segment raw (\<lambda>reviewId.
     valid (validateResolveManualReviewPayload reviewId payload) (\<lambda>input.
     call review_port (Service \<circ> SE_risk) (resolveReview (dw_now d 0) input) (\<lambda>review. reply 200 (B_risk (Review_body review))))))"

definition append_audit_route :: "environment \<Rightarrow> draws \<Rightarrow> request \<Rightarrow> handler" where
  "append_audit_route E d q = with_body E q validateAppendComplianceAuditPayload (\<lambda>input.
     call audit_port (Service \<circ> SE_risk) (appendEvent (cf_sha256 E) None (dw_now d 0) (dw_uuid d 0) input) (\<lambda>event.
     reply 201 (B_risk (Audit_event_body event))))"

definition list_audit_route :: handler where
  "list_audit_route = inspect (listEvents \<circ> pt_get audit_port) (\<lambda>events. reply 200 (B_risk (Audit_events_body events)))"

definition evidence_route :: "environment \<Rightarrow> draws \<Rightarrow> request \<Rightarrow> handler" where
  "evidence_route E d q = with_body E q (validateGenerateComplianceEvidencePayload (cf_host E)) (\<lambda>(generatedBy, generatedAt).
     perform audit_port (generateEvidenceReport (cf_sha256 E) (cf_native E) (dw_uuid d 0) generatedBy generatedAt) (\<lambda>report.
     reply 200 (B_risk (Evidence_body report))))"

section \<open>Settlement\<close>

definition post_journal_route :: "environment \<Rightarrow> draws \<Rightarrow> request \<Rightarrow> handler" where
  "post_journal_route E d q = with_body E q validateSettlementJournalPayload (\<lambda>input.
     call ledger_port (Service \<circ> SE_settlement) (postJournalEntry (dw_now d 0) (dw_uuid d 0) input) (\<lambda>journal.
     reply 201 (B_settlement (Journal_body journal))))"

definition reconcile_route :: "environment \<Rightarrow> draws \<Rightarrow> request \<Rightarrow> handler" where
  "reconcile_route E d q = with_body E q validateSettlementReconciliationPayload (\<lambda>input.
     perform reconciliation_port (reconcile (dw_now d 0) (dw_uuid d 0) input) (\<lambda>result.
     reply 200 (B_settlement (Reconciliation_body result None))))"

definition ingest_route :: "environment \<Rightarrow> draws \<Rightarrow> request \<Rightarrow> handler" where
  "ingest_route E d q = with_body E q validateSettlementReconciliationIngestPayload (\<lambda>(input, ingestedRecords).
     perform reconciliation_port (reconcile (dw_now d 0) (dw_uuid d 0) input) (\<lambda>result.
     reply 200 (B_settlement (Reconciliation_body result (Some ingestedRecords)))))"

definition import_run_route :: "environment \<Rightarrow> draws \<Rightarrow> request \<Rightarrow> string \<Rightarrow> handler" where
  "import_run_route E d q raw = parsed E q (\<lambda>payload.
     with_segment raw (\<lambda>scheduleId.
     valid (validateSettlementReconciliationImportRunPayload (cf_host E) scheduleId payload) (\<lambda>input.
     perform import_port (runScheduledImport (dw_now d 0) (dw_uuid d 0) (dw_now d 1) (dw_uuid d 1) input) (\<lambda>(run, created).
     reply (if created then 201 else 200) (B_settlement (Import_body run))))))"

definition reconciliation_results_route :: "environment \<Rightarrow> request \<Rightarrow> handler" where
  "reconciliation_results_route E q = valid (validateSettlementReconciliationQuery (rq_query q)) (\<lambda>(limit, hasExceptions).
     inspect (listResults (cf_host E) limit hasExceptions \<circ> pt_get reconciliation_port) (\<lambda>results.
     inspect (summarizeResults (cf_host E) hasExceptions \<circ> pt_get reconciliation_port) (\<lambda>summary.
     reply 200 (B_settlement (Reconciliations_body results summary)))))"

definition generate_payout_route :: "environment \<Rightarrow> draws \<Rightarrow> request \<Rightarrow> handler" where
  "generate_payout_route E d q = with_body E q (validatePayoutBatchPayload (cf_host E)) (\<lambda>input.
     perform payout_port (generateBatch (dw_now d 0) (dw_uuid d 0) input) (\<lambda>batch. reply 201 (B_settlement (Payout_body batch))))"

definition payout_run_route :: "environment \<Rightarrow> draws \<Rightarrow> request \<Rightarrow> string \<Rightarrow> handler" where
  "payout_run_route E d q raw = parsed E q (\<lambda>payload.
     with_segment raw (\<lambda>scheduleId.
     valid (validatePayoutScheduleRunPayload (cf_host E) scheduleId payload) (\<lambda>input.
     perform payout_port (runScheduledBatch (dw_now d 0) (dw_uuid d 0) input) (\<lambda>(batch, created).
     reply (if created then 201 else 200) (B_settlement (Payout_body batch))))))"

definition publish_statement_route :: "environment \<Rightarrow> draws \<Rightarrow> request \<Rightarrow> handler" where
  "publish_statement_route E d q = with_body E q (validatePublishPayoutStatementPayload (cf_host E)) (\<lambda>input.
     perform statement_port
       (publishStatement (\<lambda>_ i. Some (default_renderer i)) (dw_now d 0) (dw_uuid d 0) input) (\<lambda>statement.
     reply 201 (B_settlement (Statement_body statement))))"

definition merchant_payouts_route :: "environment \<Rightarrow> request \<Rightarrow> handler" where
  "merchant_payouts_route E q = required_query q ''merchantId'' ''INVALID_MERCHANT_PAYOUT_QUERY'' (\<lambda>merchantId.
     inspect (listStatements (cf_host E) PAYEE_MERCHANT merchantId \<circ> pt_get statement_port) (\<lambda>statements.
     reply 200 (B_settlement (Statements_body statements))))"

definition courier_payouts_route :: "environment \<Rightarrow> request \<Rightarrow> handler" where
  "courier_payouts_route E q = required_query q ''courierId'' ''INVALID_COURIER_PAYOUT_QUERY'' (\<lambda>courierId.
     inspect (listStatements (cf_host E) PAYEE_COURIER courierId \<circ> pt_get statement_port) (\<lambda>statements.
     reply 200 (B_settlement (Statements_body statements))))"

section \<open>Notifications\<close>

definition fanout_route :: "environment \<Rightarrow> draws \<Rightarrow> request \<Rightarrow> handler" where
  "fanout_route E d q = with_body E q validateNotificationFanoutPayload (\<lambda>input.
     call fanout_port (Service \<circ> SE_notification)
       (fanout (cf_native E) (dw_now d 0) (dw_channelNow d) (dw_channelId d) input) (\<lambda>queued.
     reply 202 (B_notification (Queued_body (length queued) queued))))"

definition resolve_template_route :: "environment \<Rightarrow> draws \<Rightarrow> request \<Rightarrow> handler" where
  "resolve_template_route E d q = with_body E q validateTemplateResolvePayload (\<lambda>input.
     call bus_port (Service \<circ> SE_notification) (resolveTemplate (dw_now d 0) input) (\<lambda>result.
     reply 200 (B_notification (Template_body result))))"

definition retry_route :: "environment \<Rightarrow> draws \<Rightarrow> request \<Rightarrow> handler" where
  "retry_route E d q = with_body E q validateNotificationRetryPayload (\<lambda>input.
     perform retry_port (handleFailure (dw_now d 0) (dw_uuid d 0) input) (\<lambda>decision.
     reply 202 (B_notification (Retry_body decision))))"

definition record_receipt_route :: "environment \<Rightarrow> draws \<Rightarrow> request \<Rightarrow> handler" where
  "record_receipt_route E d q = with_body E q validateNotificationReceiptPayload (\<lambda>input.
     perform receipt_port (recordReceipt (dw_now d 0) (dw_uuid d 0) input) (\<lambda>receipt.
     reply 201 (B_notification (Receipt_body receipt))))"

definition list_receipts_route :: "environment \<Rightarrow> request \<Rightarrow> handler" where
  "list_receipts_route E q = required_query q ''entityId'' ''INVALID_NOTIFICATION_RECEIPT_QUERY'' (\<lambda>entityId.
     inspect (listReceiptsByEntity (cf_host E) entityId \<circ> pt_get receipt_port) (\<lambda>receipts.
     reply 200 (B_notification (Receipts_body entityId receipts))))"

section \<open>The handler of a route\<close>

primrec handle_platform :: "environment \<Rightarrow> draws \<Rightarrow> request \<Rightarrow> platform_route \<Rightarrow> handler" where
  "handle_platform E d q Logs_route = logs_route q"
| "handle_platform E d q Slo_route = slo_route d"
| "handle_platform E d q Health_route = health_route"
| "handle_platform E d q Admin_health_route = admin_health_route E d q"
| "handle_platform E d q Break_glass_route = break_glass_route E d q"

primrec handle_identity :: "environment \<Rightarrow> draws \<Rightarrow> request \<Rightarrow> identity_route \<Rightarrow> handler" where
  "handle_identity E d q Register_route = register_route E d q"
| "handle_identity E d q Login_route = login_route E d q"
| "handle_identity E d q Refresh_route = refresh_route E d q"
| "handle_identity E d q Mfa_route = mfa_route E d q"

primrec handle_catalog :: "environment \<Rightarrow> draws \<Rightarrow> request \<Rightarrow> catalog_route \<Rightarrow> handler" where
  "handle_catalog E d q List_stores_route = list_stores_route E d q"
| "handle_catalog E d q (Store_menu_route i) = store_menu_route E q i"
| "handle_catalog E d q Create_menu_route = create_menu_route E d q"
| "handle_catalog E d q (Update_menu_route i) = update_menu_route E d q i"
| "handle_catalog E d q (Menu_versions_route i) = menu_versions_route i"
| "handle_catalog E d q (Get_menu_route i) = get_menu_route i"
| "handle_catalog E d q (Store_status_route i) = store_status_route E d q i"
| "handle_catalog E d q (Orderability_route i) = orderability_route E d q i"
| "handle_catalog E d q (Prep_time_route i) = prep_time_route i"
| "handle_catalog E d q (Set_availability_route i) = set_availability_route E d q i"
| "handle_catalog E d q (Get_availability_route i) = get_availability_route d i"

primrec handle_ordering :: "environment \<Rightarrow> draws \<Rightarrow> request \<Rightarrow> ordering_route \<Rightarrow> handler" where
  "handle_ordering E d q Upsert_zone_route = upsert_zone_route E d q"
| "handle_ordering E d q Validate_zone_route = validate_zone_route E q"
| "handle_ordering E d q Quote_route = quote_route E d q"
| "handle_ordering E d q Promotion_route = promotion_route E q"
| "handle_ordering E d q Checkout_route = checkout_route E d q"
| "handle_ordering E d q Create_basket_route = create_basket_route E d q"
| "handle_ordering E d q (Update_basket_route i) = update_basket_route E d q i"
| "handle_ordering E d q (Get_basket_route i) = get_basket_route i"

primrec handle_orders :: "environment \<Rightarrow> draws \<Rightarrow> request \<Rightarrow> order_route \<Rightarrow> handler" where
  "handle_orders E d q Create_order_route = create_order_route E d q"
| "handle_orders E d q Consumer_orders_route = consumer_orders_route q"
| "handle_orders E d q (Get_order_route i) = get_order_route i"
| "handle_orders E d q (Order_timeline_route i) = order_timeline_route i"
| "handle_orders E d q (Cancel_order_route i) = cancel_order_route E d q i"
| "handle_orders E d q (Accept_order_route i) = accept_order_route d i"
| "handle_orders E d q (Reject_order_route i) = reject_order_route E d q i"
| "handle_orders E d q Merchant_orders_route = merchant_orders_route q"
| "handle_orders E d q (Order_timeout_route i) = order_timeout_route d i"
| "handle_orders E d q (Request_dispatch_route i) = request_dispatch_route E d q i"
| "handle_orders E d q Rebuild_timeline_route = rebuild_timeline_route"

primrec handle_courier :: "environment \<Rightarrow> draws \<Rightarrow> request \<Rightarrow> courier_route \<Rightarrow> handler" where
  "handle_courier E d q Available_jobs_route = available_jobs_route"
| "handle_courier E d q List_jobs_route = list_jobs_route q"
| "handle_courier E d q (Get_job_route i) = get_job_route i"
| "handle_courier E d q Telemetry_route = telemetry_route E q"
| "handle_courier E d q (Accept_job_route i) = accept_job_route E d q i"
| "handle_courier E d q (Pickup_job_route i) = pickup_job_route E d q i"
| "handle_courier E d q (Dropoff_job_route i) = dropoff_job_route E d q i"

primrec handle_payments :: "environment \<Rightarrow> draws \<Rightarrow> request \<Rightarrow> payment_route \<Rightarrow> handler" where
  "handle_payments E d q Authorize_route = authorize_route E d q"
| "handle_payments E d q Capture_route = capture_route E d q"
| "handle_payments E d q Cash_expected_route = cash_expected_route E d q"
| "handle_payments E d q (Cash_collection_route i) = cash_collection_route E d q i"
| "handle_payments E d q Request_refund_route = request_refund_route E d q"
| "handle_payments E d q (Approve_refund_route i) = approve_refund_route E d q i"
| "handle_payments E d q (Payment_audit_route i) = payment_audit_route i"

primrec handle_support :: "environment \<Rightarrow> draws \<Rightarrow> request \<Rightarrow> support_route \<Rightarrow> handler" where
  "handle_support E d q Create_ticket_route = create_ticket_route E d q"
| "handle_support E d q (Ticket_timeline_route i) = ticket_timeline_route E i"
| "handle_support E d q Intervention_route = intervention_route E d q"
| "handle_support E d q Sla_route = sla_route E d q"

primrec handle_risk :: "environment \<Rightarrow> draws \<Rightarrow> request \<Rightarrow> risk_route \<Rightarrow> handler" where
  "handle_risk E d q Evaluate_policy_route = evaluate_policy_route E d q"
| "handle_risk E d q List_rules_route = list_rules_route E"
| "handle_risk E d q (Upsert_rule_route i) = upsert_rule_route E d q i"
| "handle_risk E d q Queue_review_route = queue_review_route E d q"
| "handle_risk E d q (Resolve_review_route i) = resolve_review_route E d q i"
| "handle_risk E d q Append_audit_route = append_audit_route E d q"
| "handle_risk E d q List_audit_route = list_audit_route"
| "handle_risk E d q Evidence_route = evidence_route E d q"

primrec handle_settlement :: "environment \<Rightarrow> draws \<Rightarrow> request \<Rightarrow> settlement_route \<Rightarrow> handler" where
  "handle_settlement E d q Post_journal_route = post_journal_route E d q"
| "handle_settlement E d q Reconcile_route = reconcile_route E d q"
| "handle_settlement E d q Ingest_route = ingest_route E d q"
| "handle_settlement E d q (Import_run_route i) = import_run_route E d q i"
| "handle_settlement E d q Reconciliation_results_route = reconciliation_results_route E q"
| "handle_settlement E d q Generate_payout_route = generate_payout_route E d q"
| "handle_settlement E d q (Payout_run_route i) = payout_run_route E d q i"
| "handle_settlement E d q Publish_statement_route = publish_statement_route E d q"
| "handle_settlement E d q Merchant_payouts_route = merchant_payouts_route E q"
| "handle_settlement E d q Courier_payouts_route = courier_payouts_route E q"

primrec handle_notifications :: "environment \<Rightarrow> draws \<Rightarrow> request \<Rightarrow> notification_route \<Rightarrow> handler" where
  "handle_notifications E d q Fanout_route = fanout_route E d q"
| "handle_notifications E d q Resolve_template_route = resolve_template_route E d q"
| "handle_notifications E d q Retry_route = retry_route E d q"
| "handle_notifications E d q Record_receipt_route = record_receipt_route E d q"
| "handle_notifications E d q List_receipts_route = list_receipts_route E q"

primrec handle :: "environment \<Rightarrow> draws \<Rightarrow> request \<Rightarrow> route \<Rightarrow> handler" where
  "handle E d q (Platform r) = handle_platform E d q r"
| "handle E d q (Identity r) = handle_identity E d q r"
| "handle E d q (Catalog r) = handle_catalog E d q r"
| "handle E d q (Ordering r) = handle_ordering E d q r"
| "handle E d q (Orders r) = handle_orders E d q r"
| "handle E d q (route.Courier r) = handle_courier E d q r"
| "handle E d q (Payments r) = handle_payments E d q r"
| "handle E d q (Support r) = handle_support E d q r"
| "handle E d q (Risk r) = handle_risk E d q r"
| "handle E d q (Settlement r) = handle_settlement E d q r"
| "handle E d q (Notifications r) = handle_notifications E d q r"

section \<open>A request\<close>

definition not_found_route :: handler where
  "not_found_route = reply 404 (B_error (error_body ''NOT_FOUND'' ''Route not found''))"

definition dispatch_request :: "environment \<Rightarrow> draws \<Rightarrow> request \<Rightarrow> handler" where
  "dispatch_request E d q =
     (case route_of (rq_method q) (rq_path q) of None \<Rightarrow> not_found_route | Some r \<Rightarrow> handle E d q r)"

definition catch_failure :: "failure + reply \<Rightarrow> reply" where
  "catch_failure r = (case r of
     Inr answer \<Rightarrow> answer
   | Inl f \<Rightarrow> (let h = handle_error (failure_object f) in (hs_status h, B_error (hs_body h))))"

record server_response =
  sp_traceId :: uuid
  sp_status :: nat
  sp_body :: api_body

text \<open>The trace starts before the handler and is finished when the response ends.\<close>

definition serve :: "environment \<Rightarrow> draws \<Rightarrow> request \<Rightarrow> server \<Rightarrow> server_response \<times> server" where
  "serve E d q s =
     (let trace = startTrace (dw_traceId d) (dw_spanId d) (dw_startedAt d) (dw_startedMs d) (rq_method q) (rq_path q);
          (result, s1) = dispatch_request E d q s;
          (status, body) = catch_failure result;
          (_, c) = finishTrace (dw_finishedAt d) (dw_finishedMs d) trace status None (pt_get observability_port s1)
      in (\<lparr>sp_traceId = tc_traceId trace, sp_status = status, sp_body = body\<rparr>, pt_put observability_port c s1))"

end
