(* ===== verification/Composition.thy ===== *)
theory Composition
  imports Server
begin

text \<open>
  How the services of the core API work together on the state they share: what every operation
  publishes, the steps the routes are made of, and what follows for the whole server.
\<close>

section \<open>What the operations publish\<close>

definition publishes :: "string set \<Rightarrow> event_bus \<Rightarrow> event_bus \<Rightarrow> bool" where
  "publishes types b b' = (\<exists>es. bus_events b' = bus_events b @ es \<and> ev_type ` set es \<subseteq> types)"

named_theorems publishing \<open>which types of events an operation publishes\<close>

lemma publishes_refl [simp]: "publishes T b b"
  by (simp add: publishes_def)

lemma publishes_publish: "publishes T b b' \<Longrightarrow> ev_type e \<in> T \<Longrightarrow> publishes T b (publish e b')"
  unfolding publishes_def by (elim exE, rule_tac x = "es @ [e]" in exI) auto

lemma publishes_one [simp]: "ev_type e \<in> T \<Longrightarrow> publishes T b (publish e b)"
  by (simp add: publishes_publish)

lemma publishes_flush [simp]: "publishes T b (flush b') \<longleftrightarrow> publishes T b b'"
  by (simp add: publishes_def flush_def)

lemma publishes_trans: "publishes T b b' \<Longrightarrow> publishes T b' b'' \<Longrightarrow> publishes T b b''"
  unfolding publishes_def by (elim exE, rule_tac x = "es @ esa" in exI) auto

lemma publishes_mono: "publishes T b b' \<Longrightarrow> T \<subseteq> U \<Longrightarrow> publishes U b b'"
  unfolding publishes_def by blast

lemma register_publishes [publishing]:
  "publishes {''identity.user_registered.v1''} (is_eventBus c) (is_eventBus (snd (register u n1 n2 inp c)))"
  by (simp add: register_def Let_def user_registered_def split: option.split)

lemma issueSession_publishes:
  "publishes {''identity.session_issued.v1''} (auth_service.au_eventBus c)
     (auth_service.au_eventBus (snd (issueSession L d user r f c)))"
  by (simp add: issueSession_def Let_def)

lemma login_publishes [publishing]:
  "publishes {''identity.session_issued.v1''} (auth_service.au_eventBus c)
     (auth_service.au_eventBus (snd (login L f d inp c)))"
  using issueSession_publishes by (simp add: login_def Let_def split: option.split prod.split) (metis snd_conv)

lemma refresh_publishes [publishing]:
  "publishes {''identity.session_issued.v1''} (auth_service.au_eventBus c)
     (auth_service.au_eventBus (snd (refresh L t d tok c)))"
proof -
  have "publishes {''identity.session_issued.v1''} (auth_service.au_eventBus c)
      (auth_service.au_eventBus (snd (issueSession L d user r f (c\<lparr>au_sessionStore := st\<rparr>))))" for user r f st
    using issueSession_publishes [where c = "c\<lparr>au_sessionStore := st\<rparr>"] by simp
  then show ?thesis
    by (simp add: refresh_def Let_def split: option.split prod.split) (metis snd_conv)
qed

lemma policy_publishes [publishing]:
  "publishes {''risk.policy_decision_made.v1''} (rp_eventBus c) (rp_eventBus (snd (evaluate_policy now u inp c)))"
  "publishes {''risk.policy_rule_upserted.v1''} (rp_eventBus c) (rp_eventBus (snd (upsertRule now rule c)))"
  by (simp_all add: evaluate_policy_def upsertRule_def Let_def split: prod.split)

lemma reviews_publish [publishing]:
  "publishes {''risk.manual_review_queued.v1''} (rv_eventBus c) (rv_eventBus (snd (queueReview now u inp c)))"
  "publishes {''risk.manual_review_resolved.v1''} (rv_eventBus c) (rv_eventBus (snd (resolveReview now r c)))"
  by (simp_all add: queueReview_def resolveReview_def resolved_event_def Let_def split: option.split)

lemma audit_publishes [publishing]:
  "publishes {''risk.audit_log_appended.v1''} (audit_service.au_eventBus c)
     (audit_service.au_eventBus (snd (appendEvent h None now u a c)))"
  "publishes {''platform.evidence_generated.v1''} (audit_service.au_eventBus c)
     (audit_service.au_eventBus (snd (generateEvidenceReport h native u w t c)))"
  by (simp_all add: appendEvent_def generateEvidenceReport_def Let_def)

lemma settlement_publishes [publishing]:
  "publishes {''settlement.ledger_entry_posted.v1''} (lg_eventBus l) (lg_eventBus (snd (postJournalEntry now u j l)))"
  "publishes {''payout.batch_generated.v1''} (po_eventBus p) (po_eventBus (snd (runScheduledBatch now u g p)))"
  "publishes {''payout.statement_published.v1''} (ss_eventBus st) (ss_eventBus (snd (publishStatement render now u i st)))"
  "publishes {''settlement.reconciliation_completed.v1''} (re_eventBus r) (re_eventBus (snd (reconcile now u k r)))"
  by (simp_all add: postJournalEntry_def ledger_event_def runScheduledBatch_def payout_event_def publishStatement_def
      statement_event_def reconcile_def reconciliation_event_def Let_def split: option.split prod.split)

lemma generateBatch_publishes [publishing]:
  "publishes {''payout.batch_generated.v1''} (po_eventBus p) (po_eventBus (snd (generateBatch now u g p)))"
  using settlement_publishes(2) by (simp add: generateBatch_def split: prod.split) (metis snd_conv)

lemma runScheduledImport_publishes [publishing]:
  "publishes {''settlement.reconciliation_completed.v1'', ''settlement.reconciliation_import.completed.v1''}
     (re_eventBus (im_reconciliationService c)) (re_eventBus (im_reconciliationService (snd (runScheduledImport n1 u1 n2 u2 i c))))"
proof (cases "import_findByScheduleRun (ii_scheduleId i) (ii_runAt i) (im_repository c)")
  case None
  obtain res rs where rs: "reconcile n1 u1 (ii_reconciliationInput i) (im_reconciliationService c) = (res, rs)" by (metis surj_pair)
  have "publishes {''settlement.reconciliation_completed.v1''} (re_eventBus (im_reconciliationService c)) (re_eventBus rs)"
    using settlement_publishes(4) [of "im_reconciliationService c" n1 u1 "ii_reconciliationInput i"] rs by simp
  with None rs show ?thesis
    by (auto simp: runScheduledImport_def Let_def import_event_def intro!: publishes_publish elim!: publishes_mono)
qed (simp add: runScheduledImport_def)

lemma notifications_publish [publishing]:
  "publishes {''notification.template_resolved.v1''} b (snd (resolveTemplate now r b))"
  "publishes {''notification.retry_scheduled.v1'', ''notification.delivery_failed.v1''} (ns_eventBus n) (ns_eventBus (snd (handleFailure now u f n)))"
  "publishes {''notification.delivery_recorded.v1''} (rs_eventBus q) (rs_eventBus (snd (recordReceipt now u k q)))"
  by (simp_all add: resolveTemplate_def template_event_def handleFailure_def retry_event_def dead_letter_event_def recordReceipt_def
      receipt_event_def Let_def split: option.split lookup.split)

lemma trace_publishes [publishing]:
  "publishes {''platform.trace_emitted.v1''} (ob_eventBus c) (ob_eventBus (snd (finishTrace t m x status md c)))"
  by (simp add: finishTrace_def trace_event_def Let_def)

lemma slo_publishes [publishing]:
  "publishes {''platform.slo_breach_detected.v1'', ''platform.latency_budget_breached.v1''} b
     (snd (slo_evaluate n1 n2 n3 logs b))"
proof -
  have noted: "publishes T b (snd x) \<Longrightarrow> ev_type e \<in> T \<Longrightarrow> publishes T b (snd (note_breach c v e x))" for T c v e x
    by (cases x) (auto simp: note_breach_def publishes_publish)
  show ?thesis
    unfolding slo_evaluate_def slo_breaches_def Let_def case_prod_beta snd_conv
    by (intro noted) (simp_all add: breach_event_def)
qed

lemma orders_publish [publishing]:
  "publishes {''order.created.v1''} (os_eventBus c) (os_eventBus (snd (createOrder now u ci c)))"
  "publishes {''order.confirmed.v1''} (os_eventBus c) (os_eventBus (snd (merchantAcceptOrder now i c)))"
  "publishes {''order.cancelled.v1''} (os_eventBus c) (os_eventBus (snd (handleMerchantDecisionTimeout now i c)))"
  "publishes {''dispatch.assignment.requested.v1''} (os_eventBus c) (os_eventBus (snd (requestDispatch now i c)))"
  "publishes {''dispatch.assignment.completed.v1''} (os_eventBus c) (os_eventBus (snd (assignCourier now i k c)))"
  "publishes {''order.picked_up.v1''} (os_eventBus c) (os_eventBus (snd (markPickedUp now i k c)))"
  "publishes {''order.delivered.v1''} (os_eventBus c) (os_eventBus (snd (markDelivered now i k c)))"
  "publishes {''order.cancel_requested.v1'', ''order.cancelled.v1''} (os_eventBus c) (os_eventBus (snd (requestCancellation now i rc c)))"
  by (simp_all add: createOrder_def merchantAcceptOrder_def handleMerchantDecisionTimeout_def requestDispatch_def
      assignCourier_def markPickedUp_def markDelivered_def requestCancellation_def publishEvent_def store_order_def
      courier_event_def cancel_event_def Let_def publishes_publish split: option.split)

lemma payments_publish [publishing]:
  "publishes {''payment.authorized.v1'', ''payment.audit_recorded.v1''} (py_eventBus c)
     (py_eventBus (snd (authorizePayment psp u a ai c)))"
  "publishes {''payment.captured.v1'', ''payment.audit_recorded.v1''} (py_eventBus c)
     (py_eventBus (snd (capturePayment now a ci c)))"
  "publishes {''payment.cash_expected.v1'', ''payment.audit_recorded.v1''} (py_eventBus c)
     (py_eventBus (snd (markCashExpected now u a mi c)))"
  "publishes {''payment.cash_collected.v1'', ''payment.cash_mismatch_detected.v1'', ''payment.audit_recorded.v1''} (py_eventBus c)
     (py_eventBus (snd (confirmCashCollection now a a' cc c)))"
  "publishes {''payment.audit_recorded.v1''} (py_eventBus c) (py_eventBus (snd (requestRefund now u a ri c)))"
  "publishes {''refund.completed.v1'', ''payment.audit_recorded.v1''} (py_eventBus c) (py_eventBus (snd (approveRefund now a ari c)))"
  by (simp_all add: authorizePayment_def capturePayment_def markCashExpected_def confirmCashCollection_def requestRefund_def
      approveRefund_def payment_publish_def appendAuditRecord_def store_intent_def store_refund_def remember_capture_def
      audit_event_def Let_def publishes_publish split: option.split)

lemma publishes_fold:
  assumes "\<And>x z. publishes T (bus z) (bus (f x z))"
  shows "publishes T (bus z) (bus (fold f xs z))"
  by (induction xs arbitrary: z) (auto intro: publishes_trans assms)

lemma support_publishes [publishing]:
  "publishes {} (sv_eventBus c) (sv_eventBus (snd (createTicket now u ct c)))"
  "publishes {''support.ticket_escalated.v1''} (sv_eventBus c) (sv_eventBus (snd (evaluateEscalations h uid w c)))"
proof -
  show "publishes {} (sv_eventBus c) (sv_eventBus (snd (createTicket now u ct c)))"
    by (simp add: createTicket_def Let_def)
  have "publishes {''support.ticket_escalated.v1''} (sv_eventBus (snd z)) (sv_eventBus (snd (evaluate_ticket h uid t x z)))" for x z t
    by (cases z) (auto simp: evaluate_ticket_def escalation_event_def Let_def)
  then have "publishes {''support.ticket_escalated.v1''} (sv_eventBus c) (sv_eventBus (snd (fold (evaluate_ticket h uid t) xs ([], c))))" for t xs
    using publishes_fold [where bus = "\<lambda>z. sv_eventBus (snd z)" and f = "evaluate_ticket h uid t" and z = "([], c)"] by simp
  then show "publishes {''support.ticket_escalated.v1''} (sv_eventBus c) (sv_eventBus (snd (evaluateEscalations h uid w c)))"
    by (simp add: evaluateEscalations_def Let_def case_prod_beta split: option.split)
qed

lemma fanout_publishes [publishing]:
  "publishes {''notification.template_resolved.v1'', ''notification.queued.v1''} (nf_eventBus c)
     (nf_eventBus (snd (fanout native now clock uid inp c)))"
proof -
  let ?T = "{''notification.template_resolved.v1'', ''notification.queued.v1''}"
  have template: "publishes ?T (nf_eventBus c) (nf_eventBus (snd (fanout_template now inp c)))"
    by (auto simp: fanout_template_def template_event_def resolveTemplate_def Let_def split: option.split prod.split lookup.split)
  have "publishes ?T (nf_eventBus (snd z)) (nf_eventBus (snd (fanout_channel native clock uid inp k ch z)))" for ch z k
    by (cases z) (auto simp: fanout_channel_def queued_event_def Let_def)
  note each = this
  obtain r c1 where r: "fanout_template now inp c = (r, c1)" by (cases "fanout_template now inp c")
  have "publishes ?T (nf_eventBus c1) (nf_eventBus (snd (fold (fanout_channel native clock uid inp k) xs ([], c1))))" for k xs
    using publishes_fold [where bus = "\<lambda>z. nf_eventBus (snd z)" and f = "fanout_channel native clock uid inp k" and z = "([], c1)"] each by simp
  with template r show ?thesis
    by (auto simp: fanout_def case_prod_beta intro: publishes_trans split: sum.split lookup.split)
qed


lemma dispatch_publishes [publishing]:
  "publishes {''dispatch.assignment.completed.v1''} (os_eventBus (dp_orders c)) (os_eventBus (dp_orders (snd (acceptRoute n1 n2 i k c))))"
  "publishes {''order.picked_up.v1''} (os_eventBus (dp_orders c)) (os_eventBus (dp_orders (snd (pickupRoute n1 n2 i k c))))"
  "publishes {''order.delivered.v1''} (os_eventBus (dp_orders c)) (os_eventBus (dp_orders (snd (dropoffRoute n1 n2 i k c))))"
  "publishes {''dispatch.assignment.requested.v1'', ''dispatch.assignment.completed.v1''} (os_eventBus (dp_orders c))
     (os_eventBus (dp_orders (snd (requestDispatchRoute n1 n2 i inp client c))))"
proof -
  have route: "publishes T (os_eventBus (dp_orders c)) (os_eventBus (dp_orders (snd (job_route jc oc c))))"
    if "\<And>j. publishes T (os_eventBus (dp_orders c)) (os_eventBus (snd (oc j (dp_orders c))))" for T jc oc
  proof -
    obtain r1 c1 where 1: "jc (os_orders (dp_orders c)) (dp_jobs c) = (r1, c1)" by fastforce
    show ?thesis
    proof (cases r1)
      case (Inr job)
      obtain r2 c2 where "oc (cj_orderId job) (dp_orders c) = (r2, c2)" by fastforce
      with 1 Inr that [of "cj_orderId job"] show ?thesis by (cases r2) (simp_all add: job_route_def)
    qed (use 1 in \<open>simp add: job_route_def\<close>)
  qed
  show "publishes {''dispatch.assignment.completed.v1''} (os_eventBus (dp_orders c)) (os_eventBus (dp_orders (snd (acceptRoute n1 n2 i k c))))"
    "publishes {''order.picked_up.v1''} (os_eventBus (dp_orders c)) (os_eventBus (dp_orders (snd (pickupRoute n1 n2 i k c))))"
    "publishes {''order.delivered.v1''} (os_eventBus (dp_orders c)) (os_eventBus (dp_orders (snd (dropoffRoute n1 n2 i k c))))"
    unfolding acceptRoute_def pickupRoute_def dropoffRoute_def by (rule route, rule publishing)+
  let ?T = "{''dispatch.assignment.requested.v1'', ''dispatch.assignment.completed.v1''}"
  have a: "publishes ?T (os_eventBus (dp_orders c)) (os_eventBus (snd (requestDispatch n1 i (dp_orders c))))"
    by (rule publishes_mono [OF orders_publish(4)]) simp
  have b: "publishes ?T (os_eventBus (snd (requestDispatch n1 i (dp_orders c))))
      (os_eventBus (snd (assignCourier n2 i k (snd (requestDispatch n1 i (dp_orders c))))))" for k
    by (rule publishes_mono [OF orders_publish(5)]) simp
  obtain r1 c1 where 1: "requestDispatch n1 i (dp_orders c) = (r1, c1)" by fastforce
  have k: "assignCourier n2 i k c1 = (r, c2) \<Longrightarrow> publishes ?T (os_eventBus (dp_orders c)) (os_eventBus c2)" for k r c2
    using publishes_trans [OF a b [of k]] 1 by simp
  from a 1 show "publishes ?T (os_eventBus (dp_orders c))
      (os_eventBus (dp_orders (snd (requestDispatchRoute n1 n2 i inp client c))))"
    by (auto simp: requestDispatchRoute_def Let_def k split: sum.split option.split bool.split prod.split)
qed

text \<open>An intervention calls at most one dependency, and announces itself at most once afterwards.\<close>

lemma intervention_steps:
  obtains d e where "ev_type e = ''support.intervention_executed.v1''"
    and "snd (core_intervention n1 u a n2 inp c) = d \<or> snd (core_intervention n1 u a n2 inp c) = core_publish e d"
    and "d = c \<or> d = snd (core_requestCancellation n1 (xi_orderId inp) (xi_reasonCode inp) c) \<or>
      (\<exists>ri. d = snd (core_requestRefund n1 u a ri c))"
proof -
  have e: "ev_type (intervention_event n2 inp st) = ''support.intervention_executed.v1''" for st
    by (simp add: intervention_event_def)
  obtain r c' where run: "core_intervention n1 u a n2 inp c = (r, c')" by fastforce
  then show thesis
  proof (cases rule: core_intervention_cases)
    case failed
    with run show thesis by (intro that [OF e, of c']) (simp_all, metis snd_conv)
  next
    case queued
    with run show thesis by (intro that [OF e, of c]) auto
  next
    case (cancelled x st c1)
    with run show thesis by (intro that [OF e, of c1]) auto
  next
    case (refunded x st c1)
    with run show thesis by (intro that [OF e [of INTERVENTION_COMPLETED], of c1]) (simp_all, metis snd_conv)
  qed
qed

lemma core_frames:
  "snd (core_requestCancellation n i r c) = \<lparr>cs_orders = os, cs_payments = (cs_payments c)\<lparr>py_orders := os_orders os, py_eventBus := os_eventBus os\<rparr>\<rparr>"
  if "os = snd (requestCancellation n i \<lparr>rci_actor = BySupportAgent, rci_reasonCode = r\<rparr> (cs_orders c))"
  using that by (simp add: core_requestCancellation_def on_orders_def case_prod_beta)

lemma core_refund_frames:
  "snd (core_requestRefund n u a ri c) = \<lparr>cs_orders = (cs_orders c)\<lparr>os_eventBus := py_eventBus py\<rparr>, cs_payments = py\<rparr>"
  if "py = snd (requestRefund n u a ri (cs_payments c))"
  using that by (simp add: core_requestRefund_def on_payments_def case_prod_beta)

lemma core_publish_frames:
  "core_publish e c = \<lparr>cs_orders = (cs_orders c)\<lparr>os_eventBus := publish e (py_eventBus (cs_payments c))\<rparr>,
     cs_payments = payment_publish e (cs_payments c)\<rparr>"
  by (simp add: core_publish_def on_payments_def payment_publish_def)

lemma intervention_publishes [publishing]:
  assumes "os_eventBus (cs_orders c) = py_eventBus (cs_payments c)"
  shows "publishes {''order.cancel_requested.v1'', ''order.cancelled.v1'', ''payment.audit_recorded.v1'', ''support.intervention_executed.v1''}
     (py_eventBus (cs_payments c)) (py_eventBus (cs_payments (snd (core_intervention n1 u a n2 inp c))))"
    (is "publishes ?T _ _")
proof -
  obtain d e where e: "ev_type e = ''support.intervention_executed.v1''"
    and c: "snd (core_intervention n1 u a n2 inp c) = d \<or> snd (core_intervention n1 u a n2 inp c) = core_publish e d"
    and d: "d = c \<or> d = snd (core_requestCancellation n1 (xi_orderId inp) (xi_reasonCode inp) c) \<or>
      (\<exists>ri. d = snd (core_requestRefund n1 u a ri c))"
    by (rule intervention_steps)
  have "publishes ?T (py_eventBus (cs_payments c)) (py_eventBus (cs_payments d))"
    using d
  proof (elim disjE exE)
    assume "d = snd (core_requestCancellation n1 (xi_orderId inp) (xi_reasonCode inp) c)"
    then show ?thesis
      using publishes_mono [OF orders_publish(8), of ?T] by (simp add: core_frames assms [symmetric])
  next
    fix ri assume "d = snd (core_requestRefund n1 u a ri c)"
    then show ?thesis
      using publishes_mono [OF payments_publish(5), of ?T] by (simp add: core_refund_frames)
  qed simp
  with c e show ?thesis
    by (auto simp: core_publish_frames payment_publish_def intro!: publishes_publish)
qed

section \<open>The steps of the routes\<close>

text \<open>
  The state transitions of the server: each route that changes something makes one call of one
  service. The identifiers and dates come from the draws of the request.
\<close>

definition act :: "'c port \<Rightarrow> ('c \<Rightarrow> 'a \<times> 'c) \<Rightarrow> server \<Rightarrow> server" where
  "act p op s = pt_put p (snd (op (pt_get p s))) s"

inductive route_step :: "environment \<Rightarrow> draws \<Rightarrow> route \<Rightarrow> server \<Rightarrow> server \<Rightarrow> bool" for E d where
  slo: "route_step E d (Platform Slo_route) s
    (act bus_port (slo_evaluate (dw_now d 0) (dw_now d 1) (dw_now d 2) logs) s)"
| break_glass: "route_step E d (Platform Break_glass_route) s
    (act audit_port (appendEvent (cf_sha256 E) None (dw_now d 0) (dw_uuid d 0) input) s)"
| register: "route_step E d (Identity Register_route) s
    (act identity_port (register (dw_uuid d 0) (dw_now d 0) (dw_now d 1) input) s)"
| login: "r \<in> {Login_route, Mfa_route} \<Longrightarrow> route_step E d (Identity r) s
    (act (auth_port (cf_jwtSecret E)) (login (cf_jwt E) (dw_uuid d 0) (session_draw_of d 0) credentials) s)"
| refresh: "route_step E d (Identity Refresh_route) s
    (act (auth_port (cf_jwtSecret E)) (refresh (cf_jwt E) (dw_ms d 0) (session_draw_of d 1) token) s)"
| create_menu: "route_step E d (Catalog Create_menu_route) s
    (act menu_port (createMenu (dw_uuid d 0) (dw_now d 0) (dw_now d 1) input) s)"
| update_menu: "route_step E d (Catalog (Update_menu_route i)) s
    (act menu_port (updateMenu (dw_now d 0) (dw_now d 1) menuId input) s)"
| store_status: "route_step E d (Catalog (Store_status_route i)) s (act status_port (setStatus (dw_now d 0) storeId input) s)"
| set_availability: "route_step E d (Catalog (Set_availability_route i)) s
    (act item_port (setAvailability (dw_now d 0) itemId input) s)"
| upsert_zone: "route_step E d (Ordering Upsert_zone_route) s (act zone_port (upsertZone (dw_now d 0) input) s)"
| quote: "route_step E d (Ordering Quote_route) s
    (act quote_port (generateQuote (cf_quoteHash E) (dw_uuid d 0) (dw_now d 0) basketId promoCode (ap_baskets s)) s)"
| checkout: "route_step E d (Ordering Checkout_route) s
    (act checkout_port (createCheckout (cf_host E) (dw_ms d 0) (dw_uuid d 0) input (ap_quotes s)) s)"
| create_basket: "route_step E d (Ordering Create_basket_route) s
    (act basket_port (createBasket (dw_now d 0) (dw_uuid d 0) input) s)"
| update_basket: "route_step E d (Ordering (Update_basket_route i)) s
    (act basket_port (updateBasket (\<lambda>n. dw_now d (n + 1)) (dw_now d 0) basketId items (ap_items s)) s)"
| create_order: "route_step E d (Orders Create_order_route) s (act order_port (createOrder (dw_now d 0) (dw_uuid d 0) input) s)"
| cancel: "route_step E d (Orders (Cancel_order_route i)) s
    (act order_port (requestCancellation (dw_now d 0) orderId \<lparr>rci_actor = ByConsumer, rci_reasonCode = reasonCode\<rparr>) s)"
| accept: "route_step E d (Orders (Accept_order_route i)) s (act order_port (merchantAcceptOrder (dw_now d 0) orderId) s)"
| reject: "route_step E d (Orders (Reject_order_route i)) s
    (act order_port (requestCancellation (dw_now d 0) orderId \<lparr>rci_actor = ByMerchantOperator, rci_reasonCode = reasonCode\<rparr>) s)"
| order_timeout: "route_step E d (Orders (Order_timeout_route i)) s
    (act order_port (handleMerchantDecisionTimeout (dw_now d 0) orderId) s)"
| request_dispatch: "route_step E d (Orders (Request_dispatch_route i)) s
    (act dispatch_port (requestDispatchRoute (dw_now d 0) (dw_now d 1) orderId (map_option assignment_for input) (cf_dispatch E)) s)"
| rebuild: "route_step E d (Orders Rebuild_timeline_route) s (act timeline_port (rebuildFromEventLog (ap_bus s)) s)"
| available_jobs: "route_step E d (route.Courier Available_jobs_route) s (act job_port (listAvailableJobs (ap_orders s)) s)"
| list_jobs: "route_step E d (route.Courier List_jobs_route) s (act job_port (listJobs courierId status (ap_orders s)) s)"
| get_job: "route_step E d (route.Courier (Get_job_route i)) s (act job_port (getJob jobId (ap_orders s)) s)"
| telemetry: "route_step E d (route.Courier Telemetry_route) s (act telemetry_port (ingest input) s)"
| accept_job: "route_step E d (route.Courier (Accept_job_route i)) s
    (act dispatch_port (acceptRoute (dw_now d 0) (dw_now d 1) jobId courierId
       :: dispatch_state \<Rightarrow> (dispatch_state, string route_error, courierJob) outcome) s)"
| pickup_job: "route_step E d (route.Courier (Pickup_job_route i)) s
    (act dispatch_port (pickupRoute (dw_now d 0) (dw_now d 1) jobId courierId
       :: dispatch_state \<Rightarrow> (dispatch_state, string route_error, courierJob) outcome) s)"
| dropoff_job: "route_step E d (route.Courier (Dropoff_job_route i)) s
    (act dispatch_port (dropoffRoute (dw_now d 0) (dw_now d 1) jobId courierId
       :: dispatch_state \<Rightarrow> (dispatch_state, string route_error, courierJob) outcome) s)"
| authorize: "route_step E d (Payments Authorize_route) s
    (act payment_port (authorizePayment (in_memory_psp (dw_uuid d 0) (dw_now d 0)) (dw_uuid d 1) (dw_uuid d 2) input) s)"
| capture: "route_step E d (Payments Capture_route) s (act payment_port (capturePayment (dw_now d 0) (dw_uuid d 0) input) s)"
| cash_expected: "route_step E d (Payments Cash_expected_route) s
    (act payment_port (markCashExpected (dw_now d 0) (dw_uuid d 0) (dw_uuid d 1) input) s)"
| cash_collection: "route_step E d (Payments (Cash_collection_route i)) s
    (act payment_port (confirmCashCollection (dw_now d 0) (dw_uuid d 0) (dw_uuid d 1) input) s)"
| request_refund: "route_step E d (Payments Request_refund_route) s
    (act payment_port (requestRefund (dw_now d 0) (dw_uuid d 0) (dw_uuid d 1) input) s)"
| approve_refund: "route_step E d (Payments (Approve_refund_route i)) s
    (act payment_port (approveRefund (dw_now d 0) (dw_uuid d 0) input) s)"
| create_ticket: "route_step E d (Support Create_ticket_route) s (act support_port (createTicket (dw_now d 0) (dw_uuid d 0) input) s)"
| intervention: "route_step E d (Support Intervention_route) s
    (act core_port (core_intervention (dw_now d 0) (dw_uuid d 0) (dw_uuid d 1) (dw_now d 1) input) s)"
| sla: "route_step E d (Support Sla_route) s
    (act support_port (evaluateEscalations (cf_host E) (dw_escalationId d) time) s)"
| evaluate_rule: "route_step E d (Risk Evaluate_policy_route) s
    (act policy_port (evaluate_policy (dw_now d 0) (dw_uuid d 0) input) s)"
| upsert_rule: "route_step E d (Risk (Upsert_rule_route i)) s (act policy_port (upsertRule (dw_now d 0) rule) s)"
| queue_review: "route_step E d (Risk Queue_review_route) s (act review_port (queueReview (dw_now d 0) (dw_uuid d 0) input) s)"
| resolve_review: "route_step E d (Risk (Resolve_review_route i)) s (act review_port (resolveReview (dw_now d 0) input) s)"
| append_audit: "route_step E d (Risk Append_audit_route) s
    (act audit_port (appendEvent (cf_sha256 E) None (dw_now d 0) (dw_uuid d 0) input) s)"
| evidence: "route_step E d (Risk Evidence_route) s
    (act audit_port (generateEvidenceReport (cf_sha256 E) (cf_native E) (dw_uuid d 0) generatedBy generatedAt) s)"
| post_journal: "route_step E d (Settlement Post_journal_route) s
    (act ledger_port (postJournalEntry (dw_now d 0) (dw_uuid d 0) input) s)"
| reconcile_run: "r \<in> {Reconcile_route, Ingest_route} \<Longrightarrow> route_step E d (Settlement r) s
    (act reconciliation_port (reconcile (dw_now d 0) (dw_uuid d 0) input) s)"
| import_run: "route_step E d (Settlement (Import_run_route i)) s
    (act import_port (runScheduledImport (dw_now d 0) (dw_uuid d 0) (dw_now d 1) (dw_uuid d 1) input) s)"
| generate_payout: "route_step E d (Settlement Generate_payout_route) s
    (act payout_port (generateBatch (dw_now d 0) (dw_uuid d 0) input) s)"
| payout_run: "route_step E d (Settlement (Payout_run_route i)) s
    (act payout_port (runScheduledBatch (dw_now d 0) (dw_uuid d 0) input) s)"
| publish_statement: "route_step E d (Settlement Publish_statement_route) s
    (act statement_port (publishStatement (\<lambda>_ i. Some (default_renderer i)) (dw_now d 0) (dw_uuid d 0) input) s)"
| fanout: "route_step E d (Notifications Fanout_route) s
    (act fanout_port (fanout (cf_native E) (dw_now d 0) (dw_channelNow d) (dw_channelId d) input) s)"
| resolve_template: "route_step E d (Notifications Resolve_template_route) s
    (act bus_port (resolveTemplate (dw_now d 0) input) s)"
| retry: "route_step E d (Notifications Retry_route) s (act retry_port (handleFailure (dw_now d 0) (dw_uuid d 0) input) s)"
| receipt: "route_step E d (Notifications Record_receipt_route) s
    (act receipt_port (recordReceipt (dw_now d 0) (dw_uuid d 0) input) s)"

text \<open>A handler leaves the state as it was or makes one step.\<close>

definition changes_at :: "(server \<Rightarrow> server \<Rightarrow> bool) \<Rightarrow> handler \<Rightarrow> server \<Rightarrow> bool" where
  "changes_at R h s = (snd (h s) = s \<or> R s (snd (h s)))"

definition silent :: "handler \<Rightarrow> bool" where
  "silent h = (\<forall>s. snd (h s) = s)"

named_theorems changing \<open>rules for what a handler changes\<close>

lemma silent_reply [changing]: "silent (reply n b)"
  by (simp add: silent_def reply_def)

lemma silent_job_reply [changing]: "silent (job_reply j)"
  unfolding job_reply_def by (rule silent_reply)

lemma silent_pair [changing]: "(\<And>a b. silent (f a b)) \<Longrightarrow> silent (case p of (a, b) \<Rightarrow> f a b)"
  by (cases p) simp

lemma changes_silent: "silent h \<Longrightarrow> changes_at R h s"
  by (simp add: changes_at_def silent_def)

lemma changes_reply [changing]: "changes_at R (reply n b) s"
  by (rule changes_silent) (rule silent_reply)

lemma changes_throw [changing]: "changes_at R (throw f) s"
  by (simp add: changes_at_def throw_def)

lemma changes_valid [changing]: "(\<And>x. changes_at R (k x) s) \<Longrightarrow> changes_at R (valid r k) s"
  by (cases r) (simp_all add: valid_def changes_throw)

lemma changes_parsed [changing]: "(\<And>x. changes_at R (k x) s) \<Longrightarrow> changes_at R (parsed E q k) s"
  unfolding parsed_def by (rule changes_valid)

lemma changes_body [changing]: "(\<And>x. changes_at R (k x) s) \<Longrightarrow> changes_at R (with_body E q v k) s"
  unfolding with_body_def by (intro changing)

lemma changes_segment [changing]: "(\<And>i. changes_at R (k i) s) \<Longrightarrow> changes_at R (with_segment raw k) s"
  by (cases "decodeURIComponent raw") (simp_all add: with_segment_def changes_throw)

lemma changes_query [changing]: "(\<And>x. changes_at R (k x) s) \<Longrightarrow> changes_at R (required_query q n m k) s"
  by (simp add: required_query_def changes_throw split: option.split)

lemma changes_inspect [changing]: "changes_at R (k (f s)) s \<Longrightarrow> changes_at R (inspect f k) s"
  by (simp add: changes_at_def inspect_def)

lemma changes_demand [changing]: "(\<And>x. changes_at R (k x) s) \<Longrightarrow> changes_at R (demand f err k) s"
  by (cases "f s") (simp_all add: changes_at_def demand_def throw_def)

lemma changes_pair [changing]: "(\<And>a b. changes_at R (f a b) s) \<Longrightarrow> changes_at R (case p of (a, b) \<Rightarrow> f a b) s"
  by (cases p) simp

lemma changes_call [changing]:
  assumes "R s (act p op s)" "\<And>x. silent (k x)"
  shows "changes_at R (call p err op k) s"
proof (cases "op (pt_get p s)")
  case (Pair r c)
  with assms show ?thesis
    by (cases r) (simp_all add: changes_at_def call_def throw_def act_def silent_def)
qed

lemma changes_perform [changing]:
  assumes "R s (act p op s)" "\<And>x. silent (k x)"
  shows "changes_at R (perform p op k) s"
  using assms by (cases "op (pt_get p s)") (simp add: changes_at_def perform_def act_def silent_def)

lemma changes_guard [changing]:
  "(\<And>c. changes_at R (k c) s) \<Longrightarrow> changes_at R (admin_guard E d q p k) s"
  unfolding admin_guard_def
  by (intro changing) (auto simp: permission_denied_def intro: changing split: option.split)

lemmas route_defs =
  logs_route_def slo_route_def health_route_def admin_health_route_def break_glass_route_def
  register_route_def login_route_def refresh_route_def mfa_route_def
  list_stores_route_def store_menu_route_def create_menu_route_def update_menu_route_def menu_versions_route_def
  get_menu_route_def store_status_route_def prep_time_route_def set_availability_route_def
  get_availability_route_def
  upsert_zone_route_def validate_zone_route_def quote_route_def promotion_route_def checkout_route_def create_basket_route_def
  update_basket_route_def get_basket_route_def
  create_order_route_def consumer_orders_route_def get_order_route_def order_timeline_route_def cancel_order_route_def
  accept_order_route_def reject_order_route_def merchant_orders_route_def order_timeout_route_def request_dispatch_route_def
  rebuild_timeline_route_def
  available_jobs_route_def list_jobs_route_def get_job_route_def telemetry_route_def accept_job_route_def pickup_job_route_def
  dropoff_job_route_def
  authorize_route_def capture_route_def cash_expected_route_def cash_collection_route_def request_refund_route_def
  approve_refund_route_def payment_audit_route_def
  create_ticket_route_def ticket_timeline_route_def intervention_route_def sla_route_def
  evaluate_policy_route_def list_rules_route_def upsert_rule_route_def queue_review_route_def resolve_review_route_def
  append_audit_route_def list_audit_route_def evidence_route_def
  post_journal_route_def reconcile_route_def ingest_route_def import_run_route_def reconciliation_results_route_def
  generate_payout_route_def payout_run_route_def publish_statement_route_def merchant_payouts_route_def
  courier_payouts_route_def
  fanout_route_def resolve_template_route_def retry_route_def record_receipt_route_def list_receipts_route_def

lemma changes_orderability [changing]: "changes_at R (orderability_route E d q raw) s"
  unfolding orderability_route_def by (intro changing) (auto intro: changing split: option.split)


lemma platform_changes: "changes_at (route_step E d (Platform r)) (handle_platform E d q r) s"
  by (cases r) (simp_all only: handle_platform.simps route_defs, (intro changing route_step.intros; simp)+)

lemma changes_login: "r \<in> {Login_route, Mfa_route} \<Longrightarrow> changes_at (route_step E d (Identity r)) (login_call E d i) s"
  unfolding login_call_def by (intro changing route_step.intros)

lemma identity_changes: "changes_at (route_step E d (Identity r)) (handle_identity E d q r) s"
  by (cases r) (auto simp: register_route_def login_route_def refresh_route_def mfa_route_def
      intro!: changing changes_login route_step.intros simp del: One_nat_def)

lemma catalog_changes: "changes_at (route_step E d (Catalog r)) (handle_catalog E d q r) s"
  by (cases r) (simp_all only: handle_catalog.simps route_defs, (intro changing route_step.intros; simp)+)

lemma ordering_changes: "changes_at (route_step E d (Ordering r)) (handle_ordering E d q r) s"
  by (cases r) (simp_all only: handle_ordering.simps route_defs, (intro changing route_step.intros; simp)+)

lemma orders_changes: "changes_at (route_step E d (Orders r)) (handle_orders E d q r) s"
  by (cases r) (simp_all only: handle_orders.simps route_defs, (intro changing route_step.intros; simp)+)

lemma courier_changes: "changes_at (route_step E d (route.Courier r)) (handle_courier E d q r) s"
  by (cases r) (simp_all only: handle_courier.simps route_defs, (intro changing route_step.intros; simp)+)

lemma payments_changes: "changes_at (route_step E d (Payments r)) (handle_payments E d q r) s"
  by (cases r) (simp_all only: handle_payments.simps route_defs, (intro changing route_step.intros; simp)+)

lemma support_changes: "changes_at (route_step E d (Support r)) (handle_support E d q r) s"
  by (cases r) (simp_all only: handle_support.simps route_defs, (intro changing route_step.intros; simp)+)

lemma risk_changes: "changes_at (route_step E d (Risk r)) (handle_risk E d q r) s"
  by (cases r) (simp_all only: handle_risk.simps route_defs, (intro changing route_step.intros; simp)+)

lemma settlement_changes: "changes_at (route_step E d (Settlement r)) (handle_settlement E d q r) s"
  by (cases r) (simp_all only: handle_settlement.simps route_defs, (intro changing route_step.intros; simp)+)

lemma notifications_changes: "changes_at (route_step E d (Notifications r)) (handle_notifications E d q r) s"
  by (cases r) (simp_all only: handle_notifications.simps route_defs, (intro changing route_step.intros; simp)+)

lemma handle_changes: "changes_at (route_step E d r) (handle E d q r) s"
  by (cases r) (simp_all add: platform_changes identity_changes catalog_changes ordering_changes orders_changes courier_changes payments_changes support_changes risk_changes settlement_changes notifications_changes)

section \<open>The events of a route\<close>

definition order_route_events :: "order_route \<Rightarrow> string set" where
  "order_route_events r = (case r of
     Create_order_route \<Rightarrow> {''order.created.v1''}
   | Cancel_order_route _ \<Rightarrow> {''order.cancel_requested.v1'', ''order.cancelled.v1''}
   | Accept_order_route _ \<Rightarrow> {''order.confirmed.v1''}
   | Reject_order_route _ \<Rightarrow> {''order.cancel_requested.v1'', ''order.cancelled.v1''}
   | Order_timeout_route _ \<Rightarrow> {''order.cancelled.v1''}
   | Request_dispatch_route _ \<Rightarrow> {''dispatch.assignment.requested.v1'', ''dispatch.assignment.completed.v1''}
   | _ \<Rightarrow> {})"

definition courier_route_events :: "courier_route \<Rightarrow> string set" where
  "courier_route_events r = (case r of
     Accept_job_route _ \<Rightarrow> {''dispatch.assignment.completed.v1''}
   | Pickup_job_route _ \<Rightarrow> {''order.picked_up.v1''}
   | Dropoff_job_route _ \<Rightarrow> {''order.delivered.v1''}
   | _ \<Rightarrow> {})"

definition payment_route_events :: "payment_route \<Rightarrow> string set" where
  "payment_route_events r = (case r of
     Authorize_route \<Rightarrow> {''payment.authorized.v1'', ''payment.audit_recorded.v1''}
   | Capture_route \<Rightarrow> {''payment.captured.v1'', ''payment.audit_recorded.v1''}
   | Cash_expected_route \<Rightarrow> {''payment.cash_expected.v1'', ''payment.audit_recorded.v1''}
   | Cash_collection_route _ \<Rightarrow> {''payment.cash_collected.v1'', ''payment.cash_mismatch_detected.v1'', ''payment.audit_recorded.v1''}
   | Request_refund_route \<Rightarrow> {''payment.audit_recorded.v1''}
   | Approve_refund_route _ \<Rightarrow> {''refund.completed.v1'', ''payment.audit_recorded.v1''}
   | _ \<Rightarrow> {})"

definition support_route_events :: "support_route \<Rightarrow> string set" where
  "support_route_events r = (case r of
     Intervention_route \<Rightarrow> {''order.cancel_requested.v1'', ''order.cancelled.v1'', ''payment.audit_recorded.v1'',
       ''support.intervention_executed.v1''}
   | Sla_route \<Rightarrow> {''support.ticket_escalated.v1''}
   | _ \<Rightarrow> {})"

definition risk_route_events :: "risk_route \<Rightarrow> string set" where
  "risk_route_events r = (case r of
     Evaluate_policy_route \<Rightarrow> {''risk.policy_decision_made.v1''}
   | Upsert_rule_route _ \<Rightarrow> {''risk.policy_rule_upserted.v1''}
   | Queue_review_route \<Rightarrow> {''risk.manual_review_queued.v1''}
   | Resolve_review_route _ \<Rightarrow> {''risk.manual_review_resolved.v1''}
   | Append_audit_route \<Rightarrow> {''risk.audit_log_appended.v1''}
   | Evidence_route \<Rightarrow> {''platform.evidence_generated.v1''}
   | _ \<Rightarrow> {})"

definition settlement_route_events :: "settlement_route \<Rightarrow> string set" where
  "settlement_route_events r = (case r of
     Post_journal_route \<Rightarrow> {''settlement.ledger_entry_posted.v1''}
   | Reconcile_route \<Rightarrow> {''settlement.reconciliation_completed.v1''}
   | Ingest_route \<Rightarrow> {''settlement.reconciliation_completed.v1''}
   | Import_run_route _ \<Rightarrow> {''settlement.reconciliation_completed.v1'', ''settlement.reconciliation_import.completed.v1''}
   | Generate_payout_route \<Rightarrow> {''payout.batch_generated.v1''}
   | Payout_run_route _ \<Rightarrow> {''payout.batch_generated.v1''}
   | Publish_statement_route \<Rightarrow> {''payout.statement_published.v1''}
   | _ \<Rightarrow> {})"

definition notification_route_events :: "notification_route \<Rightarrow> string set" where
  "notification_route_events r = (case r of
     Fanout_route \<Rightarrow> {''notification.template_resolved.v1'', ''notification.queued.v1''}
   | Resolve_template_route \<Rightarrow> {''notification.template_resolved.v1''}
   | Retry_route \<Rightarrow> {''notification.retry_scheduled.v1'', ''notification.delivery_failed.v1''}
   | Record_receipt_route \<Rightarrow> {''notification.delivery_recorded.v1''}
   | _ \<Rightarrow> {})"

definition platform_route_events :: "platform_route \<Rightarrow> string set" where
  "platform_route_events r = (case r of
     Slo_route \<Rightarrow> {''platform.slo_breach_detected.v1'', ''platform.latency_budget_breached.v1''}
   | Break_glass_route \<Rightarrow> {''risk.audit_log_appended.v1''}
   | _ \<Rightarrow> {})"

definition identity_route_events :: "identity_route \<Rightarrow> string set" where
  "identity_route_events r = (if r = Register_route then {''identity.user_registered.v1''} else {''identity.session_issued.v1''})"

primrec route_events :: "route \<Rightarrow> string set" where
  "route_events (Platform r) = platform_route_events r"
| "route_events (Identity r) = identity_route_events r"
| "route_events (Catalog r) = {}"
| "route_events (Ordering r) = {}"
| "route_events (Orders r) = order_route_events r"
| "route_events (route.Courier r) = courier_route_events r"
| "route_events (Payments r) = payment_route_events r"
| "route_events (Support r) = support_route_events r"
| "route_events (Risk r) = risk_route_events r"
| "route_events (Settlement r) = settlement_route_events r"
| "route_events (Notifications r) = notification_route_events r"

lemmas route_events_defs = platform_route_events_def identity_route_events_def order_route_events_def courier_route_events_def
  payment_route_events_def support_route_events_def risk_route_events_def settlement_route_events_def
  notification_route_events_def

lemmas port_defs = identity_port_def auth_port_def menu_port_def item_port_def status_port_def basket_port_def zone_port_def
  quote_port_def checkout_port_def order_port_def timeline_port_def job_port_def dispatch_port_def telemetry_port_def
  payment_port_def core_port_def support_port_def policy_port_def review_port_def audit_port_def ledger_port_def
  payout_port_def statement_port_def reconciliation_port_def import_port_def fanout_port_def bus_port_def retry_port_def
  receipt_port_def observability_port_def auth_service.defs audit_service.defs

lemma route_step_logs: "route_step E d r s s' \<Longrightarrow> ap_logs s' = ap_logs s"
  by (induction rule: route_step.induct) (simp_all add: act_def port_defs)

text \<open>The bus a port writes back is the bus of its service.\<close>

lemma port_bus [simp]:
  "ap_bus (pt_put identity_port c1 s) = is_eventBus c1" "is_eventBus (pt_get identity_port s) = ap_bus s"
  "ap_bus (pt_put (auth_port k) c2 s) = auth_service.au_eventBus c2" "auth_service.au_eventBus (pt_get (auth_port k) s) = ap_bus s"
  "ap_bus (pt_put menu_port c3 s) = ap_bus s" "ap_bus (pt_put item_port c4 s) = ap_bus s"
  "ap_bus (pt_put status_port c5 s) = ap_bus s" "ap_bus (pt_put basket_port c6 s) = ap_bus s"
  "ap_bus (pt_put zone_port c7 s) = ap_bus s" "ap_bus (pt_put quote_port c8 s) = ap_bus s"
  "ap_bus (pt_put checkout_port c9 s) = ap_bus s"
  "ap_bus (pt_put order_port c10 s) = os_eventBus c10" "os_eventBus (pt_get order_port s) = ap_bus s"
  "ap_bus (pt_put timeline_port c11 s) = ap_bus s" "ap_bus (pt_put job_port c12 s) = ap_bus s"
  "ap_bus (pt_put dispatch_port c13 s) = os_eventBus (dp_orders c13)" "os_eventBus (dp_orders (pt_get dispatch_port s)) = ap_bus s"
  "ap_bus (pt_put telemetry_port c14 s) = ap_bus s"
  by (simp_all add: port_defs)

lemma port_bus' [simp]:
  "ap_bus (pt_put payment_port c1 s) = py_eventBus c1" "py_eventBus (pt_get payment_port s) = ap_bus s"
  "ap_bus (pt_put core_port c2 s) = py_eventBus (cs_payments c2)" "py_eventBus (cs_payments (pt_get core_port s)) = ap_bus s"
  "os_eventBus (cs_orders (pt_get core_port s)) = ap_bus s"
  "ap_bus (pt_put support_port c3 s) = sv_eventBus c3" "sv_eventBus (pt_get support_port s) = ap_bus s"
  "ap_bus (pt_put policy_port c4 s) = rp_eventBus c4" "rp_eventBus (pt_get policy_port s) = ap_bus s"
  "ap_bus (pt_put review_port c5 s) = rv_eventBus c5" "rv_eventBus (pt_get review_port s) = ap_bus s"
  "ap_bus (pt_put audit_port c6 s) = audit_service.au_eventBus c6" "audit_service.au_eventBus (pt_get audit_port s) = ap_bus s"
  "ap_bus (pt_put ledger_port c7 s) = lg_eventBus c7" "lg_eventBus (pt_get ledger_port s) = ap_bus s"
  "ap_bus (pt_put payout_port c8 s) = po_eventBus c8" "po_eventBus (pt_get payout_port s) = ap_bus s"
  "ap_bus (pt_put statement_port c9 s) = ss_eventBus c9" "ss_eventBus (pt_get statement_port s) = ap_bus s"
  "ap_bus (pt_put reconciliation_port c10 s) = re_eventBus c10" "re_eventBus (pt_get reconciliation_port s) = ap_bus s"
  "ap_bus (pt_put import_port c11 s) = re_eventBus (im_reconciliationService c11)"
  "re_eventBus (im_reconciliationService (pt_get import_port s)) = ap_bus s"
  "ap_bus (pt_put fanout_port c12 s) = nf_eventBus c12" "nf_eventBus (pt_get fanout_port s) = ap_bus s"
  "ap_bus (pt_put bus_port c13 s) = c13" "pt_get bus_port s = ap_bus s"
  "ap_bus (pt_put retry_port c14 s) = ns_eventBus c14" "ns_eventBus (pt_get retry_port s) = ap_bus s"
  "ap_bus (pt_put receipt_port c15 s) = rs_eventBus c15" "rs_eventBus (pt_get receipt_port s) = ap_bus s"
  "ap_bus (pt_put observability_port c16 s) = ob_eventBus c16" "ob_eventBus (pt_get observability_port s) = ap_bus s"
  by (simp_all add: port_defs)

lemma publishes_from: "publishes T b b' \<Longrightarrow> b = b0 \<Longrightarrow> publishes T b0 b'"
  by simp

lemma route_step_publishes: "route_step E d r s s' \<Longrightarrow> publishes (route_events r) (ap_bus s) (ap_bus s')"
proof (induction rule: route_step.induct)
  case (request_dispatch i s orderId input)
  show ?case
    using dispatch_publishes(4) [where c = "pt_get dispatch_port s"] by (simp add: act_def route_events_defs)
next
  case (intervention s input)
  show ?case
    using intervention_publishes [where c = "pt_get core_port s"] by (simp add: act_def route_events_defs)
next
  case (login r s credentials)
  then show ?case
    using login_publishes [where c = "pt_get (auth_port (cf_jwtSecret E)) s"] by (auto simp: act_def route_events_defs)
next
  case (reconcile_run r s input)
  then show ?case
    using settlement_publishes(4) [where r = "pt_get reconciliation_port s"] by (auto simp: act_def route_events_defs)
qed (simp_all add: act_def route_events_defs, (rule publishing [THEN publishes_from], simp)+)

section \<open>One request\<close>

lemma dispatch_changes:
  "snd (dispatch_request E d q s) = s \<or>
   (\<exists>r. route_of (rq_method q) (rq_path q) = Some r \<and> route_step E d r s (snd (dispatch_request E d q s)))"
  using handle_changes [of E d _ q s]
  by (auto simp: dispatch_request_def not_found_route_def reply_def changes_at_def split: option.split)

text \<open>The log entry of a request.\<close>

definition request_log :: "draws \<Rightarrow> request \<Rightarrow> nat \<Rightarrow> structuredLogEntry" where
  "request_log d q status =
     \<lparr>sl_timestamp = dw_finishedAt d, sl_level = (if 500 \<le> status then ERROR else INFO), sl_service = ''core-api'',
      sl_traceId = dw_traceId d, sl_spanId = dw_spanId d, sl_method = rq_method q, sl_route = rq_path q,
      sl_statusCode = status, sl_durationMs = dw_finishedMs d - dw_startedMs d,
      sl_message = ''HTTP request completed'', sl_metadata = []\<rparr>"

lemma serve_finish:
  assumes "dispatch_request E d q s = (result, s1)" "catch_failure result = (status, body)"
  shows "serve E d q s = (\<lparr>sp_traceId = dw_traceId d, sp_status = status, sp_body = body\<rparr>,
    s1\<lparr>ap_logs := ap_logs s1 @ [request_log d q status], ap_bus := publish (trace_event (request_log d q status)) (ap_bus s1)\<rparr>)"
  using assms
  by (simp add: serve_def startTrace_def finishTrace_def request_log_def observability_port_def log_append_def Let_def)

lemma serve_shape:
  obtains result s1 status body where "dispatch_request E d q s = (result, s1)" "catch_failure result = (status, body)"
    and "serve E d q s = (\<lparr>sp_traceId = dw_traceId d, sp_status = status, sp_body = body\<rparr>,
      s1\<lparr>ap_logs := ap_logs s1 @ [request_log d q status], ap_bus := publish (trace_event (request_log d q status)) (ap_bus s1)\<rparr>)"
    and "s1 = s \<or> (\<exists>r. route_of (rq_method q) (rq_path q) = Some r \<and> route_step E d r s s1)"
proof -
  obtain result s1 where 1: "dispatch_request E d q s = (result, s1)" by fastforce
  obtain status body where 2: "catch_failure result = (status, body)" by fastforce
  from that [OF 1 2 serve_finish [OF 1 2]] dispatch_changes [of E d q s] 1 show thesis by simp
qed

definition events_allowed :: "request \<Rightarrow> string set" where
  "events_allowed q = (case route_of (rq_method q) (rq_path q) of None \<Rightarrow> {} | Some r \<Rightarrow> route_events r)"

text \<open>C6: A request makes at most the one service call of its route, appends to the event log only events
  of that route's types and, last, the trace of the request, and appends one entry to the request log,
  which carries the trace id and the status of the response.\<close>

theorem request_effects:
  "\<exists>s1 es.
     (s1 = s \<or> (\<exists>r. route_of (rq_method q) (rq_path q) = Some r \<and> route_step E d r s s1)) \<and>
     snd (serve E d q s) = s1\<lparr>ap_logs := ap_logs (snd (serve E d q s)), ap_bus := ap_bus (snd (serve E d q s))\<rparr> \<and>
     (let response = fst (serve E d q s); l = request_log d q (sp_status response) in
        ap_logs (snd (serve E d q s)) = ap_logs s @ [l] \<and> sl_traceId l = sp_traceId response \<and>
        bus_events (ap_bus (snd (serve E d q s))) = bus_events (ap_bus s) @ es @ [trace_event l]) \<and>
     ev_type ` set es \<subseteq> events_allowed q"
proof (cases rule: serve_shape [of E d q s])
  case (1 result s1 status body)
  have logs: "ap_logs s1 = ap_logs s"
    using 1(4) route_step_logs by blast
  obtain es where es: "bus_events (ap_bus s1) = bus_events (ap_bus s) @ es" "ev_type ` set es \<subseteq> events_allowed q"
  proof -
    have "publishes (events_allowed q) (ap_bus s) (ap_bus s1)"
      using 1(4) route_step_publishes by (auto simp: events_allowed_def)
    then show thesis using that by (auto simp: publishes_def)
  qed
  show ?thesis
  proof (intro exI conjI)
    show "s1 = s \<or> (\<exists>r. route_of (rq_method q) (rq_path q) = Some r \<and> route_step E d r s s1)" by (rule 1(4))
    show "ev_type ` set es \<subseteq> events_allowed q" by (rule es(2))
  qed (simp_all add: 1(3) logs es(1) request_log_def)
qed

end
