(* ===== verification/ServerReplies.thy ===== *)
theory ServerReplies
  imports Composition
begin

text \<open>
  What the routes answer: the kind of value and the status of every reply, and who may reach the
  routes of the administrator.
\<close>

section \<open>Declared replies\<close>

definition platform_answer :: "platform_route \<Rightarrow> nat \<Rightarrow> platform_body \<Rightarrow> bool" where
  "platform_answer r n b = (case (r, b) of
     (Logs_route, Logs_body _) \<Rightarrow> n = 200
   | (Slo_route, Slo_body _) \<Rightarrow> n = 200
   | (Health_route, Health_body) \<Rightarrow> n = 200
   | (Admin_health_route, Admin_health_body) \<Rightarrow> n = 200
   | (Break_glass_route, Break_glass_body _ _) \<Rightarrow> n = 201
   | _ \<Rightarrow> False)"

definition identity_answer :: "identity_route \<Rightarrow> nat \<Rightarrow> identity_body \<Rightarrow> bool" where
  "identity_answer r n b = (case b of
     User_body _ _ _ _ _ \<Rightarrow> r = Register_route \<and> n = 201
   | Tokens_body _ \<Rightarrow> r \<noteq> Register_route \<and> n = 200)"

definition catalog_answer :: "catalog_route \<Rightarrow> nat \<Rightarrow> catalog_body \<Rightarrow> bool" where
  "catalog_answer r n b = (case r of
     List_stores_route \<Rightarrow> n = 200 \<and> (\<exists>x. b = Stores_body x)
   | Store_menu_route _ \<Rightarrow> n = 200 \<and> (\<exists>x. b = Store_menu_body x)
   | Create_menu_route \<Rightarrow> n = 201 \<and> (\<exists>x. b = Menu_body x)
   | Update_menu_route _ \<Rightarrow> n = 200 \<and> (\<exists>x. b = Menu_body x)
   | Menu_versions_route _ \<Rightarrow> n = 200 \<and> (\<exists>x. b = Versions_body x)
   | Get_menu_route _ \<Rightarrow> n = 200 \<and> (\<exists>x. b = Menu_body x)
   | Store_status_route _ \<Rightarrow> n = 200 \<and> (\<exists>x. b = Status_body x)
   | Orderability_route _ \<Rightarrow> n = 200 \<and> (\<exists>x. b = Orderability_body x)
   | Prep_time_route _ \<Rightarrow> n = 200 \<and> (\<exists>x. b = Prep_time_body x)
   | Set_availability_route _ \<Rightarrow> n = 200 \<and> (\<exists>x. b = Availability_body x)
   | Get_availability_route _ \<Rightarrow> n = 200 \<and> (\<exists>x. b = Availability_body x))"

definition ordering_answer :: "ordering_route \<Rightarrow> nat \<Rightarrow> ordering_body \<Rightarrow> bool" where
  "ordering_answer r n b = (case r of
     Upsert_zone_route \<Rightarrow> n = 201 \<and> (\<exists>x. b = Zone_body x)
   | Validate_zone_route \<Rightarrow> n = 200 \<and> (\<exists>x. b = Zone_check_body x)
   | Quote_route \<Rightarrow> n = 200 \<and> (\<exists>x. b = Quote_body x)
   | Promotion_route \<Rightarrow> n = 200 \<and> (\<exists>x. b = Promotion_body x)
   | Checkout_route \<Rightarrow> n = 200 \<and> (\<exists>x. b = Checkout_body x)
   | Create_basket_route \<Rightarrow> n = 201 \<and> (\<exists>x. b = Basket_body x)
   | Update_basket_route _ \<Rightarrow> n = 200 \<and> (\<exists>x. b = Basket_body x)
   | Get_basket_route _ \<Rightarrow> n = 200 \<and> (\<exists>x. b = Basket_body x))"

text \<open>Only the dispatch request carries an assignment.\<close>

definition order_answer :: "order_route \<Rightarrow> nat \<Rightarrow> order_body \<Rightarrow> bool" where
  "order_answer r n b = (case r of
     Create_order_route \<Rightarrow> n = 201 \<and> (\<exists>v. b = Order_body v None)
   | Consumer_orders_route \<Rightarrow> n = 200 \<and> (\<exists>x. b = Orders_body x)
   | Merchant_orders_route \<Rightarrow> n = 200 \<and> (\<exists>x. b = Orders_body x)
   | Order_timeline_route _ \<Rightarrow> n = 200 \<and> (\<exists>i x. b = Timeline_body i x)
   | Rebuild_timeline_route \<Rightarrow> n = 200 \<and> (\<exists>x. b = Rebuild_body x)
   | Request_dispatch_route _ \<Rightarrow> n = 200 \<and> (\<exists>v a. b = Order_body v a)
   | _ \<Rightarrow> n = 200 \<and> (\<exists>v. b = Order_body v None))"

definition courier_answer :: "courier_route \<Rightarrow> nat \<Rightarrow> courier_body \<Rightarrow> bool" where
  "courier_answer r n b = (n = 200 \<and> (case b of
     Jobs_body _ \<Rightarrow> r = Available_jobs_route \<or> r = List_jobs_route
   | Telemetry_body _ \<Rightarrow> r = Telemetry_route
   | Job_body _ \<Rightarrow> (\<exists>i. r \<in> {Get_job_route i, Accept_job_route i, Pickup_job_route i, Dropoff_job_route i})))"

definition payment_answer :: "payment_route \<Rightarrow> nat \<Rightarrow> payment_body \<Rightarrow> bool" where
  "payment_answer r n b = (case r of
     Authorize_route \<Rightarrow> n = 201 \<and> (\<exists>x. b = Intent_body x)
   | Capture_route \<Rightarrow> n = 200 \<and> (\<exists>x. b = Intent_body x)
   | Cash_expected_route \<Rightarrow> n = 201 \<and> (\<exists>x. b = Intent_body x)
   | Cash_collection_route _ \<Rightarrow> n = 200 \<and> (\<exists>x. b = Cash_body x)
   | Request_refund_route \<Rightarrow> n = 201 \<and> (\<exists>x. b = Refund_body x)
   | Approve_refund_route _ \<Rightarrow> n = 200 \<and> (\<exists>x. b = Refund_body x)
   | Payment_audit_route _ \<Rightarrow> n = 200 \<and> (\<exists>i x. b = Payment_audit_body i x))"

definition support_answer :: "support_route \<Rightarrow> nat \<Rightarrow> support_body \<Rightarrow> bool" where
  "support_answer r n b = (case r of
     Create_ticket_route \<Rightarrow> n = 201 \<and> (\<exists>x. b = Ticket_body x)
   | Ticket_timeline_route _ \<Rightarrow> n = 200 \<and> (\<exists>x. b = Ticket_timeline_body x)
   | Intervention_route \<Rightarrow> (\<exists>x. b = Intervention_body x \<and> n = (if xr_status x = INTERVENTION_QUEUED then 202 else 200))
   | Sla_route \<Rightarrow> n = 200 \<and> (\<exists>t es. b = Sla_body t (length es) es))"

definition risk_answer :: "risk_route \<Rightarrow> nat \<Rightarrow> risk_body \<Rightarrow> bool" where
  "risk_answer r n b = (case r of
     Evaluate_policy_route \<Rightarrow> n = 200 \<and> (\<exists>x. b = Decision_body x)
   | List_rules_route \<Rightarrow> n = 200 \<and> (\<exists>x. b = Rules_body x)
   | Upsert_rule_route _ \<Rightarrow> n = 200 \<and> (\<exists>x. b = Rule_body x)
   | Queue_review_route \<Rightarrow> n = 201 \<and> (\<exists>x. b = Review_body x)
   | Resolve_review_route _ \<Rightarrow> n = 200 \<and> (\<exists>x. b = Review_body x)
   | Append_audit_route \<Rightarrow> n = 201 \<and> (\<exists>x. b = Audit_event_body x)
   | List_audit_route \<Rightarrow> n = 200 \<and> (\<exists>x. b = Audit_events_body x)
   | Evidence_route \<Rightarrow> n = 200 \<and> (\<exists>x. b = Evidence_body x))"

definition settlement_answer :: "settlement_route \<Rightarrow> nat \<Rightarrow> settlement_body \<Rightarrow> bool" where
  "settlement_answer r n b = (case r of
     Post_journal_route \<Rightarrow> n = 201 \<and> (\<exists>x. b = Journal_body x)
   | Reconcile_route \<Rightarrow> n = 200 \<and> (\<exists>x. b = Reconciliation_body x None)
   | Ingest_route \<Rightarrow> n = 200 \<and> (\<exists>x k. b = Reconciliation_body x (Some k))
   | Import_run_route _ \<Rightarrow> n \<in> {200, 201} \<and> (\<exists>x. b = Import_body x)
   | Reconciliation_results_route \<Rightarrow> n = 200 \<and> (\<exists>x y. b = Reconciliations_body x y)
   | Generate_payout_route \<Rightarrow> n = 201 \<and> (\<exists>x. b = Payout_body x)
   | Payout_run_route _ \<Rightarrow> n \<in> {200, 201} \<and> (\<exists>x. b = Payout_body x)
   | Publish_statement_route \<Rightarrow> n = 201 \<and> (\<exists>x. b = Statement_body x)
   | Merchant_payouts_route \<Rightarrow> n = 200 \<and> (\<exists>x. b = Statements_body x)
   | Courier_payouts_route \<Rightarrow> n = 200 \<and> (\<exists>x. b = Statements_body x))"

definition notification_answer :: "notification_route \<Rightarrow> nat \<Rightarrow> notification_body \<Rightarrow> bool" where
  "notification_answer r n b = (case r of
     Fanout_route \<Rightarrow> n = 202 \<and> (\<exists>x. b = Queued_body (length x) x)
   | Resolve_template_route \<Rightarrow> n = 200 \<and> (\<exists>x. b = Template_body x)
   | Retry_route \<Rightarrow> n = 202 \<and> (\<exists>x. b = Retry_body x)
   | Record_receipt_route \<Rightarrow> n = 201 \<and> (\<exists>x. b = Receipt_body x)
   | List_receipts_route \<Rightarrow> n = 200 \<and> (\<exists>i x. b = Receipts_body i x))"

definition guarded :: "route \<Rightarrow> bool" where
  "guarded r = (r = Platform Admin_health_route \<or> r = Platform Break_glass_route)"

definition answers :: "route \<Rightarrow> reply \<Rightarrow> bool" where
  "answers r a = (case (r, snd a) of
     (Platform x, B_platform b) \<Rightarrow> platform_answer x (fst a) b
   | (Identity x, B_identity b) \<Rightarrow> identity_answer x (fst a) b
   | (Catalog x, B_catalog b) \<Rightarrow> catalog_answer x (fst a) b
   | (Ordering x, B_ordering b) \<Rightarrow> ordering_answer x (fst a) b
   | (Orders x, B_order b) \<Rightarrow> order_answer x (fst a) b
   | (route.Courier x, B_courier b) \<Rightarrow> courier_answer x (fst a) b
   | (Payments x, B_payment b) \<Rightarrow> payment_answer x (fst a) b
   | (Support x, B_support b) \<Rightarrow> support_answer x (fst a) b
   | (Risk x, B_risk b) \<Rightarrow> risk_answer x (fst a) b
   | (Settlement x, B_settlement b) \<Rightarrow> settlement_answer x (fst a) b
   | (Notifications x, B_notification b) \<Rightarrow> notification_answer x (fst a) b
   | _ \<Rightarrow> False)"

definition denied :: reply where
  "denied = (403, B_error (error_body ''IDENTITY_PERMISSION_DENIED'' ''Permission denied.''))"

section \<open>Replies of handlers\<close>

definition replies :: "(reply \<Rightarrow> bool) \<Rightarrow> handler \<Rightarrow> bool" where
  "replies P h = (\<forall>s a. fst (h s) = Inr a \<longrightarrow> P a)"

named_theorems replying \<open>rules for what a handler answers\<close>

lemma replies_reply [replying]: "P (n, b) \<Longrightarrow> replies P (reply n b)"
  by (simp add: replies_def reply_def)

lemma replies_throw [replying]: "replies P (throw f)"
  by (simp add: replies_def throw_def)

lemma replies_valid [replying]: "(\<And>x. replies P (k x)) \<Longrightarrow> replies P (valid r k)"
  by (cases r) (simp_all add: valid_def replies_throw)

lemma replies_parsed [replying]: "(\<And>x. replies P (k x)) \<Longrightarrow> replies P (parsed E q k)"
  unfolding parsed_def by (rule replies_valid)

lemma replies_body [replying]: "(\<And>x. replies P (k x)) \<Longrightarrow> replies P (with_body E q v k)"
  unfolding with_body_def by (intro replying)

lemma replies_segment [replying]: "(\<And>i. replies P (k i)) \<Longrightarrow> replies P (with_segment raw k)"
  by (cases "decodeURIComponent raw") (simp_all add: with_segment_def replies_throw)

lemma replies_query [replying]: "(\<And>x. replies P (k x)) \<Longrightarrow> replies P (required_query q n m k)"
  by (simp add: required_query_def replies_throw split: option.split)

lemma replies_inspect [replying]: "(\<And>x. replies P (k x)) \<Longrightarrow> replies P (inspect f k)"
  by (simp add: replies_def inspect_def)

lemma replies_demand [replying]: "(\<And>x. replies P (k x)) \<Longrightarrow> replies P (demand f err k)"
  by (auto simp: replies_def demand_def throw_def split: sum.splits)

lemma replies_pair [replying]: "(\<And>a b. replies P (f a b)) \<Longrightarrow> replies P (case p of (a, b) \<Rightarrow> f a b)"
  by (cases p) simp

lemma replies_call [replying]: "(\<And>x. replies P (k x)) \<Longrightarrow> replies P (call p err op k)"
  by (auto simp: replies_def call_def throw_def split: sum.splits prod.splits)

lemma replies_perform [replying]: "(\<And>x. replies P (k x)) \<Longrightarrow> replies P (perform p op k)"
  by (auto simp: replies_def perform_def split: prod.splits)

lemma replies_guard [replying]:
  assumes "\<And>c. replies P (k c)" "P denied" shows "replies P (admin_guard E d q p k)"
  unfolding admin_guard_def permission_denied_def
  by (intro replying) (use assms in \<open>auto simp: denied_def intro!: replying split: option.split\<close>)

lemma replies_option [replying]: "replies P n \<Longrightarrow> (\<And>x. replies P (k x)) \<Longrightarrow> replies P (case v of None \<Rightarrow> n | Some x \<Rightarrow> k x)"
  by (cases v) simp_all

lemma replies_mono: "replies P h \<Longrightarrow> (\<And>a. P a \<Longrightarrow> Q a) \<Longrightarrow> replies Q h"
  by (auto simp: replies_def)

lemma platform_replies: "replies (\<lambda>a. answers (Platform r) a \<or> guarded (Platform r) \<and> a = denied) (handle_platform E d q r)"
  by (cases r) (auto simp: logs_route_def slo_route_def health_route_def admin_health_route_def break_glass_route_def
      answers_def platform_answer_def guarded_def intro!: replying)

lemma identity_replies: "replies (answers (Identity r)) (handle_identity E d q r)"
proof -
  have "replies (answers (Identity r)) (login_call E d i)" if "r \<noteq> Register_route" for i
    unfolding login_call_def using that by (intro replying) (simp add: answers_def identity_answer_def)
  then show ?thesis
    by (cases r) (auto simp: register_route_def login_route_def refresh_route_def mfa_route_def answers_def identity_answer_def
        intro!: replying)
qed

lemma catalog_replies: "replies (answers (Catalog r)) (handle_catalog E d q r)"
  by (cases r) (auto simp: list_stores_route_def store_menu_route_def create_menu_route_def update_menu_route_def
      menu_versions_route_def get_menu_route_def store_status_route_def orderability_route_def prep_time_route_def
      set_availability_route_def get_availability_route_def answers_def catalog_answer_def intro!: replying)

lemma ordering_replies: "replies (answers (Ordering r)) (handle_ordering E d q r)"
  by (cases r) (auto simp: upsert_zone_route_def validate_zone_route_def quote_route_def promotion_route_def checkout_route_def
      create_basket_route_def update_basket_route_def get_basket_route_def answers_def ordering_answer_def intro!: replying)

lemma orders_replies: "replies (answers (Orders r)) (handle_orders E d q r)"
  by (cases r) (auto simp: create_order_route_def consumer_orders_route_def get_order_route_def order_timeline_route_def
      cancel_order_route_def accept_order_route_def reject_order_route_def merchant_orders_route_def order_timeout_route_def
      request_dispatch_route_def rebuild_timeline_route_def answers_def order_answer_def intro!: replying)

lemma courier_replies: "replies (answers (route.Courier r)) (handle_courier E d q r)"
  by (cases r) (auto simp: available_jobs_route_def list_jobs_route_def get_job_route_def telemetry_route_def
      accept_job_route_def pickup_job_route_def dropoff_job_route_def job_reply_def answers_def courier_answer_def intro!: replying)

lemma payments_replies: "replies (answers (Payments r)) (handle_payments E d q r)"
  by (cases r) (auto simp: authorize_route_def capture_route_def cash_expected_route_def cash_collection_route_def
      request_refund_route_def approve_refund_route_def payment_audit_route_def answers_def payment_answer_def intro!: replying)

lemma support_replies: "replies (answers (Support r)) (handle_support E d q r)"
  by (cases r) (auto simp: create_ticket_route_def ticket_timeline_route_def intervention_route_def sla_route_def
      answers_def support_answer_def intro!: replying)

lemma risk_replies: "replies (answers (Risk r)) (handle_risk E d q r)"
  by (cases r) (auto simp: evaluate_policy_route_def list_rules_route_def upsert_rule_route_def queue_review_route_def
      resolve_review_route_def append_audit_route_def list_audit_route_def evidence_route_def answers_def risk_answer_def intro!: replying)

lemma settlement_replies: "replies (answers (Settlement r)) (handle_settlement E d q r)"
  by (cases r) (auto simp: post_journal_route_def reconcile_route_def ingest_route_def import_run_route_def
      reconciliation_results_route_def generate_payout_route_def payout_run_route_def publish_statement_route_def
      merchant_payouts_route_def courier_payouts_route_def answers_def settlement_answer_def intro!: replying)

lemma notifications_replies: "replies (answers (Notifications r)) (handle_notifications E d q r)"
  by (cases r) (auto simp: fanout_route_def resolve_template_route_def retry_route_def record_receipt_route_def
      list_receipts_route_def answers_def notification_answer_def intro!: replying)

lemma handle_replies: "replies (\<lambda>a. answers r a \<or> guarded r \<and> a = denied) (handle E d q r)"
proof (cases r)
  case (Platform x)
  show ?thesis
    unfolding Platform handle.simps by (rule platform_replies)
next
  case (Identity x)
  show ?thesis
    unfolding Identity handle.simps by (rule replies_mono [OF identity_replies]) simp
next
  case (Catalog x)
  show ?thesis
    unfolding Catalog handle.simps by (rule replies_mono [OF catalog_replies]) simp
next
  case (Ordering x)
  show ?thesis
    unfolding Ordering handle.simps by (rule replies_mono [OF ordering_replies]) simp
next
  case (Orders x)
  show ?thesis
    unfolding Orders handle.simps by (rule replies_mono [OF orders_replies]) simp
next
  case (Courier x)
  show ?thesis
    unfolding Courier handle.simps by (rule replies_mono [OF courier_replies]) simp
next
  case (Payments x)
  show ?thesis
    unfolding Payments handle.simps by (rule replies_mono [OF payments_replies]) simp
next
  case (Support x)
  show ?thesis
    unfolding Support handle.simps by (rule replies_mono [OF support_replies]) simp
next
  case (Risk x)
  show ?thesis
    unfolding Risk handle.simps by (rule replies_mono [OF risk_replies]) simp
next
  case (Settlement x)
  show ?thesis
    unfolding Settlement handle.simps by (rule replies_mono [OF settlement_replies]) simp
next
  case (Notifications x)
  show ?thesis
    unfolding Notifications handle.simps by (rule replies_mono [OF notifications_replies]) simp
qed

section \<open>Error replies\<close>

definition error_reply :: "reply \<Rightarrow> bool" where
  "error_reply a = (fst a \<in> {400, 401, 404, 409, 500} \<and>
     (\<exists>code message rest. snd a = B_error (JObj ([(''errorCode'', JStr code), (''message'', JStr message)] @ rest))))"

lemma class_status_range: "class_status c = Some n \<Longrightarrow> n \<in> {400, 401, 404, 409, 500}"
  by (cases c) (simp_all add: statuses_table)

lemma handle_error_reply: "error_reply (hs_status (handle_error e), B_error (hs_body (handle_error e)))"
proof (cases "class_status (eo_class e)")
  case None
  then show ?thesis by (auto simp: error_reply_def handle_error_def error_body_def)
next
  case (Some n)
  then show ?thesis
    using class_status_range [OF Some] by (simp add: error_reply_def handle_error_def)
qed


end
