(* ===== verification/System.thy ===== *)
theory System
  imports Composition
begin

text \<open>
  Invariants of the whole server: what the services promise about their own state and the event
  log holds while all of them change the shared state, in every state that requests reach.
\<close>

section \<open>Views after a step\<close>

lemma order_view:
  "os_timeline c \<noteq> None \<Longrightarrow> os_baskets c \<noteq> None \<Longrightarrow> pt_get order_port (pt_put order_port c s) = c"
  by (auto simp: order_port_def)

lemma order_view_orders [simp]: "os_orders (pt_get order_port s) = ap_orders s"
  by (simp add: order_port_def)

definition own_order_op :: "order_op \<Rightarrow> bool" where
  "own_order_op op = (case op of OpOrderInputs _ _ \<Rightarrow> False | OpForeignEvent _ \<Rightarrow> False | _ \<Rightarrow> True)"

lemma publishEvent_view:
  "os_timeline (publishEvent e c) = map_option (projectEvent e) (os_timeline c)" "os_baskets (publishEvent e c) = os_baskets c"
  "os_timeline (store_order v c) = os_timeline c" "os_baskets (store_order v c) = os_baskets c"
  by (simp_all add: publishEvent_def store_order_def Let_def)

lemma order_step_view:
  "own_order_op op \<Longrightarrow> (os_timeline (order_step op c) = None) = (os_timeline c = None) \<and> os_baskets (order_step op c) = os_baskets c"
  by (cases op) (simp_all add: own_order_op_def createOrder_def merchantAcceptOrder_def handleMerchantDecisionTimeout_def
      requestDispatch_def assignCourier_def markPickedUp_def markDelivered_def requestCancellation_def publishEvent_view Let_def
      split: option.split)

lemma order_step_get:
  "own_order_op op \<Longrightarrow> pt_get order_port (pt_put order_port (order_step op (pt_get order_port s)) s) = order_step op (pt_get order_port s)"
  using order_step_view [of op "pt_get order_port s"] by (intro order_view) (auto simp: order_port_def)

text \<open>A call of the order service, as a step of its machine.\<close>

definition order_act :: "order_op \<Rightarrow> server \<Rightarrow> server" where
  "order_act op s = pt_put order_port (order_step op (pt_get order_port s)) s"

lemma order_acts:
  "act order_port (createOrder n u ci) s = order_act (OpCreateOrder n u ci) s"
  "act order_port (merchantAcceptOrder n i) s = order_act (OpAccept n i) s"
  "act order_port (handleMerchantDecisionTimeout n i) s = order_act (OpTimeout n i) s"
  "act order_port (requestCancellation n i rc) s = order_act (OpCancel n i rc) s"
  by (simp_all add: act_def order_act_def)

text \<open>The routes of the couriers: a step of the jobs, and at most one of the orders.\<close>

lemma job_route_shape:
  assumes rt: "rt = job_route jc oc"
  shows "snd (rt c) = c\<lparr>dp_jobs := snd (jc (os_orders (dp_orders c)) (dp_jobs c))\<rparr> \<or>
   (\<exists>i. snd (rt c) = c\<lparr>dp_jobs := snd (jc (os_orders (dp_orders c)) (dp_jobs c)), dp_orders := snd (oc i (dp_orders c))\<rparr>)"
proof -
  obtain r1 c1 where 1: "jc (os_orders (dp_orders c)) (dp_jobs c) = (r1, c1)" by fastforce
  show ?thesis
  proof (cases r1)
    case (Inr job)
    obtain r2 c2 where "oc (cj_orderId job) (dp_orders c) = (r2, c2)" by fastforce
    with 1 Inr have "snd (rt c) = c\<lparr>dp_jobs := snd (jc (os_orders (dp_orders c)) (dp_jobs c)), dp_orders := snd (oc (cj_orderId job) (dp_orders c))\<rparr>"
      unfolding rt by (cases r2) (simp_all add: job_route_def)
    then show ?thesis by blast
  qed (use 1 in \<open>simp add: job_route_def rt\<close>)
qed

lemma dispatch_view: "pt_get dispatch_port s = \<lparr>dp_orders = pt_get order_port s, dp_jobs = ap_jobs s\<rparr>"
  by (simp add: dispatch_port_def)

lemma order_put_get [simp]: "pt_put order_port (pt_get order_port s) s = s"
  by (simp add: order_port_def)

lemma dispatch_put: "pt_put dispatch_port c s = (pt_put order_port (dp_orders c) s)\<lparr>ap_jobs := dp_jobs c\<rparr>"
  by (simp add: dispatch_port_def)

text \<open>What a courier's call does: a step of the jobs, and a step of the orders or none.\<close>

definition order_move :: "server \<Rightarrow> server \<Rightarrow> bool" where
  "order_move s s' = (s' = s \<or> (\<exists>op. own_order_op op \<and> (\<forall>n u ci. op \<noteq> OpCreateOrder n u ci) \<and> s' = order_act op s))"

lemma order_moveI: "own_order_op op \<Longrightarrow> (\<And>n u ci. op \<noteq> OpCreateOrder n u ci) \<Longrightarrow> order_move s (order_act op s)"
  by (auto simp: order_move_def)

lemma job_route_act:
  assumes moves: "\<And>i. order_move s (pt_put order_port (snd (oc i (pt_get order_port s))) s)" and rt: "rt = job_route jc oc"
  shows "\<exists>t. order_move s t \<and> act dispatch_port rt s = t\<lparr>ap_jobs := snd (jc (ap_orders s) (ap_jobs s))\<rparr>"
proof -
  have orders: "os_orders (pt_get order_port s) = ap_orders s" by (simp add: order_port_def)
  from job_route_shape [OF rt, of "pt_get dispatch_port s"] show ?thesis
  proof (elim disjE exE)
    assume "snd (rt (pt_get dispatch_port s)) =
      (pt_get dispatch_port s)\<lparr>dp_jobs := snd (jc (os_orders (dp_orders (pt_get dispatch_port s))) (dp_jobs (pt_get dispatch_port s)))\<rparr>"
    then show ?thesis
      by (intro exI [of _ s]) (simp add: act_def dispatch_put dispatch_view orders order_move_def)
  next
    fix i assume "snd (rt (pt_get dispatch_port s)) =
      (pt_get dispatch_port s)\<lparr>dp_jobs := snd (jc (os_orders (dp_orders (pt_get dispatch_port s))) (dp_jobs (pt_get dispatch_port s))),
        dp_orders := snd (oc i (dp_orders (pt_get dispatch_port s)))\<rparr>"
    then show ?thesis using moves [of i]
      by (intro exI [of _ "pt_put order_port (snd (oc i (pt_get order_port s))) s"]) (simp add: act_def dispatch_put dispatch_view orders)
  qed
qed

lemma courier_acts:
  "\<exists>t. order_move s t \<and> act dispatch_port (acceptRoute n1 n2 i k) s = t\<lparr>ap_jobs := job_step (JobAccept n1 i k (ap_orders s)) (ap_jobs s)\<rparr>"
  "\<exists>t. order_move s t \<and> act dispatch_port (pickupRoute n1 n2 i k) s = t\<lparr>ap_jobs := job_step (JobPickup n1 i k (ap_orders s)) (ap_jobs s)\<rparr>"
  "\<exists>t. order_move s t \<and> act dispatch_port (dropoffRoute n1 n2 i k) s = t\<lparr>ap_jobs := job_step (JobDropoff n1 i k (ap_orders s)) (ap_jobs s)\<rparr>"
proof -
  have "order_move s (pt_put order_port (snd (assignCourier n2 j k (pt_get order_port s))) s)"
    "order_move s (pt_put order_port (snd (markPickedUp n2 j k (pt_get order_port s))) s)"
    "order_move s (pt_put order_port (snd (markDelivered n2 j k (pt_get order_port s))) s)" for j
    using order_moveI [of "OpAssign n2 j k" s] order_moveI [of "OpPickUp n2 j k" s] order_moveI [of "OpDeliver n2 j k" s]
    by (simp_all add: order_act_def own_order_op_def)
  note moves = this
  show "\<exists>t. order_move s t \<and> act dispatch_port (acceptRoute n1 n2 i k) s = t\<lparr>ap_jobs := job_step (JobAccept n1 i k (ap_orders s)) (ap_jobs s)\<rparr>"
    unfolding job_step.simps by (rule job_route_act [where oc = "\<lambda>j. assignCourier n2 j k"]) (rule moves, simp add: acceptRoute_def fun_eq_iff)
  show "\<exists>t. order_move s t \<and> act dispatch_port (pickupRoute n1 n2 i k) s = t\<lparr>ap_jobs := job_step (JobPickup n1 i k (ap_orders s)) (ap_jobs s)\<rparr>"
    unfolding job_step.simps by (rule job_route_act [where oc = "\<lambda>j. markPickedUp n2 j k"]) (rule moves, simp add: pickupRoute_def fun_eq_iff)
  show "\<exists>t. order_move s t \<and> act dispatch_port (dropoffRoute n1 n2 i k) s = t\<lparr>ap_jobs := job_step (JobDropoff n1 i k (ap_orders s)) (ap_jobs s)\<rparr>"
    unfolding job_step.simps by (rule job_route_act [where oc = "\<lambda>j. markDelivered n2 j k"]) (rule moves, simp add: dropoffRoute_def fun_eq_iff)
qed

text \<open>A dispatch request: the request, then at most the assignment.\<close>

lemma request_dispatch_act:
  "\<exists>t. order_move (order_act (OpRequestDispatch n1 i) s) t \<and> act dispatch_port (requestDispatchRoute n1 n2 i inp client) s = t"
proof -
  let ?s1 = "order_act (OpRequestDispatch n1 i) s"
  have view: "pt_get order_port ?s1 = snd (requestDispatch n1 i (pt_get order_port s))"
    using order_step_get [of "OpRequestDispatch n1 i" s] by (simp add: order_act_def own_order_op_def)
  have once: "pt_put order_port c (pt_put order_port c' s) = pt_put order_port c s" if "os_timeline c \<noteq> None" "os_baskets c \<noteq> None" for c c'
    using that by (auto simp: order_port_def)
  have assign: "pt_put order_port (snd (assignCourier n2 i k (snd (requestDispatch n1 i (pt_get order_port s))))) s =
      order_act (OpAssign n2 i k) ?s1" for k
  proof -
    have "os_timeline (order_step (OpAssign n2 i k) (pt_get order_port ?s1)) \<noteq> None"
      "os_baskets (order_step (OpAssign n2 i k) (pt_get order_port ?s1)) \<noteq> None"
      using order_step_view [of "OpAssign n2 i k" "pt_get order_port ?s1"] by (auto simp: own_order_op_def order_port_def)
    from once [OF this] show ?thesis unfolding order_act_def [of "OpAssign n2 i k"] view [symmetric]
      by (simp add: order_act_def)
  qed
  obtain r1 c1 where 1: "requestDispatch n1 i (pt_get order_port s) = (r1, c1)" by fastforce
  let ?rt = "requestDispatchRoute n1 n2 i inp client (pt_get dispatch_port s)"
  have "snd ?rt = (pt_get dispatch_port s)\<lparr>dp_orders := c1\<rparr> \<or>
      (\<exists>k. snd ?rt = (pt_get dispatch_port s)\<lparr>dp_orders := snd (assignCourier n2 i k c1)\<rparr>)"
  proof (cases r1)
    case (Inr v)
    show ?thesis
    proof (cases "\<exists>a f. or_status v = DISPATCH_PENDING \<and> inp = Some a \<and> client = Some f")
      case True
      then obtain a f where af: "or_status v = DISPATCH_PENDING" "inp = Some a" "client = Some f" by blast
      show ?thesis
      proof (cases "\<exists>asg k. f (a i) = Inr asg \<and> ad_mode asg = ''COURIER'' \<and> ad_courierId asg = Some k \<and> k \<noteq> []")
        case True
        then obtain asg k where k: "f (a i) = Inr asg" "ad_mode asg = ''COURIER''" "ad_courierId asg = Some k" "k \<noteq> []" by blast
        obtain r2 c2 where "assignCourier n2 i k c1 = (r2, c2)" by fastforce
        with 1 Inr af k have "snd ?rt = (pt_get dispatch_port s)\<lparr>dp_orders := snd (assignCourier n2 i k c1)\<rparr>"
          by (cases r2) (simp_all add: requestDispatchRoute_def dispatch_view Let_def)
        then show ?thesis by blast
      next
        case False
        with 1 Inr af show ?thesis
          by (auto simp: requestDispatchRoute_def dispatch_view Let_def split: sum.split option.split bool.split)
      qed
    next
      case False
      with 1 Inr show ?thesis
        by (auto simp: requestDispatchRoute_def dispatch_view Let_def split: option.split bool.split)
    qed
  qed (use 1 in \<open>simp add: requestDispatchRoute_def dispatch_view\<close>)
  moreover have "(pt_put order_port c1 s)\<lparr>ap_jobs := ap_jobs s\<rparr> = ?s1"
    "(pt_put order_port (snd (assignCourier n2 i k c1)) s)\<lparr>ap_jobs := ap_jobs s\<rparr> = order_act (OpAssign n2 i k) ?s1" for k
  proof -
    show "(pt_put order_port c1 s)\<lparr>ap_jobs := ap_jobs s\<rparr> = ?s1"
      using 1 by (simp add: order_act_def order_port_def)
    have "ap_jobs (pt_put order_port c s) = ap_jobs s" for c by (simp add: order_port_def)
    then show "(pt_put order_port (snd (assignCourier n2 i k c1)) s)\<lparr>ap_jobs := ap_jobs s\<rparr> = order_act (OpAssign n2 i k) ?s1"
      using assign [of k] 1 by (metis snd_conv server.surjective server.update_convs(14))
  qed
  ultimately have "act dispatch_port (requestDispatchRoute n1 n2 i inp client) s = ?s1 \<or>
      (\<exists>k. act dispatch_port (requestDispatchRoute n1 n2 i inp client) s = order_act (OpAssign n2 i k) ?s1)"
    by (auto simp: act_def dispatch_put dispatch_view)
  moreover have "order_move ?s1 ?s1" "order_move ?s1 (order_act (OpAssign n2 i k) ?s1)" for k
    by (simp add: order_move_def, rule order_moveI) (simp_all add: own_order_op_def)
  ultimately show ?thesis by metis
qed

text \<open>An intervention: nothing, the cancellation or the refund request, and then its event or none.\<close>

lemma intervention_act:
  "\<exists>t e. (t = s \<or> (\<exists>i rc. t = order_act (OpCancel n1 i rc) s) \<or> (\<exists>ri. t = act payment_port (requestRefund n1 u a ri) s)) \<and>
     ev_type e = ''support.intervention_executed.v1'' \<and>
     (act core_port (core_intervention n1 u a n2 inp) s = t \<or>
      act core_port (core_intervention n1 u a n2 inp) s = t\<lparr>ap_bus := publish e (ap_bus t)\<rparr>)"
proof -
  let ?c = "pt_get core_port s"
  obtain d e where e: "ev_type e = ''support.intervention_executed.v1''"
    and c: "snd (core_intervention n1 u a n2 inp ?c) = d \<or> snd (core_intervention n1 u a n2 inp ?c) = core_publish e d"
    and d: "d = ?c \<or> d = snd (core_requestCancellation n1 (xi_orderId inp) (xi_reasonCode inp) ?c) \<or>
      (\<exists>ri. d = snd (core_requestRefund n1 u a ri ?c))"
    by (rule intervention_steps)
  have put: "pt_put core_port (core_publish e d) s = (pt_put core_port d s)\<lparr>ap_bus := publish e (ap_bus (pt_put core_port d s))\<rparr>"
    by (simp add: core_publish_frames payment_publish_def core_port_def payment_port_def order_port_def)
  have "pt_put core_port ?c s = s"
    by (simp add: core_port_def payment_port_def order_port_def)
  moreover have "pt_put core_port (snd (core_requestCancellation n1 i r ?c)) s =
      order_act (OpCancel n1 i \<lparr>rci_actor = BySupportAgent, rci_reasonCode = r\<rparr>) s" for i r
    by (simp add: core_frames order_act_def core_port_def payment_port_def order_port_def)
  moreover have "pt_put core_port (snd (core_requestRefund n1 u a ri ?c)) s = act payment_port (requestRefund n1 u a ri) s" for ri
    by (simp add: core_refund_frames act_def core_port_def payment_port_def order_port_def)
  ultimately have "pt_put core_port d s = s \<or> (\<exists>i rc. pt_put core_port d s = order_act (OpCancel n1 i rc) s) \<or>
      (\<exists>ri. pt_put core_port d s = act payment_port (requestRefund n1 u a ri) s)"
    using d by blast
  with e c put show ?thesis
    by (intro exI [of _ "pt_put core_port d s"] exI [of _ e]) (auto simp: act_def)
qed

section \<open>Orders and their timelines\<close>

definition timeline_part :: "server \<Rightarrow> bool" where
  "timeline_part s = (all_orders_wf (pt_get order_port s) \<and> timeline_ok (pt_get order_port s))"

lemma untimed: "ev_type e \<notin> fst ` set eventStatusMap \<Longrightarrow> toTimelineEntry e = None"
  by (auto simp: toTimelineEntry_def obj_lookup_def map_of_eq_None_iff split: option.split lookup.split)

lemma timeline_frame:
  assumes "timeline_part s" "ap_orders s' = ap_orders s" "ap_timeline s' = ap_timeline s"
    and "publishes T (ap_bus s) (ap_bus s')" "T \<inter> fst ` set eventStatusMap = {}"
  shows "timeline_part s'"
proof -
  obtain es where es: "bus_events (ap_bus s') = bus_events (ap_bus s) @ es" "ev_type ` set es \<subseteq> T"
    using assms(4) by (auto simp: publishes_def)
  have none: "\<forall>e \<in> set es. toTimelineEntry e = None"
  proof
    fix e assume "e \<in> set es"
    with es(2) have "ev_type e \<in> T" by blast
    with assms(5) show "toTimelineEntry e = None" by (intro untimed) blast
  qed
  from assms(1) show ?thesis
    unfolding timeline_part_def timeline_ok_def all_orders_wf_def orders_ok_def
    by (simp add: order_port_def assms(2,3) es(1) entries_of_foreign [OF none] projectEvent_foreign [OF none])
qed

lemma timeline_order_act:
  assumes "timeline_part s" "own_order_op op" "order_op_ok op (pt_get order_port s)"
  shows "timeline_part (order_act op s)"
  using assms timeline_ok_step all_orders_wf_step order_step_get [OF assms(2)]
  unfolding timeline_part_def order_act_def all_orders_wf_def by simp

lemma timeline_move:
  assumes "timeline_part s" "order_move s t" shows "timeline_part t"
  using assms(2) unfolding order_move_def
proof (elim disjE exE conjE)
  fix op assume "own_order_op op" "\<forall>n u ci. op \<noteq> OpCreateOrder n u ci" "t = order_act op s"
  with assms(1) show ?thesis
    using timeline_order_act [of s op] by (cases op) (auto simp: own_order_op_def)
qed (use assms(1) in simp)

lemma timeline_rebuild:
  assumes "timeline_part s" shows "act timeline_port (rebuildFromEventLog (ap_bus s)) s = s"
proof -
  have t: "ap_timeline s = fold projectEvent (bus_events (ap_bus s)) []"
    using assms by (simp add: timeline_part_def timeline_ok_def order_port_def)
  show ?thesis
    by (simp add: act_def timeline_port_def rebuild_project t [symmetric])
qed

text \<open>The identifiers a request draws are new.\<close>

definition fresh_draws :: "draws \<Rightarrow> server \<Rightarrow> bool" where
  "fresh_draws d s =
     ((\<forall>n. dw_uuid d n \<noteq> [] \<and> user_findById (dw_uuid d n) (ap_users s) = None \<and> order_findById (dw_uuid d n) (ap_orders s) = None \<and>
         intent_findById (dw_uuid d n) (ap_intents s) = None \<and> refund_findById (dw_uuid d n) (ap_refunds s) = None \<and>
         ticket_findById (dw_uuid d n) (ap_tickets s) = None \<and> review_findById (dw_uuid d n) (ap_reviews s) = None \<and>
         map_get (ap_payouts s) (dw_uuid d n) = None) \<and>
      fresh_items (dw_channelId d) (pt_get fanout_port s) \<and> fresh_escalations (dw_escalationId d) (pt_get support_port s))"

lemma payments_orders [simp]:
  "py_orders (snd (authorizePayment psp u a ai c)) = py_orders c" "py_orders (snd (capturePayment n a ci c)) = py_orders c"
  "py_orders (snd (markCashExpected n u a mi c)) = py_orders c" "py_orders (snd (confirmCashCollection n a a' cc c)) = py_orders c"
  "py_orders (snd (requestRefund n u a ri c)) = py_orders c" "py_orders (snd (approveRefund n a ari c)) = py_orders c"
  by (simp_all add: authorizePayment_def capturePayment_def markCashExpected_def confirmCashCollection_def requestRefund_def
      approveRefund_def payment_publish_def appendAuditRecord_def store_intent_def store_refund_def remember_capture_def
      Let_def split: option.split)

lemma order_types_apart:
  "{''payment.audit_recorded.v1'', ''payment.captured.v1'', ''payment.authorized.v1'', ''refund.completed.v1''} \<inter> fst ` set eventStatusMap = {}"
  by (auto simp: eventStatusMap_def)

lemma timeline_jobs: "timeline_part (s\<lparr>ap_jobs := j\<rparr>) = timeline_part s"
  by (simp add: timeline_part_def order_port_def)

lemma timeline_payment:
  assumes "timeline_part s" "py_orders (snd (op (pt_get payment_port s))) = ap_orders s"
    and "publishes T (ap_bus s) (ap_bus (act payment_port op s))" "T \<inter> fst ` set eventStatusMap = {}"
  shows "timeline_part (act payment_port op s)"
  using timeline_frame [OF assms(1) _ _ assms(3,4)] assms(2) by (simp add: act_def payment_port_def)

lemma timeline_courier:
  assumes "timeline_part s" "\<exists>t. order_move s t \<and> s' = t\<lparr>ap_jobs := j\<rparr>"
  shows "timeline_part s'"
  using assms timeline_move timeline_jobs by blast

lemma timeline_intervention:
  assumes s: "timeline_part s" shows "timeline_part (act core_port (core_intervention n1 u a n2 inp) s)"
proof -
  obtain t e where t: "t = s \<or> (\<exists>i rc. t = order_act (OpCancel n1 i rc) s) \<or> (\<exists>ri. t = act payment_port (requestRefund n1 u a ri) s)"
    and e: "ev_type e = ''support.intervention_executed.v1''"
    and s': "act core_port (core_intervention n1 u a n2 inp) s = t \<or>
      act core_port (core_intervention n1 u a n2 inp) s = t\<lparr>ap_bus := publish e (ap_bus t)\<rparr>"
    using intervention_act [of s n1 u a n2 inp] by blast
  have "timeline_part t"
    using t
  proof (elim disjE exE)
    fix i rc assume "t = order_act (OpCancel n1 i rc) s"
    with s show ?thesis using timeline_order_act [of s "OpCancel n1 i rc"] by (simp add: own_order_op_def)
  next
    fix ri assume "t = act payment_port (requestRefund n1 u a ri) s"
    moreover have "publishes {''payment.audit_recorded.v1''} (ap_bus s) (ap_bus (act payment_port (requestRefund n1 u a ri) s))"
      using payments_publish(5) [where c = "pt_get payment_port s"] by (simp add: act_def)
    ultimately show ?thesis
      using timeline_payment [OF s, of "requestRefund n1 u a ri" "{''payment.audit_recorded.v1''}"] order_types_apart
      by (simp add: payment_port_def)
  qed (use s in simp)
  moreover have "timeline_part (t\<lparr>ap_bus := publish e (ap_bus t)\<rparr>)" if "timeline_part t"
    using timeline_frame [OF that, of "t\<lparr>ap_bus := publish e (ap_bus t)\<rparr>" "{''support.intervention_executed.v1''}"] e
    by (simp add: eventStatusMap_def)
  ultimately show ?thesis using s' by metis
qed

lemma timeline_step:
  assumes "route_step E d r s s'" "timeline_part s" "fresh_draws d s"
  shows "timeline_part s'"
  using assms(1)
proof cases
  case (create_order input)
  then show ?thesis
    using assms(2,3) timeline_order_act [of s "OpCreateOrder (dw_now d 0) (dw_uuid d 0) input"]
    by (simp add: order_acts own_order_op_def fresh_draws_def)
next
  case (cancel i orderId reasonCode)
  then show ?thesis using assms(2) by (auto simp: order_acts own_order_op_def intro!: timeline_order_act)
next
  case (accept i orderId)
  then show ?thesis using assms(2) by (auto simp: order_acts own_order_op_def intro!: timeline_order_act)
next
  case (reject i orderId reasonCode)
  then show ?thesis using assms(2) by (auto simp: order_acts own_order_op_def intro!: timeline_order_act)
next
  case (order_timeout i orderId)
  then show ?thesis using assms(2) by (auto simp: order_acts own_order_op_def intro!: timeline_order_act)
next
  case (request_dispatch i orderId input)
  have "timeline_part (order_act (OpRequestDispatch (dw_now d 0) orderId) s)"
    using assms(2) by (auto simp: own_order_op_def intro!: timeline_order_act)
  with request_dispatch show ?thesis
    using request_dispatch_act [of "dw_now d 0" orderId s "dw_now d 1"] timeline_move by metis
next
  case (accept_job i jobId courierId)
  with assms(2) show ?thesis using courier_acts(1) by (blast intro: timeline_courier)
next
  case (pickup_job i jobId courierId)
  with assms(2) show ?thesis using courier_acts(2) by (blast intro: timeline_courier)
next
  case (dropoff_job i jobId courierId)
  with assms(2) show ?thesis using courier_acts(3) by (blast intro: timeline_courier)
next
  case rebuild
  with assms(2) show ?thesis by (simp add: timeline_rebuild)
next
  case (intervention input)
  with assms(2) show ?thesis by (simp add: timeline_intervention)
qed (rule timeline_frame [OF assms(2) _ _ route_step_publishes [OF assms(1)]];
     force simp: act_def port_defs route_events_defs eventStatusMap_def)+

section \<open>Payments\<close>

abbreviation payment_part :: "server \<Rightarrow> bool" where
  "payment_part s \<equiv> payments_ok (pt_get payment_port s)"

lemma foreign_filter:
  assumes "publishes T b b'" "T \<inter> U = {}" "\<And>e. p e \<Longrightarrow> ev_type e \<in> U"
  shows "filter p (bus_events b') = filter p (bus_events b)"
proof -
  obtain es where "bus_events b' = bus_events b @ es" "ev_type ` set es \<subseteq> T"
    using assms(1) by (auto simp: publishes_def)
  moreover from this(2) have "filter p es = []"
    using assms(2,3) by (fastforce simp: filter_empty_conv)
  ultimately show ?thesis by simp
qed

lemma foreign_type: "publishes T b b' \<Longrightarrow> t \<notin> T \<Longrightarrow> events_of_type t (bus_events b') = events_of_type t (bus_events b)"
  unfolding events_of_type_def by (rule foreign_filter [where U = "{t}"]) auto

lemma payment_frame:
  assumes "payment_part s" "ap_intents s' = ap_intents s" "ap_refunds s' = ap_refunds s" "ap_paymentAudit s' = ap_paymentAudit s"
    and pub: "publishes T (ap_bus s) (ap_bus s')"
    and "T \<inter> {''payment.captured.v1'', ''refund.completed.v1'', ''payment.audit_recorded.v1''} = {}"
  shows "payment_part s'"
proof -
  have "filter (about ''payment.captured.v1'' k i) (bus_events (ap_bus s')) = filter (about ''payment.captured.v1'' k i) (bus_events (ap_bus s))"
    "filter (about ''refund.completed.v1'' k i) (bus_events (ap_bus s')) = filter (about ''refund.completed.v1'' k i) (bus_events (ap_bus s))" for k i
    by (rule foreign_filter [OF pub assms(6)], simp add: about_def)+
  moreover have "events_of_type ''payment.audit_recorded.v1'' (bus_events (ap_bus s')) = events_of_type ''payment.audit_recorded.v1'' (bus_events (ap_bus s))"
    using foreign_type [OF pub] assms(6) by blast
  moreover have fields: "py_intents (pt_get payment_port t) = ap_intents t" "py_refunds (pt_get payment_port t) = ap_refunds t"
    "py_audit (pt_get payment_port t) = ap_paymentAudit t" for t
    by (simp_all add: payment_port_def)
  ultimately show ?thesis
    using assms(1)
    by (simp add: payments_ok_def payment_keys_ok_def captures_ok_def refunds_ok_def audit_ok_def captures_of_def
        completions_of_def assms(2-4))
qed

lemma payment_view [simp]: "pt_get payment_port (act payment_port op s) = snd (op (pt_get payment_port s))"
  by (simp add: act_def payment_port_def)

lemma order_act_fields [simp]:
  "ap_intents (order_act op s) = ap_intents s" "ap_refunds (order_act op s) = ap_refunds s"
  "ap_paymentAudit (order_act op s) = ap_paymentAudit s" "ap_users (order_act op s) = ap_users s"
  "ap_bus (order_act op s) = os_eventBus (order_step op (pt_get order_port s))"
  by (simp_all add: order_act_def order_port_def)

lemma payment_intervention:
  assumes s: "payment_part s" and fresh: "refund_findById u (ap_refunds s) = None"
  shows "payment_part (act core_port (core_intervention n1 u a n2 inp) s)"
proof -
  obtain t e where t: "t = s \<or> (\<exists>i rc. t = order_act (OpCancel n1 i rc) s) \<or> (\<exists>ri. t = act payment_port (requestRefund n1 u a ri) s)"
    and e: "ev_type e = ''support.intervention_executed.v1''"
    and s': "act core_port (core_intervention n1 u a n2 inp) s = t \<or>
      act core_port (core_intervention n1 u a n2 inp) s = t\<lparr>ap_bus := publish e (ap_bus t)\<rparr>"
    using intervention_act [of s n1 u a n2 inp] by blast
  have "payment_part t"
    using t
  proof (elim disjE exE)
    fix i rc assume "t = order_act (OpCancel n1 i rc) s"
    then show ?thesis
      using payment_frame [OF s, of t "{''order.cancel_requested.v1'', ''order.cancelled.v1''}"]
        orders_publish(8) [where c = "pt_get order_port s"] by simp
  next
    fix ri assume "t = act payment_port (requestRefund n1 u a ri) s"
    with s fresh show ?thesis by (simp add: requestRefund_ok) (simp add: payment_port_def requestRefund_ok)
  qed (use s in simp)
  moreover have "payment_part (t\<lparr>ap_bus := publish e (ap_bus t)\<rparr>)" if "payment_part t"
    using payment_frame [OF that, of "t\<lparr>ap_bus := publish e (ap_bus t)\<rparr>" "{''support.intervention_executed.v1''}"] e by simp
  ultimately show ?thesis using s' by metis
qed

lemma payment_step_part:
  assumes "route_step E d r s s'" "payment_part s" "fresh_draws d s"
  shows "payment_part s'"
proof -
  have new: "intent_findById (dw_uuid d n) (py_intents (pt_get payment_port s)) = None"
    "refund_findById (dw_uuid d n) (py_refunds (pt_get payment_port s)) = None" for n
    using assms(3) by (simp_all add: fresh_draws_def payment_port_def)
  show ?thesis
    using assms(1)
  proof cases
    case (authorize input)
    with assms(2) new show ?thesis by (simp add: authorizePayment_ok)
  next
    case (capture input)
    with assms(2) show ?thesis by (simp add: capturePayment_ok)
  next
    case (cash_expected input)
    with assms(2) new show ?thesis by (simp add: markCashExpected_ok)
  next
    case (cash_collection i input)
    with assms(2) show ?thesis by (simp add: confirmCashCollection_ok)
  next
    case (request_refund input)
    with assms(2) new show ?thesis by (simp add: requestRefund_ok)
  next
    case (approve_refund i input)
    with assms(2) show ?thesis by (simp add: approveRefund_ok)
  next
    case (intervention input)
    with assms(2,3) show ?thesis by (simp add: payment_intervention fresh_draws_def)
  qed (rule payment_frame [OF assms(2) _ _ _ route_step_publishes [OF assms(1)]];
       force simp: act_def port_defs route_events_defs)+
qed

section \<open>Support, reviews, notifications and payouts\<close>

abbreviation support_part :: "server \<Rightarrow> bool" where
  "support_part s \<equiv> escalations_ok (pt_get support_port s)"

lemma support_frame:
  assumes "support_part s" "ap_tickets s' = ap_tickets s" "ap_escalations s' = ap_escalations s"
    and "publishes T (ap_bus s) (ap_bus s')" "''support.ticket_escalated.v1'' \<notin> T"
  shows "support_part s'"
  using assms(1) foreign_type [OF assms(4,5)] unfolding escalations_ok_def by (auto simp: support_port_def assms(2,3))

lemma support_view [simp]: "pt_get support_port (act support_port op s) = snd (op (pt_get support_port s))"
  by (simp add: act_def support_port_def)

lemma support_step_part:
  assumes "route_step E d r s s'" "support_part s" "fresh_draws d s"
  shows "support_part s'"
  using assms(1)
proof cases
  case (create_ticket input)
  with assms(2,3) support_step_ok [of "pt_get support_port s" "OpTicket (dw_now d 0) (dw_uuid d 0) input"]
  show ?thesis by (simp add: fresh_draws_def) (simp add: support_port_def)
next
  case (sla time)
  with assms(2,3) support_step_ok [of "pt_get support_port s" "OpEvaluate (cf_host E) (dw_escalationId d) time"]
  show ?thesis by (simp add: fresh_draws_def)
qed (rule support_frame [OF assms(2) _ _ route_step_publishes [OF assms(1)]];
     force simp: act_def port_defs route_events_defs)+

abbreviation review_part :: "server \<Rightarrow> bool" where
  "review_part s \<equiv> reviews_ok (pt_get review_port s)"

lemma review_frame:
  assumes "review_part s" "ap_reviews s' = ap_reviews s"
    and pub: "publishes T (ap_bus s) (ap_bus s')" and t: "''risk.manual_review_resolved.v1'' \<notin> T"
  shows "review_part s'"
proof -
  have r: "resolutions_of i (pt_get review_port s') = resolutions_of i (pt_get review_port s)" for i
    unfolding resolutions_of_def port_bus'
    by (rule foreign_filter [OF pub, where U = "{''risk.manual_review_resolved.v1''}"]) (use t in auto)
  have f: "rv_reviews (pt_get review_port t) = ap_reviews t" for t
    by (simp add: review_port_def)
  show ?thesis
    using assms(1) unfolding reviews_ok_def r f assms(2) .
qed

lemma review_view [simp]: "pt_get review_port (act review_port op s) = snd (op (pt_get review_port s))"
  by (simp add: act_def review_port_def)

lemma review_step_part:
  assumes "route_step E d r s s'" "review_part s" "fresh_draws d s"
  shows "review_part s'"
proof -
  have new: "review_findById (dw_uuid d n) (rv_reviews (pt_get review_port s)) = None" for n
    using assms(3) by (simp add: fresh_draws_def review_port_def)
  show ?thesis
    using assms(1)
  proof cases
    case (queue_review input)
    with assms(2) new show ?thesis by (simp add: queueReview_ok)
  next
    case (resolve_review i input)
    with assms(2) show ?thesis by (simp add: resolveReview_ok)
  qed (rule review_frame [OF assms(2) _ route_step_publishes [OF assms(1)]];
       force simp: act_def port_defs route_events_defs)+
qed

abbreviation queue_part :: "server \<Rightarrow> bool" where
  "queue_part s \<equiv> queue_ok (pt_get fanout_port s)"

lemma queue_frame:
  assumes "queue_part s" "ap_queue s' = ap_queue s"
    and "publishes T (ap_bus s) (ap_bus s')" "''notification.queued.v1'' \<notin> T"
  shows "queue_part s'"
  using assms(1) foreign_type [OF assms(3,4)] by (simp add: queue_ok_def queued_items_def fanout_port_def assms(2))

lemma queue_step_part:
  assumes "route_step E d r s s'" "queue_part s" "fresh_draws d s"
  shows "queue_part s'"
  using assms(1)
proof cases
  case (fanout input)
  have "queue_ok (snd (fanout (cf_native E) (dw_now d 0) (dw_channelNow d) (dw_channelId d) input (pt_get fanout_port s)))"
    using assms(2,3) by (simp add: fresh_draws_def fanout_ok)
  with fanout show ?thesis
    by (simp add: queue_ok_def queued_items_def act_def fanout_port_def)
qed (rule queue_frame [OF assms(2) _ route_step_publishes [OF assms(1)]];
     force simp: act_def port_defs route_events_defs)+

abbreviation payout_part :: "server \<Rightarrow> bool" where
  "payout_part s \<equiv> payouts_ok (pt_get payout_port s)"

lemma payout_frame:
  assumes "payout_part s" "ap_payouts s' = ap_payouts s"
    and "publishes T (ap_bus s) (ap_bus s')" "''payout.batch_generated.v1'' \<notin> T"
  shows "payout_part s'"
  using assms(1) foreign_type [OF assms(3,4)] by (simp add: payouts_ok_def payout_port_def assms(2))

lemma payout_view [simp]: "pt_get payout_port (act payout_port op s) = snd (op (pt_get payout_port s))"
  by (simp add: act_def payout_port_def)

lemma payout_step_part:
  assumes "route_step E d r s s'" "payout_part s" "fresh_draws d s"
  shows "payout_part s'"
proof -
  have new: "map_get (po_batches (pt_get payout_port s)) (dw_uuid d n) = None" for n
    using assms(3) by (simp add: fresh_draws_def payout_port_def)
  have gen: "snd (generateBatch now u g p) = snd (runScheduledBatch now u g p)" for now u g p
    by (simp add: generateBatch_def split: prod.split)
  show ?thesis
    using assms(1)
  proof cases
    case (generate_payout input)
    with assms(2) new show ?thesis by (simp add: gen runScheduledBatch_ok)
  next
    case (payout_run i input)
    with assms(2) new show ?thesis by (simp add: runScheduledBatch_ok)
  qed (rule payout_frame [OF assms(2) _ route_step_publishes [OF assms(1)]];
       force simp: act_def port_defs route_events_defs)+
qed

section \<open>Users, menus, jobs and the audit log\<close>

lemma auth_users [simp]:
  "au_repository (snd (issueSession L x user r f c)) = au_repository c"
  "au_repository (snd (login L f x inp c)) = au_repository c"
  "au_repository (snd (refresh L t x tok c)) = au_repository c"
proof -
  show i: "au_repository (snd (issueSession L x user r f c)) = au_repository c" for user r f c
    by (simp add: issueSession_def Let_def)
  have i': "au_repository c' = au_repository c" if "issueSession L x user r f c = (t, c')" for user r f c t c'
    using i [of user r f c] that by simp
  show "au_repository (snd (login L f x inp c)) = au_repository c"
    by (auto simp: login_def Let_def i' split: option.split prod.split)
  show "au_repository (snd (refresh L t x tok c)) = au_repository c"
    by (auto simp: refresh_def Let_def dest: i' split: option.split prod.split)
qed

lemma users_step:
  assumes "route_step E d r s s'" "identity_ok (ap_users s)" "fresh_draws d s"
  shows "identity_ok (ap_users s')"
  using assms(1)
proof cases
  case (register input)
  let ?g = "\<lparr>rg_uid = dw_uuid d 0, rg_now1 = dw_now d 0, rg_now2 = dw_now d 1, rg_input = input\<rparr>"
  have "is_repository (pt_get identity_port s) = ap_users s" by (simp add: identity_port_def)
  with register assms(2,3) registration_step_ok [of "pt_get identity_port s" ?g]
  show ?thesis by (simp add: fresh_draws_def registration_step_def act_def) (simp add: identity_port_def)
qed (use assms(2) in \<open>force simp: act_def port_defs\<close>)+

lemma menus_step:
  assumes "route_step E d r s s'" "menus_ok (ap_menus s)"
  shows "menus_ok (ap_menus s')"
  using assms(1)
proof cases
  case (create_menu input)
  with assms(2) menu_step_ok [of "ap_menus s" "CreateMenu (dw_uuid d 0) (dw_now d 0) (dw_now d 1) input"]
  show ?thesis by (simp add: act_def menu_port_def)
next
  case (update_menu i menuId input)
  with assms(2) menu_step_ok [of "ap_menus s" "UpdateMenu (dw_now d 0) (dw_now d 1) menuId input"]
  show ?thesis by (simp add: act_def menu_port_def)
qed (use assms(2) in \<open>force simp: act_def port_defs\<close>)+

lemma dispatch_jobs: "dp_jobs (snd (requestDispatchRoute n1 n2 i inp client c)) = dp_jobs c"
  by (auto simp: requestDispatchRoute_def Let_def split: sum.split option.split bool.split prod.split)

lemma jobs_step:
  assumes "route_step E d r s s'" "jobs_ok (ap_jobs s)"
  shows "jobs_ok (ap_jobs s')"
  using assms(1)
proof cases
  case available_jobs
  with assms(2) show ?thesis by (simp add: act_def job_port_def listAvailableJobs_def Let_def jobs_ok_sync)
next
  case (list_jobs courierId status)
  with assms(2) show ?thesis by (simp add: act_def job_port_def listJobs_def Let_def jobs_ok_sync)
next
  case (get_job i jobId)
  with assms(2) show ?thesis by (simp add: act_def job_port_def getJob_def Let_def jobs_ok_sync)
next
  case (accept_job i jobId courierId)
  then show ?thesis
    using courier_acts(1) [of s "dw_now d 0" "dw_now d 1" jobId courierId] job_step_ok [OF assms(2)] by (metis server.select_convs(14) server.surjective server.update_convs(14))
next
  case (pickup_job i jobId courierId)
  then show ?thesis
    using courier_acts(2) [of s "dw_now d 0" "dw_now d 1" jobId courierId] job_step_ok [OF assms(2)] by (metis server.select_convs(14) server.surjective server.update_convs(14))
next
  case (dropoff_job i jobId courierId)
  then show ?thesis
    using courier_acts(3) [of s "dw_now d 0" "dw_now d 1" jobId courierId] job_step_ok [OF assms(2)] by (metis server.select_convs(14) server.surjective server.update_convs(14))
next
  case (request_dispatch i orderId input)
  then show ?thesis using assms(2) by (simp add: act_def dispatch_put dispatch_jobs) (simp add: dispatch_view)
qed (use assms(2) in \<open>force simp: act_def port_defs\<close>)+

lemma audit_step_part:
  assumes "route_step E d r s s'" "verifyChain (cf_sha256 E) (ap_audit s)"
  shows "verifyChain (cf_sha256 E) (ap_audit s')"
proof -
  have log: "au_log (pt_get audit_port s) = ap_audit s" "ap_audit (pt_put audit_port c s) = au_log c" for c
    by (simp_all add: audit_port_def audit_service.defs)
  have append: "verifyChain (cf_sha256 E) (ap_audit (act audit_port (appendEvent (cf_sha256 E) None n u a) s))" for n u a
    using audit_step_verifies [of "cf_sha256 E" "pt_get audit_port s" id "OpAudit None n u a"] assms(2)
    by (simp add: act_def log)
  show ?thesis
    using assms(1)
  proof cases
    case (evidence generatedBy generatedAt)
    with audit_step_verifies [of "cf_sha256 E" "pt_get audit_port s" "cf_native E" "OpReport (dw_uuid d 0) generatedBy generatedAt"] assms(2)
    show ?thesis by (simp add: act_def log)
  qed (use assms(2) append in \<open>force simp: act_def port_defs\<close>)+
qed

section \<open>Every state that requests reach\<close>

definition server_ok :: "environment \<Rightarrow> server \<Rightarrow> bool" where
  "server_ok E s =
     (timeline_part s \<and> payment_part s \<and> support_part s \<and> review_part s \<and> queue_part s \<and> payout_part s \<and>
      identity_ok (ap_users s) \<and> menus_ok (ap_menus s) \<and> jobs_ok (ap_jobs s) \<and> verifyChain (cf_sha256 E) (ap_audit s))"

lemma server_ok_step: "route_step E d r s s' \<Longrightarrow> server_ok E s \<Longrightarrow> fresh_draws d s \<Longrightarrow> server_ok E s'"
  unfolding server_ok_def
  by (intro conjI; elim conjE; blast intro: timeline_step payment_step_part support_step_part review_step_part queue_step_part
      payout_step_part users_step menus_step jobs_step audit_step_part)

text \<open>The trace of a request belongs to no service.\<close>

lemma server_ok_trace:
  assumes s: "server_ok E s"
  shows "server_ok E (s\<lparr>ap_logs := l, ap_bus := publish (trace_event x) (ap_bus s)\<rparr>)" (is "server_ok E ?t")
proof -
  have pub: "publishes {''platform.trace_emitted.v1''} (ap_bus s) (ap_bus ?t)"
    by (simp add: trace_event_def)
  have "timeline_part ?t"
    by (rule timeline_frame [OF _ _ _ pub]) (use s in \<open>simp_all add: server_ok_def eventStatusMap_def\<close>)
  moreover have "payment_part ?t"
    by (rule payment_frame [OF _ _ _ _ pub]) (use s in \<open>simp_all add: server_ok_def\<close>)
  moreover have "support_part ?t"
    by (rule support_frame [OF _ _ _ pub]) (use s in \<open>simp_all add: server_ok_def\<close>)
  moreover have "review_part ?t"
    by (rule review_frame [OF _ _ pub]) (use s in \<open>simp_all add: server_ok_def\<close>)
  moreover have "queue_part ?t"
    by (rule queue_frame [OF _ _ pub]) (use s in \<open>simp_all add: server_ok_def\<close>)
  moreover have "payout_part ?t"
    by (rule payout_frame [OF _ _ pub]) (use s in \<open>simp_all add: server_ok_def\<close>)
  ultimately show ?thesis
    using s by (simp add: server_ok_def)
qed

lemma server_ok_serve:
  assumes "server_ok E s" "fresh_draws d s" shows "server_ok E (snd (serve E d q s))"
proof (cases rule: serve_shape [of E d q s])
  case (1 result s1 status body)
  have "server_ok E s1"
    using 1(4) assms server_ok_step by blast
  then show ?thesis
    unfolding 1(3) snd_conv by (rule server_ok_trace)
qed

lemma server_ok_init: "server_ok E (server_init subs)"
proof -
  have "timeline_part (server_init subs)"
    by (simp add: timeline_part_def all_orders_wf_def orders_ok_def timeline_ok_def order_port_def server_init_def
        orders.keys_agree_fresh orders.every_fresh order_findById_def)
  moreover have "payment_part (server_init subs)"
    by (simp add: payments_ok_def payment_keys_ok_def captures_ok_def refunds_ok_def audit_ok_def captures_of_def completions_of_def
        payment_port_def server_init_def intents.keys_agree_fresh refunds.keys_agree_fresh refunds.find_fresh)
  moreover have "support_part (server_init subs)"
    by (simp add: escalations_ok_def support_port_def server_init_def tickets.keys_agree_fresh escalation_list_def map_values_def)
  moreover have "review_part (server_init subs)"
    by (simp add: reviews_ok_def review_port_def server_init_def reviews.keys_agree_fresh reviews.find_fresh resolutions_of_def)
  moreover have "queue_part (server_init subs)"
    by (simp add: queue_ok_def queued_items_def fanout_port_def server_init_def map_values_def)
  moreover have "payout_part (server_init subs)"
    by (simp add: payouts_ok_def payout_port_def server_init_def map_values_def)
  ultimately show ?thesis
    by (simp add: server_ok_def server_init_def identity_ok_empty menus_ok_empty jobs_ok_empty verifyChain_def)
qed

text \<open>A run of the server, one request after the other.\<close>

fun serve_all :: "environment \<Rightarrow> (draws \<times> request) list \<Rightarrow> server \<Rightarrow> server" where
  "serve_all E [] s = s"
| "serve_all E ((d, q) # rs) s = serve_all E rs (snd (serve E d q s))"

fun fresh_run :: "environment \<Rightarrow> (draws \<times> request) list \<Rightarrow> server \<Rightarrow> bool" where
  "fresh_run E [] s = True"
| "fresh_run E ((d, q) # rs) s = (fresh_draws d s \<and> fresh_run E rs (snd (serve E d q s)))"

lemma server_ok_run: "server_ok E s \<Longrightarrow> fresh_run E rs s \<Longrightarrow> server_ok E (serve_all E rs s)"
  by (induction E rs s rule: serve_all.induct) (simp_all add: server_ok_serve)

text \<open>C2: Whatever requests a server has answered, its services agree with each other through the one
  event log they share: the timeline of an order is what the log says of it and ends with the order's
  status, a payment is captured at most once and only when its intent says so, refunds stay within
  captured payments, the payment audit is the one announced, no ticket is escalated and no notification
  queued twice, a payout schedule runs once per date, no two users share an email or a phone, and the
  compliance log verifies.\<close>

theorem reachable_servers_consistent:
  assumes "fresh_run E rs (server_init subs)" and "s = serve_all E rs (server_init subs)"
  shows
    "(\<forall>i. timeline_getByOrderId i (ap_timeline s) = entries_of i (bus_events (ap_bus s))) \<and>
     (\<forall>i v. order_findById i (ap_orders s) = Some v \<longrightarrow>
        (\<exists>pre t. timeline_getByOrderId i (ap_timeline s) = pre @ [t] \<and> te_status t = orderStatus_name (or_status v))) \<and>
     (\<forall>i. length (filter (about ''payment.captured.v1'' ''paymentIntentId'' i) (bus_events (ap_bus s))) \<le>
        (case intent_findById i (ap_intents s) of Some v \<Rightarrow> if pi_status v = PAY_CAPTURED then 1 else 0 | None \<Rightarrow> 0)) \<and>
     (\<forall>i r. refund_findById i (ap_refunds s) = Some r \<longrightarrow> refund_ok (ap_intents s) r) \<and>
     events_of_type ''payment.audit_recorded.v1'' (bus_events (ap_bus s)) = map audit_event (ap_paymentAudit s) \<and>
     distinct (map se_ticketId (escalation_list (ap_escalations s))) \<and>
     events_of_type ''support.ticket_escalated.v1'' (bus_events (ap_bus s)) = map escalation_event (escalation_list (ap_escalations s)) \<and>
     distinct (map nq_idempotencyKey (map_values (qr_queue (ap_queue s)))) \<and>
     distinct (map (\<lambda>b. (pb_scheduleId b, pb_runAt b)) (map_values (ap_payouts s))) \<and>
     (\<forall>i j u v. user_findById i (ap_users s) = Some u \<longrightarrow> user_findById j (ap_users s) = Some v \<longrightarrow>
        iu_email u = iu_email v \<or> iu_phone u = iu_phone v \<longrightarrow> i = j) \<and>
     verifyChain (cf_sha256 E) (ap_audit s)"
proof -
  have ok: "server_ok E s"
    unfolding assms(2) by (rule server_ok_run [OF server_ok_init assms(1)])
  have tl: "ap_timeline s = fold projectEvent (bus_events (ap_bus s)) []"
    and last: "\<And>i v. order_findById i (ap_orders s) = Some v \<Longrightarrow>
      \<exists>pre t. entries_of i (bus_events (ap_bus s)) = pre @ [t] \<and> te_status t = orderStatus_name (or_status v)"
    using ok by (auto simp: server_ok_def timeline_part_def timeline_ok_def order_port_def)
  have entries: "timeline_getByOrderId i (ap_timeline s) = entries_of i (bus_events (ap_bus s))" for i
    unfolding tl timeline_project_all by (simp add: timeline_getByOrderId_def)
  have pay: "length (filter (about ''payment.captured.v1'' ''paymentIntentId'' i) (bus_events (ap_bus s))) \<le>
        (case intent_findById i (ap_intents s) of Some v \<Rightarrow> if pi_status v = PAY_CAPTURED then 1 else 0 | None \<Rightarrow> 0)"
    "refund_findById i (ap_refunds s) = Some r \<Longrightarrow> refund_ok (ap_intents s) r"
    "events_of_type ''payment.audit_recorded.v1'' (bus_events (ap_bus s)) = map audit_event (ap_paymentAudit s)" for i r
    using ok by (simp_all add: server_ok_def payments_ok_def captures_ok_def refunds_ok_def audit_ok_def captures_of_def payment_port_def)
  have sup: "distinct (map se_ticketId (escalation_list (ap_escalations s)))"
    "events_of_type ''support.ticket_escalated.v1'' (bus_events (ap_bus s)) = map escalation_event (escalation_list (ap_escalations s))"
    using ok by (auto simp: server_ok_def escalations_ok_def support_port_def)
  have que: "distinct (map nq_idempotencyKey (map_values (qr_queue (ap_queue s))))"
    "distinct (map (\<lambda>b. (pb_scheduleId b, pb_runAt b)) (map_values (ap_payouts s)))"
    using ok by (auto simp: server_ok_def queue_ok_def queued_items_def fanout_port_def payouts_ok_def payout_port_def)
  have users: "i = j" if "user_findById i (ap_users s) = Some u" "user_findById j (ap_users s) = Some v"
    "iu_email u = iu_email v \<or> iu_phone u = iu_phone v" for i j u v
  proof -
    have ids: "identity_ok (ap_users s)" using ok unfolding server_ok_def by blast
    have "u = v"
      using identity_ok_lookup [OF ids that(1)] identity_ok_lookup [OF ids that(2)] that(3) by (metis option.inject)
    moreover have "iu_id u = i" "iu_id v = j"
      using ids that(1,2) unfolding identity_ok_def by blast+
    ultimately show ?thesis by simp
  qed
  have chain: "verifyChain (cf_sha256 E) (ap_audit s)"
    using ok unfolding server_ok_def by blast
  show ?thesis
    unfolding entries
    apply (intro conjI allI impI)
    subgoal by (rule refl)
    subgoal by (rule last)
    subgoal by (rule pay(1))
    subgoal by (rule pay(2))
    subgoal by (rule pay(3))
    subgoal by (rule sup(1))
    subgoal by (rule sup(2))
    subgoal by (rule que(1))
    subgoal by (rule que(2))
    subgoal by (rule users)
    subgoal by (rule chain)
    done
qed

definition demo_env :: environment where
  "demo_env = \<lparr>cf_host = epoch_host, cf_jwt = demo_jwt, cf_jwtSecret = ''k'', cf_sha256 = id, cf_native = id,
     cf_quoteHash = (\<lambda>_. ''h''), cf_parseJson = (\<lambda>_. Some (JObj [(''orderId'', JStr ''o1''), (''actorId'', JStr ''a''),
       (''issueType'', JStr ''LATE''), (''summary'', JStr ''late'')])), cf_dispatch = None\<rparr>"

definition demo_draws :: draws where
  "demo_draws = \<lparr>dw_traceId = ''t'', dw_spanId = ''s'', dw_startedAt = ''0'', dw_startedMs = 0, dw_finishedAt = ''1'', dw_finishedMs = 1,
     dw_now = (\<lambda>_. ''1''), dw_ms = (\<lambda>_. 0), dw_uuid = (\<lambda>n. ''u''), dw_bytes = ''b'', dw_escalationId = id,
     dw_channelNow = (\<lambda>_. ''1''), dw_channelId = channel_name\<rparr>"

definition demo_request :: request where
  "demo_request = \<lparr>rq_method = ''POST'', rq_path = ''/api/v1/support/tickets'', rq_query = [], rq_authorization = None, rq_body = ''x''\<rparr>"

lemma demo_fresh: "fresh_run demo_env [(demo_draws, demo_request)] (server_init [])"
proof -
  have "inj channel_name"
    by (rule injI) (auto simp: channel_name_def split: notificationChannel.splits)
  then show ?thesis
    by (simp add: fresh_draws_def demo_draws_def server_init_def user_findById_def order_findById_def intent_findById_def
        refund_findById_def ticket_findById_def review_findById_def empty_identity_repo_def fresh_items_def fresh_escalations_def
        fanout_port_def support_port_def)
qed

lemma reachable_servers_consistent_witness:
  "verifyChain id (ap_audit (serve_all demo_env [(demo_draws, demo_request)] (server_init []))) \<and>
   distinct (map se_ticketId (escalation_list (ap_escalations (serve_all demo_env [(demo_draws, demo_request)] (server_init [])))))"
  using reachable_servers_consistent [OF demo_fresh refl] by (simp add: demo_env_def)

end
