(* ===== verification/Access.thy ===== *)
theory Access
  imports ServerReplies System
begin

text \<open>
  Who may reach the routes: the two guarded ones admit an administrator's valid access token and leave
  an accountable trace, the others never look at the token.
\<close>

section \<open>The guard\<close>

definition permission_of :: "route \<Rightarrow> string" where
  "permission_of r = (if r = Platform Break_glass_route then ''admin:break_glass'' else ''admin:read'')"

definition admitted :: "environment \<Rightarrow> draws \<Rightarrow> request \<Rightarrow> route \<Rightarrow> server \<Rightarrow> accessTokenClaims option" where
  "admitted E d q r s =
     (case extractBearerToken (rq_authorization q) of
        Inl _ \<Rightarrow> None
      | Inr token \<Rightarrow>
          (case verifyAccessToken (cf_jwt E) (dw_ms d 0) token (pt_get (auth_port (cf_jwtSecret E)) s) of
             Inl _ \<Rightarrow> None
           | Inr claims \<Rightarrow> if isAllowed (cl_role claims) (permission_of r) = Some True then Some claims else None))"

definition refused_statuses :: "nat set" where
  "refused_statuses = {400, 401, 403, 500}"

lemma admin_permission:
  assumes "isAllowed role (permission_of r) = Some True"
  shows "role = ''system_admin''"
proof (cases "obj_lookup rolePermissions role")
  case (Own ps)
  then have "(role, ps) \<in> set rolePermissions"
    by (auto simp: obj_lookup_def dest: map_of_SomeD split: option.splits if_splits)
  moreover from Own assms have "''*'' \<in> set ps \<or> permission_of r \<in> set ps" by (simp add: isAllowed_def)
  ultimately show ?thesis
    by (auto simp: rolePermissions_def permission_of_def split: if_splits)
qed (use assms in \<open>simp_all add: isAllowed_def\<close>)

lemma admitted_admin: "admitted E d q r s = Some claims \<Longrightarrow> cl_role claims = ''system_admin''"
  using admin_permission by (auto simp: admitted_def split: sum.splits if_splits)

lemma service_failure: "hs_status (handle_error (failure_object (Service e))) = service_status e"
  by (simp only: failure_object_def failure.case handled_status)

lemma bearer_refused:
  "extractBearerToken v = Inl e \<Longrightarrow> hs_status (handle_error (failure_object (Service (SE_request e)))) = 401"
  by (auto simp: extractBearerToken_def service_failure message_status_def split: option.splits if_splits)

lemma catch_thrown: "fst (catch_failure (Inl f)) = hs_status (handle_error (failure_object f))"
  by (simp add: catch_failure_def Let_def)

lemma guard_admits:
  "admitted E d q r s = Some claims \<Longrightarrow> admin_guard E d q (permission_of r) k s = k claims s"
  by (auto simp: admitted_def admin_guard_def valid_def demand_def split: sum.splits if_splits)

lemma guard_refuses:
  assumes "admitted E d q r s = None"
  shows "snd (admin_guard E d q (permission_of r) k s) = s \<and>
    fst (catch_failure (fst (admin_guard E d q (permission_of r) k s))) \<in> refused_statuses"
proof (cases "extractBearerToken (rq_authorization q)")
  case (Inl e)
  then show ?thesis
    using bearer_refused [OF Inl] by (simp add: admin_guard_def valid_def throw_def catch_thrown refused_statuses_def)
next
  case token: (Inr token)
  show ?thesis
  proof (cases "verifyAccessToken (cf_jwt E) (dw_ms d 0) token (pt_get (auth_port (cf_jwtSecret E)) s)")
    case (Inl e)
    then show ?thesis
      using token
      by (simp add: admin_guard_def valid_def demand_def throw_def catch_thrown service_failure refused_statuses_def)
  next
    case claims: (Inr claims)
    show ?thesis
    proof (cases "isAllowed (cl_role claims) (permission_of r)")
      case None
      have "''permissions.has is not a function'' \<notin> set invalid_request_messages"
        by (simp add: invalid_request_messages_def)
      with token claims None show ?thesis
        by (simp add: admin_guard_def valid_def demand_def throw_def catch_thrown failure_object_def error_obj_def handle_error_def
            statuses_table refused_statuses_def)
    next
      case (Some b)
      then have "\<not> b" using assms token claims by (auto simp: admitted_def split: if_splits)
      with token claims Some show ?thesis
        by (simp add: admin_guard_def valid_def demand_def permission_denied_def reply_def catch_failure_def refused_statuses_def)
    qed
  qed
qed

lemma break_glass_appends:
  assumes "admitted E d q (Platform Break_glass_route) s = Some claims"
    and "handle E d q (Platform Break_glass_route) s = (result, s1)" and "fst (catch_failure result) = 201"
  shows "\<exists>e. ap_audit s1 = ap_audit s @ [e] \<and> ae_actorId e = cl_sub claims \<and> ae_actionType e = ''ADMIN_BREAK_GLASS''"
proof -
  have "fst (catch_failure (Inl f)) \<noteq> 201" for f
    using handle_error_reply [of "failure_object f"] by (auto simp: error_reply_def catch_thrown)
  then show ?thesis
    using assms(2,3) guard_admits [OF assms(1)]
    by (auto simp: break_glass_route_def permission_of_def with_body_def parsed_def valid_def call_def reply_def throw_def
        audit_port_def appendEvent_def audit_append_def audit_entry_def break_glass_event_def Let_def audit_service.defs
        split: sum.splits prod.splits)
qed

text \<open>C37: The two routes of the administrator answer anything but a refusal only to a bearer token of this
  server that has not expired and whose role is the system administrator; refused, they change nothing but the
  request log; and an activated break-glass is in the compliance log under the administrator's id.\<close>

theorem admin_routes_admit_administrators:
  assumes "route_of (rq_method q) (rq_path q) = Some r" and "guarded r"
  shows "case admitted E d q r s of
      None \<Rightarrow> sp_status (fst (serve E d q s)) \<in> refused_statuses \<and>
        snd (serve E d q s) = s\<lparr>ap_logs := ap_logs (snd (serve E d q s)), ap_bus := ap_bus (snd (serve E d q s))\<rparr>
    | Some claims \<Rightarrow> cl_role claims = ''system_admin'' \<and>
        (r = Platform Break_glass_route \<and> sp_status (fst (serve E d q s)) = 201 \<longrightarrow>
           (\<exists>e. ap_audit (snd (serve E d q s)) = ap_audit s @ [e] \<and> ae_actorId e = cl_sub claims \<and>
              ae_actionType e = ''ADMIN_BREAK_GLASS''))"
proof (cases rule: serve_shape [of E d q s])
  case (1 result s1 status body)
  have run: "handle E d q r s = (result, s1)" using 1(1) assms(1) by (simp add: dispatch_request_def)
  show ?thesis
  proof (cases "admitted E d q r s")
    case None
    have "snd (handle E d q r s) = s \<and> fst (catch_failure (fst (handle E d q r s))) \<in> refused_statuses"
      using assms(2) guard_refuses [OF None]
      by (auto simp: guarded_def admin_health_route_def break_glass_route_def permission_of_def)
    with run 1(2,3) None show ?thesis by simp
  next
    case (Some claims)
    with break_glass_appends run 1(2,3) admitted_admin [OF Some] show ?thesis by fastforce
  qed
qed

definition admin_env :: environment where
  "admin_env = demo_env\<lparr>
     cf_jwt := demo_jwt\<lparr>jl_parse := \<lambda>p. Some \<lparr>cl_sub = ''u1'', cl_email = ''a'', cl_role = ''system_admin'', cl_iat = 1, cl_exp = 901\<rparr>\<rparr>,
     cf_parseJson := \<lambda>_. Some (JObj [(''reasonCode'', JStr ''outage'')])\<rparr>"

definition admin_request :: request where
  "admin_request = \<lparr>rq_method = ''POST'', rq_path = ''/api/v1/admin/break-glass/activate'', rq_query = [],
     rq_authorization = Some ''Bearer h.p.aw'', rq_body = ''x''\<rparr>"

lemma admin_request_route: "route_of (rq_method admin_request) (rq_path admin_request) = Some (Platform Break_glass_route)"
  unfolding admin_request_def by code_simp

lemma admin_token: "extractBearerToken (rq_authorization admin_request) = Inr ''h.p.aw''"
  unfolding admin_request_def by code_simp

lemma admin_token_parts: "split_char (CHR ''.'') ''h.p.aw'' = [''h'', ''p'', ''aw'']" "base64Url ''k'' = ''aw''"
  by code_simp+

lemma admin_allowed: "isAllowed ''system_admin'' p = Some True"
  by (simp add: isAllowed_def obj_lookup_def rolePermissions_def)

lemma admin_request_admitted:
  "\<exists>claims. admitted admin_env demo_draws admin_request (Platform Break_glass_route) s = Some claims \<and> cl_sub claims = ''u1''"
  unfolding admitted_def admin_token
  by (simp add: admin_env_def demo_env_def demo_jwt_def demo_draws_def verifyAccessToken_def admin_token_parts admin_allowed
      auth_port_def auth_service.defs epoch_seconds_def)

lemma admin_body:
  "js_trim ''x'' = ''x''" "validateBreakGlassActivationPayload (JObj [(''reasonCode'', JStr ''outage'')]) = Inr (''outage'', None)"
  by code_simp+

lemma admin_parsed: "with_body admin_env admin_request validateBreakGlassActivationPayload k = k (''outage'', None)"
  by (simp add: with_body_def parsed_def parseJsonBody_def admin_env_def admin_request_def admin_body valid_def Let_def)

lemma admin_request_answered: "sp_status (fst (serve admin_env demo_draws admin_request (server_init []))) = 201"
proof -
  obtain claims where "admitted admin_env demo_draws admin_request (Platform Break_glass_route) (server_init []) = Some claims"
    using admin_request_admitted by blast
  from guard_admits [OF this] have
    "break_glass_route admin_env demo_draws admin_request (server_init []) =
     call audit_port (Service \<circ> SE_risk)
       (appendEvent (cf_sha256 admin_env) None (dw_now demo_draws 0) (dw_uuid demo_draws 0) (break_glass_event claims (''outage'', None)))
       (\<lambda>event. reply 201 (B_platform (Break_glass_body (ae_auditEventId event) ''outage''))) (server_init [])"
    by (simp add: break_glass_route_def permission_of_def admin_parsed)
  then show ?thesis
    by (simp add: serve_def dispatch_request_def admin_request_route call_def appendEvent_def reply_def Let_def catch_failure_def
        split: prod.splits)
qed

lemma admin_routes_admit_administrators_witness:
  "\<exists>e. ap_audit (snd (serve admin_env demo_draws admin_request (server_init []))) = [e] \<and> ae_actorId e = ''u1''"
proof -
  obtain claims where "admitted admin_env demo_draws admin_request (Platform Break_glass_route) (server_init []) = Some claims"
    and "cl_sub claims = ''u1''"
    using admin_request_admitted by blast
  then show ?thesis
    using admin_routes_admit_administrators [OF admin_request_route, of admin_env demo_draws "server_init []"] admin_request_answered
    by (auto simp: guarded_def server_init_def)
qed

section \<open>The other routes\<close>

lemma unguarded_inputs:
  "with_body E (q\<lparr>rq_authorization := x\<rparr>) = with_body E q"
  "parsed E (q\<lparr>rq_authorization := x\<rparr>) = parsed E q"
  "required_query (q\<lparr>rq_authorization := x\<rparr>) = required_query q"
  by (simp_all add: fun_eq_iff with_body_def parsed_def required_query_def)

lemma unguarded_handlers:
  "r \<noteq> Admin_health_route \<Longrightarrow> r \<noteq> Break_glass_route \<Longrightarrow> handle_platform E d (q\<lparr>rq_authorization := x\<rparr>) r = handle_platform E d q r"
  "handle_identity E d (q\<lparr>rq_authorization := x\<rparr>) i = handle_identity E d q i"
  "handle_catalog E d (q\<lparr>rq_authorization := x\<rparr>) c = handle_catalog E d q c"
  "handle_ordering E d (q\<lparr>rq_authorization := x\<rparr>) oo = handle_ordering E d q oo"
  "handle_orders E d (q\<lparr>rq_authorization := x\<rparr>) os = handle_orders E d q os"
  "handle_courier E d (q\<lparr>rq_authorization := x\<rparr>) j = handle_courier E d q j"
  "handle_payments E d (q\<lparr>rq_authorization := x\<rparr>) p = handle_payments E d q p"
  "handle_support E d (q\<lparr>rq_authorization := x\<rparr>) u = handle_support E d q u"
  "handle_risk E d (q\<lparr>rq_authorization := x\<rparr>) k = handle_risk E d q k"
  "handle_settlement E d (q\<lparr>rq_authorization := x\<rparr>) m = handle_settlement E d q m"
  "handle_notifications E d (q\<lparr>rq_authorization := x\<rparr>) n = handle_notifications E d q n"
  subgoal by (cases r) (simp_all add: logs_route_def slo_route_def)
  subgoal by (cases i) (simp_all add: unguarded_inputs register_route_def login_route_def refresh_route_def mfa_route_def)
  subgoal by (cases c) (simp_all add: unguarded_inputs list_stores_route_def store_menu_route_def create_menu_route_def
      update_menu_route_def menu_versions_route_def get_menu_route_def store_status_route_def orderability_route_def
      orderability_time_def prep_time_route_def set_availability_route_def get_availability_route_def)
  subgoal by (cases oo) (simp_all add: unguarded_inputs upsert_zone_route_def validate_zone_route_def quote_route_def
      promotion_route_def checkout_route_def create_basket_route_def update_basket_route_def get_basket_route_def)
  subgoal by (cases os) (simp_all add: unguarded_inputs create_order_route_def consumer_orders_route_def get_order_route_def
      order_timeline_route_def cancel_order_route_def accept_order_route_def reject_order_route_def merchant_orders_route_def
      order_timeout_route_def request_dispatch_route_def rebuild_timeline_route_def assignment_for_def)
  subgoal by (cases j) (simp_all add: unguarded_inputs available_jobs_route_def list_jobs_route_def get_job_route_def
      telemetry_route_def accept_job_route_def pickup_job_route_def dropoff_job_route_def)
  subgoal by (cases p) (simp_all add: unguarded_inputs authorize_route_def capture_route_def cash_expected_route_def
      cash_collection_route_def request_refund_route_def approve_refund_route_def payment_audit_route_def)
  subgoal by (cases u) (simp_all add: unguarded_inputs create_ticket_route_def ticket_timeline_route_def
      intervention_route_def sla_route_def)
  subgoal by (cases k) (simp_all add: unguarded_inputs evaluate_policy_route_def list_rules_route_def upsert_rule_route_def
      queue_review_route_def resolve_review_route_def append_audit_route_def list_audit_route_def evidence_route_def)
  subgoal by (cases m) (simp_all add: unguarded_inputs post_journal_route_def reconcile_route_def ingest_route_def
      import_run_route_def reconciliation_results_route_def generate_payout_route_def payout_run_route_def
      publish_statement_route_def merchant_payouts_route_def courier_payouts_route_def)
  subgoal by (cases n) (simp_all add: unguarded_inputs fanout_route_def resolve_template_route_def retry_route_def
      record_receipt_route_def list_receipts_route_def)
  done

lemma unguarded_handle: "\<not> guarded r \<Longrightarrow> handle E d (q\<lparr>rq_authorization := x\<rparr>) r = handle E d q r"
  by (cases r) (simp_all add: unguarded_handlers guarded_def)

text \<open>C19: Only the two routes of the administrator depend on who calls: on every other path the answer and the
  state that follows are the same whatever authorization the request carries, or none.\<close>

theorem authorization_only_guards_administration:
  "serve E d (q\<lparr>rq_authorization := x\<rparr>) s = serve E d q s \<or>
   (\<exists>r. route_of (rq_method q) (rq_path q) = Some r \<and> guarded r)"
proof (rule disjCI)
  assume "\<nexists>r. route_of (rq_method q) (rq_path q) = Some r \<and> guarded r"
  then have "dispatch_request E d (q\<lparr>rq_authorization := x\<rparr>) = dispatch_request E d q"
    by (auto simp: dispatch_request_def unguarded_handle split: option.splits)
  then show "serve E d (q\<lparr>rq_authorization := x\<rparr>) s = serve E d q s"
    by (simp add: serve_def)
qed

end
