(* ===== verification/Wiring.thy ===== *)
theory Wiring
  imports Platform AppAuth
begin

text \<open>
  How the server chooses what it runs on, from its options and the environment (\<open>resolveDocumentStore\<close>,
  \<open>resolveEventBroker\<close>, \<open>resolveDispatchAssignmentClient\<close>, \<open>resolveRealtimeEventPublisher\<close> and the head of
  \<open>createServer\<close>), and the broker over a Redis stream. The Redis client, the Postgres pool and the gRPC
  channel are parameters.
\<close>

section \<open>Options\<close>

type_synonym process_env = "string \<Rightarrow> string option"

record ('d, 'b, 'c, 'r) createServerOptions =
  cs_enablePersistence :: "bool option"
  cs_documentStore :: "'d option"
  cs_eventBroker :: "'b option"
  cs_dispatchAssignmentClient :: "'c option"
  cs_realtimeEventPublisher :: "'r option"

datatype 'd store_choice = Given_store 'd | Postgres_store string

datatype 'b broker_choice = Given_broker 'b | Redis_broker string

datatype 'c dispatch_choice = Given_client 'c | Grpc_client string

datatype 'r publisher_choice = Given_publisher 'r | Http_publisher string "string option"

datatype wiring_error = DATABASE_URL_REQUIRED_FOR_POSTGRES_PERSISTENCE | PERSISTENCE_ENABLED_REQUIRES_DOCUMENT_STORE

text \<open>\<open>!value || value.trim().length === 0\<close>.\<close>

definition unset :: "string option \<Rightarrow> bool" where
  "unset v = (\<not> given v \<or> js_trim (nullish v []) = [])"

definition resolveDocumentStore ::
  "process_env \<Rightarrow> ('d, 'b, 'c, 'r) createServerOptions \<Rightarrow> wiring_error + 'd store_choice option"
where
  "resolveDocumentStore env opts =
     (case cs_documentStore opts of
        Some store \<Rightarrow> Inr (Some (Given_store store))
      | None \<Rightarrow>
          if env ''PERSISTENCE_MODE'' \<noteq> Some ''postgres'' then Inr None
          else if unset (env ''DATABASE_URL'') then Inl DATABASE_URL_REQUIRED_FOR_POSTGRES_PERSISTENCE
          else Inr (Some (Postgres_store (nullish (env ''DATABASE_URL'') []))))"

definition resolveEventBroker :: "process_env \<Rightarrow> ('d, 'b, 'c, 'r) createServerOptions \<Rightarrow> 'b broker_choice option" where
  "resolveEventBroker env opts =
     (case cs_eventBroker opts of
        Some broker \<Rightarrow> Some (Given_broker broker)
      | None \<Rightarrow>
          if env ''BROKER_MODE'' \<noteq> Some ''redis'' then None
          else Some (Redis_broker (nullish (env ''REDIS_URL'') ''redis://127.0.0.1:6379'')))"

definition resolveDispatchAssignmentClient :: "process_env \<Rightarrow> ('d, 'b, 'c, 'r) createServerOptions \<Rightarrow> 'c dispatch_choice option" where
  "resolveDispatchAssignmentClient env opts =
     (case cs_dispatchAssignmentClient opts of
        Some client \<Rightarrow> Some (Given_client client)
      | None \<Rightarrow>
          if unset (env ''DISPATCH_GRPC_TARGET'') then None else Some (Grpc_client (nullish (env ''DISPATCH_GRPC_TARGET'') [])))"

definition resolveRealtimeEventPublisher :: "process_env \<Rightarrow> ('d, 'b, 'c, 'r) createServerOptions \<Rightarrow> 'r publisher_choice option" where
  "resolveRealtimeEventPublisher env opts =
     (case cs_realtimeEventPublisher opts of
        Some publisher \<Rightarrow> Some (Given_publisher publisher)
      | None \<Rightarrow>
          if unset (env ''REALTIME_GATEWAY_BASE_URL'') then None
          else Some (Http_publisher (nullish (env ''REALTIME_GATEWAY_BASE_URL'') []) (env ''REALTIME_PUBLISH_API_KEY'')))"

section \<open>The head of the server\<close>

datatype ('d, 'b) event_bus_choice = Durable_bus "'d store_choice option" "'b broker_choice option" | In_memory_bus

record ('d, 'b, 'c, 'r) server_wiring =
  sw_persistenceEnabled :: bool
  sw_documentStore :: "'d store_choice option"
  sw_eventBus :: "('d, 'b) event_bus_choice"
  sw_dispatchAssignmentClient :: "'c dispatch_choice option"
  sw_relay :: "'r publisher_choice option"

definition wire_server ::
  "process_env \<Rightarrow> ('d, 'b, 'c, 'r) createServerOptions \<Rightarrow> wiring_error + ('d, 'b, 'c, 'r) server_wiring"
where
  "wire_server env opts =
     (case resolveDocumentStore env opts of
        Inl e \<Rightarrow> Inl e
      | Inr documentStore \<Rightarrow>
          (let persistenceEnabled = nullish (cs_enablePersistence opts) (documentStore \<noteq> None)
           in if persistenceEnabled \<and> documentStore = None then Inl PERSISTENCE_ENABLED_REQUIRES_DOCUMENT_STORE
              else Inr \<lparr>sw_persistenceEnabled = persistenceEnabled, sw_documentStore = documentStore,
                sw_eventBus = (if persistenceEnabled then Durable_bus documentStore (resolveEventBroker env opts) else In_memory_bus),
                sw_dispatchAssignmentClient = resolveDispatchAssignmentClient env opts,
                sw_relay = resolveRealtimeEventPublisher env opts\<rparr>))"

text \<open>The bus of a wired server writes to a store exactly when it is durable.\<close>

lemma wired_bus:
  assumes "wire_server env opts = Inr w"
  shows "sw_eventBus w = In_memory_bus \<and> \<not> sw_persistenceEnabled w \<or>
    (\<exists>store. sw_eventBus w = Durable_bus (Some store) (resolveEventBroker env opts) \<and> sw_persistenceEnabled w \<and> sw_documentStore w = Some store)"
  using assms by (auto simp: wire_server_def Let_def split: sum.splits if_splits)

text \<open>The server does not start exactly when Postgres is asked for without an address, or persistence without
  a store.\<close>

lemma wiring_refused:
  "(\<exists>e. wire_server env opts = Inl e) \<longleftrightarrow>
     cs_documentStore opts = None \<and>
     (if env ''PERSISTENCE_MODE'' = Some ''postgres'' then unset (env ''DATABASE_URL'') else cs_enablePersistence opts = Some True)"
  by (auto simp: wire_server_def resolveDocumentStore_def Let_def nullish_def split: option.splits)

text \<open>A broker that is configured without a store is never used.\<close>

lemma broker_without_store_unused:
  assumes "wire_server env opts = Inr w" "cs_documentStore opts = None" "env ''PERSISTENCE_MODE'' \<noteq> Some ''postgres''"
  shows "sw_eventBus w = In_memory_bus"
  using assms by (auto simp: wire_server_def resolveDocumentStore_def Let_def split: if_splits)

section \<open>The Redis broker\<close>

text \<open>The client: each call succeeds or rejects, over any state of the other side. The promise of the
  connection keeps its outcome.\<close>

record 'w redis_client =
  rl_connect :: "'w \<Rightarrow> bool \<times> 'w"
  rl_xAdd :: "string \<Rightarrow> (string \<times> string) list \<Rightarrow> 'w \<Rightarrow> bool \<times> 'w"
  rl_isOpen :: "'w \<Rightarrow> bool"
  rl_quit :: "'w \<Rightarrow> bool \<times> 'w"

record 'w redis_broker =
  rb_streamName :: string
  rb_connectionPromise :: "bool option"
  rb_redis :: 'w

definition new_redis_broker :: "string option \<Rightarrow> 'w \<Rightarrow> 'w redis_broker" where
  "new_redis_broker streamName w =
     \<lparr>rb_streamName = nullish streamName ''platform.events'', rb_connectionPromise = None, rb_redis = w\<rparr>"

definition ensureConnected :: "'w redis_client \<Rightarrow> 'w redis_broker \<Rightarrow> bool \<times> 'w redis_broker" where
  "ensureConnected L b =
     (case rb_connectionPromise b of
        Some ok \<Rightarrow> (ok, b)
      | None \<Rightarrow> (case rl_connect L (rb_redis b) of (ok, w) \<Rightarrow> (ok, b\<lparr>rb_connectionPromise := Some ok, rb_redis := w\<rparr>)))"

definition redis_publish :: "'w redis_client \<Rightarrow> string \<Rightarrow> string \<Rightarrow> iso_date \<Rightarrow> 'w redis_broker \<Rightarrow> bool \<times> 'w redis_broker" where
  "redis_publish L topic payload now b =
     (case ensureConnected L b of
        (ok, b1) \<Rightarrow>
          if \<not> ok then (False, b1)
          else (case rl_xAdd L (rb_streamName b1) [(''topic'', topic), (''payload'', payload), (''published_at'', now)] (rb_redis b1) of
                  (added, w) \<Rightarrow> (added, b1\<lparr>rb_redis := w\<rparr>)))"

definition redis_close :: "'w redis_client \<Rightarrow> 'w redis_broker \<Rightarrow> bool \<times> 'w redis_broker" where
  "redis_close L b =
     (if \<not> rl_isOpen L (rb_redis b) then (True, b)
      else (case rl_quit L (rb_redis b) of (ok, w) \<Rightarrow> (ok, b\<lparr>rb_redis := w\<rparr>)))"

text \<open>The first publish connects and the later ones never do, also after a close.\<close>

lemma redis_connects_once:
  "rb_connectionPromise (snd (redis_publish L topic payload now b)) \<noteq> None"
  "rb_connectionPromise b \<noteq> None \<Longrightarrow>
     redis_publish (L\<lparr>rl_connect := f\<rparr>) topic payload now b = redis_publish L topic payload now b \<and>
     rb_connectionPromise (snd (redis_publish L topic payload now b)) = rb_connectionPromise b"
  by (auto simp: redis_publish_def ensureConnected_def split: option.split prod.split)

lemma redis_close_keeps_connection: "rb_connectionPromise (snd (redis_close L b)) = rb_connectionPromise b"
  by (simp add: redis_close_def split: prod.split)

text \<open>A connection that failed once fails every later publish.\<close>

lemma redis_failure_sticks:
  assumes "rb_connectionPromise b = Some False"
  shows "redis_publish L topic payload now b = (False, b)"
  using assms by (simp add: redis_publish_def ensureConnected_def)

text \<open>Over a client that appends, the stream holds the messages of the in-memory broker.\<close>

definition stream_message :: "(string \<times> string) list \<Rightarrow> broker_message" where
  "stream_message entry = (let get = (\<lambda>k. nullish (map_of entry k) []) in
     \<lparr>bm_topic = get ''topic'', bm_payload = get ''payload'', bm_publishedAt = get ''published_at''\<rparr>)"

lemma redis_refines_broker:
  assumes "rb_connectionPromise b = Some True" and "\<And>entry w. rl_xAdd L (rb_streamName b) entry w = (True, w @ [entry])"
  shows "fst (redis_publish L topic payload now b) \<and>
    map stream_message (rb_redis (snd (redis_publish L topic payload now b))) =
      broker_publish topic payload now (map stream_message (rb_redis b))"
  using assms by (simp add: redis_publish_def ensureConnected_def broker_publish_def stream_message_def Let_def nullish_def)

end
