(* ===== verification/CoreClient.thy ===== *)
theory CoreClient
  imports Routing
begin

text \<open>
  The calls of the application services to the core API (\<open>createConsumerCoreApiDependencies\<close>,
  \<open>createCourierCoreApiDependencies\<close>, \<open>createOpsCoreApiDependencies\<close>): the address and the body of each
  request, what its answer is read as, and the chain of five requests of a quick order. \<open>fetch\<close> is
  a parameter over any state of the other side.
\<close>

section \<open>encodeURIComponent\<close>

definition uri_unreserved :: "char \<Rightarrow> bool" where
  "uri_unreserved c = (let n = (of_char c :: nat) in
     65 \<le> n \<and> n \<le> 90 \<or> 97 \<le> n \<and> n \<le> 122 \<or> 48 \<le> n \<and> n \<le> 57 \<or> c \<in> set ''-_.!~*'' \<or> n \<in> {39, 40, 41})"

definition hex_char :: "nat \<Rightarrow> char" where
  "hex_char n = (if n < 10 then char_of (48 + n) else char_of (55 + n))"

definition escape_char :: "char \<Rightarrow> string" where
  "escape_char c = (if uri_unreserved c then [c]
     else [CHR ''%'', hex_char (of_char c div 16), hex_char (of_char c mod 16)])"

text \<open>\<open>None\<close> is the \<open>URIError\<close> of a lone surrogate: the bytes are not UTF-8.\<close>

definition encodeURIComponent :: "string \<Rightarrow> string option" where
  "encodeURIComponent s = (if valid_utf8 (bytes_of s) then Some (concat (map escape_char s)) else None)"

lemma radix_hex: "n < 16 \<Longrightarrow> radix_digit 16 (hex_char n) = Some n"
  by (auto simp: radix_digit_def hex_char_def Let_def)

lemma uri_unreserved_plain: "uri_unreserved c \<Longrightarrow> c \<noteq> CHR ''%'' \<and> c \<noteq> CHR ''/''"
  by (auto simp: uri_unreserved_def Let_def)

lemma high_nibble: "(of_char c :: nat) div 16 < 16"
proof -
  have "(of_char c :: nat) < 256" by simp
  then show ?thesis by linarith
qed

lemma unescape_escape: "unescape (escape_char c @ s) = map_option ((#) c) (unescape s)"
proof -
  have "radix_digit 16 (hex_char (of_char c div 16)) = Some (of_char c div 16)"
    and "radix_digit 16 (hex_char (of_char c mod 16)) = Some (of_char c mod 16)"
    by (simp_all add: radix_hex high_nibble)
  then show ?thesis
    using uri_unreserved_plain [of c] by (auto simp: escape_char_def mult.commute)
qed

lemma escaped_back: "unescape (concat (map escape_char s)) = Some s"
  by (induction s) (simp_all add: unescape_escape)

lemma decode_encode:
  assumes "encodeURIComponent s = Some e"
  shows "decodeURIComponent e = Some s"
  using assms by (auto simp: encodeURIComponent_def decodeURIComponent_def escaped_back split: if_splits)

lemma hex_char_slash: "n < 16 \<Longrightarrow> hex_char n \<noteq> CHR ''/''"
proof
  assume "n < 16" "hex_char n = CHR ''/''"
  then have "(of_char (hex_char n) :: nat) = 47" by simp
  with \<open>n < 16\<close> show False by (auto simp: hex_char_def split: if_splits)
qed

lemma escape_char_segment: "segment_ok (escape_char c)"
  using uri_unreserved_plain [of c] hex_char_slash [OF high_nibble, of c] hex_char_slash [of "of_char c mod 16"]
  by (auto simp: segment_ok_def escape_char_def)

lemma encoded_segment:
  assumes "encodeURIComponent s = Some e"
  shows "segment_ok e \<longleftrightarrow> s \<noteq> []"
  using assms escape_char_segment
  by (cases s) (auto simp: encodeURIComponent_def segment_ok_def split: if_splits)

section \<open>Requests\<close>

text \<open>A request of \<open>fetch\<close>: the segments of the path, the parameters of the query as they stand in the
  URL, and the body.\<close>

record http_call =
  hc_method :: string
  hc_segments :: "string list"
  hc_query :: "(string \<times> string) list"
  hc_body :: "json option"

text \<open>The URL parser of \<open>fetch\<close> takes out the segments \<open>.\<close> and \<open>..\<close>; at the end of the path they leave
  an empty segment.\<close>

fun url_segments :: "string list \<Rightarrow> string list \<Rightarrow> string list" where
  "url_segments acc [] = rev acc"
| "url_segments acc (s # ss) =
     (if s = ''..'' then url_segments (if ss = [] then [] # tl acc else tl acc) ss
      else if s = ''.'' then url_segments (if ss = [] then [] # acc else acc) ss
      else url_segments (s # acc) ss)"

definition call_path :: "http_call \<Rightarrow> string" where
  "call_path c = render_path (url_segments [] (hc_segments c))"

text \<open>The answer: \<open>fetch\<close> rejects, or there is a status and a body, which may not be JSON.\<close>

datatype fetch_result = Fetch_failed | Answered nat "json option"

definition http_ok :: "nat \<Rightarrow> bool" where
  "http_ok status = (200 \<le> status \<and> status < 300)"

text \<open>What a call throws: the error of a response that is not \<open>ok\<close>, the rejection of \<open>fetch\<close>, of
  \<open>response.json()\<close> or of \<open>encodeURIComponent\<close>, or the access to a property of a value that has none.\<close>

datatype client_error = Core_api_failed string | Fetch_rejected | Invalid_json | Uri_error | Client_type_error

type_synonym 'w fetch = "http_call \<Rightarrow> 'w \<Rightarrow> fetch_result \<times> 'w"

type_synonym ('w, 'a) client = "'w \<Rightarrow> (client_error + 'a) \<times> 'w"

definition client_return :: "'a \<Rightarrow> ('w, 'a) client" where
  "client_return x w = (Inr x, w)"

definition client_throw :: "client_error \<Rightarrow> ('w, 'a) client" where
  "client_throw e w = (Inl e, w)"

definition fetch_json :: "'w fetch \<Rightarrow> http_call \<Rightarrow> string \<Rightarrow> (json \<Rightarrow> ('w, 'a) client) \<Rightarrow> ('w, 'a) client" where
  "fetch_json fetch c code k w =
     (case fetch c w of
        (Fetch_failed, w1) \<Rightarrow> (Inl Fetch_rejected, w1)
      | (Answered status body, w1) \<Rightarrow>
          if \<not> http_ok status then (Inl (Core_api_failed code), w1)
          else (case body of None \<Rightarrow> (Inl Invalid_json, w1) | Some payload \<Rightarrow> k payload w1))"

definition with_encoded :: "string \<Rightarrow> (string \<Rightarrow> ('w, 'a) client) \<Rightarrow> ('w, 'a) client" where
  "with_encoded s k = (case encodeURIComponent s of None \<Rightarrow> client_throw Uri_error | Some e \<Rightarrow> k e)"

text \<open>\<open>payload.name\<close> of an answer that is cast, not checked.\<close>

definition with_fields :: "json \<Rightarrow> ((string \<Rightarrow> json option) \<Rightarrow> ('w, 'a) client) \<Rightarrow> ('w, 'a) client" where
  "with_fields payload k =
     (case payload of JNull \<Rightarrow> client_throw Client_type_error | JObj ps \<Rightarrow> k (jprop ps) | _ \<Rightarrow> k (\<lambda>_. None))"

text \<open>\<open>(x ?? []).map(f)\<close>, where \<open>f\<close> reads properties of each element.\<close>

definition mapped_list :: "json option \<Rightarrow> ((string \<Rightarrow> json option) \<Rightarrow> 'a) \<Rightarrow> ('w, 'a list) client" where
  "mapped_list j f =
     (case j of
        None \<Rightarrow> client_return []
      | Some JNull \<Rightarrow> client_return []
      | Some (JArr xs) \<Rightarrow>
          if JNull \<in> set xs then client_throw Client_type_error
          else client_return (map (\<lambda>x. f (case x of JObj ps \<Rightarrow> jprop ps | _ \<Rightarrow> (\<lambda>_. None))) xs)
      | Some _ \<Rightarrow> client_throw Client_type_error)"

definition get_call :: "string list \<Rightarrow> (string \<times> string) list \<Rightarrow> http_call" where
  "get_call segments query = \<lparr>hc_method = ''GET'', hc_segments = segments, hc_query = query, hc_body = None\<rparr>"

definition send_call :: "string \<Rightarrow> string list \<Rightarrow> json option \<Rightarrow> http_call" where
  "send_call method segments body = \<lparr>hc_method = method, hc_segments = segments, hc_query = [], hc_body = body\<rparr>"

section \<open>The consumer service\<close>

record consumerOrderView =
  cv_id :: "json option"
  cv_status :: "json option"
  cv_timelineVersion :: jsnum

definition consumer_order_view :: "(string \<Rightarrow> json option) \<Rightarrow> consumerOrderView" where
  "consumer_order_view get =
     \<lparr>cv_id = get ''id'', cv_status = get ''status'', cv_timelineVersion = nullish (jnumber (get ''timelineVersion'')) (Fin 0)\<rparr>"

definition getOrderById :: "'w fetch \<Rightarrow> string \<Rightarrow> ('w, consumerOrderView) client" where
  "getOrderById fetch orderId = with_encoded orderId (\<lambda>i.
     fetch_json fetch (get_call [''api'', ''v1'', ''consumer'', ''orders'', i] []) ''CORE_API_CONSUMER_ORDER_FETCH_FAILED'' (\<lambda>payload.
     with_fields payload (\<lambda>get. client_return (consumer_order_view get))))"

record quickOrderModifier =
  qm_name :: string
  qm_priceCents :: jsnum

record quickOrderItem =
  qi_itemId :: string
  qi_name :: string
  qi_quantity :: jsnum
  qi_unitPriceCents :: jsnum
  qi_modifiers :: "quickOrderModifier list"

record quickCreateOrderInput =
  qo_consumerId :: string
  qo_merchantId :: string
  qo_currency :: string
  qo_item :: quickOrderItem

text \<open>\<open>JSON.stringify\<close>: a number that is not finite becomes \<open>null\<close>, an undefined property is left out.\<close>

definition json_number :: "jsnum \<Rightarrow> json" where
  "json_number a = (if is_finite a then JNum a else JNull)"

definition json_fields :: "(string \<times> json option) list \<Rightarrow> json" where
  "json_fields fs = JObj (List.map_filter (\<lambda>(k, v). map_option (Pair k) v) fs)"

definition quick_unit_price :: "quickOrderItem \<Rightarrow> jsnum" where
  "quick_unit_price i = num_add (qi_unitPriceCents i) (fold (\<lambda>m total. num_add total (qm_priceCents m)) (qi_modifiers i) (Fin 0))"

definition quick_modifiers :: "quickOrderItem \<Rightarrow> string list" where
  "quick_modifiers i = filter (\<lambda>n. 0 < length n) (map (\<lambda>m. js_trim (qm_name m)) (qi_modifiers i))"

definition basket_create_body :: "quickCreateOrderInput \<Rightarrow> json" where
  "basket_create_body q = JObj [(''consumerId'', JStr (qo_consumerId q)), (''merchantId'', JStr (qo_merchantId q)),
     (''currency'', JStr (qo_currency q))]"

definition basket_update_body :: "quickOrderItem \<Rightarrow> json" where
  "basket_update_body i = JObj [(''items'', JArr [JObj
     [(''itemId'', JStr (qi_itemId i)), (''name'', JStr (qi_name i)), (''quantity'', json_number (qi_quantity i)),
      (''unitPriceCents'', json_number (quick_unit_price i)), (''modifiers'', JArr (map JStr (quick_modifiers i)))]])]"

definition post_json :: "string list \<Rightarrow> json \<Rightarrow> http_call" where
  "post_json segments body = send_call ''POST'' segments (Some body)"

text \<open>\<open>encodeURIComponent\<close> of the id an answer names: a string, or the text of another value, which
  \<open>native\<close> gives for numbers, booleans, arrays and objects.\<close>

definition text_of :: "(json \<Rightarrow> string) \<Rightarrow> json option \<Rightarrow> string" where
  "text_of native j = (case j of None \<Rightarrow> ''undefined'' | Some JNull \<Rightarrow> ''null'' | Some (JStr s) \<Rightarrow> s | Some v \<Rightarrow> native v)"

definition quickCreateOrder :: "(json \<Rightarrow> string) \<Rightarrow> 'w fetch \<Rightarrow> quickCreateOrderInput \<Rightarrow> ('w, consumerOrderView) client" where
  "quickCreateOrder native fetch q =
     fetch_json fetch (post_json [''api'', ''v1'', ''consumer'', ''baskets''] (basket_create_body q))
       ''CORE_API_CONSUMER_BASKET_CREATE_FAILED'' (\<lambda>basket.
     with_fields basket (\<lambda>basket.
     with_encoded (text_of native (basket ''id'')) (\<lambda>i.
     fetch_json fetch (send_call ''PATCH'' [''api'', ''v1'', ''consumer'', ''baskets'', i] (Some (basket_update_body (qo_item q))))
       ''CORE_API_CONSUMER_BASKET_UPDATE_FAILED'' (\<lambda>_.
     fetch_json fetch (post_json [''api'', ''v1'', ''consumer'', ''quotes''] (json_fields [(''basketId'', basket ''id'')]))
       ''CORE_API_CONSUMER_QUOTE_CREATE_FAILED'' (\<lambda>quote.
     with_fields quote (\<lambda>quote.
     fetch_json fetch (post_json [''api'', ''v1'', ''consumer'', ''checkout'']
         (json_fields [(''basketId'', quote ''basketId''), (''quoteId'', quote ''quoteId''), (''quoteHash'', quote ''quoteHash'')]))
       ''CORE_API_CONSUMER_CHECKOUT_CREATE_FAILED'' (\<lambda>checkout.
     with_fields checkout (\<lambda>checkout.
     fetch_json fetch (post_json [''api'', ''v1'', ''consumer'', ''orders'']
         (json_fields [(''checkoutId'', checkout ''checkoutId''), (''quoteHash'', checkout ''quoteHash'')]))
       ''CORE_API_CONSUMER_ORDER_CREATE_FAILED'' (\<lambda>order.
     with_fields order (\<lambda>get. client_return (consumer_order_view get)))))))))))"

section \<open>The courier service\<close>

record courierJobView =
  jv_jobId :: "json option"
  jv_orderId :: "json option"
  jv_status :: "json option"

definition courier_job_view :: "(string \<Rightarrow> json option) \<Rightarrow> courierJobView" where
  "courier_job_view get = \<lparr>jv_jobId = get ''jobId'', jv_orderId = get ''orderId'', jv_status = get ''status''\<rparr>"

definition bff_listAvailableJobs :: "'w fetch \<Rightarrow> ('w, courierJobView list) client" where
  "bff_listAvailableJobs fetch =
     fetch_json fetch (get_call [''api'', ''v1'', ''courier'', ''jobs'', ''available''] []) ''CORE_API_COURIER_AVAILABLE_JOBS_FETCH_FAILED'' (\<lambda>payload.
     with_fields payload (\<lambda>get. mapped_list (get ''jobs'') courier_job_view))"

text \<open>The answer of the three job actions is passed on as it is.\<close>

definition job_action :: "string \<Rightarrow> string \<Rightarrow> 'w fetch \<Rightarrow> string \<Rightarrow> string \<Rightarrow> ('w, json) client" where
  "job_action action code fetch jobId courierId = with_encoded jobId (\<lambda>i.
     fetch_json fetch (post_json [''api'', ''v1'', ''courier'', ''jobs'', i, action] (JObj [(''courierId'', JStr courierId)])) code client_return)"

definition bff_acceptJob :: "'w fetch \<Rightarrow> string \<Rightarrow> string \<Rightarrow> ('w, json) client" where
  "bff_acceptJob = job_action ''accept'' ''CORE_API_COURIER_ACCEPT_JOB_FAILED''"

definition bff_pickupJob :: "'w fetch \<Rightarrow> string \<Rightarrow> string \<Rightarrow> ('w, json) client" where
  "bff_pickupJob = job_action ''pickup'' ''CORE_API_COURIER_PICKUP_JOB_FAILED''"

definition bff_dropoffJob :: "'w fetch \<Rightarrow> string \<Rightarrow> string \<Rightarrow> ('w, json) client" where
  "bff_dropoffJob = job_action ''dropoff'' ''CORE_API_COURIER_DROPOFF_JOB_FAILED''"

section \<open>The service of merchants and administrators\<close>

record merchantOrderView =
  mv_id :: "json option"
  mv_status :: "json option"

definition merchant_order_view :: "(string \<Rightarrow> json option) \<Rightarrow> merchantOrderView" where
  "merchant_order_view get = \<lparr>mv_id = get ''id'', mv_status = get ''status''\<rparr>"

definition acceptMerchantOrder :: "'w fetch \<Rightarrow> string \<Rightarrow> ('w, merchantOrderView) client" where
  "acceptMerchantOrder fetch orderId = with_encoded orderId (\<lambda>i.
     fetch_json fetch (send_call ''POST'' [''api'', ''v1'', ''merchant'', ''orders'', i, ''accept''] None) ''CORE_API_MERCHANT_ORDER_ACCEPT_FAILED'' (\<lambda>payload.
     with_fields payload (\<lambda>get. client_return (merchant_order_view get))))"

definition requestDispatchAssignment :: "'w fetch \<Rightarrow> string \<Rightarrow> json option \<Rightarrow> ('w, merchantOrderView) client" where
  "requestDispatchAssignment fetch orderId input = with_encoded orderId (\<lambda>i.
     fetch_json fetch (post_json [''internal'', ''orders'', i, ''request-dispatch''] (json_nullish input (JObj []))) ''CORE_API_DISPATCH_REQUEST_FAILED'' (\<lambda>payload.
     with_fields payload (\<lambda>get. client_return (merchant_order_view get))))"

definition listMerchantOrders :: "'w fetch \<Rightarrow> string \<Rightarrow> ('w, merchantOrderView list) client" where
  "listMerchantOrders fetch merchantId = with_encoded merchantId (\<lambda>i.
     fetch_json fetch (get_call [''api'', ''v1'', ''merchant'', ''orders''] [(''merchantId'', i)]) ''CORE_API_MERCHANT_ORDERS_FETCH_FAILED'' (\<lambda>payload.
     with_fields payload (\<lambda>get. mapped_list (get ''orders'') merchant_order_view)))"

record incidentView =
  iv_id :: "json option"
  iv_severity :: string

text \<open>\<open>log.statusCode >= 500\<close>: a value that is not a number is converted by \<open>to_number\<close>.\<close>

definition incident_view :: "(json option \<Rightarrow> jsnum) \<Rightarrow> (string \<Rightarrow> json option) \<Rightarrow> incidentView" where
  "incident_view to_number get =
     \<lparr>iv_id = get ''traceId'', iv_severity = (if num_le (Fin 500) (to_number (get ''statusCode'')) then ''HIGH'' else ''LOW'')\<rparr>"

definition listAdminIncidents :: "(json option \<Rightarrow> jsnum) \<Rightarrow> 'w fetch \<Rightarrow> ('w, incidentView list) client" where
  "listAdminIncidents to_number fetch =
     fetch_json fetch (get_call [''internal'', ''observability'', ''logs''] []) ''CORE_API_OBSERVABILITY_LOGS_FETCH_FAILED'' (\<lambda>payload.
     with_fields payload (\<lambda>get. mapped_list (get ''logs'') (incident_view to_number)))"

text \<open>\<open>payload.name ?? []\<close>, passed on as it is.\<close>

definition passed_list :: "'w fetch \<Rightarrow> http_call \<Rightarrow> string \<Rightarrow> string \<Rightarrow> ('w, json) client" where
  "passed_list fetch c code name = fetch_json fetch c code (\<lambda>payload.
     with_fields payload (\<lambda>get. client_return (json_nullish (get name) (JArr []))))"

definition listAdminComplianceAuditEvents :: "'w fetch \<Rightarrow> ('w, json) client" where
  "listAdminComplianceAuditEvents fetch =
     passed_list fetch (get_call [''internal'', ''risk'', ''compliance'', ''audit'', ''events''] []) ''CORE_API_COMPLIANCE_AUDIT_EVENTS_FETCH_FAILED'' ''events''"

definition getAdminSloDashboard :: "'w fetch \<Rightarrow> ('w, json) client" where
  "getAdminSloDashboard fetch =
     fetch_json fetch (get_call [''internal'', ''observability'', ''slo'', ''dashboard''] []) ''CORE_API_SLO_DASHBOARD_FETCH_FAILED'' client_return"

definition listMerchantPayoutStatements :: "'w fetch \<Rightarrow> string \<Rightarrow> ('w, json) client" where
  "listMerchantPayoutStatements fetch merchantId = with_encoded merchantId (\<lambda>i.
     passed_list fetch (get_call [''api'', ''v1'', ''merchant'', ''payouts''] [(''merchantId'', i)]) ''CORE_API_MERCHANT_PAYOUTS_FETCH_FAILED'' ''statements'')"

section \<open>Where the calls arrive\<close>

definition plain_segment :: "string \<Rightarrow> bool" where
  "plain_segment s = (s \<noteq> [] \<and> s \<noteq> ''.'' \<and> s \<noteq> ''..'')"

lemma url_segments_plain: "list_all plain_segment ss \<Longrightarrow> url_segments acc ss = rev acc @ ss"
  by (induction ss arbitrary: acc) (simp_all add: plain_segment_def)

lemma encoded_plain:
  assumes "encodeURIComponent s = Some e" "plain_segment s"
  shows "plain_segment e \<and> segment_ok e"
proof -
  have dots: "decodeURIComponent ''.'' = Some ''.''" "decodeURIComponent ''..'' = Some ''..''"
    by (simp_all add: decode_plain)
  have "e \<noteq> ''.''" "e \<noteq> ''..''"
    using decode_encode [OF assms(1)] assms(2) dots by (auto simp: plain_segment_def)
  moreover have "segment_ok e"
    using encoded_segment [OF assms(1)] assms(2) by (simp add: plain_segment_def)
  ultimately show ?thesis by (simp add: plain_segment_def segment_ok_def)
qed

definition call_route :: "http_call \<Rightarrow> route option" where
  "call_route c = route_of (hc_method c) (call_path c)"

lemma call_reaches:
  assumes "address_of r = (hc_method c, hc_segments c)" "list_all (\<lambda>s. plain_segment s \<and> segment_ok s) (hc_segments c)"
    and "r \<noteq> Courier (Get_job_route ''available'')"
  shows "call_route c = Some r"
proof -
  have "list_all plain_segment (hc_segments c)" "list_all segment_ok (hc_segments c)"
    using assms(2) by (auto simp: list_all_iff)
  with assms show ?thesis
    by (simp add: call_route_def route_of_iff call_path_def url_segments_plain)
qed

lemmas literal_segments = plain_segment_def segment_ok_def

text \<open>\<open>fetch\<close> with a record of the requests.\<close>

definition recorded :: "'w fetch \<Rightarrow> (http_call list \<times> 'w) fetch" where
  "recorded fetch c s = (case fetch c (snd s) of (r, w) \<Rightarrow> (r, (fst s @ [c], w)))"

definition calls_of :: "(http_call list \<times> 'w, 'a) client \<Rightarrow> 'w \<Rightarrow> http_call list" where
  "calls_of m w = fst (snd (m ([], w)))"

text \<open>The answers: after a request nothing else is asked, unless the continuation asks.\<close>

definition quiet :: "(http_call list \<times> 'w, 'a) client \<Rightarrow> bool" where
  "quiet m = (\<forall>s. fst (snd (m s)) = fst s)"

named_theorems quieting \<open>rules for what asks nothing\<close>

lemma quiet_return [quieting]: "quiet (client_return x)"
  by (simp add: quiet_def client_return_def)

lemma quiet_throw [quieting]: "quiet (client_throw e)"
  by (simp add: quiet_def client_throw_def)

lemma quiet_fields [quieting]: "(\<And>get. quiet (k get)) \<Longrightarrow> quiet (with_fields payload k)"
  by (auto simp: with_fields_def quieting split: json.split)

lemma quiet_list [quieting]: "quiet (mapped_list j f)"
  by (auto simp: mapped_list_def quieting split: option.split json.split)

lemma one_call:
  assumes "\<And>payload. quiet (k payload)"
  shows "calls_of (fetch_json (recorded fetch) c code k) w = [c]"
  using assms by (auto simp: calls_of_def fetch_json_def recorded_def quiet_def split: prod.split fetch_result.split option.split)

lemma one_encoded_call:
  assumes "encodeURIComponent i = Some e" "\<And>payload. quiet (k payload)"
  shows "calls_of (with_encoded i (\<lambda>e. fetch_json (recorded fetch) (c e) code k)) w = [c e]"
  using one_call [OF assms(2)] assms(1) by (simp add: with_encoded_def)

definition arrives :: "(http_call list \<times> 'w, 'a) client \<Rightarrow> 'w \<Rightarrow> route \<Rightarrow> bool" where
  "arrives m w r = (map call_route (calls_of m w) = [Some r])"

lemma arrives_get:
  assumes "encodeURIComponent i = Some e" "plain_segment i" "\<And>payload. quiet (k payload)"
    and "address_of r = (hc_method (c e), hc_segments (c e))" "r \<noteq> Courier (Get_job_route ''available'')"
    and "list_all (\<lambda>s. s = e \<or> plain_segment s \<and> segment_ok s) (hc_segments (c e))"
  shows "arrives (with_encoded i (\<lambda>e. fetch_json (recorded fetch) (c e) code k)) w r"
proof -
  have "list_all (\<lambda>s. plain_segment s \<and> segment_ok s) (hc_segments (c e))"
    using assms(6) encoded_plain [OF assms(1,2)] by (auto simp: list_all_iff)
  then show ?thesis
    unfolding arrives_def one_encoded_call [where c = c, OF assms(1,3)]
    using call_reaches [OF assms(4)] assms(5) by simp
qed

lemma arrives_fixed:
  assumes "\<And>payload. quiet (k payload)" "address_of r = (hc_method c, hc_segments c)"
    and "list_all (\<lambda>s. plain_segment s \<and> segment_ok s) (hc_segments c)" "r \<noteq> Courier (Get_job_route ''available'')"
  shows "arrives (fetch_json (recorded fetch) c code k) w r"
  unfolding arrives_def one_call [OF assms(1)] using call_reaches [OF assms(2-4)] by simp

lemmas call_shapes = get_call_def send_call_def post_json_def literal_segments

lemma quiet_client_return [quieting]: "quiet (client_return payload)"
  by (rule quiet_return)

lemmas client_calls = getOrderById_def acceptMerchantOrder_def requestDispatchAssignment_def bff_acceptJob_def bff_pickupJob_def
  bff_dropoffJob_def job_action_def bff_listAvailableJobs_def listAdminIncidents_def listAdminComplianceAuditEvents_def
  getAdminSloDashboard_def listMerchantOrders_def listMerchantPayoutStatements_def passed_list_def

text \<open>C38: Each call of the application services arrives at the route of the core API it is meant for, with
  the identifier it was given in the decoded segment or query parameter, unless the identifier is empty
  or one of the segments \<open>.\<close> and \<open>..\<close> that URLs drop.\<close>

theorem client_calls_reach_routes:
  assumes "encodeURIComponent i = Some e" and "plain_segment i"
  shows "decodeURIComponent e = Some i \<and>
    arrives (getOrderById (recorded fetch) i) w (Orders (Get_order_route e)) \<and>
    arrives (acceptMerchantOrder (recorded fetch) i) w (Orders (Accept_order_route e)) \<and>
    arrives (requestDispatchAssignment (recorded fetch) i inp) w (Orders (Request_dispatch_route e)) \<and>
    arrives (bff_acceptJob (recorded fetch) i c) w (Courier (Accept_job_route e)) \<and>
    arrives (bff_pickupJob (recorded fetch) i c) w (Courier (Pickup_job_route e)) \<and>
    arrives (bff_dropoffJob (recorded fetch) i c) w (Courier (Dropoff_job_route e)) \<and>
    arrives (bff_listAvailableJobs (recorded fetch)) w (Courier Available_jobs_route) \<and>
    arrives (listAdminIncidents num (recorded fetch)) w (Platform Logs_route) \<and>
    arrives (listAdminComplianceAuditEvents (recorded fetch)) w (Risk List_audit_route) \<and>
    arrives (getAdminSloDashboard (recorded fetch)) w (Platform Slo_route) \<and>
    arrives (listMerchantOrders (recorded fetch) i) w (Orders Merchant_orders_route) \<and>
    arrives (listMerchantPayoutStatements (recorded fetch) i) w (Settlement Merchant_payouts_route) \<and>
    map hc_query (calls_of (listMerchantOrders (recorded fetch) i) w) = [[(''merchantId'', e)]] \<and>
    map hc_query (calls_of (listMerchantPayoutStatements (recorded fetch) i) w) = [[(''merchantId'', e)]]"
  unfolding client_calls one_encoded_call [OF assms(1) quiet_fields [OF quiet_list]]
    one_encoded_call [OF assms(1) quiet_fields [OF quiet_return]]
  by (intro conjI) (rule decode_encode [OF assms(1)] arrives_get [OF assms] arrives_fixed quieting | simp add: call_shapes)+

lemma client_calls_reach_routes_witness:
  "arrives (acceptMerchantOrder (recorded (\<lambda>c s. (Fetch_failed, s))) ''a/b'') () (Orders (Accept_order_route ''a%2Fb''))"
proof -
  have "encodeURIComponent ''a/b'' = Some ''a%2Fb''" by code_simp
  then show ?thesis
    using client_calls_reach_routes [of "''a/b''" "''a%2Fb''" "\<lambda>c s. (Fetch_failed, s)" "()"] by (simp add: plain_segment_def)
qed

section \<open>Chains of requests\<close>

text \<open>A client follows a list of steps when its requests are the first of the steps, in their order,
  and all of them when it returns.\<close>

definition follows :: "(http_call \<Rightarrow> bool) list \<Rightarrow> http_call list \<Rightarrow> bool \<Rightarrow> bool" where
  "follows steps cs returned = (length cs \<le> length steps \<and> list_all2 (\<lambda>step c. step c) (take (length cs) steps) cs \<and>
     (returned \<longrightarrow> length cs = length steps))"

definition chain :: "(http_call \<Rightarrow> bool) list \<Rightarrow> (http_call list \<times> 'w, 'a) client \<Rightarrow> bool" where
  "chain steps m = (\<forall>log w. \<exists>cs. fst (snd (m (log, w))) = log @ cs \<and> follows steps cs (succeeded (m (log, w))))"

named_theorems chaining \<open>rules for the requests of a client\<close>

lemma chain_return [chaining]: "chain [] (client_return x)"
  by (simp add: chain_def client_return_def follows_def)

lemma chain_throw [chaining]: "chain steps (client_throw e)"
  by (simp add: chain_def client_throw_def follows_def)

lemma chain_fields [chaining]: "(\<And>get. chain steps (k get)) \<Longrightarrow> chain steps (with_fields payload k)"
  by (auto simp: with_fields_def chaining split: json.split)

lemma chain_encoded [chaining]:
  "(\<And>e. encodeURIComponent s = Some e \<Longrightarrow> chain steps (k e)) \<Longrightarrow> chain steps (with_encoded s k)"
  by (auto simp: with_encoded_def chaining split: option.split)

lemma follows_first: "step c \<Longrightarrow> follows (step # steps) [c] False"
  by (simp add: follows_def)

lemma follows_next: "step c \<Longrightarrow> follows steps cs b \<Longrightarrow> follows (step # steps) (c # cs) b"
  by (simp add: follows_def)

lemma chain_fetch [chaining]:
  assumes "step c" "\<And>payload. chain steps (k payload)"
  shows "chain (step # steps) (fetch_json (recorded fetch) c code k)"
  unfolding chain_def
proof (intro allI)
  fix log w
  obtain r w1 where f: "fetch c w = (r, w1)" by fastforce
  show "\<exists>cs. fst (snd (fetch_json (recorded fetch) c code k (log, w))) = log @ cs \<and>
      follows (step # steps) cs (succeeded (fetch_json (recorded fetch) c code k (log, w)))"
  proof (cases "\<exists>status payload. r = Answered status (Some payload) \<and> http_ok status")
    case True
    then obtain status payload where r: "r = Answered status (Some payload)" "http_ok status" by blast
    obtain cs where cs: "fst (snd (k payload (log @ [c], w1))) = (log @ [c]) @ cs"
      "follows steps cs (succeeded (k payload (log @ [c], w1)))"
      using assms(2) unfolding chain_def by blast
    show ?thesis
      using cs follows_next [of step, OF assms(1) cs(2)] f r by (intro exI [of _ "c # cs"]) (simp add: fetch_json_def recorded_def)
  next
    case False
    then show ?thesis
      using follows_first [of step, OF assms(1)] f
      by (intro exI [of _ "[c]"]) (auto simp: fetch_json_def recorded_def split: fetch_result.split option.split)
  qed
qed

lemma follows_call: "follows steps cs b \<Longrightarrow> n < length cs \<Longrightarrow> (steps ! n) (cs ! n)"
  by (auto simp: follows_def list_all2_conv_all_nth)

text \<open>The five steps of a quick order. The core API accepts the first two bodies.\<close>

definition quick_item :: "quickOrderItem \<Rightarrow> basketItemInput" where
  "quick_item i = \<lparr>bii_itemId = qi_itemId i, bii_name = qi_name i, bii_quantity = qi_quantity i,
     bii_unitPriceCents = quick_unit_price i, bii_modifiers = quick_modifiers i, bii_note = None\<rparr>"

definition accepted_as :: "(json \<Rightarrow> request_error + 'a) \<Rightarrow> 'a \<Rightarrow> http_call \<Rightarrow> bool" where
  "accepted_as validate x c = (\<exists>body. hc_body c = Some body \<and> validate body = Inr x)"

definition quick_steps :: "quickCreateOrderInput \<Rightarrow> (http_call \<Rightarrow> bool) list" where
  "quick_steps q =
     [\<lambda>c. call_route c = Some (Ordering Create_basket_route) \<and> accepted_as validateCreateBasketPayload
        \<lparr>cbi_consumerId = qo_consumerId q, cbi_merchantId = qo_merchantId q, cbi_currency = qo_currency q\<rparr> c,
      \<lambda>c. (\<exists>i e. encodeURIComponent i = Some e \<and> (plain_segment i \<longrightarrow> call_route c = Some (Ordering (Update_basket_route e)))) \<and>
        accepted_as validateUpdateBasketPayload [quick_item (qo_item q)] c,
      \<lambda>c. call_route c = Some (Ordering Quote_route),
      \<lambda>c. call_route c = Some (Ordering Checkout_route),
      \<lambda>c. call_route c = Some (Orders Create_order_route)]"

definition sellable :: "quickCreateOrderInput \<Rightarrow> bool" where
  "sellable q = (\<not> blank (qo_currency q) \<and> is_finite (qi_quantity (qo_item q)) \<and> \<not> num_le (qi_quantity (qo_item q)) (Fin 0) \<and>
     is_finite (quick_unit_price (qo_item q)) \<and> \<not> num_lt (quick_unit_price (qo_item q)) (Fin 0))"

lemma quick_bodies:
  assumes "sellable q"
  shows "validateCreateBasketPayload (basket_create_body q) =
      Inr \<lparr>cbi_consumerId = qo_consumerId q, cbi_merchantId = qo_merchantId q, cbi_currency = qo_currency q\<rparr>"
    and "validateUpdateBasketPayload (basket_update_body (qo_item q)) = Inr [quick_item (qo_item q)]"
proof -
  have those: "those (map (\<lambda>m. jstring (Some m)) (map JStr ns)) = Some ns" for ns
    by (induction ns) simp_all
  show "validateCreateBasketPayload (basket_create_body q) =
      Inr \<lparr>cbi_consumerId = qo_consumerId q, cbi_merchantId = qo_merchantId q, cbi_currency = qo_currency q\<rparr>"
    using assms by (simp add: sellable_def validateCreateBasketPayload_def basket_create_body_def with_payload_def jprop_def filled_string_def)
  show "validateUpdateBasketPayload (basket_update_body (qo_item q)) = Inr [quick_item (qo_item q)]"
    using assms those [of "quick_modifiers (qo_item q)"]
    by (simp add: sellable_def validateUpdateBasketPayload_def basket_update_body_def with_payload_def jprop_def
        validateBasketItems_def basket_item_of_def object_with_def json_number_def optional_string_def jarray_def quick_item_def)
qed

lemma quick_chain:
  assumes "sellable q"
  shows "chain (quick_steps q) (quickCreateOrder native (recorded fetch) q)"
proof -
  have update: "call_route (send_call ''PATCH'' [''api'', ''v1'', ''consumer'', ''baskets'', e] b) = Some (Ordering (Update_basket_route e))"
    if "encodeURIComponent i = Some e" "plain_segment i" for i e b
    by (rule call_reaches) (use encoded_plain [OF that] in \<open>auto simp: call_shapes\<close>)
  have posts: "call_route (post_json [''api'', ''v1'', ''consumer'', ''baskets''] b) = Some (Ordering Create_basket_route)"
    "call_route (post_json [''api'', ''v1'', ''consumer'', ''quotes''] b) = Some (Ordering Quote_route)"
    "call_route (post_json [''api'', ''v1'', ''consumer'', ''checkout''] b) = Some (Ordering Checkout_route)"
    "call_route (post_json [''api'', ''v1'', ''consumer'', ''orders''] b) = Some (Orders Create_order_route)" for b
    by (rule call_reaches; simp add: call_shapes)+
  have bodies: "hc_body (post_json ss b) = Some b" "hc_body (send_call m ss (Some b)) = Some b" for ss b m
    by (simp_all add: call_shapes)
  show ?thesis
    unfolding quickCreateOrder_def quick_steps_def
    by (intro chaining conjI posts exI)
      (use quick_bodies [OF assms] in \<open>auto simp: accepted_as_def bodies intro: update\<close>)
qed

end
