(* ===== verification/Bff.thy ===== *)
theory Bff
  imports CoreClient AppAuth Realtime "HOL-Library.Countable"
begin

text \<open>
  The application services in front of the core API (\<open>consumer-bff\<close>, \<open>courier-bff\<close>, \<open>ops-bff\<close>): the
  exchange and the refresh of app sessions, the feature flags, the checks of parameters and bodies,
  and the authorization of the data routes of merchants and administrators. Fastify's router, its
  body parser and its answer to a thrown error are outside; a handler gives a reply or throws.
\<close>

section \<open>Requests and replies\<close>

text \<open>\<open>query\<close> gives a string, an array for a repeated parameter, or nothing; \<open>body\<close> is the parsed body.\<close>

record bff_request =
  bq_query :: "string \<Rightarrow> json option"
  bq_body :: "json option"
  bq_authorization :: "string option"

record featureFlagSnapshot =
  fl_flags :: "(string \<times> bool) list"
  fl_ttlSeconds :: jsnum
  fl_generatedAtEpochMillis :: int

datatype bff_body =
    Error_reply string string
  | Session_reply appSessionBundle
  | Consumer_order consumerOrderView
  | Courier_jobs "courierJobView list"
  | Courier_job json
  | Merchant_order merchantOrderView
  | Merchant_orders "merchantOrderView list"
  | Statements json
  | Incidents "incidentView list"
  | Audit_events json
  | Slo_dashboard json
  | Flags featureFlagSnapshot

datatype bff_error = From_client client_error | From_auth appAuthError

type_synonym bff_reply = "nat \<times> bff_body"

record 'w bff =
  bf_auth :: app_auth_service
  bf_core :: 'w

type_synonym 'w bff_handler = "'w bff \<Rightarrow> (bff_error + bff_reply) \<times> 'w bff"

text \<open>What the services read from outside, and what one request draws.\<close>

record bff_env =
  bv_host :: host
  bv_lib :: app_lib
  bv_verifier :: oidcVerifier
  bv_native :: "json \<Rightarrow> string"
  bv_number :: "json option \<Rightarrow> jsnum"
  bv_flags :: "appPersona \<Rightarrow> (string \<times> bool) list"
  bv_ttlSeconds :: jsnum

record bff_draws =
  bd_now :: int
  bd_familyId :: uuid
  bd_issue :: issue_draws

definition bff_answer :: "nat \<Rightarrow> bff_body \<Rightarrow> 'w bff_handler" where
  "bff_answer status body s = (Inr (status, body), s)"

definition bff_refuse :: "nat \<Rightarrow> string \<Rightarrow> string \<Rightarrow> 'w bff_handler" where
  "bff_refuse status code message = bff_answer status (Error_reply code message)"

definition mapped_error :: "appAuthError \<Rightarrow> 'w bff_handler" where
  "mapped_error e =
     (case mapAppAuthError (App_auth_error e) of
        Some r \<Rightarrow> bff_refuse (ar_statusCode r) (app_code_name (ar_errorCode r)) (ar_message r)
      | None \<Rightarrow> (\<lambda>s. (Inl (From_auth e), s)))"

definition ask_core :: "('w, 'a) client \<Rightarrow> ('a \<Rightarrow> 'w bff_handler) \<Rightarrow> 'w bff_handler" where
  "ask_core m k s =
     (case m (bf_core s) of
        (Inl e, w) \<Rightarrow> (Inl (From_client e), s\<lparr>bf_core := w\<rparr>)
      | (Inr x, w) \<Rightarrow> k x (s\<lparr>bf_core := w\<rparr>))"

text \<open>\<open>payload?.name\<close>: only an object has the properties the handlers read.\<close>

definition optional_prop :: "json option \<Rightarrow> string \<Rightarrow> json option" where
  "optional_prop j k = (case j of Some (JObj ps) \<Rightarrow> jprop ps k | _ \<Rightarrow> None)"

section \<open>Feature flags\<close>

text \<open>\<open>Object.entries\<close> of what \<open>JSON.parse\<close> gave: \<open>None\<close> for \<open>null\<close>, which throws; a string has the
  characters as entries, none of them a boolean.\<close>

definition object_entries :: "json \<Rightarrow> (string \<times> json) list option" where
  "object_entries j =
     (case j of JNull \<Rightarrow> None | JObj ps \<Rightarrow> Some ps
      | JArr xs \<Rightarrow> Some (zip (map nat_digits [0..<length xs]) xs) | _ \<Rightarrow> Some [])"

text \<open>The assignment \<open>flags["__proto__"] = value\<close> of a boolean has no effect.\<close>

definition boolean_flags :: "(string \<times> json) list \<Rightarrow> (string \<times> bool) list" where
  "boolean_flags es = List.map_filter (\<lambda>(k, v). case v of JBool b \<Rightarrow> if k = ''__proto__'' then None else Some (k, b) | _ \<Rightarrow> None) es"

definition parseFeatureFlagMap :: "(string \<Rightarrow> json option) \<Rightarrow> string option \<Rightarrow> (string \<times> bool) list \<Rightarrow> (string \<times> bool) list" where
  "parseFeatureFlagMap json_parse rawFlags defaultFlags =
     (if \<not> given rawFlags then defaultFlags
      else case json_parse (nullish rawFlags []) of
        None \<Rightarrow> defaultFlags
      | Some parsed \<Rightarrow>
          (case object_entries parsed of
             None \<Rightarrow> defaultFlags
           | Some es \<Rightarrow> if 0 < length (boolean_flags es) then boolean_flags es else defaultFlags))"

definition parseFeatureFlagsTtlSeconds :: "string option \<Rightarrow> jsnum" where
  "parseFeatureFlagsTtlSeconds rawTtlSeconds =
     (let parsed = js_parseInt (nullish rawTtlSeconds [])
      in if \<not> is_finite parsed \<or> num_le parsed (Fin 0) then Fin 30 else parsed)"

definition default_flags :: "appPersona \<Rightarrow> (string \<times> bool) list" where
  "default_flags p = (case p of
     Consumer_persona \<Rightarrow> [(''consumer.timelineV2'', False)] | Courier_persona \<Rightarrow> [(''courier.offlineReplay'', True)]
   | Merchant_persona \<Rightarrow> [(''merchant.livePrepBoard'', True)] | Admin_persona \<Rightarrow> [(''admin.incidentWorkbenchV2'', False)])"

definition parseConsumerFeatureFlags :: "(string \<Rightarrow> json option) \<Rightarrow> string option \<Rightarrow> (string \<times> bool) list" where
  "parseConsumerFeatureFlags json_parse rawFlags = parseFeatureFlagMap json_parse rawFlags (default_flags Consumer_persona)"

definition parseCourierFeatureFlags :: "(string \<Rightarrow> json option) \<Rightarrow> string option \<Rightarrow> (string \<times> bool) list" where
  "parseCourierFeatureFlags json_parse rawFlags = parseFeatureFlagMap json_parse rawFlags (default_flags Courier_persona)"

definition getFeatureFlagSnapshot :: "bff_env \<Rightarrow> bff_draws \<Rightarrow> appPersona \<Rightarrow> featureFlagSnapshot" where
  "getFeatureFlagSnapshot V d p =
     \<lparr>fl_flags = bv_flags V p, fl_ttlSeconds = bv_ttlSeconds V, fl_generatedAtEpochMillis = bd_now d\<rparr>"

definition flags_query :: "bff_request \<Rightarrow> (string \<Rightarrow> string \<Rightarrow> 'w bff_handler) \<Rightarrow> 'w bff_handler" where
  "flags_query q k =
     (case (filled_string (bq_query q ''userId''), filled_string (bq_query q ''role'')) of
        (Some userId, Some role) \<Rightarrow>
          if optional_string (bq_query q ''tenantId'') = None
          then bff_refuse 400 ''INVALID_FEATURE_FLAG_QUERY'' ''tenantId must be a string when provided''
          else k userId role
      | _ \<Rightarrow> bff_refuse 400 ''INVALID_FEATURE_FLAG_QUERY'' ''userId and role query params are required'')"

lemma ttl_positive: "is_finite (parseFeatureFlagsTtlSeconds raw) \<and> num_lt (Fin 0) (parseFeatureFlagsTtlSeconds raw)"
proof -
  have pos: "num_lt (Fin 0) a" if "is_finite a" "\<not> num_le a (Fin 0)" for a
    using that by (cases a) (auto simp: is_finite_def num_le_def num_eq_def)
  show ?thesis by (auto simp: parseFeatureFlagsTtlSeconds_def Let_def is_finite_def pos)
qed

section \<open>Sessions\<close>

definition session_payload ::
  "string \<Rightarrow> string \<Rightarrow> string \<Rightarrow> bff_request \<Rightarrow> (string \<Rightarrow> string \<Rightarrow> string option \<Rightarrow> 'w bff_handler) \<Rightarrow> 'w bff_handler"
where
  "session_payload name code message q k =
     (case (filled_string (optional_prop (bq_body q) name), filled_string (optional_prop (bq_body q) ''traceId'')) of
        (Some token, Some traceId) \<Rightarrow>
          (case optional_string (optional_prop (bq_body q) ''deviceId'') of
             None \<Rightarrow> bff_refuse 400 ''INVALID_APP_DEVICE_ID'' ''deviceId must be a string when provided''
           | Some deviceId \<Rightarrow> k token traceId deviceId)
      | _ \<Rightarrow> bff_refuse 400 code message)"

text \<open>Which role an identity gets, or how it is refused. The consumer and the courier service also let in
  an identity without roles.\<close>

definition includes_role :: "user_role \<Rightarrow> string list \<Rightarrow> bool" where
  "includes_role r roles = (role_name r \<in> set roles)"

definition ADMIN_ROLES :: "user_role list" where
  "ADMIN_ROLES = [System_admin, Support_agent, Finance_ops]"

definition resolveMerchantRole :: "string list \<Rightarrow> user_role option" where
  "resolveMerchantRole roles = (if includes_role Merchant_operator roles then Some Merchant_operator else None)"

definition resolveAdminRole :: "string list \<Rightarrow> user_role option" where
  "resolveAdminRole roles = List.find (\<lambda>r. includes_role r roles) ADMIN_ROLES"

definition open_role :: "user_role \<Rightarrow> string list \<Rightarrow> user_role option" where
  "open_role r roles = (if 0 < length roles \<and> \<not> includes_role r roles then None else Some r)"

definition session_role :: "appPersona \<Rightarrow> string list \<Rightarrow> user_role option" where
  "session_role p = (case p of Consumer_persona \<Rightarrow> open_role Consumer | Courier_persona \<Rightarrow> open_role user_role.Courier
     | Merchant_persona \<Rightarrow> resolveMerchantRole | Admin_persona \<Rightarrow> resolveAdminRole)"

definition role_required :: "appPersona \<Rightarrow> 'w bff_handler" where
  "role_required p = (case p of
     Consumer_persona \<Rightarrow> bff_refuse 403 ''CONSUMER_ROLE_REQUIRED'' ''OIDC identity does not include consumer role''
   | Courier_persona \<Rightarrow> bff_refuse 403 ''COURIER_ROLE_REQUIRED'' ''OIDC identity does not include courier role''
   | Merchant_persona \<Rightarrow> bff_refuse 403 ''MERCHANT_ROLE_REQUIRED'' ''merchant_operator role is required for merchant session exchange''
   | Admin_persona \<Rightarrow> bff_refuse 403 ''ADMIN_ROLE_REQUIRED'' ''admin role is required for admin session exchange'')"

definition session_exchange :: "appPersona \<Rightarrow> bff_env \<Rightarrow> bff_draws \<Rightarrow> bff_request \<Rightarrow> 'w bff_handler" where
  "session_exchange p V d q =
     session_payload ''oidcToken'' ''INVALID_APP_SESSION_EXCHANGE_PAYLOAD'' ''oidcToken and traceId are required'' q (\<lambda>token traceId deviceId.
     (case bv_verifier V token of
        Inl e \<Rightarrow> mapped_error e
      | Inr identity \<Rightarrow>
          (case session_role p (extractRolesFromClaims (oi_claims identity)) of
             None \<Rightarrow> role_required p
           | Some role \<Rightarrow> (\<lambda>s.
               (case issueAppSession (bv_host V) (bv_lib V) (bd_familyId d) (bd_issue d)
                      \<lparr>ii_userId = oi_subject identity, ii_role = role, ii_persona = p, ii_traceId = traceId, ii_deviceId = deviceId\<rparr>
                      (bf_auth s) of
                  (bundle, auth) \<Rightarrow> (Inr (200, Session_reply bundle), s\<lparr>bf_auth := auth\<rparr>))))))"

text \<open>The consumer and the courier service await the refresh inside the \<open>try\<close>; the other service returns
  the promise, so that the \<open>catch\<close> never sees its rejection.\<close>

definition refresh_failed :: "appPersona \<Rightarrow> appAuthError \<Rightarrow> 'w bff_handler" where
  "refresh_failed p e =
     (if p = Consumer_persona \<or> p = Courier_persona then mapped_error e else (\<lambda>s. (Inl (From_auth e), s)))"

definition session_refresh :: "appPersona \<Rightarrow> bff_env \<Rightarrow> bff_draws \<Rightarrow> bff_request \<Rightarrow> 'w bff_handler" where
  "session_refresh p V d q =
     session_payload ''refreshToken'' ''INVALID_APP_SESSION_REFRESH_PAYLOAD'' ''refreshToken and traceId are required'' q (\<lambda>token traceId deviceId s.
     (case refreshAppSession (bv_host V) (bv_lib V) (bd_now d) (bd_issue d)
             \<lparr>rx_refreshToken = token, rx_traceId = traceId, rx_deviceId = deviceId\<rparr> (bf_auth s) of
        (Inl e, auth) \<Rightarrow> refresh_failed p e (s\<lparr>bf_auth := auth\<rparr>)
      | (Inr bundle, auth) \<Rightarrow> (Inr (200, Session_reply bundle), s\<lparr>bf_auth := auth\<rparr>)))"

text \<open>The session routes of the services.\<close>

definition consumer_session_exchange :: "bff_env \<Rightarrow> bff_draws \<Rightarrow> bff_request \<Rightarrow> 'w bff_handler" where
  "consumer_session_exchange V d q = session_exchange Consumer_persona V d q"

definition consumer_session_refresh :: "bff_env \<Rightarrow> bff_draws \<Rightarrow> bff_request \<Rightarrow> 'w bff_handler" where
  "consumer_session_refresh V d q = session_refresh Consumer_persona V d q"

definition courier_session_exchange :: "bff_env \<Rightarrow> bff_draws \<Rightarrow> bff_request \<Rightarrow> 'w bff_handler" where
  "courier_session_exchange V d q = session_exchange Courier_persona V d q"

definition courier_session_refresh :: "bff_env \<Rightarrow> bff_draws \<Rightarrow> bff_request \<Rightarrow> 'w bff_handler" where
  "courier_session_refresh V d q = session_refresh Courier_persona V d q"

definition merchant_session_exchange :: "bff_env \<Rightarrow> bff_draws \<Rightarrow> bff_request \<Rightarrow> 'w bff_handler" where
  "merchant_session_exchange V d q = session_exchange Merchant_persona V d q"

definition merchant_session_refresh :: "bff_env \<Rightarrow> bff_draws \<Rightarrow> bff_request \<Rightarrow> 'w bff_handler" where
  "merchant_session_refresh V d q = session_refresh Merchant_persona V d q"

definition admin_session_exchange :: "bff_env \<Rightarrow> bff_draws \<Rightarrow> bff_request \<Rightarrow> 'w bff_handler" where
  "admin_session_exchange V d q = session_exchange Admin_persona V d q"

definition admin_session_refresh :: "bff_env \<Rightarrow> bff_draws \<Rightarrow> bff_request \<Rightarrow> 'w bff_handler" where
  "admin_session_refresh V d q = session_refresh Admin_persona V d q"

section \<open>The consumer service\<close>

definition named_param :: "string \<Rightarrow> string \<Rightarrow> string \<Rightarrow> 'w bff_handler \<Rightarrow> 'w bff_handler" where
  "named_param value code message k = (if blank value then bff_refuse 400 code message else k)"

definition consumer_get_order :: "'w fetch \<Rightarrow> string \<Rightarrow> 'w bff_handler" where
  "consumer_get_order fetch orderId =
     named_param orderId ''INVALID_CONSUMER_ORDER_ROUTE_PARAM'' ''orderId is required''
       (ask_core (getOrderById fetch orderId) (\<lambda>order. bff_answer 200 (Consumer_order order)))"

definition quick_modifier_of :: "json \<Rightarrow> quickOrderModifier option" where
  "quick_modifier_of modifier =
     do {
       name \<leftarrow> filled_string (optional_prop (Some modifier) ''name'');
       priceCents \<leftarrow> jnumber (optional_prop (Some modifier) ''priceCents'');
       check (is_integer priceCents);
       Some \<lparr>qm_name = name, qm_priceCents = priceCents\<rparr>
     }"

text \<open>The scalar fields and the array of modifiers of an item.\<close>

definition quick_item_of :: "json \<Rightarrow> (quickOrderItem \<times> json list) option" where
  "quick_item_of item =
     do {
       itemId \<leftarrow> filled_string (optional_prop (Some item) ''itemId'');
       name \<leftarrow> filled_string (optional_prop (Some item) ''name'');
       quantity \<leftarrow> jnumber (optional_prop (Some item) ''quantity'');
       check (is_integer quantity \<and> \<not> num_le quantity (Fin 0));
       unitPriceCents \<leftarrow> jnumber (optional_prop (Some item) ''unitPriceCents'');
       check (is_integer unitPriceCents \<and> \<not> num_lt unitPriceCents (Fin 0));
       modifiers \<leftarrow> jarray (optional_prop (Some item) ''modifiers'');
       Some (\<lparr>qi_itemId = itemId, qi_name = name, qi_quantity = quantity, qi_unitPriceCents = unitPriceCents, qi_modifiers = []\<rparr>, modifiers)
     }"

text \<open>The order of a body: an error code and its message, or the input of the five requests.\<close>

definition quick_order_of :: "json option \<Rightarrow> (string \<times> string) + quickCreateOrderInput" where
  "quick_order_of body =
     (case (filled_string (optional_prop body ''consumerId''), filled_string (optional_prop body ''merchantId''),
            filled_string (optional_prop body ''currency''), optional_prop body ''item'') of
        (Some consumerId, Some merchantId, Some currency, Some item) \<Rightarrow>
          if \<not> (case item of JObj _ \<Rightarrow> True | JArr _ \<Rightarrow> True | _ \<Rightarrow> False)
          then Inl (''INVALID_CONSUMER_QUICK_CREATE_PAYLOAD'', ''consumerId, merchantId, currency, and item are required'')
          else (case quick_item_of item of
             None \<Rightarrow> Inl (''INVALID_CONSUMER_QUICK_CREATE_ITEM'', ''item payload is invalid'')
           | Some (i, modifiers) \<Rightarrow>
               (case those (map quick_modifier_of modifiers) of
                  None \<Rightarrow> Inl (''INVALID_CONSUMER_QUICK_CREATE_ITEM'', ''item modifiers payload is invalid'')
                | Some ms \<Rightarrow> Inr \<lparr>qo_consumerId = consumerId, qo_merchantId = merchantId, qo_currency = currency,
                    qo_item = i\<lparr>qi_modifiers := ms\<rparr>\<rparr>))
      | _ \<Rightarrow> Inl (''INVALID_CONSUMER_QUICK_CREATE_PAYLOAD'', ''consumerId, merchantId, currency, and item are required''))"

definition consumer_quick_create :: "bff_env \<Rightarrow> 'w fetch \<Rightarrow> bff_request \<Rightarrow> 'w bff_handler" where
  "consumer_quick_create V fetch q =
     (case quick_order_of (bq_body q) of
        Inl (code, message) \<Rightarrow> bff_refuse 400 code message
      | Inr inp \<Rightarrow> ask_core (quickCreateOrder (bv_native V) fetch inp) (\<lambda>order. bff_answer 201 (Consumer_order order)))"

definition open_flags :: "appPersona \<Rightarrow> bff_env \<Rightarrow> bff_draws \<Rightarrow> bff_request \<Rightarrow> 'w bff_handler" where
  "open_flags p V d q = flags_query q (\<lambda>_ _. bff_answer 200 (Flags (getFeatureFlagSnapshot V d p)))"

definition consumer_feature_flags :: "bff_env \<Rightarrow> bff_draws \<Rightarrow> bff_request \<Rightarrow> 'w bff_handler" where
  "consumer_feature_flags V d q = open_flags Consumer_persona V d q"

datatype consumer_bff_route = Consumer_exchange | Consumer_refresh | Consumer_get_order string | Consumer_quick_create | Consumer_flags

primrec consumer_handle :: "bff_env \<Rightarrow> 'w fetch \<Rightarrow> bff_draws \<Rightarrow> bff_request \<Rightarrow> consumer_bff_route \<Rightarrow> 'w bff_handler" where
  "consumer_handle V fetch d q Consumer_exchange = consumer_session_exchange V d q"
| "consumer_handle V fetch d q Consumer_refresh = consumer_session_refresh V d q"
| "consumer_handle V fetch d q (Consumer_get_order i) = consumer_get_order fetch i"
| "consumer_handle V fetch d q Consumer_quick_create = consumer_quick_create V fetch q"
| "consumer_handle V fetch d q Consumer_flags = consumer_feature_flags V d q"

section \<open>The courier service\<close>

definition courier_list_jobs :: "'w fetch \<Rightarrow> 'w bff_handler" where
  "courier_list_jobs fetch = ask_core (bff_listAvailableJobs fetch) (\<lambda>jobs. bff_answer 200 (Courier_jobs jobs))"

definition courier_job_action :: "(string \<Rightarrow> string \<Rightarrow> ('w, json) client) \<Rightarrow> bff_request \<Rightarrow> string \<Rightarrow> 'w bff_handler" where
  "courier_job_action action q jobId =
     (case filled_string (optional_prop (bq_body q) ''courierId'') of
        Some courierId \<Rightarrow>
          named_param jobId ''INVALID_COURIER_JOB_ACTION_PAYLOAD'' ''jobId route param and courierId body field are required''
            (ask_core (action jobId courierId) (\<lambda>job. bff_answer 200 (Courier_job job)))
      | None \<Rightarrow> bff_refuse 400 ''INVALID_COURIER_JOB_ACTION_PAYLOAD'' ''jobId route param and courierId body field are required'')"

definition courier_accept_job :: "'w fetch \<Rightarrow> bff_request \<Rightarrow> string \<Rightarrow> 'w bff_handler" where
  "courier_accept_job fetch q i = courier_job_action (bff_acceptJob fetch) q i"

definition courier_pickup_job :: "'w fetch \<Rightarrow> bff_request \<Rightarrow> string \<Rightarrow> 'w bff_handler" where
  "courier_pickup_job fetch q i = courier_job_action (bff_pickupJob fetch) q i"

definition courier_dropoff_job :: "'w fetch \<Rightarrow> bff_request \<Rightarrow> string \<Rightarrow> 'w bff_handler" where
  "courier_dropoff_job fetch q i = courier_job_action (bff_dropoffJob fetch) q i"

definition courier_feature_flags :: "bff_env \<Rightarrow> bff_draws \<Rightarrow> bff_request \<Rightarrow> 'w bff_handler" where
  "courier_feature_flags V d q = open_flags Courier_persona V d q"

datatype courier_bff_route =
    Courier_exchange | Courier_refresh | Courier_list_jobs | Courier_accept string | Courier_pickup string | Courier_dropoff string
  | Courier_flags

primrec courier_handle :: "bff_env \<Rightarrow> 'w fetch \<Rightarrow> bff_draws \<Rightarrow> bff_request \<Rightarrow> courier_bff_route \<Rightarrow> 'w bff_handler" where
  "courier_handle V fetch d q Courier_exchange = courier_session_exchange V d q"
| "courier_handle V fetch d q Courier_refresh = courier_session_refresh V d q"
| "courier_handle V fetch d q Courier_list_jobs = courier_list_jobs fetch"
| "courier_handle V fetch d q (Courier_accept i) = courier_accept_job fetch q i"
| "courier_handle V fetch d q (Courier_pickup i) = courier_pickup_job fetch q i"
| "courier_handle V fetch d q (Courier_dropoff i) = courier_dropoff_job fetch q i"
| "courier_handle V fetch d q Courier_flags = courier_feature_flags V d q"

section \<open>The service of merchants and administrators\<close>

definition bff_bearer :: "string option \<Rightarrow> string option" where
  "bff_bearer authorizationHeader =
     (if \<not> given authorizationHeader \<or> \<not> startsWith (nullish authorizationHeader []) ''Bearer '' then None
      else let token = js_trim (drop (length ''Bearer '') (nullish authorizationHeader []))
           in if 0 < length token then Some token else None)"

definition allowed_roles :: "appPersona \<Rightarrow> user_role list" where
  "allowed_roles p = (if p = Merchant_persona then [Merchant_operator] else ADMIN_ROLES)"

definition authorizeDataRoute ::
  "appPersona \<Rightarrow> bff_env \<Rightarrow> bff_draws \<Rightarrow> bff_request \<Rightarrow> (appAccessTokenClaims \<Rightarrow> 'w bff_handler) \<Rightarrow> 'w bff_handler"
where
  "authorizeDataRoute p V d q k s =
     (case bff_bearer (bq_authorization q) of
        None \<Rightarrow> bff_refuse 401 ''APP_ACCESS_TOKEN_REQUIRED'' ''Bearer access token is required for app data routes'' s
      | Some token \<Rightarrow>
          (case verifyAppAccessToken (bv_lib V) (bd_now d) token (bf_auth s) of
             Inl e \<Rightarrow> mapped_error e s
           | Inr claims \<Rightarrow>
               if ac_persona claims \<noteq> p \<or> ac_role claims \<notin> set (allowed_roles p)
               then bff_refuse 403 ''APP_ROUTE_FORBIDDEN'' ''Session token does not have access to this route'' s
               else k claims s))"

definition merchant_query :: "bff_request \<Rightarrow> (string \<Rightarrow> 'w bff_handler) \<Rightarrow> 'w bff_handler" where
  "merchant_query q k =
     (case filled_string (bq_query q ''merchantId'') of
        None \<Rightarrow> bff_refuse 400 ''INVALID_MERCHANT_QUERY'' ''merchantId query is required''
      | Some merchantId \<Rightarrow> k merchantId)"

text \<open>A body that is present has to be an object or an array.\<close>

definition dispatch_payload_ok :: "json option \<Rightarrow> bool" where
  "dispatch_payload_ok body = (case body of None \<Rightarrow> True | Some (JObj _) \<Rightarrow> True | Some (JArr _) \<Rightarrow> True | _ \<Rightarrow> False)"

definition guarded_flags :: "appPersona \<Rightarrow> bff_env \<Rightarrow> bff_draws \<Rightarrow> bff_request \<Rightarrow> appAccessTokenClaims \<Rightarrow> 'w bff_handler" where
  "guarded_flags p V d q claims = flags_query q (\<lambda>userId role.
     if userId \<noteq> ac_userId claims \<or> role \<noteq> role_name (ac_role claims)
     then bff_refuse 403 ''APP_ROUTE_FORBIDDEN'' ''Session claims do not match feature-flag query context''
     else bff_answer 200 (Flags (getFeatureFlagSnapshot V d p)))"

datatype ops_data_route =
    Merchant_accept string | Merchant_dispatch string | Merchant_list | Merchant_statements | Merchant_flags
  | Admin_incidents | Admin_audit | Admin_slo | Admin_flags

primrec data_persona :: "ops_data_route \<Rightarrow> appPersona" where
  "data_persona (Merchant_accept i) = Merchant_persona"
| "data_persona (Merchant_dispatch i) = Merchant_persona"
| "data_persona Merchant_list = Merchant_persona"
| "data_persona Merchant_statements = Merchant_persona"
| "data_persona Merchant_flags = Merchant_persona"
| "data_persona Admin_incidents = Admin_persona"
| "data_persona Admin_audit = Admin_persona"
| "data_persona Admin_slo = Admin_persona"
| "data_persona Admin_flags = Admin_persona"

definition merchant_accept_order :: "'w fetch \<Rightarrow> string \<Rightarrow> 'w bff_handler" where
  "merchant_accept_order fetch i = 
     named_param i ''INVALID_MERCHANT_ORDER_ROUTE_PARAM'' ''orderId route param is required''
       (ask_core (acceptMerchantOrder fetch i) (\<lambda>order. bff_answer 200 (Merchant_order order)))"

definition merchant_request_dispatch :: "'w fetch \<Rightarrow> bff_request \<Rightarrow> string \<Rightarrow> 'w bff_handler" where
  "merchant_request_dispatch fetch q i = 
     named_param i ''INVALID_MERCHANT_ORDER_ROUTE_PARAM'' ''orderId route param is required''
       (if \<not> dispatch_payload_ok (bq_body q)
        then bff_refuse 400 ''INVALID_DISPATCH_REQUEST_PAYLOAD'' ''dispatch payload must be a JSON object when provided''
        else ask_core (requestDispatchAssignment fetch i (bq_body q)) (\<lambda>order. bff_answer 200 (Merchant_order order)))"

definition merchant_list_orders :: "'w fetch \<Rightarrow> bff_request \<Rightarrow> 'w bff_handler" where
  "merchant_list_orders fetch q = 
     merchant_query q (\<lambda>m. ask_core (listMerchantOrders fetch m) (\<lambda>orders. bff_answer 200 (Merchant_orders orders)))"

definition merchant_list_statements :: "'w fetch \<Rightarrow> bff_request \<Rightarrow> 'w bff_handler" where
  "merchant_list_statements fetch q = 
     merchant_query q (\<lambda>m. ask_core (listMerchantPayoutStatements fetch m) (\<lambda>statements. bff_answer 200 (Statements statements)))"

definition merchant_feature_flags :: "bff_env \<Rightarrow> bff_draws \<Rightarrow> bff_request \<Rightarrow> appAccessTokenClaims \<Rightarrow> 'w bff_handler" where
  "merchant_feature_flags V d q claims = guarded_flags Merchant_persona V d q claims"

definition admin_list_incidents :: "bff_env \<Rightarrow> 'w fetch \<Rightarrow> 'w bff_handler" where
  "admin_list_incidents V fetch = 
     ask_core (listAdminIncidents (bv_number V) fetch) (\<lambda>incidents. bff_answer 200 (Incidents incidents))"

definition admin_list_audit_events :: "'w fetch \<Rightarrow> 'w bff_handler" where
  "admin_list_audit_events fetch = 
     ask_core (listAdminComplianceAuditEvents fetch) (\<lambda>events. bff_answer 200 (Audit_events events))"

definition admin_slo_dashboard :: "'w fetch \<Rightarrow> 'w bff_handler" where
  "admin_slo_dashboard fetch = 
     ask_core (getAdminSloDashboard fetch) (\<lambda>dashboard. bff_answer 200 (Slo_dashboard dashboard))"

definition admin_feature_flags :: "bff_env \<Rightarrow> bff_draws \<Rightarrow> bff_request \<Rightarrow> appAccessTokenClaims \<Rightarrow> 'w bff_handler" where
  "admin_feature_flags V d q claims = guarded_flags Admin_persona V d q claims"

text \<open>What a data route does once the claims are accepted.\<close>

primrec data_handle :: "bff_env \<Rightarrow> 'w fetch \<Rightarrow> bff_draws \<Rightarrow> bff_request \<Rightarrow> ops_data_route \<Rightarrow> appAccessTokenClaims \<Rightarrow> 'w bff_handler" where
  "data_handle V fetch d q (Merchant_accept i) claims = merchant_accept_order fetch i"
| "data_handle V fetch d q (Merchant_dispatch i) claims = merchant_request_dispatch fetch q i"
| "data_handle V fetch d q Merchant_list claims = merchant_list_orders fetch q"
| "data_handle V fetch d q Merchant_statements claims = merchant_list_statements fetch q"
| "data_handle V fetch d q Merchant_flags claims = merchant_feature_flags V d q claims"
| "data_handle V fetch d q Admin_incidents claims = admin_list_incidents V fetch"
| "data_handle V fetch d q Admin_audit claims = admin_list_audit_events fetch"
| "data_handle V fetch d q Admin_slo claims = admin_slo_dashboard fetch"
| "data_handle V fetch d q Admin_flags claims = admin_feature_flags V d q claims"

datatype ops_bff_route = Merchant_exchange | Merchant_refresh | Admin_exchange | Admin_refresh | Ops_data ops_data_route

primrec ops_handle :: "bff_env \<Rightarrow> 'w fetch \<Rightarrow> bff_draws \<Rightarrow> bff_request \<Rightarrow> ops_bff_route \<Rightarrow> 'w bff_handler" where
  "ops_handle V fetch d q Merchant_exchange = merchant_session_exchange V d q"
| "ops_handle V fetch d q Merchant_refresh = merchant_session_refresh V d q"
| "ops_handle V fetch d q Admin_exchange = admin_session_exchange V d q"
| "ops_handle V fetch d q Admin_refresh = admin_session_refresh V d q"
| "ops_handle V fetch d q (Ops_data r) = authorizeDataRoute (data_persona r) V d q (data_handle V fetch d q r)"

lemmas route_bodies [simp] = consumer_session_exchange_def
  consumer_session_refresh_def
  courier_session_exchange_def
  courier_session_refresh_def
  merchant_session_exchange_def
  merchant_session_refresh_def
  admin_session_exchange_def
  admin_session_refresh_def
  consumer_feature_flags_def
  courier_accept_job_def
  courier_pickup_job_def
  courier_dropoff_job_def
  courier_feature_flags_def
  merchant_accept_order_def
  merchant_request_dispatch_def
  merchant_list_orders_def
  merchant_list_statements_def
  merchant_feature_flags_def
  admin_list_incidents_def
  admin_list_audit_events_def
  admin_slo_dashboard_def
  admin_feature_flags_def

text \<open>The addresses the services listen on: the method and the segments, with the parameter decoded.\<close>

definition session_address :: "appPersona \<Rightarrow> string \<Rightarrow> string \<times> string list" where
  "session_address p action = (''POST'', [''app'', ''v1'', persona_name p, ''session'', action])"

primrec consumer_bff_address :: "consumer_bff_route \<Rightarrow> string \<times> string list" where
  "consumer_bff_address Consumer_exchange = session_address Consumer_persona ''exchange''"
| "consumer_bff_address Consumer_refresh = session_address Consumer_persona ''refresh''"
| "consumer_bff_address (Consumer_get_order i) = (''GET'', [''app'', ''v1'', ''consumer'', ''orders'', i])"
| "consumer_bff_address Consumer_quick_create = (''POST'', [''app'', ''v1'', ''consumer'', ''orders'', ''quick-create''])"
| "consumer_bff_address Consumer_flags = (''GET'', [''app'', ''v1'', ''consumer'', ''feature-flags''])"

primrec courier_bff_address :: "courier_bff_route \<Rightarrow> string \<times> string list" where
  "courier_bff_address Courier_exchange = session_address Courier_persona ''exchange''"
| "courier_bff_address Courier_refresh = session_address Courier_persona ''refresh''"
| "courier_bff_address Courier_list_jobs = (''GET'', [''app'', ''v1'', ''courier'', ''jobs'', ''available''])"
| "courier_bff_address (Courier_accept i) = (''POST'', [''app'', ''v1'', ''courier'', ''jobs'', i, ''accept''])"
| "courier_bff_address (Courier_pickup i) = (''POST'', [''app'', ''v1'', ''courier'', ''jobs'', i, ''pickup''])"
| "courier_bff_address (Courier_dropoff i) = (''POST'', [''app'', ''v1'', ''courier'', ''jobs'', i, ''dropoff''])"
| "courier_bff_address Courier_flags = (''GET'', [''app'', ''v1'', ''courier'', ''feature-flags''])"

primrec ops_data_address :: "ops_data_route \<Rightarrow> string \<times> string list" where
  "ops_data_address (Merchant_accept i) = (''POST'', [''app'', ''v1'', ''merchant'', ''orders'', i, ''accept''])"
| "ops_data_address (Merchant_dispatch i) = (''POST'', [''app'', ''v1'', ''merchant'', ''orders'', i, ''request-dispatch''])"
| "ops_data_address Merchant_list = (''GET'', [''app'', ''v1'', ''merchant'', ''orders''])"
| "ops_data_address Merchant_statements = (''GET'', [''app'', ''v1'', ''merchant'', ''payouts''])"
| "ops_data_address Merchant_flags = (''GET'', [''app'', ''v1'', ''merchant'', ''feature-flags''])"
| "ops_data_address Admin_incidents = (''GET'', [''app'', ''v1'', ''admin'', ''incidents''])"
| "ops_data_address Admin_audit = (''GET'', [''app'', ''v1'', ''admin'', ''compliance'', ''audit-events''])"
| "ops_data_address Admin_slo = (''GET'', [''app'', ''v1'', ''admin'', ''slo-dashboard''])"
| "ops_data_address Admin_flags = (''GET'', [''app'', ''v1'', ''admin'', ''feature-flags''])"

primrec ops_bff_address :: "ops_bff_route \<Rightarrow> string \<times> string list" where
  "ops_bff_address Merchant_exchange = session_address Merchant_persona ''exchange''"
| "ops_bff_address Merchant_refresh = session_address Merchant_persona ''refresh''"
| "ops_bff_address Admin_exchange = session_address Admin_persona ''exchange''"
| "ops_bff_address Admin_refresh = session_address Admin_persona ''refresh''"
| "ops_bff_address (Ops_data r) = ops_data_address r"

section \<open>Who reaches the data routes\<close>

definition ops_admitted :: "bff_env \<Rightarrow> bff_draws \<Rightarrow> bff_request \<Rightarrow> ops_data_route \<Rightarrow> 'w bff \<Rightarrow> appAccessTokenClaims option" where
  "ops_admitted V d q r s =
     (case bff_bearer (bq_authorization q) of
        None \<Rightarrow> None
      | Some token \<Rightarrow>
          (case verifyAppAccessToken (bv_lib V) (bd_now d) token (bf_auth s) of
             Inl _ \<Rightarrow> None
           | Inr claims \<Rightarrow>
               if ac_persona claims = data_persona r \<and> ac_role claims \<in> set (allowed_roles (data_persona r)) then Some claims else None))"

definition refused :: "(bff_error + bff_reply) \<Rightarrow> nat set \<Rightarrow> bool" where
  "refused x statuses = (\<exists>status code message. x = Inr (status, Error_reply code message) \<and> status \<in> statuses)"

lemma verify_error: "verifyAppAccessToken L now token s = Inl e \<Longrightarrow> ax_code e = APP_ACCESS_TOKEN_INVALID"
  by (auto simp: verifyAppAccessToken_def app_error_def split: option.splits sum.splits)

lemma mapped_access_error:
  "ax_code e = APP_ACCESS_TOKEN_INVALID \<Longrightarrow> refused (fst (mapped_error e s)) {401} \<and> snd (mapped_error e s) = s"
  by (simp add: mapped_error_def mapAppAuthError_def app_error_response_def bff_refuse_def bff_answer_def refused_def)

lemma authorize_admitted:
  "ops_admitted V d q r s = Some claims \<Longrightarrow> authorizeDataRoute (data_persona r) V d q k s = k claims s"
  by (auto simp: ops_admitted_def authorizeDataRoute_def split: option.splits sum.splits if_splits)

lemma authorize_refused:
  assumes "ops_admitted V d q r s = None"
  shows "refused (fst (authorizeDataRoute (data_persona r) V d q k s)) {401, 403} \<and> snd (authorizeDataRoute (data_persona r) V d q k s) = s"
proof (cases "bff_bearer (bq_authorization q)")
  case None
  then show ?thesis by (simp add: authorizeDataRoute_def bff_refuse_def bff_answer_def refused_def)
next
  case token: (Some token)
  show ?thesis
  proof (cases "verifyAppAccessToken (bv_lib V) (bd_now d) token (bf_auth s)")
    case (Inl e)
    with token mapped_access_error [OF verify_error [OF Inl], of s] show ?thesis
      by (auto simp: authorizeDataRoute_def refused_def)
  next
    case (Inr claims)
    with token assms show ?thesis
      by (auto simp: ops_admitted_def authorizeDataRoute_def bff_refuse_def bff_answer_def refused_def split: if_splits)
  qed
qed

definition flagless :: "'w bff_handler \<Rightarrow> bool" where
  "flagless h = (\<forall>s status flags. fst (h s) \<noteq> Inr (status, Flags flags))"

lemma flagless_rules:
  "(\<And>flags. body \<noteq> Flags flags) \<Longrightarrow> flagless (bff_answer status body)"
  "flagless (bff_refuse n code message)"
  "(\<And>x. flagless (kk x)) \<Longrightarrow> flagless (ask_core m kk)"
  "flagless h \<Longrightarrow> flagless (named_param i code message h)"
  "(\<And>j. flagless (k j)) \<Longrightarrow> flagless (merchant_query q k)"
  by (auto simp: flagless_def bff_answer_def bff_refuse_def ask_core_def named_param_def merchant_query_def split: sum.split prod.split option.split)

lemma guarded_flags_query:
  assumes "fst (guarded_flags p V d q claims s) = Inr (status, Flags flags)"
  shows "bq_query q ''userId'' = Some (JStr (ac_userId claims)) \<and> bq_query q ''role'' = Some (JStr (role_name (ac_role claims)))"
  using assms
  by (auto simp: guarded_flags_def flags_query_def bff_refuse_def bff_answer_def split: option.splits if_splits prod.splits)

lemma data_flags:
  assumes "fst (data_handle V fetch d q r claims s) = Inr (status, Flags flags)"
  shows "bq_query q ''userId'' = Some (JStr (ac_userId claims)) \<and> bq_query q ''role'' = Some (JStr (role_name (ac_role claims)))"
proof -
  have "r = Merchant_flags \<or> r = Admin_flags \<or> flagless (data_handle V fetch d q r claims)"
    by (cases r) (auto intro!: flagless_rules)
  with assms show ?thesis by (auto simp: flagless_def dest: guarded_flags_query)
qed


definition demo_bff_env :: bff_env where
  "demo_bff_env = \<lparr>bv_host = epoch_host, bv_lib = demo_app_lib\<lparr>jose_verify := (\<lambda>_ _ _ _ token. if token = ''t'' then
       Some [(''sub'', JStr ''u1''), (''sid'', JStr ''s1''), (''role'', JStr ''merchant_operator''), (''persona'', JStr ''merchant''),
         (''traceId'', JStr ''x''), (''refreshTokenId'', JStr ''r1'')] else None)\<rparr>,
     bv_verifier = createDevOidcVerifier, bv_native = (\<lambda>_. []), bv_number = (\<lambda>_. NaN), bv_flags = default_flags, bv_ttlSeconds = Fin 30\<rparr>"

definition demo_bff_draws :: bff_draws where
  "demo_bff_draws = \<lparr>bd_now = 0, bd_familyId = ''f'', bd_issue = demo_draws ''a''\<rparr>"

definition flag_request :: "string \<Rightarrow> bff_request" where
  "flag_request user = \<lparr>bq_query = map_of [(''userId'', JStr user), (''role'', JStr ''merchant_operator'')], bq_body = None,
     bq_authorization = Some ''Bearer t''\<rparr>"

lemma flag_bearer: "bff_bearer (bq_authorization (flag_request user)) = Some ''t''"
  by (simp add: flag_request_def) code_simp

definition demo_merchant :: appAccessTokenClaims where
  "demo_merchant = \<lparr>ac_userId = ''u1'', ac_sessionId = ''s1'', ac_role = Merchant_operator, ac_persona = Merchant_persona,
     ac_traceId = ''x'', ac_refreshTokenId = ''r1'', ac_deviceId = None\<rparr>"

lemma demo_claims: "verifyAppAccessToken (bv_lib demo_bff_env) n ''t'' a = Inr demo_merchant"
  by (simp add: verifyAppAccessToken_def demo_bff_env_def toAppAccessTokenClaims_def jprop_def isAppRole_def isAppPersona_def
      named_def appRoles_def personas_def role_name_def persona_name_def demo_merchant_def)

lemma demo_admitted: "ops_admitted demo_bff_env d (flag_request user) Merchant_flags s = Some demo_merchant"
  by (simp add: ops_admitted_def flag_bearer demo_claims) (simp add: demo_merchant_def allowed_roles_def)


section \<open>A quick order\<close>

lemma quick_order_fields:
  assumes "quick_order_of body = Inr q"
  shows "\<not> blank (qo_currency q) \<and> is_integer (qi_quantity (qo_item q)) \<and> \<not> num_le (qi_quantity (qo_item q)) (Fin 0) \<and>
    is_integer (qi_unitPriceCents (qo_item q)) \<and> (\<forall>m \<in> set (qi_modifiers (qo_item q)). is_integer (qm_priceCents m))"
proof -
  have ms: "\<forall>m \<in> set ms. is_integer (qm_priceCents m)" if "those (map quick_modifier_of js) = Some ms" for js ms
    using that by (induction js arbitrary: ms) (auto simp: quick_modifier_of_def split: option.splits bind_splits)
  show ?thesis
    using assms ms
    by (auto simp: quick_order_of_def quick_item_of_def split: option.splits json.splits bind_splits if_splits prod.splits)
qed

lemma integer_finite: "is_integer a \<Longrightarrow> is_finite a"
  by (cases a) (simp_all add: is_integer_def is_finite_def)

lemma quick_order_sellable:
  assumes "quick_order_of body = Inr inp"
  shows "sellable inp \<longleftrightarrow> is_finite (quick_unit_price (qo_item inp)) \<and> \<not> num_lt (quick_unit_price (qo_item inp)) (Fin 0)"
  using quick_order_fields [OF assms] integer_finite by (auto simp: sellable_def)

text \<open>A price that the modifiers bring below zero passes the consumer service, and the core API refuses the
  item after the basket was made.\<close>

lemma quick_negative_price_refused:
  "num_lt (quick_unit_price i) (Fin 0) \<Longrightarrow> validateUpdateBasketPayload (basket_update_body i) = Inl (Error_message ''INVALID_BASKET_ITEMS'')"
  by (cases "is_finite (quick_unit_price i)"; cases "is_finite (qi_quantity i)")
     (auto simp: validateUpdateBasketPayload_def basket_update_body_def with_payload_def jprop_def validateBasketItems_def
        basket_item_of_def object_with_def json_number_def jnumber_def jarray_def)


definition demo_order_request :: bff_request where
  "demo_order_request = \<lparr>bq_query = (\<lambda>_. None), bq_body = Some (JObj
     [(''consumerId'', JStr ''c1''), (''merchantId'', JStr ''m1''), (''currency'', JStr ''USD''),
      (''item'', JObj [(''itemId'', JStr ''i1''), (''name'', JStr ''Soup''), (''quantity'', JNum (Fin 2)), (''unitPriceCents'', JNum (Fin 500)),
        (''modifiers'', JArr [JObj [(''name'', JStr ''large''), (''priceCents'', JNum (Fin 100))]])])]), bq_authorization = None\<rparr>"

definition demo_order :: quickCreateOrderInput where
  "demo_order = \<lparr>qo_consumerId = ''c1'', qo_merchantId = ''m1'', qo_currency = ''USD'',
     qo_item = \<lparr>qi_itemId = ''i1'', qi_name = ''Soup'', qi_quantity = Fin 2, qi_unitPriceCents = Fin 500,
       qi_modifiers = [\<lparr>qm_name = ''large'', qm_priceCents = Fin 100\<rparr>]\<rparr>\<rparr>"

lemma demo_names: "\<not> blank ''c1''" "\<not> blank ''m1''" "\<not> blank ''USD''" "\<not> blank ''i1''" "\<not> blank ''Soup''" "\<not> blank ''large''"
  by code_simp+

lemma demo_order_read: "quick_order_of (bq_body demo_order_request) = Inr demo_order"
  by (simp add: demo_order_request_def quick_order_of_def optional_prop_def jprop_def filled_string_def demo_names
      quick_item_of_def is_integer_def quick_modifier_of_def demo_order_def jarray_def num_le_def num_eq_def)

lemma demo_price: "quick_unit_price (qo_item demo_order) = Fin 600"
proof -
  have "num_add (Fin 0) (Fin 100) = Fin 100" "num_add (Fin 500) (Fin 100) = Fin 600"
    using num_add_int [of 0 100] num_add_int [of 500 100] by simp_all
  then show ?thesis by (simp add: quick_unit_price_def demo_order_def)
qed


section \<open>From the session to the data\<close>

lemma issued_token:
  "tp_accessToken (sb_tokenPair (fst (issueSessionInternal h L d inp f s))) =
     signAppAccessToken L (id_signNow d) (sb_session (fst (issueSessionInternal h L d inp f s))) (ii_deviceId inp)
       (snd (issueSessionInternal h L d inp f s))"
  "aa_accessTtlSeconds (snd (issueSessionInternal h L d inp f s)) = aa_accessTtlSeconds s"
  by (simp_all add: issueSessionInternal_def Let_def)

lemma exchange_issues:
  assumes "session_exchange p V d q s = (Inr (200, Session_reply bundle), s1)"
  obtains identity token traceId deviceId role where "bv_verifier V token = Inr identity"
    and "session_role p (extractRolesFromClaims (oi_claims identity)) = Some role"
    and "bundle = fst (issueSessionInternal (bv_host V) (bv_lib V) (bd_issue d) \<lparr>ii_userId = oi_subject identity, ii_role = role,
        ii_persona = p, ii_traceId = traceId, ii_deviceId = deviceId\<rparr> (bd_familyId d) (bf_auth s))"
    and "s1 = s\<lparr>bf_auth := snd (issueSessionInternal (bv_host V) (bv_lib V) (bd_issue d) \<lparr>ii_userId = oi_subject identity,
        ii_role = role, ii_persona = p, ii_traceId = traceId, ii_deviceId = deviceId\<rparr> (bd_familyId d) (bf_auth s))\<rparr>"
proof -
  have no_session: "fst (mapped_error e s) \<noteq> Inr (200, Session_reply bundle)" "fst (role_required p s) \<noteq> Inr (200, Session_reply bundle)" for e
    by (auto simp: mapped_error_def role_required_def bff_refuse_def bff_answer_def split: option.split appPersona.split)
  show thesis
    using assms no_session that
    unfolding session_exchange_def session_payload_def issueAppSession_def bff_refuse_def bff_answer_def
    by (auto split: option.splits sum.splits prod.splits) (metis fst_conv snd_conv)+
qed

lemma session_role_allowed:
  assumes "session_role p roles = Some role" "p = Merchant_persona \<or> p = Admin_persona"
  shows "role \<in> set (allowed_roles p) \<and> role_name role \<in> set roles"
proof -
  have "role \<in> set ADMIN_ROLES \<and> includes_role role roles" if "resolveAdminRole roles = Some role"
    using that by (auto simp: resolveAdminRole_def find_Some_iff)
  with assms show ?thesis
    by (auto simp: session_role_def resolveMerchantRole_def includes_role_def allowed_roles_def split: if_splits)
qed

text \<open>The session a merchant or an administrator gets in exchange for an identity token opens the data
  routes of that persona until its access token expires: they run under the subject of the identity and
  under a role the identity was granted.\<close>

lemma exchanged_session_opens_routes:
  assumes "jose_verifies (bv_lib V)"
    and "session_exchange p V d q s = (Inr (200, Session_reply bundle), s1)" and "p = Merchant_persona \<or> p = Admin_persona"
    and "bff_bearer (bq_authorization q2) = Some (tp_accessToken (sb_tokenPair bundle))" and "data_persona r = p"
    and "bd_now d2 div 1000 < id_signNow (bd_issue d) div 1000 + aa_accessTtlSeconds (bf_auth s)"
  shows "\<exists>token identity claims. bv_verifier V token = Inr identity \<and>
    ac_userId claims = oi_subject identity \<and> role_name (ac_role claims) \<in> set (extractRolesFromClaims (oi_claims identity)) \<and>
    ops_handle V fetch d2 q2 (Ops_data r) s1 = data_handle V fetch d2 q2 r claims s1"
proof -
  obtain identity token traceId deviceId role where i: "bv_verifier V token = Inr identity"
    and role: "session_role p (extractRolesFromClaims (oi_claims identity)) = Some role"
    and issued: "bundle = fst (issueSessionInternal (bv_host V) (bv_lib V) (bd_issue d) \<lparr>ii_userId = oi_subject identity, ii_role = role,
        ii_persona = p, ii_traceId = traceId, ii_deviceId = deviceId\<rparr> (bd_familyId d) (bf_auth s))"
    and s1: "s1 = s\<lparr>bf_auth := snd (issueSessionInternal (bv_host V) (bv_lib V) (bd_issue d) \<lparr>ii_userId = oi_subject identity,
        ii_role = role, ii_persona = p, ii_traceId = traceId, ii_deviceId = deviceId\<rparr> (bd_familyId d) (bf_auth s))\<rparr>"
    using exchange_issues [OF assms(2)] .
  obtain claims where claims: "verifyAppAccessToken (bv_lib V) (bd_now d2) (tp_accessToken (sb_tokenPair bundle)) (bf_auth s1) = Inr claims"
    "ac_userId claims = oi_subject identity" "ac_role claims = role" "ac_persona claims = p"
    using access_token_verifies [OF assms(1)] assms(6) issued_token issue_session
    unfolding issued s1 by simp
  have "ops_admitted V d2 q2 r s1 = Some claims"
    using assms(4,5) claims session_role_allowed [OF role assms(3)] by (simp add: ops_admitted_def)
  from authorize_admitted [OF this] i claims session_role_allowed [OF role assms(3)] show ?thesis
    by (intro exI [of _ token] exI [of _ identity] exI [of _ claims]) simp
qed

text \<open>A \<open>jose\<close> that meets its documentation: the claims are counted in unary.\<close>

instance jsnum :: countable
  by countable_datatype

instance json :: countable
  by countable_datatype

definition unary_lib :: app_lib where
  "unary_lib = \<lparr>jose_sign = (\<lambda>key claims. replicate (Suc (to_nat claims)) (CHR ''x'')),
     jose_verify = (\<lambda>key issuer audience now token.
       let claims = from_nat (length token - 1) in
         (case jprop claims ''exp'' of
            Some (JNum (Fin e)) \<Rightarrow> if jprop claims ''iss'' = Some (JStr issuer) \<and> jprop claims ''aud'' = Some (JStr audience) \<and>
               of_int (now div 1000) < e then Some claims else None
          | _ \<Rightarrow> None)),
     lib_sha256_hex = id\<rparr>"

lemma unary_verifies: "jose_verifies unary_lib"
  by (simp add: jose_verifies_def unary_lib_def)

definition demo_exchange :: bff_request where
  "demo_exchange = \<lparr>bq_query = (\<lambda>_. None), bq_body = Some (JObj
     [(''oidcToken'', JStr ''dev:u1::merchant_operator''), (''traceId'', JStr ''x'')]), bq_authorization = None\<rparr>"

definition demo_session_env :: bff_env where
  "demo_session_env = demo_bff_env\<lparr>bv_lib := unary_lib\<rparr>"

lemma demo_identity:
  "case createDevOidcVerifier ''dev:u1::merchant_operator'' of
     Inl _ \<Rightarrow> False
   | Inr identity \<Rightarrow> oi_subject identity = ''u1'' \<and>
       session_role Merchant_persona (extractRolesFromClaims (oi_claims identity)) = Some Merchant_operator"
  by code_simp

lemma demo_exchange_filled: "\<not> blank ''dev:u1::merchant_operator''" "\<not> blank ''x''"
  by code_simp+

definition demo_bundle :: "app_auth_service \<Rightarrow> appSessionBundle" where
  "demo_bundle s = fst (issueSessionInternal epoch_host unary_lib (bd_issue demo_bff_draws)
     \<lparr>ii_userId = ''u1'', ii_role = Merchant_operator, ii_persona = Merchant_persona, ii_traceId = ''x'', ii_deviceId = None\<rparr>
     (bd_familyId demo_bff_draws) s)"

lemma demo_exchange_issues:
  obtains s1 where "session_exchange Merchant_persona demo_session_env demo_bff_draws demo_exchange s =
    (Inr (200, Session_reply (demo_bundle (bf_auth s))), s1)"
proof -
  obtain identity where "createDevOidcVerifier ''dev:u1::merchant_operator'' = Inr identity" "oi_subject identity = ''u1''"
    "session_role Merchant_persona (extractRolesFromClaims (oi_claims identity)) = Some Merchant_operator"
    using demo_identity by (auto split: sum.splits)
  then have "fst (session_exchange Merchant_persona demo_session_env demo_bff_draws demo_exchange s) =
      Inr (200, Session_reply (demo_bundle (bf_auth s)))"
    by (simp add: session_exchange_def session_payload_def demo_exchange_def optional_prop_def jprop_def filled_string_def
        optional_string_def demo_exchange_filled demo_session_env_def demo_bff_env_def issueAppSession_def case_prod_beta demo_bundle_def)
  then show thesis by (intro that) (rule prod_eqI, simp_all)
qed

lemma unary_token: "\<exists>n. signAppAccessToken unary_lib t session deviceId s = replicate (Suc n) (CHR ''x'')"
  by (intro exI) (simp only: signAppAccessToken_def unary_lib_def app_lib.simps)

lemma unary_trim: "js_trim (replicate (Suc n) (CHR ''x'')) = replicate (Suc n) (CHR ''x'')"
proof -
  have "dropWhile is_space (replicate (Suc m) (CHR ''x'')) = replicate (Suc m) (CHR ''x'')" for m
    by (simp add: is_space_def)
  then show ?thesis by (simp only: js_trim_def rev_replicate)
qed

lemma demo_token: "\<exists>n. tp_accessToken (sb_tokenPair (demo_bundle s)) = replicate (Suc n) (CHR ''x'')"
  unfolding demo_bundle_def issued_token(1) by (rule unary_token)

section \<open>Refused refreshes\<close>

text \<open>A refresh the session service refuses is answered with 401 by the consumer and the courier service; the
  service of merchants and administrators throws, and the family of a replayed token is revoked all the
  same.\<close>

lemma refresh_refused_or_thrown:
  assumes "refreshAppSession (bv_host V) (bv_lib V) (bd_now d) (bd_issue d)
      \<lparr>rx_refreshToken = token, rx_traceId = traceId, rx_deviceId = None\<rparr> (bf_auth s) = (Inl e, auth)"
    and "\<not> blank token" "\<not> blank traceId"
    and "bq_body q = Some (JObj [(''refreshToken'', JStr token), (''traceId'', JStr traceId)])"
  shows "session_refresh p V d q s =
    (if p = Consumer_persona \<or> p = Courier_persona then mapped_error e (s\<lparr>bf_auth := auth\<rparr>) else (Inl (From_auth e), s\<lparr>bf_auth := auth\<rparr>))"
  using assms by (simp add: session_refresh_def session_payload_def optional_prop_def jprop_def filled_string_def optional_string_def
      refresh_failed_def)

end
