(* ===== verification/WebClients.thy ===== *)
theory WebClients
  imports Bff
begin

text \<open>
  The web applications in front of the application services (\<open>apps/web-*\<close>): the calls of their
  \<open>api.ts\<close>, the checks of what comes back, the session managers of merchants and administrators, and the
  route handlers that turn a form into a call and a redirect. The pages that render the state are
  outside.
\<close>

section \<open>Calls and checks\<close>

text \<open>\<open>fetch\<close> with the \<open>authorization\<close> header of the request. An error of a client carries a code.\<close>

type_synonym 'w web_fetch = "string option \<Rightarrow> 'w fetch"

definition bearer_header :: "string option \<Rightarrow> string option" where
  "bearer_header appSessionToken = (if given appSessionToken then Some (''Bearer '' @ nullish appSessionToken []) else None)"

definition or_invalid :: "'a option \<Rightarrow> string \<Rightarrow> ('w, 'a) client" where
  "or_invalid m code = (case m of Some x \<Rightarrow> client_return x | None \<Rightarrow> client_throw (Core_api_failed code))"

text \<open>\<open>!x\<close> of a property.\<close>

definition falsy :: "json option \<Rightarrow> bool" where
  "falsy j = (case j of
     None \<Rightarrow> True | Some JNull \<Rightarrow> True | Some (JBool b) \<Rightarrow> \<not> b | Some (JStr s) \<Rightarrow> s = []
   | Some (JNum a) \<Rightarrow> a = Fin 0 \<or> a = NaN | _ \<Rightarrow> False)"

text \<open>\<open>payload.name\<close>, which has to be there.\<close>

definition required_field :: "string \<Rightarrow> string \<Rightarrow> json \<Rightarrow> ('w, json) client" where
  "required_field name code payload = with_fields payload (\<lambda>get.
     if falsy (get name) then client_throw (Core_api_failed code) else client_return (the (get name)))"

definition asNonEmptyString :: "json option \<Rightarrow> string option" where
  "asNonEmptyString j = do { s \<leftarrow> jstring j; check (s \<noteq> []); Some s }"

definition asPositiveInteger :: "json option \<Rightarrow> jsnum option" where
  "asPositiveInteger j = do { a \<leftarrow> jnumber j; check (is_integer a \<and> \<not> num_le a (Fin 0)); Some a }"

definition asFiniteNumber :: "json option \<Rightarrow> jsnum option" where
  "asFiniteNumber j = do { a \<leftarrow> jnumber j; check (is_finite a); Some a }"

text \<open>\<open>typeof x === "object" && x !== null\<close>, read as a record.\<close>

definition object_of :: "json option \<Rightarrow> (string \<Rightarrow> json option) option" where
  "object_of j = (case j of Some (JObj ps) \<Rightarrow> Some (jprop ps) | Some (JArr _) \<Rightarrow> Some (\<lambda>_. None) | _ \<Rightarrow> None)"

section \<open>The consumer application\<close>

record webQuickItem =
  wi_itemId :: string
  wi_name :: string
  wi_quantity :: jsnum
  wi_unitPriceCents :: jsnum
  wi_modifiers :: "quickOrderModifier list option"

record webQuickOrder =
  wq_consumerId :: string
  wq_merchantId :: string
  wq_currency :: string
  wq_item :: webQuickItem

definition quick_order_body :: "webQuickOrder \<Rightarrow> json" where
  "quick_order_body q = JObj
     [(''consumerId'', JStr (wq_consumerId q)), (''merchantId'', JStr (wq_merchantId q)), (''currency'', JStr (wq_currency q)),
      (''item'', JObj
        [(''itemId'', JStr (wi_itemId (wq_item q))), (''name'', JStr (wi_name (wq_item q))),
         (''quantity'', json_number (wi_quantity (wq_item q))), (''unitPriceCents'', json_number (wi_unitPriceCents (wq_item q))),
         (''modifiers'', JArr (map (\<lambda>m. JObj [(''name'', JStr (qm_name m)), (''priceCents'', json_number (qm_priceCents m))])
            (nullish (wi_modifiers (wq_item q)) [])))])]"

definition createConsumerQuickOrder :: "'w web_fetch \<Rightarrow> webQuickOrder \<Rightarrow> ('w, json) client" where
  "createConsumerQuickOrder fetch q =
     fetch_json (fetch None) (post_json [''app'', ''v1'', ''consumer'', ''orders'', ''quick-create''] (quick_order_body q))
       ''CONSUMER_BFF_QUICK_CREATE_ORDER_FAILED'' (required_field ''order'' ''CONSUMER_BFF_QUICK_CREATE_ORDER_INVALID_PAYLOAD'')"

definition fetchConsumerOrder :: "'w web_fetch \<Rightarrow> string \<Rightarrow> ('w, json) client" where
  "fetchConsumerOrder fetch orderId = with_encoded orderId (\<lambda>i.
     fetch_json (fetch None) (get_call [''app'', ''v1'', ''consumer'', ''orders'', i] [])
       ''CONSUMER_BFF_ORDER_FETCH_FAILED'' (required_field ''order'' ''CONSUMER_BFF_ORDER_INVALID_PAYLOAD''))"

section \<open>The courier application\<close>

definition listAvailableCourierJobs :: "'w web_fetch \<Rightarrow> ('w, json) client" where
  "listAvailableCourierJobs fetch =
     passed_list (fetch None) (get_call [''app'', ''v1'', ''courier'', ''jobs'', ''available''] []) ''COURIER_BFF_AVAILABLE_JOBS_FETCH_FAILED'' ''jobs''"

definition postCourierJobAction :: "'w web_fetch \<Rightarrow> string \<Rightarrow> string \<Rightarrow> string \<Rightarrow> ('w, json) client" where
  "postCourierJobAction fetch jobId action courierId = with_encoded jobId (\<lambda>i.
     fetch_json (fetch None) (post_json [''app'', ''v1'', ''courier'', ''jobs'', i, action] (JObj [(''courierId'', JStr courierId)]))
       ''COURIER_BFF_JOB_ACTION_FAILED'' (required_field ''job'' ''COURIER_BFF_JOB_ACTION_INVALID_PAYLOAD''))"

definition acceptCourierJob :: "'w web_fetch \<Rightarrow> string \<Rightarrow> string \<Rightarrow> ('w, json) client" where
  "acceptCourierJob fetch jobId courierId = postCourierJobAction fetch jobId ''accept'' courierId"

definition pickupCourierJob :: "'w web_fetch \<Rightarrow> string \<Rightarrow> string \<Rightarrow> ('w, json) client" where
  "pickupCourierJob fetch jobId courierId = postCourierJobAction fetch jobId ''pickup'' courierId"

definition dropoffCourierJob :: "'w web_fetch \<Rightarrow> string \<Rightarrow> string \<Rightarrow> ('w, json) client" where
  "dropoffCourierJob fetch jobId courierId = postCourierJobAction fetch jobId ''dropoff'' courierId"

record courierDemoState =
  ds_primaryJob :: "json option"
  ds_followUpJobId :: "string option"
  ds_followUpStatus :: "string option"
  ds_canPickupFollowUp :: bool
  ds_canDropoffFollowUp :: bool

definition trimValue :: "string option \<Rightarrow> string option" where
  "trimValue v = (if \<not> given v then None else let t = js_trim (nullish v []) in if 0 < length t then Some t else None)"

definition first_job :: "json list \<Rightarrow> json option" where
  "first_job jobs = (case jobs of [] \<Rightarrow> None | j # _ \<Rightarrow> Some j)"

definition buildCourierDemoState :: "json list \<Rightarrow> string option \<Rightarrow> string option \<Rightarrow> courierDemoState" where
  "buildCourierDemoState jobs lastJobId lastStatus =
     (let followUpJobId = trimValue lastJobId;
          followUpStatus = trimValue lastStatus;
          primaryJob = (case followUpJobId of
            None \<Rightarrow> first_job jobs
          | Some i \<Rightarrow> (case List.find (\<lambda>job. optional_prop (Some job) ''jobId'' = Some (JStr i)) jobs of
              Some job \<Rightarrow> Some job | None \<Rightarrow> first_job jobs))
      in \<lparr>ds_primaryJob = primaryJob, ds_followUpJobId = followUpJobId, ds_followUpStatus = followUpStatus,
          ds_canPickupFollowUp = (followUpStatus = Some ''ASSIGNED'' \<or> followUpStatus = Some ''ACCEPTED''),
          ds_canDropoffFollowUp = (followUpStatus = Some ''PICKED_UP'')\<rparr>)"

section \<open>Sessions and feature flags of merchants and administrators\<close>

text \<open>The two applications have the same code but for the persona in the paths and the error codes. The
  definitions below take the persona, or serve both; the administrators' application instantiates them.\<close>

record webSession =
  ws_sessionId :: string
  ws_userId :: string
  ws_role :: string
  ws_persona :: string
  ws_traceId :: string
  ws_refreshTokenId :: string
  ws_issuedAt :: string
  ws_expiresAt :: string

record webTokenPair =
  wt_accessToken :: string
  wt_refreshToken :: string
  wt_expiresInSeconds :: jsnum
  wt_refreshExpiresInSeconds :: jsnum
  wt_refreshExpiresAt :: string

record webSessionBundle =
  wb_session :: webSession
  wb_tokenPair :: webTokenPair

type_synonym adminAppSession = webSession

type_synonym adminSessionTokenPair = webTokenPair

type_synonym adminSessionExchangeResponse = webSessionBundle

definition read_session :: "(string \<Rightarrow> json option) \<Rightarrow> webSession option" where
  "read_session session = do {
     sessionId \<leftarrow> asNonEmptyString (session ''sessionId'');
     userId \<leftarrow> asNonEmptyString (session ''userId'');
     role \<leftarrow> asNonEmptyString (session ''role'');
     persona \<leftarrow> asNonEmptyString (session ''persona'');
     traceId \<leftarrow> asNonEmptyString (session ''traceId'');
     refreshTokenId \<leftarrow> asNonEmptyString (session ''refreshTokenId'');
     issuedAt \<leftarrow> asNonEmptyString (session ''issuedAt'');
     expiresAt \<leftarrow> asNonEmptyString (session ''expiresAt'');
     Some \<lparr>ws_sessionId = sessionId, ws_userId = userId, ws_role = role, ws_persona = persona, ws_traceId = traceId,
           ws_refreshTokenId = refreshTokenId, ws_issuedAt = issuedAt, ws_expiresAt = expiresAt\<rparr>
   }"

definition read_token_pair :: "(string \<Rightarrow> json option) \<Rightarrow> webTokenPair option" where
  "read_token_pair tokenPair = do {
     accessToken \<leftarrow> asNonEmptyString (tokenPair ''accessToken'');
     refreshToken \<leftarrow> asNonEmptyString (tokenPair ''refreshToken'');
     expiresInSeconds \<leftarrow> asPositiveInteger (tokenPair ''expiresInSeconds'');
     refreshExpiresInSeconds \<leftarrow> asPositiveInteger (tokenPair ''refreshExpiresInSeconds'');
     refreshExpiresAt \<leftarrow> asNonEmptyString (tokenPair ''refreshExpiresAt'');
     Some \<lparr>wt_accessToken = accessToken, wt_refreshToken = refreshToken, wt_expiresInSeconds = expiresInSeconds,
           wt_refreshExpiresInSeconds = refreshExpiresInSeconds, wt_refreshExpiresAt = refreshExpiresAt\<rparr>
   }"

text \<open>Every check throws the same code, so their order does not show.\<close>

definition parseSessionExchangeResponse :: "json \<Rightarrow> webSessionBundle option" where
  "parseSessionExchangeResponse payload = do {
     response \<leftarrow> object_of (Some payload);
     session \<leftarrow> object_of (response ''session'');
     tokenPair \<leftarrow> object_of (response ''tokenPair'');
     tokenType \<leftarrow> asNonEmptyString (tokenPair ''tokenType'');
     check (tokenType = ''Bearer'');
     s \<leftarrow> read_session session;
     t \<leftarrow> read_token_pair tokenPair;
     Some \<lparr>wb_session = s, wb_tokenPair = t\<rparr>
   }"

definition asBooleanFlagRecord :: "json option \<Rightarrow> (string \<times> bool) list option" where
  "asBooleanFlagRecord j =
     (case j of
        Some (JObj ps) \<Rightarrow> if list_all (\<lambda>(k, v). jboolean (Some v) \<noteq> None) ps then Some (boolean_flags ps) else None
      | Some (JArr xs) \<Rightarrow>
          if list_all (\<lambda>v. jboolean (Some v) \<noteq> None) xs then Some (boolean_flags (zip (map nat_digits [0..<length xs]) xs)) else None
      | _ \<Rightarrow> None)"

record webFlagSnapshot =
  wf_flags :: "(string \<times> bool) list"
  wf_ttlSeconds :: jsnum
  wf_generatedAtEpochMillis :: jsnum

definition parseFeatureFlagSnapshot :: "json \<Rightarrow> webFlagSnapshot option" where
  "parseFeatureFlagSnapshot payload = do {
     response \<leftarrow> object_of (Some payload);
     flags \<leftarrow> asBooleanFlagRecord (response ''flags'');
     ttlSeconds \<leftarrow> asPositiveInteger (response ''ttlSeconds'');
     generatedAtEpochMillis \<leftarrow> asPositiveInteger (response ''generatedAtEpochMillis'');
     Some \<lparr>wf_flags = flags, wf_ttlSeconds = ttlSeconds, wf_generatedAtEpochMillis = generatedAtEpochMillis\<rparr>
   }"

type_synonym adminFeatureFlagSnapshot = webFlagSnapshot

definition parseAdminSessionExchangeResponse :: "json \<Rightarrow> adminSessionExchangeResponse option" where
  "parseAdminSessionExchangeResponse = parseSessionExchangeResponse"

definition parseAdminFeatureFlagSnapshot :: "json \<Rightarrow> adminFeatureFlagSnapshot option" where
  "parseAdminFeatureFlagSnapshot = parseFeatureFlagSnapshot"

text \<open>The error codes of the two applications.\<close>

definition app_codes :: "appPersona \<Rightarrow> string \<Rightarrow> string" where
  "app_codes p s = (if p = Admin_persona then ''OPS_BFF_ADMIN_'' else ''OPS_BFF_MERCHANT_'') @ s"

record sessionExchangeRequest =
  sx_oidcToken :: string
  sx_traceId :: string
  sx_deviceId :: "string option"

definition exchangeSession :: "appPersona \<Rightarrow> 'w web_fetch \<Rightarrow> sessionExchangeRequest \<Rightarrow> ('w, webSessionBundle) client" where
  "exchangeSession p fetch r =
     fetch_json (fetch None) (post_json [''app'', ''v1'', persona_name p, ''session'', ''exchange'']
         (json_fields [(''oidcToken'', Some (JStr (sx_oidcToken r))), (''traceId'', Some (JStr (sx_traceId r))),
            (''deviceId'', map_option JStr (sx_deviceId r))]))
       (app_codes p ''SESSION_EXCHANGE_FAILED'') (\<lambda>payload.
     or_invalid (parseSessionExchangeResponse payload) (app_codes p ''SESSION_EXCHANGE_INVALID_PAYLOAD''))"

definition web_refreshSession :: "appPersona \<Rightarrow> 'w web_fetch \<Rightarrow> refreshAppSessionInput \<Rightarrow> ('w, webSessionBundle) client" where
  "web_refreshSession p fetch r =
     fetch_json (fetch None) (post_json [''app'', ''v1'', persona_name p, ''session'', ''refresh'']
         (json_fields [(''refreshToken'', Some (JStr (rx_refreshToken r))), (''traceId'', Some (JStr (rx_traceId r))),
            (''deviceId'', map_option JStr (rx_deviceId r))]))
       (app_codes p ''SESSION_REFRESH_FAILED'') (\<lambda>payload.
     or_invalid (parseSessionExchangeResponse payload) (app_codes p ''SESSION_REFRESH_INVALID_PAYLOAD''))"

definition exchangeAdminSession :: "'w web_fetch \<Rightarrow> sessionExchangeRequest \<Rightarrow> ('w, adminSessionExchangeResponse) client" where
  "exchangeAdminSession = exchangeSession Admin_persona"

definition refreshAdminSession :: "'w web_fetch \<Rightarrow> refreshAppSessionInput \<Rightarrow> ('w, adminSessionExchangeResponse) client" where
  "refreshAdminSession = web_refreshSession Admin_persona"

text \<open>\<open>URLSearchParams.toString\<close>: the form encoding of a value.\<close>

definition form_char :: "char \<Rightarrow> string" where
  "form_char c = (if c = CHR '' '' then ''+''
     else if uri_unreserved c \<and> c \<notin> set ''!~()'' \<and> of_char c \<noteq> (39 :: nat) then [c]
     else [CHR ''%'', hex_char (of_char c div 16), hex_char (of_char c mod 16)])"

definition form_encode :: "string \<Rightarrow> string" where
  "form_encode s = concat (map form_char s)"

record flagContext =
  fx_userId :: string
  fx_role :: string
  fx_tenantId :: "string option"

definition fetchFeatureFlags :: "appPersona \<Rightarrow> 'w web_fetch \<Rightarrow> string option \<Rightarrow> flagContext \<Rightarrow> ('w, webFlagSnapshot) client" where
  "fetchFeatureFlags p fetch appSessionToken c =
     fetch_json (fetch (bearer_header appSessionToken)) (get_call [''app'', ''v1'', persona_name p, ''feature-flags'']
         ([(''userId'', form_encode (fx_userId c)), (''role'', form_encode (fx_role c))] @
          (if given (fx_tenantId c) then [(''tenantId'', form_encode (nullish (fx_tenantId c) []))] else [])))
       (app_codes p ''FEATURE_FLAGS_FETCH_FAILED'') (\<lambda>payload.
     or_invalid (parseFeatureFlagSnapshot payload) (app_codes p ''FEATURE_FLAGS_INVALID_PAYLOAD''))"

definition fetchAdminFeatureFlags :: "'w web_fetch \<Rightarrow> string option \<Rightarrow> flagContext \<Rightarrow> ('w, adminFeatureFlagSnapshot) client" where
  "fetchAdminFeatureFlags = fetchFeatureFlags Admin_persona"

text \<open>The session manager keeps the last session it was given.\<close>

datatype manager_error = Manager_client client_error | No_active_session

type_synonym ('w, 'a) managed = "webSessionBundle option \<times> 'w \<Rightarrow> (manager_error + 'a) \<times> webSessionBundle option \<times> 'w"

definition keep_session :: "('w, webSessionBundle) client \<Rightarrow> ('w, webSessionBundle) managed" where
  "keep_session m s =
     (case m (snd s) of
        (Inl e, w) \<Rightarrow> (Inl (Manager_client e), fst s, w)
      | (Inr response, w) \<Rightarrow> (Inr response, Some response, w))"

definition signIn :: "appPersona \<Rightarrow> 'w web_fetch \<Rightarrow> sessionExchangeRequest \<Rightarrow> ('w, webSessionBundle) managed" where
  "signIn p fetch r = keep_session (exchangeSession p fetch r)"

definition manager_refresh :: "appPersona \<Rightarrow> 'w web_fetch \<Rightarrow> string \<Rightarrow> string option \<Rightarrow> ('w, webSessionBundle) managed" where
  "manager_refresh p fetch traceId deviceId s =
     (case fst s of
        None \<Rightarrow> (Inl No_active_session, s)
      | Some active \<Rightarrow>
          if wt_refreshToken (wb_tokenPair active) = [] then (Inl No_active_session, s)
          else keep_session (web_refreshSession p fetch
                 \<lparr>rx_refreshToken = wt_refreshToken (wb_tokenPair active), rx_traceId = traceId, rx_deviceId = deviceId\<rparr>) s)"

definition currentSession :: "webSessionBundle option \<times> 'w \<Rightarrow> webSessionBundle option" where
  "currentSession s = fst s"

definition admin_signIn :: "'w web_fetch \<Rightarrow> sessionExchangeRequest \<Rightarrow> ('w, adminSessionExchangeResponse) managed" where
  "admin_signIn = signIn Admin_persona"

definition admin_refresh :: "'w web_fetch \<Rightarrow> string \<Rightarrow> string option \<Rightarrow> ('w, adminSessionExchangeResponse) managed" where
  "admin_refresh = manager_refresh Admin_persona"

section \<open>The data of merchants and administrators\<close>

definition fetchMerchantOrders :: "'w web_fetch \<Rightarrow> string option \<Rightarrow> string \<Rightarrow> ('w, merchantOrderView list) client" where
  "fetchMerchantOrders fetch appSessionToken merchantId = with_encoded merchantId (\<lambda>i.
     fetch_json (fetch (bearer_header appSessionToken)) (get_call [''app'', ''v1'', ''merchant'', ''orders''] [(''merchantId'', i)])
       ''OPS_BFF_MERCHANT_ORDERS_FETCH_FAILED'' (\<lambda>payload.
     with_fields payload (\<lambda>get. mapped_list (get ''orders'') merchant_order_view)))"

definition web_acceptMerchantOrder :: "'w web_fetch \<Rightarrow> string option \<Rightarrow> string \<Rightarrow> ('w, json) client" where
  "web_acceptMerchantOrder fetch appSessionToken orderId = with_encoded orderId (\<lambda>i.
     fetch_json (fetch (bearer_header appSessionToken)) (send_call ''POST'' [''app'', ''v1'', ''merchant'', ''orders'', i, ''accept''] None)
       ''OPS_BFF_MERCHANT_ACCEPT_ORDER_FAILED'' (required_field ''order'' ''OPS_BFF_MERCHANT_ACCEPT_ORDER_INVALID_PAYLOAD''))"

definition candidate_json :: "assignmentCandidate \<Rightarrow> json" where
  "candidate_json c = JObj [(''courierId'', JStr (ac_courierId c)), (''distanceMeters'', json_number (ac_distanceMeters c)),
     (''available'', JBool (ac_available c)), (''activeOrders'', json_number (ac_activeOrders c)),
     (''withinRestWindow'', JBool (ac_withinRestWindow c))]"

definition assignment_json :: "assignmentBody \<Rightarrow> json" where
  "assignment_json a = JObj [(''candidates'', JArr (map candidate_json (ab_candidates a))), (''slaPressure'', json_number (ab_slaPressure a)),
     (''merchantSelfDeliveryEnabled'', JBool (ab_merchantSelfDeliveryEnabled a))]"

definition requestMerchantDispatch :: "'w web_fetch \<Rightarrow> string option \<Rightarrow> string \<Rightarrow> assignmentBody \<Rightarrow> ('w, json) client" where
  "requestMerchantDispatch fetch appSessionToken orderId a = with_encoded orderId (\<lambda>i.
     fetch_json (fetch (bearer_header appSessionToken))
       (post_json [''app'', ''v1'', ''merchant'', ''orders'', i, ''request-dispatch''] (assignment_json a))
       ''OPS_BFF_MERCHANT_REQUEST_DISPATCH_FAILED'' (required_field ''order'' ''OPS_BFF_MERCHANT_REQUEST_DISPATCH_INVALID_PAYLOAD''))"

definition fetchMerchantPayoutStatements :: "'w web_fetch \<Rightarrow> string option \<Rightarrow> string \<Rightarrow> ('w, json) client" where
  "fetchMerchantPayoutStatements fetch appSessionToken merchantId = with_encoded merchantId (\<lambda>i.
     passed_list (fetch (bearer_header appSessionToken)) (get_call [''app'', ''v1'', ''merchant'', ''payouts''] [(''merchantId'', i)])
       ''OPS_BFF_MERCHANT_PAYOUTS_FETCH_FAILED'' ''statements'')"

record adminIncidentView =
  ai_id :: "json option"
  ai_severity :: "json option"

definition fetchAdminIncidents :: "'w web_fetch \<Rightarrow> string option \<Rightarrow> ('w, adminIncidentView list) client" where
  "fetchAdminIncidents fetch appSessionToken =
     fetch_json (fetch (bearer_header appSessionToken)) (get_call [''app'', ''v1'', ''admin'', ''incidents''] [])
       ''OPS_BFF_ADMIN_INCIDENTS_FETCH_FAILED'' (\<lambda>payload.
     with_fields payload (\<lambda>get. mapped_list (get ''incidents'') (\<lambda>incident. \<lparr>ai_id = incident ''id'', ai_severity = incident ''severity''\<rparr>)))"

definition fetchAdminComplianceAuditEvents :: "'w web_fetch \<Rightarrow> string option \<Rightarrow> ('w, json) client" where
  "fetchAdminComplianceAuditEvents fetch appSessionToken =
     passed_list (fetch (bearer_header appSessionToken)) (get_call [''app'', ''v1'', ''admin'', ''compliance'', ''audit-events''] [])
       ''OPS_BFF_ADMIN_COMPLIANCE_AUDIT_EVENTS_FETCH_FAILED'' ''events''"

record webSloBreach =
  wx_type :: string
  wx_actual :: jsnum
  wx_threshold :: jsnum

record webSloDashboard =
  wd_availabilityPercent :: jsnum
  wd_checkoutP95Ms :: jsnum
  wd_timelineP95Ms :: jsnum
  wd_breaches :: "webSloBreach list"

definition parseAdminSloBreach :: "json \<Rightarrow> webSloBreach option" where
  "parseAdminSloBreach payload = do {
     response \<leftarrow> object_of (Some payload);
     type \<leftarrow> asNonEmptyString (response ''type'');
     check (type \<in> {''AVAILABILITY'', ''LATENCY_CHECKOUT'', ''LATENCY_TIMELINE''});
     actual \<leftarrow> asFiniteNumber (response ''actual'');
     threshold \<leftarrow> asFiniteNumber (response ''threshold'');
     Some \<lparr>wx_type = type, wx_actual = actual, wx_threshold = threshold\<rparr>
   }"

definition parseAdminSloDashboard :: "json \<Rightarrow> webSloDashboard option" where
  "parseAdminSloDashboard payload = do {
     response \<leftarrow> object_of (Some payload);
     breaches \<leftarrow> jarray (response ''breaches'');
     breaches \<leftarrow> those (map parseAdminSloBreach breaches);
     availabilityPercent \<leftarrow> asFiniteNumber (response ''availabilityPercent'');
     checkoutP95Ms \<leftarrow> asFiniteNumber (response ''checkoutP95Ms'');
     timelineP95Ms \<leftarrow> asFiniteNumber (response ''timelineP95Ms'');
     Some \<lparr>wd_availabilityPercent = availabilityPercent, wd_checkoutP95Ms = checkoutP95Ms, wd_timelineP95Ms = timelineP95Ms,
           wd_breaches = breaches\<rparr>
   }"

definition fetchAdminSloDashboard :: "'w web_fetch \<Rightarrow> string option \<Rightarrow> ('w, webSloDashboard) client" where
  "fetchAdminSloDashboard fetch appSessionToken =
     fetch_json (fetch (bearer_header appSessionToken)) (get_call [''app'', ''v1'', ''admin'', ''slo-dashboard''] [])
       ''OPS_BFF_ADMIN_SLO_DASHBOARD_FETCH_FAILED'' (\<lambda>payload.
     or_invalid (parseAdminSloDashboard payload) ''OPS_BFF_ADMIN_SLO_DASHBOARD_INVALID_PAYLOAD'')"

section \<open>Forms\<close>

text \<open>An entry of a form is a text or a file. A handler ends in a redirect to the page with a query.\<close>

datatype form_entry = Form_text string | Form_file

type_synonym form = "string \<Rightarrow> form_entry option"

type_synonym redirect_query = "(string \<times> string) list"

definition asNonEmptyFormValue :: "form_entry option \<Rightarrow> string \<Rightarrow> string" where
  "asNonEmptyFormValue v fallback =
     (case v of Some (Form_text s) \<Rightarrow> (let trimmed = js_trim s in if 0 < length trimmed then trimmed else fallback) | _ \<Rightarrow> fallback)"

definition form_asPositiveInteger :: "form_entry option \<Rightarrow> jsnum \<Rightarrow> jsnum" where
  "form_asPositiveInteger v fallback =
     (case v of
        Some (Form_text s) \<Rightarrow>
          (let parsed = js_parseInt (js_trim s) in if \<not> is_finite parsed \<or> num_le parsed (Fin 0) then fallback else parsed)
      | _ \<Rightarrow> fallback)"

text \<open>\<open>try { x = await m } catch { redirect ... }\<close>, where the redirect ends the handler.\<close>

definition attempt :: "('w, 'a) client \<Rightarrow> ('w, 'b) client \<Rightarrow> ('a \<Rightarrow> ('w, 'b) client) \<Rightarrow> ('w, 'b) client" where
  "attempt m failed k w = (case m w of (Inl e, w1) \<Rightarrow> failed w1 | (Inr x, w1) \<Rightarrow> k x w1)"

definition redirect_error :: "string \<Rightarrow> string \<Rightarrow> string \<Rightarrow> ('w, redirect_query) client" where
  "redirect_error name value code = with_encoded value (\<lambda>v. client_return [(name, v), (''error'', code)])"

text \<open>\<open>encodeURIComponent\<close> of a property of an answer.\<close>

definition with_field_text :: "(json \<Rightarrow> string) \<Rightarrow> json \<Rightarrow> string \<Rightarrow> (string \<Rightarrow> ('w, 'a) client) \<Rightarrow> ('w, 'a) client" where
  "with_field_text native j name = with_encoded (text_of native (optional_prop (Some j) name))"

definition redirect_order :: "(json \<Rightarrow> string) \<Rightarrow> string \<Rightarrow> string \<Rightarrow> json \<Rightarrow> ('w, redirect_query) client" where
  "redirect_order native merchantId action order =
     with_encoded merchantId (\<lambda>m.
     with_field_text native order ''id'' (\<lambda>i.
     with_field_text native order ''status'' (\<lambda>s.
     client_return [(''merchantId'', m), (''action'', action), (''orderId'', i), (''status'', s)])))"

definition merchant_form ::
  "(json \<Rightarrow> string) \<Rightarrow> (string \<Rightarrow> ('w, json) client) \<Rightarrow> string \<Rightarrow> string \<Rightarrow> form \<Rightarrow> ('w, redirect_query) client"
where
  "merchant_form native m code action form =
     (let appSessionToken = asNonEmptyFormValue (form ''appSessionToken'') [];
          merchantId = asNonEmptyFormValue (form ''merchantId'') ''merchant-1''
      in if appSessionToken = [] then client_return [(''error'', ''APP_SESSION_REQUIRED'')]
         else attempt (m appSessionToken) (redirect_error ''merchantId'' merchantId code) (redirect_order native merchantId action))"

definition accept_order_form :: "(json \<Rightarrow> string) \<Rightarrow> 'w web_fetch \<Rightarrow> string \<Rightarrow> form \<Rightarrow> ('w, redirect_query) client" where
  "accept_order_form native fetch orderId =
     merchant_form native (\<lambda>token. web_acceptMerchantOrder fetch (Some token) orderId) ''MERCHANT_ACCEPT_FAILED'' ''accept''"

definition demo_dispatch_request :: assignmentBody where
  "demo_dispatch_request = \<lparr>ab_candidates =
       [\<lparr>ac_courierId = ''courier-1'', ac_distanceMeters = Fin 300, ac_available = True, ac_activeOrders = Fin 0, ac_withinRestWindow = True\<rparr>,
        \<lparr>ac_courierId = ''courier-2'', ac_distanceMeters = Fin 700, ac_available = True, ac_activeOrders = Fin 1, ac_withinRestWindow = True\<rparr>],
     ab_slaPressure = double_of (45 / 100), ab_merchantSelfDeliveryEnabled = False\<rparr>"

definition request_dispatch_form :: "(json \<Rightarrow> string) \<Rightarrow> 'w web_fetch \<Rightarrow> string \<Rightarrow> form \<Rightarrow> ('w, redirect_query) client" where
  "request_dispatch_form native fetch orderId =
     merchant_form native (\<lambda>token. requestMerchantDispatch fetch (Some token) orderId demo_dispatch_request)
       ''MERCHANT_DISPATCH_REQUEST_FAILED'' ''request-dispatch''"

definition form_quick_order :: "form \<Rightarrow> webQuickOrder" where
  "form_quick_order form =
     \<lparr>wq_consumerId = asNonEmptyFormValue (form ''consumerId'') ''consumer-1'',
      wq_merchantId = asNonEmptyFormValue (form ''merchantId'') ''merchant-1'', wq_currency = ''USD'',
      wq_item = \<lparr>wi_itemId = ''menu-item-1'', wi_name = asNonEmptyFormValue (form ''itemName'') ''Chicken Rice Bowl'',
        wi_quantity = form_asPositiveInteger (form ''quantity'') (Fin 1),
        wi_unitPriceCents = form_asPositiveInteger (form ''unitPriceCents'') (Fin 1250),
        wi_modifiers = Some [\<lparr>qm_name = asNonEmptyFormValue (form ''modifierName'') ''Extra Sauce'',
          qm_priceCents = form_asPositiveInteger (form ''modifierPriceCents'') (Fin 100)\<rparr>]\<rparr>\<rparr>"

definition quick_create_form :: "(json \<Rightarrow> string) \<Rightarrow> 'w web_fetch \<Rightarrow> form \<Rightarrow> ('w, redirect_query) client" where
  "quick_create_form native fetch form =
     attempt (createConsumerQuickOrder fetch (form_quick_order form)) (client_return [(''error'', ''CONSUMER_ORDER_CREATE_FAILED'')])
       (\<lambda>order. with_field_text native order ''id'' (\<lambda>i. client_return [(''orderId'', i)]))"

definition job_action_form :: "(json \<Rightarrow> string) \<Rightarrow> 'w web_fetch \<Rightarrow> string \<Rightarrow> string \<Rightarrow> form \<Rightarrow> ('w, redirect_query) client" where
  "job_action_form native fetch jobId action form =
     (let courierId = asNonEmptyFormValue (form ''courierId'') ''courier-1'';
          done = (\<lambda>job. with_encoded courierId (\<lambda>c.
            with_field_text native job ''jobId'' (\<lambda>j.
            with_field_text native job ''status'' (\<lambda>s.
            client_return [(''courierId'', c), (''lastJobId'', j), (''lastStatus'', s)]))));
          failed = redirect_error ''courierId'' courierId ''COURIER_JOB_ACTION_FAILED''
      in if action = ''accept'' then attempt (acceptCourierJob fetch jobId courierId) failed done
         else if action = ''pickup'' then attempt (pickupCourierJob fetch jobId courierId) failed done
         else if action = ''dropoff'' then attempt (dropoffCourierJob fetch jobId courierId) failed done
         else redirect_error ''courierId'' courierId ''INVALID_JOB_ACTION'')"

section \<open>A form becomes an order\<close>

text \<open>A whole number beyond the exact range rounds to a whole double.\<close>

lemma double_of_whole:
  assumes "double_of (of_int z) = Fin y" shows "y \<in> \<int>"
proof (cases "0 \<le> double_exp (of_int z)")
  case True
  then have "(2::rat) powi double_exp (of_int z) \<in> \<int>" by (simp add: power_int_def)
  with assms show ?thesis
    by (auto simp: double_of_def Let_def split: if_splits)
next
  case False
  show ?thesis
  proof (cases "z = 0")
    case True
    with assms show ?thesis by (simp add: double_of_def)
  next
    case nz: False
    then have "\<bar>of_int z :: rat\<bar> < 2 powi (ilog2 \<bar>of_int z\<bar> + 1)" by (intro ilog2_bounds) simp
    also have "\<dots> \<le> 2 powi 53"
      using False by (intro powi_mono) (simp add: double_exp_def max_def split: if_splits)
    finally have "\<bar>of_int z :: rat\<bar> < of_int (2 ^ 53)" by (simp add: power_int_def)
    then have "\<bar>z\<bar> < 2 ^ 53" unfolding of_int_abs [symmetric] of_int_less_iff .
    with assms show ?thesis by (auto simp: double_of_int)
  qed
qed

lemma parseInt_shape: "js_parseInt s = NaN \<or> (\<exists>z. js_parseInt s = double_of (of_int z))"
proof -
  have "\<exists>z. double_of (of_nat n) = double_of (of_int z)" for n
    by (rule exI [of _ "int n"]) simp
  moreover have "\<exists>z. double_of (- of_nat n) = double_of (of_int z)" for n
    by (rule exI [of _ "- int n"]) simp
  ultimately show ?thesis
    unfolding js_parseInt_def Let_def by (simp only: split: prod.split if_split) blast
qed

lemma parseInt_whole:
  assumes "is_finite (js_parseInt s)" shows "is_integer (js_parseInt s)"
proof -
  obtain y where y: "js_parseInt s = Fin y" using assms by (cases "js_parseInt s") (simp_all add: is_finite_def)
  then obtain z where "double_of (of_int z) = Fin y" using parseInt_shape [of s] by auto
  with y show ?thesis by (simp add: is_integer_def double_of_whole)
qed

definition positive_integer :: "jsnum \<Rightarrow> bool" where
  "positive_integer a = (is_integer a \<and> num_lt (Fin 0) a)"

lemma parseInt_positive:
  assumes "is_finite (js_parseInt s)" "\<not> num_le (js_parseInt s) (Fin 0)"
  shows "positive_integer (js_parseInt s)"
proof -
  have "js_parseInt s \<noteq> NaN" using assms(1) by (auto simp: is_finite_def)
  with assms parseInt_whole show ?thesis by (simp add: positive_integer_def not_num_le)
qed

lemma form_integer: "positive_integer d \<Longrightarrow> positive_integer (form_asPositiveInteger v d)"
  using parseInt_positive
  by (auto simp: form_asPositiveInteger_def Let_def split: option.split form_entry.split)

lemma form_value_filled: "\<not> blank d \<Longrightarrow> \<not> blank (asNonEmptyFormValue v d)"
  by (auto simp: asNonEmptyFormValue_def blank_def Let_def split: option.split form_entry.split)

lemma positive_defaults: "positive_integer (Fin 1)" "positive_integer (Fin 1250)" "positive_integer (Fin 100)"
  by (simp_all add: positive_integer_def is_integer_def)

lemma filled_defaults: "\<not> blank ''consumer-1''" "\<not> blank ''merchant-1''" "\<not> blank ''USD''" "\<not> blank ''menu-item-1''"
    "\<not> blank ''Chicken Rice Bowl''" "\<not> blank ''Extra Sauce''"
  by code_simp+

lemma positive_integer_json:
  "positive_integer a \<Longrightarrow> json_number a = JNum a \<and> is_integer a \<and> \<not> num_le a (Fin 0) \<and> \<not> num_lt a (Fin 0) \<and> nonneg_num a"
  by (cases a) (auto simp: positive_integer_def json_number_def is_integer_def is_finite_def num_le_def num_eq_def nonneg_num_def)

text \<open>The order the consumer service reads.\<close>

definition sent_order :: "webQuickOrder \<Rightarrow> quickCreateOrderInput" where
  "sent_order q = \<lparr>qo_consumerId = wq_consumerId q, qo_merchantId = wq_merchantId q, qo_currency = wq_currency q,
     qo_item = \<lparr>qi_itemId = wi_itemId (wq_item q), qi_name = wi_name (wq_item q), qi_quantity = wi_quantity (wq_item q),
       qi_unitPriceCents = wi_unitPriceCents (wq_item q), qi_modifiers = nullish (wi_modifiers (wq_item q)) []\<rparr>\<rparr>"

lemma quick_infinite_price_refused:
  "\<not> is_finite (quick_unit_price i) \<Longrightarrow> validateUpdateBasketPayload (basket_update_body i) = Inl (Error_message ''INVALID_BASKET_ITEMS'')"
  by (cases "is_finite (qi_quantity i)")
     (auto simp: validateUpdateBasketPayload_def basket_update_body_def with_payload_def jprop_def validateBasketItems_def
        basket_item_of_def object_with_def json_number_def jnumber_def jarray_def)

lemma form_order_read: "quick_order_of (Some (quick_order_body (form_quick_order form))) = Inr (sent_order (form_quick_order form))"
  by (simp add: form_quick_order_def quick_order_body_def sent_order_def quick_order_of_def optional_prop_def jprop_def filled_string_def
      form_value_filled filled_defaults quick_item_of_def quick_modifier_of_def jarray_def positive_integer_json form_integer positive_defaults)

section \<open>Where the calls arrive\<close>

text \<open>A client makes one call, and it carries the address of the route: the parameters of the path are
  decoded by the service.\<close>

definition reaches :: "(http_call list \<times> 'w, 'a) client \<Rightarrow> 'w \<Rightarrow> string \<times> string list \<Rightarrow> bool" where
  "reaches m w address = (\<exists>c. calls_of m w = [c] \<and> hc_method c = fst address \<and>
     those (map decodeURIComponent (url_segments [] (hc_segments c))) = Some (snd address))"

lemma quiet_required [quieting]: "quiet (required_field name code payload)"
  unfolding required_field_def by (intro quieting) (simp add: quieting)

lemma quiet_or_invalid [quieting]: "quiet (or_invalid m code)"
  by (cases m) (simp_all add: or_invalid_def quieting)

lemma reaches_call:
  assumes "\<And>payload. quiet (k payload)" "hc_method c = fst address" "list_all plain_segment (hc_segments c)"
    and "those (map decodeURIComponent (hc_segments c)) = Some (snd address)"
  shows "reaches (fetch_json (recorded fetch) c code k) w address"
  unfolding reaches_def one_call [OF assms(1)] using assms(2-4) by (simp add: url_segments_plain)

lemma reaches_encoded:
  assumes "encodeURIComponent i = Some e" "\<And>payload. quiet (k payload)"
    and "hc_method (c e) = fst address" "list_all plain_segment (hc_segments (c e))"
    and "those (map decodeURIComponent (hc_segments (c e))) = Some (snd address)"
  shows "reaches (with_encoded i (\<lambda>e. fetch_json (recorded fetch) (c e) code k)) w address"
  using reaches_call [OF assms(2-5)] assms(1) by (simp add: with_encoded_def)

lemmas web_calls = exchangeAdminSession_def refreshAdminSession_def fetchAdminFeatureFlags_def
  createConsumerQuickOrder_def fetchConsumerOrder_def listAvailableCourierJobs_def postCourierJobAction_def
  acceptCourierJob_def pickupCourierJob_def dropoffCourierJob_def exchangeSession_def web_refreshSession_def fetchFeatureFlags_def
  fetchMerchantOrders_def web_acceptMerchantOrder_def requestMerchantDispatch_def fetchMerchantPayoutStatements_def
  fetchAdminIncidents_def fetchAdminComplianceAuditEvents_def fetchAdminSloDashboard_def passed_list_def

lemma persona_plain: "plain_segment (persona_name p)" "decodeURIComponent (persona_name p) = Some (persona_name p)"
  by (cases p; simp add: persona_name_def plain_segment_def decode_plain)+



lemma form_price_nonneg: "\<not> num_lt (quick_unit_price (qo_item (sent_order (form_quick_order form)))) (Fin 0)"
proof -
  have "nonneg_num (quick_unit_price (qo_item (sent_order (form_quick_order form))))"
    by (simp add: quick_unit_price_def sent_order_def form_quick_order_def nonneg_add positive_integer_json form_integer positive_defaults
        nonneg_num_def [of "Fin 0"])
  then show ?thesis
    by (cases "quick_unit_price (qo_item (sent_order (form_quick_order form)))") (simp_all add: nonneg_num_def)
qed

text \<open>C40: Whatever a shopper leaves out or mistypes in the form, the one request the web application makes is
  an order the consumer service accepts, with the texts and the numbers of the form or their defaults, and
  the core API then takes the item of that order at its full price, unless the price is beyond the range of
  a double.\<close>

theorem form_orders_accepted:
  "\<exists>c. calls_of (createConsumerQuickOrder (\<lambda>_. recorded fetch) (form_quick_order form)) w = [c] \<and>
     quick_order_of (hc_body c) = Inr (sent_order (form_quick_order form)) \<and>
     validateUpdateBasketPayload (basket_update_body (qo_item (sent_order (form_quick_order form)))) =
       (if is_finite (quick_unit_price (qo_item (sent_order (form_quick_order form))))
        then Inr [quick_item (qo_item (sent_order (form_quick_order form)))]
        else Inl (Error_message ''INVALID_BASKET_ITEMS''))"
proof -
  let ?o = "sent_order (form_quick_order form)"
  have update: "validateUpdateBasketPayload (basket_update_body (qo_item ?o)) =
      (if is_finite (quick_unit_price (qo_item ?o)) then Inr [quick_item (qo_item ?o)] else Inl (Error_message ''INVALID_BASKET_ITEMS''))"
    using quick_bodies(2) [of ?o] quick_order_sellable [OF form_order_read] form_price_nonneg quick_infinite_price_refused by simp
  have call: "calls_of (createConsumerQuickOrder (\<lambda>_. recorded fetch) q) w =
      [post_json [''app'', ''v1'', ''consumer'', ''orders'', ''quick-create''] (quick_order_body q)]" for q
    unfolding createConsumerQuickOrder_def by (intro one_call quieting)
  show ?thesis
    unfolding call using form_order_read update by (simp add: post_json_def send_call_def)
qed

section \<open>Signing in\<close>

text \<open>A session as it is sent and as it is kept.\<close>

definition session_json :: "appSession \<Rightarrow> json" where
  "session_json a = JObj
     [(''sessionId'', JStr (as_sessionId a)), (''userId'', JStr (as_userId a)), (''role'', JStr (role_name (as_role a))),
      (''persona'', JStr (persona_name (as_persona a))), (''traceId'', JStr (as_traceId a)),
      (''refreshTokenId'', JStr (as_refreshTokenId a)), (''issuedAt'', JStr (as_issuedAt a)), (''expiresAt'', JStr (as_expiresAt a))]"

definition token_pair_json :: "appTokenPair \<Rightarrow> json" where
  "token_pair_json t = JObj
     [(''tokenType'', JStr ''Bearer''), (''accessToken'', JStr (tp_accessToken t)), (''refreshToken'', JStr (tp_refreshToken t)),
      (''expiresInSeconds'', JNum (num_int (tp_expiresInSeconds t))),
      (''refreshExpiresInSeconds'', JNum (num_int (tp_refreshExpiresInSeconds t))), (''refreshExpiresAt'', JStr (tp_refreshExpiresAt t))]"

definition bundle_json :: "appSessionBundle \<Rightarrow> json" where
  "bundle_json b = JObj [(''session'', session_json (sb_session b)), (''tokenPair'', token_pair_json (sb_tokenPair b))]"

definition kept_session :: "appSession \<Rightarrow> webSession" where
  "kept_session a = \<lparr>ws_sessionId = as_sessionId a, ws_userId = as_userId a, ws_role = role_name (as_role a),
     ws_persona = persona_name (as_persona a), ws_traceId = as_traceId a, ws_refreshTokenId = as_refreshTokenId a,
     ws_issuedAt = as_issuedAt a, ws_expiresAt = as_expiresAt a\<rparr>"

definition kept_tokens :: "appTokenPair \<Rightarrow> webTokenPair" where
  "kept_tokens t = \<lparr>wt_accessToken = tp_accessToken t, wt_refreshToken = tp_refreshToken t,
     wt_expiresInSeconds = num_int (tp_expiresInSeconds t), wt_refreshExpiresInSeconds = num_int (tp_refreshExpiresInSeconds t),
     wt_refreshExpiresAt = tp_refreshExpiresAt t\<rparr>"

definition kept_bundle :: "appSessionBundle \<Rightarrow> webSessionBundle" where
  "kept_bundle b = \<lparr>wb_session = kept_session (sb_session b), wb_tokenPair = kept_tokens (sb_tokenPair b)\<rparr>"

definition session_filled :: "appSession \<Rightarrow> bool" where
  "session_filled a = ([] \<notin> {as_sessionId a, as_userId a, as_traceId a, as_refreshTokenId a, as_issuedAt a, as_expiresAt a})"

definition tokens_filled :: "appTokenPair \<Rightarrow> bool" where
  "tokens_filled t = ([] \<notin> {tp_accessToken t, tp_refreshToken t, tp_refreshExpiresAt t} \<and>
     0 < tp_expiresInSeconds t \<and> 0 < tp_refreshExpiresInSeconds t)"

lemma nonempty_read: "asNonEmptyString (Some (JStr s)) = (if s = [] then None else Some s)"
  by (simp add: asNonEmptyString_def check_def)

lemma positive_read: "asPositiveInteger (Some (JNum (num_int n))) = (if 0 < n then Some (num_int n) else None)"
  by (simp add: asPositiveInteger_def check_def is_integer_def num_le_def num_eq_def)

lemma names_nonempty: "role_name r \<noteq> []" "persona_name p \<noteq> []"
  by (cases r; simp add: role_name_def) (cases p; simp add: persona_name_def)

lemma session_read:
  "map_option read_session (object_of (Some (session_json a))) = Some (if session_filled a then Some (kept_session a) else None)"
  by (simp add: session_json_def object_of_def read_session_def jprop_def nonempty_read names_nonempty session_filled_def kept_session_def)

lemma tokens_read:
  "map_option read_token_pair (object_of (Some (token_pair_json t))) = Some (if tokens_filled t then Some (kept_tokens t) else None)"
  by (simp add: token_pair_json_def object_of_def read_token_pair_def jprop_def nonempty_read positive_read tokens_filled_def kept_tokens_def)

lemma bundle_read:
  assumes "session_filled (sb_session b)" "tokens_filled (sb_tokenPair b)"
  shows "parseSessionExchangeResponse (bundle_json b) = Some (kept_bundle b)"
proof -
  obtain get where s: "object_of (Some (session_json (sb_session b))) = Some get" "read_session get = Some (kept_session (sb_session b))"
    using session_read [of "sb_session b"] assms(1) by auto
  obtain get' where t: "object_of (Some (token_pair_json (sb_tokenPair b))) = Some get'"
      "read_token_pair get' = Some (kept_tokens (sb_tokenPair b))"
    using tokens_read [of "sb_tokenPair b"] assms(2) by auto
  have "get' ''tokenType'' = Some (JStr ''Bearer'')"
    using t(1) by (auto simp: token_pair_json_def object_of_def jprop_def)
  moreover have "object_of (Some (bundle_json b)) =
      Some (jprop [(''session'', session_json (sb_session b)), (''tokenPair'', token_pair_json (sb_tokenPair b))])"
    by (simp add: bundle_json_def object_of_def)
  ultimately show ?thesis
    using s t by (simp add: parseSessionExchangeResponse_def jprop_def nonempty_read check_def kept_bundle_def)
qed

text \<open>The web application in front of the session routes: its request arrives, and the reply is sent
  back. The other routes are not asked.\<close>

definition session_answer :: "bff_error + bff_reply \<Rightarrow> fetch_result" where
  "session_answer r = (case r of
     Inr (status, Session_reply b) \<Rightarrow> Answered status (Some (bundle_json b))
   | Inr (status, Error_reply code message) \<Rightarrow> Answered status (Some (JObj [(''errorCode'', JStr code), (''message'', JStr message)]))
   | Inr (status, _) \<Rightarrow> Answered status None
   | Inl _ \<Rightarrow> Answered 500 None)"

definition sent_request :: "string option \<Rightarrow> http_call \<Rightarrow> bff_request" where
  "sent_request authorization c = \<lparr>bq_query = (\<lambda>_. None), bq_body = hc_body c, bq_authorization = authorization\<rparr>"

definition ops_session_fetch :: "bff_env \<Rightarrow> 'w fetch \<Rightarrow> bff_draws \<Rightarrow> 'w bff web_fetch" where
  "ops_session_fetch V core d authorization c s =
     (case List.find (\<lambda>r. ops_bff_address r = (hc_method c, hc_segments c)) [Merchant_exchange, Merchant_refresh, Admin_exchange, Admin_refresh] of
        None \<Rightarrow> (Answered 404 None, s)
      | Some r \<Rightarrow> (case ops_handle V core d (sent_request authorization c) r s of (a, s1) \<Rightarrow> (session_answer a, s1)))"

definition exchange_call :: "appPersona \<Rightarrow> sessionExchangeRequest \<Rightarrow> http_call" where
  "exchange_call p x = post_json [''app'', ''v1'', persona_name p, ''session'', ''exchange'']
     (json_fields [(''oidcToken'', Some (JStr (sx_oidcToken x))), (''traceId'', Some (JStr (sx_traceId x))),
        (''deviceId'', map_option JStr (sx_deviceId x))])"

lemma exchange_arrives:
  assumes "p = Merchant_persona \<or> p = Admin_persona"
  shows "ops_session_fetch V core d authorization (exchange_call p x) s =
    (case session_exchange p V d (sent_request authorization (exchange_call p x)) s of (a, s1) \<Rightarrow> (session_answer a, s1))"
  using assms by (auto simp: ops_session_fetch_def exchange_call_def post_json_def send_call_def session_address_def persona_name_def)

lemma signed_in:
  assumes "p = Merchant_persona \<or> p = Admin_persona"
    and "session_exchange p V d (sent_request None (exchange_call p x)) s = (Inr (200, Session_reply b), s1)"
    and "session_filled (sb_session b)" "tokens_filled (sb_tokenPair b)"
  shows "signIn p (ops_session_fetch V core d) x (previous, s) = (Inr (kept_bundle b), Some (kept_bundle b), s1)"
  using exchange_arrives [OF assms(1), of V core d None x s] assms(2) bundle_read [OF assms(3,4)]
  by (simp add: signIn_def keep_session_def exchangeSession_def exchange_call_def fetch_json_def session_answer_def http_ok_def
      or_invalid_def client_return_def)

lemma bearer_read:
  assumes "js_trim t = t" "t \<noteq> []"
  shows "bff_bearer (bearer_header (Some t)) = Some t"
  using assms by (simp add: bff_bearer_def bearer_header_def given_def startsWith_def)


definition demo_sign_in :: sessionExchangeRequest where
  "demo_sign_in = \<lparr>sx_oidcToken = ''dev:u1::merchant_operator'', sx_traceId = ''x'', sx_deviceId = None\<rparr>"

lemma demo_sent: "sent_request None (exchange_call Merchant_persona demo_sign_in) = demo_exchange"
  by (simp add: sent_request_def exchange_call_def demo_sign_in_def demo_exchange_def post_json_def send_call_def json_fields_def
      List.map_filter_def)

lemma demo_bundle_filled: "session_filled (sb_session (demo_bundle demo_app_service))" "tokens_filled (sb_tokenPair (demo_bundle demo_app_service))"
proof -
  have "generateOpaqueToken ''a'' \<noteq> []" by code_simp
  moreover obtain n where "tp_accessToken (sb_tokenPair (demo_bundle demo_app_service)) = replicate (Suc n) (CHR ''x'')"
    using demo_token by blast
  ultimately show "tokens_filled (sb_tokenPair (demo_bundle demo_app_service))"
    by (simp add: tokens_filled_def)
       (simp add: demo_bundle_def issueSessionInternal_def Let_def demo_bff_draws_def demo_draws_def epoch_host_def
          demo_app_service_def new_app_auth_def demo_app_options_def js_trim_def is_space_def)
  show "session_filled (sb_session (demo_bundle demo_app_service))"
    by (simp add: session_filled_def demo_bundle_def issueSessionInternal_def Let_def createAppSession_def demo_bff_draws_def demo_draws_def
        epoch_host_def)
qed


end
