(* ===== verification/Pages.thy ===== *)
theory Pages
  imports WebClients Wiring
begin

text \<open>
  What the pages of the web applications load and compute before they render (\<open>apps/web-*/app/page.tsx\<close>):
  the session, the calls, the focused order or job, the counters, the stages and the buttons that are
  enabled. The markup around these values is outside.
\<close>

section \<open>Loading\<close>

definition client_bind :: "('w, 'a) client \<Rightarrow> ('a \<Rightarrow> ('w, 'b) client) \<Rightarrow> ('w, 'b) client" where
  "client_bind m k w = (case m w of (Inl e, w1) \<Rightarrow> (Inl e, w1) | (Inr x, w1) \<Rightarrow> k x w1)"

definition client_catch :: "('w, 'a) client \<Rightarrow> 'a \<Rightarrow> ('w, 'a) client" where
  "client_catch m fallback w = (case m w of (Inl e, w1) \<Rightarrow> (Inr fallback, w1) | (Inr x, w1) \<Rightarrow> (Inr x, w1))"

text \<open>The query of the page: one value for a parameter.\<close>

type_synonym page_query = "string \<Rightarrow> string option"

definition present :: "string option \<Rightarrow> string option" where
  "present v = (if given v then v else None)"

section \<open>Sessions of the pages\<close>

text \<open>A page signs in through a new session manager when an identity token is configured, so what it
  keeps is the bundle of this exchange.\<close>

definition page_sign_in :: "appPersona \<Rightarrow> string \<Rightarrow> process_env \<Rightarrow> string \<Rightarrow> 'w web_fetch \<Rightarrow> ('w, webSessionBundle option) client" where
  "page_sign_in p app env now fetch =
     (case present (env (app @ ''_OIDC_TOKEN'')) of
        None \<Rightarrow> client_return None
      | Some token \<Rightarrow> client_bind
          (exchangeSession p fetch \<lparr>sx_oidcToken = token, sx_traceId = ''web-'' @ persona_name p @ ''-'' @ now,
             sx_deviceId = Some (''web-'' @ persona_name p)\<rparr>)
          (\<lambda>b. client_return (Some b)))"

record pageSession =
  pg_appSessionToken :: "string option"
  pg_userId :: "string option"
  pg_role :: "string option"
  pg_tenantId :: "string option"

definition page_session :: "string \<Rightarrow> process_env \<Rightarrow> webSessionBundle option \<Rightarrow> pageSession" where
  "page_session app env exchange =
     (let or_env = (\<lambda>name v. case env (app @ name) of Some t \<Rightarrow> Some t | None \<Rightarrow> v)
      in \<lparr>pg_appSessionToken = or_env ''_APP_SESSION_TOKEN'' (map_option (wt_accessToken \<circ> wb_tokenPair) exchange),
          pg_userId = or_env ''_FEATURE_FLAG_USER_ID'' (map_option (ws_userId \<circ> wb_session) exchange),
          pg_role = or_env ''_FEATURE_FLAG_ROLE'' (map_option (ws_role \<circ> wb_session) exchange),
          pg_tenantId = env (app @ ''_FEATURE_FLAG_TENANT_ID'')\<rparr>)"

definition hasAppSession :: "pageSession \<Rightarrow> bool" where
  "hasAppSession g = given (pg_appSessionToken g)"

definition when_session :: "pageSession \<Rightarrow> ('w, 'a) client \<Rightarrow> 'a \<Rightarrow> ('w, 'a) client" where
  "when_session g m otherwise = (if hasAppSession g then m else client_return otherwise)"

definition page_flags :: "appPersona \<Rightarrow> 'w web_fetch \<Rightarrow> pageSession \<Rightarrow> ('w, webFlagSnapshot option) client" where
  "page_flags p fetch g =
     (if hasAppSession g \<and> given (pg_userId g) \<and> given (pg_role g)
      then client_bind (fetchFeatureFlags p fetch (pg_appSessionToken g)
             \<lparr>fx_userId = nullish (pg_userId g) [], fx_role = nullish (pg_role g) [], fx_tenantId = pg_tenantId g\<rparr>)
             (\<lambda>flags. client_return (Some flags))
      else client_return None)"

section \<open>The page of merchants\<close>

definition selectPrimaryOrder :: "merchantOrderView list \<Rightarrow> string option \<Rightarrow> merchantOrderView option" where
  "selectPrimaryOrder orders preferredOrderId =
     (let first = (case orders of [] \<Rightarrow> None | v # _ \<Rightarrow> Some v)
      in case preferredOrderId of
           None \<Rightarrow> first
         | Some i \<Rightarrow> (case List.find (\<lambda>v. mv_id v = Some (JStr i)) orders of Some v \<Rightarrow> Some v | None \<Rightarrow> first))"

text \<open>The sum while every amount is a number; \<open>None\<close> is the text JavaScript builds otherwise.\<close>

definition sumPayouts :: "json list \<Rightarrow> jsnum option" where
  "sumPayouts statements =
     fold (\<lambda>s total. case (total, jnumber (optional_prop (Some s) ''totalAmount'')) of
             (Some t, Some a) \<Rightarrow> Some (num_add t a) | _ \<Rightarrow> None) statements (Some (Fin 0))"

definition canAcceptOrder :: "string \<Rightarrow> bool" where
  "canAcceptOrder status = (status = ''CREATED'')"

definition canRequestDispatch :: "string \<Rightarrow> bool" where
  "canRequestDispatch status = (status = ''MERCHANT_ACCEPTED'' \<or> status = ''CREATED'')"

definition has_status :: "string list \<Rightarrow> json option \<Rightarrow> bool" where
  "has_status names status = (case jstring status of Some s \<Rightarrow> s \<in> set names | None \<Rightarrow> False)"

record merchantPage =
  mp_merchantId :: string
  mp_session :: pageSession
  mp_orders :: "merchantOrderView list"
  mp_primaryOrder :: "merchantOrderView option"
  mp_stage :: orderStageDescriptor
  mp_demoLinks :: "demoSurfaceLink list"
  mp_pendingCount :: nat
  mp_activeCount :: nat
  mp_totalPayoutAmount :: "jsnum option"
  mp_featureFlags :: "webFlagSnapshot option"
  mp_lastActionLabel :: "string option"

definition page_merchant_id :: "process_env \<Rightarrow> page_query \<Rightarrow> string" where
  "page_merchant_id env search = nullish (env ''MERCHANT_ID'') (nullish (map_option js_trim (search ''merchantId'')) ''merchant-1'')"

definition merchant_links :: "(json \<Rightarrow> string) \<Rightarrow> merchantOrderView option \<Rightarrow> ('w, demoSurfaceLink list) client" where
  "merchant_links native primaryOrder =
     (case primaryOrder of
        None \<Rightarrow> client_return (buildDemoSurfaceLinks Merchant_persona [(Consumer_persona, ''http://127.0.0.1:3003'')])
      | Some v \<Rightarrow> with_encoded (text_of native (mv_id v)) (\<lambda>i.
          client_return (buildDemoSurfaceLinks Merchant_persona [(Consumer_persona, ''http://127.0.0.1:3003?orderId='' @ i)])))"

definition statements_of :: "json \<Rightarrow> ('w, json list) client" where
  "statements_of j = (case j of JArr xs \<Rightarrow> if JNull \<in> set xs then client_throw Client_type_error else client_return xs
     | _ \<Rightarrow> client_throw Client_type_error)"

definition MerchantPage ::
  "(json \<Rightarrow> string) \<Rightarrow> process_env \<Rightarrow> string \<Rightarrow> 'w web_fetch \<Rightarrow> page_query \<Rightarrow> ('w, merchantPage) client"
where
  "MerchantPage native env now fetch search =
     (let merchantId = page_merchant_id env search in
      client_bind (page_sign_in Merchant_persona ''WEB_MERCHANT'' env now fetch) (\<lambda>sessionExchange.
      let g = page_session ''WEB_MERCHANT'' env sessionExchange; token = pg_appSessionToken g in
      client_bind (when_session g (fetchMerchantOrders fetch token merchantId) []) (\<lambda>orders.
      client_bind (when_session g (fetchMerchantPayoutStatements fetch token merchantId) (JArr [])) (\<lambda>payoutStatements.
      client_bind (page_flags Merchant_persona fetch g) (\<lambda>featureFlags.
      let primaryOrder = selectPrimaryOrder orders (present (map_option js_trim (search ''orderId''))) in
      client_bind (merchant_links native primaryOrder) (\<lambda>demoLinks.
      client_bind (statements_of payoutStatements) (\<lambda>statements.
      client_return \<lparr>mp_merchantId = merchantId, mp_session = g, mp_orders = orders, mp_primaryOrder = primaryOrder,
        mp_stage = describeOrderStage (Option.bind (Option.bind primaryOrder mv_status) (jstring \<circ> Some)), mp_demoLinks = demoLinks,
        mp_pendingCount = length (filter (\<lambda>v. has_status [''CREATED''] (mv_status v)) orders),
        mp_activeCount = length (filter (\<lambda>v.
          has_status [''MERCHANT_ACCEPTED'', ''DISPATCH_REQUESTED'', ''COURIER_ASSIGNED'', ''PICKED_UP''] (mv_status v)) orders),
        mp_totalPayoutAmount = sumPayouts statements, mp_featureFlags = featureFlags,
        mp_lastActionLabel = (if given (search ''action'') \<and> given (search ''orderId'')
          then Some (nullish (search ''action'') [] @ '' on '' @ nullish (search ''orderId'') []) else None)\<rparr>)))))))"

section \<open>The page of administrators\<close>

definition summarizePlatformState :: "nat \<Rightarrow> nat \<Rightarrow> string \<times> stageTone" where
  "summarizePlatformState incidentCount breachCount =
     (if 0 < incidentCount then (''Incident Review'', Attention)
      else if 0 < breachCount then (''SLO Watch'', Active) else (''Platform Stable'', Complete))"

record adminPage =
  ad_session :: pageSession
  ad_incidents :: "adminIncidentView list"
  ad_auditEvents :: json
  ad_sloDashboard :: "webSloDashboard option"
  ad_featureFlags :: "webFlagSnapshot option"
  ad_platformState :: "string \<times> stageTone"
  ad_criticalIncidents :: nat
  ad_demoLinks :: "demoSurfaceLink list"

text \<open>\<open>incident.severity.toUpperCase()\<close> needs a string.\<close>

definition critical_count :: "adminIncidentView list \<Rightarrow> ('w, nat) client" where
  "critical_count incidents =
     (case those (map (\<lambda>i. jstring (ai_severity i)) incidents) of
        None \<Rightarrow> client_throw Client_type_error
      | Some severities \<Rightarrow>
          client_return (length (filter (\<lambda>s. toUpperCase s \<in> set [''SEV1'', ''SEV2'', ''CRITICAL'', ''HIGH'']) severities)))"

definition AdminPage :: "process_env \<Rightarrow> string \<Rightarrow> 'w web_fetch \<Rightarrow> ('w, adminPage) client" where
  "AdminPage env now fetch =
     client_bind (page_sign_in Admin_persona ''WEB_ADMIN'' env now fetch) (\<lambda>sessionExchange.
     let g = page_session ''WEB_ADMIN'' env sessionExchange; token = pg_appSessionToken g in
     client_bind (when_session g (fetchAdminIncidents fetch token) []) (\<lambda>incidents.
     client_bind (when_session g (fetchAdminComplianceAuditEvents fetch token) (JArr [])) (\<lambda>auditEvents.
     client_bind (when_session g (client_bind (fetchAdminSloDashboard fetch token) (\<lambda>d. client_return (Some d))) None) (\<lambda>sloDashboard.
     client_bind (page_flags Admin_persona fetch g) (\<lambda>featureFlags.
     client_bind (critical_count incidents) (\<lambda>criticalIncidents.
     client_return \<lparr>ad_session = g, ad_incidents = incidents, ad_auditEvents = auditEvents, ad_sloDashboard = sloDashboard,
       ad_featureFlags = featureFlags,
       ad_platformState = summarizePlatformState (length incidents) (case sloDashboard of Some d \<Rightarrow> length (wd_breaches d) | None \<Rightarrow> 0),
       ad_criticalIncidents = criticalIncidents, ad_demoLinks = buildDemoSurfaceLinks Admin_persona []\<rparr>))))))"

section \<open>The page of the courier\<close>

definition resolveCourierId :: "string option \<Rightarrow> string" where
  "resolveCourierId rawValue =
     (if \<not> given rawValue then ''courier-1''
      else let trimmed = js_trim (nullish rawValue []) in if 0 < length trimmed then trimmed else ''courier-1'')"

definition describeCourierStatus :: "string option \<Rightarrow> string \<times> stageTone" where
  "describeCourierStatus status =
     (if status = Some ''AVAILABLE'' then (''Ready to Accept'', Attention)
      else if status \<in> {Some ''ASSIGNED'', Some ''ACCEPTED''} then (''Head to Pickup'', Active)
      else if status = Some ''PICKED_UP'' then (''Finish the Dropoff'', Active)
      else if status \<in> {Some ''DELIVERED'', Some ''DROPPED_OFF''} then (''Completed'', Complete)
      else (''Waiting for Work'', Attention))"

definition canAccept :: "string \<Rightarrow> bool" where
  "canAccept status = (status = ''AVAILABLE'')"

definition canPickup :: "string \<Rightarrow> bool" where
  "canPickup status = (status = ''ASSIGNED'' \<or> status = ''ACCEPTED'')"

definition canDropoff :: "string \<Rightarrow> bool" where
  "canDropoff status = (status = ''PICKED_UP'')"

record courierPage =
  cg_courierId :: string
  cg_jobs :: "json list"
  cg_demoState :: courierDemoState
  cg_jobStage :: "string \<times> stageTone"
  cg_demoLinks :: "demoSurfaceLink list"
  cg_availableCount :: nat
  cg_activeCount :: nat
  cg_completedCount :: nat

text \<open>\<open>primaryJob?.name ?? fallback\<close>.\<close>

definition job_field :: "courierDemoState \<Rightarrow> string \<Rightarrow> string option \<Rightarrow> json option" where
  "job_field d name fallback =
     (case optional_prop (ds_primaryJob d) name of
        None \<Rightarrow> map_option JStr fallback | Some JNull \<Rightarrow> map_option JStr fallback | Some v \<Rightarrow> Some v)"

definition courier_links :: "(json \<Rightarrow> string) \<Rightarrow> json option \<Rightarrow> ('w, demoSurfaceLink list) client" where
  "courier_links native focusOrderId =
     (if falsy focusOrderId
      then client_return (buildDemoSurfaceLinks Courier_persona
        [(Consumer_persona, ''http://127.0.0.1:3003''), (Merchant_persona, ''http://127.0.0.1:3001'')])
      else with_encoded (text_of native focusOrderId) (\<lambda>i. client_return (buildDemoSurfaceLinks Courier_persona
        [(Consumer_persona, ''http://127.0.0.1:3003?orderId='' @ i), (Merchant_persona, ''http://127.0.0.1:3001?orderId='' @ i)])))"

definition CourierPage :: "(json \<Rightarrow> string) \<Rightarrow> process_env \<Rightarrow> 'w web_fetch \<Rightarrow> page_query \<Rightarrow> ('w, courierPage) client" where
  "CourierPage native env fetch search =
     (let courierId = resolveCourierId (case search ''courierId'' of Some c \<Rightarrow> Some c | None \<Rightarrow> env ''COURIER_ID'') in
      client_bind (client_catch (listAvailableCourierJobs fetch) (JArr [])) (\<lambda>loaded.
      client_bind (statements_of loaded) (\<lambda>jobs.
      let d = buildCourierDemoState jobs (search ''lastJobId'') (search ''lastStatus'');
          status_of = (\<lambda>j. optional_prop (Some j) ''status'') in
      client_bind (courier_links native (job_field d ''orderId'' None)) (\<lambda>demoLinks.
      client_return \<lparr>cg_courierId = courierId, cg_jobs = jobs, cg_demoState = d,
        cg_jobStage = describeCourierStatus (jstring (job_field d ''status'' (ds_followUpStatus d))), cg_demoLinks = demoLinks,
        cg_availableCount = length (filter (has_status [''AVAILABLE''] \<circ> status_of) jobs),
        cg_activeCount = length (filter (has_status [''ASSIGNED'', ''ACCEPTED'', ''PICKED_UP''] \<circ> status_of) jobs),
        cg_completedCount = length (filter (has_status [''DELIVERED'', ''DROPPED_OFF''] \<circ> status_of) jobs)\<rparr>))))"

section \<open>The page of the consumer\<close>

record consumerPage =
  cn_order :: "json option"
  cn_stage :: orderStageDescriptor
  cn_demoLinks :: "demoSurfaceLink list"

definition ConsumerPage :: "'w web_fetch \<Rightarrow> page_query \<Rightarrow> ('w, consumerPage) client" where
  "ConsumerPage fetch search =
     (case present (map_option js_trim (search ''orderId'')) of
        None \<Rightarrow> client_return \<lparr>cn_order = None, cn_stage = describeOrderStage None, cn_demoLinks = buildDemoSurfaceLinks Consumer_persona []\<rparr>
      | Some currentOrderId \<Rightarrow>
          client_bind (client_catch (client_bind (fetchConsumerOrder fetch currentOrderId) (\<lambda>v. client_return (Some v))) None) (\<lambda>order.
          client_return \<lparr>cn_order = order, cn_stage = describeOrderStage (jstring (optional_prop order ''status'')),
            cn_demoLinks = buildDemoSurfaceLinks Consumer_persona []\<rparr>))"

section \<open>What the pages ask and offer\<close>

text \<open>Without a configured token the pages of merchants and administrators make no request.\<close>

lemma no_session:
  assumes "\<not> given (env (app @ ''_OIDC_TOKEN''))" "\<not> given (env (app @ ''_APP_SESSION_TOKEN''))"
  shows "page_sign_in p app env now fetch = client_return None"
    and "hasAppSession (page_session app env None) = False"
  using assms by (auto simp: page_sign_in_def present_def hasAppSession_def page_session_def Let_def given_def split: option.split)

lemma bind_return [simp]: "client_bind (client_return x) k = k x"
  by (rule ext) (simp add: client_bind_def client_return_def)

lemma unasked [simp]: "snd (client_return x w) = w" "snd (client_throw e w) = w"
  by (simp_all add: client_return_def client_throw_def)

lemma merchant_page_without_session:
  assumes "\<not> given (env ''WEB_MERCHANT_OIDC_TOKEN'')" "\<not> given (env ''WEB_MERCHANT_APP_SESSION_TOKEN'')"
  shows "snd (MerchantPage native env now fetch search w) = w"
proof -
  have "page_sign_in Merchant_persona ''WEB_MERCHANT'' env now fetch = client_return None"
    and "hasAppSession (page_session ''WEB_MERCHANT'' env None) = False"
    using no_session [of env "''WEB_MERCHANT''"] assms by simp_all
  then show ?thesis
    by (simp add: MerchantPage_def Let_def when_session_def page_flags_def selectPrimaryOrder_def merchant_links_def statements_of_def
        split: option.split)
qed

lemma admin_page_without_session:
  assumes "\<not> given (env ''WEB_ADMIN_OIDC_TOKEN'')" "\<not> given (env ''WEB_ADMIN_APP_SESSION_TOKEN'')"
  shows "snd (AdminPage env now fetch w) = w"
proof -
  have "page_sign_in Admin_persona ''WEB_ADMIN'' env now fetch = client_return None"
    and "hasAppSession (page_session ''WEB_ADMIN'' env None) = False"
    using no_session [of env "''WEB_ADMIN''"] assms by simp_all
  then show ?thesis
    by (simp add: AdminPage_def Let_def when_session_def page_flags_def critical_count_def)
qed

text \<open>A consumer page always renders, whatever the service answers.\<close>

lemma consumer_page_renders: "\<exists>page w1. ConsumerPage fetch search w = (Inr page, w1)"
  by (auto simp: ConsumerPage_def client_bind_def client_catch_def client_return_def split: option.split prod.split sum.split)

text \<open>The accept button is enabled exactly when the core API would change the order.\<close>

lemma accept_button_exact:
  assumes "order_findById i (os_orders s) = Some v"
  shows "canAcceptOrder (orderStatus_name (or_status v)) \<longleftrightarrow> fst (merchantAcceptOrder now i s) \<noteq> Inr v"
  using assms by (cases "or_status v") (auto simp: canAcceptOrder_def orderStatus_name_def merchantAcceptOrder_def Let_def dest: arg_cong [of _ _ or_status])

text \<open>The dispatch button is also enabled for an order the merchant has not accepted, where the core API
  leaves everything as it is.\<close>

lemma dispatch_button_idle:
  assumes "order_findById i (os_orders s) = Some v" "or_status v = CREATED"
  shows "canRequestDispatch (orderStatus_name (or_status v)) \<and> requestDispatch now i s = (Inr v, s)"
  using assms by (simp add: canRequestDispatch_def orderStatus_name_def requestDispatch_def)

text \<open>An order that waits for its courier is in neither counter.\<close>

lemma pending_dispatch_not_counted:
  "\<not> has_status [''CREATED''] (Some (JStr (orderStatus_name DISPATCH_PENDING))) \<and>
   \<not> has_status [''MERCHANT_ACCEPTED'', ''DISPATCH_REQUESTED'', ''COURIER_ASSIGNED'', ''PICKED_UP''] (Some (JStr (orderStatus_name DISPATCH_PENDING)))"
  by (simp add: has_status_def orderStatus_name_def)

end
