(* ===== verification/Journey.thy ===== *)
theory Journey
  imports Server WebClients
begin

text \<open>
  The services joined: the calls of the consumer service served by the core API, and the calls of the web
  application served by the consumer service. What a reply looks like as JSON, how a call becomes a request,
  and the five requests of a quick order on the state of the core API.
\<close>

section \<open>Replies as JSON\<close>

definition jnull :: "string option \<Rightarrow> json" where
  "jnull v = (case v of None \<Rightarrow> JNull | Some s \<Rightarrow> JStr s)"

definition basket_item_json :: "basketItem \<Rightarrow> json" where
  "basket_item_json i = JObj
     [(''itemId'', JStr (bi_itemId i)), (''name'', JStr (bi_name i)), (''quantity'', json_number (bi_quantity i)),
      (''unitPriceCents'', json_number (bi_unitPriceCents i)), (''modifiers'', JArr (map JStr (bi_modifiers i))),
      (''note'', jnull (bi_note i))]"

definition basket_json :: "basket \<Rightarrow> json" where
  "basket_json b = JObj
     [(''id'', JStr (bk_id b)), (''consumerId'', JStr (bk_consumerId b)), (''merchantId'', JStr (bk_merchantId b)),
      (''currency'', JStr (bk_currency b)), (''items'', JArr (map basket_item_json (bk_items b))),
      (''createdAt'', JStr (bk_createdAt b)), (''updatedAt'', JStr (bk_updatedAt b))]"

definition promo_reason_name :: "promoReason \<Rightarrow> string" where
  "promo_reason_name r = (case r of
     NO_PROMO \<Rightarrow> ''NO_PROMO'' | PROMO_NOT_FOUND \<Rightarrow> ''PROMO_NOT_FOUND'' | MINIMUM_NOT_MET \<Rightarrow> ''MINIMUM_NOT_MET'' | ELIGIBLE \<Rightarrow> ''ELIGIBLE'')"

definition promotion_json :: "promotionResult \<Rightarrow> json" where
  "promotion_json p = JObj
     [(''eligible'', JBool (pr_eligible p)), (''reason'', JStr (promo_reason_name (pr_reason p))),
      (''discountCents'', json_number (pr_discountCents p)), (''promoCode'', jnull (pr_promoCode p))]"

definition quote_json :: "quote \<Rightarrow> json" where
  "quote_json q = JObj
     [(''quoteId'', JStr (qt_quoteId q)), (''quoteHash'', JStr (qt_quoteHash q)), (''basketId'', JStr (qt_basketId q)),
      (''currency'', JStr (qt_currency q)), (''subtotalCents'', json_number (qt_subtotalCents q)),
      (''taxCents'', json_number (qt_taxCents q)), (''serviceFeeCents'', json_number (qt_serviceFeeCents q)),
      (''deliveryFeeCents'', json_number (qt_deliveryFeeCents q)), (''discountCents'', json_number (qt_discountCents q)),
      (''totalCents'', json_number (qt_totalCents q)), (''promo'', promotion_json (qt_promo q)),
      (''generatedAt'', JStr (qt_generatedAt q))]"

definition checkout_json :: "checkoutPayload \<Rightarrow> json" where
  "checkout_json c = JObj
     [(''checkoutId'', JStr (cp_checkoutId c)), (''basketId'', JStr (cp_basketId c)), (''quoteId'', JStr (cp_quoteId c)),
      (''quoteHash'', JStr (cp_quoteHash c)), (''totalCents'', json_number (cp_totalCents c)), (''currency'', JStr (cp_currency c)),
      (''expiresAt'', JStr (cp_expiresAt c))]"

definition order_json :: "order \<Rightarrow> json" where
  "order_json v = JObj
     [(''id'', JStr (or_id v)), (''checkoutId'', JStr (or_checkoutId v)), (''quoteHash'', JStr (or_quoteHash v)),
      (''consumerId'', jnull (or_consumerId v)), (''merchantId'', jnull (or_merchantId v)), (''courierId'', jnull (or_courierId v)),
      (''status'', JStr (orderStatus_name (or_status v))), (''cancellationReason'', jnull (or_cancellationReason v)),
      (''cancelledBy'', jnull (or_cancelledBy v)), (''createdAt'', JStr (or_createdAt v)), (''updatedAt'', JStr (or_updatedAt v))]"

text \<open>The replies of the five requests; \<open>None\<close> stands for the replies of the other routes, which these calls
  never read.\<close>

definition reply_json :: "api_body \<Rightarrow> json option" where
  "reply_json body = (case body of
     B_ordering (Basket_body b) \<Rightarrow> Some (basket_json b)
   | B_ordering (Quote_body q) \<Rightarrow> Some (quote_json q)
   | B_ordering (Checkout_body c) \<Rightarrow> Some (checkout_json c)
   | B_order (Order_body v None) \<Rightarrow> Some (order_json v)
   | B_error j \<Rightarrow> Some j
   | _ \<Rightarrow> None)"

section \<open>Calls as requests\<close>

text \<open>\<open>stringify\<close> and the parser of the core API agree on the values JSON can carry.\<close>

fun sendable :: "json \<Rightarrow> bool" where
  "sendable (JNum a) = is_finite a"
| "sendable (JArr js) = (\<forall>j \<in> set js. sendable j)"
| "sendable (JObj ps) = (distinct (map fst ps) \<and> (\<forall>p \<in> set ps. sendable (snd p)))"
| "sendable j = True"

definition json_codec :: "environment \<Rightarrow> (json \<Rightarrow> string) \<Rightarrow> bool" where
  "json_codec E stringify = (\<forall>j. sendable j \<longrightarrow> parseJsonBody (cf_parseJson E) (stringify j) = Inr j)"

definition core_request :: "(json \<Rightarrow> string) \<Rightarrow> http_call \<Rightarrow> request" where
  "core_request stringify c =
     \<lparr>rq_method = hc_method c, rq_path = call_path c,
      rq_query = List.map_filter (\<lambda>(k, v). map_option (Pair k) (decodeURIComponent v)) (hc_query c),
      rq_authorization = None, rq_body = (case hc_body c of None \<Rightarrow> [] | Some j \<Rightarrow> stringify j)\<rparr>"

text \<open>The core API behind \<open>fetch\<close>: its state and the number of the request, which selects what it draws.\<close>

definition core_fetch :: "environment \<Rightarrow> (nat \<Rightarrow> draws) \<Rightarrow> (json \<Rightarrow> string) \<Rightarrow> (nat \<times> server) fetch" where
  "core_fetch E D stringify c ns =
     (case serve E (D (fst ns)) (core_request stringify c) (snd ns) of
        (response, s1) \<Rightarrow> (Answered (sp_status response) (reply_json (sp_body response)), (Suc (fst ns), s1)))"

section \<open>A served request\<close>

text \<open>The trace of a request leaves the repositories of the shop alone.\<close>

definition shop :: "server \<Rightarrow> item_repo \<times> basket_repo \<times> quote_repo \<times> checkout_repo \<times> order_repo" where
  "shop s = (ap_items s, ap_baskets s, ap_quotes s, ap_checkouts s, ap_orders s)"

lemma serve_answer:
  assumes "dispatch_request E d q s = (Inr (status, body), s1)"
  obtains s2 trace where "serve E d q s = (\<lparr>sp_traceId = trace, sp_status = status, sp_body = body\<rparr>, s2)" "shop s2 = shop s1"
proof -
  have "shop (pt_put observability_port c s1) = shop s1" for c
    by (simp add: shop_def observability_port_def)
  with assms that show thesis
    by (simp add: serve_def catch_failure_def Let_def case_prod_beta)
qed

lemma core_fetch_route:
  assumes "call_route c = Some r" "handle E (D n) (core_request stringify c) r s = (Inr (status, body), s1)"
  obtains s2 where "core_fetch E D stringify c (n, s) = (Answered status (reply_json body), (Suc n, s2))" "shop s2 = shop s1"
proof -
  have "dispatch_request E (D n) (core_request stringify c) s = (Inr (status, body), s1)"
    using assms by (simp add: dispatch_request_def core_request_def call_route_def)
  then show thesis
    by (rule serve_answer) (use that in \<open>simp add: core_fetch_def\<close>)
qed

lemma body_validated:
  assumes "json_codec E stringify" "sendable j" "validate j = Inr x"
  shows "with_body E (core_request stringify (post_json ss j)) validate k = k x"
    and "with_body E (core_request stringify (send_call m ss (Some j))) validate k = k x"
  using assms by (simp_all add: with_body_def parsed_def valid_def core_request_def json_codec_def post_json_def send_call_def)

section \<open>The five requests on the core API\<close>

text \<open>What each request leaves behind.\<close>

definition new_basket :: "draws \<Rightarrow> quickCreateOrderInput \<Rightarrow> basket" where
  "new_basket d q = \<lparr>bk_id = dw_uuid d 0, bk_consumerId = qo_consumerId q, bk_merchantId = qo_merchantId q,
     bk_currency = qo_currency q, bk_items = [], bk_createdAt = dw_now d 0, bk_updatedAt = dw_now d 0\<rparr>"

definition filled_basket :: "draws \<Rightarrow> draws \<Rightarrow> quickCreateOrderInput \<Rightarrow> basket" where
  "filled_basket d d' q =
     (new_basket d q)\<lparr>bk_items := basket_normalizeItems [quick_item (qo_item q)], bk_updatedAt := dw_now d' 0\<rparr>"

definition basket_quote :: "environment \<Rightarrow> draws \<Rightarrow> basket \<Rightarrow> quote" where
  "basket_quote E d b = projr (fst (generateQuote (cf_quoteHash E) (dw_uuid d 0) (dw_now d 0) (bk_id b) None [(bk_id b, b)] []))"

definition quote_checkout :: "environment \<Rightarrow> draws \<Rightarrow> quote \<Rightarrow> checkoutPayload" where
  "quote_checkout E d q = \<lparr>cp_checkoutId = dw_uuid d 0, cp_basketId = qt_basketId q, cp_quoteId = qt_quoteId q,
     cp_quoteHash = qt_quoteHash q, cp_totalCents = qt_totalCents q, cp_currency = qt_currency q,
     cp_expiresAt = host_toISOString (cf_host E) (dw_ms d 0 + 10 * 60 * 1000)\<rparr>"

definition checkout_order :: "draws \<Rightarrow> basket \<Rightarrow> checkoutPayload \<Rightarrow> order" where
  "checkout_order d b c = \<lparr>or_id = dw_uuid d 0, or_checkoutId = cp_checkoutId c, or_quoteHash = cp_quoteHash c,
     or_consumerId = Some (bk_consumerId b), or_merchantId = Some (bk_merchantId b), or_courierId = None, or_status = CREATED,
     or_cancellationReason = None, or_cancelledBy = None, or_createdAt = dw_now d 0, or_updatedAt = dw_now d 0\<rparr>"

lemma quote_of_basket:
  assumes "basket_findById i br = Some b" "bk_id b = i"
  shows "generateQuote (cf_quoteHash E) (dw_uuid d 0) (dw_now d 0) i None br r = (Inr (basket_quote E d b), quote_save (basket_quote E d b) r)"
  using assms by (simp add: generateQuote_def basket_quote_def basket_findById_def map_get_def Let_def)

lemma basket_quote_ids:
  "qt_quoteId (basket_quote E d b) = dw_uuid d 0" "qt_basketId (basket_quote E d b) = bk_id b"
  "qt_subtotalCents (basket_quote E d b) = subtotalFromBasket b"
  by (simp_all add: generateQuote_def basket_quote_def basket_findById_def map_get_def Let_def)

abbreviation "baskets_call \<equiv> post_json [''api'', ''v1'', ''consumer'', ''baskets'']"
abbreviation "basket_call e \<equiv> \<lambda>body. send_call ''PATCH'' [''api'', ''v1'', ''consumer'', ''baskets'', e] (Some body)"
abbreviation "quotes_call \<equiv> post_json [''api'', ''v1'', ''consumer'', ''quotes'']"
abbreviation "checkout_call \<equiv> post_json [''api'', ''v1'', ''consumer'', ''checkout'']"
abbreviation "orders_call \<equiv> post_json [''api'', ''v1'', ''consumer'', ''orders'']"

lemma journey_routes:
  "call_route (baskets_call b) = Some (Ordering Create_basket_route)"
  "call_route (quotes_call b) = Some (Ordering Quote_route)"
  "call_route (checkout_call b) = Some (Ordering Checkout_route)"
  "call_route (orders_call b) = Some (Orders Create_order_route)"
  by (rule call_reaches; simp add: call_shapes)+

lemma basket_call_route:
  assumes "encodeURIComponent i = Some e" "plain_segment i"
  shows "call_route (basket_call e b) = Some (Ordering (Update_basket_route e))"
  by (rule call_reaches) (use encoded_plain [OF assms] in \<open>auto simp: call_shapes\<close>)

lemma create_sendable: "sendable (basket_create_body q)"
  by (simp add: basket_create_body_def)

lemma create_step:
  assumes "json_codec E stringify" "sellable q"
  obtains s1 where "core_fetch E D stringify (baskets_call (basket_create_body q)) (n, s) =
      (Answered 201 (Some (basket_json (new_basket (D n) q))), (Suc n, s1))"
    and "shop s1 = (ap_items s, basket_save (new_basket (D n) q) (ap_baskets s), ap_quotes s, ap_checkouts s, ap_orders s)"
proof (rule core_fetch_route [OF journey_routes(1)])
  let ?b = "new_basket (D n) q"
  show "handle E (D n) (core_request stringify (baskets_call (basket_create_body q))) (Ordering Create_basket_route) s =
      (Inr (201, B_ordering (Basket_body ?b)), s\<lparr>ap_baskets := basket_save ?b (ap_baskets s)\<rparr>)"
    by (simp add: create_basket_route_def body_validated(1) [where validate = validateCreateBasketPayload, OF assms(1) _ quick_bodies(1) [OF assms(2)]] create_sendable perform_def basket_port_def createBasket_def reply_def new_basket_def Let_def)
qed (rule that; simp add: reply_json_def shop_def)

lemma update_step:
  assumes "json_codec E stringify" "sellable q" "encodeURIComponent i = Some e" "plain_segment i"
    and "basket_findById i (ap_baskets s) = Some b"
    and "\<And>a. item_findByItemId (qi_itemId (qo_item q)) (ap_items s) = Some a \<Longrightarrow> ia_available a"
  obtains s1 where "core_fetch E D stringify (basket_call e (basket_update_body (qo_item q))) (n, s) =
      (Answered 200 (Some (basket_json (b\<lparr>bk_items := basket_normalizeItems [quick_item (qo_item q)], bk_updatedAt := dw_now (D n) 0\<rparr>))), (Suc n, s1))"
    and "shop s1 = (ap_items s, basket_save (b\<lparr>bk_items := basket_normalizeItems [quick_item (qo_item q)], bk_updatedAt := dw_now (D n) 0\<rparr>) (ap_baskets s),
      ap_quotes s, ap_checkouts s, ap_orders s)"
proof (rule core_fetch_route [OF basket_call_route [OF assms(3,4)]])
  let ?b = "b\<lparr>bk_items := basket_normalizeItems [quick_item (qo_item q)], bk_updatedAt := dw_now (D n) 0\<rparr>"
  have "unavailable_items nows [quick_item (qo_item q)] (ap_items s) = []" for nows
    using assms(6) by (simp add: unavailable_items_eq quick_item_def split: option.split)
  moreover have "sendable (basket_update_body (qo_item q))"
    using assms(2) by (auto simp: basket_update_body_def sellable_def json_number_def)
  ultimately show "handle E (D n) (core_request stringify (basket_call e (basket_update_body (qo_item q)))) (Ordering (Update_basket_route e)) s =
      (Inr (200, B_ordering (Basket_body ?b)), s\<lparr>ap_baskets := basket_save ?b (ap_baskets s)\<rparr>)"
    using assms(5) decode_encode [OF assms(3)]
    by (simp add: update_basket_route_def body_validated(2) [where validate = validateUpdateBasketPayload, OF assms(1) _ quick_bodies(2) [OF assms(2)]] with_segment_def inspect_def call_def basket_port_def updateBasket_def reply_def Let_def)
qed (rule that; simp add: reply_json_def shop_def)

lemma quote_step:
  assumes "json_codec E stringify" "basket_findById i (ap_baskets s) = Some b" "bk_id b = i"
  obtains s1 where "core_fetch E D stringify (quotes_call (JObj [(''basketId'', JStr i)])) (n, s) =
      (Answered 200 (Some (quote_json (basket_quote E (D n) b))), (Suc n, s1))"
    and "shop s1 = (ap_items s, ap_baskets s, quote_save (basket_quote E (D n) b) (ap_quotes s), ap_checkouts s, ap_orders s)"
proof (rule core_fetch_route [OF journey_routes(2)])
  let ?q = "basket_quote E (D n) b"
  have "validateGenerateQuotePayload (JObj [(''basketId'', JStr i)]) = Inr (i, None)"
    by (simp add: validateGenerateQuotePayload_def with_payload_def jprop_def optional_string_def)
  then show "handle E (D n) (core_request stringify (quotes_call (JObj [(''basketId'', JStr i)]))) (Ordering Quote_route) s =
      (Inr (200, B_ordering (Quote_body ?q)), s\<lparr>ap_quotes := quote_save ?q (ap_quotes s)\<rparr>)"
    using quote_of_basket [OF assms(2,3)]
    by (simp add: quote_route_def body_validated(1) [OF assms(1)] inspect_def call_def quote_port_def reply_def)
qed (rule that; simp add: reply_json_def shop_def)

lemma checkout_step:
  assumes "json_codec E stringify" "quote_findById (qt_quoteId q) (ap_quotes s) = Some q"
  obtains s1 where "core_fetch E D stringify (checkout_call (JObj [(''basketId'', JStr (qt_basketId q)), (''quoteId'', JStr (qt_quoteId q)),
        (''quoteHash'', JStr (qt_quoteHash q))])) (n, s) = (Answered 200 (Some (checkout_json (quote_checkout E (D n) q))), (Suc n, s1))"
    and "shop s1 = (ap_items s, ap_baskets s, ap_quotes s, checkout_save (quote_checkout E (D n) q) (ap_checkouts s), ap_orders s)"
proof (rule core_fetch_route [OF journey_routes(3)])
  let ?c = "quote_checkout E (D n) q"
  let ?j = "JObj [(''basketId'', JStr (qt_basketId q)), (''quoteId'', JStr (qt_quoteId q)), (''quoteHash'', JStr (qt_quoteHash q))]"
  have "validateCheckoutPayload ?j = Inr \<lparr>cin_basketId = qt_basketId q, cin_quoteId = qt_quoteId q, cin_quoteHash = qt_quoteHash q\<rparr>"
    by (simp add: validateCheckoutPayload_def with_payload_def jprop_def)
  then show "handle E (D n) (core_request stringify (checkout_call ?j)) (Ordering Checkout_route) s =
      (Inr (200, B_ordering (Checkout_body ?c)), s\<lparr>ap_checkouts := checkout_save ?c (ap_checkouts s)\<rparr>)"
    using assms(2)
    by (simp add: checkout_route_def body_validated(1) [OF assms(1)] inspect_def call_def checkout_port_def createCheckout_def reply_def quote_checkout_def Let_def)
qed (rule that; simp add: reply_json_def shop_def)

lemma order_step:
  assumes "json_codec E stringify" "checkout_findById (cp_checkoutId c) (ap_checkouts s) = Some c"
    and "basket_findById (cp_basketId c) (ap_baskets s) = Some b"
  obtains s1 where "core_fetch E D stringify (orders_call (JObj [(''checkoutId'', JStr (cp_checkoutId c)), (''quoteHash'', JStr (cp_quoteHash c))])) (n, s) =
      (Answered 201 (Some (order_json (checkout_order (D n) b c))), (Suc n, s1))"
    and "shop s1 = (ap_items s, ap_baskets s, ap_quotes s, ap_checkouts s, order_save (checkout_order (D n) b c) (ap_orders s))"
proof -
  let ?j = "JObj [(''checkoutId'', JStr (cp_checkoutId c)), (''quoteHash'', JStr (cp_quoteHash c))]"
  let ?v = "checkout_order (D n) b c"
  let ?r = "createOrder (dw_now (D n) 0) (dw_uuid (D n) 0) \<lparr>coi_checkoutId = cp_checkoutId c, coi_quoteHash = cp_quoteHash c\<rparr> (pt_get order_port s)"
  have v: "validateCreateOrderPayload ?j = Inr \<lparr>coi_checkoutId = cp_checkoutId c, coi_quoteHash = cp_quoteHash c\<rparr>"
    by (simp add: validateCreateOrderPayload_def with_payload_def jprop_def)
  have r: "fst ?r = Inr ?v" and shop: "shop (pt_put order_port (snd ?r) s) = (ap_items s, ap_baskets s, ap_quotes s, ap_checkouts s, order_save ?v (ap_orders s))"
    using assms(2,3) by (simp_all add: createOrder_def order_port_def checkout_order_def publishEvent_def store_order_def Let_def shop_def nullish_def)
  show thesis
  proof (rule core_fetch_route [OF journey_routes(4)])
    show "handle E (D n) (core_request stringify (orders_call ?j)) (Orders Create_order_route) s =
        (Inr (201, B_order (Order_body ?v None)), pt_put order_port (snd ?r) s)"
      using r by (cases ?r) (simp add: create_order_route_def body_validated(1) [where validate = validateCreateOrderPayload, OF assms(1) _ v] call_def reply_def)
  qed (rule that; simp add: reply_json_def shop)
qed

section \<open>A quick order on the core API\<close>

definition journey_basket :: "(nat \<Rightarrow> draws) \<Rightarrow> nat \<Rightarrow> quickCreateOrderInput \<Rightarrow> basket" where
  "journey_basket D n q = filled_basket (D n) (D (Suc n)) q"

definition journey_quote :: "environment \<Rightarrow> (nat \<Rightarrow> draws) \<Rightarrow> nat \<Rightarrow> quickCreateOrderInput \<Rightarrow> quote" where
  "journey_quote E D n q = basket_quote E (D (Suc (Suc n))) (journey_basket D n q)"

definition journey_checkout :: "environment \<Rightarrow> (nat \<Rightarrow> draws) \<Rightarrow> nat \<Rightarrow> quickCreateOrderInput \<Rightarrow> checkoutPayload" where
  "journey_checkout E D n q = quote_checkout E (D (Suc (Suc (Suc n)))) (journey_quote E D n q)"

definition journey_order :: "environment \<Rightarrow> (nat \<Rightarrow> draws) \<Rightarrow> nat \<Rightarrow> quickCreateOrderInput \<Rightarrow> order" where
  "journey_order E D n q = checkout_order (D (Suc (Suc (Suc (Suc n))))) (journey_basket D n q) (journey_checkout E D n q)"

definition order_placed :: "environment \<Rightarrow> (nat \<Rightarrow> draws) \<Rightarrow> nat \<Rightarrow> quickCreateOrderInput \<Rightarrow> server \<Rightarrow> bool" where
  "order_placed E D n q s \<longleftrightarrow>
     order_findById (or_id (journey_order E D n q)) (ap_orders s) = Some (journey_order E D n q) \<and>
     checkout_findById (or_checkoutId (journey_order E D n q)) (ap_checkouts s) = Some (journey_checkout E D n q) \<and>
     quote_findById (cp_quoteId (journey_checkout E D n q)) (ap_quotes s) = Some (journey_quote E D n q) \<and>
     basket_findById (qt_basketId (journey_quote E D n q)) (ap_baskets s) = Some (journey_basket D n q)"

lemma journey_ids:
  "bk_id (new_basket d q) = dw_uuid d 0" "bk_id (journey_basket D n q) = dw_uuid (D n) 0"
  "qt_basketId (journey_quote E D n q) = dw_uuid (D n) 0" "cp_basketId (journey_checkout E D n q) = dw_uuid (D n) 0"
  "cp_quoteId (journey_checkout E D n q) = qt_quoteId (journey_quote E D n q)"
  "or_checkoutId (journey_order E D n q) = cp_checkoutId (journey_checkout E D n q)"
  by (simp_all add: new_basket_def journey_basket_def filled_basket_def journey_quote_def basket_quote_ids journey_checkout_def
      quote_checkout_def journey_order_def checkout_order_def)

lemma basket_fields: "with_fields (basket_json b) k = k (jprop (case basket_json b of JObj ps \<Rightarrow> ps | _ \<Rightarrow> []))"
    "jprop (case basket_json b of JObj ps \<Rightarrow> ps | _ \<Rightarrow> []) ''id'' = Some (JStr (bk_id b))"
  by (simp_all add: with_fields_def basket_json_def jprop_def)

lemma quote_fields: "with_fields (quote_json q) k = k (jprop (case quote_json q of JObj ps \<Rightarrow> ps | _ \<Rightarrow> []))"
    "jprop (case quote_json q of JObj ps \<Rightarrow> ps | _ \<Rightarrow> []) ''basketId'' = Some (JStr (qt_basketId q))"
    "jprop (case quote_json q of JObj ps \<Rightarrow> ps | _ \<Rightarrow> []) ''quoteId'' = Some (JStr (qt_quoteId q))"
    "jprop (case quote_json q of JObj ps \<Rightarrow> ps | _ \<Rightarrow> []) ''quoteHash'' = Some (JStr (qt_quoteHash q))"
  by (simp_all add: with_fields_def quote_json_def jprop_def)

lemma checkout_fields: "with_fields (checkout_json c) k = k (jprop (case checkout_json c of JObj ps \<Rightarrow> ps | _ \<Rightarrow> []))"
    "jprop (case checkout_json c of JObj ps \<Rightarrow> ps | _ \<Rightarrow> []) ''checkoutId'' = Some (JStr (cp_checkoutId c))"
    "jprop (case checkout_json c of JObj ps \<Rightarrow> ps | _ \<Rightarrow> []) ''quoteHash'' = Some (JStr (cp_quoteHash c))"
  by (simp_all add: with_fields_def checkout_json_def jprop_def)

lemma placed_order_view: "with_fields (order_json v) (\<lambda>get. client_return (consumer_order_view get)) w =
    (Inr \<lparr>cv_id = Some (JStr (or_id v)), cv_status = Some (JStr (orderStatus_name (or_status v))), cv_timelineVersion = Fin 0\<rparr>, w)"
  by (simp add: with_fields_def order_json_def jprop_def client_return_def consumer_order_view_def nullish_def jnumber_def)

lemma journey_status: "orderStatus_name (or_status (journey_order E D n q)) = ''CREATED''"
  by (simp add: journey_order_def checkout_order_def orderStatus_name_def)

lemmas journey_replies = basket_fields quote_fields checkout_fields placed_order_view journey_status

lemma placed_run:
  assumes "json_codec E stringify" "sellable q" "encodeURIComponent (dw_uuid (D n) 0) = Some e" "plain_segment (dw_uuid (D n) 0)"
    and "\<And>a. item_findByItemId (qi_itemId (qo_item q)) (ap_items s) = Some a \<Longrightarrow> ia_available a"
  obtains s' where "quickCreateOrder native (core_fetch E D stringify) q (n, s) =
      (Inr \<lparr>cv_id = Some (JStr (or_id (journey_order E D n q))), cv_status = Some (JStr ''CREATED''), cv_timelineVersion = Fin 0\<rparr>,
       (Suc (Suc (Suc (Suc (Suc n)))), s'))"
    and "order_placed E D n q s'"
proof -
  let ?start = "new_basket (D n) q" and ?b = "journey_basket D n q" and ?q = "journey_quote E D n q" and ?c = "journey_checkout E D n q"
  obtain s1 where c1: "core_fetch E D stringify (baskets_call (basket_create_body q)) (n, s) = (Answered 201 (Some (basket_json ?start)), (Suc n, s1))"
    and s1: "shop s1 = (ap_items s, basket_save ?start (ap_baskets s), ap_quotes s, ap_checkouts s, ap_orders s)"
    using create_step [OF assms(1,2), of D n s] by blast
  have start: "basket_findById (dw_uuid (D n) 0) (ap_baskets s1) = Some ?start"
    using s1 by (simp add: shop_def basket_findById_def basket_save_def journey_ids)
  obtain s2 where c2: "core_fetch E D stringify (basket_call e (basket_update_body (qo_item q))) (Suc n, s1) =
      (Answered 200 (Some (basket_json ?b)), (Suc (Suc n), s2))"
    and s2: "shop s2 = (ap_items s1, basket_save ?b (ap_baskets s1), ap_quotes s1, ap_checkouts s1, ap_orders s1)"
    using update_step [OF assms(1-4) start, of D "Suc n"] s1 assms(5) unfolding journey_basket_def filled_basket_def shop_def by auto
  have b: "basket_findById (dw_uuid (D n) 0) (ap_baskets s2) = Some ?b"
    using s2 by (simp add: shop_def basket_findById_def basket_save_def journey_ids)
  obtain s3 where c3: "core_fetch E D stringify (quotes_call (JObj [(''basketId'', JStr (dw_uuid (D n) 0))])) (Suc (Suc n), s2) =
      (Answered 200 (Some (quote_json ?q)), (Suc (Suc (Suc n)), s3))"
    and s3: "shop s3 = (ap_items s2, ap_baskets s2, quote_save ?q (ap_quotes s2), ap_checkouts s2, ap_orders s2)"
    using quote_step [OF assms(1) b, of D "Suc (Suc n)"] journey_ids(2) unfolding journey_quote_def by blast
  have q: "quote_findById (qt_quoteId ?q) (ap_quotes s3) = Some ?q"
    using s3 by (simp add: shop_def quote_findById_def quote_save_def)
  obtain s4 where c4: "core_fetch E D stringify (checkout_call (JObj [(''basketId'', JStr (qt_basketId ?q)), (''quoteId'', JStr (qt_quoteId ?q)),
        (''quoteHash'', JStr (qt_quoteHash ?q))])) (Suc (Suc (Suc n)), s3) = (Answered 200 (Some (checkout_json ?c)), (Suc (Suc (Suc (Suc n))), s4))"
    and s4: "shop s4 = (ap_items s3, ap_baskets s3, ap_quotes s3, checkout_save ?c (ap_checkouts s3), ap_orders s3)"
    using checkout_step [OF assms(1) q, of D "Suc (Suc (Suc n))"] unfolding journey_checkout_def by blast
  have c: "checkout_findById (cp_checkoutId ?c) (ap_checkouts s4) = Some ?c" and b4: "basket_findById (cp_basketId ?c) (ap_baskets s4) = Some ?b"
    using s4 s3 b by (simp_all add: shop_def checkout_findById_def checkout_save_def journey_ids)
  obtain s5 where c5: "core_fetch E D stringify (orders_call (JObj [(''checkoutId'', JStr (cp_checkoutId ?c)), (''quoteHash'', JStr (cp_quoteHash ?c))]))
      (Suc (Suc (Suc (Suc n))), s4) = (Answered 201 (Some (order_json (journey_order E D n q))), (Suc (Suc (Suc (Suc (Suc n)))), s5))"
    and s5: "shop s5 = (ap_items s4, ap_baskets s4, ap_quotes s4, ap_checkouts s4, order_save (journey_order E D n q) (ap_orders s4))"
    using order_step [OF assms(1) c b4, of D "Suc (Suc (Suc (Suc n)))"] unfolding journey_order_def by blast
  show thesis
  proof (rule that)
    show "order_placed E D n q s5"
      using s5 s4 s3 b q c by (simp add: order_placed_def shop_def order_findById_def order_save_def journey_ids)
    show "quickCreateOrder native (core_fetch E D stringify) q (n, s) =
      (Inr \<lparr>cv_id = Some (JStr (or_id (journey_order E D n q))), cv_status = Some (JStr ''CREATED''), cv_timelineVersion = Fin 0\<rparr>,
       (Suc (Suc (Suc (Suc (Suc n)))), s5))"
      using c1 c2 c3 c4 c5 assms(3)
      by (simp add: quickCreateOrder_def fetch_json_def http_ok_def journey_replies journey_ids text_of_def with_encoded_def json_fields_def
          List.map_filter_def)
  qed
qed

section \<open>A shopper on the consumer service\<close>

definition order_view_json :: "consumerOrderView \<Rightarrow> json" where
  "order_view_json v = json_fields
     [(''id'', cv_id v), (''status'', cv_status v), (''timelineVersion'', Some (json_number (cv_timelineVersion v)))]"

definition consumer_answer :: "bff_error + bff_reply \<Rightarrow> fetch_result" where
  "consumer_answer r = (case r of
     Inr (status, Consumer_order v) \<Rightarrow> Answered status (Some (JObj [(''order'', order_view_json v)]))
   | Inr (status, Error_reply code message) \<Rightarrow> Answered status (Some (JObj [(''errorCode'', JStr code), (''message'', JStr message)]))
   | Inr (status, _) \<Rightarrow> Answered status None
   | Inl _ \<Rightarrow> Answered 500 None)"

text \<open>The consumer service behind \<open>fetch\<close>, for the route of a quick order.\<close>

definition consumer_fetch :: "bff_env \<Rightarrow> 'w fetch \<Rightarrow> bff_draws \<Rightarrow> 'w bff web_fetch" where
  "consumer_fetch V core d authorization c s =
     (if (hc_method c, hc_segments c) \<noteq> consumer_bff_address Consumer_quick_create then (Answered 404 None, s)
      else (case consumer_handle V core d (sent_request authorization c) Consumer_quick_create s of
              (r, s1) \<Rightarrow> (consumer_answer r, s1)))"

lemma quick_create_answered:
  assumes "quick_order_of (Some (quick_order_body w)) = Inr q"
    and "quickCreateOrder (bv_native V) core q (bf_core s) = (Inr v, c)"
  shows "createConsumerQuickOrder (consumer_fetch V core d) w s = (Inr (order_view_json v), s\<lparr>bf_core := c\<rparr>)"
proof -
  have "falsy (Some (order_view_json v)) = False" by (simp add: falsy_def order_view_json_def json_fields_def)
  with assms show ?thesis
    by (simp add: createConsumerQuickOrder_def fetch_json_def consumer_fetch_def post_json_def send_call_def sent_request_def
        consumer_quick_create_def ask_core_def bff_answer_def consumer_answer_def http_ok_def required_field_def with_fields_def jprop_def
        client_return_def)
qed

lemma order_view_id: "optional_prop (Some (order_view_json v)) ''id'' = cv_id v"
  by (cases "cv_id v"; cases "cv_status v")
     (simp_all add: order_view_json_def json_fields_def List.map_filter_def optional_prop_def jprop_def)

text \<open>A shopper's form, from the submit to the redirect.\<close>

lemma form_placed:
  assumes "json_codec E stringify" "is_finite (quick_unit_price (qo_item (sent_order (form_quick_order form))))"
    and "encodeURIComponent (dw_uuid (D n) 0) = Some e" "plain_segment (dw_uuid (D n) 0)"
    and "\<And>a. item_findByItemId ''menu-item-1'' (ap_items s) = Some a \<Longrightarrow> ia_available a"
    and "encodeURIComponent (or_id (journey_order E D n (sent_order (form_quick_order form)))) = Some i"
  obtains s' where "quick_create_form native (consumer_fetch V (core_fetch E D stringify) d) form \<lparr>bf_auth = a, bf_core = (n, s)\<rparr> =
      (Inr [(''orderId'', i)], \<lparr>bf_auth = a, bf_core = (n + 5, s')\<rparr>)"
    and "order_placed E D n (sent_order (form_quick_order form)) s'"
proof -
  let ?q = "sent_order (form_quick_order form)"
  have sell: "sellable ?q"
    using quick_order_sellable [OF form_order_read] assms(2) form_price_nonneg by simp
  have item: "qi_itemId (qo_item ?q) = ''menu-item-1''" by (simp add: sent_order_def form_quick_order_def)
  obtain s' where run: "quickCreateOrder (bv_native V) (core_fetch E D stringify) ?q (n, s) =
      (Inr \<lparr>cv_id = Some (JStr (or_id (journey_order E D n ?q))), cv_status = Some (JStr ''CREATED''), cv_timelineVersion = Fin 0\<rparr>,
       (Suc (Suc (Suc (Suc (Suc n)))), s'))" and placed: "order_placed E D n ?q s'"
    using placed_run [where D = D and n = n and s = s and native = "bv_native V", OF assms(1) sell assms(3,4)] assms(5) unfolding item by blast
  let ?s = "\<lparr>bf_auth = a, bf_core = (n, s)\<rparr>"
  have "createConsumerQuickOrder (consumer_fetch V (core_fetch E D stringify) d) (form_quick_order form) ?s =
      (Inr (order_view_json \<lparr>cv_id = Some (JStr (or_id (journey_order E D n ?q))), cv_status = Some (JStr ''CREATED''), cv_timelineVersion = Fin 0\<rparr>),
       \<lparr>bf_auth = a, bf_core = (Suc (Suc (Suc (Suc (Suc n)))), s')\<rparr>)"
    using quick_create_answered [where s = ?s and V = V, OF form_order_read] run by simp
  then have "quick_create_form native (consumer_fetch V (core_fetch E D stringify) d) form ?s =
      (Inr [(''orderId'', i)], \<lparr>bf_auth = a, bf_core = (n + 5, s')\<rparr>)"
    using assms(6)
    by (simp add: quick_create_form_def attempt_def with_field_text_def order_view_id text_of_def with_encoded_def client_return_def)
  with placed show thesis by (rule that [rotated])
qed

end
